(* ===== verification/Prelude.thy ===== *)
theory Prelude
  imports Main "HOL-Library.Word" "HOL-Library.Sublist" "HOL-Library.Multiset"
    "HOL-Library.Char_ord" "HOL-Library.List_Lexorder"
begin

text \<open>
  Shared vocabulary of the development: the collections of simplification rules, Go's byte
  strings and the functions of package \<^verbatim>\<open>strings\<close>, \<^verbatim>\<open>unicode\<close> and
  \<^verbatim>\<open>unicode/utf8\<close> that the panel calls, 64-bit integers, \<^verbatim>\<open>sort.Slice\<close>,
  and the generic lemmas on lists keyed by an identifier.

  A Go string is a sequence of bytes, and \<open>char\<close> is a byte, so a Go string is a
  \<open>string\<close> of HOL and \<open>length\<close> is Go's \<^verbatim>\<open>len\<close>. Functions that look at
  runes decode UTF-8 first, with U+FFFD of width 1 for an invalid byte, as package
  \<^verbatim>\<open>utf8\<close> does.
\<close>

named_theorems model_defs \<open>definitions of the model that proofs unfold together\<close>
named_theorems go_string \<open>facts on Go's string functions\<close>

section \<open>Runes and strings\<close>

type_synonym rune = nat
type_synonym gtime = int
  \<comment> \<open>an instant of \<^verbatim>\<open>time.Time\<close> in nanoseconds; \<open>UTC()\<close> does not change the instant\<close>
type_synonym duration = int
  \<comment> \<open>\<^verbatim>\<open>time.Duration\<close> in nanoseconds\<close>

definition zero_time :: gtime where
  "zero_time = 0"

definition second :: duration where
  "second = 1000000000"

definition minute :: duration where
  "minute = 60 * second"

definition hour :: duration where
  "hour = 60 * minute"

definition rune_error :: rune where
  "rune_error = 65533"

definition cont_byte :: "nat \<Rightarrow> bool" where
  "cont_byte b \<longleftrightarrow> 128 \<le> b \<and> b \<le> 191"

text \<open>
  The lead bytes of \<^verbatim>\<open>utf8.DecodeRuneInString\<close>: width of the sequence and range of
  its second byte.
\<close>

definition utf8_lead :: "nat \<Rightarrow> (nat \<times> nat \<times> nat) option" where
  "utf8_lead a =
     (if 194 \<le> a \<and> a \<le> 223 then Some (2, 128, 191)
      else if a = 224 then Some (3, 160, 191)
      else if a = 237 then Some (3, 128, 159)
      else if 225 \<le> a \<and> a \<le> 239 then Some (3, 128, 191)
      else if a = 240 then Some (4, 144, 191)
      else if 241 \<le> a \<and> a \<le> 243 then Some (4, 128, 191)
      else if a = 244 then Some (4, 128, 143)
      else None)"

definition utf8_value :: "nat \<Rightarrow> nat list \<Rightarrow> rune" where
  "utf8_value a bs =
     (case bs of
        [b] \<Rightarrow> (a - 192) * 64 + (b - 128)
      | [b, c] \<Rightarrow> (a - 224) * 4096 + (b - 128) * 64 + (c - 128)
      | [b, c, d] \<Rightarrow> (a - 240) * 262144 + (b - 128) * 4096 + (c - 128) * 64 + (d - 128)
      | _ \<Rightarrow> rune_error)"

fun decode_rune :: "nat list \<Rightarrow> rune \<times> nat" where
  "decode_rune [] = (rune_error, 0)"
| "decode_rune (a # bs) =
     (if a < 128 then (a, 1)
      else case utf8_lead a of
          None \<Rightarrow> (rune_error, 1)
        | Some (n, lo, hi) \<Rightarrow>
            (let ts = take (n - 1) bs in
             if length ts = n - 1 \<and> lo \<le> hd ts \<and> hd ts \<le> hi \<and> list_all cont_byte ts
             then (utf8_value a ts, n) else (rune_error, 1)))"

lemma decode_rune_width: "bs \<noteq> [] \<Longrightarrow> 1 \<le> snd (decode_rune bs)"
  by (cases bs) (auto simp: utf8_lead_def Let_def split: option.splits if_splits)

text \<open>A string cut into its runes, each with the bytes it was decoded from.\<close>

function rune_segs :: "string \<Rightarrow> (rune \<times> string) list" where
  "rune_segs [] = []"
| "rune_segs (c # cs) =
     (let (r, n) = decode_rune (map of_char (c # cs))
      in (r, take n (c # cs)) # rune_segs (drop n (c # cs)))"
  by pat_completeness auto
termination
proof (relation "measure length", simp)
  fix c :: char and cs :: string and p r n
  assume p: "p = decode_rune (map of_char (c # cs))" and rn: "(r, n) = p"
  have "1 \<le> snd p"
    unfolding p by (rule decode_rune_width) simp
  then have "1 \<le> n"
    using rn by (metis snd_conv)
  then show "(drop n (c # cs), c # cs) \<in> measure length"
    by simp
qed

declare rune_segs.simps(2) [simp del]

definition runes :: "string \<Rightarrow> rune list" where
  "runes s = map fst (rune_segs s)"

definition ascii :: "char \<Rightarrow> bool" where
  "ascii c \<longleftrightarrow> (of_char c :: nat) < 128"

lemma rune_segs_ascii_Cons [go_string]:
  "ascii c \<Longrightarrow> rune_segs (c # cs) = (of_char c, [c]) # rune_segs cs"
  by (simp add: rune_segs.simps(2) ascii_def)

lemma rune_segs_ascii [go_string]:
  "list_all ascii s \<Longrightarrow> rune_segs s = map (\<lambda>c. (of_char c, [c])) s"
  by (induction s) (auto simp: rune_segs_ascii_Cons)

lemma concat_rune_segs [go_string]: "concat (map snd (rune_segs s)) = s"
proof (induction s rule: rune_segs.induct)
  case 1
  show ?case by simp
next
  case (2 c cs)
  obtain r n where rn: "decode_rune (map of_char (c # cs)) = (r, n)"
    by fastforce
  have "concat (map snd (rune_segs (drop n (c # cs)))) = drop n (c # cs)"
    by (rule "2.IH" [OF refl rn [symmetric]])
  then show ?case
    unfolding rune_segs.simps(2) rn by simp
qed

text \<open>\<^verbatim>\<open>unicode.IsSpace\<close> and \<^verbatim>\<open>unicode.IsControl\<close>.\<close>

definition is_space :: "rune \<Rightarrow> bool" where
  "is_space r \<longleftrightarrow>
     r \<in> {9, 10, 11, 12, 13, 32, 133, 160, 5760, 8232, 8233, 8239, 8287, 12288}
     \<or> (8192 \<le> r \<and> r \<le> 8202)"

definition is_control :: "rune \<Rightarrow> bool" where
  "is_control r \<longleftrightarrow> r < 32 \<or> (127 \<le> r \<and> r < 160)"

text \<open>\<^verbatim>\<open>strings.IndexFunc(s, f) >= 0\<close>.\<close>

definition index_func :: "(rune \<Rightarrow> bool) \<Rightarrow> string \<Rightarrow> bool" where
  "index_func f s = list_ex f (runes s)"

definition trim_right_func :: "(rune \<Rightarrow> bool) \<Rightarrow> (rune \<times> string) list \<Rightarrow> (rune \<times> string) list" where
  "trim_right_func f xs = rev (dropWhile (f \<circ> fst) (rev xs))"

definition trim_space :: "string \<Rightarrow> string" where
  "trim_space s =
     concat (map snd (trim_right_func is_space (dropWhile (is_space \<circ> fst) (rune_segs s))))"

lemma index_func_ascii [go_string]:
  "list_all ascii s \<Longrightarrow> index_func f s = list_ex (f \<circ> of_char) s"
  by (simp add: index_func_def runes_def rune_segs_ascii list_ex_iff)

lemma trim_space_no_space [go_string]:
  assumes "\<not> index_func is_space s"
  shows "trim_space s = s"
proof -
  have ns: "\<forall>x \<in> set (rune_segs s). \<not> is_space (fst x)"
    using assms by (auto simp: index_func_def runes_def list_ex_iff)
  have "dropWhile (is_space \<circ> fst) (rune_segs s) = rune_segs s"
    using ns by (simp add: dropWhile_eq_self_iff)
  moreover have "dropWhile (is_space \<circ> fst) (rev (rune_segs s)) = rev (rune_segs s)"
    using ns by (auto simp: dropWhile_eq_self_iff hd_rev)
  ultimately show ?thesis
    by (simp add: trim_space_def trim_right_func_def concat_rune_segs)
qed

text \<open>\<^verbatim>\<open>utf8.AppendRune\<close> and \<^verbatim>\<open>utf8.ValidString\<close>.\<close>

definition encode_rune :: "rune \<Rightarrow> string" where
  "encode_rune r =
     map char_of
      (if r < 128 then [r]
       else if r < 2048 then [192 + r div 64, 128 + r mod 64]
       else if 1114111 < r \<or> (55296 \<le> r \<and> r < 57344) then [239, 191, 189]
       else if r < 65536 then [224 + r div 4096, 128 + (r div 64) mod 64, 128 + r mod 64]
       else [240 + r div 262144, 128 + (r div 4096) mod 64, 128 + (r div 64) mod 64, 128 + r mod 64])"

definition invalid_seg :: "rune \<times> string \<Rightarrow> bool" where
  "invalid_seg x \<longleftrightarrow> fst x = rune_error \<and> length (snd x) = 1"

definition valid_utf8 :: "string \<Rightarrow> bool" where
  "valid_utf8 s \<longleftrightarrow> list_all (\<lambda>x. \<not> invalid_seg x) (rune_segs s)"

lemma encode_rune_ascii [go_string]: "(of_char c :: nat) < 128 \<Longrightarrow> encode_rune (of_char c) = [c]"
  by (simp add: encode_rune_def)

lemma valid_utf8_ascii [go_string]: "list_all ascii s \<Longrightarrow> valid_utf8 s"
  by (auto simp: valid_utf8_def invalid_seg_def rune_segs_ascii list_all_iff ascii_def rune_error_def)

text \<open>
  A string with U+FFFD in the place of every invalid byte: what \<^verbatim>\<open>encoding/json\<close> writes for it,
  and reads back.
\<close>

definition replace_invalid :: "string \<Rightarrow> string" where
  "replace_invalid s = concat (map (\<lambda>x. if invalid_seg x then encode_rune rune_error else snd x) (rune_segs s))"

lemma replace_invalid_valid [simp]: "valid_utf8 s \<Longrightarrow> replace_invalid s = s"
proof -
  assume "valid_utf8 s"
  then have "map (\<lambda>x. if invalid_seg x then encode_rune rune_error else snd x) (rune_segs s) = map snd (rune_segs s)"
    by (auto simp: valid_utf8_def list_all_iff)
  then show ?thesis by (simp only: replace_invalid_def concat_rune_segs)
qed

text \<open>
  Lower case and case folding, by the tables of Unicode 15 that package \<^verbatim>\<open>unicode\<close> carries. A
  range is its first and last rune, its stride and the distance to the lower case. \<open>case_orbits\<close>
  holds the runes that fold with others than their own lower case, as \<^verbatim>\<open>caseOrbit\<close> does; every
  other rune folds as \<^verbatim>\<open>unicode.ToLower\<close> does, so two runes are in one orbit of
  \<^verbatim>\<open>unicode.SimpleFold\<close> when \<open>rune_fold\<close> maps them to the same rune.
\<close>

definition lower_ranges :: "(rune \<times> rune \<times> nat \<times> int) list" where
  "lower_ranges = [
    (192, 214, 1, 32), (216, 222, 1, 32), (256, 302, 2, 1), (304, 304, 1, - 199), (306, 310, 2, 1),
    (313, 327, 2, 1), (330, 374, 2, 1), (376, 376, 1, - 121), (377, 381, 2, 1), (385, 385, 1, 210),
    (386, 388, 2, 1), (390, 390, 1, 206), (391, 391, 1, 1), (393, 394, 1, 205), (395, 395, 1, 1),
    (398, 398, 1, 79), (399, 399, 1, 202), (400, 400, 1, 203), (401, 401, 1, 1), (403, 403, 1, 205),
    (404, 404, 1, 207), (406, 406, 1, 211), (407, 407, 1, 209), (408, 408, 1, 1), (412, 412, 1, 211),
    (413, 413, 1, 213), (415, 415, 1, 214), (416, 420, 2, 1), (422, 422, 1, 218), (423, 423, 1, 1),
    (425, 425, 1, 218), (428, 428, 1, 1), (430, 430, 1, 218), (431, 431, 1, 1), (433, 434, 1, 217),
    (435, 437, 2, 1), (439, 439, 1, 219), (440, 440, 1, 1), (444, 444, 1, 1), (452, 452, 1, 2),
    (453, 453, 1, 1), (455, 455, 1, 2), (456, 456, 1, 1), (458, 458, 1, 2), (459, 475, 2, 1),
    (478, 494, 2, 1), (497, 497, 1, 2), (498, 500, 2, 1), (502, 502, 1, - 97), (503, 503, 1, - 56),
    (504, 542, 2, 1), (544, 544, 1, - 130), (546, 562, 2, 1), (570, 570, 1, 10795), (571, 571, 1, 1),
    (573, 573, 1, - 163), (574, 574, 1, 10792), (577, 577, 1, 1), (579, 579, 1, - 195), (580, 580, 1, 69),
    (581, 581, 1, 71), (582, 590, 2, 1), (880, 882, 2, 1), (886, 886, 1, 1), (895, 895, 1, 116),
    (902, 902, 1, 38), (904, 906, 1, 37), (908, 908, 1, 64), (910, 911, 1, 63), (913, 929, 1, 32),
    (931, 939, 1, 32), (975, 975, 1, 8), (984, 1006, 2, 1), (1012, 1012, 1, - 60), (1015, 1015, 1, 1),
    (1017, 1017, 1, - 7), (1018, 1018, 1, 1), (1021, 1023, 1, - 130), (1024, 1039, 1, 80),
    (1040, 1071, 1, 32), (1120, 1152, 2, 1), (1162, 1214, 2, 1), (1216, 1216, 1, 15), (1217, 1229, 2, 1),
    (1232, 1326, 2, 1), (1329, 1366, 1, 48), (4256, 4293, 1, 7264), (4295, 4295, 1, 7264),
    (4301, 4301, 1, 7264), (5024, 5103, 1, 38864), (5104, 5109, 1, 8), (7312, 7354, 1, - 3008),
    (7357, 7359, 1, - 3008), (7680, 7828, 2, 1), (7838, 7838, 1, - 7615), (7840, 7934, 2, 1),
    (7944, 7951, 1, - 8), (7960, 7965, 1, - 8), (7976, 7983, 1, - 8), (7992, 7999, 1, - 8),
    (8008, 8013, 1, - 8), (8025, 8031, 2, - 8), (8040, 8047, 1, - 8), (8072, 8079, 1, - 8),
    (8088, 8095, 1, - 8), (8104, 8111, 1, - 8), (8120, 8121, 1, - 8), (8122, 8123, 1, - 74),
    (8124, 8124, 1, - 9), (8136, 8139, 1, - 86), (8140, 8140, 1, - 9), (8152, 8153, 1, - 8),
    (8154, 8155, 1, - 100), (8168, 8169, 1, - 8), (8170, 8171, 1, - 112), (8172, 8172, 1, - 7),
    (8184, 8185, 1, - 128), (8186, 8187, 1, - 126), (8188, 8188, 1, - 9), (8486, 8486, 1, - 7517),
    (8490, 8490, 1, - 8383), (8491, 8491, 1, - 8262), (8498, 8498, 1, 28), (8544, 8559, 1, 16),
    (8579, 8579, 1, 1), (9398, 9423, 1, 26), (11264, 11311, 1, 48), (11360, 11360, 1, 1),
    (11362, 11362, 1, - 10743), (11363, 11363, 1, - 3814), (11364, 11364, 1, - 10727),
    (11367, 11371, 2, 1), (11373, 11373, 1, - 10780), (11374, 11374, 1, - 10749),
    (11375, 11375, 1, - 10783), (11376, 11376, 1, - 10782), (11378, 11378, 1, 1), (11381, 11381, 1, 1),
    (11390, 11391, 1, - 10815), (11392, 11490, 2, 1), (11499, 11501, 2, 1), (11506, 11506, 1, 1),
    (42560, 42604, 2, 1), (42624, 42650, 2, 1), (42786, 42798, 2, 1), (42802, 42862, 2, 1),
    (42873, 42875, 2, 1), (42877, 42877, 1, - 35332), (42878, 42886, 2, 1), (42891, 42891, 1, 1),
    (42893, 42893, 1, - 42280), (42896, 42898, 2, 1), (42902, 42920, 2, 1), (42922, 42922, 1, - 42308),
    (42923, 42923, 1, - 42319), (42924, 42924, 1, - 42315), (42925, 42925, 1, - 42305),
    (42926, 42926, 1, - 42308), (42928, 42928, 1, - 42258), (42929, 42929, 1, - 42282),
    (42930, 42930, 1, - 42261), (42931, 42931, 1, 928), (42932, 42946, 2, 1), (42948, 42948, 1, - 48),
    (42949, 42949, 1, - 42307), (42950, 42950, 1, - 35384), (42951, 42953, 2, 1), (42960, 42960, 1, 1),
    (42966, 42968, 2, 1), (42997, 42997, 1, 1), (65313, 65338, 1, 32), (66560, 66599, 1, 40),
    (66736, 66771, 1, 40), (66928, 66938, 1, 39), (66940, 66954, 1, 39), (66956, 66962, 1, 39),
    (66964, 66965, 1, 39), (68736, 68786, 1, 64), (71840, 71871, 1, 32), (93760, 93791, 1, 32),
    (125184, 125217, 1, 34)]"

definition case_orbits :: "(rune \<times> rune) list" where
  "case_orbits = [
    (181, 956), (304, 304), (383, 115), (837, 953), (962, 963), (976, 946), (977, 952), (981, 966),
    (982, 960), (1008, 954), (1009, 961), (1013, 949), (7296, 1074), (7297, 1076), (7298, 1086),
    (7299, 1089), (7300, 1090), (7301, 1090), (7302, 1098), (7303, 1123), (7304, 42571), (7835, 7777),
    (8126, 953)]"

definition in_range :: "rune \<Rightarrow> rune \<times> rune \<times> nat \<times> int \<Rightarrow> bool" where
  "in_range r rg = (case rg of (lo, hi, stride, _) \<Rightarrow> lo \<le> r \<and> r \<le> hi \<and> (r - lo) mod stride = 0)"

definition rune_lower :: "rune \<Rightarrow> rune" where
  "rune_lower r =
     (if r < 128 then if 65 \<le> r \<and> r \<le> 90 then r + 32 else r
      else case find (in_range r) lower_ranges of
          Some (_, _, _, delta) \<Rightarrow> nat (int r + delta)
        | None \<Rightarrow> r)"

definition rune_fold :: "rune \<Rightarrow> rune" where
  "rune_fold r =
     (if r < 128 then rune_lower r
      else case map_of case_orbits r of Some k \<Rightarrow> k | None \<Rightarrow> rune_lower r)"

text \<open>\<^verbatim>\<open>strings.ToLower\<close>, which writes U+FFFD for an invalid byte, and \<^verbatim>\<open>strings.EqualFold\<close>.\<close>

definition to_lower :: "string \<Rightarrow> string" where
  "to_lower s = concat (map (\<lambda>r. encode_rune (rune_lower r)) (runes s))"

definition fold_key :: "string \<Rightarrow> rune list" where
  "fold_key s = map rune_fold (runes s)"

definition equal_fold :: "string \<Rightarrow> string \<Rightarrow> bool" where
  "equal_fold s t \<longleftrightarrow> fold_key s = fold_key t"

lemma to_lower_ascii [go_string]:
  "list_all ascii s \<Longrightarrow>
     to_lower s = map (\<lambda>c. let b = of_char c :: nat in if 65 \<le> b \<and> b \<le> 90 then char_of (b + 32) else c) s"
  by (induction s)
    (auto simp: to_lower_def runes_def rune_segs_ascii_Cons rune_lower_def encode_rune_def ascii_def Let_def)

text \<open>The tables at work: E with acute accent, sharp s, the Kelvin sign, final sigma and dotted I.\<close>

lemma rune_fold_samples:
  "rune_fold 0xC9 = rune_fold 0xE9" "rune_fold 0x1E9E = rune_fold 0xDF" "rune_fold 0x212A = rune_fold 107"
  "rune_fold 0x3C2 = rune_fold 0x3A3" "rune_fold 0x130 \<noteq> rune_fold 105" "rune_lower 0x130 = 105"
  by (simp_all add: rune_fold_def case_orbits_def rune_lower_def lower_ranges_def in_range_def)

text \<open>The remaining functions of package \<^verbatim>\<open>strings\<close>.\<close>

definition has_prefix :: "string \<Rightarrow> string \<Rightarrow> bool" where
  "has_prefix s p \<longleftrightarrow> take (length p) s = p"

fun contains_str :: "string \<Rightarrow> string \<Rightarrow> bool" where
  "contains_str [] p = (p = [])"
| "contains_str (c # cs) p = (has_prefix (c # cs) p \<or> contains_str cs p)"

definition contains_any :: "string \<Rightarrow> string \<Rightarrow> bool" where
  "contains_any s cs = list_ex (\<lambda>c. c \<in> set cs) s"

definition trim_right_char :: "char \<Rightarrow> string \<Rightarrow> string" where
  "trim_right_char c s = rev (dropWhile (\<lambda>x. x = c) (rev s))"

fun split_char :: "char \<Rightarrow> string \<Rightarrow> string list" where
  "split_char d [] = [[]]"
| "split_char d (c # cs) =
     (if c = d then [] # split_char d cs
      else case split_char d cs of [] \<Rightarrow> [[c]] | w # ws \<Rightarrow> (c # w) # ws)"

definition cut_char :: "char \<Rightarrow> string \<Rightarrow> string \<times> string \<times> bool" where
  "cut_char d s =
     (if d \<in> set s then (takeWhile (\<lambda>c. c \<noteq> d) s, tl (dropWhile (\<lambda>c. c \<noteq> d) s), True)
      else (s, [], False))"

fun join_str :: "string \<Rightarrow> string list \<Rightarrow> string" where
  "join_str sep [] = []"
| "join_str sep [w] = w"
| "join_str sep (w # v # ws) = w @ sep @ join_str sep (v # ws)"

lemma split_char_nonempty [simp]: "split_char d s \<noteq> []"
  by (induction s) (auto split: list.splits)

lemma join_split_char [go_string]: "join_str [d] (split_char d s) = s"
proof (induction s)
  case Nil
  show ?case by simp
next
  case (Cons c s)
  obtain w ws where ws: "split_char d s = w # ws"
    by (meson neq_Nil_conv split_char_nonempty)
  with Cons show ?case
    by (cases ws) auto
qed

lemma split_char_join:
  "ws \<noteq> [] \<Longrightarrow> \<forall>w \<in> set ws. d \<notin> set w \<Longrightarrow> split_char d (join_str [d] ws) = ws"
proof (induction ws rule: induct_list012)
  case (2 w)
  have "d \<notin> set v \<Longrightarrow> split_char d v = [v]" for v by (induction v) auto
  with 2 show ?case by simp
next
  case (3 w w' ws)
  have "d \<notin> set v \<Longrightarrow> split_char d (v @ d # s) = v # split_char d s" for v s by (induction v) auto
  with 3 show ?case by simp
qed simp

lemma split_char_no_sep [go_string]: "w \<in> set (split_char d s) \<Longrightarrow> d \<notin> set w"
  by (induction s arbitrary: w) (auto split: list.splits if_splits)

section \<open>Integers\<close>

text \<open>\<^verbatim>\<open>int\<close> and \<^verbatim>\<open>int64\<close> are two's complement of 64 bits.\<close>

definition wrap64 :: "int \<Rightarrow> int" where
  "wrap64 x = (x + 2 ^ 63) mod 2 ^ 64 - 2 ^ 63"

lemma wrap64_id: "- (2 ^ 63) \<le> x \<Longrightarrow> x < 2 ^ 63 \<Longrightarrow> wrap64 x = x"
  by (simp add: wrap64_def)

lemma wrap64_ge: "- (2 ^ 63) \<le> wrap64 x"
  by (simp add: wrap64_def)

lemma wrap64_le: "- (2 ^ 63) \<le> x \<Longrightarrow> wrap64 x \<le> x"
  using zmod_le_nonneg_dividend [of "x + 2 ^ 63" "2 ^ 64"] by (simp add: wrap64_def)

text \<open>Go's division truncates towards zero.\<close>

definition go_div :: "int \<Rightarrow> int \<Rightarrow> int" where
  "go_div a b = sgn a * sgn b * (\<bar>a\<bar> div \<bar>b\<bar>)"

fun digits_of :: "nat \<Rightarrow> string" where
  "digits_of n =
     (if n < 10 then [char_of (48 + n)] else digits_of (n div 10) @ [char_of (48 + n mod 10)])"

declare digits_of.simps [simp del]

definition itoa :: "int \<Rightarrow> string" where
  "itoa i = (if i < 0 then CHR ''-'' # digits_of (nat (- i)) else digits_of (nat i))"

definition decimal_digit :: "char \<Rightarrow> bool" where
  "decimal_digit c \<longleftrightarrow> 48 \<le> (of_char c :: nat) \<and> of_char c \<le> (57 :: nat)"

definition digits_value :: "string \<Rightarrow> nat" where
  "digits_value ds = foldl (\<lambda>v c. v * 10 + (of_char c - 48)) 0 ds"

lemma digits_of_digits: "list_all decimal_digit (digits_of n) \<and> digits_of n \<noteq> []"
proof (induction n rule: digits_of.induct)
  case (1 n)
  then show ?case
    by (cases "n < 10") (simp_all add: digits_of.simps [of n] decimal_digit_def)
qed

lemma digits_value_append: "digits_value (ds @ [c]) = digits_value ds * 10 + (of_char c - 48)"
  by (simp add: digits_value_def)

lemma digits_value_digits_of: "digits_value (digits_of n) = n"
proof (induction n rule: digits_of.induct)
  case (1 n)
  show ?case
  proof (cases "n < 10")
    case True
    then show ?thesis by (simp add: digits_of.simps [of n] digits_value_def)
  next
    case False
    then show ?thesis using 1 by (simp add: digits_of.simps [of n] digits_value_append)
  qed
qed

lemma digits_of_no_zero: "take 1 (digits_of n) = ''0'' \<Longrightarrow> digits_of n = ''0''"
proof (induction n rule: digits_of.induct)
  case (1 n)
  show ?case
  proof (cases "n < 10")
    case True
    then show ?thesis using 1(2) by (simp add: digits_of.simps [of n])
  next
    case False
    let ?q = "digits_of (n div 10)"
    have eq: "digits_of n = ?q @ [char_of (48 + n mod 10)]" using False by (simp add: digits_of.simps [of n])
    then have "take 1 ?q = ''0''" using 1(2) digits_of_digits [of "n div 10"] by (cases ?q) auto
    then have "digits_value ?q = 0" using 1(1) False by (simp add: digits_value_def)
    with False show ?thesis by (simp add: digits_value_digits_of)
  qed
qed

text \<open>\<^verbatim>\<open>strconv.Atoi\<close> and \<^verbatim>\<open>strconv.ParseBool\<close>.\<close>

definition Atoi :: "string \<Rightarrow> int option" where
  "Atoi s =
     (let (negative, digits) = (case s of
            c # cs \<Rightarrow> if c = CHR ''-'' then (True, cs) else if c = CHR ''+'' then (False, cs) else (False, s)
          | [] \<Rightarrow> (False, []));
          n = (if negative then - int (digits_value digits) else int (digits_value digits))
      in if digits = [] \<or> \<not> list_all decimal_digit digits \<or> n < - (2 ^ 63) \<or> n \<ge> 2 ^ 63 then None else Some n)"

definition ParseBool :: "string \<Rightarrow> bool option" where
  "ParseBool s =
     (if s \<in> {''1'', ''t'', ''T'', ''true'', ''TRUE'', ''True''} then Some True
      else if s \<in> {''0'', ''f'', ''F'', ''false'', ''FALSE'', ''False''} then Some False
      else None)"

section \<open>Results and lists\<close>

text \<open>
  \<^verbatim>\<open>sort.Slice(items, less)\<close>. Go leaves the order of elements that compare equal
  open; this insertion sort keeps them in place, and the theorems only use that the result is a
  sorted permutation.
\<close>

fun insert_by :: "('a \<Rightarrow> 'a \<Rightarrow> bool) \<Rightarrow> 'a \<Rightarrow> 'a list \<Rightarrow> 'a list" where
  "insert_by lt x [] = [x]"
| "insert_by lt x (y # ys) = (if lt y x then y # insert_by lt x ys else x # y # ys)"

fun sort_slice :: "('a \<Rightarrow> 'a \<Rightarrow> bool) \<Rightarrow> 'a list \<Rightarrow> 'a list" where
  "sort_slice lt [] = []"
| "sort_slice lt (x # xs) = insert_by lt x (sort_slice lt xs)"

lemma mset_insert_by [simp]: "mset (insert_by lt x xs) = add_mset x (mset xs)"
  by (induction xs) auto

lemma mset_sort_slice [simp]: "mset (sort_slice lt xs) = mset xs"
  by (induction xs) auto

lemma set_sort_slice [simp]: "set (sort_slice lt xs) = set xs"
  by (metis mset_sort_slice set_mset_mset)

lemma length_sort_slice [simp]: "length (sort_slice lt xs) = length xs"
  by (metis mset_sort_slice size_mset)

lemma sorted_insert_by:
  assumes neg_trans: "\<And>a b c. \<not> lt a b \<Longrightarrow> \<not> lt b c \<Longrightarrow> \<not> lt a c"
    and asym: "\<And>a b. lt a b \<Longrightarrow> \<not> lt b a"
    and "sorted_wrt (\<lambda>a b. \<not> lt b a) xs"
  shows "sorted_wrt (\<lambda>a b. \<not> lt b a) (insert_by lt x xs)"
  using assms(3)
proof (induction xs)
  case Nil
  show ?case by simp
next
  case (Cons y ys)
  have set_ins: "set (insert_by lt x ys) = insert x (set ys)"
    by (metis mset_insert_by set_mset_add_mset_insert set_mset_mset)
  show ?case
  proof (cases "lt y x")
    case True
    then have "\<not> lt x y" by (rule asym)
    with True Cons show ?thesis by (simp add: set_ins)
  next
    case False
    then have "\<forall>z \<in> set ys. \<not> lt z x"
      using Cons.prems neg_trans by fastforce
    with False Cons.prems show ?thesis by simp
  qed
qed

text \<open>
  A \<open>lt\<close> that is a strict weak order sorts every list: no later element comes before an
  earlier one.
\<close>

lemma sorted_sort_slice:
  assumes neg_trans: "\<And>a b c. \<not> lt a b \<Longrightarrow> \<not> lt b c \<Longrightarrow> \<not> lt a c"
    and asym: "\<And>a b. lt a b \<Longrightarrow> \<not> lt b a"
  shows "sorted_wrt (\<lambda>a b. \<not> lt b a) (sort_slice lt xs)"
  by (induction xs) (simp_all add: sorted_insert_by [OF assms])

text \<open>The first element of a list with a given key, the shape of every lookup loop.\<close>

fun find_key :: "('a \<Rightarrow> 'k) \<Rightarrow> 'k \<Rightarrow> 'a list \<Rightarrow> 'a option" where
  "find_key key k [] = None"
| "find_key key k (x # xs) = (if key x = k then Some x else find_key key k xs)"

fun find_index :: "('a \<Rightarrow> 'k) \<Rightarrow> 'k \<Rightarrow> 'a list \<Rightarrow> nat option" where
  "find_index key k [] = None"
| "find_index key k (x # xs) = (if key x = k then Some 0 else map_option Suc (find_index key k xs))"

lemma find_key_map_of: "find_key key k xs = map_of (map (\<lambda>x. (key x, x)) xs) k"
  by (induction xs) auto

lemma find_key_None [simp]: "find_key key k xs = None \<longleftrightarrow> k \<notin> key ` set xs"
  by (induction xs) auto

lemma find_key_Some: "find_key key k xs = Some x \<Longrightarrow> x \<in> set xs \<and> key x = k"
  by (induction xs) (auto split: if_splits)

lemma find_key_append:
  "find_key key k (xs @ ys) = (case find_key key k xs of None \<Rightarrow> find_key key k ys | Some x \<Rightarrow> Some x)"
  by (induction xs) auto

lemma find_key_distinct:
  "distinct (map key xs) \<Longrightarrow> x \<in> set xs \<Longrightarrow> find_key key (key x) xs = Some x"
  by (induction xs) (auto simp: image_iff)

lemma find_index_None [simp]: "find_index key k xs = None \<longleftrightarrow> k \<notin> key ` set xs"
  by (induction xs) auto

lemma find_index_Some:
  "find_index key k xs = Some i \<Longrightarrow> i < length xs \<and> key (xs ! i) = k \<and> find_key key k xs = Some (xs ! i)"
  by (induction xs arbitrary: i) (auto split: if_splits)

lemma find_key_update:
  assumes "find_index key (key x) xs = Some i"
  shows "find_key key k (xs[i := x]) = (if k = key x then Some x else find_key key k xs)"
  using assms
  by (induction xs arbitrary: i) (auto split: if_splits)

lemma map_update_same:
  assumes "i < length xs" and "f x = f (xs ! i)"
  shows "map f (xs[i := x]) = map f xs"
  using assms by (metis list_update_id map_update nth_map)

lemma subseq_distinct_map: "subseq xs ys \<Longrightarrow> distinct (map f ys) \<Longrightarrow> distinct (map f xs)"
proof (induction xs ys rule: list_emb.induct)
  case (list_emb_Cons2 x y xs ys)
  then show ?case
    using list_emb_set by (fastforce simp: image_iff)
qed auto

lemma distinct_map_drop: "distinct (map f xs) \<Longrightarrow> distinct (map f (drop n xs))"
  by (metis distinct_drop drop_map)

lemma subseq_drop: "subseq (drop n xs) xs"
  by (simp add: suffix_drop suffix_imp_subseq)

end
