(* ===== verification/Domain.thy ===== *)
theory Domain
  imports Prelude
begin

text \<open>
  The data model of package \<^verbatim>\<open>internal/domain\<close>: the error values of
  \<^verbatim>\<open>errors.go\<close> and the structs of \<^verbatim>\<open>models.go\<close> that the store, the
  service and the validators work on. A string type with declared constants is a datatype with
  one constructor per constant and one for every other string. A nil error is \<open>None\<close>; the
  value of \<^verbatim>\<open>ctx.Err()\<close> at the moment a function looks at its context stands for the
  context.
\<close>

section \<open>Errors\<close>

datatype go_error =
    ErrNotFound
  | ErrConflict
  | ErrUnauthorized
  | ErrForbidden
  | ErrInvalidState
  | ErrBusy
  | ErrUpstream
  | ErrTimeout
  | ValidationError string string
  | ContextCanceled
  | ContextDeadlineExceeded
  | NewError string
  | Wrapped string go_error
    \<comment> \<open>\<^verbatim>\<open>fmt.Errorf("text: %w", err)\<close>\<close>

type_synonym go_ctx = "go_error option"
type_synonym 'a result = "go_error + 'a"

definition Invalid :: "string \<Rightarrow> string \<Rightarrow> go_error" where
  "Invalid field message = ValidationError field message"

text \<open>\<^verbatim>\<open>errors.Is\<close> follows the chain of wrapped errors.\<close>

fun errors_is :: "go_error \<Rightarrow> go_error \<Rightarrow> bool" where
  "errors_is (Wrapped m e) t = (Wrapped m e = t \<or> errors_is e t)"
| "errors_is e t = (e = t)"

lemma errors_is_refl [simp]: "errors_is e e"
  by (cases e) auto

section \<open>Clusters and repositories\<close>

datatype Environment =
    EnvironmentDevelopment
  | EnvironmentStaging
  | EnvironmentProduction
  | OtherEnvironment string

datatype ClusterStatus =
    ClusterPending
  | ClusterConnected
  | ClusterDegraded
  | ClusterUnreachable
  | ClusterDisabled
  | OtherClusterStatus string

record Cluster =
  cl_ID :: string
  cl_Name :: string
  cl_Environment :: Environment
  cl_Server :: string
  cl_Status :: ClusterStatus
  cl_Version :: string
  cl_LastErrorCode :: string
  cl_CACertCiphertext :: string
  cl_BearerTokenCiphertext :: string
  cl_LastCheckedAt :: gtime
  cl_CreatedAt :: gtime
  cl_UpdatedAt :: gtime

record ClusterInput =
  ci_Name :: string
  ci_Environment :: Environment
  ci_Server :: string
  ci_CACert :: string
  ci_BearerToken :: string

definition MaxClusterBearerTokenBytes :: nat where
  "MaxClusterBearerTokenBytes = 64 * 1024"

definition MaxClusterCACertBytes :: nat where
  "MaxClusterCACertBytes = 256 * 1024"

record ClusterCredentialRotationInput =
  cr_CACert :: string
  cr_BearerToken :: string
  cr_Confirmation :: string

record Repository =
  rp_ID :: string
  rp_Name :: string
  rp_URL :: string
  rp_Enabled :: bool
  rp_UsernameCiphertext :: string
  rp_PasswordCiphertext :: string
  rp_Status :: string
  rp_LastErrorCode :: string
  rp_LastCheckedAt :: gtime
  rp_CreatedAt :: gtime
  rp_UpdatedAt :: gtime

record RepositoryInput =
  ri_Name :: string
  ri_URL :: string
  ri_Username :: string
  ri_Password :: string

section \<open>Operations and audit events\<close>

datatype OperationKind =
    OperationHelmInstall
  | OperationHelmUpgrade
  | OperationHelmRollback
  | OperationHelmUninstall
  | OperationWorkloadScale
  | OperationWorkloadRestart
  | OperationWorkloadImage
  | OtherOperationKind string

fun kind_string :: "OperationKind \<Rightarrow> string" where
  "kind_string OperationHelmInstall = ''helm.install''"
| "kind_string OperationHelmUpgrade = ''helm.upgrade''"
| "kind_string OperationHelmRollback = ''helm.rollback''"
| "kind_string OperationHelmUninstall = ''helm.uninstall''"
| "kind_string OperationWorkloadScale = ''workload.scale''"
| "kind_string OperationWorkloadRestart = ''workload.restart''"
| "kind_string OperationWorkloadImage = ''workload.image_update''"
| "kind_string (OtherOperationKind k) = k"

datatype OperationState =
    OperationQueued
  | OperationRunning
  | OperationSucceeded
  | OperationFailed
  | OperationCanceled
  | OperationUnknown
  | OtherOperationState string

record Operation =
  op_ID :: string
  op_RequestID :: string
  op_Kind :: OperationKind
  op_State :: OperationState
  op_ClusterID :: string
  op_Namespace :: string
  op_Target :: string
  op_SubmittedBy :: string
  op_Summary :: string
  op_ErrorCode :: string
  op_ErrorMessage :: string
  op_CreatedAt :: gtime
  op_StartedAt :: gtime
  op_FinishedAt :: gtime
  op_UpdatedAt :: gtime

record AuditEvent =
  au_ID :: string
  au_RequestID :: string
  au_OperationID :: string
  au_Actor :: string
  au_Action :: string
  au_Result :: string
  au_ClusterID :: string
  au_Namespace :: string
  au_Target :: string
  au_Summary :: string
  au_CreatedAt :: gtime

section \<open>Inputs of operations and reads\<close>

record HelmOperationInput =
  hi_ClusterID :: string
  hi_Namespace :: string
  hi_ReleaseName :: string
  hi_Chart :: string
  hi_RepositoryID :: string
  hi_Version :: string
  hi_Values :: string
  hi_Revision :: int

record WorkloadReference =
  wr_Kind :: string
  wr_Namespace :: string
  wr_Name :: string

record WorkloadOperationInput =
  wi_ClusterID :: string
  wi_Reference :: WorkloadReference
  wi_ResourceVersion :: string
  wi_Replicas :: "int option"
  wi_Confirmation :: string

record WorkloadImageChange =
  wc_Reference :: WorkloadReference
  wc_ResourceVersion :: string
  wc_Container :: string
  wc_CurrentImage :: string
  wc_Image :: string

record WorkloadImageOperationInput =
  wo_ClusterID :: string
  wo_Change :: WorkloadImageChange
  wo_Confirmation :: string

record WorkloadFieldChange =
  fc_Field :: string
  fc_Before :: string
  fc_After :: string

record WorkloadImagePreview =
  ip_Kind :: string
  ip_Namespace :: string
  ip_Name :: string
  ip_Container :: string
  ip_ResourceVersion :: string
  ip_Changes :: "WorkloadFieldChange list"

record ClusterProbe =
  pb_Version :: string
  pb_NamespaceCount :: int
  pb_NodeCount :: int

datatype KubernetesCapabilityState =
    KubernetesCapabilityAllowed
  | KubernetesCapabilityDenied
  | KubernetesCapabilityIndeterminate
  | OtherCapabilityState string

fun capability_state_string :: "KubernetesCapabilityState \<Rightarrow> string" where
  "capability_state_string KubernetesCapabilityAllowed = ''allowed''"
| "capability_state_string KubernetesCapabilityDenied = ''denied''"
| "capability_state_string KubernetesCapabilityIndeterminate = ''indeterminate''"
| "capability_state_string (OtherCapabilityState k) = k"

record KubernetesCapability =
  kc_Key :: string
  kc_State :: KubernetesCapabilityState

record ClusterCapabilities =
  cc_Namespace :: string
  cc_CheckedAt :: gtime
  cc_Checks :: "KubernetesCapability list"

record KubernetesSecret =
  ks_Namespace :: string
  ks_Name :: string
  ks_Type :: string
  ks_DataCount :: int
  ks_CreatedAt :: gtime

datatype KubernetesAdmissionWebhookConfigurationKind =
    AdmissionWebhookConfigurationValidating
  | AdmissionWebhookConfigurationMutating
  | OtherWebhookConfigurationKind string

datatype KubernetesAccessResourceKind =
    AccessResourceServiceAccounts
  | AccessResourceRoles
  | AccessResourceRoleBindings
  | AccessResourceClusterRoles
  | AccessResourceClusterRoleBindings
  | OtherAccessResourceKind string

record KubernetesAccessResourceReference =
  ar_Kind :: KubernetesAccessResourceKind
  ar_Namespace :: string
  ar_Name :: string

record KubernetesServiceAccountReference =
  sa_Namespace :: string
  sa_Name :: string

record KubernetesResourceAttributes =
  ra_Group :: string
  ra_Resource :: string
  ra_Subresource :: string
  ra_Verb :: string
  ra_Namespace :: string
  ra_Name :: string

record KubernetesServiceAccountAccessReviewInput =
  sr_ServiceAccount :: KubernetesServiceAccountReference
  sr_ResourceAttributes :: KubernetesResourceAttributes

record KubernetesServiceAccountAccessReview =
  sv_ServiceAccount :: KubernetesServiceAccountReference
  sv_ResourceAttributes :: KubernetesResourceAttributes
  sv_State :: KubernetesCapabilityState
  sv_CheckedAt :: gtime

definition MaxPodLogTailLines :: int where
  "MaxPodLogTailLines = 2000"

definition MaxWorkloadEventLimit :: int where
  "MaxWorkloadEventLimit = 100"

definition MaxNodeEventLimit :: int where
  "MaxNodeEventLimit = 100"

definition MaxClusterEventLimit :: int where
  "MaxClusterEventLimit = 500"

definition MaxWorkloadReplicas :: int where
  "MaxWorkloadReplicas = 1000"

definition MaxContainerImageBytes :: nat where
  "MaxContainerImageBytes = 1024"

record PodLogRequest =
  pl_Namespace :: string
  pl_Pod :: string
  pl_Container :: string
  pl_TailLines :: int
  pl_Previous :: bool
  pl_Timestamps :: bool

section \<open>Results in sequence\<close>

text \<open>The first error ends it.\<close>

definition rthen :: "'a result \<Rightarrow> ('a \<Rightarrow> 'b result) \<Rightarrow> 'b result" where
  "rthen r k = (case r of Inl e \<Rightarrow> Inl e | Inr x \<Rightarrow> k x)"

definition ensure :: "bool \<Rightarrow> go_error \<Rightarrow> 'b result \<Rightarrow> 'b result" where
  "ensure ok e r = (if ok then r else Inl e)"

lemma rthen_Inr: "rthen r k = Inr y \<longleftrightarrow> (\<exists>x. r = Inr x \<and> k x = Inr y)"
  by (simp add: rthen_def split: sum.split)

lemma ensure_Inr: "ensure b e r = Inr y \<longleftrightarrow> b \<and> r = Inr y"
  by (simp add: ensure_def)

lemma rthenE: "rthen r k = Inr y \<Longrightarrow> (\<And>x. r = Inr x \<Longrightarrow> k x = Inr y \<Longrightarrow> P) \<Longrightarrow> P"
  by (auto simp: rthen_Inr)

lemma ensureE: "ensure b e r = Inr y \<Longrightarrow> (b \<Longrightarrow> r = Inr y \<Longrightarrow> P) \<Longrightarrow> P"
  by (auto simp: ensure_Inr)

end
