(* ===== verification/Store.thy ===== *)
theory Store
  imports Domain
begin

text \<open>
  The single-node file store, \<^verbatim>\<open>internal/store/file.go\<close>. The struct
  \<^verbatim>\<open>File\<close> is the record \<open>File\<close>: the state in memory and the file at its path.
  Every method runs under the store's mutex, so a method is one function from the store to the
  store. What the operating system may do is an argument: \<open>io step\<close> is the error that step
  of \<^verbatim>\<open>persist\<close> meets, \<open>None\<close> where the step succeeds. A text in the file
  is represented by what \<^verbatim>\<open>json.Unmarshal\<close> makes of it: \<open>Json st\<close> is a text that
  decodes to \<open>st\<close>, and a text that does not decode is \<open>NotJson\<close>. The encoder is not the
  identity: \<open>encoded st\<close> is what the text of \<open>st\<close> decodes to, with U+FFFD in the place of
  every byte of a string that is not UTF-8.
\<close>

section \<open>State\<close>

definition schemaVersion :: int where
  "schemaVersion = 1"

definition maxStoredOperations :: nat where
  "maxStoredOperations = 2000"

definition maxStoredAuditEvents :: nat where
  "maxStoredAuditEvents = 5000"

record state =
  SchemaVersion :: int
  Clusters :: "Cluster list"
  Repositories :: "Repository list"
  Operations :: "Operation list"
  AuditEvents :: "AuditEvent list"

datatype disk_file = NoFile | Unreadable go_error | NotJson go_error | Json state

record File =
  path :: string
  data :: state
  disk :: disk_file

section \<open>The JSON text of a state\<close>

text \<open>
  \<^verbatim>\<open>json.MarshalIndent\<close> writes every string of the structs, with an escaped U+FFFD for
  every invalid byte. The functions below apply \<open>f\<close> to the strings of a struct, in the order of its
  fields; numbers, flags and the instants of \<^verbatim>\<open>time.Time\<close> are written and read exactly.
\<close>

fun map_environment :: "(string \<Rightarrow> string) \<Rightarrow> Environment \<Rightarrow> Environment" where
  "map_environment f (OtherEnvironment e) = OtherEnvironment (f e)"
| "map_environment f e = e"

fun map_cluster_status :: "(string \<Rightarrow> string) \<Rightarrow> ClusterStatus \<Rightarrow> ClusterStatus" where
  "map_cluster_status f (OtherClusterStatus e) = OtherClusterStatus (f e)"
| "map_cluster_status f e = e"

fun map_kind :: "(string \<Rightarrow> string) \<Rightarrow> OperationKind \<Rightarrow> OperationKind" where
  "map_kind f (OtherOperationKind e) = OtherOperationKind (f e)"
| "map_kind f e = e"

fun map_operation_state :: "(string \<Rightarrow> string) \<Rightarrow> OperationState \<Rightarrow> OperationState" where
  "map_operation_state f (OtherOperationState e) = OtherOperationState (f e)"
| "map_operation_state f e = e"

definition map_cluster :: "(string \<Rightarrow> string) \<Rightarrow> Cluster \<Rightarrow> Cluster" where
  "map_cluster f c =
     \<lparr>cl_ID = f (cl_ID c), cl_Name = f (cl_Name c), cl_Environment = map_environment f (cl_Environment c),
      cl_Server = f (cl_Server c), cl_Status = map_cluster_status f (cl_Status c),
      cl_Version = f (cl_Version c), cl_LastErrorCode = f (cl_LastErrorCode c),
      cl_CACertCiphertext = f (cl_CACertCiphertext c), cl_BearerTokenCiphertext = f (cl_BearerTokenCiphertext c),
      cl_LastCheckedAt = cl_LastCheckedAt c, cl_CreatedAt = cl_CreatedAt c, cl_UpdatedAt = cl_UpdatedAt c\<rparr>"

definition map_repository :: "(string \<Rightarrow> string) \<Rightarrow> Repository \<Rightarrow> Repository" where
  "map_repository f r =
     \<lparr>rp_ID = f (rp_ID r), rp_Name = f (rp_Name r), rp_URL = f (rp_URL r), rp_Enabled = rp_Enabled r,
      rp_UsernameCiphertext = f (rp_UsernameCiphertext r), rp_PasswordCiphertext = f (rp_PasswordCiphertext r),
      rp_Status = f (rp_Status r), rp_LastErrorCode = f (rp_LastErrorCode r),
      rp_LastCheckedAt = rp_LastCheckedAt r, rp_CreatedAt = rp_CreatedAt r, rp_UpdatedAt = rp_UpdatedAt r\<rparr>"

definition map_operation :: "(string \<Rightarrow> string) \<Rightarrow> Operation \<Rightarrow> Operation" where
  "map_operation f p =
     \<lparr>op_ID = f (op_ID p), op_RequestID = f (op_RequestID p), op_Kind = map_kind f (op_Kind p),
      op_State = map_operation_state f (op_State p), op_ClusterID = f (op_ClusterID p),
      op_Namespace = f (op_Namespace p), op_Target = f (op_Target p), op_SubmittedBy = f (op_SubmittedBy p),
      op_Summary = f (op_Summary p), op_ErrorCode = f (op_ErrorCode p), op_ErrorMessage = f (op_ErrorMessage p),
      op_CreatedAt = op_CreatedAt p, op_StartedAt = op_StartedAt p, op_FinishedAt = op_FinishedAt p,
      op_UpdatedAt = op_UpdatedAt p\<rparr>"

definition map_audit_event :: "(string \<Rightarrow> string) \<Rightarrow> AuditEvent \<Rightarrow> AuditEvent" where
  "map_audit_event f e =
     \<lparr>au_ID = f (au_ID e), au_RequestID = f (au_RequestID e), au_OperationID = f (au_OperationID e),
      au_Actor = f (au_Actor e), au_Action = f (au_Action e), au_Result = f (au_Result e),
      au_ClusterID = f (au_ClusterID e), au_Namespace = f (au_Namespace e), au_Target = f (au_Target e),
      au_Summary = f (au_Summary e), au_CreatedAt = au_CreatedAt e\<rparr>"

definition encoded_operation :: "Operation \<Rightarrow> Operation" where
  "encoded_operation p = map_operation replace_invalid p"

definition encoded :: "state \<Rightarrow> state" where
  "encoded st =
     \<lparr>SchemaVersion = SchemaVersion st, Clusters = map (map_cluster replace_invalid) (Clusters st),
      Repositories = map (map_repository replace_invalid) (Repositories st),
      Operations = map encoded_operation (Operations st),
      AuditEvents = map (map_audit_event replace_invalid) (AuditEvents st)\<rparr>"

text \<open>A struct whose strings are all UTF-8.\<close>

definition utf8_cluster :: "Cluster \<Rightarrow> bool" where
  "utf8_cluster c \<longleftrightarrow>
     list_all valid_utf8 [cl_ID c, cl_Name c, cl_Server c, cl_Version c, cl_LastErrorCode c, cl_CACertCiphertext c,
       cl_BearerTokenCiphertext c]
     \<and> (case cl_Environment c of OtherEnvironment e \<Rightarrow> valid_utf8 e | _ \<Rightarrow> True)
     \<and> (case cl_Status c of OtherClusterStatus e \<Rightarrow> valid_utf8 e | _ \<Rightarrow> True)"

definition utf8_repository :: "Repository \<Rightarrow> bool" where
  "utf8_repository r \<longleftrightarrow>
     list_all valid_utf8 [rp_ID r, rp_Name r, rp_URL r, rp_UsernameCiphertext r, rp_PasswordCiphertext r, rp_Status r,
       rp_LastErrorCode r]"

definition utf8_operation :: "Operation \<Rightarrow> bool" where
  "utf8_operation p \<longleftrightarrow>
     list_all valid_utf8 [op_ID p, op_RequestID p, op_ClusterID p, op_Namespace p, op_Target p, op_SubmittedBy p,
       op_Summary p, op_ErrorCode p, op_ErrorMessage p]
     \<and> (case op_Kind p of OtherOperationKind e \<Rightarrow> valid_utf8 e | _ \<Rightarrow> True)
     \<and> (case op_State p of OtherOperationState e \<Rightarrow> valid_utf8 e | _ \<Rightarrow> True)"

definition utf8_audit_event :: "AuditEvent \<Rightarrow> bool" where
  "utf8_audit_event e \<longleftrightarrow>
     list_all valid_utf8 [au_ID e, au_RequestID e, au_OperationID e, au_Actor e, au_Action e, au_Result e,
       au_ClusterID e, au_Namespace e, au_Target e, au_Summary e]"

definition utf8_state :: "state \<Rightarrow> bool" where
  "utf8_state st \<longleftrightarrow>
     list_all utf8_cluster (Clusters st) \<and> list_all utf8_repository (Repositories st)
     \<and> list_all utf8_operation (Operations st) \<and> list_all utf8_audit_event (AuditEvents st)"

section \<open>Persistence\<close>

datatype persist_step =
    EncodeStore | CreateDirectory | CreateTemporary | ProtectTemporary | WriteTemporary
  | SyncTemporary | CloseTemporary | ReplaceStore | ProtectStore | OpenDirectory | SyncDirectory

type_synonym io_faults = "persist_step \<Rightarrow> go_error option"

fun step_message :: "persist_step \<Rightarrow> string" where
  "step_message EncodeStore = ''encode store''"
| "step_message CreateDirectory = ''create store directory''"
| "step_message CreateTemporary = ''create temporary store''"
| "step_message ProtectTemporary = ''protect temporary store''"
| "step_message WriteTemporary = ''write temporary store''"
| "step_message SyncTemporary = ''sync temporary store''"
| "step_message CloseTemporary = ''close temporary store''"
| "step_message ReplaceStore = ''replace store''"
| "step_message ProtectStore = ''protect store''"
| "step_message OpenDirectory = ''open store directory''"
| "step_message SyncDirectory = ''sync store directory''"

text \<open>The first step of a list that fails, with its wrapped error.\<close>

fun first_fault :: "io_faults \<Rightarrow> persist_step list \<Rightarrow> go_error option" where
  "first_fault io [] = None"
| "first_fault io (p # ps) =
     (case io p of Some e \<Rightarrow> Some (Wrapped (step_message p) e) | None \<Rightarrow> first_fault io ps)"

text \<open>
  \<^verbatim>\<open>persist\<close> writes a temporary file and renames it over the store. The path keeps its
  old contents until the rename and has the new ones from then on, also when a later step fails.
\<close>

definition persist :: "io_faults \<Rightarrow> state \<Rightarrow> disk_file \<Rightarrow> disk_file \<times> go_error option" where
  "persist io nxt old =
     (case first_fault io [EncodeStore, CreateDirectory, CreateTemporary, ProtectTemporary,
          WriteTemporary, SyncTemporary, CloseTemporary, ReplaceStore] of
        Some e \<Rightarrow> (old, Some e)
      | None \<Rightarrow> (Json (encoded nxt), first_fault io [ProtectStore, OpenDirectory, SyncDirectory]))"

definition commit :: "io_faults \<Rightarrow> state \<Rightarrow> File \<Rightarrow> File \<times> go_error option" where
  "commit io nxt s =
     (case persist io nxt (disk s) of
        (d, Some e) \<Rightarrow> (s\<lparr>disk := d\<rparr>, Some e)
      | (d, None) \<Rightarrow> (s\<lparr>disk := d, data := nxt\<rparr>, None))"

definition cloneState :: "state \<Rightarrow> state" where
  "cloneState source =
     \<lparr>SchemaVersion = SchemaVersion source, Clusters = Clusters source,
      Repositories = Repositories source, Operations = Operations source,
      AuditEvents = AuditEvents source\<rparr>"

lemma cloneState_id [simp]: "cloneState s = s"
  by (simp add: cloneState_def)

section \<open>Retention\<close>

definition in_flight :: "Operation \<Rightarrow> bool" where
  "in_flight operation \<longleftrightarrow> op_State operation = OperationQueued \<or> op_State operation = OperationRunning"

fun trim_loop :: "nat \<Rightarrow> Operation list \<Rightarrow> Operation list" where
  "trim_loop overflow [] = []"
| "trim_loop overflow (operation # rest) =
     (if 0 < overflow \<and> \<not> in_flight operation then trim_loop (overflow - 1) rest
      else operation # trim_loop overflow rest)"

definition trimOperationHistory :: "Operation list \<Rightarrow> Operation list" where
  "trimOperationHistory operations =
     (if length operations \<le> maxStoredOperations then operations
      else trim_loop (length operations - maxStoredOperations) operations)"

definition trimAuditHistory :: "AuditEvent list \<Rightarrow> AuditEvent list" where
  "trimAuditHistory events =
     (if length events \<le> maxStoredAuditEvents then events
      else drop (length events - maxStoredAuditEvents) events)"

definition limitSlice :: "'a list \<Rightarrow> int \<Rightarrow> 'a list" where
  "limitSlice items limit =
     (let limit = (if limit \<le> 0 \<or> 100 < limit then 100 else limit) in
      if limit < int (length items) then take (nat limit) items else items)"

section \<open>Opening a store\<close>

text \<open>
  The message stored with an operation that a restart interrupted, in UTF-8.
\<close>

definition restart_message :: string where
  "restart_message = map char_of
     [230, 147, 141, 228, 189, 156, 230, 142, 146, 233, 152, 159, 230, 136, 150, 230, 137, 167, 232,
      161, 140, 230, 156, 159, 233, 151, 180, 230, 156, 141, 229, 138, 161, 229, 143, 145, 231, 148,
      159, 233, 135, 141, 229, 144, 175, 239, 188, 140, 231, 187, 147, 230, 158, 156, 233, 156, 128,
      232, 166, 129, 228, 186, 186, 229, 183, 165, 231, 161, 174, 232, 174, 164 :: nat]"

definition load :: "File \<Rightarrow> File result" where
  "load s =
     (case disk s of
        NoFile \<Rightarrow> Inr s
      | Unreadable e \<Rightarrow> Inl (Wrapped ''read store'' e)
      | NotJson e \<Rightarrow> Inl (Wrapped ''decode store'' e)
      | Json loaded \<Rightarrow>
          (if SchemaVersion loaded \<noteq> schemaVersion
           then Inl (NewError (''unsupported store schema version '' @ itoa (SchemaVersion loaded)))
           else Inr (s\<lparr>data := loaded\<rparr>)))"

definition reconcileHistoryRetention :: "io_faults \<Rightarrow> File \<Rightarrow> File \<times> go_error option" where
  "reconcileHistoryRetention io s =
     (let nxt = cloneState (data s);
          nxt = nxt\<lparr>Operations := trimOperationHistory (Operations nxt)\<rparr>;
          nxt = nxt\<lparr>AuditEvents := trimAuditHistory (AuditEvents nxt)\<rparr>
      in if length (Operations nxt) = length (Operations (data s))
            \<and> length (AuditEvents nxt) = length (AuditEvents (data s))
         then (s, None) else commit io nxt s)"

definition interrupt :: "gtime \<Rightarrow> Operation \<Rightarrow> Operation" where
  "interrupt now operation =
     (if op_State operation \<noteq> OperationRunning \<and> op_State operation \<noteq> OperationQueued
      then operation
      else operation\<lparr>op_State := OperationUnknown, op_ErrorCode := ''process_restarted'',
             op_ErrorMessage := restart_message, op_UpdatedAt := now, op_FinishedAt := now\<rparr>)"

definition reconcileInterruptedOperations :: "io_faults \<Rightarrow> gtime \<Rightarrow> File \<Rightarrow> File \<times> go_error option" where
  "reconcileInterruptedOperations io now s =
     (let nxt = cloneState (data s);
          changed = list_ex in_flight (Operations nxt);
          nxt = nxt\<lparr>Operations := map (interrupt now) (Operations nxt)\<rparr>
      in if \<not> changed then (s, None) else commit io nxt s)"

text \<open>
  \<^verbatim>\<open>Open\<close>: \<open>io1\<close> and \<open>io2\<close> are what the two possible writes meet,
  \<open>d\<close> is the file found at the path.
\<close>

definition Open :: "io_faults \<Rightarrow> io_faults \<Rightarrow> gtime \<Rightarrow> disk_file \<Rightarrow> string \<Rightarrow> File result" where
  "Open io1 io2 now d p =
     (if trim_space p = [] then Inl (NewError ''store path must not be empty'')
      else case load \<lparr>path = p,
                  data = \<lparr>SchemaVersion = schemaVersion, Clusters = [], Repositories = [],
                          Operations = [], AuditEvents = []\<rparr>, disk = d\<rparr> of
          Inl e \<Rightarrow> Inl e
        | Inr s \<Rightarrow>
            (case reconcileHistoryRetention io1 s of
               (_, Some e) \<Rightarrow> Inl e
             | (s, None) \<Rightarrow>
                 (case reconcileInterruptedOperations io2 now s of
                    (_, Some e) \<Rightarrow> Inl e
                  | (s, None) \<Rightarrow> Inr s)))"

section \<open>Clusters\<close>

definition CreateCluster :: "io_faults \<Rightarrow> go_ctx \<Rightarrow> Cluster \<Rightarrow> File \<Rightarrow> File \<times> go_error option" where
  "CreateCluster io ctx cluster s =
     (case ctx of
        Some e \<Rightarrow> (s, Some e)
      | None \<Rightarrow>
          (if list_ex (\<lambda>existing. cl_ID existing = cl_ID cluster
                \<or> equal_fold (cl_Name existing) (cl_Name cluster)) (Clusters (data s))
           then (s, Some ErrConflict)
           else let nxt = cloneState (data s)
                in commit io (nxt\<lparr>Clusters := Clusters nxt @ [cluster]\<rparr>) s))"

definition cluster_before :: "Cluster \<Rightarrow> Cluster \<Rightarrow> bool" where
  "cluster_before a b =
     (if cl_UpdatedAt a = cl_UpdatedAt b then cl_ID a > cl_ID b else cl_UpdatedAt a > cl_UpdatedAt b)"

definition ListClusters :: "go_ctx \<Rightarrow> File \<Rightarrow> Cluster list result" where
  "ListClusters ctx s =
     (case ctx of Some e \<Rightarrow> Inl e
      | None \<Rightarrow> Inr (sort_slice cluster_before (Clusters (data s))))"

definition GetCluster :: "go_ctx \<Rightarrow> string \<Rightarrow> File \<Rightarrow> Cluster result" where
  "GetCluster ctx i s =
     (case ctx of
        Some e \<Rightarrow> Inl e
      | None \<Rightarrow> (case find_key cl_ID i (Clusters (data s)) of
                   Some cluster \<Rightarrow> Inr cluster | None \<Rightarrow> Inl ErrNotFound))"

text \<open>
  The loop of \<^verbatim>\<open>UpdateCluster\<close> and \<^verbatim>\<open>UpdateRepository\<close>: \<open>None\<close>
  is the early return of a conflict, the flag is \<open>found\<close>.
\<close>

fun update_loop :: "('a \<Rightarrow> string) \<Rightarrow> ('a \<Rightarrow> string) \<Rightarrow> 'a \<Rightarrow> 'a list \<Rightarrow> ('a list \<times> bool) option" where
  "update_loop ident label x [] = Some ([], False)"
| "update_loop ident label x (y # ys) =
     (if ident y = ident x
      then map_option (\<lambda>(zs, found). (x # zs, True)) (update_loop ident label x ys)
      else if equal_fold (label y) (label x) then None
      else map_option (\<lambda>(zs, found). (y # zs, found)) (update_loop ident label x ys))"

definition UpdateCluster :: "io_faults \<Rightarrow> go_ctx \<Rightarrow> Cluster \<Rightarrow> File \<Rightarrow> File \<times> go_error option" where
  "UpdateCluster io ctx cluster s =
     (case ctx of
        Some e \<Rightarrow> (s, Some e)
      | None \<Rightarrow>
          (let nxt = cloneState (data s) in
           case update_loop cl_ID cl_Name cluster (Clusters nxt) of
             None \<Rightarrow> (s, Some ErrConflict)
           | Some (clusters, found) \<Rightarrow>
               (if \<not> found then (s, Some ErrNotFound)
                else commit io (nxt\<lparr>Clusters := clusters\<rparr>) s)))"

definition RotateClusterCredentials ::
    "io_faults \<Rightarrow> go_ctx \<Rightarrow> Cluster \<Rightarrow> Cluster \<Rightarrow> AuditEvent \<Rightarrow> File \<Rightarrow> File \<times> go_error option" where
  "RotateClusterCredentials io ctx expected updated audit s =
     (case ctx of
        Some e \<Rightarrow> (s, Some e)
      | None \<Rightarrow>
          (if cl_ID expected = [] \<or> cl_ID updated \<noteq> cl_ID expected
           then (s, Some (NewError ''credential rotation cluster is invalid''))
           else if au_ID audit = [] \<or> au_ClusterID audit \<noteq> cl_ID updated
           then (s, Some (NewError ''credential rotation audit is invalid''))
           else case find_index cl_ID (cl_ID expected) (Clusters (data s)) of
               None \<Rightarrow> (s, Some ErrNotFound)
             | Some index \<Rightarrow>
                 (if Clusters (data s) ! index \<noteq> expected then (s, Some ErrConflict)
                  else if list_ex (\<lambda>existing. au_ID existing = au_ID audit) (AuditEvents (data s))
                  then (s, Some ErrConflict)
                  else let nxt = cloneState (data s);
                           nxt = nxt\<lparr>Clusters := (Clusters nxt)[index := updated]\<rparr>;
                           nxt = nxt\<lparr>AuditEvents := AuditEvents nxt @ [audit]\<rparr>;
                           nxt = nxt\<lparr>AuditEvents := trimAuditHistory (AuditEvents nxt)\<rparr>
                       in commit io nxt s)))"

text \<open>\<^verbatim>\<open>append(xs[:i], xs[i+1:]...)\<close>.\<close>

definition remove_at :: "nat \<Rightarrow> 'a list \<Rightarrow> 'a list" where
  "remove_at i xs = take i xs @ drop (i + 1) xs"

definition DeleteCluster :: "io_faults \<Rightarrow> go_ctx \<Rightarrow> string \<Rightarrow> File \<Rightarrow> File \<times> go_error option" where
  "DeleteCluster io ctx i s =
     (case ctx of
        Some e \<Rightarrow> (s, Some e)
      | None \<Rightarrow>
          (let nxt = cloneState (data s) in
           case find_index cl_ID i (Clusters nxt) of
             None \<Rightarrow> (s, Some ErrNotFound)
           | Some index \<Rightarrow> commit io (nxt\<lparr>Clusters := remove_at index (Clusters nxt)\<rparr>) s))"

section \<open>Repositories\<close>

definition CreateRepository :: "io_faults \<Rightarrow> go_ctx \<Rightarrow> Repository \<Rightarrow> File \<Rightarrow> File \<times> go_error option" where
  "CreateRepository io ctx repository s =
     (case ctx of
        Some e \<Rightarrow> (s, Some e)
      | None \<Rightarrow>
          (if list_ex (\<lambda>existing. rp_ID existing = rp_ID repository
                \<or> equal_fold (rp_Name existing) (rp_Name repository)) (Repositories (data s))
           then (s, Some ErrConflict)
           else let nxt = cloneState (data s)
                in commit io (nxt\<lparr>Repositories := Repositories nxt @ [repository]\<rparr>) s))"

definition repository_before :: "Repository \<Rightarrow> Repository \<Rightarrow> bool" where
  "repository_before a b \<longleftrightarrow> rp_UpdatedAt a > rp_UpdatedAt b"

definition ListRepositories :: "go_ctx \<Rightarrow> File \<Rightarrow> Repository list result" where
  "ListRepositories ctx s =
     (case ctx of Some e \<Rightarrow> Inl e
      | None \<Rightarrow> Inr (sort_slice repository_before (Repositories (data s))))"

definition GetRepository :: "go_ctx \<Rightarrow> string \<Rightarrow> File \<Rightarrow> Repository result" where
  "GetRepository ctx i s =
     (case ctx of
        Some e \<Rightarrow> Inl e
      | None \<Rightarrow> (case find_key rp_ID i (Repositories (data s)) of
                   Some repository \<Rightarrow> Inr repository | None \<Rightarrow> Inl ErrNotFound))"

definition UpdateRepository :: "io_faults \<Rightarrow> go_ctx \<Rightarrow> Repository \<Rightarrow> File \<Rightarrow> File \<times> go_error option" where
  "UpdateRepository io ctx repository s =
     (case ctx of
        Some e \<Rightarrow> (s, Some e)
      | None \<Rightarrow>
          (let nxt = cloneState (data s) in
           case update_loop rp_ID rp_Name repository (Repositories nxt) of
             None \<Rightarrow> (s, Some ErrConflict)
           | Some (repositories, found) \<Rightarrow>
               (if \<not> found then (s, Some ErrNotFound)
                else commit io (nxt\<lparr>Repositories := repositories\<rparr>) s)))"

definition DeleteRepository :: "io_faults \<Rightarrow> go_ctx \<Rightarrow> string \<Rightarrow> File \<Rightarrow> File \<times> go_error option" where
  "DeleteRepository io ctx i s =
     (case ctx of
        Some e \<Rightarrow> (s, Some e)
      | None \<Rightarrow>
          (let nxt = cloneState (data s) in
           case find_index rp_ID i (Repositories nxt) of
             None \<Rightarrow> (s, Some ErrNotFound)
           | Some index \<Rightarrow> commit io (nxt\<lparr>Repositories := remove_at index (Repositories nxt)\<rparr>) s))"

section \<open>Operations\<close>

definition CreateOperation :: "io_faults \<Rightarrow> go_ctx \<Rightarrow> Operation \<Rightarrow> File \<Rightarrow> File \<times> go_error option" where
  "CreateOperation io ctx operation s =
     (case ctx of
        Some e \<Rightarrow> (s, Some e)
      | None \<Rightarrow>
          (if list_ex (\<lambda>existing. op_ID existing = op_ID operation) (Operations (data s))
           then (s, Some ErrConflict)
           else let nxt = cloneState (data s);
                    nxt = nxt\<lparr>Operations := Operations nxt @ [operation]\<rparr>;
                    nxt = nxt\<lparr>Operations := trimOperationHistory (Operations nxt)\<rparr>
                in commit io nxt s))"

definition GetOperation :: "go_ctx \<Rightarrow> string \<Rightarrow> File \<Rightarrow> Operation result" where
  "GetOperation ctx i s =
     (case ctx of
        Some e \<Rightarrow> Inl e
      | None \<Rightarrow> (case find_key op_ID i (Operations (data s)) of
                   Some operation \<Rightarrow> Inr operation | None \<Rightarrow> Inl ErrNotFound))"

definition UpdateOperation :: "io_faults \<Rightarrow> go_ctx \<Rightarrow> Operation \<Rightarrow> File \<Rightarrow> File \<times> go_error option" where
  "UpdateOperation io ctx operation s =
     (case ctx of
        Some e \<Rightarrow> (s, Some e)
      | None \<Rightarrow>
          (let nxt = cloneState (data s) in
           case find_index op_ID (op_ID operation) (Operations nxt) of
             None \<Rightarrow> (s, Some ErrNotFound)
           | Some index \<Rightarrow> commit io (nxt\<lparr>Operations := (Operations nxt)[index := operation]\<rparr>) s))"

definition TransitionOperation ::
    "io_faults \<Rightarrow> go_ctx \<Rightarrow> OperationState \<Rightarrow> Operation \<Rightarrow> AuditEvent option \<Rightarrow> File
       \<Rightarrow> File \<times> go_error option" where
  "TransitionOperation io ctx expected operation audit s =
     (case ctx of
        Some e \<Rightarrow> (s, Some e)
      | None \<Rightarrow>
          (if op_ID operation = [] then (s, Some (NewError ''operation ID is required''))
           else if (case audit of None \<Rightarrow> False
                    | Some a \<Rightarrow> au_ID a = [] \<or> au_OperationID a \<noteq> op_ID operation)
           then (s, Some (NewError ''operation transition audit is invalid''))
           else case find_index op_ID (op_ID operation) (Operations (data s)) of
               None \<Rightarrow> (s, Some ErrNotFound)
             | Some index \<Rightarrow>
                 (if op_State (Operations (data s) ! index) \<noteq> expected
                  then (s, Some ErrInvalidState)
                  else if (case audit of None \<Rightarrow> False
                           | Some a \<Rightarrow> list_ex (\<lambda>existing. au_ID existing = au_ID a) (AuditEvents (data s)))
                  then (s, Some ErrConflict)
                  else let nxt = cloneState (data s);
                           nxt = nxt\<lparr>Operations := (Operations nxt)[index := operation]\<rparr>;
                           nxt = (case audit of None \<Rightarrow> nxt
                                  | Some a \<Rightarrow> nxt\<lparr>AuditEvents := trimAuditHistory (AuditEvents nxt @ [a])\<rparr>)
                       in commit io nxt s)))"

definition operation_before :: "Operation \<Rightarrow> Operation \<Rightarrow> bool" where
  "operation_before a b \<longleftrightarrow> op_UpdatedAt a > op_UpdatedAt b"

definition ListOperations :: "go_ctx \<Rightarrow> int \<Rightarrow> File \<Rightarrow> Operation list result" where
  "ListOperations ctx limit s =
     (case ctx of Some e \<Rightarrow> Inl e
      | None \<Rightarrow> Inr (limitSlice (sort_slice operation_before (Operations (data s))) limit))"

section \<open>Audit events\<close>

definition CreateAuditEvent :: "io_faults \<Rightarrow> go_ctx \<Rightarrow> AuditEvent \<Rightarrow> File \<Rightarrow> File \<times> go_error option" where
  "CreateAuditEvent io ctx event s =
     (case ctx of
        Some e \<Rightarrow> (s, Some e)
      | None \<Rightarrow>
          (if list_ex (\<lambda>existing. au_ID existing = au_ID event) (AuditEvents (data s))
           then (s, Some ErrConflict)
           else let nxt = cloneState (data s);
                    nxt = nxt\<lparr>AuditEvents := AuditEvents nxt @ [event]\<rparr>;
                    nxt = nxt\<lparr>AuditEvents := trimAuditHistory (AuditEvents nxt)\<rparr>
                in commit io nxt s))"

definition event_before :: "AuditEvent \<Rightarrow> AuditEvent \<Rightarrow> bool" where
  "event_before a b \<longleftrightarrow> au_CreatedAt a > au_CreatedAt b"

definition ListAuditEvents :: "go_ctx \<Rightarrow> int \<Rightarrow> File \<Rightarrow> AuditEvent list result" where
  "ListAuditEvents ctx limit s =
     (case ctx of Some e \<Rightarrow> Inl e
      | None \<Rightarrow> Inr (limitSlice (sort_slice event_before (AuditEvents (data s))) limit))"

section \<open>Retention keeps the newest history\<close>

lemma subseq_trim_loop: "subseq (trim_loop n xs) xs"
  by (induction n xs rule: trim_loop.induct) auto

lemma filter_in_flight_trim_loop: "filter in_flight (trim_loop n xs) = filter in_flight xs"
  by (induction n xs rule: trim_loop.induct) auto

lemma filter_finished_trim_loop:
  "filter (\<lambda>x. \<not> in_flight x) (trim_loop n xs) = drop n (filter (\<lambda>x. \<not> in_flight x) xs)"
  by (induction n xs rule: trim_loop.induct) (auto simp: drop_Cons')

lemma length_by_flight:
  "length xs = length (filter in_flight xs) + length (filter (\<lambda>x. \<not> in_flight x) xs)"
  by (induction xs) auto

lemma length_trim_loop:
  "length (trim_loop n xs) = length (filter in_flight xs) + (length (filter (\<lambda>x. \<not> in_flight x) xs) - n)"
  by (subst length_by_flight) (simp add: filter_in_flight_trim_loop filter_finished_trim_loop)

lemma trimOperationHistory_subseq: "subseq (trimOperationHistory xs) xs"
  by (simp add: trimOperationHistory_def subseq_trim_loop)

lemma trimOperationHistory_in_flight [simp]:
  "filter in_flight (trimOperationHistory xs) = filter in_flight xs"
  by (simp add: trimOperationHistory_def filter_in_flight_trim_loop)

lemma trimOperationHistory_short:
  "length xs \<le> maxStoredOperations \<Longrightarrow> trimOperationHistory xs = xs"
  by (simp add: trimOperationHistory_def)

lemma length_trimOperationHistory:
  "length (trimOperationHistory xs)
     = (if length xs \<le> maxStoredOperations then length xs
        else max maxStoredOperations (length (filter in_flight xs)))"
  using length_by_flight [of xs]
  by (auto simp: trimOperationHistory_def length_trim_loop)

lemma trimOperationHistory_same:
  assumes "length (trimOperationHistory xs) = length xs"
  shows "trimOperationHistory xs = xs"
  using assms trimOperationHistory_subseq subseq_same_length by blast

lemma trimAuditHistory_drop: "trimAuditHistory es = drop (length es - maxStoredAuditEvents) es"
  by (simp add: trimAuditHistory_def)

lemma length_trimAuditHistory:
  "length (trimAuditHistory es) = min (length es) maxStoredAuditEvents"
  by (simp add: trimAuditHistory_drop)

lemma trimAuditHistory_distinct: "distinct (map f es) \<Longrightarrow> distinct (map f (trimAuditHistory es))"
  by (simp add: trimAuditHistory_drop distinct_map_drop)

lemma trimAuditHistory_short: "length es \<le> maxStoredAuditEvents \<Longrightarrow> trimAuditHistory es = es"
  by (simp add: trimAuditHistory_def)

lemma trimAuditHistory_same:
  "length (trimAuditHistory es) = length es \<Longrightarrow> trimAuditHistory es = es"
  unfolding trimAuditHistory_def by (auto split: if_splits)

section \<open>Commits\<close>

lemma first_fault_None: "first_fault (\<lambda>_. None) ps = None"
  by (induction ps) auto

lemma commit_ok:
  "commit io nxt s = (s', None) \<Longrightarrow> s' = s\<lparr>disk := Json (encoded nxt), data := nxt\<rparr>"
  by (auto simp: commit_def persist_def split: prod.splits option.splits)

lemma commit_error:
  "commit io nxt s = (s', Some e) \<Longrightarrow> s' = s \<or> s' = s\<lparr>disk := Json (encoded nxt)\<rparr>"
  by (auto simp: commit_def persist_def split: prod.splits option.splits)

lemma commit_data:
  "data (fst (commit io nxt s)) = (if snd (commit io nxt s) = None then nxt else data s)"
  by (auto simp: commit_def split: prod.splits option.splits)

lemma commit_no_fault: "commit (\<lambda>_. None) nxt s = (s\<lparr>disk := Json (encoded nxt), data := nxt\<rparr>, None)"
  by (simp add: commit_def persist_def first_fault_None)

lemma commit_disk:
  "snd (commit io nxt s) = None \<Longrightarrow> disk (fst (commit io nxt s)) = Json (encoded nxt)"
  by (auto simp: commit_def persist_def split: prod.splits option.splits)

section \<open>The registry contract\<close>

lemma update_loop_Some:
  "update_loop ident label x ys = Some (zs, found) \<Longrightarrow>
     zs = map (\<lambda>y. if ident y = ident x then x else y) ys
     \<and> found = (ident x \<in> ident ` set ys)
     \<and> (\<forall>y \<in> set ys. ident y \<noteq> ident x \<longrightarrow> \<not> equal_fold (label y) (label x))"
  by (induction ys arbitrary: zs found) (auto split: if_splits)

lemma update_loop_None:
  "update_loop ident label x ys = None \<longleftrightarrow>
     (\<exists>y \<in> set ys. ident y \<noteq> ident x \<and> equal_fold (label y) (label x))"
  by (induction ys) auto

definition unique_rows :: "('a \<Rightarrow> string) \<Rightarrow> ('a \<Rightarrow> string) \<Rightarrow> 'a list \<Rightarrow> bool" where
  "unique_rows ident label xs \<longleftrightarrow> distinct (map ident xs) \<and> distinct (map (fold_key \<circ> label) xs)"

lemma remove_at_split: "i < length xs \<Longrightarrow> xs = take i xs @ xs ! i # drop (Suc i) xs"
  by (rule id_take_nth_drop)

lemma subseq_remove_at: "subseq (remove_at i xs) xs"
proof -
  have "subseq (take i xs @ drop 1 (drop i xs)) (take i xs @ drop i xs)"
    by (intro list_emb_append_mono subseq_drop) simp
  then show ?thesis by (simp add: remove_at_def)
qed

lemma unique_rows_remove_at: "unique_rows ident label xs \<Longrightarrow> unique_rows ident label (remove_at i xs)"
  unfolding unique_rows_def by (blast intro: subseq_distinct_map subseq_remove_at)

lemma replace_split:
  assumes "distinct (map ident ys)" and "ident x \<in> ident ` set ys"
  obtains as y bs where "ys = as @ y # bs" and "ident y = ident x"
    and "map (\<lambda>y. if ident y = ident x then x else y) ys = as @ x # bs"
proof -
  obtain y where y: "y \<in> set ys" "ident y = ident x"
    using assms(2) by auto
  obtain as bs where ys: "ys = as @ y # bs"
    using split_list [OF y(1)] by auto
  have "ident x \<notin> ident ` (set as \<union> set bs)"
    using assms(1) ys y(2) [symmetric] by (simp add: image_Un)
  then have "\<forall>z \<in> set as \<union> set bs. ident z \<noteq> ident x"
    by (metis imageI)
  then have "map (\<lambda>y. if ident y = ident x then x else y) as = as"
    and "map (\<lambda>y. if ident y = ident x then x else y) bs = bs"
    by (simp_all add: map_idI)
  then have "map (\<lambda>y. if ident y = ident x then x else y) ys = as @ x # bs"
    using ys y(2) by simp
  with ys y(2) show thesis by (rule that)
qed

lemma unique_rows_update:
  assumes "unique_rows ident label ys" and "update_loop ident label x ys = Some (zs, True)"
  shows "unique_rows ident label zs"
proof -
  have d: "distinct (map ident ys)" and l: "distinct (map (fold_key \<circ> label) ys)"
    using assms(1) by (auto simp: unique_rows_def)
  from update_loop_Some [OF assms(2)]
  have zs: "zs = map (\<lambda>y. if ident y = ident x then x else y) ys"
    and x: "ident x \<in> ident ` set ys"
    and other: "\<forall>y \<in> set ys. ident y \<noteq> ident x \<longrightarrow> \<not> equal_fold (label y) (label x)"
    by auto
  obtain as y bs where ys: "ys = as @ y # bs" "ident y = ident x"
    and eq: "map (\<lambda>y. if ident y = ident x then x else y) ys = as @ x # bs"
    by (rule replace_split [OF d x])
  have ids: "ident x \<notin> ident ` (set as \<union> set bs)"
    using d ys by auto
  have "\<not> equal_fold (label z) (label x)" if "z \<in> set as \<union> set bs" for z
  proof -
    have "ident z \<noteq> ident x" using ids that by (metis imageI)
    moreover have "z \<in> set ys" using ys(1) that by auto
    ultimately show ?thesis using other by blast
  qed
  then have "fold_key (label x) \<notin> (fold_key \<circ> label) ` (set as \<union> set bs)"
    unfolding equal_fold_def image_iff comp_def by metis
  then have "distinct (map (fold_key \<circ> label) (as @ x # bs))"
    using l ys(1) by (simp add: image_Un)
  moreover have "distinct (map ident (as @ x # bs))"
    using d ys(1) ids by (simp add: image_Un)
  ultimately show ?thesis
    using zs eq by (simp add: unique_rows_def)
qed

locale registry =
  fixes ident :: "'a \<Rightarrow> string"
    and label :: "'a \<Rightarrow> string"
    and rows :: "state \<Rightarrow> 'a list"
    and create :: "io_faults \<Rightarrow> go_ctx \<Rightarrow> 'a \<Rightarrow> File \<Rightarrow> File \<times> go_error option"
    and get :: "go_ctx \<Rightarrow> string \<Rightarrow> File \<Rightarrow> 'a result"
    and update :: "io_faults \<Rightarrow> go_ctx \<Rightarrow> 'a \<Rightarrow> File \<Rightarrow> File \<times> go_error option"
    and remove :: "io_faults \<Rightarrow> go_ctx \<Rightarrow> string \<Rightarrow> File \<Rightarrow> File \<times> go_error option"
  assumes get_row: "get None i s =
        (case find_key ident i (rows (data s)) of Some x \<Rightarrow> Inr x | None \<Rightarrow> Inl ErrNotFound)"
    and create_ok: "create io ctx x s = (s', None) \<Longrightarrow>
        (\<forall>y \<in> set (rows (data s)). ident y \<noteq> ident x \<and> \<not> equal_fold (label y) (label x))
        \<and> rows (data s') = rows (data s) @ [x]"
    and update_ok: "update io ctx x s = (s', None) \<Longrightarrow>
        update_loop ident label x (rows (data s)) = Some (rows (data s'), True)"
    and remove_ok: "remove io ctx i s = (s', None) \<Longrightarrow>
        (\<exists>k. find_index ident i (rows (data s)) = Some k \<and> rows (data s') = remove_at k (rows (data s)))"
    and create_failed: "create io ctx x s = (s', Some e) \<Longrightarrow> data s' = data s"
    and update_failed: "update io ctx x s = (s', Some e) \<Longrightarrow> data s' = data s"
    and remove_failed: "remove io ctx i s = (s', Some e) \<Longrightarrow> data s' = data s"
begin

lemma create_unique:
  assumes "unique_rows ident label (rows (data s))" and "create io ctx x s = (s', r)"
  shows "unique_rows ident label (rows (data s'))"
proof (cases r)
  case None
  with assms create_ok [of io ctx x s s'] show ?thesis
    by (auto simp: unique_rows_def equal_fold_def)
next
  case (Some e)
  with assms create_failed show ?thesis by metis
qed

lemma update_unique:
  assumes "unique_rows ident label (rows (data s))" and "update io ctx x s = (s', r)"
  shows "unique_rows ident label (rows (data s'))"
proof (cases r)
  case None
  with assms(2) have "update_loop ident label x (rows (data s)) = Some (rows (data s'), True)"
    by (simp add: update_ok)
  with assms(1) show ?thesis by (rule unique_rows_update)
next
  case (Some e)
  with assms update_failed show ?thesis by metis
qed

lemma remove_unique:
  assumes "unique_rows ident label (rows (data s))" and "remove io ctx i s = (s', r)"
  shows "unique_rows ident label (rows (data s'))"
proof (cases r)
  case None
  with assms remove_ok [of io ctx i s s'] show ?thesis
    by (auto simp: unique_rows_remove_at)
next
  case (Some e)
  with assms remove_failed show ?thesis by metis
qed

lemma get_create:
  assumes "create io ctx x s = (s', None)"
  shows "get None i s' = (if i = ident x then Inr x else get None i s)"
  using create_ok [OF assms]
  by (auto simp: get_row find_key_append split: option.splits dest: find_key_Some)

lemma get_update:
  assumes "unique_rows ident label (rows (data s))" and "update io ctx x s = (s', None)"
  shows "get None i s' = (if i = ident x then Inr x else get None i s)"
proof -
  from update_loop_Some [OF update_ok [OF assms(2)]]
  have zs: "rows (data s') = map (\<lambda>y. if ident y = ident x then x else y) (rows (data s))"
    and x: "ident x \<in> ident ` set (rows (data s))"
    by auto
  have "find_key ident i (map (\<lambda>y. if ident y = ident x then x else y) ys)
          = (if i = ident x \<and> ident x \<in> ident ` set ys then Some x else find_key ident i ys)" for ys
    by (induction ys) auto
  with zs x show ?thesis by (simp add: get_row)
qed

lemma get_remove:
  assumes "unique_rows ident label (rows (data s))" and "remove io ctx i s = (s', None)"
  shows "get None j s' = (if j = i then Inl ErrNotFound else get None j s)"
proof -
  obtain k where k: "find_index ident i (rows (data s)) = Some k"
    and r: "rows (data s') = remove_at k (rows (data s))"
    using remove_ok [OF assms(2)] by auto
  let ?xs = "rows (data s)"
  have lt: "k < length ?xs" and ik: "ident (?xs ! k) = i"
    using find_index_Some [OF k] by auto
  have split: "?xs = take k ?xs @ ?xs ! k # drop (Suc k) ?xs"
    using lt by (rule remove_at_split)
  have d: "distinct (map ident (take k ?xs @ ?xs ! k # drop (Suc k) ?xs))"
    using assms(1) split by (simp add: unique_rows_def)
  have "find_key ident j (remove_at k ?xs) = (if j = i then None else find_key ident j ?xs)"
  proof (cases "j = i")
    case True
    have "ident ` set (remove_at k ?xs) = ident ` (set (take k ?xs) \<union> set (drop (Suc k) ?xs))"
      by (simp add: remove_at_def)
    with True d ik show ?thesis by auto
  next
    case False
    have eq: "find_key ident j (as @ x # bs) = find_key ident j (as @ bs)"
      if "ident x \<noteq> j" for as x bs
      using that by (induction as) auto
    have "find_key ident j ?xs = find_key ident j (take k ?xs @ drop (Suc k) ?xs)"
      by (subst split, rule eq) (use False ik in simp)
    with False show ?thesis by (simp add: remove_at_def)
  qed
  with r show ?thesis by (simp add: get_row)
qed

end

lemmas create_defs = CreateCluster_def CreateRepository_def UpdateCluster_def UpdateRepository_def
  DeleteCluster_def DeleteRepository_def

interpretation clusters: registry cl_ID cl_Name Clusters CreateCluster GetCluster UpdateCluster DeleteCluster
  by unfold_locales
     (auto simp: GetCluster_def create_defs Let_def list_ex_iff split: option.splits prod.splits if_splits
        dest!: commit_ok commit_error)

interpretation repositories: registry rp_ID rp_Name Repositories CreateRepository GetRepository
    UpdateRepository DeleteRepository
  by unfold_locales
     (auto simp: GetRepository_def create_defs Let_def list_ex_iff split: option.splits prod.splits if_splits
        dest!: commit_ok commit_error)

section \<open>The store as a whole\<close>

text \<open>
  The calls of the interface \<^verbatim>\<open>Store\<close> of \<^verbatim>\<open>internal/platform/contracts.go\<close>
  that write, as values, and their execution on the file store.
\<close>

datatype store_call =
    CreateClusterCall Cluster
  | UpdateClusterCall Cluster
  | RotateClusterCredentialsCall Cluster Cluster AuditEvent
  | DeleteClusterCall string
  | CreateRepositoryCall Repository
  | UpdateRepositoryCall Repository
  | DeleteRepositoryCall string
  | CreateOperationCall Operation
  | UpdateOperationCall Operation
  | TransitionOperationCall OperationState Operation "AuditEvent option"
  | CreateAuditEventCall AuditEvent

fun store_exec :: "io_faults \<Rightarrow> go_ctx \<Rightarrow> store_call \<Rightarrow> File \<Rightarrow> File \<times> go_error option" where
  "store_exec io ctx (CreateClusterCall c) s = CreateCluster io ctx c s"
| "store_exec io ctx (UpdateClusterCall c) s = UpdateCluster io ctx c s"
| "store_exec io ctx (RotateClusterCredentialsCall a b e) s = RotateClusterCredentials io ctx a b e s"
| "store_exec io ctx (DeleteClusterCall i) s = DeleteCluster io ctx i s"
| "store_exec io ctx (CreateRepositoryCall r) s = CreateRepository io ctx r s"
| "store_exec io ctx (UpdateRepositoryCall r) s = UpdateRepository io ctx r s"
| "store_exec io ctx (DeleteRepositoryCall i) s = DeleteRepository io ctx i s"
| "store_exec io ctx (CreateOperationCall p) s = CreateOperation io ctx p s"
| "store_exec io ctx (UpdateOperationCall p) s = UpdateOperation io ctx p s"
| "store_exec io ctx (TransitionOperationCall st p a) s = TransitionOperation io ctx st p a s"
| "store_exec io ctx (CreateAuditEventCall e) s = CreateAuditEvent io ctx e s"

definition store_wf :: "state \<Rightarrow> bool" where
  "store_wf d \<longleftrightarrow>
     SchemaVersion d = schemaVersion
     \<and> unique_rows cl_ID cl_Name (Clusters d)
     \<and> unique_rows rp_ID rp_Name (Repositories d)
     \<and> distinct (map op_ID (Operations d))
     \<and> distinct (map au_ID (AuditEvents d))
     \<and> length (AuditEvents d) \<le> maxStoredAuditEvents"

text \<open>A rotation may replace a cluster by one of the same name only.\<close>

fun call_keeps_names :: "store_call \<Rightarrow> bool" where
  "call_keeps_names (RotateClusterCredentialsCall expected updated _) =
     (cl_Name updated = cl_Name expected)"
| "call_keeps_names _ = True"

lemma call_failed_data:
  "store_exec io ctx c s = (s', Some e) \<Longrightarrow> data s' = data s"
  by (cases c)
     (auto simp: create_defs RotateClusterCredentials_def CreateOperation_def UpdateOperation_def
        TransitionOperation_def CreateAuditEvent_def Let_def
        split: option.splits prod.splits if_splits dest!: commit_error)

lemma call_ok_commit:
  assumes "store_exec io ctx c s = (s', None)"
  shows "s' = s\<lparr>disk := Json (encoded (data s')), data := data s'\<rparr>"
  using assms
  by (cases c)
     (auto simp: create_defs RotateClusterCredentials_def CreateOperation_def UpdateOperation_def
        TransitionOperation_def CreateAuditEvent_def Let_def
        split: option.splits prod.splits if_splits dest!: commit_ok)

lemma appended_audit_wf:
  assumes "distinct (map au_ID es)" and "\<not> list_ex (\<lambda>x. au_ID x = au_ID a) es"
  shows "distinct (map au_ID (trimAuditHistory (es @ [a])))"
  using assms by (intro trimAuditHistory_distinct) (auto simp: list_ex_iff)

lemma replaced_operation_ids:
  assumes "find_index op_ID (op_ID p) xs = Some i"
  shows "map op_ID (xs[i := p]) = map op_ID xs"
  using find_index_Some [OF assms] by (simp add: map_update_same)

lemma rotated_rows:
  assumes "find_index cl_ID (cl_ID a) xs = Some i" and "xs ! i = a"
    and "cl_ID b = cl_ID a" and "cl_Name b = cl_Name a"
  shows "unique_rows cl_ID cl_Name (xs[i := b]) = unique_rows cl_ID cl_Name xs"
proof -
  have "i < length xs" using find_index_Some [OF assms(1)] by simp
  then have "map cl_ID (xs[i := b]) = map cl_ID xs"
    and "map (fold_key \<circ> cl_Name) (xs[i := b]) = map (fold_key \<circ> cl_Name) xs"
    using assms(2-4) by (simp_all add: map_update_same)
  then show ?thesis by (simp add: unique_rows_def)
qed

lemma cluster_call_frame:
  assumes "c = CreateClusterCall x \<or> c = UpdateClusterCall x \<or> c = DeleteClusterCall i"
    and "store_exec io ctx c s = (s', None)"
  shows "data s' = (data s)\<lparr>Clusters := Clusters (data s')\<rparr>"
  using assms
  by (auto simp: create_defs Let_def split: option.splits prod.splits if_splits dest!: commit_ok)

lemma repository_call_frame:
  assumes "c = CreateRepositoryCall x \<or> c = UpdateRepositoryCall x \<or> c = DeleteRepositoryCall i"
    and "store_exec io ctx c s = (s', None)"
  shows "data s' = (data s)\<lparr>Repositories := Repositories (data s')\<rparr>"
  using assms
  by (auto simp: create_defs Let_def split: option.splits prod.splits if_splits dest!: commit_ok)

lemma store_wf_clusters:
  "store_wf d \<Longrightarrow> unique_rows cl_ID cl_Name cs \<Longrightarrow> store_wf (d\<lparr>Clusters := cs\<rparr>)"
  by (simp add: store_wf_def)

lemma store_wf_repositories:
  "store_wf d \<Longrightarrow> unique_rows rp_ID rp_Name rs \<Longrightarrow> store_wf (d\<lparr>Repositories := rs\<rparr>)"
  by (simp add: store_wf_def)

lemma CreateOperation_ok:
  "CreateOperation io ctx p s = (s', None) \<Longrightarrow>
     op_ID p \<notin> op_ID ` set (Operations (data s))
     \<and> data s' = (data s)\<lparr>Operations := trimOperationHistory (Operations (data s) @ [p])\<rparr>"
  by (auto simp: CreateOperation_def Let_def list_ex_iff split: option.splits if_splits dest!: commit_ok)

lemma UpdateOperation_ok:
  "UpdateOperation io ctx p s = (s', None) \<Longrightarrow>
     \<exists>i. find_index op_ID (op_ID p) (Operations (data s)) = Some i
       \<and> data s' = (data s)\<lparr>Operations := (Operations (data s))[i := p]\<rparr>"
  by (auto simp: UpdateOperation_def Let_def split: option.splits dest!: commit_ok)

lemma TransitionOperation_ok:
  "TransitionOperation io ctx st p a s = (s', None) \<Longrightarrow>
     \<exists>i. find_index op_ID (op_ID p) (Operations (data s)) = Some i
       \<and> op_State (Operations (data s) ! i) = st
       \<and> (case a of None \<Rightarrow> data s' = (data s)\<lparr>Operations := (Operations (data s))[i := p]\<rparr>
          | Some e \<Rightarrow> \<not> list_ex (\<lambda>x. au_ID x = au_ID e) (AuditEvents (data s))
              \<and> data s' = (data s)\<lparr>Operations := (Operations (data s))[i := p],
                   AuditEvents := trimAuditHistory (AuditEvents (data s) @ [e])\<rparr>)"
  by (auto simp: TransitionOperation_def Let_def split: option.splits if_splits dest!: commit_ok)

lemma CreateAuditEvent_ok:
  "CreateAuditEvent io ctx e s = (s', None) \<Longrightarrow>
     \<not> list_ex (\<lambda>x. au_ID x = au_ID e) (AuditEvents (data s))
     \<and> data s' = (data s)\<lparr>AuditEvents := trimAuditHistory (AuditEvents (data s) @ [e])\<rparr>"
  by (auto simp: CreateAuditEvent_def Let_def split: option.splits if_splits dest!: commit_ok)

lemma RotateClusterCredentials_ok:
  "RotateClusterCredentials io ctx a b e s = (s', None) \<Longrightarrow>
     \<exists>i. find_index cl_ID (cl_ID a) (Clusters (data s)) = Some i
       \<and> Clusters (data s) ! i = a \<and> cl_ID b = cl_ID a
       \<and> \<not> list_ex (\<lambda>x. au_ID x = au_ID e) (AuditEvents (data s))
       \<and> data s' = (data s)\<lparr>Clusters := (Clusters (data s))[i := b],
            AuditEvents := trimAuditHistory (AuditEvents (data s) @ [e])\<rparr>"
  by (auto simp: RotateClusterCredentials_def Let_def split: option.splits if_splits dest!: commit_ok)

lemma cluster_calls_wf:
  assumes "store_wf (data s)" and "store_exec io ctx c s = (s', None)"
    and "c = CreateClusterCall x \<or> c = UpdateClusterCall x \<or> c = DeleteClusterCall i"
  shows "store_wf (data s')"
proof -
  have "unique_rows cl_ID cl_Name (Clusters (data s))"
    using assms(1) by (simp add: store_wf_def)
  then have "unique_rows cl_ID cl_Name (Clusters (data s'))"
    using assms(2,3) by (auto intro: clusters.create_unique clusters.update_unique clusters.remove_unique)
  then show ?thesis
    using store_wf_clusters [OF assms(1)] cluster_call_frame [OF assms(3,2)] by metis
qed

lemma repository_calls_wf:
  assumes "store_wf (data s)" and "store_exec io ctx c s = (s', None)"
    and "c = CreateRepositoryCall x \<or> c = UpdateRepositoryCall x \<or> c = DeleteRepositoryCall i"
  shows "store_wf (data s')"
proof -
  have "unique_rows rp_ID rp_Name (Repositories (data s))"
    using assms(1) by (simp add: store_wf_def)
  then have "unique_rows rp_ID rp_Name (Repositories (data s'))"
    using assms(2,3)
    by (auto intro: repositories.create_unique repositories.update_unique repositories.remove_unique)
  then show ?thesis
    using store_wf_repositories [OF assms(1)] repository_call_frame [OF assms(3,2)] by metis
qed

lemma call_ok_wf:
  assumes wf: "store_wf (data s)" and names: "call_keeps_names c"
    and ok: "store_exec io ctx c s = (s', None)"
  shows "store_wf (data s')"
proof (cases c)
  case (RotateClusterCredentialsCall a b e)
  with ok names wf show ?thesis
    by (auto simp: store_wf_def rotated_rows appended_audit_wf length_trimAuditHistory dest!: RotateClusterCredentials_ok)
next
  case (CreateOperationCall p)
  with ok wf show ?thesis
    by (auto simp: store_wf_def dest!: CreateOperation_ok
        intro!: subseq_distinct_map [OF trimOperationHistory_subseq])
next
  case (UpdateOperationCall p)
  with ok wf show ?thesis
    by (auto simp: store_wf_def replaced_operation_ids simp del: map_update dest!: UpdateOperation_ok)
next
  case (TransitionOperationCall st p a)
  with ok wf show ?thesis
    by (auto simp: store_wf_def replaced_operation_ids appended_audit_wf length_trimAuditHistory
        simp del: map_update split: option.splits dest!: TransitionOperation_ok)
next
  case (CreateAuditEventCall e)
  with ok wf show ?thesis
    by (auto simp: store_wf_def appended_audit_wf length_trimAuditHistory dest!: CreateAuditEvent_ok)
qed (use cluster_calls_wf [OF wf ok] repository_calls_wf [OF wf ok] in auto)

lemma store_exec_wf:
  assumes "store_wf (data s)" and "call_keeps_names c"
  shows "store_wf (data (fst (store_exec io ctx c s)))"
proof -
  obtain s' r where eq: "store_exec io ctx c s = (s', r)"
    by fastforce
  show ?thesis
  proof (cases r)
    case None
    with eq assms show ?thesis by (simp add: call_ok_wf)
  next
    case (Some e)
    with eq have "data s' = data s" by (simp add: call_failed_data)
    with eq assms(1) show ?thesis by simp
  qed
qed

section \<open>Reading, transitions and recovery\<close>

lemma GetOperation_find: "GetOperation None i s = Inr p \<longleftrightarrow> find_key op_ID i (Operations (data s)) = Some p"
  by (simp add: GetOperation_def del: find_key_None split: option.split)

lemma TransitionOperation_get:
  assumes "TransitionOperation io ctx st p a s = (s', None)"
  shows "\<exists>old. GetOperation None (op_ID p) s = Inr old \<and> op_State old = st"
    and "GetOperation None i s' = (if i = op_ID p then Inr p else GetOperation None i s)"
proof -
  obtain k where k: "find_index op_ID (op_ID p) (Operations (data s)) = Some k"
    and st: "op_State (Operations (data s) ! k) = st"
    and ops: "Operations (data s') = (Operations (data s))[k := p]"
    using TransitionOperation_ok [OF assms] by (auto split: option.splits)
  show "\<exists>old. GetOperation None (op_ID p) s = Inr old \<and> op_State old = st"
    using find_index_Some [OF k] st by (auto simp: GetOperation_find)
  show "GetOperation None i s' = (if i = op_ID p then Inr p else GetOperation None i s)"
    by (simp add: GetOperation_def ops find_key_update [OF k])
qed

lemma TransitionOperation_wrong_state:
  assumes "GetOperation None (op_ID p) s = Inr old" and "op_State old \<noteq> st"
  shows "\<exists>e. TransitionOperation io ctx st p a s = (s, Some e)"
proof -
  have f: "find_key op_ID (op_ID p) (Operations (data s)) = Some old"
    using assms(1) by (simp add: GetOperation_find)
  then obtain k where k: "find_index op_ID (op_ID p) (Operations (data s)) = Some k"
    by (metis find_index_None find_key_None not_Some_eq)
  then have "Operations (data s) ! k = old"
    using find_index_Some [OF k] f by simp
  with k assms(2) show ?thesis
    by (auto simp: TransitionOperation_def split: option.splits)
qed

lemma interrupt_not_in_flight [simp]: "\<not> in_flight (interrupt now p)"
  by (auto simp: interrupt_def in_flight_def)

lemma interrupt_finished: "\<not> in_flight p \<Longrightarrow> interrupt now p = p"
  by (auto simp: interrupt_def in_flight_def)

lemma map_interrupt_id: "\<not> list_ex in_flight xs \<Longrightarrow> map (interrupt now) xs = xs"
  by (simp add: list_ex_iff map_idI interrupt_finished)

lemma reconcileHistoryRetention_data:
  assumes "reconcileHistoryRetention io s = (s', None)"
  shows "data s' = (data s)\<lparr>Operations := trimOperationHistory (Operations (data s)),
                           AuditEvents := trimAuditHistory (AuditEvents (data s))\<rparr>"
proof (cases "length (trimOperationHistory (Operations (data s))) = length (Operations (data s))
              \<and> length (trimAuditHistory (AuditEvents (data s))) = length (AuditEvents (data s))")
  case True
  with assms show ?thesis
    by (simp add: reconcileHistoryRetention_def trimOperationHistory_same trimAuditHistory_same)
next
  case False
  with assms show ?thesis
    by (auto simp: reconcileHistoryRetention_def Let_def dest!: commit_ok split: if_splits)
qed

lemma reconcileInterruptedOperations_data:
  assumes "reconcileInterruptedOperations io now s = (s', None)"
  shows "data s' = (data s)\<lparr>Operations := map (interrupt now) (Operations (data s))\<rparr>"
  using assms
  by (auto simp: reconcileInterruptedOperations_def Let_def map_interrupt_id
      dest!: commit_ok split: if_splits)

lemma Open_cases:
  assumes "Open io1 io2 now d p = Inr s"
  obtains s0 s1 where "load \<lparr>path = p, data = \<lparr>SchemaVersion = schemaVersion, Clusters = [],
        Repositories = [], Operations = [], AuditEvents = []\<rparr>, disk = d\<rparr> = Inr s0"
    and "reconcileHistoryRetention io1 s0 = (s1, None)"
    and "reconcileInterruptedOperations io2 now s1 = (s, None)"
  using assms unfolding Open_def
  by (auto split: if_splits sum.splits prod.splits option.splits)

lemma Open_data:
  assumes "Open io1 io2 now d p = Inr s"
  shows "(case d of Json loaded \<Rightarrow>
            data s = loaded\<lparr>Operations := map (interrupt now) (trimOperationHistory (Operations loaded)),
                            AuditEvents := trimAuditHistory (AuditEvents loaded)\<rparr>
          | _ \<Rightarrow> data s = \<lparr>SchemaVersion = schemaVersion, Clusters = [], Repositories = [],
                           Operations = [], AuditEvents = []\<rparr>)"
proof -
  obtain s0 s1 where load: "load \<lparr>path = p, data = \<lparr>SchemaVersion = schemaVersion, Clusters = [],
        Repositories = [], Operations = [], AuditEvents = []\<rparr>, disk = d\<rparr> = Inr s0"
    and s1: "reconcileHistoryRetention io1 s0 = (s1, None)"
    and s: "reconcileInterruptedOperations io2 now s1 = (s, None)"
    by (rule Open_cases [OF assms])
  have "data s = (data s0)\<lparr>Operations := map (interrupt now) (trimOperationHistory (Operations (data s0))),
                           AuditEvents := trimAuditHistory (AuditEvents (data s0))\<rparr>"
    by (simp add: reconcileInterruptedOperations_data [OF s] reconcileHistoryRetention_data [OF s1])
  then show ?thesis
    using load
    by (auto simp: load_def trimOperationHistory_def trimAuditHistory_def
        split: disk_file.splits if_splits)
qed

lemma encoded_cluster_utf8: "utf8_cluster c \<Longrightarrow> map_cluster replace_invalid c = c"
  by (cases "cl_Environment c"; cases "cl_Status c") (simp_all add: utf8_cluster_def map_cluster_def)

lemma encoded_repository_utf8: "utf8_repository r \<Longrightarrow> map_repository replace_invalid r = r"
  by (simp add: utf8_repository_def map_repository_def)

lemma encoded_operation_utf8: "utf8_operation p \<Longrightarrow> encoded_operation p = p"
  by (cases "op_Kind p"; cases "op_State p") (simp_all add: utf8_operation_def encoded_operation_def map_operation_def)

lemma encoded_audit_event_utf8: "utf8_audit_event e \<Longrightarrow> map_audit_event replace_invalid e = e"
  by (simp add: utf8_audit_event_def map_audit_event_def)

lemma encoded_utf8: "utf8_state st \<Longrightarrow> encoded st = st"
  by (simp add: utf8_state_def encoded_def list_all_iff encoded_cluster_utf8 encoded_repository_utf8
      encoded_operation_utf8 encoded_audit_event_utf8 map_idI)

lemma in_flight_encoded [simp]: "in_flight (encoded_operation p) = in_flight p"
  by (cases "op_State p") (simp_all add: in_flight_def encoded_operation_def map_operation_def)

lemma trim_encoded:
  "trimOperationHistory (map encoded_operation xs) = map encoded_operation (trimOperationHistory xs)"
proof -
  have "trim_loop n (map encoded_operation xs) = map encoded_operation (trim_loop n xs)" for n
    by (induction n xs rule: trim_loop.induct) simp_all
  then show ?thesis by (simp add: trimOperationHistory_def)
qed

lemma encoded_select [simp]:
  "SchemaVersion (encoded st) = SchemaVersion st" "Operations (encoded st) = map encoded_operation (Operations st)"
  "length (AuditEvents (encoded st)) = length (AuditEvents st)"
  by (simp_all add: encoded_def)

lemma Open_succeeds:
  assumes "trim_space p \<noteq> []" and "SchemaVersion loaded = schemaVersion"
  shows "\<exists>s. Open (\<lambda>_. None) (\<lambda>_. None) now (Json loaded) p = Inr s"
  using assms
  by (auto simp: Open_def load_def reconcileHistoryRetention_def reconcileInterruptedOperations_def
      Let_def commit_no_fault)

section \<open>Example values\<close>

definition empty_state :: state where
  "empty_state = \<lparr>SchemaVersion = 1, Clusters = [], Repositories = [], Operations = [], AuditEvents = []\<rparr>"

definition sample_cluster :: Cluster where
  "sample_cluster = \<lparr>cl_ID = ''clu_1'', cl_Name = ''prod'', cl_Environment = EnvironmentProduction,
     cl_Server = ''https://k8s.example.com'', cl_Status = ClusterConnected, cl_Version = ''v1.33.0'',
     cl_LastErrorCode = [], cl_CACertCiphertext = [], cl_BearerTokenCiphertext = ''v1.AAAA'',
     cl_LastCheckedAt = 5, cl_CreatedAt = 1, cl_UpdatedAt = 5\<rparr>"

definition sample_operation :: Operation where
  "sample_operation = \<lparr>op_ID = ''op_1'', op_RequestID = ''req_1'', op_Kind = OperationWorkloadRestart,
     op_State = OperationQueued, op_ClusterID = ''clu_1'', op_Namespace = ''default'',
     op_Target = ''web'', op_SubmittedBy = ''admin'', op_Summary = [], op_ErrorCode = [],
     op_ErrorMessage = [], op_CreatedAt = 7, op_StartedAt = 0, op_FinishedAt = 0, op_UpdatedAt = 7\<rparr>"

definition sample_file :: File where
  "sample_file = \<lparr>path = ''panel.json'',
     data = empty_state\<lparr>Clusters := [sample_cluster], Operations := [sample_operation]\<rparr>,
     disk = NoFile\<rparr>"

lemma sample_path: "trim_space ''panel.json'' \<noteq> []"
  by (simp add: trim_space_no_space index_func_ascii ascii_def is_space_def)

lemmas sample_defs = sample_file_def sample_cluster_def sample_operation_def empty_state_def

section \<open>Properties of the store\<close>

text \<open>
  (C1) Every writing call of the store interface keeps the stored state well formed, whatever the
  context and the file system do: identifiers of clusters, repositories, operations and audit
  events stay unique, names of clusters and of repositories stay unique up to case, the audit log
  stays within its bound and the schema version is kept. The only call with a side condition is
  the credential rotation, whose caller must not rename the cluster.
\<close>

theorem store_exec_keeps_wf:
  assumes "store_wf (data s)" and "call_keeps_names c"
  shows "store_wf (data (fst (store_exec io ctx c s)))"
  using assms by (rule store_exec_wf)

theorem store_exec_keeps_wf_witness:
  "store_wf (data (fst (store_exec (\<lambda>_. None) None (CreateOperationCall
     (sample_operation\<lparr>op_ID := ''op_2''\<rparr>)) sample_file)))"
  by (rule store_exec_keeps_wf)
     (simp_all add: sample_defs store_wf_def schemaVersion_def unique_rows_def maxStoredAuditEvents_def)

text \<open>
  (C2) A writing call that returns an error leaves the state in memory as it was, and a call that
  returns no error leaves memory and file in agreement: the file holds the JSON text of the state
  that the next reads see.
\<close>

theorem store_exec_atomic:
  "case store_exec io ctx c s of
     (s', Some e) \<Rightarrow> data s' = data s
   | (s', None) \<Rightarrow> disk s' = Json (encoded (data s'))"
proof (cases "store_exec io ctx c s")
  case (Pair s' r)
  show ?thesis
  proof (cases r)
    case None
    with Pair have "s' = s\<lparr>disk := Json (encoded (data s')), data := data s'\<rparr>"
      by (simp add: call_ok_commit)
    then have "disk s' = Json (encoded (data s'))"
      by (metis (no_types, lifting) File.select_convs(3) File.surjective File.update_convs(2,3))
    with Pair None show ?thesis by simp
  next
    case (Some e)
    with Pair show ?thesis by (simp add: call_failed_data)
  qed
qed

text \<open>
  (C3) Recovery. A store reopened on the file that a successful call left behind, with no file
  system error, has the clusters, repositories and audit events of that call's state, in which JSON
  has put U+FFFD in the place of every byte that is not UTF-8; its operations are those of the
  state, encoded in the same way and trimmed to the history bound, in the same order, where every
  operation that was queued or running is now unknown with error code
  \<^verbatim>\<open>process_restarted\<close>. When every string of the state is UTF-8, everything but the
  interrupted operations is restored exactly.
\<close>

theorem store_recovery:
  assumes "store_exec io ctx c s = (s', None)" and "store_wf (data s)" and "call_keeps_names c"
    and "trim_space p \<noteq> []"
  shows "\<exists>r. Open (\<lambda>_. None) (\<lambda>_. None) now (disk s') p = Inr r
     \<and> data r = (encoded (data s'))\<lparr>Operations :=
          map (\<lambda>x. interrupt now (encoded_operation x)) (trimOperationHistory (Operations (data s')))\<rparr>
     \<and> (utf8_state (data s') \<longrightarrow>
          data r = (data s')\<lparr>Operations := map (interrupt now) (trimOperationHistory (Operations (data s')))\<rparr>)
     \<and> \<not> list_ex in_flight (Operations (data r))"
proof -
  have wf: "store_wf (data s')"
    using assms(1-3) by (rule call_ok_wf [rotated 2])
  have "s' = s\<lparr>disk := Json (encoded (data s')), data := data s'\<rparr>"
    using assms(1) by (rule call_ok_commit)
  then have disk: "disk s' = Json (encoded (data s'))"
    by (metis (no_types, lifting) File.select_convs(3) File.surjective File.update_convs(2,3))
  obtain r where r: "Open (\<lambda>_. None) (\<lambda>_. None) now (disk s') p = Inr r"
    using Open_succeeds [OF assms(4)] wf disk by (fastforce simp: store_wf_def)
  have "trimAuditHistory (AuditEvents (encoded (data s'))) = AuditEvents (encoded (data s'))"
    using wf by (simp add: store_wf_def trimAuditHistory_short)
  then have d: "data r = (encoded (data s'))\<lparr>Operations :=
      map (\<lambda>x. interrupt now (encoded_operation x)) (trimOperationHistory (Operations (data s')))\<rparr>"
    using Open_data [OF r] disk by (simp add: trim_encoded comp_def)
  moreover have "data r = (data s')\<lparr>Operations := map (interrupt now) (trimOperationHistory (Operations (data s')))\<rparr>"
    if utf8: "utf8_state (data s')"
  proof -
    have "Operations (encoded (data s')) = Operations (data s')" by (simp only: encoded_utf8 [OF utf8])
    then have "Operations (data r) = map (interrupt now) (trimOperationHistory (Operations (data s')))"
      using Open_data [OF r] disk by simp
    then show ?thesis using d by (simp add: encoded_utf8 [OF utf8])
  qed
  ultimately show ?thesis using r by (auto simp: list_ex_iff)
qed

theorem store_recovery_witness:
  "\<exists>s' r. store_exec (\<lambda>_. None) None (UpdateOperationCall (sample_operation\<lparr>op_State := OperationRunning\<rparr>))
       sample_file = (s', None)
     \<and> Open (\<lambda>_. None) (\<lambda>_. None) 9 (disk s') ''panel.json'' = Inr r
     \<and> map op_State (Operations (data r)) = [OperationUnknown] \<and> Clusters (data r) = [sample_cluster]"
proof -
  let ?p = "sample_operation\<lparr>op_State := OperationRunning\<rparr>"
  let ?s = "fst (store_exec (\<lambda>_. None) None (UpdateOperationCall ?p) sample_file)"
  have ok: "store_exec (\<lambda>_. None) None (UpdateOperationCall ?p) sample_file = (?s, None)"
    by (simp add: sample_defs UpdateOperation_def commit_no_fault)
  have wf: "store_wf (data sample_file)"
    by (simp add: sample_defs store_wf_def schemaVersion_def unique_rows_def)
  have state: "data ?s = empty_state\<lparr>Clusters := [sample_cluster], Operations := [?p]\<rparr>"
    by (simp add: sample_defs UpdateOperation_def commit_no_fault)
  have utf8: "utf8_state (data ?s)"
    unfolding state
    by (simp add: sample_defs utf8_state_def utf8_cluster_def utf8_operation_def valid_utf8_ascii ascii_def)
  obtain r where r: "Open (\<lambda>_. None) (\<lambda>_. None) 9 (disk ?s) ''panel.json'' = Inr r"
    and d: "data r = (data ?s)\<lparr>Operations := map (interrupt 9) (trimOperationHistory (Operations (data ?s)))\<rparr>"
    using store_recovery [OF ok wf _ sample_path, of 9] utf8 by auto
  have states: "map op_State (Operations (data r)) = [OperationUnknown]" "Clusters (data r) = [sample_cluster]"
    unfolding d state by (simp_all add: interrupt_def trimOperationHistory_short maxStoredOperations_def empty_state_def)
  show ?thesis
    by (intro exI conjI) (rule ok, rule r, rule states, rule states)
qed

text \<open>
  (C4) The history trim of operations keeps every queued or running operation, drops exactly as
  many finished ones as the list exceeds the bound, oldest first, and keeps the order; the result
  has the bound's length unless more operations than that are in flight.
\<close>

theorem trimOperationHistory_spec:
  "subseq (trimOperationHistory xs) xs
   \<and> filter in_flight (trimOperationHistory xs) = filter in_flight xs
   \<and> filter (\<lambda>x. \<not> in_flight x) (trimOperationHistory xs)
       = drop (length xs - maxStoredOperations) (filter (\<lambda>x. \<not> in_flight x) xs)
   \<and> length (trimOperationHistory xs)
       = (if length xs \<le> maxStoredOperations then length xs
          else max maxStoredOperations (length (filter in_flight xs)))"
  by (simp add: trimOperationHistory_subseq length_trimOperationHistory)
     (simp add: trimOperationHistory_def filter_finished_trim_loop)

text \<open>
  State transitions of an operation are compare-and-swap: of two transitions that expect the
  same current state, the second finds the store as the first left it, fails and changes
  nothing, and the operation stays as the first one wrote it. This decides the race between
  cancelling a queued operation and starting it.
\<close>

theorem transitions_exclude_each_other:
  assumes "TransitionOperation io1 ctx1 st p1 a1 s = (s1, None)" and "op_State p1 \<noteq> st"
    and "op_ID p2 = op_ID p1"
  shows "\<exists>e. TransitionOperation io2 ctx2 st p2 a2 s1 = (s1, Some e)
     \<and> GetOperation None (op_ID p1) s1 = Inr p1
     \<and> (\<forall>i. i \<noteq> op_ID p1 \<longrightarrow> GetOperation None i s1 = GetOperation None i s)"
proof -
  note get = TransitionOperation_get(2) [OF assms(1)]
  then have "GetOperation None (op_ID p2) s1 = Inr p1"
    using assms(3) by simp
  then obtain e where "TransitionOperation io2 ctx2 st p2 a2 s1 = (s1, Some e)"
    using TransitionOperation_wrong_state assms(2) by blast
  with get show ?thesis by auto
qed

theorem transitions_exclude_each_other_witness:
  "\<exists>s1 e. TransitionOperation (\<lambda>_. None) None OperationQueued
       (sample_operation\<lparr>op_State := OperationCanceled\<rparr>) None sample_file = (s1, None)
     \<and> TransitionOperation (\<lambda>_. None) None OperationQueued
       (sample_operation\<lparr>op_State := OperationRunning\<rparr>) None s1 = (s1, Some e)"
proof -
  let ?p = "sample_operation\<lparr>op_State := OperationCanceled\<rparr>"
  let ?s = "fst (TransitionOperation (\<lambda>_. None) None OperationQueued ?p None sample_file)"
  have ok: "TransitionOperation (\<lambda>_. None) None OperationQueued ?p None sample_file = (?s, None)"
    by (simp add: sample_defs TransitionOperation_def commit_no_fault Let_def)
  show ?thesis
    using transitions_exclude_each_other
        [OF ok, of "sample_operation\<lparr>op_State := OperationRunning\<rparr>" "\<lambda>_. None" None None] ok
    by (auto simp: sample_operation_def)
qed

text \<open>
  (C5) A write that fails after the temporary file was renamed reports an error and leaves memory
  unchanged, but the file already holds the new state: an operation whose creation was refused
  this way is back, as unknown and with its strings as JSON writes them, when the store is opened
  again.
\<close>

theorem refused_operation_survives_restart:
  assumes "op_ID p \<notin> op_ID ` set (Operations (data s))"
    and "length (Operations (data s)) < maxStoredOperations"
    and "SchemaVersion (data s) = schemaVersion" and "trim_space q \<noteq> []" and "in_flight p"
  shows "\<exists>s' r. CreateOperation ((\<lambda>_. None)(SyncDirectory := Some e)) None p s
            = (s', Some (Wrapped ''sync store directory'' e))
     \<and> data s' = data s
     \<and> Open (\<lambda>_. None) (\<lambda>_. None) now (disk s') q = Inr r
     \<and> interrupt now (encoded_operation p) \<in> set (Operations (data r))
     \<and> (utf8_operation p \<longrightarrow> interrupt now p \<in> set (Operations (data r)))"
proof -
  let ?io = "(\<lambda>_. None)(SyncDirectory := Some e)"
  let ?nxt = "(data s)\<lparr>Operations := Operations (data s) @ [p]\<rparr>"
  have commit: "commit ?io ?nxt s = (s\<lparr>disk := Json (encoded ?nxt)\<rparr>, Some (Wrapped ''sync store directory'' e))"
    by (simp add: commit_def persist_def)
  have trim: "trimOperationHistory (Operations (data s) @ [p]) = Operations (data s) @ [p]"
    using assms(2) by (simp add: trimOperationHistory_short)
  have fresh: "\<not> list_ex (\<lambda>x. op_ID x = op_ID p) (Operations (data s))"
    using assms(1) unfolding list_ex_iff by (metis imageI)
  have create: "CreateOperation ?io None p s
      = (s\<lparr>disk := Json (encoded ?nxt)\<rparr>, Some (Wrapped ''sync store directory'' e))"
    using fresh commit by (simp add: CreateOperation_def trim Let_def)
  obtain r where r: "Open (\<lambda>_. None) (\<lambda>_. None) now (Json (encoded ?nxt)) q = Inr r"
    using Open_succeeds [OF assms(4), of "encoded ?nxt"] assms(3) by auto
  have "Operations (encoded ?nxt) = map encoded_operation (Operations (data s) @ [p])" by simp
  then have "interrupt now (encoded_operation p) \<in> set (Operations (data r))"
    using Open_data [OF r] trim_encoded [of "Operations (data s) @ [p]"] trim by simp
  with create r show ?thesis by (auto simp: encoded_operation_utf8)
qed

theorem refused_operation_survives_restart_witness:
  "\<exists>s' r. CreateOperation ((\<lambda>_. None)(SyncDirectory := Some ErrTimeout)) None
       (sample_operation\<lparr>op_ID := ''op_2''\<rparr>) sample_file
       = (s', Some (Wrapped ''sync store directory'' ErrTimeout))
     \<and> data s' = data sample_file
     \<and> Open (\<lambda>_. None) (\<lambda>_. None) 9 (disk s') ''panel.json'' = Inr r
     \<and> interrupt 9 (sample_operation\<lparr>op_ID := ''op_2''\<rparr>) \<in> set (Operations (data r))"
proof -
  let ?p = "sample_operation\<lparr>op_ID := ''op_2''\<rparr>"
  have p: "op_ID ?p \<notin> op_ID ` set (Operations (data sample_file))" "in_flight ?p" "utf8_operation ?p"
    by (simp_all add: sample_defs in_flight_def utf8_operation_def valid_utf8_ascii ascii_def)
  have s: "length (Operations (data sample_file)) < maxStoredOperations"
    "SchemaVersion (data sample_file) = schemaVersion"
    by (simp_all add: sample_defs maxStoredOperations_def schemaVersion_def)
  show ?thesis
    using refused_operation_survives_restart [OF p(1) s sample_path p(2), of ErrTimeout 9] p(3) by blast
qed

text \<open>
  A list of operations holds the newest ones: it is sorted by update time, latest first, has
  the requested length, at most 100, or everything there is, consists of stored operations, and no
  operation left out is newer than one listed.
\<close>

theorem ListOperations_newest:
  assumes "ListOperations None limit s = Inr xs"
  shows "sorted_wrt (\<lambda>a b. op_UpdatedAt b \<le> op_UpdatedAt a) xs
     \<and> length xs = min (length (Operations (data s)))
           (nat (if limit \<le> 0 \<or> 100 < limit then 100 else limit))
     \<and> mset xs \<subseteq># mset (Operations (data s))
     \<and> (\<forall>x \<in> set xs. \<forall>y \<in># mset (Operations (data s)) - mset xs. op_UpdatedAt y \<le> op_UpdatedAt x)"
proof -
  let ?sorted = "sort_slice operation_before (Operations (data s))"
  let ?n = "nat (if limit \<le> 0 \<or> 100 < limit then 100 else limit)"
  have xs: "xs = take ?n ?sorted"
    using assms by (auto simp: ListOperations_def limitSlice_def Let_def)
  have "sorted_wrt (\<lambda>a b. \<not> operation_before b a) ?sorted"
    by (rule sorted_sort_slice) (auto simp: operation_before_def)
  then have sorted: "sorted_wrt (\<lambda>a b. op_UpdatedAt b \<le> op_UpdatedAt a) (take ?n ?sorted @ drop ?n ?sorted)"
    by (simp add: operation_before_def not_less)
  have split: "mset (Operations (data s)) = mset (take ?n ?sorted) + mset (drop ?n ?sorted)"
    by (metis append_take_drop_id mset_append mset_sort_slice)
  show ?thesis
    using sorted by (simp add: xs split sorted_wrt_append del: append_take_drop_id)
qed

theorem ListOperations_newest_witness:
  "ListOperations None 0 sample_file = Inr [sample_operation]
   \<and> length [sample_operation] = min (length (Operations (data sample_file))) 100"
proof -
  have l: "ListOperations None 0 sample_file = Inr [sample_operation]"
    by (simp add: ListOperations_def sample_file_def empty_state_def limitSlice_def)
  show ?thesis using l ListOperations_newest [OF l] by simp
qed

end
