(* ===== verification/Regexp.thy ===== *)
theory Regexp
  imports Prelude
begin

text \<open>
  The part of package \<^verbatim>\<open>regexp\<close> the validators use: anchored patterns built from
  character classes, concatenation, \<^verbatim>\<open>*\<close>, \<^verbatim>\<open>?\<close> and
  \<^verbatim>\<open>{0,n}\<close>. \<open>MatchString\<close> is executable, by derivatives; \<open>lang\<close> is
  the set of strings a pattern stands for, and \<open>MatchString_lang\<close> says they agree. All
  classes are of ASCII characters, so a byte beyond ASCII never matches.
\<close>

datatype regex =
    Zero
  | One
  | Class "char \<Rightarrow> bool"
  | Seq regex regex
  | Alt regex regex
  | Star regex
  | Opt regex
  | UpTo nat regex

primrec lang :: "regex \<Rightarrow> string set" where
  "lang Zero = {}"
| "lang One = {[]}"
| "lang (Class p) = {[c] | c. p c}"
| "lang (Seq r s) = {u @ v | u v. u \<in> lang r \<and> v \<in> lang s}"
| "lang (Alt r s) = lang r \<union> lang s"
| "lang (Star r) = {concat ws | ws. set ws \<subseteq> lang r}"
| "lang (Opt r) = insert [] (lang r)"
| "lang (UpTo n r) = {concat ws | ws. set ws \<subseteq> lang r \<and> length ws \<le> n}"

primrec nullable :: "regex \<Rightarrow> bool" where
  "nullable Zero = False"
| "nullable One = True"
| "nullable (Class p) = False"
| "nullable (Seq r s) = (nullable r \<and> nullable s)"
| "nullable (Alt r s) = (nullable r \<or> nullable s)"
| "nullable (Star r) = True"
| "nullable (Opt r) = True"
| "nullable (UpTo n r) = True"

fun deriv :: "char \<Rightarrow> regex \<Rightarrow> regex" where
  "deriv c Zero = Zero"
| "deriv c One = Zero"
| "deriv c (Class p) = (if p c then One else Zero)"
| "deriv c (Seq r s) =
     (if nullable r then Alt (Seq (deriv c r) s) (deriv c s) else Seq (deriv c r) s)"
| "deriv c (Alt r s) = Alt (deriv c r) (deriv c s)"
| "deriv c (Star r) = Seq (deriv c r) (Star r)"
| "deriv c (Opt r) = deriv c r"
| "deriv c (UpTo 0 r) = Zero"
| "deriv c (UpTo (Suc n) r) = Seq (deriv c r) (UpTo n r)"

fun MatchString :: "regex \<Rightarrow> string \<Rightarrow> bool" where
  "MatchString r [] = nullable r"
| "MatchString r (c # cs) = MatchString (deriv c r) cs"

lemma nullable_lang: "nullable r \<longleftrightarrow> [] \<in> lang r"
proof (induction r)
  case (Star r)
  show ?case by (auto intro: exI [of _ "[]"])
next
  case (UpTo n r)
  show ?case by (auto intro: exI [of _ "[]"])
qed auto

text \<open>A concatenation that starts with a character starts with a non-empty word.\<close>

lemma concat_first_word:
  assumes "c # s = concat ws"
  shows "\<exists>es w vs. ws = es @ (c # w) # vs \<and> s = w @ concat vs"
  using assms
proof (induction ws)
  case Nil
  then show ?case by simp
next
  case (Cons x ws)
  show ?case
  proof (cases x)
    case Nil
    with Cons obtain es w vs where "ws = es @ (c # w) # vs" "s = w @ concat vs"
      by auto
    then have "x # ws = (x # es) @ (c # w) # vs \<and> s = w @ concat vs" by simp
    then show ?thesis by blast
  next
    case (Cons d w)
    with Cons.prems have "x # ws = [] @ (c # w) # ws \<and> s = w @ concat ws" by simp
    then show ?thesis by blast
  qed
qed

lemma deriv_Star_lang:
  assumes "lang (deriv c r) = {s. c # s \<in> lang r}"
  shows "lang (deriv c (Star r)) = {s. c # s \<in> lang (Star r)}"
proof (intro set_eqI iffI)
  fix s
  assume "s \<in> lang (deriv c (Star r))"
  then obtain w vs where "s = w @ concat vs" "c # w \<in> lang r" "set vs \<subseteq> lang r"
    using assms by auto
  then have "c # s = concat ((c # w) # vs) \<and> set ((c # w) # vs) \<subseteq> lang r" by simp
  then show "s \<in> {s. c # s \<in> lang (Star r)}" unfolding lang.simps by blast
next
  fix s
  assume "s \<in> {s. c # s \<in> lang (Star r)}"
  then obtain ws where ws: "c # s = concat ws" "set ws \<subseteq> lang r" by auto
  from concat_first_word [OF ws(1)] obtain es w vs
    where "ws = es @ (c # w) # vs" "s = w @ concat vs" by blast
  with ws(2) assms show "s \<in> lang (deriv c (Star r))" by auto
qed

lemma deriv_UpTo_lang:
  assumes "lang (deriv c r) = {s. c # s \<in> lang r}"
  shows "lang (deriv c (UpTo n r)) = {s. c # s \<in> lang (UpTo n r)}"
proof (cases n)
  case 0
  then show ?thesis by auto
next
  case (Suc k)
  show ?thesis
  proof (intro set_eqI iffI)
    fix s
    assume "s \<in> lang (deriv c (UpTo n r))"
    then obtain w vs where "s = w @ concat vs" "c # w \<in> lang r" "set vs \<subseteq> lang r" "length vs \<le> k"
      using assms Suc by auto
    then have "c # s = concat ((c # w) # vs) \<and> set ((c # w) # vs) \<subseteq> lang r \<and> length ((c # w) # vs) \<le> n"
      using Suc by simp
    then show "s \<in> {s. c # s \<in> lang (UpTo n r)}" unfolding lang.simps by blast
  next
    fix s
    assume "s \<in> {s. c # s \<in> lang (UpTo n r)}"
    then obtain ws where ws: "c # s = concat ws" "set ws \<subseteq> lang r" "length ws \<le> n" by auto
    from concat_first_word [OF ws(1)] obtain es w vs
      where "ws = es @ (c # w) # vs" "s = w @ concat vs" by blast
    with ws(2,3) Suc have "c # w \<in> lang r" and "s = w @ concat vs"
      and "set vs \<subseteq> lang r \<and> length vs \<le> k"
      by auto
    with assms Suc show "s \<in> lang (deriv c (UpTo n r))" by (simp, blast)
  qed
qed

lemma deriv_Seq_lang:
  assumes "lang (deriv c r) = {s. c # s \<in> lang r}" and "lang (deriv c t) = {s. c # s \<in> lang t}"
  shows "lang (deriv c (Seq r t)) = {s. c # s \<in> lang (Seq r t)}"
proof -
  have "(c # s \<in> lang (Seq r t)) \<longleftrightarrow>
      ([] \<in> lang r \<and> c # s \<in> lang t) \<or> (\<exists>u v. s = u @ v \<and> c # u \<in> lang r \<and> v \<in> lang t)" for s
    by (auto simp: Cons_eq_append_conv)
  then show ?thesis
    using assms by (auto simp: nullable_lang)
qed

lemma deriv_lang: "lang (deriv c r) = {s. c # s \<in> lang r}"
proof (induction r)
  case (Seq r t)
  then show ?case by (rule deriv_Seq_lang)
next
  case (Star r)
  then show ?case by (rule deriv_Star_lang)
next
  case (UpTo n r)
  then show ?case by (rule deriv_UpTo_lang)
qed auto

theorem MatchString_lang: "MatchString r s \<longleftrightarrow> s \<in> lang r"
  by (induction s arbitrary: r) (auto simp: nullable_lang deriv_lang)

declare lang.simps(6,8) [simp del]

text \<open>Repetitions of one class.\<close>

lemma concat_singletons: "set ws \<subseteq> {[c] | c. p c} \<Longrightarrow> list_all p (concat ws) \<and> length (concat ws) = length ws"
  by (induction ws) auto

lemma singletons_of: "list_all p s \<Longrightarrow> s = concat (map (\<lambda>c. [c]) s) \<and> set (map (\<lambda>c. [c]) s) \<subseteq> {[c] | c. p c}"
  by (induction s) auto

lemma lang_Star_Class [simp]: "lang (Star (Class p)) = {s. list_all p s}"
proof (intro set_eqI iffI)
  fix s
  assume "s \<in> lang (Star (Class p))"
  then obtain ws where "s = concat ws" "set ws \<subseteq> {[c] | c. p c}" by (auto simp: lang.simps(6))
  then show "s \<in> {s. list_all p s}" using concat_singletons by blast
next
  fix s
  assume "s \<in> {s. list_all p s}"
  then have "s = concat (map (\<lambda>c. [c]) s) \<and> set (map (\<lambda>c. [c]) s) \<subseteq> {[c] | c. p c}"
    using singletons_of by blast
  then show "s \<in> lang (Star (Class p))"
    unfolding lang.simps(3,6) by blast
qed

lemma lang_UpTo_Class [simp]: "lang (UpTo n (Class p)) = {s. list_all p s \<and> length s \<le> n}"
proof (intro set_eqI iffI)
  fix s
  assume "s \<in> lang (UpTo n (Class p))"
  then obtain ws where "s = concat ws" "set ws \<subseteq> {[c] | c. p c}" "length ws \<le> n"
    by (auto simp: lang.simps(8))
  then show "s \<in> {s. list_all p s \<and> length s \<le> n}"
    using concat_singletons [of ws p] by simp
next
  fix s
  assume "s \<in> {s. list_all p s \<and> length s \<le> n}"
  then have p: "list_all p s" and "length (map (\<lambda>c. [c]) s) \<le> n"
    by simp_all
  with singletons_of [OF p] have "s = concat (map (\<lambda>c. [c]) s)
      \<and> set (map (\<lambda>c. [c]) s) \<subseteq> {[c] | c. p c} \<and> length (map (\<lambda>c. [c]) s) \<le> n"
    by blast
  then show "s \<in> lang (UpTo n (Class p))"
    unfolding lang.simps(3,8) by blast
qed

lemma lang_Class_UpTo:
  "lang (Seq (Class p) (UpTo n (Class q)))
     = {s. s \<noteq> [] \<and> p (hd s) \<and> list_all q (tl s) \<and> length s \<le> Suc n}"
proof (intro set_eqI iffI)
  fix s
  assume "s \<in> {s. s \<noteq> [] \<and> p (hd s) \<and> list_all q (tl s) \<and> length s \<le> Suc n}"
  then have "s = [hd s] @ tl s \<and> p (hd s) \<and> list_all q (tl s) \<and> length (tl s) \<le> n" by auto
  then show "s \<in> lang (Seq (Class p) (UpTo n (Class q)))"
    unfolding lang.simps(4) lang_UpTo_Class by (intro CollectI exI [of _ "[hd s]"] exI [of _ "tl s"]) auto
qed auto

lemma lang_Star_then: "lang (Seq (Star (Class q)) (Class p)) = {u @ [b] | u b. list_all q u \<and> p b}"
  unfolding lang.simps(4) lang_Star_Class lang.simps(3) by auto

lemma lang_edges:
  assumes "\<And>c. p c \<Longrightarrow> q c"
  shows "lang (Seq (Class p) (Opt (Seq (Star (Class q)) (Class p))))
     = {s. s \<noteq> [] \<and> p (hd s) \<and> p (last s) \<and> list_all q s}"
proof -
  have tail: "(t = [] \<or> (\<exists>u b. t = u @ [b] \<and> list_all q u \<and> p b)) \<longleftrightarrow>
      t = [] \<or> (list_all q t \<and> p (last t))" for t
    using assms by (cases t rule: rev_cases) auto
  have "a # t \<in> lang (Seq (Class p) (Opt (Seq (Star (Class q)) (Class p)))) \<longleftrightarrow>
      p a \<and> (t = [] \<or> (\<exists>u b. t = u @ [b] \<and> list_all q u \<and> p b))" for a t
  proof -
    have eq: "a # t \<in> lang (Seq (Class p) r) \<longleftrightarrow> p a \<and> t \<in> lang r" for r
      by (auto intro: exI [of _ "[a]"])
    show ?thesis
      unfolding eq lang.simps(7) insert_iff lang_Star_then by blast
  qed
  then have cons: "a # t \<in> lang (Seq (Class p) (Opt (Seq (Star (Class q)) (Class p)))) \<longleftrightarrow>
      a # t \<in> {s. s \<noteq> [] \<and> p (hd s) \<and> p (last s) \<and> list_all q s}" for a t
    unfolding tail using assms by (cases t) auto
  have nil: "[] \<notin> lang (Seq (Class p) (Opt (Seq (Star (Class q)) (Class p))))"
    by auto
  show ?thesis
  proof (rule set_eqI)
    fix s
    show "s \<in> lang (Seq (Class p) (Opt (Seq (Star (Class q)) (Class p))))
        \<longleftrightarrow> s \<in> {s. s \<noteq> [] \<and> p (hd s) \<and> p (last s) \<and> list_all q s}"
    proof (cases s)
      case Nil
      with nil show ?thesis by (simp del: lang.simps)
    next
      case (Cons a t)
      then show ?thesis by (simp only: cons)
    qed
  qed
qed

declare MatchString.simps [simp del]

end
