(* ===== verification/Validation.thy ===== *)
theory Validation
  imports Domain Regexp
begin

text \<open>
  The input validators of \<^verbatim>\<open>internal/domain/validation.go\<close>, in the order of the
  source. A validator returns \<open>None\<close> for \<^verbatim>\<open>nil\<close> and the validation error
  otherwise; its checks keep the source's order. The patterns are the source's regular
  expressions. URL parsing (\<^verbatim>\<open>net/url\<close>) is a parameter: \<open>parse\<close> returns
  \<open>None\<close> for a parse error and the parts the validators look at otherwise.
\<close>

section \<open>Patterns\<close>

definition is_lower :: "char \<Rightarrow> bool" where
  "is_lower c \<longleftrightarrow> CHR ''a'' \<le> c \<and> c \<le> CHR ''z''"

definition is_upper :: "char \<Rightarrow> bool" where
  "is_upper c \<longleftrightarrow> CHR ''A'' \<le> c \<and> c \<le> CHR ''Z''"

definition is_digit :: "char \<Rightarrow> bool" where
  "is_digit c \<longleftrightarrow> CHR ''0'' \<le> c \<and> c \<le> CHR ''9''"

definition alnum :: "char \<Rightarrow> bool" where
  "alnum c \<longleftrightarrow> is_upper c \<or> is_lower c \<or> is_digit c"

definition lower_alnum :: "char \<Rightarrow> bool" where
  "lower_alnum c \<longleftrightarrow> is_lower c \<or> is_digit c"

definition resourceNamePattern :: regex where
  "resourceNamePattern =
     Seq (Class alnum) (UpTo 63 (Class (\<lambda>c. alnum c \<or> c \<in> {CHR ''.'', CHR ''_'', CHR ''-''})))"

definition dnsLabelPattern :: regex where
  "dnsLabelPattern =
     Seq (Class lower_alnum)
       (Opt (Seq (Star (Class (\<lambda>c. c = CHR ''-'' \<or> lower_alnum c))) (Class lower_alnum)))"

definition dnsSubdomainPattern :: regex where
  "dnsSubdomainPattern =
     Seq (Class lower_alnum)
       (Opt (Seq (Star (Class (\<lambda>c. c = CHR ''-'' \<or> lower_alnum c \<or> c = CHR ''.''))) (Class lower_alnum)))"

definition chartNamePattern :: regex where
  "chartNamePattern =
     Seq (Class alnum)
       (UpTo 127 (Class (\<lambda>c. alnum c \<or> c \<in> {CHR ''.'', CHR ''_'', CHR ''/'', CHR ''-''})))"

section \<open>URLs\<close>

record url =
  Scheme :: string
  Host :: string
  User :: "string option"
  Path :: string
  RawQuery :: string
  Fragment :: string

type_synonym url_parser = "string \<Rightarrow> url option"

definition parse_error :: go_error where
  "parse_error = NewError ''parse''"

definition validateHTTPSURL :: "url_parser \<Rightarrow> string \<Rightarrow> bool \<Rightarrow> url result" where
  "validateHTTPSURL parse raw allowPath =
     (case parse (trim_space raw) of
        None \<Rightarrow> Inl parse_error
      | Some parsed \<Rightarrow>
          (if Scheme parsed \<noteq> ''https'' \<or> Host parsed = [] \<or> User parsed \<noteq> None
              \<or> RawQuery parsed \<noteq> [] \<or> Fragment parsed \<noteq> []
           then Inl (Invalid ''url'' ''invalid HTTPS URL'')
           else if \<not> allowPath \<and> Path parsed \<noteq> [] \<and> Path parsed \<noteq> ''/''
           then Inl (Invalid ''url'' ''path is not allowed'')
           else Inr parsed))"

section \<open>Names\<close>

definition validDNSLabel :: "string \<Rightarrow> bool" where
  "validDNSLabel value \<longleftrightarrow> 0 < length value \<and> length value \<le> 63 \<and> MatchString dnsLabelPattern value"

definition validDNSSubdomain :: "string \<Rightarrow> bool" where
  "validDNSSubdomain value =
     (if length value = 0 \<or> 253 < length value \<or> \<not> MatchString dnsSubdomainPattern value then False
      else list_all validDNSLabel (split_char CHR ''.'' value))"

definition validRBACResourceName :: "string \<Rightarrow> bool" where
  "validRBACResourceName value \<longleftrightarrow>
     value \<noteq> [] \<and> length value \<le> 253 \<and> value \<noteq> ''.'' \<and> value \<noteq> ''..''
     \<and> value = trim_space value \<and> \<not> contains_any value ''/%'' \<and> \<not> index_func is_control value"

definition validWorkloadKind :: "string \<Rightarrow> bool" where
  "validWorkloadKind kind \<longleftrightarrow>
     kind \<in> {''deployment'', ''statefulset'', ''daemonset'', ''job'', ''cronjob'', ''pod''}"

definition validAccessReviewVerb :: "string \<Rightarrow> bool" where
  "validAccessReviewVerb value \<longleftrightarrow>
     value \<in> {''get'', ''list'', ''watch'', ''create'', ''update'', ''patch'', ''delete'',
       ''deletecollection'', ''proxy'', ''use'', ''bind'', ''escalate'', ''impersonate'', ''approve'', ''sign''}"

definition ValidateNamespace :: "string \<Rightarrow> go_error option" where
  "ValidateNamespace namespace =
     (if \<not> validDNSLabel namespace then Some (Invalid ''namespace'' ''must be a valid Kubernetes namespace'')
      else None)"

section \<open>Clusters and repositories\<close>

definition validateClusterCredentials :: "string \<Rightarrow> string \<Rightarrow> go_error option" where
  "validateClusterCredentials caCert bearerToken =
     (if bearerToken = [] \<or> MaxClusterBearerTokenBytes < length bearerToken
         \<or> bearerToken \<noteq> trim_space bearerToken
         \<or> index_func (\<lambda>r. is_space r \<or> is_control r) bearerToken
      then Some (Invalid ''bearer_token'' ''must be non-empty, no longer than 64 KiB and contain no whitespace or control characters'')
      else if MaxClusterCACertBytes < length caCert
      then Some (Invalid ''ca_cert'' ''must not exceed 256 KiB'')
      else None)"

definition ValidateClusterInput :: "url_parser \<Rightarrow> ClusterInput \<Rightarrow> go_error option" where
  "ValidateClusterInput parse input =
     (if \<not> MatchString resourceNamePattern (ci_Name input)
      then Some (Invalid ''name'' ''must be 1-64 letters, numbers, dots, underscores or hyphens'')
      else if ci_Environment input \<noteq> EnvironmentDevelopment
          \<and> ci_Environment input \<noteq> EnvironmentStaging \<and> ci_Environment input \<noteq> EnvironmentProduction
      then Some (Invalid ''environment'' ''must be development, staging or production'')
      else if (case validateHTTPSURL parse (ci_Server input) False of
                 Inl _ \<Rightarrow> True | Inr parsed \<Rightarrow> Path parsed \<noteq> [] \<and> Path parsed \<noteq> ''/'')
      then Some (Invalid ''server'' ''must be an HTTPS origin without credentials, path, query or fragment'')
      else validateClusterCredentials (ci_CACert input) (ci_BearerToken input))"

definition ValidateClusterCredentialRotationInput :: "ClusterCredentialRotationInput \<Rightarrow> go_error option" where
  "ValidateClusterCredentialRotationInput input =
     (case validateClusterCredentials (cr_CACert input) (cr_BearerToken input) of
        Some e \<Rightarrow> Some e
      | None \<Rightarrow>
          (if \<not> MatchString resourceNamePattern (cr_Confirmation input)
           then Some (Invalid ''confirmation'' ''must be a valid cluster name'') else None))"

definition ValidateRepositoryInput :: "url_parser \<Rightarrow> RepositoryInput \<Rightarrow> go_error option" where
  "ValidateRepositoryInput parse input =
     (if \<not> MatchString resourceNamePattern (ri_Name input)
      then Some (Invalid ''name'' ''must be 1-64 letters, numbers, dots, underscores or hyphens'')
      else case validateHTTPSURL parse (ri_URL input) True of
          Inl _ \<Rightarrow> Some (Invalid ''url'' ''must be an HTTPS URL without credentials, query or fragment'')
        | Inr _ \<Rightarrow>
            (if ri_Password input \<noteq> [] \<and> trim_space (ri_Username input) = []
             then Some (Invalid ''username'' ''is required when a password is configured'') else None))"

section \<open>Helm\<close>

definition MaxHelmValuesBytes :: nat where
  "MaxHelmValuesBytes = 256 * 1024"

definition ValidateHelmOperationInput :: "url_parser \<Rightarrow> HelmOperationInput \<Rightarrow> go_error option" where
  "ValidateHelmOperationInput parse input =
     (if trim_space (hi_ClusterID input) = [] then Some (Invalid ''cluster_id'' ''is required'')
      else if \<not> validDNSLabel (hi_Namespace input)
      then Some (Invalid ''namespace'' ''must be a valid Kubernetes namespace'')
      else if \<not> validDNSLabel (hi_ReleaseName input)
      then Some (Invalid ''release_name'' ''must be a valid Helm release name'')
      else if MaxHelmValuesBytes < length (hi_Values input)
      then Some (Invalid ''values'' ''must not exceed 256 KiB'')
      else let chart = trim_space (hi_Chart input) in
        if has_prefix chart ''oci://''
        then (case parse chart of
                None \<Rightarrow> Some (Invalid ''chart'' ''must be a valid OCI chart reference'')
              | Some parsed \<Rightarrow>
                  (if Host parsed = [] \<or> Path parsed = [] \<or> User parsed \<noteq> None
                      \<or> RawQuery parsed \<noteq> [] \<or> Fragment parsed \<noteq> []
                   then Some (Invalid ''chart'' ''must be a valid OCI chart reference'') else None))
        else if hi_RepositoryID input = [] \<or> \<not> MatchString chartNamePattern chart
            \<or> contains_str chart ''..'' \<or> has_prefix chart ''/'' \<or> contains_str chart [CHR 0x5C]
        then Some (Invalid ''chart'' ''must be an OCI reference or a safe chart name from a configured repository'')
        else None)"

definition ValidateHelmReleaseReference :: "string \<Rightarrow> string \<Rightarrow> go_error option" where
  "ValidateHelmReleaseReference namespace releaseName =
     (if \<not> validDNSLabel namespace
      then Some (Invalid ''namespace'' ''must be a valid Kubernetes namespace'')
      else if \<not> validDNSLabel releaseName
      then Some (Invalid ''release_name'' ''must be a valid Helm release name'')
      else None)"

section \<open>Workloads\<close>

definition ValidateWorkloadReference :: "WorkloadReference \<Rightarrow> go_error option" where
  "ValidateWorkloadReference reference =
     (let kind = to_lower (trim_space (wr_Kind reference)) in
      if \<not> validWorkloadKind kind
      then Some (Invalid ''kind'' ''must be deployment, statefulset, daemonset, job, cronjob or pod'')
      else if \<not> validDNSLabel (wr_Namespace reference)
      then Some (Invalid ''namespace'' ''must be a valid Kubernetes namespace'')
      else if \<not> validDNSSubdomain (wr_Name reference)
      then Some (Invalid ''name'' ''must be a valid Kubernetes resource name'')
      else None)"

definition ValidateDeploymentReference :: "WorkloadReference \<Rightarrow> go_error option" where
  "ValidateDeploymentReference reference =
     (case ValidateWorkloadReference reference of
        Some e \<Rightarrow> Some e
      | None \<Rightarrow>
          (if to_lower (trim_space (wr_Kind reference)) \<noteq> ''deployment''
           then Some (Invalid ''kind'' ''must be deployment'') else None))"

definition ValidateWorkloadList :: "string \<Rightarrow> string \<Rightarrow> go_error option" where
  "ValidateWorkloadList namespace kind =
     (case (if namespace \<noteq> [] then ValidateNamespace namespace else None) of
        Some e \<Rightarrow> Some e
      | None \<Rightarrow>
          (let kind = to_lower (trim_space kind) in
           if kind \<noteq> [] \<and> \<not> validWorkloadKind kind
           then Some (Invalid ''kind'' ''must be deployment, statefulset, daemonset, job, cronjob or pod'')
           else None))"

text \<open>The check of a resource version, shared by the scale, restart and image operations.\<close>

definition bad_resource_version :: "string \<Rightarrow> bool" where
  "bad_resource_version raw \<longleftrightarrow>
     (let resourceVersion = trim_space raw in
      resourceVersion = [] \<or> 256 < length resourceVersion \<or> index_func is_control resourceVersion)"

definition ValidateWorkloadOperationInput :: "OperationKind \<Rightarrow> WorkloadOperationInput \<Rightarrow> go_error option" where
  "ValidateWorkloadOperationInput kind input =
     (if kind \<noteq> OperationWorkloadScale \<and> kind \<noteq> OperationWorkloadRestart
      then Some (Invalid ''kind'' ''must be workload.scale or workload.restart'')
      else if trim_space (wi_ClusterID input) = [] then Some (Invalid ''cluster_id'' ''is required'')
      else case ValidateWorkloadReference (wi_Reference input) of
          Some e \<Rightarrow> Some e
        | None \<Rightarrow>
            (if to_lower (trim_space (wr_Kind (wi_Reference input))) \<noteq> ''deployment''
             then Some (Invalid ''kind'' ''only Deployment operations are supported'')
             else if bad_resource_version (wi_ResourceVersion input)
             then Some (Invalid ''resource_version'' ''must be a valid value no longer than 256 characters'')
             else if kind = OperationWorkloadScale
             then (case wi_Replicas input of
                     None \<Rightarrow> Some (Invalid ''replicas'' ''is required'')
                   | Some replicas \<Rightarrow>
                       (if replicas < 0 \<or> MaxWorkloadReplicas < replicas
                        then Some (Invalid ''replicas'' ''must be between 0 and 1000'') else None))
             else if wi_Replicas input \<noteq> None
             then Some (Invalid ''replicas'' ''must not be provided for restart'')
             else None))"

definition validateContainerImage :: "string \<Rightarrow> string \<Rightarrow> go_error option" where
  "validateContainerImage field img =
     (if img = [] \<or> MaxContainerImageBytes < length img \<or> img \<noteq> trim_space img
         \<or> index_func (\<lambda>r. is_space r \<or> is_control r) img
      then Some (Invalid field ''must be a non-empty image reference no longer than 1024 bytes without whitespace'')
      else None)"

definition ValidateWorkloadImageChange :: "WorkloadImageChange \<Rightarrow> go_error option" where
  "ValidateWorkloadImageChange change =
     (case ValidateWorkloadReference (wc_Reference change) of
        Some e \<Rightarrow> Some e
      | None \<Rightarrow>
          (if to_lower (trim_space (wr_Kind (wc_Reference change))) \<noteq> ''deployment''
           then Some (Invalid ''kind'' ''only Deployment image updates are supported'')
           else if bad_resource_version (wc_ResourceVersion change)
           then Some (Invalid ''resource_version'' ''must be a valid value no longer than 256 characters'')
           else if \<not> validDNSLabel (wc_Container change)
           then Some (Invalid ''container'' ''must be a valid Kubernetes container name'')
           else case validateContainerImage ''current_image'' (wc_CurrentImage change) of
               Some e \<Rightarrow> Some e
             | None \<Rightarrow>
                 (case validateContainerImage ''image'' (wc_Image change) of
                    Some e \<Rightarrow> Some e
                  | None \<Rightarrow>
                      (if wc_CurrentImage change = wc_Image change
                       then Some (Invalid ''image'' ''must differ from the current image'') else None))))"

definition ValidateWorkloadImageOperationInput :: "WorkloadImageOperationInput \<Rightarrow> go_error option" where
  "ValidateWorkloadImageOperationInput input =
     (if trim_space (wo_ClusterID input) = [] then Some (Invalid ''cluster_id'' ''is required'')
      else ValidateWorkloadImageChange (wo_Change input))"

definition ValidateOperationID :: "string \<Rightarrow> go_error option" where
  "ValidateOperationID i =
     (if \<not> has_prefix i ''op_'' \<or> \<not> MatchString resourceNamePattern i
      then Some (Invalid ''operation_id'' ''must be a valid operation identifier'') else None)"

definition ValidatePodLogRequest :: "PodLogRequest \<Rightarrow> go_error option" where
  "ValidatePodLogRequest input =
     (case ValidateWorkloadReference
             \<lparr>wr_Kind = ''pod'', wr_Namespace = pl_Namespace input, wr_Name = pl_Pod input\<rparr> of
        Some e \<Rightarrow> Some e
      | None \<Rightarrow>
          (if \<not> validDNSLabel (pl_Container input)
           then Some (Invalid ''container'' ''must be a valid Kubernetes container name'')
           else if pl_TailLines input < 1 \<or> MaxPodLogTailLines < pl_TailLines input
           then Some (Invalid ''tail_lines'' ''must be between 1 and 2000'')
           else None))"

section \<open>Access control and events\<close>

definition ValidateAccessResourceScope :: "KubernetesAccessResourceKind \<Rightarrow> string \<Rightarrow> go_error option" where
  "ValidateAccessResourceScope kind namespace =
     (if kind \<in> {AccessResourceServiceAccounts, AccessResourceRoles, AccessResourceRoleBindings}
      then ValidateNamespace namespace
      else if kind \<in> {AccessResourceClusterRoles, AccessResourceClusterRoleBindings}
      then (if namespace \<noteq> []
            then Some (Invalid ''namespace'' ''must be empty for a cluster-scoped access resource'') else None)
      else Some (Invalid ''kind'' ''must be serviceaccounts, roles, rolebindings, clusterroles or clusterrolebindings''))"

definition ValidateAccessResourceReference :: "KubernetesAccessResourceReference \<Rightarrow> go_error option" where
  "ValidateAccessResourceReference reference =
     (case ValidateAccessResourceScope (ar_Kind reference) (ar_Namespace reference) of
        Some e \<Rightarrow> Some e
      | None \<Rightarrow>
          (let validName = validRBACResourceName (ar_Name reference);
               validName = (if ar_Kind reference = AccessResourceServiceAccounts
                            then validDNSSubdomain (ar_Name reference) else validName)
           in if \<not> validName then Some (Invalid ''name'' ''must be a valid Kubernetes resource name'')
              else None))"

definition ValidateServiceAccountAccessReviewInput ::
    "KubernetesServiceAccountAccessReviewInput \<Rightarrow> go_error option" where
  "ValidateServiceAccountAccessReviewInput input =
     (let attributes = sr_ResourceAttributes input in
      if \<not> validDNSLabel (sa_Namespace (sr_ServiceAccount input))
      then Some (Invalid ''service_account.namespace'' ''must be a valid Kubernetes namespace'')
      else if \<not> validDNSSubdomain (sa_Name (sr_ServiceAccount input))
      then Some (Invalid ''service_account.name'' ''must be a valid Kubernetes resource name'')
      else if ra_Group attributes \<noteq> [] \<and> \<not> validDNSSubdomain (ra_Group attributes)
      then Some (Invalid ''resource_attributes.group'' ''must be empty or a valid Kubernetes API group'')
      else if \<not> validDNSLabel (ra_Resource attributes)
      then Some (Invalid ''resource_attributes.resource'' ''must be a valid Kubernetes API resource'')
      else if ra_Subresource attributes \<noteq> [] \<and> \<not> validDNSLabel (ra_Subresource attributes)
      then Some (Invalid ''resource_attributes.subresource'' ''must be empty or a valid Kubernetes subresource'')
      else if \<not> validAccessReviewVerb (ra_Verb attributes)
      then Some (Invalid ''resource_attributes.verb'' ''must be an allowed Kubernetes resource verb'')
      else if ra_Namespace attributes \<noteq> [] \<and> \<not> validDNSLabel (ra_Namespace attributes)
      then Some (Invalid ''resource_attributes.namespace'' ''must be empty or a valid Kubernetes namespace'')
      else if ra_Name attributes \<noteq> [] \<and> \<not> validRBACResourceName (ra_Name attributes)
      then Some (Invalid ''resource_attributes.name'' ''must be empty or a safe Kubernetes resource name'')
      else None)"

definition ValidateKubernetesEventList :: "string \<Rightarrow> string \<Rightarrow> int \<Rightarrow> go_error option" where
  "ValidateKubernetesEventList namespace eventType limit =
     (case (if namespace \<noteq> [] then ValidateNamespace namespace else None) of
        Some e \<Rightarrow> Some e
      | None \<Rightarrow>
          (if eventType \<noteq> [] \<and> eventType \<noteq> ''Normal'' \<and> eventType \<noteq> ''Warning''
           then Some (Invalid ''type'' ''must be Normal or Warning'')
           else if limit < 1 \<or> MaxClusterEventLimit < limit
           then Some (Invalid ''limit'' ''must be between 1 and 500'')
           else None))"

section \<open>Cluster-scoped resource names\<close>

definition ValidateNodeName :: "string \<Rightarrow> go_error option" where
  "ValidateNodeName name =
     (if \<not> validDNSSubdomain name then Some (Invalid ''name'' ''must be a valid Kubernetes node name'') else None)"

definition ValidateCustomResourceDefinitionName :: "string \<Rightarrow> go_error option" where
  "ValidateCustomResourceDefinitionName name =
     (let (resource, group, found) = cut_char CHR ''.'' name in
      if \<not> found \<or> \<not> validDNSSubdomain name \<or> \<not> validDNSLabel resource \<or> \<not> validDNSSubdomain group
      then Some (Invalid ''name'' ''must be a valid Kubernetes CustomResourceDefinition name'') else None)"

definition ValidateCertificateSigningRequestName :: "string \<Rightarrow> go_error option" where
  "ValidateCertificateSigningRequestName name =
     (if \<not> validDNSSubdomain name
      then Some (Invalid ''name'' ''must be a valid Kubernetes CertificateSigningRequest name'') else None)"

definition ValidatePriorityClassName :: "string \<Rightarrow> go_error option" where
  "ValidatePriorityClassName name =
     (if \<not> validDNSSubdomain name
      then Some (Invalid ''name'' ''must be a valid Kubernetes PriorityClass name'') else None)"

definition ValidateRuntimeClassName :: "string \<Rightarrow> go_error option" where
  "ValidateRuntimeClassName name =
     (if \<not> validDNSSubdomain name
      then Some (Invalid ''name'' ''must be a valid Kubernetes RuntimeClass name'') else None)"

definition ValidateRuntimeClassHandler :: "string \<Rightarrow> go_error option" where
  "ValidateRuntimeClassHandler handler =
     (if \<not> validDNSLabel handler
      then Some (Invalid ''handler'' ''must be a valid Kubernetes RuntimeClass handler'') else None)"

definition ValidateCSIDriverName :: "string \<Rightarrow> go_error option" where
  "ValidateCSIDriverName name =
     (if \<not> validDNSSubdomain name
      then Some (Invalid ''name'' ''must be a valid Kubernetes CSIDriver name'') else None)"

definition ValidateVolumeAttachmentName :: "string \<Rightarrow> go_error option" where
  "ValidateVolumeAttachmentName name =
     (if \<not> validDNSSubdomain name
      then Some (Invalid ''name'' ''must be a valid Kubernetes VolumeAttachment name'') else None)"

definition ValidatePersistentVolumeName :: "string \<Rightarrow> go_error option" where
  "ValidatePersistentVolumeName name =
     (if \<not> validDNSSubdomain name
      then Some (Invalid ''name'' ''must be a valid Kubernetes PersistentVolume name'') else None)"

definition ValidateStorageClassName :: "string \<Rightarrow> go_error option" where
  "ValidateStorageClassName name =
     (if \<not> validDNSSubdomain name
      then Some (Invalid ''name'' ''must be a valid Kubernetes StorageClass name'') else None)"

definition ValidateCSIStorageCapacityName :: "string \<Rightarrow> go_error option" where
  "ValidateCSIStorageCapacityName name =
     (if \<not> validDNSSubdomain name
      then Some (Invalid ''name'' ''must be a valid Kubernetes CSIStorageCapacity name'') else None)"

definition ValidateVolumeAttributesClassName :: "string \<Rightarrow> go_error option" where
  "ValidateVolumeAttributesClassName name =
     (if \<not> validDNSSubdomain name
      then Some (Invalid ''name'' ''must be a valid Kubernetes VolumeAttributesClass name'') else None)"

definition ValidateAPIServiceName :: "string \<Rightarrow> go_error option" where
  "ValidateAPIServiceName name =
     (let (version, group, found) = cut_char CHR ''.'' name in
      if \<not> found \<or> 253 < length name \<or> \<not> validDNSLabel version \<or> (group \<noteq> [] \<and> \<not> validDNSSubdomain group)
      then Some (Invalid ''name'' ''must be a valid Kubernetes APIService name'') else None)"

definition ValidateAdmissionWebhookConfigurationKind ::
    "KubernetesAdmissionWebhookConfigurationKind \<Rightarrow> go_error option" where
  "ValidateAdmissionWebhookConfigurationKind kind =
     (if kind \<noteq> AdmissionWebhookConfigurationValidating \<and> kind \<noteq> AdmissionWebhookConfigurationMutating
      then Some (Invalid ''kind'' ''must be validating or mutating'') else None)"

definition ValidateAdmissionWebhookConfigurationName :: "string \<Rightarrow> go_error option" where
  "ValidateAdmissionWebhookConfigurationName name =
     (if \<not> validDNSSubdomain name
      then Some (Invalid ''name'' ''must be a valid Kubernetes admission webhook configuration name'') else None)"

definition ValidateAdmissionPolicyResourceName :: "string \<Rightarrow> go_error option" where
  "ValidateAdmissionPolicyResourceName name =
     (if \<not> validDNSSubdomain name
      then Some (Invalid ''name'' ''must be a valid Kubernetes admission policy resource name'') else None)"

section \<open>What the patterns mean\<close>

lemma MatchString_dnsLabelPattern:
  "MatchString dnsLabelPattern s \<longleftrightarrow>
     s \<noteq> [] \<and> lower_alnum (hd s) \<and> lower_alnum (last s)
     \<and> list_all (\<lambda>c. c = CHR ''-'' \<or> lower_alnum c) s"
  unfolding MatchString_lang dnsLabelPattern_def by (subst lang_edges) auto

lemma MatchString_dnsSubdomainPattern:
  "MatchString dnsSubdomainPattern s \<longleftrightarrow>
     s \<noteq> [] \<and> lower_alnum (hd s) \<and> lower_alnum (last s)
     \<and> list_all (\<lambda>c. c = CHR ''-'' \<or> lower_alnum c \<or> c = CHR ''.'') s"
  unfolding MatchString_lang dnsSubdomainPattern_def by (subst lang_edges) auto

lemma MatchString_resourceNamePattern:
  "MatchString resourceNamePattern s \<longleftrightarrow>
     s \<noteq> [] \<and> length s \<le> 64 \<and> alnum (hd s)
     \<and> list_all (\<lambda>c. alnum c \<or> c \<in> {CHR ''.'', CHR ''_'', CHR ''-''}) (tl s)"
  unfolding MatchString_lang resourceNamePattern_def lang_Class_UpTo by auto

lemma MatchString_chartNamePattern:
  "MatchString chartNamePattern s \<longleftrightarrow>
     s \<noteq> [] \<and> length s \<le> 128 \<and> alnum (hd s)
     \<and> list_all (\<lambda>c. alnum c \<or> c \<in> {CHR ''.'', CHR ''_'', CHR ''/'', CHR ''-''}) (tl s)"
  unfolding MatchString_lang chartNamePattern_def lang_Class_UpTo by auto

lemma validDNSLabel_iff:
  "validDNSLabel s \<longleftrightarrow>
     s \<noteq> [] \<and> length s \<le> 63 \<and> lower_alnum (hd s) \<and> lower_alnum (last s)
     \<and> list_all (\<lambda>c. c = CHR ''-'' \<or> lower_alnum c) s"
  by (auto simp: validDNSLabel_def MatchString_dnsLabelPattern)

lemma join_words:
  assumes "ws \<noteq> []" and "\<forall>w \<in> set ws. w \<noteq> []"
  shows "join_str sep ws \<noteq> [] \<and> hd (join_str sep ws) = hd (hd ws)
     \<and> last (join_str sep ws) = last (last ws)
     \<and> set (join_str sep ws) \<subseteq> set sep \<union> \<Union> (set ` set ws)"
  using assms
proof (induction sep ws rule: join_str.induct)
  case (3 sep w v ws)
  then show ?case by (auto simp: hd_append)
qed auto

lemma labels_imply_subdomain_pattern:
  assumes "list_all validDNSLabel (split_char CHR ''.'' s)"
  shows "MatchString dnsSubdomainPattern s"
proof -
  let ?ws = "split_char CHR ''.'' s"
  have lab: "\<forall>w \<in> set ?ws. validDNSLabel w"
    using assms by (simp add: list_all_iff)
  then have ne: "\<forall>w \<in> set ?ws. w \<noteq> []"
    by (auto simp: validDNSLabel_iff)
  have s: "join_str [CHR ''.''] ?ws = s"
    by (rule join_split_char)
  note j = join_words [OF split_char_nonempty ne, of "[CHR ''.'']", unfolded s]
  have "validDNSLabel (hd ?ws)" and "validDNSLabel (last ?ws)"
    using lab by simp_all
  moreover have "\<forall>c \<in> set s. c = CHR ''-'' \<or> lower_alnum c \<or> c = CHR ''.''"
  proof
    fix c
    assume "c \<in> set s"
    then have "c = CHR ''.'' \<or> (\<exists>w \<in> set ?ws. c \<in> set w)"
      using j by auto
    then show "c = CHR ''-'' \<or> lower_alnum c \<or> c = CHR ''.''"
      using lab by (auto simp: validDNSLabel_iff list_all_iff)
  qed
  ultimately show ?thesis
    using j by (auto simp: MatchString_dnsSubdomainPattern validDNSLabel_iff list_all_iff)
qed

lemma validDNSSubdomain_iff:
  "validDNSSubdomain s \<longleftrightarrow>
     s \<noteq> [] \<and> length s \<le> 253 \<and> list_all validDNSLabel (split_char CHR ''.'' s)"
  by (auto simp: validDNSSubdomain_def labels_imply_subdomain_pattern)

section \<open>Names are safe path segments\<close>

text \<open>
  A string that can stand as one segment of a request path: it has no separator, no escape and no
  query or fragment mark, and is not one of the two dot segments.
\<close>

definition path_safe :: "string \<Rightarrow> bool" where
  "path_safe s \<longleftrightarrow> s \<noteq> [] \<and> s \<noteq> ''.'' \<and> s \<noteq> ''..''
     \<and> list_all (\<lambda>c. c \<notin> {CHR ''/'', CHR ''%'', CHR ''?'', CHR ''#'', CHR '' ''}) s"

lemma lower_alnum_plain:
  "lower_alnum c \<Longrightarrow> c \<notin> {CHR ''/'', CHR ''%'', CHR ''?'', CHR ''#'', CHR '' '', CHR ''.''}"
  by (auto simp: lower_alnum_def is_lower_def is_digit_def less_eq_char_def)

lemma validDNSSubdomain_safe:
  assumes "validDNSSubdomain s"
  shows "path_safe s"
proof -
  have p: "MatchString dnsSubdomainPattern s"
    using assms by (simp add: validDNSSubdomain_def split: if_splits)
  then have "hd s \<noteq> CHR ''.''"
    using lower_alnum_plain by (fastforce simp: MatchString_dnsSubdomainPattern)
  then have "s \<noteq> ''.'' \<and> s \<noteq> ''..''" by auto
  then show ?thesis
    using p lower_alnum_plain
    by (fastforce simp: path_safe_def MatchString_dnsSubdomainPattern list_all_iff)
qed

lemma validDNSLabel_safe:
  assumes "validDNSLabel s"
  shows "path_safe s"
proof -
  have "hd s \<noteq> CHR ''.''"
    using assms lower_alnum_plain by (fastforce simp: validDNSLabel_iff)
  then have "s \<noteq> ''.'' \<and> s \<noteq> ''..''" by auto
  then show ?thesis
    using assms lower_alnum_plain by (fastforce simp: path_safe_def validDNSLabel_iff list_all_iff)
qed

lemma ValidateWorkloadReference_None:
  "ValidateWorkloadReference r = None \<longleftrightarrow>
     validWorkloadKind (to_lower (trim_space (wr_Kind r)))
     \<and> validDNSLabel (wr_Namespace r) \<and> validDNSSubdomain (wr_Name r)"
  by (simp add: ValidateWorkloadReference_def Let_def)

lemma cut_char_prefix: "cut_char d s = (a, b, True) \<Longrightarrow> s = a @ d # b"
  by (auto simp: cut_char_def split: if_splits)
     (metis (mono_tags, lifting) dropWhile_eq_Nil_conv hd_dropWhile list.collapse takeWhile_dropWhile_id)

lemma ValidateAPIServiceName_safe:
  assumes "ValidateAPIServiceName n = None"
  shows "path_safe n"
proof -
  obtain v g found where cut: "cut_char CHR ''.'' n = (v, g, found)"
    by (metis prod_cases3)
  with assms have found and v: "validDNSLabel v" and g: "g = [] \<or> validDNSSubdomain g"
    by (auto simp: ValidateAPIServiceName_def split: if_splits)
  with cut have n: "n = v @ CHR ''.'' # g" by (auto dest: cut_char_prefix)
  have pv: "path_safe v" and pg: "g = [] \<or> path_safe g"
    using v g validDNSLabel_safe validDNSSubdomain_safe by auto
  have "CHR ''.'' \<notin> set v"
    using cut set_takeWhileD [of "CHR ''.''" "\<lambda>c. c \<noteq> CHR ''.''" n]
    by (auto simp: cut_char_def split: if_splits)
  moreover have "v \<noteq> []"
    using pv by (simp add: path_safe_def)
  ultimately have "hd n \<noteq> CHR ''.''"
    using n by (cases v) auto
  then have "n \<noteq> ''.''" "n \<noteq> ''..''" "n \<noteq> []"
    using n by auto
  moreover have "list_all (\<lambda>c. c \<notin> {CHR ''/'', CHR ''%'', CHR ''?'', CHR ''#'', CHR '' ''}) n"
    using pv pg unfolding n list_all_append path_safe_def by auto
  ultimately show ?thesis
    by (simp add: path_safe_def)
qed

lemma contains_str_append: "contains_str t p \<Longrightarrow> contains_str (s @ t) p"
  by (induction s) auto

lemma contains_str_prefix: "has_prefix s p \<Longrightarrow> contains_str s p"
  by (cases s) (auto simp: has_prefix_def)

lemma contains_str_join:
  "w \<in> set ws \<Longrightarrow> contains_str (join_str sep ws) w"
proof (induction sep ws rule: join_str.induct)
  case (3 sep v u ws)
  show ?case
  proof (cases "w = v")
    case True
    then have "has_prefix (join_str sep (v # u # ws)) w" by (simp add: has_prefix_def)
    then show ?thesis by (rule contains_str_prefix)
  next
    case False
    with 3 have "contains_str (join_str sep (u # ws)) w" by simp
    then have "contains_str ((v @ sep) @ join_str sep (u # ws)) w" by (rule contains_str_append)
    then show ?thesis by simp
  qed
qed (auto intro: contains_str_prefix simp: has_prefix_def)

section \<open>Properties of the validators\<close>

definition rfc1123_label :: "string \<Rightarrow> bool" where
  "rfc1123_label w \<longleftrightarrow>
     w \<noteq> [] \<and> length w \<le> 63
     \<and> list_all (\<lambda>c. is_lower c \<or> is_digit c \<or> c = CHR ''-'') w
     \<and> hd w \<noteq> CHR ''-'' \<and> last w \<noteq> CHR ''-''"

text \<open>
  (C6) The check of a DNS subdomain name accepts exactly the names of RFC 1123: one to 253 bytes,
  where each dot-separated label has one to 63 characters, lower-case letters, digits and hyphens
  only, with a letter or digit at both ends. The additional pattern the code tests first rejects
  nothing beyond that.
\<close>

theorem validDNSSubdomain_rfc1123:
  "validDNSSubdomain s \<longleftrightarrow>
     s \<noteq> [] \<and> length s \<le> 253 \<and> list_all rfc1123_label (split_char CHR ''.'' s)"
proof -
  have "\<not> lower_alnum CHR ''-''"
    by (simp add: lower_alnum_def is_lower_def is_digit_def less_eq_char_def)
  then have edge: "lower_alnum c \<longleftrightarrow> c \<noteq> CHR ''-''"
    if "list_all (\<lambda>c. c = CHR ''-'' \<or> lower_alnum c) w" and "c \<in> set w" for c w
    using that by (auto simp: list_all_iff)
  have "validDNSLabel w = rfc1123_label w" for w
  proof (cases "w \<noteq> [] \<and> list_all (\<lambda>c. c = CHR ''-'' \<or> lower_alnum c) w")
    case True
    then have "lower_alnum (hd w) \<longleftrightarrow> hd w \<noteq> CHR ''-''" "lower_alnum (last w) \<longleftrightarrow> last w \<noteq> CHR ''-''"
      using edge [of w "hd w"] edge [of w "last w"] by auto
    with True show ?thesis
      by (simp add: validDNSLabel_iff rfc1123_label_def lower_alnum_def disj_commute disj_left_commute)
  next
    case False
    then show ?thesis
      by (auto simp add: validDNSLabel_iff rfc1123_label_def lower_alnum_def disj_commute disj_left_commute)
  qed
  then show ?thesis
    by (simp add: validDNSSubdomain_iff list_all_iff)
qed

text \<open>
  (C7) Names that pass validation are safe as single segments of an API path: no slash, percent
  sign, question mark, hash or blank, and neither of the dot segments. This holds for namespaces,
  workload references, pod log requests, Helm releases, nodes and API services; names of access
  control objects, which Kubernetes allows to be wider, have no slash and no percent sign and are
  no dot segment.
\<close>

theorem accepted_names_are_path_safe:
  "(ValidateNamespace ns = None \<longrightarrow> path_safe ns)
   \<and> (ValidateWorkloadReference r = None \<longrightarrow> path_safe (wr_Namespace r) \<and> path_safe (wr_Name r))
   \<and> (ValidatePodLogRequest p = None \<longrightarrow>
        path_safe (pl_Namespace p) \<and> path_safe (pl_Pod p) \<and> path_safe (pl_Container p))
   \<and> (ValidateHelmReleaseReference ns rel = None \<longrightarrow> path_safe ns \<and> path_safe rel)
   \<and> (ValidateNodeName n = None \<longrightarrow> path_safe n)
   \<and> (ValidateAPIServiceName n = None \<longrightarrow> path_safe n)
   \<and> (ValidateAccessResourceReference a = None \<longrightarrow>
        ar_Name a \<noteq> [] \<and> ar_Name a \<noteq> ''.'' \<and> ar_Name a \<noteq> ''..'' \<and> \<not> contains_any (ar_Name a) ''/%'')"
proof -
  have "path_safe s \<Longrightarrow> \<not> contains_any s ''/%''" for s
    by (auto simp: path_safe_def contains_any_def list_all_iff list_ex_iff)
  then have access: "ValidateAccessResourceReference a = None \<Longrightarrow>
      ar_Name a \<noteq> [] \<and> ar_Name a \<noteq> ''.'' \<and> ar_Name a \<noteq> ''..'' \<and> \<not> contains_any (ar_Name a) ''/%''"
    using validDNSSubdomain_safe [of "ar_Name a"]
    by (auto simp: ValidateAccessResourceReference_def validRBACResourceName_def path_safe_def
        split: option.splits if_splits)
  have pod: "ValidatePodLogRequest p = None \<Longrightarrow>
      path_safe (pl_Namespace p) \<and> path_safe (pl_Pod p) \<and> path_safe (pl_Container p)"
    by (auto simp: ValidatePodLogRequest_def ValidateWorkloadReference_None
        intro: validDNSLabel_safe validDNSSubdomain_safe split: option.splits if_splits)
  show ?thesis
    using access pod ValidateAPIServiceName_safe
    by (auto simp: ValidateNamespace_def ValidateWorkloadReference_None ValidateHelmReleaseReference_def
        ValidateNodeName_def intro: validDNSLabel_safe validDNSSubdomain_safe split: if_splits)
qed

theorem accepted_names_are_path_safe_witness:
  "ValidateNamespace ''kube-system'' = None \<and> path_safe ''kube-system''"
proof -
  have "ValidateNamespace ''kube-system'' = None"
    by (simp add: ValidateNamespace_def validDNSLabel_iff lower_alnum_def is_lower_def is_digit_def
        less_eq_char_def)
  then show ?thesis
    using accepted_names_are_path_safe [of "''kube-system''"] by blast
qed

text \<open>
  A scale or restart request is accepted exactly when it names a deployment by a valid
  namespace and name, has a cluster and a resource version of 1 to 256 bytes without control
  characters, and carries a replica count between 0 and 1000 when it scales and none when it
  restarts. No other kind of operation is accepted.
\<close>

theorem ValidateWorkloadOperationInput_accepts:
  "ValidateWorkloadOperationInput kind input = None \<longleftrightarrow>
     ((kind = OperationWorkloadScale \<and> (\<exists>n. wi_Replicas input = Some n \<and> 0 \<le> n \<and> n \<le> 1000))
      \<or> (kind = OperationWorkloadRestart \<and> wi_Replicas input = None))
     \<and> trim_space (wi_ClusterID input) \<noteq> []
     \<and> to_lower (trim_space (wr_Kind (wi_Reference input))) = ''deployment''
     \<and> validDNSLabel (wr_Namespace (wi_Reference input))
     \<and> validDNSSubdomain (wr_Name (wi_Reference input))
     \<and> trim_space (wi_ResourceVersion input) \<noteq> []
     \<and> length (trim_space (wi_ResourceVersion input)) \<le> 256
     \<and> \<not> index_func is_control (trim_space (wi_ResourceVersion input))"
proof -
  have "ValidateWorkloadOperationInput kind input = None \<longleftrightarrow>
      (kind = OperationWorkloadScale \<or> kind = OperationWorkloadRestart)
      \<and> trim_space (wi_ClusterID input) \<noteq> []
      \<and> ValidateWorkloadReference (wi_Reference input) = None
      \<and> to_lower (trim_space (wr_Kind (wi_Reference input))) = ''deployment''
      \<and> \<not> bad_resource_version (wi_ResourceVersion input)
      \<and> (if kind = OperationWorkloadScale
         then (\<exists>n. wi_Replicas input = Some n \<and> 0 \<le> n \<and> n \<le> MaxWorkloadReplicas)
         else wi_Replicas input = None)"
    by (auto simp: ValidateWorkloadOperationInput_def split: option.splits)
  then show ?thesis
    by (auto simp: ValidateWorkloadReference_None validWorkloadKind_def bad_resource_version_def
        Let_def MaxWorkloadReplicas_def)
qed

text \<open>
  A chart name taken from a repository cannot leave it: an accepted install or upgrade
  whose chart is no OCI reference names a repository and a chart of at most 128 characters whose
  slash-separated segments are never \<^verbatim>\<open>..\<close>, which does not start with a slash and has
  no backslash.
\<close>

theorem accepted_chart_stays_in_repository:
  assumes "ValidateHelmOperationInput parse input = None"
    and "\<not> has_prefix (trim_space (hi_Chart input)) ''oci://''"
  shows "hi_RepositoryID input \<noteq> []
     \<and> ''..'' \<notin> set (split_char CHR ''/'' (trim_space (hi_Chart input)))
     \<and> length (trim_space (hi_Chart input)) \<le> 128
     \<and> alnum (hd (trim_space (hi_Chart input)))
     \<and> CHR 0x5C \<notin> set (trim_space (hi_Chart input))"
proof -
  let ?chart = "trim_space (hi_Chart input)"
  have r: "hi_RepositoryID input \<noteq> []" and p: "MatchString chartNamePattern ?chart"
    and dots: "\<not> contains_str ?chart ''..''"
    using assms by (auto simp: ValidateHelmOperationInput_def Let_def split: if_splits)
  have "''..'' \<notin> set (split_char CHR ''/'' ?chart)"
    using contains_str_join [of "''..''" "split_char CHR ''/'' ?chart" "''/''"] dots
    by (auto simp: join_split_char)
  moreover have "CHR 0x5C \<notin> set ?chart"
  proof
    assume "CHR 0x5C \<in> set ?chart"
    then have "hd ?chart = CHR 0x5C \<or> CHR 0x5C \<in> set (tl ?chart)"
      by (cases ?chart) auto
    moreover have "\<not> alnum CHR 0x5C"
      by (simp add: alnum_def is_upper_def is_lower_def is_digit_def less_eq_char_def)
    ultimately show False
      using p by (auto simp: MatchString_chartNamePattern list_all_iff)
  qed
  ultimately show ?thesis
    using r p by (simp add: MatchString_chartNamePattern)
qed

theorem accepted_chart_stays_in_repository_witness:
  "''..'' \<notin> set (split_char CHR ''/'' (trim_space ''stable/web''))"
proof -
  let ?i = "\<lparr>hi_ClusterID = ''clu_1'', hi_Namespace = ''default'', hi_ReleaseName = ''web'',
     hi_Chart = ''stable/web'', hi_RepositoryID = ''repo_1'', hi_Version = [], hi_Values = [],
     hi_Revision = 0\<rparr>"
  have trim: "trim_space ''stable/web'' = ''stable/web''" "trim_space ''clu_1'' = ''clu_1''"
    by (simp_all add: trim_space_no_space index_func_ascii ascii_def is_space_def)
  have ok: "ValidateHelmOperationInput (\<lambda>_. None) ?i = None"
    by (simp add: ValidateHelmOperationInput_def trim validDNSLabel_iff MatchString_chartNamePattern
        lower_alnum_def alnum_def is_lower_def is_digit_def is_upper_def less_eq_char_def has_prefix_def
        MaxHelmValuesBytes_def del: MatchString.simps)
  have "\<not> has_prefix (trim_space (hi_Chart ?i)) ''oci://''"
    by (simp add: trim has_prefix_def)
  then show ?thesis
    using accepted_chart_stays_in_repository [OF ok] by simp
qed

end
