(* ===== verification/Governor.thy ===== *)
theory Governor
  imports Complex_Main Domain
begin

text \<open>
  Package \<^verbatim>\<open>resourceguard\<close>: the governor that bounds how many operations, or how
  many Kubernetes reads, run at a time, and lowers that bound under memory or load pressure
  (\<^verbatim>\<open>internal/resourceguard/governor.go\<close>).

  The sample of the operating system and the clock are arguments of the operations that read
  them. The mutex makes each operation atomic, so it is one function on the state; the closure
  that \<^verbatim>\<open>TryAcquire\<close> returns is a handle with its own \<^verbatim>\<open>sync.Once\<close> flag,
  and a history of calls over many handles is a list of \<open>governor_call\<close>.
\<close>

section \<open>Floating point numbers\<close>

text \<open>
  The governor only compares its \<^verbatim>\<open>float64\<close> values. A finite one is an exact rational;
  every comparison with NaN is false.
\<close>

datatype float64 = NaN | PosInf | NegInf | Fin rat

fun f_less :: "float64 \<Rightarrow> float64 \<Rightarrow> bool" where
  "f_less (Fin x) (Fin y) = (x < y)"
| "f_less (Fin x) PosInf = True"
| "f_less NegInf (Fin y) = True"
| "f_less NegInf PosInf = True"
| "f_less _ _ = False"

definition f_leq :: "float64 \<Rightarrow> float64 \<Rightarrow> bool" where
  "f_leq x y \<longleftrightarrow> f_less x y \<or> (x = y \<and> x \<noteq> NaN)"

text \<open>The built-in \<^verbatim>\<open>max\<close>: NaN when an argument is NaN.\<close>

definition f_max :: "float64 \<Rightarrow> float64 \<Rightarrow> float64" where
  "f_max x y = (if x = NaN \<or> y = NaN then NaN else if f_less x y then y else x)"

definition f_is_inf :: "float64 \<Rightarrow> bool" where
  "f_is_inf x \<longleftrightarrow> x = PosInf \<or> x = NegInf"

section \<open>Governor\<close>

datatype Pressure = PressureUnknown | PressureNormal | PressureConstrained | PressureCritical

record Sample =
  sp_MemoryRatio :: "float64 option"
  sp_LoadRatio :: "float64 option"

record Snapshot =
  sn_Adaptive :: bool
  sn_Pressure :: Pressure
  sn_MemoryRatio :: "float64 option"
  sn_LoadRatio :: "float64 option"
  sn_ActiveOperations :: int
  sn_OperationLimit :: int
  sn_MaximumOperations :: int
  sn_SampledAt :: gtime

record Config =
  cf_Enabled :: bool
  cf_MaxConcurrent :: int
  cf_HighWatermark :: float64
  cf_CriticalWatermark :: float64
  cf_RetryInterval :: duration

record Governor =
  gv_enabled :: bool
  gv_maxConcurrent :: int
  gv_highWatermark :: float64
  gv_criticalWatermark :: float64
  gv_retryInterval :: duration
  gv_active :: int

definition governor_New :: "Config \<Rightarrow> Governor result" where
  "governor_New config =
     (if cf_MaxConcurrent config < 1
      then Inl (NewError ''maximum concurrent operations must be positive'')
      else if f_leq (cf_HighWatermark config) (Fin 0) \<or> f_leq (Fin 1) (cf_HighWatermark config)
      then Inl (NewError ''high watermark must be between zero and one'')
      else if f_leq (cf_CriticalWatermark config) (cf_HighWatermark config)
              \<or> f_less (Fin 1) (cf_CriticalWatermark config)
      then Inl (NewError ''critical watermark must be above the high watermark and at most one'')
      else Inr \<lparr>gv_enabled = cf_Enabled config, gv_maxConcurrent = cf_MaxConcurrent config,
                gv_highWatermark = cf_HighWatermark config,
                gv_criticalWatermark = cf_CriticalWatermark config,
                gv_retryInterval =
                  (if cf_RetryInterval config \<le> 0 then 2 * second else cf_RetryInterval config),
                gv_active = 0\<rparr>)"

definition safeRatio :: "float64 option \<Rightarrow> float64 option" where
  "safeRatio value =
     (case value of
        None \<Rightarrow> None
      | Some x \<Rightarrow> if x = NaN \<or> f_is_inf x \<or> f_less x (Fin 0) then None else Some x)"

fun maximumRatio :: "float64 option \<Rightarrow> float64 option \<Rightarrow> float64 \<times> bool" where
  "maximumRatio None None = (Fin 0, False)"
| "maximumRatio None (Some right) = (right, True)"
| "maximumRatio (Some left) None = (left, True)"
| "maximumRatio (Some left) (Some right) = (f_max left right, True)"

definition capacity :: "Governor \<Rightarrow> float64 option \<Rightarrow> float64 option \<Rightarrow> Pressure \<times> int" where
  "capacity g memoryRatio loadRatio =
     (if \<not> gv_enabled g then (PressureNormal, gv_maxConcurrent g)
      else case maximumRatio memoryRatio loadRatio of (maximum, available) \<Rightarrow>
        if \<not> available then (PressureUnknown, gv_maxConcurrent g)
        else if f_leq (gv_criticalWatermark g) maximum then (PressureCritical, 0)
        else if f_leq (gv_highWatermark g) maximum
        then (PressureConstrained, max 1 (go_div (wrap64 (gv_maxConcurrent g + 1)) 2))
        else (PressureNormal, gv_maxConcurrent g))"

definition snapshotLocked :: "Governor \<Rightarrow> Sample \<Rightarrow> gtime \<Rightarrow> Snapshot" where
  "snapshotLocked g sample now =
     (let memoryRatio = safeRatio (sp_MemoryRatio sample);
          loadRatio = safeRatio (sp_LoadRatio sample);
          (pressure, limit) = capacity g memoryRatio loadRatio
      in \<lparr>sn_Adaptive = gv_enabled g, sn_Pressure = pressure, sn_MemoryRatio = memoryRatio,
          sn_LoadRatio = loadRatio, sn_ActiveOperations = gv_active g, sn_OperationLimit = limit,
          sn_MaximumOperations = gv_maxConcurrent g, sn_SampledAt = now\<rparr>)"

definition governor_Snapshot :: "Governor \<Rightarrow> Sample \<Rightarrow> gtime \<Rightarrow> Snapshot" where
  "governor_Snapshot g sample now = snapshotLocked g sample now"

definition TryAcquire :: "Governor \<Rightarrow> Sample \<Rightarrow> gtime \<Rightarrow> Governor \<times> Snapshot \<times> bool" where
  "TryAcquire g sample now =
     (let snapshot = snapshotLocked g sample now
      in if sn_OperationLimit snapshot \<le> gv_active g then (g, snapshot, False)
         else let active = wrap64 (gv_active g + 1)
              in (g\<lparr>gv_active := active\<rparr>, snapshot\<lparr>sn_ActiveOperations := active\<rparr>, True))"

text \<open>
  The release closure: \<open>fired\<close> is the state of its \<^verbatim>\<open>sync.Once\<close>.
\<close>

definition release_slot :: "bool \<Rightarrow> Governor \<Rightarrow> bool \<times> Governor" where
  "release_slot fired g =
     (if fired then (True, g)
      else (True, if 0 < gv_active g then g\<lparr>gv_active := gv_active g - 1\<rparr> else g))"

text \<open>
  One turn of the loop of \<^verbatim>\<open>Acquire\<close>: the sample and time of its attempt, what other
  goroutines do to the governor while it waits, and which case of the \<^verbatim>\<open>select\<close> fires
  (\<open>Some e\<close>: the context is done with error \<open>e\<close>). When the turns are used up the caller
  is still waiting, \<open>None\<close>.
\<close>

record acquire_turn =
  tn_sample :: Sample
  tn_now :: gtime
  tn_others :: "Governor \<Rightarrow> Governor"
  tn_done :: "go_error option"

fun Acquire :: "acquire_turn list \<Rightarrow> Governor \<Rightarrow> (Governor \<times> Snapshot result) option" where
  "Acquire [] g = None"
| "Acquire (t # ts) g =
     (case TryAcquire g (tn_sample t) (tn_now t) of (g', snapshot, ok) \<Rightarrow>
        if ok then Some (g', Inr snapshot)
        else case tn_done t of
            Some e \<Rightarrow> Some (tn_others t g', Inl e)
          | None \<Rightarrow> Acquire ts (tn_others t g'))"

section \<open>Histories of calls\<close>

text \<open>
  The governor with the handles it has given out, in order; each has its \<^verbatim>\<open>sync.Once\<close>
  flag. Releasing a handle that was never given out is not a call a program can make.
\<close>

record guard =
  gd_governor :: Governor
  gd_handles :: "bool list"

datatype governor_call = CallTryAcquire Sample gtime | CallRelease nat

fun governor_step :: "governor_call \<Rightarrow> guard \<Rightarrow> guard" where
  "governor_step (CallTryAcquire sample now) s =
     (case TryAcquire (gd_governor s) sample now of (g, snapshot, ok) \<Rightarrow>
        s\<lparr>gd_governor := g, gd_handles := (if ok then gd_handles s @ [False] else gd_handles s)\<rparr>)"
| "governor_step (CallRelease h) s =
     (if h < length (gd_handles s)
      then case release_slot (gd_handles s ! h) (gd_governor s) of (fired, g) \<Rightarrow>
        s\<lparr>gd_governor := g, gd_handles := (gd_handles s)[h := fired]\<rparr>
      else s)"

definition governor_run :: "governor_call list \<Rightarrow> Governor \<Rightarrow> guard" where
  "governor_run calls g = fold governor_step calls \<lparr>gd_governor = g, gd_handles = []\<rparr>"

definition held :: "bool list \<Rightarrow> nat" where
  "held hs = length (filter Not hs)"

definition guard_ok :: "guard \<Rightarrow> bool" where
  "guard_ok s \<longleftrightarrow>
     gv_active (gd_governor s) = int (held (gd_handles s))
     \<and> gv_active (gd_governor s) \<le> gv_maxConcurrent (gd_governor s)
     \<and> 1 \<le> gv_maxConcurrent (gd_governor s) \<and> gv_maxConcurrent (gd_governor s) < 2 ^ 63"

section \<open>Bounds and invariant\<close>

lemma half_bounds:
  assumes "1 \<le> m" and "m < 2 ^ 63"
  shows "1 \<le> max 1 (go_div (wrap64 (m + 1)) 2)" and "max 1 (go_div (wrap64 (m + 1)) 2) \<le> m"
proof -
  show "1 \<le> max 1 (go_div (wrap64 (m + 1)) 2)" by simp
  show "max 1 (go_div (wrap64 (m + 1)) 2) \<le> m"
  proof (cases "m = 2 ^ 63 - 1")
    case True
    then show ?thesis by (simp add: wrap64_def go_div_def)
  next
    case False
    with assms have "wrap64 (m + 1) = m + 1"
      by (intro wrap64_id) auto
    moreover have "(m + 1) div 2 \<le> m"
      using assms by auto
    ultimately show ?thesis
      using assms by (simp add: go_div_def)
  qed
qed

lemma half_exact:
  assumes "1 \<le> m" and "m < 2 ^ 63 - 1"
  shows "max 1 (go_div (wrap64 (m + 1)) 2) = (m + 1) div 2"
proof -
  have "wrap64 (m + 1) = m + 1"
    using assms by (intro wrap64_id) auto
  then show ?thesis
    using assms by (simp add: go_div_def)
qed

lemma capacity_bounds:
  assumes "1 \<le> gv_maxConcurrent g" and "gv_maxConcurrent g < 2 ^ 63"
  shows "0 \<le> snd (capacity g x y)" and "snd (capacity g x y) \<le> gv_maxConcurrent g"
  using assms half_bounds [OF assms] by (auto simp: capacity_def split: prod.splits)

lemma snapshotLocked_simps [simp]:
  "sn_ActiveOperations (snapshotLocked g s t) = gv_active g"
  "sn_MaximumOperations (snapshotLocked g s t) = gv_maxConcurrent g"
  "sn_Adaptive (snapshotLocked g s t) = gv_enabled g"
  "sn_SampledAt (snapshotLocked g s t) = t"
  "sn_OperationLimit (snapshotLocked g s t) =
     snd (capacity g (safeRatio (sp_MemoryRatio s)) (safeRatio (sp_LoadRatio s)))"
  "sn_Pressure (snapshotLocked g s t) =
     fst (capacity g (safeRatio (sp_MemoryRatio s)) (safeRatio (sp_LoadRatio s)))"
  by (auto simp: snapshotLocked_def Let_def split: prod.splits)

lemma TryAcquire_cases:
  assumes "TryAcquire g s t = (g', sn, ok)"
    and "gv_active g < 2 ^ 63 - 1" and "0 \<le> gv_active g"
  shows "ok = (gv_active g < sn_OperationLimit (snapshotLocked g s t))"
    and "g' = (if ok then g\<lparr>gv_active := gv_active g + 1\<rparr> else g)"
    and "sn_ActiveOperations sn = gv_active g'"
    and "sn_OperationLimit sn = sn_OperationLimit (snapshotLocked g s t)"
    and "sn_Pressure sn = sn_Pressure (snapshotLocked g s t)"
proof -
  have "wrap64 (gv_active g + 1) = gv_active g + 1"
    using assms(2,3) by (intro wrap64_id) auto
  then show "ok = (gv_active g < sn_OperationLimit (snapshotLocked g s t))"
    and "g' = (if ok then g\<lparr>gv_active := gv_active g + 1\<rparr> else g)"
    and "sn_ActiveOperations sn = gv_active g'"
    and "sn_OperationLimit sn = sn_OperationLimit (snapshotLocked g s t)"
    and "sn_Pressure sn = sn_Pressure (snapshotLocked g s t)"
    using assms(1) by (auto simp: TryAcquire_def Let_def simp del: snapshotLocked_simps(5,6) split: if_splits)
qed

lemma held_append [simp]: "held (hs @ [False]) = Suc (held hs)"
  by (simp add: held_def)

lemma held_fire: "h < length hs \<Longrightarrow> \<not> hs ! h \<Longrightarrow> Suc (held (hs[h := True])) = held hs"
  unfolding held_def
proof (induction hs arbitrary: h)
  case (Cons b hs)
  then show ?case by (cases h) auto
qed simp

lemma held_fired: "h < length hs \<Longrightarrow> hs ! h \<Longrightarrow> hs[h := True] = hs"
  by (metis (full_types) list_update_id)

lemma governor_step_ok:
  assumes "guard_ok s"
  shows "guard_ok (governor_step c s)"
    and "gv_maxConcurrent (gd_governor (governor_step c s)) = gv_maxConcurrent (gd_governor s)"
proof -
  let ?g = "gd_governor s"
  have inv: "gv_active ?g = int (held (gd_handles s))" "gv_active ?g \<le> gv_maxConcurrent ?g"
    "1 \<le> gv_maxConcurrent ?g" "gv_maxConcurrent ?g < 2 ^ 63"
    using assms by (auto simp: guard_ok_def)
  have "guard_ok (governor_step c s)
        \<and> gv_maxConcurrent (gd_governor (governor_step c s)) = gv_maxConcurrent ?g"
  proof (cases c)
    case (CallTryAcquire sample now)
    obtain g' sn ok where t: "TryAcquire ?g sample now = (g', sn, ok)"
      by (metis prod_cases3)
    show ?thesis
    proof (cases "gv_active ?g < snd (capacity ?g (safeRatio (sp_MemoryRatio sample)) (safeRatio (sp_LoadRatio sample)))")
      case True
      then have lt: "gv_active ?g < gv_maxConcurrent ?g"
        using capacity_bounds(2) [OF inv(3,4)] by (meson order_less_le_trans)
      with inv have range: "gv_active ?g < 2 ^ 63 - 1" "0 \<le> gv_active ?g" by auto
      from TryAcquire_cases(1,2) [OF t range] True
      have "ok" "g' = ?g\<lparr>gv_active := gv_active ?g + 1\<rparr>" by simp_all
      with t inv lt show ?thesis
        by (simp add: CallTryAcquire guard_ok_def)
    next
      case False
      then have "\<not> ok" "g' = ?g"
        using t by (auto simp: TryAcquire_def Let_def split: if_splits)
      with t inv show ?thesis
        by (simp add: CallTryAcquire guard_ok_def)
    qed
  next
    case (CallRelease h)
    show ?thesis
    proof (cases "h < length (gd_handles s) \<and> \<not> gd_handles s ! h")
      case True
      then have "Suc (held ((gd_handles s)[h := True])) = held (gd_handles s)"
        by (simp add: held_fire)
      then have "int (held ((gd_handles s)[h := True])) = gv_active ?g - 1" "0 < gv_active ?g"
        using inv(1) by linarith+
      with True inv show ?thesis
        by (simp add: CallRelease guard_ok_def release_slot_def)
    next
      case False
      with inv show ?thesis
        by (auto simp: CallRelease guard_ok_def release_slot_def held_fired)
    qed
  qed
  then show "guard_ok (governor_step c s)"
    and "gv_maxConcurrent (gd_governor (governor_step c s)) = gv_maxConcurrent ?g"
    by auto
qed

lemma fold_governor_step_ok:
  "guard_ok s \<Longrightarrow>
   guard_ok (fold governor_step calls s)
   \<and> gv_maxConcurrent (gd_governor (fold governor_step calls s)) = gv_maxConcurrent (gd_governor s)"
  by (induction calls arbitrary: s) (simp_all add: governor_step_ok)

lemma governor_New_Inr:
  assumes "governor_New config = Inr g"
  shows "gv_active g = 0" and "gv_maxConcurrent g = cf_MaxConcurrent config"
    and "1 \<le> cf_MaxConcurrent config" and "0 < gv_retryInterval g"
    and "gv_enabled g = cf_Enabled config"
    and "gv_highWatermark g = cf_HighWatermark config"
    and "gv_criticalWatermark g = cf_CriticalWatermark config"
  using assms by (auto simp: governor_New_def second_def split: if_splits)

section \<open>Properties of the governor\<close>

definition sample_config :: Config where
  "sample_config = \<lparr>cf_Enabled = True, cf_MaxConcurrent = 2, cf_HighWatermark = Fin (4 / 5),
     cf_CriticalWatermark = Fin (19 / 20), cf_RetryInterval = 0\<rparr>"

definition sample_governor :: Governor where
  "sample_governor = \<lparr>gv_enabled = True, gv_maxConcurrent = 2, gv_highWatermark = Fin (4 / 5),
     gv_criticalWatermark = Fin (19 / 20), gv_retryInterval = 2 * second, gv_active = 0\<rparr>"

lemma sample_governor_New: "governor_New sample_config = Inr sample_governor"
  by (simp add: governor_New_def sample_config_def sample_governor_def f_leq_def)

text \<open>
  (C8) Slots are never lost and never exceeded. From a new governor, after any sequence of
  attempts and releases, with any samples and with handles released any number of times, the
  number of active operations is exactly the number of handles that were given out and not yet
  released, and it never passes the configured maximum.
\<close>

theorem governor_slots:
  assumes "governor_New config = Inr g" and "cf_MaxConcurrent config < 2 ^ 63"
  shows "gv_active (gd_governor (governor_run calls g)) = int (held (gd_handles (governor_run calls g)))
         \<and> gv_active (gd_governor (governor_run calls g)) \<le> cf_MaxConcurrent config"
proof -
  have "guard_ok \<lparr>gd_governor = g, gd_handles = []\<rparr>"
    using governor_New_Inr [OF assms(1)] assms(2) by (simp add: guard_ok_def held_def)
  from fold_governor_step_ok [OF this, of calls] show ?thesis
    using governor_New_Inr [OF assms(1)] by (simp add: governor_run_def guard_ok_def)
qed

theorem governor_slots_witness:
  "gv_active (gd_governor (governor_run
      [CallTryAcquire \<lparr>sp_MemoryRatio = None, sp_LoadRatio = Some (Fin (1 / 2))\<rparr> 0,
       CallTryAcquire \<lparr>sp_MemoryRatio = None, sp_LoadRatio = Some (Fin (1 / 2))\<rparr> 1,
       CallRelease 0, CallRelease 0] sample_governor)) = 1
   \<and> (1 :: int) \<le> 2"
proof -
  let ?calls = "[CallTryAcquire \<lparr>sp_MemoryRatio = None, sp_LoadRatio = Some (Fin (1 / 2))\<rparr> 0,
       CallTryAcquire \<lparr>sp_MemoryRatio = None, sp_LoadRatio = Some (Fin (1 / 2))\<rparr> 1,
       CallRelease 0, CallRelease 0]"
  have "gd_handles (governor_run ?calls sample_governor) = [True, False]"
    by (simp add: governor_run_def TryAcquire_def snapshotLocked_def capacity_def safeRatio_def
        sample_governor_def f_is_inf_def f_leq_def wrap64_def release_slot_def)
  then show ?thesis
    using governor_slots [OF sample_governor_New, of ?calls]
    by (simp add: sample_config_def held_def)
qed

text \<open>The ratios of a sample that the governor takes into account.\<close>

definition usable :: "Sample \<Rightarrow> rat set" where
  "usable s = {x. 0 \<le> x \<and> (sp_MemoryRatio s = Some (Fin x) \<or> sp_LoadRatio s = Some (Fin x))}"

lemma safeRatio_cases:
  obtains r where "safeRatio v = map_option Fin r"
    and "\<And>x. r = Some x \<longleftrightarrow> 0 \<le> x \<and> v = Some (Fin x)"
proof (cases v)
  case None
  then show ?thesis by (intro that [of None]) (auto simp: safeRatio_def)
next
  case (Some y)
  then show ?thesis
    by (cases y; intro that [of "case y of Fin x \<Rightarrow> if 0 \<le> x then Some x else None | _ \<Rightarrow> None"])
       (auto simp: safeRatio_def f_is_inf_def)
qed

lemma capacity_usable:
  assumes "gv_enabled g" and "gv_criticalWatermark g = Fin c" and "gv_highWatermark g = Fin h"
  shows "capacity g (safeRatio (sp_MemoryRatio s)) (safeRatio (sp_LoadRatio s)) =
     (if usable s = {} then (PressureUnknown, gv_maxConcurrent g)
      else if \<exists>x \<in> usable s. c \<le> x then (PressureCritical, 0)
      else if \<exists>x \<in> usable s. h \<le> x
      then (PressureConstrained, max 1 (go_div (wrap64 (gv_maxConcurrent g + 1)) 2))
      else (PressureNormal, gv_maxConcurrent g))"
proof -
  obtain m where m: "safeRatio (sp_MemoryRatio s) = map_option Fin m"
    "\<And>x. m = Some x \<longleftrightarrow> 0 \<le> x \<and> sp_MemoryRatio s = Some (Fin x)"
    by (rule safeRatio_cases) auto
  obtain l where l: "safeRatio (sp_LoadRatio s) = map_option Fin l"
    "\<And>x. l = Some x \<longleftrightarrow> 0 \<le> x \<and> sp_LoadRatio s = Some (Fin x)"
    by (rule safeRatio_cases) auto
  have u: "usable s = set_option m \<union> set_option l"
    using m(2) l(2) by (auto simp: usable_def)
  have leq: "f_leq (Fin a) (Fin b) \<longleftrightarrow> a \<le> b" and max: "f_max (Fin a) (Fin b) = Fin (max a b)" for a b
    by (auto simp: f_leq_def f_max_def)
  show ?thesis
    unfolding m(1) l(1) u using assms
    by (cases m; cases l) (simp_all add: capacity_def leq max le_max_iff_disj)
qed

text \<open>
  What an attempt decides. With adaptive control on, a sample without a usable ratio leaves
  the configured maximum in force; a usable ratio at or above the critical watermark refuses
  every attempt; one at or above the high watermark halves the maximum, rounded up; otherwise the
  maximum holds. With adaptive control off the maximum always holds. NaN, infinite and negative
  ratios are not usable, and an attempt succeeds exactly when the active operations are below the
  limit.
\<close>

theorem TryAcquire_decides:
  assumes "governor_New config = Inr g0" and "cf_MaxConcurrent config < 2 ^ 63 - 1"
    and "cf_HighWatermark config = Fin h" and "cf_CriticalWatermark config = Fin c"
    and "g = g0\<lparr>gv_active := n\<rparr>" and "0 \<le> n" and "n \<le> cf_MaxConcurrent config"
    and "TryAcquire g s t = (g', snap, ok)"
  shows "ok = (n < (if cf_Enabled config \<and> (\<exists>x \<in> usable s. c \<le> x) then 0
                    else if cf_Enabled config \<and> (\<exists>x \<in> usable s. h \<le> x)
                    then (cf_MaxConcurrent config + 1) div 2
                    else cf_MaxConcurrent config))
         \<and> g' = g\<lparr>gv_active := (if ok then n + 1 else n)\<rparr>"
proof -
  note new = governor_New_Inr [OF assms(1)]
  have range: "gv_active g < 2 ^ 63 - 1" "0 \<le> gv_active g"
    using assms(2,5-7) by auto
  have g: "gv_active g = n" "gv_maxConcurrent g = cf_MaxConcurrent config"
    "gv_enabled g = cf_Enabled config" "gv_highWatermark g = Fin h" "gv_criticalWatermark g = Fin c"
    using assms(3-5) new by simp_all
  have half: "max 1 (go_div (wrap64 (cf_MaxConcurrent config + 1)) 2) = (cf_MaxConcurrent config + 1) div 2"
    using new(3) assms(2) by (rule half_exact)
  have limit: "snd (capacity g (safeRatio (sp_MemoryRatio s)) (safeRatio (sp_LoadRatio s))) =
      (if cf_Enabled config \<and> (\<exists>x \<in> usable s. c \<le> x) then 0
       else if cf_Enabled config \<and> (\<exists>x \<in> usable s. h \<le> x)
       then (cf_MaxConcurrent config + 1) div 2 else cf_MaxConcurrent config)"
  proof (cases "cf_Enabled config")
    case True
    then show ?thesis
      using capacity_usable [of g c h s] g half by auto
  next
    case False
    then show ?thesis using g by (simp add: capacity_def)
  qed
  have "ok = (n < (if cf_Enabled config \<and> (\<exists>x \<in> usable s. c \<le> x) then 0
                    else if cf_Enabled config \<and> (\<exists>x \<in> usable s. h \<le> x)
                    then (cf_MaxConcurrent config + 1) div 2
                    else cf_MaxConcurrent config))"
    using TryAcquire_cases(1) [OF assms(8) range] unfolding snapshotLocked_simps limit g(1) .
  moreover have "g' = g\<lparr>gv_active := (if ok then n + 1 else n)\<rparr>"
    using TryAcquire_cases(2) [OF assms(8) range] g(1) by (cases g) auto
  ultimately show ?thesis ..
qed

theorem TryAcquire_decides_witness:
  "\<not> snd (snd (TryAcquire (sample_governor\<lparr>gv_active := 1\<rparr>)
      \<lparr>sp_MemoryRatio = Some (Fin (9 / 10)), sp_LoadRatio = Some NaN\<rparr> 0))"
proof -
  let ?s = "\<lparr>sp_MemoryRatio = Some (Fin (9 / 10)), sp_LoadRatio = Some NaN\<rparr>"
  let ?g = "sample_governor\<lparr>gv_active := 1\<rparr>"
  obtain g' sn ok where t: "TryAcquire ?g ?s 0 = (g', sn, ok)"
    by (metis prod_cases3)
  have u: "usable ?s = {9 / 10}"
    by (auto simp: usable_def)
  have "4 / 5 \<le> (9 / 10 :: rat)" "\<not> 19 / 20 \<le> (9 / 10 :: rat)"
    by simp_all
  then have w: "\<exists>x \<in> usable ?s. 4 / 5 \<le> x" "\<not> (\<exists>x \<in> usable ?s. 19 / 20 \<le> x)"
    unfolding u by blast+
  have "ok = (1 < (2 + 1) div (2 :: int))"
    using TryAcquire_decides [OF sample_governor_New _ _ _ refl _ _ t, of "4 / 5" "19 / 20"] w
    by (simp add: sample_config_def)
  then show ?thesis
    using t by simp
qed

text \<open>
  Waiting for a slot ends. \<^verbatim>\<open>Acquire\<close> returns at the latest in the turn in which
  its context is done; it returns a slot, taken within the limit of that turn, or the context's
  error, and then it has taken no slot.
\<close>

theorem Acquire_returns:
  assumes "\<exists>t \<in> set ts. tn_done t \<noteq> None"
    and "\<And>t g. t \<in> set ts \<Longrightarrow> 0 \<le> gv_active g \<and> gv_active g < 2 ^ 63 - 1 \<Longrightarrow>
           0 \<le> gv_active (tn_others t g) \<and> gv_active (tn_others t g) < 2 ^ 63 - 1"
    and "0 \<le> gv_active g" and "gv_active g < 2 ^ 63 - 1"
  shows "\<exists>t \<in> set ts. \<exists>gt. 0 \<le> gv_active gt \<and>
     ((\<exists>snap. Acquire ts g = Some (gt\<lparr>gv_active := gv_active gt + 1\<rparr>, Inr snap)
              \<and> gv_active gt < sn_OperationLimit (snapshotLocked gt (tn_sample t) (tn_now t)))
      \<or> (\<exists>e. tn_done t = Some e \<and> Acquire ts g = Some (tn_others t gt, Inl e)))"
  using assms
proof (induction ts arbitrary: g)
  case Nil
  then show ?case by simp
next
  case (Cons t ts)
  obtain g' sn ok where a: "TryAcquire g (tn_sample t) (tn_now t) = (g', sn, ok)"
    by (metis prod_cases3)
  note c = TryAcquire_cases [OF a Cons.prems(4,3)]
  show ?case
  proof (cases ok)
    case True
    then have "Acquire (t # ts) g = Some (g\<lparr>gv_active := gv_active g + 1\<rparr>, Inr sn)"
      using a c(2) by simp
    with True c(1) Cons.prems(3) show ?thesis
      by (metis list.set_intros(1))
  next
    case False
    then have g': "g' = g" using c(2) by simp
    show ?thesis
    proof (cases "tn_done t")
      case (Some e)
      then have "Acquire (t # ts) g = Some (tn_others t g, Inl e)"
        using a False g' by simp
      with Some Cons.prems(3) show ?thesis
        by (metis list.set_intros(1))
    next
      case None
      then have step: "Acquire (t # ts) g = Acquire ts (tn_others t g)"
        using a False g' by simp
      have "0 \<le> gv_active (tn_others t g) \<and> gv_active (tn_others t g) < 2 ^ 63 - 1"
        using Cons.prems(2) [of t g] Cons.prems(3,4) by simp
      moreover have "\<exists>t \<in> set ts. tn_done t \<noteq> None"
        using None Cons.prems(1) by simp
      ultimately show ?thesis
        unfolding step using Cons.IH [of "tn_others t g"] Cons.prems(2) by auto
    qed
  qed
qed

theorem Acquire_returns_witness:
  "\<exists>r. Acquire [\<lparr>tn_sample = \<lparr>sp_MemoryRatio = Some (Fin 1), sp_LoadRatio = None\<rparr>, tn_now = 0,
                 tn_others = (\<lambda>g. g), tn_done = Some ContextCanceled\<rparr>] sample_governor = Some r"
  using Acquire_returns [of "[\<lparr>tn_sample = \<lparr>sp_MemoryRatio = Some (Fin 1), sp_LoadRatio = None\<rparr>,
      tn_now = 0, tn_others = (\<lambda>g. g), tn_done = Some ContextCanceled\<rparr>]" sample_governor]
  by (fastforce simp: sample_governor_def)

end
