(* ===== verification/Gateway_Cache.thy ===== *)
theory Gateway_Cache
  imports Governor "HOL-Library.AList"
begin

text \<open>
  The cache of Kubernetes clients, \<^verbatim>\<open>internal/platform/gateway_cache.go\<close>.

  A Go map is an association list with distinct keys, in some iteration order; a map of counters
  with default zero is a function. The pointer \<^verbatim>\<open>*gatewayCacheBuild\<close> that waiting
  goroutines share is an index into \<open>gc_heap\<close>. Gateways are values of a type variable, and
  \<open>gc_idle\<close> records the gateways handed to \<^verbatim>\<open>closeIdleGateways\<close>, in order.

  \<^verbatim>\<open>Get\<close> holds the mutex twice, around the call of the builder. Each critical section is
  one function (\<open>get_lookup\<close>, \<open>get_publish\<close>), the rest of the method is the program
  counter \<open>get_pc\<close> of a goroutine, and \<open>cache_step\<close> interleaves any number of goroutines
  inside \<^verbatim>\<open>Get\<close> with the other methods. \<open>Get\<close> is the method run to its end without
  interleaving.
\<close>

section \<open>State\<close>

definition defaultGatewayCacheSize :: int where "defaultGatewayCacheSize = 8"
definition maximumGatewayCacheSize :: int where "maximumGatewayCacheSize = 64"
definition defaultGatewayCacheTTL :: duration where "defaultGatewayCacheTTL = 10 * minute"
definition minimumGatewayCacheTTL :: duration where "minimumGatewayCacheTTL = minute"
definition maximumGatewayCacheTTL :: duration where "maximumGatewayCacheTTL = hour"

type_synonym gatewayFingerprint = string

record 'gw gatewayCacheEntry =
  ce_fingerprint :: gatewayFingerprint
  ce_gateway :: 'gw
  ce_lastUsed :: gtime

record gatewayCacheBuild =
  bd_fingerprint :: gatewayFingerprint
  bd_done :: bool
  bd_err :: "go_error option"

record gatewayCacheSnapshot =
  cs_Entries :: int
  cs_Capacity :: int
  cs_Maximum :: int
  cs_Building :: int

record 'gw gatewayCache =
  gc_entries :: "(string \<times> 'gw gatewayCacheEntry) list"
  gc_builds :: "(string \<times> nat) list"
  gc_generations :: "string \<Rightarrow> 64 word"
  gc_maximum :: int
  gc_capacity :: int
  gc_ttl :: duration
  gc_closed :: bool
  gc_heap :: "gatewayCacheBuild list"
  gc_idle :: "'gw list"

definition newGatewayCache :: "int \<Rightarrow> duration \<Rightarrow> 'gw gatewayCache result" where
  "newGatewayCache maximum ttl =
     (if maximum < 1 \<or> maximum > maximumGatewayCacheSize
      then Inl (NewError ''Kubernetes client cache size must be between 1 and 64'')
      else if ttl < minimumGatewayCacheTTL \<or> ttl > maximumGatewayCacheTTL
      then Inl (NewError ''Kubernetes client cache TTL must be between 1m and 1h'')
      else Inr \<lparr>gc_entries = [], gc_builds = [], gc_generations = (\<lambda>_. 0), gc_maximum = maximum,
                gc_capacity = maximum, gc_ttl = ttl, gc_closed = False, gc_heap = [],
                gc_idle = []\<rparr>)"

section \<open>Expiry and eviction\<close>

definition closeIdleGateways :: "'gw list \<Rightarrow> 'gw gatewayCache \<Rightarrow> 'gw gatewayCache" where
  "closeIdleGateways gateways c = c\<lparr>gc_idle := gc_idle c @ gateways\<rparr>"

definition fresh :: "duration \<Rightarrow> gtime \<Rightarrow> 'gw gatewayCacheEntry \<Rightarrow> bool" where
  "fresh ttl now e \<longleftrightarrow> now < ce_lastUsed e + ttl"

definition expireLocked :: "gtime \<Rightarrow> 'gw gatewayCache \<Rightarrow> 'gw gatewayCache \<times> 'gw list" where
  "expireLocked now c =
     (c\<lparr>gc_entries := filter (\<lambda>(k, e). fresh (gc_ttl c) now e) (gc_entries c)\<rparr>,
      map (ce_gateway \<circ> snd) (filter (\<lambda>(k, e). \<not> fresh (gc_ttl c) now e) (gc_entries c)))"

fun oldest_entry ::
  "(string \<times> 'gw gatewayCacheEntry) list \<Rightarrow> (string \<times> gtime) option \<Rightarrow> (string \<times> gtime) option" where
  "oldest_entry [] oldest = oldest"
| "oldest_entry ((clusterID, entry) # es) oldest =
     oldest_entry es
       (case oldest of
          None \<Rightarrow> Some (clusterID, ce_lastUsed entry)
        | Some (oldestID, oldestTime) \<Rightarrow>
            if ce_lastUsed entry < oldestTime
               \<or> (ce_lastUsed entry = oldestTime \<and> clusterID < oldestID)
            then Some (clusterID, ce_lastUsed entry) else oldest)"

lemma oldest_entry_in:
  "oldest_entry es acc = Some (k, t) \<Longrightarrow>
     acc = Some (k, t) \<or> (\<exists>e. (k, e) \<in> set es \<and> ce_lastUsed e = t)"
proof (induction es acc rule: oldest_entry.induct)
  case (2 clusterID entry es oldest)
  from 2(1) [OF 2(2) [unfolded oldest_entry.simps]] show ?case
    by (auto split: option.splits if_splits)
qed simp

lemma delete_shorter: "k \<in> fst ` set xs \<Longrightarrow> length (AList.delete k xs) < length xs"
proof (induction xs)
  case (Cons x xs)
  have "length (AList.delete k xs) \<le> length xs"
    by (simp add: AList.length_delete_le)
  with Cons show ?case by auto
qed simp

function evict_entries ::
  "int \<Rightarrow> (string \<times> 'gw gatewayCacheEntry) list \<Rightarrow>
     (string \<times> 'gw gatewayCacheEntry) list \<times> 'gw list" where
  "evict_entries cap es =
     (if int (length es) > cap
      then case oldest_entry es None of
          None \<Rightarrow> (es, [])
        | Some (oldestID, oldestTime) \<Rightarrow>
            (let (es', retired) = evict_entries cap (AList.delete oldestID es)
             in (es', (case map_of es oldestID of Some e \<Rightarrow> [ce_gateway e] | None \<Rightarrow> []) @ retired))
      else (es, []))"
  by pat_completeness auto
termination
proof (relation "measure (length \<circ> snd)", simp)
  fix cap :: int and es :: "(string \<times> 'a gatewayCacheEntry) list" and x2 oldestID oldestTime
  assume "oldest_entry es None = Some x2" and "(oldestID, oldestTime) = x2"
  then have "oldestID \<in> fst ` set es"
    by (metis fst_conv image_eqI oldest_entry_in option.distinct(1))
  then show "((cap, AList.delete oldestID es), cap, es) \<in> measure (length \<circ> snd)"
    by (simp add: delete_shorter)
qed

declare evict_entries.simps [simp del]

definition evictLocked :: "'gw gatewayCache \<Rightarrow> 'gw gatewayCache \<times> 'gw list" where
  "evictLocked c =
     (let (es, retired) = evict_entries (gc_capacity c) (gc_entries c)
      in (c\<lparr>gc_entries := es\<rparr>, retired))"

definition adaptiveGatewayCacheCapacity :: "int \<Rightarrow> Snapshot \<Rightarrow> int" where
  "adaptiveGatewayCacheCapacity maximum snapshot =
     (if \<not> sn_Adaptive snapshot then maximum
      else case sn_Pressure snapshot of
          PressureConstrained \<Rightarrow> max 1 (go_div (wrap64 (maximum + 1)) 2)
        | PressureCritical \<Rightarrow> 1
        | _ \<Rightarrow> maximum)"

section \<open>Operations\<close>

datatype 'gw lookup_outcome =
    LookupClosed
  | LookupHit 'gw
  | LookupPending nat
  | LookupBuild "64 word" nat

text \<open>The part of the first critical section after the entries were looked at.\<close>

definition join_or_start ::
  "string \<Rightarrow> gatewayFingerprint \<Rightarrow> 'gw gatewayCache \<Rightarrow> 'gw gatewayCache \<times> 'gw lookup_outcome" where
  "join_or_start clusterID fingerprint c =
     (case map_of (gc_builds c) clusterID of
        Some pending \<Rightarrow> (c, LookupPending pending)
      | None \<Rightarrow>
          (let generation = gc_generations c clusterID; pending = length (gc_heap c)
           in (c\<lparr>gc_builds := AList.update clusterID pending (gc_builds c),
                 gc_heap := gc_heap c @
                   [\<lparr>bd_fingerprint = fingerprint, bd_done = False, bd_err = None\<rparr>]\<rparr>,
               LookupBuild generation pending)))"

definition get_lookup ::
  "gtime \<Rightarrow> string \<Rightarrow> gatewayFingerprint \<Rightarrow> 'gw gatewayCache \<Rightarrow>
     'gw gatewayCache \<times> 'gw lookup_outcome" where
  "get_lookup now clusterID fingerprint c =
     (if gc_closed c then (c, LookupClosed)
      else let (c, retired) = expireLocked now c in
        case map_of (gc_entries c) clusterID of
          Some entry \<Rightarrow>
            if ce_fingerprint entry = fingerprint
            then (closeIdleGateways retired
                    (c\<lparr>gc_entries :=
                         AList.update clusterID (entry\<lparr>ce_lastUsed := now\<rparr>) (gc_entries c)\<rparr>),
                  LookupHit (ce_gateway entry))
            else (let (c, out) = join_or_start clusterID fingerprint
                        (c\<lparr>gc_entries := AList.delete clusterID (gc_entries c)\<rparr>)
                  in (closeIdleGateways (retired @ [ce_gateway entry]) c, out))
        | None \<Rightarrow>
            (let (c, out) = join_or_start clusterID fingerprint c
             in (closeIdleGateways retired c, out)))"

text \<open>
  The second critical section: the builder returned \<open>gateway\<close> (\<open>None\<close> is nil) and
  \<open>buildErr\<close>.
\<close>

definition store_gateway ::
  "string \<Rightarrow> gatewayFingerprint \<Rightarrow> 'gw \<Rightarrow> gtime \<Rightarrow> 'gw gatewayCache \<Rightarrow> 'gw gatewayCache \<times> 'gw list" where
  "store_gateway clusterID fingerprint gateway now c =
     (let retired = (case map_of (gc_entries c) clusterID of
                       Some existing \<Rightarrow> [ce_gateway existing] | None \<Rightarrow> []);
          entry = \<lparr>ce_fingerprint = fingerprint, ce_gateway = gateway, ce_lastUsed = now\<rparr>;
          c = c\<lparr>gc_entries := AList.update clusterID entry
                                (AList.delete clusterID (gc_entries c))\<rparr>;
          (c, evicted) = evictLocked c
      in (c, retired @ evicted))"

definition get_publish ::
  "string \<Rightarrow> gatewayFingerprint \<Rightarrow> 64 word \<Rightarrow> nat \<Rightarrow> 'gw option \<times> go_error option \<Rightarrow> gtime \<Rightarrow>
     'gw gatewayCache \<Rightarrow> 'gw gatewayCache \<times> 'gw result" where
  "get_publish clusterID fingerprint generation pending built now c =
     (let c = c\<lparr>gc_builds := AList.delete clusterID (gc_builds c)\<rparr>;
          (c, retired, res) =
            (case built of
               (gateway, Some buildErr) \<Rightarrow>
                 (c, (case gateway of Some g \<Rightarrow> [g] | None \<Rightarrow> []), Inl buildErr)
             | (None, None) \<Rightarrow>
                 (c, [], Inl (NewError ''Kubernetes gateway builder returned no gateway''))
             | (Some gateway, None) \<Rightarrow>
                 if gc_closed c \<or> gc_generations c clusterID \<noteq> generation
                 then (c, [gateway], Inl ErrInvalidState)
                 else (let (c, retired) = store_gateway clusterID fingerprint gateway now c
                       in (c, retired, Inr gateway)));
          build = (gc_heap c ! pending)\<lparr>bd_done := True,
                     bd_err := (case res of Inl e \<Rightarrow> Some e | Inr g \<Rightarrow> None)\<rparr>
      in (closeIdleGateways retired (c\<lparr>gc_heap := (gc_heap c)[pending := build]\<rparr>), res))"

definition Invalidate :: "string \<Rightarrow> 'gw gatewayCache \<Rightarrow> 'gw gatewayCache" where
  "Invalidate clusterID c =
     (let c = c\<lparr>gc_generations := (gc_generations c)(clusterID := gc_generations c clusterID + 1)\<rparr>
      in case map_of (gc_entries c) clusterID of
          Some entry \<Rightarrow>
            closeIdleGateways [ce_gateway entry]
              (c\<lparr>gc_entries := AList.delete clusterID (gc_entries c)\<rparr>)
        | None \<Rightarrow> closeIdleGateways [] c)"

definition Reconcile :: "Snapshot \<Rightarrow> gtime \<Rightarrow> 'gw gatewayCache \<Rightarrow> 'gw gatewayCache" where
  "Reconcile snapshot now c =
     (if gc_closed c then closeIdleGateways [] c
      else let c = c\<lparr>gc_capacity := adaptiveGatewayCacheCapacity (gc_maximum c) snapshot\<rparr>;
               (c, expired) = expireLocked now c;
               (c, evicted) = evictLocked c
           in closeIdleGateways (expired @ evicted) c)"

definition cache_Snapshot :: "'gw gatewayCache \<Rightarrow> gatewayCacheSnapshot" where
  "cache_Snapshot c = \<lparr>cs_Entries = int (length (gc_entries c)), cs_Capacity = gc_capacity c,
     cs_Maximum = gc_maximum c, cs_Building = int (length (gc_builds c))\<rparr>"

definition cache_Close :: "'gw gatewayCache \<Rightarrow> 'gw gatewayCache" where
  "cache_Close c =
     (if gc_closed c then closeIdleGateways [] c
      else closeIdleGateways (map (ce_gateway \<circ> snd) (gc_entries c))
             (c\<lparr>gc_closed := True, gc_entries := []\<rparr>))"

definition clusterGatewayFingerprint :: "(string \<Rightarrow> string) \<Rightarrow> Cluster \<Rightarrow> gatewayFingerprint" where
  "clusterGatewayFingerprint sha256 cluster =
     sha256 (cl_Server cluster @ [CHR 0x00] @ cl_CACertCiphertext cluster @ [CHR 0x00]
             @ cl_BearerTokenCiphertext cluster)"

text \<open>
  \<^verbatim>\<open>Get\<close> from its first line to its return, when no other goroutine takes the mutex in
  between. \<open>build\<close> is the builder, given as what it returns if it is called (\<open>None\<close>: a
  nil builder); the boolean of the result says whether it was called. Where it has to wait for
  the build of another goroutine, which then never ends, only its context ends the wait, with
  error \<open>done\<close>.
\<close>

definition Get ::
  "go_ctx \<Rightarrow> go_error \<Rightarrow> gtime \<Rightarrow> string \<Rightarrow> gatewayFingerprint \<Rightarrow>
     ('gw option \<times> go_error option) option \<Rightarrow> gtime \<Rightarrow>
     'gw gatewayCache \<Rightarrow> 'gw gatewayCache \<times> bool \<times> 'gw result" where
  "Get ctx done now clusterID fingerprint build built_at c =
     (case ctx of
        Some e \<Rightarrow> (c, False, Inl e)
      | None \<Rightarrow>
          (case build of
             None \<Rightarrow> (c, False, Inl (NewError ''Kubernetes gateway builder is required''))
           | Some built \<Rightarrow>
               (case get_lookup now clusterID fingerprint c of
                  (c, LookupClosed) \<Rightarrow> (c, False, Inl ErrInvalidState)
                | (c, LookupHit gateway) \<Rightarrow> (c, False, Inr gateway)
                | (c, LookupPending pending) \<Rightarrow> (c, False, Inl done)
                | (c, LookupBuild generation pending) \<Rightarrow>
                    (let (c, res) = get_publish clusterID fingerprint generation pending built built_at c
                     in (c, True, res)))))"

section \<open>Interleaving\<close>

datatype 'gw get_pc =
    AtLoop
  | AtWait nat
  | AtBuild "64 word" nat
  | Returned "'gw result"

record 'gw get_proc =
  pr_id :: string
  pr_fingerprint :: gatewayFingerprint
  pr_pc :: "'gw get_pc"

fun after_lookup :: "'gw lookup_outcome \<Rightarrow> 'gw get_pc" where
  "after_lookup LookupClosed = Returned (Inl ErrInvalidState)"
| "after_lookup (LookupHit g) = Returned (Inr g)"
| "after_lookup (LookupPending p) = AtWait p"
| "after_lookup (LookupBuild gen p) = AtBuild gen p"

text \<open>
  The loop of a goroutine after \<^verbatim>\<open><-pending.done\<close> fired.
\<close>

definition after_wait :: "gatewayFingerprint \<Rightarrow> gatewayCacheBuild \<Rightarrow> 'gw get_pc" where
  "after_wait fingerprint pending =
     (case bd_err pending of
        Some e \<Rightarrow> if bd_fingerprint pending = fingerprint then Returned (Inl e) else AtLoop
      | None \<Rightarrow> AtLoop)"

type_synonym 'gw cache_conf = "'gw gatewayCache \<times> 'gw get_proc list"

datatype 'gw cache_label =
    LInvalidate string
  | LBuilt "'gw option"
  | LOther

inductive cache_step :: "'gw cache_conf \<Rightarrow> 'gw cache_label \<Rightarrow> 'gw cache_conf \<Rightarrow> bool" where
  call: "cache_step (c, ps) LOther
           (c, ps @ [\<lparr>pr_id = i, pr_fingerprint = f,
                      pr_pc = (case ctx of Some e \<Rightarrow> Returned (Inl e) | None \<Rightarrow> AtLoop)\<rparr>])"
| look: "n < length ps \<Longrightarrow> pr_pc (ps ! n) = AtLoop \<Longrightarrow>
         get_lookup now (pr_id (ps ! n)) (pr_fingerprint (ps ! n)) c = (c', out) \<Longrightarrow>
         cache_step (c, ps) LOther (c', ps[n := (ps ! n)\<lparr>pr_pc := after_lookup out\<rparr>])"
| wake: "n < length ps \<Longrightarrow> pr_pc (ps ! n) = AtWait p \<Longrightarrow> bd_done (gc_heap c ! p) \<Longrightarrow>
         cache_step (c, ps) LOther
           (c, ps[n := (ps ! n)\<lparr>pr_pc := after_wait (pr_fingerprint (ps ! n)) (gc_heap c ! p)\<rparr>])"
| leave: "n < length ps \<Longrightarrow> pr_pc (ps ! n) = AtWait p \<Longrightarrow>
          cache_step (c, ps) LOther (c, ps[n := (ps ! n)\<lparr>pr_pc := Returned (Inl e)\<rparr>])"
| publish: "n < length ps \<Longrightarrow> pr_pc (ps ! n) = AtBuild gen p \<Longrightarrow>
            get_publish (pr_id (ps ! n)) (pr_fingerprint (ps ! n)) gen p built now c = (c', res) \<Longrightarrow>
            cache_step (c, ps) (LBuilt (fst built)) (c', ps[n := (ps ! n)\<lparr>pr_pc := Returned res\<rparr>])"
| invalidate: "cache_step (c, ps) (LInvalidate i) (Invalidate i c, ps)"
| reconcile: "cache_step (c, ps) LOther (Reconcile snap now c, ps)"
| close: "cache_step (c, ps) LOther (cache_Close c, ps)"

inductive cache_path :: "'gw cache_conf \<Rightarrow> 'gw cache_label list \<Rightarrow> 'gw cache_conf \<Rightarrow> bool" for s0 where
  here: "cache_path s0 [] s0"
| there: "cache_path s0 ls s \<Longrightarrow> cache_step s l s' \<Longrightarrow> cache_path s0 (ls @ [l]) s'"

inductive_cases cache_stepE: "cache_step (c, ps) l s'"

section \<open>Eviction\<close>

text \<open>The order in which entries are evicted: least recently used first, then by cluster.\<close>

definition lru_before :: "string \<times> gtime \<Rightarrow> string \<times> gtime \<Rightarrow> bool" where
  "lru_before x y \<longleftrightarrow> snd x < snd y \<or> (snd x = snd y \<and> fst x \<le> fst y)"

abbreviation lru_key :: "string \<times> 'gw gatewayCacheEntry \<Rightarrow> string \<times> gtime" where
  "lru_key x \<equiv> (fst x, ce_lastUsed (snd x))"

abbreviation gateways :: "(string \<times> 'gw gatewayCacheEntry) list \<Rightarrow> 'gw list" where
  "gateways es \<equiv> map (ce_gateway \<circ> snd) es"

lemma lru_before_trans: "lru_before x y \<Longrightarrow> lru_before y z \<Longrightarrow> lru_before x z"
  by (auto simp: lru_before_def)

lemma lru_before_refl [simp]: "lru_before x x"
  by (simp add: lru_before_def)

lemma oldest_entry_least:
  "oldest_entry es acc = Some m \<Longrightarrow>
     (\<forall>x \<in> set es. lru_before m (lru_key x)) \<and> (\<forall>a. acc = Some a \<longrightarrow> lru_before m a)"
proof (induction es acc rule: oldest_entry.induct)
  case (1 acc)
  then show ?case by simp
next
  case (2 k e es acc)
  note IH = 2(1) [OF 2(2) [unfolded oldest_entry.simps]]
  show ?case
  proof (cases acc)
    case None
    then show ?thesis using IH by auto
  next
    case (Some a)
    obtain i t where a: "a = (i, t)" by fastforce
    show ?thesis
    proof (cases "ce_lastUsed e < t \<or> (ce_lastUsed e = t \<and> k < i)")
      case True
      then have before: "lru_before (k, ce_lastUsed e) a" by (auto simp: lru_before_def a)
      have h: "\<forall>x \<in> set es. lru_before m (lru_key x)" "lru_before m (k, ce_lastUsed e)"
        using IH True by (simp_all add: Some a)
      show ?thesis
        using h lru_before_trans [OF h(2) before] by (simp add: Some)
    next
      case False
      then have before: "lru_before a (k, ce_lastUsed e)" by (auto simp: lru_before_def a)
      have h: "\<forall>x \<in> set es. lru_before m (lru_key x)" "lru_before m a"
        using IH False by (simp_all add: Some a)
      show ?thesis
        using h lru_before_trans [OF h(2) before] by (simp add: Some)
    qed
  qed
qed

lemma oldest_entry_None [simp]: "oldest_entry es acc = None \<longleftrightarrow> es = [] \<and> acc = None"
  by (induction es acc rule: oldest_entry.induct) (auto split: option.splits if_splits)

lemma oldest_entry_member:
  assumes "oldest_entry es None = Some (k, t)" and "distinct (map fst es)"
  obtains e where "map_of es k = Some e" and "ce_lastUsed e = t" and "(k, e) \<in> set es"
  using assms oldest_entry_in by fastforce

lemma delete_eq_filter: "AList.delete k xs = filter (\<lambda>x. fst x \<noteq> k) xs"
  by (induction xs) auto

lemma mset_delete:
  assumes "distinct (map fst xs)" and "map_of xs k = Some v"
  shows "mset xs = add_mset (k, v) (mset (AList.delete k xs))"
  using assms
proof (induction xs)
  case (Cons x xs)
  show ?case
  proof (cases "fst x = k")
    case True
    then have "AList.delete k xs = xs"
      using Cons.prems(1) by (auto simp: delete_eq_filter filter_id_conv image_iff)
    with True Cons.prems(2) show ?thesis by (cases x) auto
  next
    case False
    with Cons show ?thesis by (cases x) auto
  qed
qed simp

lemma distinct_delete: "distinct (map fst xs) \<Longrightarrow> distinct (map fst (AList.delete k xs))"
  by (simp add: AList.distinct_delete)

text \<open>What eviction leaves and what it retires, in one induction.\<close>

lemma evict_entries_spec:
  assumes "distinct (map fst es)" and "evict_entries cap es = (kept, retired)"
  shows "\<exists>gone. mset es = mset kept + mset gone \<and> retired = gateways gone \<and> subseq kept es
           \<and> (\<forall>g \<in> set gone. \<forall>k \<in> set kept. lru_before (lru_key g) (lru_key k))
           \<and> (gone \<noteq> [] \<longrightarrow> cap \<le> int (length kept))
           \<and> (0 \<le> cap \<longrightarrow> int (length kept) \<le> cap)"
  using assms
proof (induction cap es arbitrary: kept retired rule: evict_entries.induct)
  case (1 cap es)
  show ?case
  proof (cases "int (length es) > cap \<and> es \<noteq> []")
    case False
    then have "kept = es \<and> retired = []"
      using "1.prems"(2) by (auto simp: evict_entries.simps [of cap es] split: if_splits)
    moreover have "0 \<le> cap \<longrightarrow> int (length es) \<le> cap"
      using False by auto
    ultimately show ?thesis
      by (intro exI [of _ "[]"]) auto
  next
    case True
    then obtain i t where o: "oldest_entry es None = Some (i, t)"
      by (metis oldest_entry_None option.exhaust surj_pair)
    obtain e where e: "map_of es i = Some e" "ce_lastUsed e = t" "(i, e) \<in> set es"
      using oldest_entry_member [OF o "1.prems"(1)] by blast
    obtain r where r: "evict_entries cap (AList.delete i es) = (kept, r)" "retired = ce_gateway e # r"
      using "1.prems"(2) True o e(1)
      by (auto simp: evict_entries.simps [of cap es] split: prod.splits)
    obtain gone where IH: "mset (AList.delete i es) = mset kept + mset gone" "r = gateways gone"
      "subseq kept (AList.delete i es)"
      "\<forall>g \<in> set gone. \<forall>k \<in> set kept. lru_before (lru_key g) (lru_key k)"
      "gone \<noteq> [] \<longrightarrow> cap \<le> int (length kept)" "0 \<le> cap \<longrightarrow> int (length kept) \<le> cap"
      using "1.IH" [OF _ o refl distinct_delete [OF "1.prems"(1)] r(1)] True by auto
    have es: "mset es = add_mset (i, e) (mset (AList.delete i es))"
      using "1.prems"(1) e(1) by (rule mset_delete)
    have sub: "subseq (AList.delete i es) es"
      by (simp add: delete_eq_filter)
    have "set kept \<subseteq> set es"
      using set_mset_mono [of "mset kept" "mset (AList.delete i es)"] IH(1) es
      by (metis mset_subset_eq_add_left order_trans set_mset_add_mset_insert set_mset_mset subset_insertI)
    then have least: "\<forall>k \<in> set kept. lru_before (i, ce_lastUsed e) (lru_key k)"
      using oldest_entry_least [OF o] e(2) by auto
    have "length es = Suc (length (AList.delete i es))"
      using arg_cong [OF es, of size] by simp
    then have "cap \<le> int (length (AList.delete i es))"
      using True by linarith
    moreover have "gone = [] \<Longrightarrow> length (AList.delete i es) = length kept"
      using arg_cong [OF IH(1), of size] by simp
    ultimately have "cap \<le> int (length kept)"
      using IH(5) by (cases "gone = []") auto
    moreover have "subseq kept es"
      using IH(3) sub by (rule subseq_order.order_trans)
    moreover have "\<forall>g \<in> set ((i, e) # gone). \<forall>k \<in> set kept. lru_before (lru_key g) (lru_key k)"
      using least IH(4) by simp
    moreover have "mset es = mset kept + mset ((i, e) # gone)"
      using es IH(1) by simp
    moreover have "retired = gateways ((i, e) # gone)"
      using r(2) IH(2) by simp
    ultimately show ?thesis
      using IH(6) by blast
  qed
qed

section \<open>Effect of the operations on each field\<close>

lemma closeIdle_fields [simp]:
  "gc_entries (closeIdleGateways r c) = gc_entries c" "gc_builds (closeIdleGateways r c) = gc_builds c"
  "gc_generations (closeIdleGateways r c) = gc_generations c"
  "gc_maximum (closeIdleGateways r c) = gc_maximum c" "gc_capacity (closeIdleGateways r c) = gc_capacity c"
  "gc_ttl (closeIdleGateways r c) = gc_ttl c" "gc_closed (closeIdleGateways r c) = gc_closed c"
  "gc_heap (closeIdleGateways r c) = gc_heap c" "gc_idle (closeIdleGateways r c) = gc_idle c @ r"
  by (simp_all add: closeIdleGateways_def)

text \<open>Two cache states that agree on all but the entries and the idle log.\<close>

definition same_frame :: "'gw gatewayCache \<Rightarrow> 'gw gatewayCache \<Rightarrow> bool" where
  "same_frame c d \<longleftrightarrow> gc_builds d = gc_builds c \<and> gc_generations d = gc_generations c
     \<and> gc_maximum d = gc_maximum c \<and> gc_capacity d = gc_capacity c \<and> gc_ttl d = gc_ttl c
     \<and> gc_closed d = gc_closed c \<and> gc_heap d = gc_heap c"

text \<open>
  The gateways of \<open>c\<close> and \<open>extra\<close> ones are all kept or retired by the step to \<open>d\<close>,
  and the new entries have distinct keys.
\<close>

definition conserves :: "'gw gatewayCache \<Rightarrow> 'gw list \<Rightarrow> 'gw gatewayCache \<Rightarrow> 'gw list \<Rightarrow> bool" where
  "conserves c extra d retired \<longleftrightarrow>
     distinct (map fst (gc_entries d))
     \<and> mset (gateways (gc_entries c)) + mset extra = mset (gateways (gc_entries d)) + mset retired"

lemma expireLocked_spec:
  assumes "expireLocked now c = (d, r)" and "distinct (map fst (gc_entries c))"
  shows "same_frame c d" and "conserves c [] d r"
    and "gc_entries d = filter (\<lambda>(k, e). fresh (gc_ttl c) now e) (gc_entries c)"
proof -
  show entries: "gc_entries d = filter (\<lambda>(k, e). fresh (gc_ttl c) now e) (gc_entries c)"
    and "same_frame c d"
    using assms(1) by (auto simp: expireLocked_def same_frame_def)
  have r: "r = gateways (filter (\<lambda>(k, e). \<not> fresh (gc_ttl c) now e) (gc_entries c))"
    using assms(1) by (simp add: expireLocked_def)
  have "mset xs = mset (filter P xs) + mset (filter (\<lambda>x. \<not> P x) xs)" for P and xs :: "(string \<times> 'a gatewayCacheEntry) list"
    by (simp add: multiset_partition)
  from this [of "gc_entries c" "\<lambda>(k, e). fresh (gc_ttl c) now e"]
  have "mset (gateways (gc_entries c)) = mset (gateways (gc_entries d)) + mset r"
    unfolding entries r by (simp add: case_prod_unfold flip: image_mset_union)
  then show "conserves c [] d r"
    using assms(2) entries by (simp add: conserves_def distinct_map_filter)
qed

lemma evictLocked_spec:
  assumes "evictLocked c = (d, r)" and "distinct (map fst (gc_entries c))"
  shows "same_frame c d" and "conserves c [] d r"
    and "subseq (gc_entries d) (gc_entries c)"
    and "0 \<le> gc_capacity c \<Longrightarrow> int (length (gc_entries d)) \<le> gc_capacity c"
proof -
  have ev: "evict_entries (gc_capacity c) (gc_entries c) = (gc_entries d, r)" and "same_frame c d"
    using assms(1) by (auto simp: evictLocked_def same_frame_def split: prod.splits)
  then show "same_frame c d" by simp
  obtain gone where g: "mset (gc_entries c) = mset (gc_entries d) + mset gone" "r = gateways gone"
    and sub: "subseq (gc_entries d) (gc_entries c)"
    and cap: "0 \<le> gc_capacity c \<longrightarrow> int (length (gc_entries d)) \<le> gc_capacity c"
    using evict_entries_spec [OF assms(2) ev] by auto
  show "subseq (gc_entries d) (gc_entries c)" by (rule sub)
  show "0 \<le> gc_capacity c \<Longrightarrow> int (length (gc_entries d)) \<le> gc_capacity c" using cap by simp
  show "conserves c [] d r"
    using g sub assms(2) by (auto simp: conserves_def intro: subseq_distinct_map)
qed

lemma update_new: "map_of xs k = None \<Longrightarrow> AList.update k v xs = xs @ [(k, v)]"
  by (induction xs) (auto split: if_splits)

lemma update_present:
  "distinct (map fst xs) \<Longrightarrow> map_of xs k = Some w \<Longrightarrow> f (k, v) = f (k, w) \<Longrightarrow>
     map f (AList.update k v xs) = map f xs"
  by (induction xs) (auto split: if_splits)

lemma map_of_delete_other: "map_of (AList.delete k xs) j = (if j = k then None else map_of xs j)"
  by (simp add: AList.delete_conv')

lemma map_of_filter_distinct:
  "distinct (map fst xs) \<Longrightarrow>
   map_of (filter (\<lambda>(k, e). P e) xs) i =
     (case map_of xs i of Some e \<Rightarrow> if P e then Some e else None | None \<Rightarrow> None)"
proof (induction xs)
  case (Cons x xs)
  then show ?case
    by (cases x) (auto simp: map_of_eq_None_iff image_iff split: option.splits)
qed simp

text \<open>The well-formedness of a cache on its own.\<close>

definition cache_ok :: "'gw gatewayCache \<Rightarrow> bool" where
  "cache_ok c \<longleftrightarrow>
     distinct (map fst (gc_entries c)) \<and> distinct (map fst (gc_builds c))
     \<and> 1 \<le> gc_capacity c \<and> gc_capacity c \<le> gc_maximum c \<and> gc_maximum c \<le> maximumGatewayCacheSize
     \<and> int (length (gc_entries c)) \<le> gc_capacity c
     \<and> (gc_closed c \<longrightarrow> gc_entries c = [])"

text \<open>Every gateway is in an entry or was handed to \<open>closeIdleGateways\<close>.\<close>

definition all_gateways :: "'gw gatewayCache \<Rightarrow> 'gw multiset" where
  "all_gateways c = mset (gateways (gc_entries c)) + mset (gc_idle c)"

lemma conserves_len:
  "conserves c [] d r \<Longrightarrow> length (gc_entries d) \<le> length (gc_entries c)"
proof -
  assume "conserves c [] d r"
  then have "mset (gateways (gc_entries c)) = mset (gateways (gc_entries d)) + mset r"
    by (simp add: conserves_def)
  from arg_cong [OF this, of size] show ?thesis by simp
qed

lemma join_or_start_spec:
  assumes "join_or_start i f c = (d, out)"
  shows "gc_entries d = gc_entries c" "gc_idle d = gc_idle c" "gc_generations d = gc_generations c"
    "gc_maximum d = gc_maximum c" "gc_capacity d = gc_capacity c" "gc_ttl d = gc_ttl c"
    "gc_closed d = gc_closed c"
    and "(\<exists>p. out = LookupPending p \<and> map_of (gc_builds c) i = Some p
              \<and> gc_builds d = gc_builds c \<and> gc_heap d = gc_heap c)
         \<or> (out = LookupBuild (gc_generations c i) (length (gc_heap c)) \<and> map_of (gc_builds c) i = None
              \<and> gc_builds d = gc_builds c @ [(i, length (gc_heap c))]
              \<and> gc_heap d = gc_heap c @ [\<lparr>bd_fingerprint = f, bd_done = False, bd_err = None\<rparr>])"
  using assms by (auto simp: join_or_start_def Let_def update_new split: option.splits)

text \<open>
  What one run of the first critical section does: nothing on a closed cache; a fresh entry with
  the fingerprint is a hit; otherwise no entry of the cluster is left and the goroutine joins or
  starts a build.
\<close>

lemma get_lookup_cases:
  assumes "get_lookup now i f c = (d, out)" and "distinct (map fst (gc_entries c))"
  obtains (closed) "gc_closed c" "d = c" "out = LookupClosed"
  | (hit) e x r where "\<not> gc_closed c" "conserves c [] x r" "same_frame c x" "gc_idle x = gc_idle c"
      "map_of (filter (\<lambda>(k, e). fresh (gc_ttl c) now e) (gc_entries c)) i = Some e"
      "map_of (gc_entries x) i = Some e" "ce_fingerprint e = f" "out = LookupHit (ce_gateway e)"
      "d = closeIdleGateways r (x\<lparr>gc_entries := AList.update i (e\<lparr>ce_lastUsed := now\<rparr>) (gc_entries x)\<rparr>)"
  | (miss) x r y where "\<not> gc_closed c" "conserves c [] x r" "same_frame c x" "gc_idle x = gc_idle c"
      "\<And>e. map_of (filter (\<lambda>(k, e). fresh (gc_ttl c) now e) (gc_entries c)) i = Some e \<Longrightarrow> ce_fingerprint e \<noteq> f"
      "map_of (gc_entries x) i = None" "join_or_start i f x = (y, out)" "d = closeIdleGateways r y"
proof -
  obtain x r where x: "expireLocked now c = (x, r)" by fastforce
  note ex = expireLocked_spec [OF x assms(2)]
  have idle: "gc_idle x = gc_idle c" using x by (auto simp: expireLocked_def)
  have dx: "distinct (map fst (gc_entries x))" using ex(2) by (simp add: conserves_def)
  show thesis
  proof (cases "gc_closed c")
    case True
    with assms show ?thesis by (intro closed) (auto simp: get_lookup_def)
  next
    case nc: False
    show ?thesis
    proof (cases "map_of (gc_entries x) i")
      case None
      obtain y where "join_or_start i f x = (y, out)" "d = closeIdleGateways r y"
        using assms(1) nc x None by (auto simp: get_lookup_def split: prod.splits)
      with None nc ex idle show ?thesis by (intro miss [of x r y]) auto
    next
      case (Some e)
      show ?thesis
      proof (cases "ce_fingerprint e = f")
        case True
        with assms(1) nc x Some ex idle show ?thesis
          by (intro hit [of x r e]) (auto simp: get_lookup_def)
      next
        case False
        let ?x = "x\<lparr>gc_entries := AList.delete i (gc_entries x)\<rparr>"
        obtain y where y: "join_or_start i f ?x = (y, out)" "d = closeIdleGateways (r @ [ce_gateway e]) y"
          using assms(1) nc x Some False by (auto simp: get_lookup_def split: prod.splits)
        have "conserves c [] ?x (r @ [ce_gateway e])"
          using ex(2) dx arg_cong [OF mset_delete [OF dx Some], of "image_mset (ce_gateway \<circ> snd)"]
          by (simp add: conserves_def distinct_delete)
        moreover have "same_frame c ?x"
          using ex(1) by (simp add: same_frame_def)
        ultimately show ?thesis
          using y nc Some False idle ex(3) by (intro miss [of ?x "r @ [ce_gateway e]" y]) (auto simp: map_of_delete_other)
      qed
    qed
  qed
qed

lemma get_lookup_frame:
  assumes "get_lookup now i f c = (d, out)" and "distinct (map fst (gc_entries c))"
  shows "gc_generations d = gc_generations c" "gc_maximum d = gc_maximum c"
    "gc_capacity d = gc_capacity c" "gc_ttl d = gc_ttl c" "gc_closed d = gc_closed c"
    and "all_gateways d = all_gateways c" and "distinct (map fst (gc_entries d))"
    and "length (gc_entries d) \<le> length (gc_entries c)"
proof -
  have "gc_generations d = gc_generations c \<and> gc_maximum d = gc_maximum c
    \<and> gc_capacity d = gc_capacity c \<and> gc_ttl d = gc_ttl c \<and> gc_closed d = gc_closed c
    \<and> all_gateways d = all_gateways c \<and> distinct (map fst (gc_entries d))
    \<and> length (gc_entries d) \<le> length (gc_entries c)"
    using assms
  proof (cases rule: get_lookup_cases)
    case closed
    with assms show ?thesis by simp
  next
    case (hit e x r)
    let ?u = "AList.update i (e\<lparr>ce_lastUsed := now\<rparr>) (gc_entries x)"
    have dx: "distinct (map fst (gc_entries x))" using hit(2) by (simp add: conserves_def)
    have "gateways ?u = gateways (gc_entries x)" "map fst ?u = map fst (gc_entries x)"
      by (rule update_present [OF dx hit(6)]; simp)+
    moreover from this(2) have "length ?u = length (gc_entries x)" by (metis length_map)
    ultimately show ?thesis
      using hit(2,3,4) dx conserves_len [OF hit(2)]
      by (simp add: hit(9) all_gateways_def conserves_def same_frame_def)
  next
    case (miss x r y)
    with join_or_start_spec(1-7) [OF miss(7)] conserves_len [OF miss(2)] show ?thesis
      by (simp add: miss(8) all_gateways_def conserves_def same_frame_def)
  qed
  then show "gc_generations d = gc_generations c" "gc_maximum d = gc_maximum c"
    "gc_capacity d = gc_capacity c" "gc_ttl d = gc_ttl c" "gc_closed d = gc_closed c"
    and "all_gateways d = all_gateways c" and "distinct (map fst (gc_entries d))"
    and "length (gc_entries d) \<le> length (gc_entries c)" by auto
qed

text \<open>The builds after a lookup: as before, or one more that the goroutine owns.\<close>

lemma get_lookup_builds:
  assumes "get_lookup now i f c = (d, out)" and "distinct (map fst (gc_entries c))"
  obtains (kept) "gc_builds d = gc_builds c" "gc_heap d = gc_heap c" "\<And>g p. out \<noteq> LookupBuild g p"
      "\<And>p. out = LookupPending p \<Longrightarrow> map_of (gc_builds c) i = Some p"
  | (started) "gc_builds d = gc_builds c @ [(i, length (gc_heap c))]" "map_of (gc_builds c) i = None"
      "gc_heap d = gc_heap c @ [\<lparr>bd_fingerprint = f, bd_done = False, bd_err = None\<rparr>]"
      "out = LookupBuild (gc_generations c i) (length (gc_heap c))"
  using assms
proof (cases rule: get_lookup_cases)
  case closed
  then show ?thesis by (intro kept) auto
next
  case (hit e x r)
  then show ?thesis by (intro kept) (auto simp: same_frame_def)
next
  case (miss x r y)
  then have "gc_builds x = gc_builds c" "gc_heap x = gc_heap c" "gc_generations x = gc_generations c"
    by (auto simp: same_frame_def)
  with join_or_start_spec(8) [OF miss(7)] miss(8) show ?thesis
    using kept started by auto
qed

lemma store_gateway_spec:
  assumes "store_gateway i f g now c = (d, r)" and "distinct (map fst (gc_entries c))"
  shows "same_frame c d" "gc_idle d = gc_idle c" "conserves c [g] d r"
    and "0 \<le> gc_capacity c \<Longrightarrow> int (length (gc_entries d)) \<le> gc_capacity c"
proof -
  let ?old = "case map_of (gc_entries c) i of Some e \<Rightarrow> [ce_gateway e] | None \<Rightarrow> []"
  let ?e = "\<lparr>ce_fingerprint = f, ce_gateway = g, ce_lastUsed = now\<rparr>"
  let ?c = "c\<lparr>gc_entries := AList.delete i (gc_entries c) @ [(i, ?e)]\<rparr>"
  have "AList.update i ?e (AList.delete i (gc_entries c)) = AList.delete i (gc_entries c) @ [(i, ?e)]"
    by (rule update_new) (simp add: map_of_delete_other)
  then obtain ev where ev: "evictLocked ?c = (d, ev)" "r = ?old @ ev"
    using assms(1) by (auto simp: store_gateway_def Let_def split: prod.splits)
  have dist: "distinct (map fst (gc_entries ?c))"
    using assms(2) by (auto simp: delete_eq_filter distinct_map_filter)
  have "mset (gateways (gc_entries c)) = mset (gateways (AList.delete i (gc_entries c))) + mset ?old"
  proof (cases "map_of (gc_entries c) i")
    case None
    then have "AList.delete i (gc_entries c) = gc_entries c"
      by (auto simp: delete_eq_filter map_of_eq_None_iff filter_id_conv image_iff)
    with None show ?thesis by simp
  next
    case (Some e)
    from arg_cong [OF mset_delete [OF assms(2) Some], of "image_mset (ce_gateway \<circ> snd)"] Some
    show ?thesis by simp
  qed
  with evictLocked_spec(2) [OF ev(1) dist] show "conserves c [g] d r"
    by (simp add: conserves_def ev(2) ac_simps)
  show "same_frame c d" "gc_idle d = gc_idle c"
    using evictLocked_spec(1) [OF ev(1) dist] ev(1)
    by (auto simp: same_frame_def evictLocked_def split: prod.splits)
  show "0 \<le> gc_capacity c \<Longrightarrow> int (length (gc_entries d)) \<le> gc_capacity c"
    using evictLocked_spec(4) [OF ev(1) dist] by simp
qed

lemma get_publish_cases:
  assumes "get_publish i f gen p built now c = (d, res)"
  obtains (refused) e where "res = Inl e" "gc_entries d = gc_entries c"
      "gc_idle d = gc_idle c @ (case fst built of Some g \<Rightarrow> [g] | None \<Rightarrow> [])"
      "gc_closed d = gc_closed c" "gc_generations d = gc_generations c" "gc_maximum d = gc_maximum c"
      "gc_capacity d = gc_capacity c" "gc_builds d = AList.delete i (gc_builds c)"
      "gc_heap d = (gc_heap c)[p := (gc_heap c ! p)\<lparr>bd_done := True, bd_err := Some e\<rparr>]"
      "built = (fst built, None) \<Longrightarrow> fst built \<noteq> None \<Longrightarrow> e = ErrInvalidState"
  | (stored) g x r where "built = (Some g, None)" "res = Inr g" "\<not> gc_closed c" "gc_generations c i = gen"
      "store_gateway i f g now (c\<lparr>gc_builds := AList.delete i (gc_builds c)\<rparr>) = (x, r)"
      "d = closeIdleGateways r (x\<lparr>gc_heap :=
             (gc_heap x)[p := (gc_heap x ! p)\<lparr>bd_done := True, bd_err := None\<rparr>]\<rparr>)"
proof (cases "\<exists>g. built = (Some g, None) \<and> \<not> gc_closed c \<and> gc_generations c i = gen")
  case True
  then obtain g where g: "built = (Some g, None)" "\<not> gc_closed c" "gc_generations c i = gen" by auto
  with assms show ?thesis
    by (auto simp: get_publish_def Let_def split: prod.splits intro!: stored)
next
  case False
  let ?e = "case snd built of Some e \<Rightarrow> e | None \<Rightarrow>
      if fst built = None then NewError ''Kubernetes gateway builder returned no gateway'' else ErrInvalidState"
  let ?d = "closeIdleGateways (case fst built of Some g \<Rightarrow> [g] | None \<Rightarrow> [])
         (c\<lparr>gc_builds := AList.delete i (gc_builds c),
            gc_heap := (gc_heap c)[p := (gc_heap c ! p)\<lparr>bd_done := True, bd_err := Some ?e\<rparr>]\<rparr>)"
  have "get_publish i f gen p (gw, er) now c = (?d, Inl ?e)" if b: "built = (gw, er)" for gw er
    using False unfolding b by (cases gw; cases er) (auto simp: get_publish_def)
  from this [OF prod.collapse [symmetric]] assms have "d = ?d" "res = Inl ?e"
    by (simp_all only: prod.collapse prod.inject)
  then show ?thesis
    by (intro refused [of ?e]) (auto simp: prod_eq_iff)
qed

lemma get_publish_spec:
  assumes "get_publish i f gen p built now c = (d, res)" and "cache_ok c"
  shows "cache_ok d" and "gc_builds d = AList.delete i (gc_builds c)"
    and "gc_generations d = gc_generations c"
    and "\<exists>err. gc_heap d = (gc_heap c)[p := (gc_heap c ! p)\<lparr>bd_done := True, bd_err := err\<rparr>]"
    and "all_gateways d = all_gateways c + mset (case fst built of Some g \<Rightarrow> [g] | None \<Rightarrow> [])"
proof -
  have dist: "distinct (map fst (gc_entries c))" "distinct (map fst (gc_builds c))"
    using assms(2) by (auto simp: cache_ok_def)
  have "cache_ok d \<and> gc_builds d = AList.delete i (gc_builds c) \<and> gc_generations d = gc_generations c
    \<and> (\<exists>err. gc_heap d = (gc_heap c)[p := (gc_heap c ! p)\<lparr>bd_done := True, bd_err := err\<rparr>])
    \<and> all_gateways d = all_gateways c + mset (case fst built of Some g \<Rightarrow> [g] | None \<Rightarrow> [])"
    using assms(1)
  proof (cases rule: get_publish_cases)
    case (refused e)
    with assms(2) dist show ?thesis
      by (auto simp: cache_ok_def all_gateways_def distinct_delete split: option.splits)
  next
    case (stored g x r)
    note s = store_gateway_spec [OF stored(5)]
    have len: "int (length (gc_entries x)) \<le> gc_capacity c"
      using s(4) dist(1) assms(2) by (simp add: cache_ok_def)
    with stored(3,6) s(1-3) dist assms(2) show ?thesis
      by (auto simp: cache_ok_def all_gateways_def conserves_def same_frame_def stored(1) distinct_delete)
  qed
  then show "cache_ok d" and "gc_builds d = AList.delete i (gc_builds c)"
    and "gc_generations d = gc_generations c"
    and "\<exists>err. gc_heap d = (gc_heap c)[p := (gc_heap c ! p)\<lparr>bd_done := True, bd_err := err\<rparr>]"
    and "all_gateways d = all_gateways c + mset (case fst built of Some g \<Rightarrow> [g] | None \<Rightarrow> [])"
    by auto
qed

lemma get_lookup_ok:
  assumes "get_lookup now i f c = (d, out)" and "cache_ok c"
  shows "cache_ok d"
proof -
  have dist: "distinct (map fst (gc_entries c))" using assms(2) by (simp add: cache_ok_def)
  note fr = get_lookup_frame [OF assms(1) dist]
  have "distinct (map fst (gc_builds d))"
    using assms(1) dist
  proof (cases rule: get_lookup_builds)
    case kept
    with assms(2) show ?thesis by (simp add: cache_ok_def)
  next
    case started
    with assms(2) show ?thesis by (auto simp: cache_ok_def map_of_eq_None_iff)
  qed
  with fr assms(2) show ?thesis
    by (auto simp: cache_ok_def)
qed

lemma Invalidate_spec:
  assumes "cache_ok c"
  shows "cache_ok (Invalidate i c)" and "map_of (gc_entries (Invalidate i c)) i = None"
    and "gc_generations (Invalidate i c) = (gc_generations c)(i := gc_generations c i + 1)"
    and "gc_builds (Invalidate i c) = gc_builds c" "gc_heap (Invalidate i c) = gc_heap c"
    and "gc_closed (Invalidate i c) = gc_closed c"
    and "all_gateways (Invalidate i c) = all_gateways c"
proof -
  have dist: "distinct (map fst (gc_entries c))" using assms by (simp add: cache_ok_def)
  have len: "length (AList.delete i (gc_entries c)) \<le> length (gc_entries c)"
    by (simp add: AList.length_delete_le)
  show "cache_ok (Invalidate i c)"
    using assms len by (auto simp: Invalidate_def Let_def cache_ok_def distinct_delete split: option.splits)
  show "all_gateways (Invalidate i c) = all_gateways c"
  proof (cases "map_of (gc_entries c) i")
    case None
    then show ?thesis by (simp add: Invalidate_def all_gateways_def)
  next
    case (Some e)
    with arg_cong [OF mset_delete [OF dist Some], of "image_mset (ce_gateway \<circ> snd)"] show ?thesis
      by (simp add: Invalidate_def all_gateways_def)
  qed
qed (auto simp: Invalidate_def Let_def map_of_delete_other split: option.splits)

lemma adaptive_bounds:
  assumes "1 \<le> m" and "m \<le> maximumGatewayCacheSize"
  shows "1 \<le> adaptiveGatewayCacheCapacity m s" and "adaptiveGatewayCacheCapacity m s \<le> m"
  using assms half_bounds [of m]
  by (auto simp: adaptiveGatewayCacheCapacity_def maximumGatewayCacheSize_def split: Pressure.splits)

lemma Reconcile_spec:
  assumes "cache_ok c"
  shows "cache_ok (Reconcile s now c)" and "gc_generations (Reconcile s now c) = gc_generations c"
    and "gc_builds (Reconcile s now c) = gc_builds c" "gc_heap (Reconcile s now c) = gc_heap c"
    and "all_gateways (Reconcile s now c) = all_gateways c"
    and "gc_maximum (Reconcile s now c) = gc_maximum c"
proof -
  have "cache_ok (Reconcile s now c) \<and> gc_generations (Reconcile s now c) = gc_generations c
    \<and> gc_builds (Reconcile s now c) = gc_builds c \<and> gc_heap (Reconcile s now c) = gc_heap c
    \<and> all_gateways (Reconcile s now c) = all_gateways c
    \<and> gc_maximum (Reconcile s now c) = gc_maximum c"
  proof (cases "gc_closed c")
    case True
    with assms show ?thesis by (simp add: Reconcile_def cache_ok_def all_gateways_def)
  next
    case False
    let ?c = "c\<lparr>gc_capacity := adaptiveGatewayCacheCapacity (gc_maximum c) s\<rparr>"
    obtain x r where x: "expireLocked now ?c = (x, r)" by fastforce
    obtain y q where y: "evictLocked x = (y, q)" by fastforce
    have d: "Reconcile s now c = closeIdleGateways (r @ q) y"
      using False x y by (simp add: Reconcile_def Let_def)
    note ex = expireLocked_spec [OF x]
    have dx: "distinct (map fst (gc_entries x))"
      using ex(2) assms by (simp add: cache_ok_def conserves_def)
    note ev = evictLocked_spec [OF y dx]
    have idle: "gc_idle y = gc_idle c"
      using x y by (auto simp: expireLocked_def evictLocked_def split: prod.splits)
    have "1 \<le> adaptiveGatewayCacheCapacity (gc_maximum c) s"
      "adaptiveGatewayCacheCapacity (gc_maximum c) s \<le> gc_maximum c"
      using assms by (auto simp: cache_ok_def intro!: adaptive_bounds)
    with ex(1,2) ev(1,2,4) idle assms False show ?thesis
      by (simp add: d cache_ok_def same_frame_def conserves_def all_gateways_def)
  qed
  then show "cache_ok (Reconcile s now c)" and "gc_generations (Reconcile s now c) = gc_generations c"
    and "gc_builds (Reconcile s now c) = gc_builds c" "gc_heap (Reconcile s now c) = gc_heap c"
    and "all_gateways (Reconcile s now c) = all_gateways c"
    and "gc_maximum (Reconcile s now c) = gc_maximum c" by auto
qed

lemma cache_Close_spec:
  assumes "cache_ok c"
  shows "cache_ok (cache_Close c)" and "gc_generations (cache_Close c) = gc_generations c"
    and "gc_builds (cache_Close c) = gc_builds c" "gc_heap (cache_Close c) = gc_heap c"
    and "gc_closed (cache_Close c)" and "gc_entries (cache_Close c) = []"
    and "all_gateways (cache_Close c) = all_gateways c"
  using assms by (auto simp: cache_Close_def cache_ok_def all_gateways_def ac_simps)

section \<open>Invariant of the interleaving\<close>

definition building :: "'gw get_proc list \<Rightarrow> nat \<Rightarrow> string \<Rightarrow> nat \<Rightarrow> bool" where
  "building ps n i p \<longleftrightarrow> n < length ps \<and> pr_id (ps ! n) = i \<and> (\<exists>gen. pr_pc (ps ! n) = AtBuild gen p)"

definition waiting :: "'gw get_proc list \<Rightarrow> nat \<Rightarrow> nat \<Rightarrow> bool" where
  "waiting ps n p \<longleftrightarrow> n < length ps \<and> pr_pc (ps ! n) = AtWait p"

text \<open>
  Every registered build is unfinished and some goroutine is building it; a goroutine that builds
  has its build registered and owns it alone; a goroutine that waits does so for a build that is
  finished or registered.
\<close>

definition builds_owned :: "'gw cache_conf \<Rightarrow> bool" where
  "builds_owned s \<longleftrightarrow> (\<forall>(i, p) \<in> set (gc_builds (fst s)).
     p < length (gc_heap (fst s)) \<and> \<not> bd_done (gc_heap (fst s) ! p) \<and> (\<exists>n. building (snd s) n i p))"

definition builders_registered :: "'gw cache_conf \<Rightarrow> bool" where
  "builders_registered s \<longleftrightarrow>
     (\<forall>n i p. building (snd s) n i p \<longrightarrow> (i, p) \<in> set (gc_builds (fst s)))
     \<and> (\<forall>n m i j p. building (snd s) n i p \<longrightarrow> building (snd s) m j p \<longrightarrow> n = m)"

definition waiters_woken :: "'gw cache_conf \<Rightarrow> bool" where
  "waiters_woken s \<longleftrightarrow> (\<forall>n p. waiting (snd s) n p \<longrightarrow>
     p < length (gc_heap (fst s))
     \<and> (bd_done (gc_heap (fst s) ! p) \<or> p \<in> snd ` set (gc_builds (fst s))))"

definition conf_ok :: "'gw cache_conf \<Rightarrow> bool" where
  "conf_ok s \<longleftrightarrow> cache_ok (fst s) \<and> builds_owned s \<and> builders_registered s \<and> waiters_woken s"

lemmas conf_defs = builds_owned_def builders_registered_def waiters_woken_def

lemma building_update:
  "n < length ps \<Longrightarrow> building (ps[n := q]) m i p \<longleftrightarrow>
     (if m = n then pr_id q = i \<and> (\<exists>gen. pr_pc q = AtBuild gen p) else building ps m i p)"
  by (auto simp: building_def)

lemma waiting_update:
  "n < length ps \<Longrightarrow> waiting (ps[n := q]) m p \<longleftrightarrow>
     (if m = n then pr_pc q = AtWait p else waiting ps m p)"
  by (auto simp: waiting_def)

text \<open>A step that leaves builds and heap alone and moves a goroutine to no build and no wait.\<close>

lemma conf_ok_quiet:
  assumes ok: "conf_ok (c, ps)" and "cache_ok d" and "gc_builds d = gc_builds c" and "gc_heap d = gc_heap c"
    and n: "n < length ps" and pc: "\<And>g p. pr_pc q \<noteq> AtBuild g p"
    and wait: "\<And>p. pr_pc q = AtWait p \<Longrightarrow> p \<in> snd ` set (gc_builds c)"
    and idle: "\<And>i p. \<not> building ps n i p"
  shows "conf_ok (d, ps[n := q])"
proof -
  have b: "building (ps[n := q]) m i p \<longleftrightarrow> building ps m i p" for m i p
    using n pc idle by (simp add: building_update)
  have "builds_owned (d, ps[n := q])" "builders_registered (d, ps[n := q])"
    using ok assms(3,4) by (simp_all add: conf_ok_def builds_owned_def builders_registered_def b)
  moreover have "waiters_woken (d, ps[n := q])"
    unfolding waiters_woken_def
  proof (intro allI impI)
    fix m p
    assume w: "waiting (snd (d, ps[n := q])) m p"
    have "p < length (gc_heap c) \<and> (bd_done (gc_heap c ! p) \<or> p \<in> snd ` set (gc_builds c))"
    proof (cases "m = n")
      case True
      with w n wait have "p \<in> snd ` set (gc_builds c)" by (simp add: waiting_update)
      with ok show ?thesis by (fastforce simp: conf_ok_def builds_owned_def)
    next
      case False
      with w n ok show ?thesis by (auto simp: waiting_update conf_ok_def waiters_woken_def)
    qed
    then show "p < length (gc_heap (fst (d, ps[n := q])))
      \<and> (bd_done (gc_heap (fst (d, ps[n := q])) ! p) \<or> p \<in> snd ` set (gc_builds (fst (d, ps[n := q]))))"
      using assms(3,4) by simp
  qed
  ultimately show ?thesis
    using assms(2) by (simp add: conf_ok_def)
qed

lemma conf_ok_cache_only:
  assumes "conf_ok (c, ps)" and "cache_ok d" and "gc_builds d = gc_builds c" and "gc_heap d = gc_heap c"
  shows "conf_ok (d, ps)"
  using assms by (simp add: conf_ok_def conf_defs)

lemma conf_ok_call:
  assumes "conf_ok (c, ps)" and "\<And>g p. pr_pc q \<noteq> AtBuild g p" and "\<And>p. pr_pc q \<noteq> AtWait p"
  shows "conf_ok (c, ps @ [q])"
proof -
  have "building (ps @ [q]) n i p \<longleftrightarrow> building ps n i p" "waiting (ps @ [q]) n p \<longleftrightarrow> waiting ps n p" for n i p
    using assms(2,3) by (auto simp: building_def waiting_def nth_append less_Suc_eq)
  with assms(1) show ?thesis
    by (simp add: conf_ok_def conf_defs)
qed

lemma conf_ok_started:
  assumes ok: "conf_ok (c, ps)" and "cache_ok d"
    and builds: "gc_builds d = gc_builds c @ [(i, length (gc_heap c))]"
    and heap: "gc_heap d = gc_heap c @ [b]" and "\<not> bd_done b"
    and n: "n < length ps" and q: "pr_id q = i" "pr_pc q = AtBuild gen (length (gc_heap c))"
    and idle: "\<And>i p. \<not> building ps n i p"
  shows "conf_ok (d, ps[n := q])"
proof -
  have b: "building (ps[n := q]) m j p \<longleftrightarrow>
      (m = n \<and> j = i \<and> p = length (gc_heap c)) \<or> building ps m j p" for m j p
    using n q idle by (auto simp: building_update)
  have old: "p < length (gc_heap c)" if "building ps m j p" for m j p
    using ok that by (fastforce simp: conf_ok_def conf_defs)
  have "builds_owned (d, ps[n := q])"
    using ok \<open>\<not> bd_done b\<close>
    by (fastforce simp: conf_ok_def builds_owned_def builds heap b nth_append)
  moreover have "builders_registered (d, ps[n := q])"
    using ok old by (auto simp: conf_ok_def builders_registered_def builds b)
  moreover have "waiters_woken (d, ps[n := q])"
    using ok n q
    by (auto simp: conf_ok_def waiters_woken_def builds heap waiting_update nth_append less_Suc_eq)
  ultimately show ?thesis
    using assms(2) by (simp add: conf_ok_def)
qed

lemma conf_ok_published:
  assumes ok: "conf_ok (c, ps)" and "cache_ok d" and mine: "building ps n i p"
    and builds: "gc_builds d = AList.delete i (gc_builds c)"
    and heap: "gc_heap d = (gc_heap c)[p := b]" and b: "bd_done b"
    and q: "pr_pc q = Returned res"
  shows "conf_ok (d, ps[n := q])"
proof -
  have n: "n < length ps" using mine by (simp add: building_def)
  have reg: "\<And>m j r. building ps m j r \<Longrightarrow> (j, r) \<in> set (gc_builds c)"
    and own: "\<And>m j r. building ps m j r \<Longrightarrow> r = p \<Longrightarrow> m = n"
    and dist: "distinct (map fst (gc_builds c))"
    using ok mine by (auto simp: conf_ok_def builders_registered_def cache_ok_def)
  have p: "p < length (gc_heap c)"
    using ok reg [OF mine] by (fastforce simp: conf_ok_def builds_owned_def)
  have key: "j = i \<longleftrightarrow> r = p" if "(j, r) \<in> set (gc_builds c)" for j r
  proof
    show "j = i \<Longrightarrow> r = p"
      using that reg [OF mine] dist by (meson eq_key_imp_eq_value)
    assume "r = p"
    with ok that obtain m where "building ps m j p" by (fastforce simp: conf_ok_def builds_owned_def)
    with own have "m = n" by blast
    with \<open>building ps m j p\<close> mine show "j = i" by (simp add: building_def)
  qed
  have set: "(j, r) \<in> set (gc_builds d) \<longleftrightarrow> (j, r) \<in> set (gc_builds c) \<and> r \<noteq> p" for j r
    unfolding builds delete_eq_filter using key by auto
  have bld: "building (ps[n := q]) m j r \<longleftrightarrow> building ps m j r \<and> r \<noteq> p" for m j r
  proof (cases "m = n")
    case True
    have "building ps n j r \<Longrightarrow> r = p"
      using mine by (auto simp: building_def)
    with True n q show ?thesis by (auto simp: building_update)
  next
    case False
    with n own show ?thesis by (auto simp: building_update)
  qed
  have "builds_owned (d, ps[n := q])"
    using ok by (fastforce simp: conf_ok_def builds_owned_def set heap bld)
  moreover have "builders_registered (d, ps[n := q])"
    using ok by (auto simp: conf_ok_def builders_registered_def set bld)
  moreover have "waiters_woken (d, ps[n := q])"
    unfolding waiters_woken_def
  proof (intro allI impI)
    fix m r
    assume "waiting (snd (d, ps[n := q])) m r"
    then have "waiting ps m r"
      using n q by (simp add: waiting_update split: if_splits)
    then have "r < length (gc_heap c)" "bd_done (gc_heap c ! r) \<or> (\<exists>j. (j, r) \<in> set (gc_builds c))"
      using ok by (fastforce simp: conf_ok_def waiters_woken_def)+
    then have "r < length (gc_heap d) \<and> (bd_done (gc_heap d ! r) \<or> (\<exists>j. (j, r) \<in> set (gc_builds d)))"
      using p b by (cases "r = p") (auto simp: set heap)
    then show "r < length (gc_heap (fst (d, ps[n := q])))
      \<and> (bd_done (gc_heap (fst (d, ps[n := q])) ! r) \<or> r \<in> snd ` set (gc_builds (fst (d, ps[n := q]))))"
      by (force simp: image_iff)
  qed
  ultimately show ?thesis
    using assms(2) by (simp add: conf_ok_def)
qed

definition built_in :: "'gw cache_label list \<Rightarrow> 'gw list" where
  "built_in ls = concat (map (\<lambda>l. case l of LBuilt (Some g) \<Rightarrow> [g] | _ \<Rightarrow> []) ls)"

lemma conf_ok_look:
  assumes "conf_ok (c, ps)" and n: "n < length ps" and pc: "pr_pc (ps ! n) = AtLoop"
    and look: "get_lookup now (pr_id (ps ! n)) (pr_fingerprint (ps ! n)) c = (c', out)"
  shows "conf_ok (c', ps[n := (ps ! n)\<lparr>pr_pc := after_lookup out\<rparr>])"
proof -
  have ok: "cache_ok c" and dist: "distinct (map fst (gc_entries c))"
    using assms(1) by (auto simp: conf_ok_def cache_ok_def)
  have idle: "\<not> building ps n i p" for i p
    using pc by (simp add: building_def)
  have c': "cache_ok c'" using look ok by (rule get_lookup_ok)
  show ?thesis
    using look dist
  proof (cases rule: get_lookup_builds)
    case kept
    with assms(1) n c' idle show ?thesis
      by (intro conf_ok_quiet [of c]) (cases out; auto dest: map_of_SomeD simp: rev_image_eqI)+
  next
    case started
    with assms(1) n c' idle show ?thesis
      by (intro conf_ok_started [of c]) auto
  qed
qed

lemma conf_ok_publish:
  assumes "conf_ok (c, ps)" and "n < length ps" and "pr_pc (ps ! n) = AtBuild gen p"
    and pub: "get_publish (pr_id (ps ! n)) (pr_fingerprint (ps ! n)) gen p built now c = (c', res)"
  shows "conf_ok (c', ps[n := (ps ! n)\<lparr>pr_pc := Returned res\<rparr>])" and "gc_maximum c' = gc_maximum c"
proof -
  have ok: "cache_ok c" using assms(1) by (simp add: conf_ok_def)
  have "building ps n (pr_id (ps ! n)) p" using assms(2,3) by (simp add: building_def)
  then show "conf_ok (c', ps[n := (ps ! n)\<lparr>pr_pc := Returned res\<rparr>])"
    using assms(1) get_publish_spec(1,2,4) [OF pub ok] by (auto intro!: conf_ok_published [of c])
  show "gc_maximum c' = gc_maximum c"
    using pub
  proof (cases rule: get_publish_cases)
    case (stored g x r)
    with store_gateway_spec(1) [OF stored(5)] ok show ?thesis
      by (simp add: same_frame_def cache_ok_def)
  qed simp
qed

lemma cache_step_ok:
  assumes "cache_step s l s'" and "conf_ok s"
  shows "conf_ok s' \<and> all_gateways (fst s') = all_gateways (fst s) + mset (built_in [l])
    \<and> (\<forall>i. gc_generations (fst s') i =
          gc_generations (fst s) i + of_nat (count_list [l] (LInvalidate i)))
    \<and> gc_maximum (fst s') = gc_maximum (fst s)"
  using assms
proof (cases rule: cache_step.cases)
  case (call c ps i f ctx)
  with assms(2) show ?thesis
    by (auto simp: built_in_def split: option.splits intro!: conf_ok_call)
next
  case (look n ps now c c' out)
  then have "distinct (map fst (gc_entries c))"
    using assms(2) by (simp add: conf_ok_def cache_ok_def)
  from get_lookup_frame [OF look(6) this] conf_ok_look [OF _ look(4-6)] assms(2) look(1-3) show ?thesis
    by (simp add: built_in_def)
next
  case (wake n ps p c)
  have "conf_ok (c, ps[n := (ps ! n)\<lparr>pr_pc := after_wait (pr_fingerprint (ps ! n)) (gc_heap c ! p)\<rparr>])"
    using assms(2) wake
    by (intro conf_ok_quiet [of c]) (auto simp: building_def after_wait_def conf_ok_def split: option.splits if_splits)
  with wake(1-3) show ?thesis by (simp add: built_in_def)
next
  case (leave n ps p c e)
  have "conf_ok (c, ps[n := (ps ! n)\<lparr>pr_pc := Returned (Inl e)\<rparr>])"
    using assms(2) leave by (intro conf_ok_quiet [of c]) (auto simp: building_def conf_ok_def)
  with leave(1-3) show ?thesis by (simp add: built_in_def)
next
  case (publish n ps gen p built now c c' res)
  have ok: "cache_ok c" using assms(2) publish by (simp add: conf_ok_def)
  from get_publish_spec [OF publish(6) ok] conf_ok_publish [OF _ publish(4-6)] assms(2) publish(1-3)
  show ?thesis
    by (simp add: built_in_def split: option.splits)
next
  case (invalidate c ps i)
  then have ok: "cache_ok c" using assms(2) by (simp add: conf_ok_def)
  have "conf_ok (Invalidate i c, ps)"
    using assms(2) invalidate(1) by (simp add: conf_ok_cache_only [OF _ Invalidate_spec(1,4,5) [OF ok]])
  moreover have "gc_maximum (Invalidate i c) = gc_maximum c"
    by (simp add: Invalidate_def Let_def split: option.split)
  ultimately show ?thesis
    using Invalidate_spec(3,7) [OF ok, of i] invalidate by (simp add: built_in_def)
next
  case (reconcile c ps snap now)
  then have ok: "cache_ok c" using assms(2) by (simp add: conf_ok_def)
  have "conf_ok (Reconcile snap now c, ps)"
    using assms(2) reconcile(1) by (simp add: conf_ok_cache_only [OF _ Reconcile_spec(1,3,4) [OF ok]])
  then show ?thesis
    using Reconcile_spec [OF ok] reconcile by (simp add: built_in_def)
next
  case (close c ps)
  then have ok: "cache_ok c" using assms(2) by (simp add: conf_ok_def)
  have "conf_ok (cache_Close c, ps)"
    using assms(2) close(1) by (simp add: conf_ok_cache_only [OF _ cache_Close_spec(1,3,4) [OF ok]])
  with cache_Close_spec [OF ok] close show ?thesis
    by (simp add: built_in_def cache_Close_def)
qed

lemma cache_path_ok:
  assumes "cache_path s0 ls s" and "conf_ok s0"
  shows "conf_ok s \<and> all_gateways (fst s) = all_gateways (fst s0) + mset (built_in ls)
    \<and> (\<forall>i. gc_generations (fst s) i =
          gc_generations (fst s0) i + of_nat (count_list ls (LInvalidate i)))
    \<and> gc_maximum (fst s) = gc_maximum (fst s0)"
  using assms
proof (induction rule: cache_path.induct)
  case here
  then show ?case by (simp add: built_in_def)
next
  case (there ls s l s')
  note IH = there.IH [OF there.prems]
  note st = cache_step_ok [OF there.hyps(2) conjunct1 [OF IH]]
  have "built_in (ls @ [l]) = built_in ls @ built_in [l]"
    by (simp add: built_in_def)
  with IH st show ?case
    by (simp add: ac_simps)
qed

lemma newGatewayCache_ok:
  assumes "newGatewayCache m ttl = Inr c"
  shows "conf_ok (c, [])" and "gc_maximum c = m" and "all_gateways c = {#}" and "gc_generations c = (\<lambda>_. 0)"
  using assms
  by (auto simp: newGatewayCache_def conf_ok_def conf_defs cache_ok_def building_def waiting_def
      all_gateways_def split: if_splits)

section \<open>Properties of the cache\<close>

definition sample_cache :: "string gatewayCache" where
  "sample_cache = \<lparr>gc_entries = [], gc_builds = [], gc_generations = (\<lambda>_. 0), gc_maximum = 2,
     gc_capacity = 2, gc_ttl = minute, gc_closed = False, gc_heap = [], gc_idle = []\<rparr>"

lemma sample_cache_new: "newGatewayCache 2 minute = Inr sample_cache"
  by (simp add: newGatewayCache_def sample_cache_def maximumGatewayCacheSize_def
      minimumGatewayCacheTTL_def maximumGatewayCacheTTL_def minute_def hour_def second_def)

text \<open>One goroutine calls \<open>Get\<close> on \<open>sample_cache\<close>, finds nothing and starts a build.\<close>

abbreviation sample_proc :: "string get_pc \<Rightarrow> string get_proc" where
  "sample_proc pc \<equiv> \<lparr>pr_id = ''clu_1'', pr_fingerprint = ''fp'', pr_pc = pc\<rparr>"

definition sample_building :: "string gatewayCache" where
  "sample_building = sample_cache\<lparr>gc_builds := [(''clu_1'', 0)],
     gc_heap := [\<lparr>bd_fingerprint = ''fp'', bd_done = False, bd_err = None\<rparr>]\<rparr>"

lemma sample_lookup:
  "get_lookup 0 ''clu_1'' ''fp'' sample_cache = (sample_building, LookupBuild 0 0)"
  by (simp add: get_lookup_def expireLocked_def join_or_start_def closeIdleGateways_def
      sample_cache_def sample_building_def Let_def)

lemma sample_cache_path:
  "cache_path (sample_cache, []) [LOther, LOther] (sample_building, [sample_proc (AtBuild 0 0)])"
proof -
  have "cache_step (sample_cache, []) LOther (sample_cache, [sample_proc AtLoop])"
    using cache_step.call [of sample_cache "[]" "''clu_1''" "''fp''" None] by simp
  moreover have "cache_step (sample_cache, [sample_proc AtLoop]) LOther
      (sample_building, [sample_proc (AtBuild 0 0)])"
    using cache_step.look [of 0 "[sample_proc AtLoop]" 0 sample_cache sample_building "LookupBuild 0 0"]
    by (simp add: sample_lookup)
  ultimately show ?thesis
    using cache_path.there [OF cache_path.there [OF cache_path.here]] by fastforce
qed

text \<open>
  (C9) The cache stays within its bounds. Whatever goroutines are inside \<^verbatim>\<open>Get\<close> and
  however their critical sections interleave with invalidation, reconciliation and shutdown, the
  cache has at most one entry per cluster, never more entries than its current capacity, a
  capacity between one and the configured maximum, and no entries once it is closed.
\<close>

theorem cache_bounded:
  assumes "newGatewayCache m ttl = Inr c0" and "cache_path (c0, []) ls (c, ps)"
  shows "distinct (map fst (gc_entries c)) \<and> int (length (gc_entries c)) \<le> gc_capacity c
         \<and> 1 \<le> gc_capacity c \<and> gc_capacity c \<le> m \<and> (gc_closed c \<longrightarrow> gc_entries c = [])"
  using cache_path_ok [OF assms(2) newGatewayCache_ok(1) [OF assms(1)]] newGatewayCache_ok(2) [OF assms(1)]
  by (simp add: conf_ok_def cache_ok_def)

theorem cache_bounded_witness:
  "cache_path (sample_cache, []) [LOther, LOther] (sample_building, [sample_proc (AtBuild 0 0)])
   \<and> int (length (gc_entries sample_building)) \<le> gc_capacity sample_building"
  using cache_bounded [OF sample_cache_new sample_cache_path] sample_cache_path by blast

text \<open>
  (C10) Builds are shared and waiters are never stranded. At any moment at most one goroutine is
  building the client of a given cluster, and a goroutine that waits in \<^verbatim>\<open>Get\<close> waits
  for a build that is already finished or that another goroutine, which is not waiting itself, is
  still executing.
\<close>

theorem cache_single_flight:
  assumes "newGatewayCache m ttl = Inr c0" and "cache_path (c0, []) ls (c, ps)"
  shows "(\<forall>n k i p q. building ps n i p \<longrightarrow> building ps k i q \<longrightarrow> n = k)
         \<and> (\<forall>n p. waiting ps n p \<longrightarrow> bd_done (gc_heap c ! p) \<or> (\<exists>k i. k \<noteq> n \<and> building ps k i p))"
proof -
  have ok: "conf_ok (c, ps)"
    using cache_path_ok [OF assms(2) newGatewayCache_ok(1) [OF assms(1)]] by simp
  have reg: "\<And>n i p. building ps n i p \<Longrightarrow> (i, p) \<in> set (gc_builds c)"
    and own: "\<And>n k i j p. building ps n i p \<Longrightarrow> building ps k j p \<Longrightarrow> n = k"
    and dist: "distinct (map fst (gc_builds c))"
    using ok by (auto simp: conf_ok_def builders_registered_def cache_ok_def)
  have "n = k" if "building ps n i p" "building ps k i q" for n k i p q
    using that reg own dist by (metis eq_key_imp_eq_value)
  moreover have "bd_done (gc_heap c ! p) \<or> (\<exists>k i. k \<noteq> n \<and> building ps k i p)" if w: "waiting ps n p" for n p
  proof (cases "bd_done (gc_heap c ! p)")
    case False
    with ok w obtain i where "(i, p) \<in> set (gc_builds c)"
      by (fastforce simp: conf_ok_def waiters_woken_def)
    with ok obtain k where "building ps k i p"
      by (fastforce simp: conf_ok_def builds_owned_def)
    moreover from this w have "k \<noteq> n"
      by (auto simp: building_def waiting_def)
    ultimately show ?thesis by blast
  qed simp
  ultimately show ?thesis by blast
qed

theorem cache_single_flight_witness:
  "{k. \<exists>q. building [sample_proc (AtBuild 0 0)] k ''clu_1'' q} = {0}"
proof -
  have b: "building [sample_proc (AtBuild 0 0)] 0 ''clu_1'' 0"
    by (simp add: building_def)
  then have "\<And>k q. building [sample_proc (AtBuild 0 0)] k ''clu_1'' q \<Longrightarrow> k = 0"
    using cache_single_flight [OF sample_cache_new sample_cache_path] by blast
  with b show ?thesis by blast
qed

text \<open>
  (C11) No client is leaked. Every client a builder ever returned is, at any later moment, either
  still the client of an entry or was handed over to have its idle connections closed, and never
  both or twice: as multisets, the clients in entries and those retired are the clients built.
\<close>

theorem cache_retires_every_gateway:
  assumes "newGatewayCache m ttl = Inr c0" and "cache_path (c0, []) ls (c, ps)"
  shows "mset (map (ce_gateway \<circ> snd) (gc_entries c)) + mset (gc_idle c) = mset (built_in ls)"
  using cache_path_ok [OF assms(2) newGatewayCache_ok(1) [OF assms(1)]] newGatewayCache_ok(3) [OF assms(1)]
  by (simp add: all_gateways_def)

theorem cache_retires_every_gateway_witness:
  "gc_idle sample_building = [] \<and> mset (map (ce_gateway \<circ> snd) (gc_entries sample_building)) = {#}"
  using cache_retires_every_gateway [OF sample_cache_new sample_cache_path]
  by (simp add: built_in_def sample_building_def sample_cache_def)

text \<open>
  (C12) A client built from outdated data is never cached. When a cluster was invalidated while a
  goroutine was building its client (up to \<open>2 ^ 64 - 1\<close> times, where the generation counter
  would wrap around), finishing that build returns an error, leaves the entries as they are, and
  retires the client.
\<close>

theorem stale_build_is_refused:
  assumes "newGatewayCache m ttl = Inr c0" and "cache_path (c0, []) ls (c, ps)"
    and "n < length ps" and "ps ! n = \<lparr>pr_id = i, pr_fingerprint = f, pr_pc = AtLoop\<rparr>"
    and "get_lookup now i f c = (d, LookupBuild gen p)"
    and "cache_path (d, ps[n := \<lparr>pr_id = i, pr_fingerprint = f, pr_pc = AtBuild gen p\<rparr>]) steps (c', ps')"
    and "LInvalidate i \<in> set steps" and "count_list steps (LInvalidate i) < 2 ^ 64"
    and "get_publish i f gen p built now' c' = (c'', res)"
  shows "(\<exists>e. res = Inl e) \<and> gc_entries c'' = gc_entries c'
         \<and> (\<forall>g. built = (Some g, None) \<longrightarrow> res = Inl ErrInvalidState \<and> g \<in> set (gc_idle c''))"
proof -
  have ok: "conf_ok (c, ps)"
    using cache_path_ok [OF assms(2) newGatewayCache_ok(1) [OF assms(1)]] by simp
  then have dist: "distinct (map fst (gc_entries c))" by (simp add: conf_ok_def cache_ok_def)
  have gen: "gen = gc_generations d i"
    using assms(5) dist get_lookup_frame(1) [OF assms(5) dist]
    by (cases rule: get_lookup_builds) auto
  have "conf_ok (d, ps[n := \<lparr>pr_id = i, pr_fingerprint = f, pr_pc = AtBuild gen p\<rparr>])"
    using conf_ok_look [OF ok assms(3), of now d "LookupBuild gen p"] assms(4,5) by simp
  from cache_path_ok [OF assms(6) this]
  have "gc_generations c' i = gc_generations d i + of_nat (count_list steps (LInvalidate i))"
    by simp
  moreover have "(of_nat (count_list steps (LInvalidate i)) :: 64 word) \<noteq> 0"
  proof -
    have "0 < count_list steps (LInvalidate i)"
      using assms(7) count_list_0_iff [of steps "LInvalidate i"] by auto
    from nat_dvd_not_less [OF this assms(8)] show ?thesis
      by (simp add: word_of_nat_eq_0_iff)
  qed
  ultimately have "gc_generations c' i \<noteq> gen"
    by (simp add: gen)
  with assms(9) show ?thesis
    by (cases rule: get_publish_cases) auto
qed

theorem stale_build_is_refused_witness:
  "\<exists>c. get_publish ''clu_1'' ''fp'' 0 0 (Some ''gw'', None) 5 (Invalidate ''clu_1'' sample_building)
       = (c, Inl ErrInvalidState)"
proof -
  have called: "cache_path (sample_cache, []) ([] @ [LOther]) (sample_cache, [] @ [sample_proc AtLoop])"
    using cache_path.there [OF cache_path.here cache_step.call [of sample_cache "[]" "''clu_1''" "''fp''" None]]
    by simp
  have path: "cache_path (sample_building, [sample_proc (AtBuild 0 0)]) [LInvalidate ''clu_1'']
      (Invalidate ''clu_1'' sample_building, [sample_proc (AtBuild 0 0)])"
    using cache_path.there [OF cache_path.here cache_step.invalidate] by fastforce
  obtain c res where r: "get_publish ''clu_1'' ''fp'' 0 0 (Some ''gw'', None) 5
      (Invalidate ''clu_1'' sample_building) = (c, res)"
    by fastforce
  have "res = Inl ErrInvalidState"
    using stale_build_is_refused [OF sample_cache_new called, of 0, OF _ _ sample_lookup _ _ _ r] path by simp
  with r show ?thesis by blast
qed

text \<open>
  What \<^verbatim>\<open>Get\<close> may reuse. On an open cache a lookup returns a cached client exactly
  when the cluster has an entry with the requested fingerprint that was used less than one time to
  live ago, and then the entry counts as used now; otherwise no entry of the cluster is left in
  the cache, so an expired client or one of other credentials is never handed out.
\<close>

theorem lookup_returns_only_fresh:
  assumes "distinct (map fst (gc_entries c))" and "\<not> gc_closed c"
    and "get_lookup now i f c = (d, out)"
  shows "(out = LookupHit g \<longleftrightarrow>
            (\<exists>e. map_of (gc_entries c) i = Some e \<and> ce_gateway e = g \<and> ce_fingerprint e = f
                 \<and> now < ce_lastUsed e + gc_ttl c))
         \<and> map_of (gc_entries d) i =
             (case map_of (gc_entries c) i of
                Some e \<Rightarrow> if ce_fingerprint e = f \<and> now < ce_lastUsed e + gc_ttl c
                         then Some (e\<lparr>ce_lastUsed := now\<rparr>) else None
              | None \<Rightarrow> None)"
proof -
  have filter: "map_of (filter (\<lambda>(k, e). fresh (gc_ttl c) now e) (gc_entries c)) i =
      (case map_of (gc_entries c) i of
         Some e \<Rightarrow> if now < ce_lastUsed e + gc_ttl c then Some e else None | None \<Rightarrow> None)"
    using map_of_filter_distinct [OF assms(1), of "fresh (gc_ttl c) now" i] unfolding fresh_def .
  show ?thesis
    using assms(3,1)
  proof (cases rule: get_lookup_cases)
    case closed
    with assms(2) show ?thesis by simp
  next
    case (hit e x r)
    have e: "map_of (gc_entries c) i = Some e" "now < ce_lastUsed e + gc_ttl c"
      using hit(5) unfolding filter by (simp_all split: option.splits if_splits)
    show ?thesis
      using hit(7,8) e by (auto simp: hit(9) AList.update_conv')
  next
    case (miss x r y)
    then have "map_of (gc_entries d) i = None" "\<And>g. out \<noteq> LookupHit g"
      using join_or_start_spec(1,8) [OF miss(7)] by auto
    moreover have "ce_fingerprint e \<noteq> f \<or> \<not> now < ce_lastUsed e + gc_ttl c"
      if "map_of (gc_entries c) i = Some e" for e
      using miss(5) [of e] that unfolding filter by (cases "now < ce_lastUsed e + gc_ttl c") simp_all
    ultimately show ?thesis
      by (auto split: option.splits)
  qed
qed

theorem lookup_returns_only_fresh_witness:
  "snd (get_lookup 0 ''clu_1'' ''fp'' sample_cache) \<noteq> LookupHit ''gw''"
  using lookup_returns_only_fresh [OF _ _ sample_lookup, of "''gw''"]
  by (simp add: sample_lookup)

text \<open>
  Eviction is least-recently-used. When the entries exceed the capacity, eviction keeps
  exactly as many as fit, in their order; every entry it drops was used no later than every entry
  it keeps, with the cluster identifier as the tie-breaker; and what it retires are the clients of
  the dropped entries.
\<close>

theorem evictLocked_lru:
  assumes "distinct (map fst (gc_entries c))" and "0 \<le> gc_capacity c" and "evictLocked c = (d, retired)"
  shows "\<exists>gone. mset (gc_entries c) = mset (gc_entries d) + mset gone
           \<and> subseq (gc_entries d) (gc_entries c)
           \<and> int (length (gc_entries d)) = min (gc_capacity c) (int (length (gc_entries c)))
           \<and> retired = map (ce_gateway \<circ> snd) gone
           \<and> (\<forall>(i, e) \<in> set gone. \<forall>(j, k) \<in> set (gc_entries d).
                ce_lastUsed e < ce_lastUsed k \<or> (ce_lastUsed e = ce_lastUsed k \<and> i \<le> j))"
proof -
  have ev: "evict_entries (gc_capacity c) (gc_entries c) = (gc_entries d, retired)"
    using assms(3) by (auto simp: evictLocked_def split: prod.splits)
  obtain gone where g: "mset (gc_entries c) = mset (gc_entries d) + mset gone"
      "retired = gateways gone" "subseq (gc_entries d) (gc_entries c)"
      "\<forall>x \<in> set gone. \<forall>k \<in> set (gc_entries d). lru_before (lru_key x) (lru_key k)"
      "gone \<noteq> [] \<longrightarrow> gc_capacity c \<le> int (length (gc_entries d))"
      "int (length (gc_entries d)) \<le> gc_capacity c"
    using evict_entries_spec [OF assms(1) ev] assms(2) by auto
  have "length (gc_entries c) = length (gc_entries d) + length gone"
    using arg_cong [OF g(1), of size] by simp
  then have "int (length (gc_entries d)) = min (gc_capacity c) (int (length (gc_entries c)))"
    using g(5,6) by (cases gone) auto
  with g(1-4) show ?thesis
    by (intro exI [of _ gone]) (force simp: lru_before_def)
qed

theorem evictLocked_lru_witness:
  "evictLocked (sample_cache\<lparr>gc_capacity := 1, gc_entries :=
      [(''a'', \<lparr>ce_fingerprint = [], ce_gateway = ''ga'', ce_lastUsed = 7\<rparr>),
       (''b'', \<lparr>ce_fingerprint = [], ce_gateway = ''gb'', ce_lastUsed = 3\<rparr>)]\<rparr>)
   = (sample_cache\<lparr>gc_capacity := 1, gc_entries :=
      [(''a'', \<lparr>ce_fingerprint = [], ce_gateway = ''ga'', ce_lastUsed = 7\<rparr>)]\<rparr>, [''gb''])
   \<and> (\<exists>gone. map (ce_gateway \<circ> snd) (gone :: (string \<times> string gatewayCacheEntry) list) = [''gb''])"
proof -
  let ?c = "sample_cache\<lparr>gc_capacity := 1, gc_entries :=
      [(''a'', \<lparr>ce_fingerprint = [], ce_gateway = ''ga'', ce_lastUsed = 7\<rparr>),
       (''b'', \<lparr>ce_fingerprint = [], ce_gateway = ''gb'', ce_lastUsed = 3\<rparr>)]\<rparr>"
  let ?d = "sample_cache\<lparr>gc_capacity := 1, gc_entries :=
      [(''a'', \<lparr>ce_fingerprint = [], ce_gateway = ''ga'', ce_lastUsed = 7\<rparr>)]\<rparr>"
  have e: "evictLocked ?c = (?d, [''gb''])"
    by (simp add: evictLocked_def evict_entries.simps)
  have "distinct (map fst (gc_entries ?c))" "0 \<le> gc_capacity ?c" by simp_all
  from evictLocked_lru [OF this e] obtain gone :: "(string \<times> string gatewayCacheEntry) list"
    where g: "[''gb''] = map (ce_gateway \<circ> snd) gone" by (elim exE conjE) (rule that)
  show ?thesis
    using e g [symmetric] by (intro conjI exI [of _ gone])
qed

end
