(* ===== verification/Platform.thy ===== *)
theory Platform
  imports Store Validation Gateway_Cache
begin

unbundle bit_operations_syntax

text \<open>
  The ground of package \<^verbatim>\<open>internal/platform\<close>: the service's state and dependencies
  (\<^verbatim>\<open>service.go\<close>, \<^verbatim>\<open>contracts.go\<close>), the views it returns
  (\<^verbatim>\<open>views.go\<close>), and the helpers every handler is made of: audit events, target locks,
  read slots, decryption of credentials and access to Kubernetes clients.

  A handler is an action, a function from the service to the service and a result. What lies
  outside the program is the record \<open>env\<close>: its functions get the number of interactions so
  far, \<open>ps_tick\<close>, so two calls may answer differently. A context is the value of its
  \<^verbatim>\<open>Err()\<close> in a state. \<open>ps_calls\<close> records the calls that reach a cluster, a chart
  repository or Helm. A handler is modelled as it runs when no other goroutine interferes; the
  interleavings that matter are modelled with the cache and with the operations.
\<close>

section \<open>Contracts\<close>

record Connection =
  cn_Server :: string
  cn_CACert :: string
  cn_BearerToken :: string

record RepositoryConnection =
  rc_URL :: string
  rc_Username :: string
  rc_Password :: string

record HelmRequest =
  hr_Connection :: Connection
  hr_Repository :: "RepositoryConnection option"
  hr_Input :: HelmOperationInput

record operationJob =
  jb_operationID :: string
  jb_helmInput :: "HelmOperationInput option"
  jb_workloadInput :: "WorkloadOperationInput option"
  jb_workloadImageInput :: "WorkloadImageOperationInput option"
  jb_control :: "nat option"

datatype 'gw upstream_call =
    FactoryNew Connection
  | GatewayCall 'gw
  | HelmListCall Connection
  | HelmExecuteCall OperationKind HelmRequest
  | RepositoryCheckCall RepositoryConnection

definition defaultOperationQueueSize :: int where "defaultOperationQueueSize = 64"
definition maxOperationQueueSize :: int where "maxOperationQueueSize = 128"
definition targetLockStripes :: nat where "targetLockStripes = 64"
definition credentialRotationLock :: string where "credentialRotationLock = ''cluster-credentials''"
definition capabilityScanLock :: string where "capabilityScanLock = ''cluster-capabilities''"

record 'gw Service =
  ps_store :: File
  ps_operationGovernor :: Governor
  ps_readGovernor :: Governor
  ps_gatewayCache :: "'gw gatewayCache"
  ps_queue :: "operationJob list"
  ps_queueCapacity :: nat
  ps_targetLocks :: "bool list"
  ps_operationControls :: "(string \<times> nat) list"
  ps_canceled :: "bool list"
  ps_tick :: nat
  ps_calls :: "'gw upstream_call list"

type_synonym 'gw go_context = "'gw Service \<Rightarrow> go_ctx"
type_synonym ('gw, 'a) action = "'gw Service \<Rightarrow> 'gw Service \<times> 'a result"

record 'gw env =
  ev_clock :: "nat \<Rightarrow> gtime"
  ev_newID :: "nat \<Rightarrow> string \<Rightarrow> string result"
  ev_io :: "nat \<Rightarrow> io_faults"
  ev_sample :: "nat \<Rightarrow> Sample"
  ev_done :: "nat \<Rightarrow> go_error"
  ev_parse :: url_parser
  ev_sha256 :: "string \<Rightarrow> string"
  ev_SealString :: "nat \<Rightarrow> string \<Rightarrow> string \<Rightarrow> string result"
  ev_OpenString :: "string \<Rightarrow> string \<Rightarrow> string result"
  ev_Validate :: "nat \<Rightarrow> string \<Rightarrow> go_error option"
  ev_New :: "nat \<Rightarrow> Connection \<Rightarrow> 'gw option \<times> go_error option"
  ev_Check :: "nat \<Rightarrow> RepositoryConnection \<Rightarrow> go_error option"
  ev_Execute :: "nat \<Rightarrow> OperationKind \<Rightarrow> HelmRequest \<Rightarrow> go_error option"
  ev_Probe :: "nat \<Rightarrow> 'gw \<Rightarrow> ClusterProbe result"
  ev_ScaleWorkload :: "nat \<Rightarrow> 'gw \<Rightarrow> WorkloadReference \<Rightarrow> string \<Rightarrow> int \<Rightarrow> go_error option"
  ev_RestartWorkload :: "nat \<Rightarrow> 'gw \<Rightarrow> WorkloadReference \<Rightarrow> string \<Rightarrow> gtime \<Rightarrow> go_error option"
  ev_UpdateWorkloadImage :: "nat \<Rightarrow> 'gw \<Rightarrow> WorkloadImageChange \<Rightarrow> go_error option"

text \<open>
  \<^verbatim>\<open>New\<close>: the first two arguments say whether every dependency, and whether the
  generator of identifiers, is set.
\<close>

definition service_New ::
  "bool \<Rightarrow> bool \<Rightarrow> int \<Rightarrow> int \<Rightarrow> duration \<Rightarrow> File \<Rightarrow> Governor \<Rightarrow> Governor \<Rightarrow> 'gw Service result" where
  "service_New allSet newIDSet queueSize cacheSize cacheTTL store operationGovernor readGovernor =
     (if \<not> allSet then Inl (NewError ''all platform dependencies are required'')
      else if \<not> newIDSet then Inl (NewError ''ID generator is required'')
      else let queueSize = (if queueSize = 0 then defaultOperationQueueSize else queueSize) in
        if queueSize < 1 \<or> queueSize > maxOperationQueueSize
        then Inl (NewError ''operation queue size must be between 1 and 128'')
        else case newGatewayCache (if cacheSize = 0 then defaultGatewayCacheSize else cacheSize)
                    (if cacheTTL = 0 then defaultGatewayCacheTTL else cacheTTL) of
            Inl e \<Rightarrow> Inl e
          | Inr cache \<Rightarrow>
              Inr \<lparr>ps_store = store, ps_operationGovernor = operationGovernor,
                   ps_readGovernor = readGovernor, ps_gatewayCache = cache, ps_queue = [],
                   ps_queueCapacity = nat queueSize,
                   ps_targetLocks = replicate targetLockStripes False, ps_operationControls = [],
                   ps_canceled = [], ps_tick = 0, ps_calls = []\<rparr>)"

section \<open>Actions\<close>

definition ret :: "'a \<Rightarrow> ('gw, 'a) action" where
  "ret x s = (s, Inr x)"

definition fail :: "go_error \<Rightarrow> ('gw, 'a) action" where
  "fail e s = (s, Inl e)"

text \<open>\<^verbatim>\<open>if err != nil { return err }\<close>, and both outcomes handed on.\<close>

definition andThen :: "('gw, 'a) action \<Rightarrow> ('a \<Rightarrow> ('gw, 'b) action) \<Rightarrow> ('gw, 'b) action" where
  "andThen m f s = (case m s of (s', Inl e) \<Rightarrow> (s', Inl e) | (s', Inr x) \<Rightarrow> f x s')"

definition outcome :: "('gw, 'a) action \<Rightarrow> ('a result \<Rightarrow> ('gw, 'b) action) \<Rightarrow> ('gw, 'b) action" where
  "outcome m f s = (case m s of (s', r) \<Rightarrow> f r s')"

text \<open>\<^verbatim>\<open>fmt.Errorf("text: %w", err)\<close> around the error of an action.\<close>

definition wrapped :: "string \<Rightarrow> ('gw, 'a) action \<Rightarrow> ('gw, 'a) action" where
  "wrapped text m s = (case m s of (s', Inl e) \<Rightarrow> (s', Inl (Wrapped text e)) | (s', Inr x) \<Rightarrow> (s', Inr x))"

text \<open>A validation that only returns an error.\<close>

definition guarded :: "go_error option \<Rightarrow> ('gw, 'a) action \<Rightarrow> ('gw, 'a) action" where
  "guarded err m = (case err of Some e \<Rightarrow> fail e | None \<Rightarrow> m)"

text \<open>\<^verbatim>\<open>defer f()\<close>.\<close>

definition deferred :: "('gw Service \<Rightarrow> 'gw Service) \<Rightarrow> ('gw, 'a) action \<Rightarrow> ('gw, 'a) action" where
  "deferred f m s = (case m s of (s', r) \<Rightarrow> (f s', r))"

definition tick :: "'gw Service \<Rightarrow> 'gw Service" where
  "tick s = s\<lparr>ps_tick := ps_tick s + 1\<rparr>"

definition svc_now :: "'gw env \<Rightarrow> (gtime \<Rightarrow> ('gw, 'a) action) \<Rightarrow> ('gw, 'a) action" where
  "svc_now env f s = f (ev_clock env (ps_tick s)) (tick s)"

definition newID :: "'gw env \<Rightarrow> string \<Rightarrow> ('gw, string) action" where
  "newID env pre s = (tick s, ev_newID env (ps_tick s) pre)"

definition SealString :: "'gw env \<Rightarrow> string \<Rightarrow> string \<Rightarrow> ('gw, string) action" where
  "SealString env plaintext associatedData s =
     (tick s, ev_SealString env (ps_tick s) plaintext associatedData)"

definition store_read :: "'gw go_context \<Rightarrow> (go_ctx \<Rightarrow> File \<Rightarrow> 'a result) \<Rightarrow> ('gw, 'a) action" where
  "store_read ctx call s = (tick s, call (ctx s) (ps_store s))"

definition store_write ::
  "'gw env \<Rightarrow> 'gw go_context \<Rightarrow> (io_faults \<Rightarrow> go_ctx \<Rightarrow> File \<Rightarrow> File \<times> go_error option) \<Rightarrow> ('gw, unit) action" where
  "store_write env ctx call s =
     (case call (ev_io env (ps_tick s)) (ctx s) (ps_store s) of
        (f, Some e) \<Rightarrow> (tick (s\<lparr>ps_store := f\<rparr>), Inl e)
      | (f, None) \<Rightarrow> (tick (s\<lparr>ps_store := f\<rparr>), Inr ()))"

text \<open>A call of a dependency that reaches beyond the panel, logged.\<close>

definition upstream :: "'gw upstream_call \<Rightarrow> (nat \<Rightarrow> 'a result) \<Rightarrow> ('gw, 'a) action" where
  "upstream c f s = (tick (s\<lparr>ps_calls := ps_calls s @ [c]\<rparr>), f (ps_tick s))"

definition of_err :: "go_error option \<Rightarrow> unit result" where
  "of_err err = (case err of Some e \<Rightarrow> Inl e | None \<Rightarrow> Inr ())"

definition withoutCancel :: "'gw go_context" where
  "withoutCancel s = None"

section \<open>Audit events\<close>

text \<open>Functions of three strings, to write down the nine fields of an event.\<close>

type_synonym 'r texts = "string \<Rightarrow> string \<Rightarrow> string \<Rightarrow> 'r"

definition newAuditEvent :: "'gw env \<Rightarrow> ('gw, AuditEvent) action texts texts texts" where
  "newAuditEvent env actor requestID action res clusterID namespace target summary operationID =
     andThen (wrapped ''create audit ID'' (newID env ''audit'')) (\<lambda>i.
     svc_now env (\<lambda>now.
     ret \<lparr>au_ID = i, au_RequestID = requestID, au_OperationID = operationID, au_Actor = actor,
          au_Action = action, au_Result = res, au_ClusterID = clusterID, au_Namespace = namespace,
          au_Target = target, au_Summary = summary, au_CreatedAt = now\<rparr>))"

definition audit :: "'gw env \<Rightarrow> 'gw go_context \<Rightarrow> ('gw, unit) action texts texts texts" where
  "audit env ctx actor requestID action res clusterID namespace target summary operationID =
     andThen (newAuditEvent env actor requestID action res clusterID namespace target summary operationID)
       (\<lambda>event. store_write env ctx (\<lambda>io c. CreateAuditEvent io c event))"

section \<open>Target locks\<close>

definition fnv_step :: "char \<Rightarrow> 64 word \<Rightarrow> 64 word" where
  "fnv_step b hash = (hash XOR of_char b) * 1099511628211"

definition targetLock :: "string \<Rightarrow> string \<Rightarrow> string \<Rightarrow> nat" where
  "targetLock clusterID namespace name =
     (let value = clusterID @ [CHR 0x00] @ namespace @ [CHR 0x00] @ name;
          hash = fold fnv_step value 14695981039346656037
      in unat (hash mod of_nat targetLockStripes))"

definition unlockTarget :: "nat \<Rightarrow> 'gw Service \<Rightarrow> 'gw Service" where
  "unlockTarget stripe s = s\<lparr>ps_targetLocks := (ps_targetLocks s)[stripe := False]\<rparr>"

definition tryAcquireTargetLock ::
  "'gw go_context \<Rightarrow> string \<Rightarrow> string \<Rightarrow> string \<Rightarrow> ('gw, nat) action" where
  "tryAcquireTargetLock ctx clusterID namespace name s =
     (case ctx s of
        Some e \<Rightarrow> (s, Inl e)
      | None \<Rightarrow>
          (let stripe = targetLock clusterID namespace name in
           if ps_targetLocks s ! stripe then (s, Inl ErrBusy)
           else (s\<lparr>ps_targetLocks := (ps_targetLocks s)[stripe := True]\<rparr>, Inr stripe)))"

text \<open>
  The blocking variant: a held lock is waited for until the context is done, which ends the
  wait with \<open>ev_done\<close> when nobody else runs.
\<close>

definition acquireTargetLock ::
  "'gw env \<Rightarrow> 'gw go_context \<Rightarrow> string \<Rightarrow> string \<Rightarrow> string \<Rightarrow> ('gw, nat) action" where
  "acquireTargetLock env ctx clusterID namespace name s =
     (case ctx s of
        Some e \<Rightarrow> (s, Inl e)
      | None \<Rightarrow>
          (let stripe = targetLock clusterID namespace name in
           if ps_targetLocks s ! stripe then (tick s, Inl (ev_done env (ps_tick s)))
           else (s\<lparr>ps_targetLocks := (ps_targetLocks s)[stripe := True]\<rparr>, Inr stripe)))"

section \<open>Read slots\<close>

definition acquireKubernetesRead :: "'gw env \<Rightarrow> 'gw go_context \<Rightarrow> ('gw, unit) action" where
  "acquireKubernetesRead env ctx s =
     (case ctx s of
        Some e \<Rightarrow> (s, Inl e)
      | None \<Rightarrow>
          (case TryAcquire (ps_readGovernor s) (ev_sample env (ps_tick s)) (ev_clock env (ps_tick s)) of
             (governor, snapshot, ok) \<Rightarrow>
               (let cache = Reconcile snapshot (ev_clock env (ps_tick s + 1)) (ps_gatewayCache s);
                    s = tick (tick (s\<lparr>ps_readGovernor := governor, ps_gatewayCache := cache\<rparr>))
                in if \<not> ok then (s, Inl ErrBusy) else (s, Inr ()))))"

definition releaseKubernetesRead :: "'gw Service \<Rightarrow> 'gw Service" where
  "releaseKubernetesRead s = s\<lparr>ps_readGovernor := snd (release_slot False (ps_readGovernor s))\<rparr>"

text \<open>\<^verbatim>\<open>release, err := s.acquireKubernetesRead(ctx); ...; defer release()\<close>.\<close>

definition with_read :: "'gw env \<Rightarrow> 'gw go_context \<Rightarrow> ('gw, 'a) action \<Rightarrow> ('gw, 'a) action" where
  "with_read env ctx body =
     andThen (acquireKubernetesRead env ctx) (\<lambda>_. deferred releaseKubernetesRead body)"

section \<open>Connections and clients\<close>

definition clusterAAD :: "string \<Rightarrow> string \<Rightarrow> string" where
  "clusterAAD i field = ''cluster:'' @ i @ '':'' @ field"

definition repositoryAAD :: "string \<Rightarrow> string \<Rightarrow> string" where
  "repositoryAAD i field = ''repository:'' @ i @ '':'' @ field"

definition clusterConnection :: "'gw env \<Rightarrow> Cluster \<Rightarrow> Connection result" where
  "clusterConnection env cluster =
     (case ev_OpenString env (cl_BearerTokenCiphertext cluster) (clusterAAD (cl_ID cluster) ''bearer_token'') of
        Inl e \<Rightarrow> Inl (Wrapped ''decrypt cluster token'' e)
      | Inr token \<Rightarrow>
          (if cl_CACertCiphertext cluster \<noteq> []
           then case ev_OpenString env (cl_CACertCiphertext cluster) (clusterAAD (cl_ID cluster) ''ca_cert'') of
               Inl e \<Rightarrow> Inl (Wrapped ''decrypt cluster CA'' e)
             | Inr ca \<Rightarrow> Inr \<lparr>cn_Server = cl_Server cluster, cn_CACert = ca, cn_BearerToken = token\<rparr>
           else Inr \<lparr>cn_Server = cl_Server cluster, cn_CACert = [], cn_BearerToken = token\<rparr>))"

definition repositoryConnection :: "'gw env \<Rightarrow> Repository \<Rightarrow> RepositoryConnection result" where
  "repositoryConnection env repository =
     (case (if rp_UsernameCiphertext repository \<noteq> []
            then ev_OpenString env (rp_UsernameCiphertext repository) (repositoryAAD (rp_ID repository) ''username'')
            else Inr []) of
        Inl e \<Rightarrow> Inl (Wrapped ''decrypt repository username'' e)
      | Inr username \<Rightarrow>
          (case (if rp_PasswordCiphertext repository \<noteq> []
                 then ev_OpenString env (rp_PasswordCiphertext repository) (repositoryAAD (rp_ID repository) ''password'')
                 else Inr []) of
             Inl e \<Rightarrow> Inl (Wrapped ''decrypt repository password'' e)
           | Inr password \<Rightarrow>
               Inr \<lparr>rc_URL = rp_URL repository, rc_Username = username, rc_Password = password\<rparr>))"

text \<open>The closure that builds a client, as what it returns and whether it called the factory.\<close>

definition build_gateway :: "'gw env \<Rightarrow> nat \<Rightarrow> Cluster \<Rightarrow> ('gw option \<times> go_error option) \<times> 'gw upstream_call list" where
  "build_gateway env n cluster =
     (case clusterConnection env cluster of
        Inl e \<Rightarrow> ((None, Some e), [])
      | Inr connection \<Rightarrow> (ev_New env n connection, [FactoryNew connection]))"

definition gatewayForCluster :: "'gw env \<Rightarrow> 'gw go_context \<Rightarrow> Cluster \<Rightarrow> ('gw, 'gw) action" where
  "gatewayForCluster env ctx cluster s =
     (let n = ps_tick s;
          (built, calls) = build_gateway env (n + 1) cluster
      in case Get (ctx s) (ev_done env n) (ev_clock env n) (cl_ID cluster)
                (clusterGatewayFingerprint (ev_sha256 env) cluster) (Some built)
                (ev_clock env (n + 2)) (ps_gatewayCache s) of
           (cache, called, res) \<Rightarrow>
             (s\<lparr>ps_gatewayCache := cache, ps_tick := n + 3,
                ps_calls := ps_calls s @ (if called then calls else [])\<rparr>,
              (case res of Inl e \<Rightarrow> Inl (Wrapped ''create Kubernetes gateway'' e) | Inr g \<Rightarrow> Inr g)))"

definition kubeGateway :: "'gw env \<Rightarrow> 'gw go_context \<Rightarrow> string \<Rightarrow> ('gw, 'gw) action" where
  "kubeGateway env ctx clusterID =
     andThen (store_read ctx (\<lambda>c. GetCluster c clusterID)) (\<lambda>cluster.
     if cl_Status cluster = ClusterDisabled then fail ErrInvalidState
     else gatewayForCluster env ctx cluster)"

definition cacheInvalidate :: "string \<Rightarrow> 'gw Service \<Rightarrow> 'gw Service" where
  "cacheInvalidate i s = s\<lparr>ps_gatewayCache := Invalidate i (ps_gatewayCache s)\<rparr>"

definition closeIdle :: "'gw list \<Rightarrow> 'gw Service \<Rightarrow> 'gw Service" where
  "closeIdle gws s = s\<lparr>ps_gatewayCache := closeIdleGateways gws (ps_gatewayCache s)\<rparr>"

definition clusterFailure :: "go_error \<Rightarrow> ClusterStatus \<times> string" where
  "clusterFailure err =
     (if errors_is err ErrForbidden then (ClusterDegraded, ''permission_denied'')
      else if errors_is err ErrUnauthorized then (ClusterUnreachable, ''credentials_rejected'')
      else if errors_is err ErrTimeout then (ClusterUnreachable, ''upstream_timeout'')
      else (ClusterUnreachable, ''upstream_unavailable''))"

section \<open>Views\<close>

record ClusterView =
  cv_ID :: string
  cv_Name :: string
  cv_Environment :: Environment
  cv_Server :: string
  cv_Status :: ClusterStatus
  cv_Version :: string
  cv_LastErrorCode :: string
  cv_CredentialsConfigured :: bool
  cv_LastCheckedAt :: gtime
  cv_CreatedAt :: gtime
  cv_UpdatedAt :: gtime

record RepositoryView =
  rv_ID :: string
  rv_Name :: string
  rv_URL :: string
  rv_Enabled :: bool
  rv_Status :: string
  rv_LastErrorCode :: string
  rv_CredentialsConfigured :: bool
  rv_LastCheckedAt :: gtime
  rv_CreatedAt :: gtime
  rv_UpdatedAt :: gtime

definition clusterView :: "Cluster \<Rightarrow> ClusterView" where
  "clusterView cluster =
     \<lparr>cv_ID = cl_ID cluster, cv_Name = cl_Name cluster, cv_Environment = cl_Environment cluster,
      cv_Server = cl_Server cluster, cv_Status = cl_Status cluster, cv_Version = cl_Version cluster,
      cv_LastErrorCode = cl_LastErrorCode cluster,
      cv_CredentialsConfigured = (cl_BearerTokenCiphertext cluster \<noteq> []),
      cv_LastCheckedAt = cl_LastCheckedAt cluster, cv_CreatedAt = cl_CreatedAt cluster,
      cv_UpdatedAt = cl_UpdatedAt cluster\<rparr>"

definition repositoryView :: "Repository \<Rightarrow> RepositoryView" where
  "repositoryView repository =
     \<lparr>rv_ID = rp_ID repository, rv_Name = rp_Name repository, rv_URL = rp_URL repository,
      rv_Enabled = rp_Enabled repository, rv_Status = rp_Status repository,
      rv_LastErrorCode = rp_LastErrorCode repository,
      rv_CredentialsConfigured =
        (rp_UsernameCiphertext repository \<noteq> [] \<or> rp_PasswordCiphertext repository \<noteq> []),
      rv_LastCheckedAt = rp_LastCheckedAt repository, rv_CreatedAt = rp_CreatedAt repository,
      rv_UpdatedAt = rp_UpdatedAt repository\<rparr>"

text \<open>The zero values that a handler returns beside an error.\<close>

definition zero_cluster_view :: ClusterView where
  "zero_cluster_view =
     \<lparr>cv_ID = [], cv_Name = [], cv_Environment = OtherEnvironment [], cv_Server = [],
      cv_Status = OtherClusterStatus [], cv_Version = [], cv_LastErrorCode = [],
      cv_CredentialsConfigured = False, cv_LastCheckedAt = zero_time, cv_CreatedAt = zero_time,
      cv_UpdatedAt = zero_time\<rparr>"

definition zero_repository_view :: RepositoryView where
  "zero_repository_view =
     \<lparr>rv_ID = [], rv_Name = [], rv_URL = [], rv_Enabled = False, rv_Status = [],
      rv_LastErrorCode = [], rv_CredentialsConfigured = False, rv_LastCheckedAt = zero_time,
      rv_CreatedAt = zero_time, rv_UpdatedAt = zero_time\<rparr>"

end
