(* ===== verification/Clusters.thy ===== *)
theory Clusters
  imports Platform
begin

text \<open>
  The handlers of \<^verbatim>\<open>service.go\<close> that manage clusters: registration, listing,
  connection tests, credential rotation, enabling, disabling and deletion.
\<close>

section \<open>Handlers\<close>

text \<open>The cluster as a probe leaves it, and the result for the audit event.\<close>

definition tested_cluster :: "gtime \<Rightarrow> ClusterProbe result \<Rightarrow> Cluster \<Rightarrow> Cluster \<times> string" where
  "tested_cluster now probe cluster =
     (let cluster = cluster\<lparr>cl_LastCheckedAt := now, cl_UpdatedAt := now\<rparr>
      in case probe of
           Inr p \<Rightarrow>
             (cluster\<lparr>cl_Status := ClusterConnected, cl_Version := pb_Version p,
                      cl_LastErrorCode := []\<rparr>, ''succeeded'')
         | Inl e \<Rightarrow>
             (cluster\<lparr>cl_Status := fst (clusterFailure e),
                      cl_LastErrorCode := snd (clusterFailure e)\<rparr>, ''failed''))"

text \<open>
  \<^verbatim>\<open>testClusterConnection\<close> returns a view beside the error of the probe; \<open>Inl\<close>
  is a return of the zero view with an error.
\<close>

definition testClusterConnection ::
  "'gw env \<Rightarrow> 'gw go_context \<Rightarrow> string \<Rightarrow> string \<Rightarrow> string \<Rightarrow> ('gw, ClusterView \<times> go_error option) action" where
  "testClusterConnection env ctx actor requestID i =
     andThen (store_read ctx (\<lambda>c. GetCluster c i)) (\<lambda>cluster.
     if cl_Status cluster = ClusterDisabled then fail ErrInvalidState
     else
     andThen (gatewayForCluster env ctx cluster) (\<lambda>gateway.
     outcome (upstream (GatewayCall gateway) (\<lambda>n. ev_Probe env n gateway)) (\<lambda>probe s.
     (let s = (case probe of Inl e \<Rightarrow> cacheInvalidate i s | Inr p \<Rightarrow> s) in
      svc_now env (\<lambda>now.
        (let (cluster, res) = tested_cluster now probe cluster in
         andThen (store_write env ctx (\<lambda>io c. UpdateCluster io c cluster)) (\<lambda>_.
         andThen (wrapped ''write connection test audit''
           (audit env ctx actor requestID ''cluster.connection_test'' res i [] (cl_Name cluster)
              (cl_LastErrorCode cluster) [])) (\<lambda>_.
         ret (clusterView cluster, (case probe of Inl e \<Rightarrow> Some e | Inr p \<Rightarrow> None)))))) s))))"

definition view_or_zero :: "(ClusterView \<times> go_error option) result \<Rightarrow> ClusterView" where
  "view_or_zero r = (case r of Inl e \<Rightarrow> zero_cluster_view | Inr (view, err) \<Rightarrow> view)"

definition svc_CreateCluster ::
  "'gw env \<Rightarrow> 'gw go_context \<Rightarrow> string \<Rightarrow> string \<Rightarrow> ClusterInput \<Rightarrow> ('gw, ClusterView) action" where
  "svc_CreateCluster env ctx actor requestID input =
     guarded (ValidateClusterInput (ev_parse env) input)
     (outcome (\<lambda>s. (tick s, of_err (ev_Validate env (ps_tick s) (ci_Server input)))) (\<lambda>valid.
      case valid of
        Inl e \<Rightarrow> fail (Invalid ''server'' ''target is blocked or cannot be resolved'')
      | Inr _ \<Rightarrow>
     andThen (wrapped ''create cluster ID'' (newID env ''clu'')) (\<lambda>i.
     andThen (wrapped ''encrypt cluster token''
       (SealString env (ci_BearerToken input) (clusterAAD i ''bearer_token''))) (\<lambda>tokenCiphertext.
     andThen (if ci_CACert input \<noteq> []
              then wrapped ''encrypt cluster CA'' (SealString env (ci_CACert input) (clusterAAD i ''ca_cert''))
              else ret []) (\<lambda>caCiphertext.
     svc_now env (\<lambda>now.
     (let cluster = \<lparr>cl_ID = i, cl_Name = ci_Name input, cl_Environment = ci_Environment input,
            cl_Server = trim_right_char CHR ''/'' (ci_Server input), cl_Status = ClusterPending,
            cl_Version = [], cl_LastErrorCode = [], cl_CACertCiphertext = caCiphertext,
            cl_BearerTokenCiphertext = tokenCiphertext, cl_LastCheckedAt = zero_time,
            cl_CreatedAt = now, cl_UpdatedAt = now\<rparr>
      in
     andThen (store_write env ctx (\<lambda>io c. CreateCluster io c cluster)) (\<lambda>_.
     andThen (wrapped ''write cluster audit''
       (audit env ctx actor requestID ''cluster.create'' ''succeeded'' i [] (ci_Name input)
          ''connection metadata created'' [])) (\<lambda>_.
     outcome (testClusterConnection env ctx actor requestID i) (\<lambda>r. ret (view_or_zero r)))))))))))"

definition svc_ListClusters :: "'gw go_context \<Rightarrow> ('gw, ClusterView list) action" where
  "svc_ListClusters ctx =
     andThen (store_read ctx ListClusters) (\<lambda>clusters. ret (map clusterView clusters))"

definition svc_GetCluster :: "'gw go_context \<Rightarrow> string \<Rightarrow> ('gw, ClusterView) action" where
  "svc_GetCluster ctx i =
     andThen (store_read ctx (\<lambda>c. GetCluster c i)) (\<lambda>cluster. ret (clusterView cluster))"

definition TestClusterConnection ::
  "'gw env \<Rightarrow> 'gw go_context \<Rightarrow> string \<Rightarrow> string \<Rightarrow> string \<Rightarrow> ('gw, ClusterView \<times> go_error option) action" where
  "TestClusterConnection env ctx actor requestID i =
     with_read env ctx (\<lambda>s. testClusterConnection env ctx actor requestID i (cacheInvalidate i s))"

definition recordCredentialRotationFailure ::
  "'gw env \<Rightarrow> 'gw go_context \<Rightarrow> string \<Rightarrow> string \<Rightarrow> Cluster \<Rightarrow> go_error \<Rightarrow> ('gw, 'a) action" where
  "recordCredentialRotationFailure env ctx actor requestID cluster cause =
     andThen (wrapped ''write credential rotation audit''
       (audit env ctx actor requestID ''cluster.credentials.rotate'' ''failed'' (cl_ID cluster) []
          (cl_Name cluster) ''candidate credential validation failed'' []))
       (\<lambda>_. fail cause)"

text \<open>
  The part of the rotation after the candidate client was probed: seal the new credentials, swap
  them in with the audit event, drop the cached client.
\<close>

definition rotate_to ::
  "'gw env \<Rightarrow> 'gw go_context \<Rightarrow> string \<Rightarrow> string \<Rightarrow> string \<Rightarrow> ClusterCredentialRotationInput \<Rightarrow> Cluster \<Rightarrow>
     ClusterProbe \<Rightarrow> ('gw, ClusterView) action" where
  "rotate_to env ctx actor requestID i input current probe =
     outcome (wrapped ''encrypt cluster token''
       (SealString env (cr_BearerToken input) (clusterAAD i ''bearer_token''))) (\<lambda>token.
     case token of
       Inl e \<Rightarrow> recordCredentialRotationFailure env ctx actor requestID current e
     | Inr tokenCiphertext \<Rightarrow>
     outcome (if cr_CACert input \<noteq> []
              then wrapped ''encrypt cluster CA'' (SealString env (cr_CACert input) (clusterAAD i ''ca_cert''))
              else ret []) (\<lambda>ca.
     case ca of
       Inl e \<Rightarrow> recordCredentialRotationFailure env ctx actor requestID current e
     | Inr caCiphertext \<Rightarrow>
     svc_now env (\<lambda>now.
     (let updated = current\<lparr>cl_CACertCiphertext := caCiphertext,
            cl_BearerTokenCiphertext := tokenCiphertext, cl_Status := ClusterConnected,
            cl_Version := pb_Version probe, cl_LastErrorCode := [], cl_LastCheckedAt := now,
            cl_UpdatedAt := now\<rparr>
      in
     andThen (newAuditEvent env actor requestID ''cluster.credentials.rotate'' ''succeeded'' i []
         (cl_Name current) ''connection credentials rotated'' []) (\<lambda>event.
     andThen (store_write env ctx (\<lambda>io c. RotateClusterCredentials io c current updated event)) (\<lambda>_ s.
     (cacheInvalidate i s, Inr (clusterView updated))))))))"

definition svc_RotateClusterCredentials ::
  "'gw env \<Rightarrow> 'gw go_context \<Rightarrow> string \<Rightarrow> string \<Rightarrow> string \<Rightarrow> ClusterCredentialRotationInput \<Rightarrow>
     ('gw, ClusterView) action" where
  "svc_RotateClusterCredentials env ctx actor requestID i input =
     guarded (ValidateClusterCredentialRotationInput input)
     (andThen (tryAcquireTargetLock ctx i [] credentialRotationLock) (\<lambda>stripe.
     deferred (unlockTarget stripe)
     (with_read env ctx
     (andThen (store_read ctx (\<lambda>c. GetCluster c i)) (\<lambda>current.
     if cl_Status current = ClusterDisabled then fail ErrInvalidState
     else if cr_Confirmation input \<noteq> cl_Name current
     then fail (Invalid ''confirmation'' ''must match the cluster name'')
     else (let connection = \<lparr>cn_Server = cl_Server current, cn_CACert = cr_CACert input,
                             cn_BearerToken = cr_BearerToken input\<rparr> in
     andThen (upstream (FactoryNew connection) (\<lambda>n. Inr (ev_New env n connection))) (\<lambda>built.
     case built of
       (candidate, Some buildErr) \<Rightarrow>
         (\<lambda>s. recordCredentialRotationFailure env ctx actor requestID current buildErr
            (closeIdle (case candidate of Some g \<Rightarrow> [g] | None \<Rightarrow> []) s))
     | (None, None) \<Rightarrow>
         recordCredentialRotationFailure env ctx actor requestID current
           (NewError ''Kubernetes gateway builder returned no gateway'')
     | (Some candidate, None) \<Rightarrow>
         deferred (closeIdle [candidate])
         (outcome (upstream (GatewayCall candidate) (\<lambda>n. ev_Probe env n candidate)) (\<lambda>probe.
         case probe of
           Inl probeErr \<Rightarrow> recordCredentialRotationFailure env ctx actor requestID current probeErr
         | Inr p \<Rightarrow> rotate_to env ctx actor requestID i input current p)))))))))"

definition enabled_text :: "bool \<Rightarrow> string" where
  "enabled_text enabled = (if enabled then ''enabled=true'' else ''enabled=false'')"

definition SetClusterEnabled ::
  "'gw env \<Rightarrow> 'gw go_context \<Rightarrow> string \<Rightarrow> string \<Rightarrow> string \<Rightarrow> bool \<Rightarrow> ('gw, ClusterView) action" where
  "SetClusterEnabled env ctx actor requestID i enabled =
     andThen (store_read ctx (\<lambda>c. GetCluster c i)) (\<lambda>cluster.
     svc_now env (\<lambda>now.
     (let cluster = cluster\<lparr>cl_Status := (if enabled then ClusterPending else ClusterDisabled),
                           cl_UpdatedAt := now\<rparr>
      in
     andThen (store_write env ctx (\<lambda>io c. UpdateCluster io c cluster)) (\<lambda>_ s.
     andThen (audit env ctx actor requestID ''cluster.update'' ''succeeded'' i [] (cl_Name cluster)
         (enabled_text enabled) []) (\<lambda>_.
     if enabled
     then outcome (testClusterConnection env ctx actor requestID i) (\<lambda>r. ret (view_or_zero r))
     else ret (clusterView cluster))
     (if enabled then s else cacheInvalidate i s)))))"

definition svc_DeleteCluster ::
  "'gw env \<Rightarrow> 'gw go_context \<Rightarrow> string \<Rightarrow> string \<Rightarrow> string \<Rightarrow> string \<Rightarrow> ('gw, unit) action" where
  "svc_DeleteCluster env ctx actor requestID i expectedName =
     andThen (store_read ctx (\<lambda>c. GetCluster c i)) (\<lambda>cluster.
     if expectedName \<noteq> cl_Name cluster
     then fail (Invalid ''confirmation'' ''must match the cluster name'')
     else
     andThen (audit env ctx actor requestID ''cluster.delete'' ''succeeded'' i [] (cl_Name cluster)
         ''connection metadata deleted'' []) (\<lambda>_.
     andThen (store_write env ctx (\<lambda>io c. DeleteCluster io c i)) (\<lambda>_ s.
     (cacheInvalidate i s, Inr ()))))"

end
