(* ===== verification/Repositories.thy ===== *)
theory Repositories
  imports Platform
begin

text \<open>
  The handlers of \<^verbatim>\<open>internal/platform/repositories.go\<close> that manage chart repositories.
\<close>

section \<open>Handlers\<close>

definition testRepository ::
  "'gw env \<Rightarrow> 'gw go_context \<Rightarrow> string \<Rightarrow> string \<Rightarrow> string \<Rightarrow> ('gw, RepositoryView \<times> go_error option) action" where
  "testRepository env ctx actor requestID i =
     andThen (store_read ctx (\<lambda>c. GetRepository c i)) (\<lambda>repository.
     if \<not> rp_Enabled repository then fail ErrInvalidState
     else
     andThen (\<lambda>s. (s, repositoryConnection env repository)) (\<lambda>connection.
     outcome (upstream (RepositoryCheckCall connection) (\<lambda>n. of_err (ev_Check env n connection))) (\<lambda>check.
     svc_now env (\<lambda>now.
     (let repository = repository\<lparr>rp_LastCheckedAt := now, rp_UpdatedAt := now\<rparr>;
          (repository, res) =
            (case check of
               Inr _ \<Rightarrow> (repository\<lparr>rp_Status := ''connected'', rp_LastErrorCode := []\<rparr>, ''succeeded'')
             | Inl e \<Rightarrow> (repository\<lparr>rp_Status := ''unreachable'',
                                   rp_LastErrorCode := ''repository_unavailable''\<rparr>, ''failed''))
      in
     andThen (store_write env ctx (\<lambda>io c. UpdateRepository io c repository)) (\<lambda>_.
     andThen (audit env ctx actor requestID ''chart_repository.connection_test'' res [] []
         (rp_Name repository) (rp_LastErrorCode repository) []) (\<lambda>_.
     ret (repositoryView repository, (case check of Inl e \<Rightarrow> Some e | Inr _ \<Rightarrow> None)))))))))"

definition TestRepository ::
  "'gw env \<Rightarrow> 'gw go_context \<Rightarrow> string \<Rightarrow> string \<Rightarrow> string \<Rightarrow> ('gw, RepositoryView \<times> go_error option) action" where
  "TestRepository env ctx actor requestID i = testRepository env ctx actor requestID i"

definition svc_CreateRepository ::
  "'gw env \<Rightarrow> 'gw go_context \<Rightarrow> string \<Rightarrow> string \<Rightarrow> RepositoryInput \<Rightarrow> ('gw, RepositoryView) action" where
  "svc_CreateRepository env ctx actor requestID input =
     guarded (ValidateRepositoryInput (ev_parse env) input)
     (outcome (\<lambda>s. (tick s, of_err (ev_Validate env (ps_tick s) (ri_URL input)))) (\<lambda>valid.
      case valid of
        Inl e \<Rightarrow> fail (Invalid ''url'' ''target is blocked or cannot be resolved'')
      | Inr _ \<Rightarrow>
     andThen (wrapped ''create repository ID'' (newID env ''repo'')) (\<lambda>i.
     andThen (if ri_Username input \<noteq> []
              then wrapped ''encrypt repository username''
                     (SealString env (ri_Username input) (repositoryAAD i ''username''))
              else ret []) (\<lambda>usernameCiphertext.
     andThen (if ri_Password input \<noteq> []
              then wrapped ''encrypt repository password''
                     (SealString env (ri_Password input) (repositoryAAD i ''password''))
              else ret []) (\<lambda>passwordCiphertext.
     svc_now env (\<lambda>now.
     (let repository = \<lparr>rp_ID = i, rp_Name = ri_Name input,
            rp_URL = trim_right_char CHR ''/'' (ri_URL input), rp_Enabled = True,
            rp_UsernameCiphertext = usernameCiphertext, rp_PasswordCiphertext = passwordCiphertext,
            rp_Status = ''pending'', rp_LastErrorCode = [], rp_LastCheckedAt = zero_time,
            rp_CreatedAt = now, rp_UpdatedAt = now\<rparr>
      in
     andThen (store_write env ctx (\<lambda>io c. CreateRepository io c repository)) (\<lambda>_.
     andThen (audit env ctx actor requestID ''chart_repository.create'' ''succeeded'' [] []
         (rp_Name repository) ''repository metadata created'' []) (\<lambda>_.
     outcome (testRepository env ctx actor requestID i) (\<lambda>r.
     ret (case r of Inl e \<Rightarrow> zero_repository_view | Inr (view, err) \<Rightarrow> view)))))))))))"

definition svc_ListRepositories :: "'gw go_context \<Rightarrow> ('gw, RepositoryView list) action" where
  "svc_ListRepositories ctx =
     andThen (store_read ctx ListRepositories) (\<lambda>repositories. ret (map repositoryView repositories))"

definition SetRepositoryEnabled ::
  "'gw env \<Rightarrow> 'gw go_context \<Rightarrow> string \<Rightarrow> string \<Rightarrow> string \<Rightarrow> bool \<Rightarrow> ('gw, RepositoryView) action" where
  "SetRepositoryEnabled env ctx actor requestID i enabled =
     andThen (store_read ctx (\<lambda>c. GetRepository c i)) (\<lambda>repository.
     svc_now env (\<lambda>now.
     (let repository = repository\<lparr>rp_Enabled := enabled,
            rp_Status := (if enabled then ''pending'' else ''disabled''), rp_UpdatedAt := now\<rparr>
      in
     andThen (store_write env ctx (\<lambda>io c. UpdateRepository io c repository)) (\<lambda>_.
     andThen (audit env ctx actor requestID ''chart_repository.update'' ''succeeded'' [] []
         (rp_Name repository) (if enabled then ''enabled=true'' else ''enabled=false'') []) (\<lambda>_.
     ret (repositoryView repository))))))"

definition svc_DeleteRepository ::
  "'gw env \<Rightarrow> 'gw go_context \<Rightarrow> string \<Rightarrow> string \<Rightarrow> string \<Rightarrow> ('gw, unit) action" where
  "svc_DeleteRepository env ctx actor requestID i =
     andThen (store_read ctx (\<lambda>c. GetRepository c i)) (\<lambda>repository.
     andThen (audit env ctx actor requestID ''chart_repository.delete'' ''succeeded'' [] []
         (rp_Name repository) ''repository metadata deleted'' []) (\<lambda>_.
     store_write env ctx (\<lambda>io c. DeleteRepository io c i)))"

end
