(* ===== verification/Operations.thy ===== *)
theory Operations
  imports Platform
begin

text \<open>
  The operations of \<^verbatim>\<open>internal/platform/operations.go\<close>: submitting, queueing,
  cancelling and executing Helm releases and workload changes, with their audit trail, and the
  registry of cancellation handles. A handle is an index into \<open>ps_canceled\<close>, the state of
  its context.

  The texts of the messages are UTF-8.
\<close>

section \<open>Messages and summaries\<close>

definition audit_failed_message :: string where
  "audit_failed_message = map char_of
     [230, 147, 141, 228, 189, 156, 229, 174, 161, 232, 174, 161, 229, 134, 153, 229, 133, 165,
      229, 164, 177, 232, 180, 165, 239, 188, 140, 228, 187, 187, 229, 138, 161, 230, 156, 170,
      230, 137, 167, 232, 161, 140 :: nat]"

definition queue_full_message :: string where
  "queue_full_message = map char_of
     [230, 147, 141, 228, 189, 156, 233, 152, 159, 229, 136, 151, 229, 183, 178, 230, 187, 161,
      239, 188, 140, 232, 175, 183, 231, 168, 141, 229, 144, 142, 233, 135, 141, 232, 175, 149 :: nat]"

definition interrupted_message :: string where
  "interrupted_message = map char_of
     [230, 147, 141, 228, 189, 156, 230, 137, 167, 232, 161, 140, 232, 162, 171, 230, 156, 141,
      229, 138, 161, 229, 133, 179, 233, 151, 173, 228, 184, 173, 230, 150, 173, 239, 188, 140,
      231, 187, 147, 230, 158, 156, 233, 156, 128, 232, 166, 129, 228, 186, 186, 229, 183, 165,
      231, 161, 174, 232, 174, 164 :: nat]"

definition result_audit_failed_message :: string where
  "result_audit_failed_message = map char_of
     [230, 147, 141, 228, 189, 156, 231, 187, 147, 230, 158, 156, 229, 174, 161, 232, 174, 161,
      229, 134, 153, 229, 133, 165, 229, 164, 177, 232, 180, 165, 239, 188, 140, 232, 175, 183,
      228, 186, 186, 229, 183, 165, 231, 161, 174, 232, 174, 164, 231, 155, 174, 230, 160, 135,
      231, 138, 182, 230, 128, 129 :: nat]"

definition workload_failed_message :: string where
  "workload_failed_message = map char_of
     [229, 183, 165, 228, 189, 156, 232, 180, 159, 232, 189, 189, 230, 147, 141, 228, 189, 156,
      230, 137, 167, 232, 161, 140, 229, 164, 177, 232, 180, 165, 239, 188, 140, 232, 175, 183,
      229, 136, 183, 230, 150, 176, 232, 181, 132, 230, 186, 144, 229, 185, 182, 230, 163, 128,
      230, 159, 165, 233, 148, 153, 232, 175, 175, 231, 160, 129 :: nat]"

definition helm_failed_message :: string where
  "helm_failed_message = map char_of
     [72, 101, 108, 109, 32, 230, 147, 141, 228, 189, 156, 230, 137, 167, 232, 161, 140, 229, 164,
      177, 232, 180, 165, 239, 188, 140, 232, 175, 183, 230, 159, 165, 231, 156, 139, 233, 148,
      153, 232, 175, 175, 231, 160, 129, 229, 146, 140, 231, 155, 174, 230, 160, 135, 233, 155,
      134, 231, 190, 164, 231, 138, 182, 230, 128, 129 :: nat]"

definition validateHelmTarget :: "HelmOperationInput \<Rightarrow> go_error option" where
  "validateHelmTarget input =
     (if hi_ClusterID input = [] then Some (Invalid ''cluster_id'' ''is required'')
      else if hi_Namespace input = [] then Some (Invalid ''namespace'' ''is required'')
      else if hi_ReleaseName input = [] then Some (Invalid ''release_name'' ''is required'')
      else if contains_any (hi_Namespace input @ hi_ReleaseName input) [CHR '' '', CHR ''/'', CHR 0x5C]
      then Some (Invalid ''release_name'' ''contains invalid characters'')
      else None)"

definition operationSummary :: "HelmOperationInput \<Rightarrow> string" where
  "operationSummary input =
     (let parts = (if hi_Chart input \<noteq> [] then [''chart='' @ hi_Chart input] else []);
          parts = parts @ (if hi_Version input \<noteq> [] then [''version='' @ hi_Version input] else [])
      in join_str '', '' parts)"

definition workloadOperationSummary :: "OperationKind \<Rightarrow> WorkloadOperationInput \<Rightarrow> string" where
  "workloadOperationSummary kind input =
     (case wi_Replicas input of
        Some replicas \<Rightarrow>
          if kind = OperationWorkloadScale
          then ''replicas='' @ itoa replicas @ '', resource_version='' @ wi_ResourceVersion input
          else ''rolling restart, resource_version='' @ wi_ResourceVersion input
      | None \<Rightarrow> ''rolling restart, resource_version='' @ wi_ResourceVersion input)"

definition workloadImageSummary :: "WorkloadImageChange \<Rightarrow> string" where
  "workloadImageSummary change =
     ''container='' @ wc_Container change @ '', fields=1, resource_version='' @ wc_ResourceVersion change"

definition normalizeWorkloadImageInput :: "WorkloadImageOperationInput \<Rightarrow> WorkloadImageOperationInput" where
  "normalizeWorkloadImageInput input =
     (let change = wo_Change input; reference = wc_Reference change
      in input\<lparr>wo_ClusterID := trim_space (wo_ClusterID input),
               wo_Change := change\<lparr>
                 wc_Reference := reference\<lparr>wr_Kind := to_lower (trim_space (wr_Kind reference))\<rparr>,
                 wc_ResourceVersion := trim_space (wc_ResourceVersion change),
                 wc_Container := trim_space (wc_Container change)\<rparr>\<rparr>)"

definition isWorkloadOperation :: "OperationKind \<Rightarrow> bool" where
  "isWorkloadOperation kind \<longleftrightarrow>
     kind = OperationWorkloadScale \<or> kind = OperationWorkloadRestart \<or> kind = OperationWorkloadImage"

definition operationErrorCode :: "OperationKind \<Rightarrow> go_error \<Rightarrow> string" where
  "operationErrorCode kind err =
     (if errors_is err ErrForbidden then ''permission_denied''
      else if errors_is err ErrUnauthorized then ''credentials_rejected''
      else if errors_is err ErrTimeout \<or> errors_is err ContextDeadlineExceeded then ''upstream_timeout''
      else if errors_is err ErrConflict
      then (if isWorkloadOperation kind then ''resource_version_conflict'' else ''release_conflict'')
      else if errors_is err ErrNotFound then ''target_not_found''
      else if isWorkloadOperation kind then ''workload_operation_failed''
      else ''helm_operation_failed'')"

definition operationFailureMessage :: "OperationKind \<Rightarrow> string" where
  "operationFailureMessage kind =
     (if isWorkloadOperation kind then workload_failed_message else helm_failed_message)"

section \<open>Cancellation handles\<close>

definition cancelControl :: "nat \<Rightarrow> 'gw Service \<Rightarrow> 'gw Service" where
  "cancelControl control s = s\<lparr>ps_canceled := (ps_canceled s)[control := True]\<rparr>"

definition registerOperationControl :: "string \<Rightarrow> 'gw Service \<Rightarrow> 'gw Service \<times> nat" where
  "registerOperationControl operationID s =
     (let control = length (ps_canceled s);
          previous = map_of (ps_operationControls s) operationID;
          s = s\<lparr>ps_canceled := ps_canceled s @ [False],
                ps_operationControls := AList.update operationID control (ps_operationControls s)\<rparr>
      in ((case previous of Some p \<Rightarrow> cancelControl p s | None \<Rightarrow> s), control))"

definition signalOperationCancellation :: "string \<Rightarrow> 'gw Service \<Rightarrow> 'gw Service" where
  "signalOperationCancellation operationID s =
     (let control = map_of (ps_operationControls s) operationID;
          s = s\<lparr>ps_operationControls := AList.delete operationID (ps_operationControls s)\<rparr>
      in case control of Some c \<Rightarrow> cancelControl c s | None \<Rightarrow> s)"

definition releaseOperationControl :: "string \<Rightarrow> nat option \<Rightarrow> 'gw Service \<Rightarrow> 'gw Service" where
  "releaseOperationControl operationID control s =
     (case control of
        None \<Rightarrow> s
      | Some c \<Rightarrow>
          (let s = cancelControl c s
           in if map_of (ps_operationControls s) operationID = Some c
              then s\<lparr>ps_operationControls := AList.delete operationID (ps_operationControls s)\<rparr>
              else s))"

definition cancelAllOperationControls :: "'gw Service \<Rightarrow> 'gw Service" where
  "cancelAllOperationControls s =
     fold cancelControl (map snd (ps_operationControls s)) (s\<lparr>ps_operationControls := []\<rparr>)"

text \<open>The context of an execution: done with its parent, or once its handle is cancelled.\<close>

definition operationExecutionContext :: "'gw go_context \<Rightarrow> operationJob \<Rightarrow> 'gw go_context" where
  "operationExecutionContext parent job s =
     (case parent s of
        Some e \<Rightarrow> Some e
      | None \<Rightarrow>
          (case jb_control job of
             None \<Rightarrow> None
           | Some c \<Rightarrow> if ps_canceled s ! c then Some ContextCanceled else None))"

definition finishExecution :: "operationJob \<Rightarrow> 'gw Service \<Rightarrow> 'gw Service" where
  "finishExecution job s = releaseOperationControl (jb_operationID job) (jb_control job) s"

section \<open>The life of an operation\<close>

text \<open>The changes the code makes to an operation on its way, in one place.\<close>

definition mark_running :: "gtime \<Rightarrow> Operation \<Rightarrow> Operation" where
  "mark_running now operation =
     operation\<lparr>op_State := OperationRunning, op_StartedAt := now, op_UpdatedAt := now\<rparr>"

definition mark_canceled :: "gtime \<Rightarrow> Operation \<Rightarrow> Operation" where
  "mark_canceled now operation =
     operation\<lparr>op_State := OperationCanceled, op_ErrorCode := [], op_ErrorMessage := [],
               op_FinishedAt := now, op_UpdatedAt := now\<rparr>"

definition mark_rejected :: "string \<Rightarrow> string \<Rightarrow> gtime \<Rightarrow> Operation \<Rightarrow> Operation" where
  "mark_rejected code message now operation =
     operation\<lparr>op_State := OperationFailed, op_ErrorCode := code, op_ErrorMessage := message,
               op_FinishedAt := now, op_UpdatedAt := now\<rparr>"

text \<open>
  The outcome of an execution: \<open>err\<close> is what the job returned, \<open>stopped\<close> whether the
  worker's own context is done. The second component is the result for the audit event.
\<close>

definition mark_finished :: "unit result \<Rightarrow> bool \<Rightarrow> gtime \<Rightarrow> Operation \<Rightarrow> Operation \<times> string" where
  "mark_finished err stopped now operation =
     (let operation = operation\<lparr>op_FinishedAt := now, op_UpdatedAt := now\<rparr>
      in case err of
           Inr _ \<Rightarrow> (operation\<lparr>op_State := OperationSucceeded\<rparr>, ''succeeded'')
         | Inl e \<Rightarrow>
             if errors_is e ContextCanceled \<and> stopped
             then (operation\<lparr>op_State := OperationUnknown, op_ErrorCode := ''operation_interrupted'',
                             op_ErrorMessage := interrupted_message\<rparr>, ''unknown'')
             else (operation\<lparr>op_State := OperationFailed,
                             op_ErrorCode := operationErrorCode (op_Kind operation) e,
                             op_ErrorMessage := operationFailureMessage (op_Kind operation)\<rparr>, ''failed''))"

definition mark_unaudited :: "Operation \<Rightarrow> Operation" where
  "mark_unaudited operation =
     operation\<lparr>op_State := OperationFailed, op_ErrorCode := ''audit_failed'',
               op_ErrorMessage := result_audit_failed_message\<rparr>"

definition cancel_audit :: "string \<Rightarrow> string \<Rightarrow> string \<Rightarrow> gtime \<Rightarrow> Operation \<Rightarrow> AuditEvent" where
  "cancel_audit auditID requestID actor now operation =
     \<lparr>au_ID = auditID, au_RequestID = requestID, au_OperationID = op_ID operation, au_Actor = actor,
      au_Action = ''operation.cancel'', au_Result = ''succeeded'', au_ClusterID = op_ClusterID operation,
      au_Namespace = op_Namespace operation, au_Target = op_Target operation,
      au_Summary = ''kind='' @ kind_string (op_Kind operation), au_CreatedAt = now\<rparr>"

section \<open>Submission\<close>

definition operation_audit :: "'gw env \<Rightarrow> 'gw go_context \<Rightarrow> Operation \<Rightarrow> string \<Rightarrow> string \<Rightarrow> ('gw, unit) action" where
  "operation_audit env ctx operation res summary =
     audit env ctx (op_SubmittedBy operation) (op_RequestID operation) (kind_string (op_Kind operation)) res
       (op_ClusterID operation) (op_Namespace operation) (op_Target operation) summary (op_ID operation)"

text \<open>Everything after the handle was registered.\<close>

definition enqueue_registered ::
  "'gw env \<Rightarrow> 'gw go_context \<Rightarrow> Operation \<Rightarrow> operationJob \<Rightarrow> nat \<Rightarrow> ('gw, Operation) action" where
  "enqueue_registered env ctx operation job control =
     outcome (store_write env ctx (\<lambda>io c. CreateOperation io c operation)) (\<lambda>created.
     case created of
       Inl e \<Rightarrow> (\<lambda>s. (releaseOperationControl (op_ID operation) (Some control) s, Inl e))
     | Inr _ \<Rightarrow>
     outcome (operation_audit env ctx operation ''submitted'' (op_Summary operation)) (\<lambda>audited.
     case audited of
       Inl e \<Rightarrow>
         svc_now env (\<lambda>now.
         outcome (store_write env withoutCancel (\<lambda>io c. TransitionOperation io c OperationQueued
             (mark_rejected ''audit_failed'' audit_failed_message now operation) None)) (\<lambda>_ s.
         (releaseOperationControl (op_ID operation) (Some control) s,
          Inl (Wrapped ''write operation audit'' e))))
     | Inr _ \<Rightarrow> (\<lambda>s.
         if length (ps_queue s) < ps_queueCapacity s
         then (s\<lparr>ps_queue := ps_queue s @ [job]\<rparr>, Inr operation)
         else
           svc_now env (\<lambda>now.
           (let rejected = mark_rejected ''queue_full'' queue_full_message now operation in
           andThen (store_write env withoutCancel
             (\<lambda>io c. TransitionOperation io c OperationQueued rejected None)) (\<lambda>_.
           outcome (operation_audit env withoutCancel rejected ''failed'' (op_ErrorCode rejected)) (\<lambda>_.
           fail (Wrapped ''operation queue is full'' ErrBusy)))))
           (releaseOperationControl (op_ID operation) (Some control) s))))"

definition createAndEnqueueOperation ::
  "'gw env \<Rightarrow> 'gw go_context \<Rightarrow> Operation \<Rightarrow> operationJob \<Rightarrow> ('gw, Operation) action" where
  "createAndEnqueueOperation env ctx operation job s =
     (case registerOperationControl (op_ID operation) s of (s, control) \<Rightarrow>
        enqueue_registered env ctx operation (job\<lparr>jb_control := Some control\<rparr>) control s)"

definition usable_cluster :: "Cluster \<Rightarrow> bool" where
  "usable_cluster cluster \<longleftrightarrow> cl_Status cluster = ClusterConnected \<or> cl_Status cluster = ClusterDegraded"

definition new_operation ::
  "string \<Rightarrow> string \<Rightarrow> OperationKind \<Rightarrow> string \<Rightarrow> string \<Rightarrow> string \<Rightarrow> string \<Rightarrow> string \<Rightarrow> gtime \<Rightarrow> Operation" where
  "new_operation i requestID kind clusterID namespace target actor summary now =
     \<lparr>op_ID = i, op_RequestID = requestID, op_Kind = kind, op_State = OperationQueued,
      op_ClusterID = clusterID, op_Namespace = namespace, op_Target = target, op_SubmittedBy = actor,
      op_Summary = summary, op_ErrorCode = [], op_ErrorMessage = [], op_CreatedAt = now,
      op_StartedAt = zero_time, op_FinishedAt = zero_time, op_UpdatedAt = now\<rparr>"

definition SubmitHelmOperation ::
  "'gw env \<Rightarrow> 'gw go_context \<Rightarrow> string \<Rightarrow> string \<Rightarrow> OperationKind \<Rightarrow> HelmOperationInput \<Rightarrow> ('gw, Operation) action" where
  "SubmitHelmOperation env ctx actor requestID kind input =
     (if kind \<notin> {OperationHelmInstall, OperationHelmUpgrade, OperationHelmRollback, OperationHelmUninstall}
      then fail (Invalid ''kind'' ''unsupported Helm operation'')
      else
     guarded (if kind = OperationHelmInstall \<or> kind = OperationHelmUpgrade
              then ValidateHelmOperationInput (ev_parse env) input else validateHelmTarget input)
     (andThen (store_read ctx (\<lambda>c. GetCluster c (hi_ClusterID input))) (\<lambda>cluster.
     if \<not> usable_cluster cluster then fail ErrInvalidState
     else
     andThen (if hi_RepositoryID input = [] then ret ()
              else andThen (store_read ctx (\<lambda>c. GetRepository c (hi_RepositoryID input))) (\<lambda>repository.
                   if \<not> rp_Enabled repository \<or> rp_Status repository \<noteq> ''connected''
                   then fail ErrInvalidState else ret ())) (\<lambda>_.
     andThen (wrapped ''create operation ID'' (newID env ''op'')) (\<lambda>i.
     svc_now env (\<lambda>now.
     createAndEnqueueOperation env ctx
       (new_operation i requestID kind (hi_ClusterID input) (hi_Namespace input) (hi_ReleaseName input)
          actor (operationSummary input) now)
       \<lparr>jb_operationID = i, jb_helmInput = Some input, jb_workloadInput = None,
        jb_workloadImageInput = None, jb_control = None\<rparr>))))))"

text \<open>The checks that both workload submissions make on their cluster.\<close>

definition confirmed_cluster ::
  "'gw go_context \<Rightarrow> string \<Rightarrow> string \<Rightarrow> ('gw, unit) action" where
  "confirmed_cluster ctx clusterID confirmation =
     andThen (store_read ctx (\<lambda>c. GetCluster c clusterID)) (\<lambda>cluster.
     if \<not> usable_cluster cluster then fail ErrInvalidState
     else if cl_Environment cluster = EnvironmentProduction \<and> confirmation \<noteq> cl_Name cluster
     then fail (Invalid ''confirmation'' ''must match the production cluster name'')
     else ret ())"

definition SubmitWorkloadOperation ::
  "'gw env \<Rightarrow> 'gw go_context \<Rightarrow> string \<Rightarrow> string \<Rightarrow> OperationKind \<Rightarrow> WorkloadOperationInput \<Rightarrow> ('gw, Operation) action" where
  "SubmitWorkloadOperation env ctx actor requestID kind input =
     (let reference = wi_Reference input;
          input = input\<lparr>wi_Reference := reference\<lparr>wr_Kind := to_lower (trim_space (wr_Kind reference))\<rparr>,
                        wi_ResourceVersion := trim_space (wi_ResourceVersion input)\<rparr>
      in
     guarded (ValidateWorkloadOperationInput kind input)
     (andThen (confirmed_cluster ctx (wi_ClusterID input) (wi_Confirmation input)) (\<lambda>_.
     andThen (wrapped ''create operation ID'' (newID env ''op'')) (\<lambda>i.
     svc_now env (\<lambda>now.
     (let input = input\<lparr>wi_Confirmation := []\<rparr> in
     createAndEnqueueOperation env ctx
       (new_operation i requestID kind (wi_ClusterID input) (wr_Namespace (wi_Reference input))
          (wr_Name (wi_Reference input)) actor (workloadOperationSummary kind input) now)
       \<lparr>jb_operationID = i, jb_helmInput = None, jb_workloadInput = Some input,
        jb_workloadImageInput = None, jb_control = None\<rparr>))))))"

definition SubmitWorkloadImageUpdate ::
  "'gw env \<Rightarrow> 'gw go_context \<Rightarrow> string \<Rightarrow> string \<Rightarrow> WorkloadImageOperationInput \<Rightarrow> ('gw, Operation) action" where
  "SubmitWorkloadImageUpdate env ctx actor requestID input =
     (let input = normalizeWorkloadImageInput input in
     guarded (ValidateWorkloadImageOperationInput input)
     (andThen (confirmed_cluster ctx (wo_ClusterID input) (wo_Confirmation input)) (\<lambda>_.
     andThen (wrapped ''create operation ID'' (newID env ''op'')) (\<lambda>i.
     svc_now env (\<lambda>now.
     (let input = input\<lparr>wo_Confirmation := []\<rparr>; change = wo_Change input in
     createAndEnqueueOperation env ctx
       (new_operation i requestID OperationWorkloadImage (wo_ClusterID input)
          (wr_Namespace (wc_Reference change)) (wr_Name (wc_Reference change)) actor
          (workloadImageSummary change) now)
       \<lparr>jb_operationID = i, jb_helmInput = None, jb_workloadInput = None,
        jb_workloadImageInput = Some input, jb_control = None\<rparr>))))))"

definition PreviewWorkloadImage ::
  "'gw env \<Rightarrow> (nat \<Rightarrow> 'gw \<Rightarrow> WorkloadImageChange \<Rightarrow> WorkloadImagePreview result) \<Rightarrow> 'gw go_context \<Rightarrow> string \<Rightarrow>
     string \<Rightarrow> WorkloadImageOperationInput \<Rightarrow> ('gw, WorkloadImagePreview) action" where
  "PreviewWorkloadImage env preview ctx actor requestID input =
     (let input = normalizeWorkloadImageInput input; change = wo_Change input in
     guarded (ValidateWorkloadImageOperationInput input)
     (andThen (store_read ctx (\<lambda>c. GetCluster c (wo_ClusterID input))) (\<lambda>cluster.
     if \<not> usable_cluster cluster then fail ErrInvalidState
     else
     with_read env ctx
     (andThen (gatewayForCluster env ctx cluster) (\<lambda>gateway.
     outcome (upstream (GatewayCall gateway) (\<lambda>n. preview n gateway change)) (\<lambda>res.
     andThen (wrapped ''write workload image preview audit''
       (case res of
          Inr _ \<Rightarrow> audit env ctx actor requestID ''workload.image_preview'' ''succeeded'' (wo_ClusterID input)
                     (wr_Namespace (wc_Reference change)) (wr_Name (wc_Reference change))
                     (workloadImageSummary change) []
        | Inl _ \<Rightarrow> audit env ctx actor requestID ''workload.image_preview'' ''failed'' (wo_ClusterID input)
                     (wr_Namespace (wc_Reference change)) (wr_Name (wc_Reference change))
                     ''image preview failed'' [])) (\<lambda>_ s. (s, res))))))))"

definition CancelOperation ::
  "'gw env \<Rightarrow> 'gw go_context \<Rightarrow> string \<Rightarrow> string \<Rightarrow> string \<Rightarrow> ('gw, Operation) action" where
  "CancelOperation env ctx actor requestID operationID =
     guarded (ValidateOperationID operationID)
     (andThen (store_read ctx (\<lambda>c. GetOperation c operationID)) (\<lambda>operation.
     if op_State operation \<noteq> OperationQueued then fail ErrInvalidState
     else
     andThen (wrapped ''create cancellation audit ID'' (newID env ''audit'')) (\<lambda>auditID.
     svc_now env (\<lambda>now.
     (let operation = mark_canceled now operation in
     andThen (store_write env ctx (\<lambda>io c. TransitionOperation io c OperationQueued operation
         (Some (cancel_audit auditID requestID actor now operation)))) (\<lambda>_ s.
     (signalOperationCancellation (op_ID operation) s, Inr operation)))))))"

section \<open>Execution\<close>

definition helmRequest :: "'gw env \<Rightarrow> 'gw go_context \<Rightarrow> HelmOperationInput \<Rightarrow> ('gw, HelmRequest) action" where
  "helmRequest env ctx input =
     andThen (store_read ctx (\<lambda>c. GetCluster c (hi_ClusterID input))) (\<lambda>cluster.
     andThen (\<lambda>s. (s, clusterConnection env cluster)) (\<lambda>connection.
     if hi_RepositoryID input = []
     then ret \<lparr>hr_Connection = connection, hr_Repository = None, hr_Input = input\<rparr>
     else andThen (store_read ctx (\<lambda>c. GetRepository c (hi_RepositoryID input))) (\<lambda>repository.
          andThen (\<lambda>s. (s, repositoryConnection env repository)) (\<lambda>repositoryConnection.
          ret \<lparr>hr_Connection = connection, hr_Repository = Some repositoryConnection,
               hr_Input = input\<rparr>))))"

definition executeOperationJob ::
  "'gw env \<Rightarrow> 'gw go_context \<Rightarrow> Operation \<Rightarrow> operationJob \<Rightarrow> ('gw, unit) action" where
  "executeOperationJob env ctx operation job =
     (case jb_helmInput job of
        Some input \<Rightarrow>
          andThen (helmRequest env ctx input) (\<lambda>request.
          upstream (HelmExecuteCall (op_Kind operation) request)
            (\<lambda>n. of_err (ev_Execute env n (op_Kind operation) request)))
      | None \<Rightarrow>
          (case jb_workloadImageInput job of
             Some input \<Rightarrow>
               andThen (kubeGateway env ctx (wo_ClusterID input)) (\<lambda>gateway.
               upstream (GatewayCall gateway)
                 (\<lambda>n. of_err (ev_UpdateWorkloadImage env n gateway (wo_Change input))))
           | None \<Rightarrow>
               (case jb_workloadInput job of
                  None \<Rightarrow> fail (NewError ''operation job has no input'')
                | Some input \<Rightarrow>
                    andThen (kubeGateway env ctx (wi_ClusterID input)) (\<lambda>gateway.
                    case op_Kind operation of
                      OperationWorkloadScale \<Rightarrow>
                        (case wi_Replicas input of
                           None \<Rightarrow> fail (Invalid ''replicas'' ''is required'')
                         | Some replicas \<Rightarrow>
                             upstream (GatewayCall gateway) (\<lambda>n. of_err (ev_ScaleWorkload env n gateway
                               (wi_Reference input) (wi_ResourceVersion input) replicas)))
                    | OperationWorkloadRestart \<Rightarrow>
                        svc_now env (\<lambda>now.
                        upstream (GatewayCall gateway) (\<lambda>n. of_err (ev_RestartWorkload env n gateway
                          (wi_Reference input) (wi_ResourceVersion input) now)))
                    | _ \<Rightarrow> fail (Invalid ''kind'' ''unsupported workload operation'')))))"

text \<open>
  Waiting for an operation slot, alone: the turns are the samples that the wait sees, each with
  what its \<^verbatim>\<open>select\<close> finds; when they are used up the context is done.
\<close>

definition acquireOperationSlot ::
  "'gw env \<Rightarrow> (Sample \<times> gtime \<times> go_error option) list \<Rightarrow> ('gw, unit) action" where
  "acquireOperationSlot env turns s =
     (case Acquire (map (\<lambda>(sample, now, stop). \<lparr>tn_sample = sample, tn_now = now,
                           tn_others = (\<lambda>g. g), tn_done = stop\<rparr>) turns) (ps_operationGovernor s) of
        None \<Rightarrow> (tick s, Inl (ev_done env (ps_tick s)))
      | Some (g, Inl e) \<Rightarrow> (tick (s\<lparr>ps_operationGovernor := g\<rparr>), Inl e)
      | Some (g, Inr snapshot) \<Rightarrow> (tick (s\<lparr>ps_operationGovernor := g\<rparr>), Inr ()))"

definition releaseOperationSlot :: "'gw Service \<Rightarrow> 'gw Service" where
  "releaseOperationSlot s = s\<lparr>ps_operationGovernor := snd (release_slot False (ps_operationGovernor s))\<rparr>"

definition queuedOperation :: "'gw go_context \<Rightarrow> operationJob \<Rightarrow> ('gw, Operation) action" where
  "queuedOperation ctx job =
     andThen (store_read ctx (\<lambda>c. GetOperation c (jb_operationID job))) (\<lambda>operation.
     if op_State operation \<noteq> OperationQueued then fail ErrInvalidState else ret operation)"

definition recordOutcome ::
  "'gw env \<Rightarrow> 'gw go_context \<Rightarrow> Operation \<Rightarrow> unit result \<Rightarrow> ('gw, unit) action" where
  "recordOutcome env ctx operation err =
     svc_now env (\<lambda>now s.
     (let (finished, res) = mark_finished err (ctx s \<noteq> None) now operation in
     outcome (operation_audit env withoutCancel finished res (op_ErrorCode finished)) (\<lambda>audited.
     outcome (store_write env withoutCancel (\<lambda>io c. UpdateOperation io c
       (case audited of Inl _ \<Rightarrow> mark_unaudited finished | Inr _ \<Rightarrow> finished))) (\<lambda>_. ret ())) s))"

text \<open>Every early \<^verbatim>\<open>return\<close> of the worker is an \<open>Inl\<close>, which nobody sees.\<close>

definition executeOperation ::
  "'gw env \<Rightarrow> (Sample \<times> gtime \<times> go_error option) list \<Rightarrow> 'gw go_context \<Rightarrow> operationJob \<Rightarrow> ('gw, unit) action" where
  "executeOperation env turns ctx job =
     (let ectx = operationExecutionContext ctx job in
     deferred (finishExecution job)
     (andThen (queuedOperation ectx job) (\<lambda>operation.
     andThen (acquireTargetLock env ectx (op_ClusterID operation) (op_Namespace operation)
        (op_Target operation)) (\<lambda>stripe.
     deferred (unlockTarget stripe)
     (andThen (acquireOperationSlot env turns) (\<lambda>_.
     deferred releaseOperationSlot
     (svc_now env (\<lambda>now.
     (let running = mark_running now operation in
     andThen (store_write env ectx (\<lambda>io c. TransitionOperation io c OperationQueued running None)) (\<lambda>_.
     outcome (executeOperationJob env ectx running job) (\<lambda>err.
     recordOutcome env ctx running err)))))))))))"

text \<open>
  The loop of a worker, for as many jobs as it has turns; \<open>stop\<close> is the choice of the
  \<^verbatim>\<open>select\<close> when its context is done and a job is ready as well.
\<close>

fun worker ::
  "'gw env \<Rightarrow> ((Sample \<times> gtime \<times> go_error option) list \<times> bool) list \<Rightarrow> 'gw go_context \<Rightarrow> 'gw Service \<Rightarrow> 'gw Service" where
  "worker env [] ctx s = s"
| "worker env ((turns, stop) # rest) ctx s =
     (case ps_queue s of
        [] \<Rightarrow> s
      | job # jobs \<Rightarrow>
          if ctx s \<noteq> None \<and> stop then s
          else worker env rest ctx (fst (executeOperation env turns ctx job (s\<lparr>ps_queue := jobs\<rparr>))))"

text \<open>What \<^verbatim>\<open>Run\<close> does once its context is done.\<close>

definition Run_shutdown :: "bool \<Rightarrow> 'gw Service \<Rightarrow> 'gw Service" where
  "Run_shutdown started s =
     (if started
      then let s = cancelAllOperationControls s
           in s\<lparr>ps_gatewayCache := cache_Close (ps_gatewayCache s)\<rparr>
      else s)"

section \<open>Reading operations\<close>

definition svc_GetOperation :: "'gw go_context \<Rightarrow> string \<Rightarrow> ('gw, Operation) action" where
  "svc_GetOperation ctx i = store_read ctx (\<lambda>c. GetOperation c i)"

definition svc_ListOperations :: "'gw go_context \<Rightarrow> int \<Rightarrow> ('gw, Operation list) action" where
  "svc_ListOperations ctx limit = store_read ctx (\<lambda>c. ListOperations c limit)"

definition svc_ListAuditEvents :: "'gw go_context \<Rightarrow> int \<Rightarrow> ('gw, AuditEvent list) action" where
  "svc_ListAuditEvents ctx limit = store_read ctx (\<lambda>c. ListAuditEvents c limit)"

record KubernetesReadCapacity =
  kr_Adaptive :: bool
  kr_Pressure :: Pressure
  kr_Active :: int
  kr_Limit :: int
  kr_Maximum :: int

record OperationCapacity =
  oc_Snapshot :: Snapshot
  oc_QueueDepth :: int
  oc_QueueCapacity :: int
  oc_KubernetesReads :: KubernetesReadCapacity
  oc_KubernetesClients :: gatewayCacheSnapshot

definition svc_OperationCapacity :: "'gw env \<Rightarrow> 'gw Service \<Rightarrow> 'gw Service \<times> OperationCapacity" where
  "svc_OperationCapacity env s =
     (let n = ps_tick s;
          readSnapshot = governor_Snapshot (ps_readGovernor s) (ev_sample env n) (ev_clock env n);
          cache = Reconcile readSnapshot (ev_clock env (n + 1)) (ps_gatewayCache s)
      in (s\<lparr>ps_gatewayCache := cache, ps_tick := n + 3\<rparr>,
          \<lparr>oc_Snapshot = governor_Snapshot (ps_operationGovernor s) (ev_sample env (n + 2)) (ev_clock env (n + 2)),
           oc_QueueDepth = int (length (ps_queue s)), oc_QueueCapacity = int (ps_queueCapacity s),
           oc_KubernetesReads =
             \<lparr>kr_Adaptive = sn_Adaptive readSnapshot, kr_Pressure = sn_Pressure readSnapshot,
              kr_Active = sn_ActiveOperations readSnapshot, kr_Limit = sn_OperationLimit readSnapshot,
              kr_Maximum = sn_MaximumOperations readSnapshot\<rparr>,
           oc_KubernetesClients = cache_Snapshot cache\<rparr>))"

end
