(* ===== verification/Reads.thy ===== *)
theory Reads
  imports Operations
begin

text \<open>
  The handlers of \<^verbatim>\<open>service.go\<close> and \<^verbatim>\<open>operations.go\<close> that read from a
  cluster. Each takes the method of the Kubernetes gateway it calls as an argument; what the
  methods return is a type variable.

  All but a few have the same shape, \<open>kube_read\<close>: take a read slot, find the cluster, refuse
  a disabled one, get its client, call the method, give the slot back. \<open>read_request\<close> lists
  them as values, so that statements can be made about all of them.
\<close>

section \<open>Plain reads\<close>

definition kube_read ::
  "'gw env \<Rightarrow> 'gw go_context \<Rightarrow> string \<Rightarrow> (nat \<Rightarrow> 'gw \<Rightarrow> 'r result) \<Rightarrow> ('gw, 'r) action" where
  "kube_read env ctx clusterID call =
     with_read env ctx
       (andThen (kubeGateway env ctx clusterID) (\<lambda>gateway.
        upstream (GatewayCall gateway) (\<lambda>n. call n gateway)))"

definition Summary :: "'gw env \<Rightarrow> (nat \<Rightarrow> 'gw \<Rightarrow> 'r result) \<Rightarrow>
    'gw go_context \<Rightarrow> string \<Rightarrow> ('gw, 'r) action" where
  "Summary env gwSummary ctx clusterID =
     kube_read env ctx clusterID gwSummary"

definition Namespaces :: "'gw env \<Rightarrow> (nat \<Rightarrow> 'gw \<Rightarrow> 'r result) \<Rightarrow>
    'gw go_context \<Rightarrow> string \<Rightarrow> ('gw, 'r) action" where
  "Namespaces env gwNamespaces ctx clusterID =
     kube_read env ctx clusterID gwNamespaces"

definition Nodes :: "'gw env \<Rightarrow> (nat \<Rightarrow> 'gw \<Rightarrow> 'r result) \<Rightarrow>
    'gw go_context \<Rightarrow> string \<Rightarrow> ('gw, 'r) action" where
  "Nodes env gwNodes ctx clusterID =
     kube_read env ctx clusterID gwNodes"

definition NodeDetail :: "'gw env \<Rightarrow> (nat \<Rightarrow> 'gw \<Rightarrow> string \<Rightarrow> 'r result) \<Rightarrow>
    'gw go_context \<Rightarrow> string \<Rightarrow> string \<Rightarrow> ('gw, 'r) action" where
  "NodeDetail env gwNodeDetail ctx clusterID name =
     guarded (ValidateNodeName name)
     (kube_read env ctx clusterID (\<lambda>n g. gwNodeDetail n g name))"

definition NodeEvents :: "'gw env \<Rightarrow> (nat \<Rightarrow> 'gw \<Rightarrow> string \<Rightarrow> int \<Rightarrow> 'r result) \<Rightarrow>
    'gw go_context \<Rightarrow> string \<Rightarrow> string \<Rightarrow> int \<Rightarrow> ('gw, 'r) action" where
  "NodeEvents env gwNodeEvents ctx clusterID name limit =
     guarded (ValidateNodeName name)
     (guarded (if limit < 1 \<or> limit > MaxNodeEventLimit then Some (Invalid ''limit'' ''must be between 1 and 100'') else None)
     (kube_read env ctx clusterID (\<lambda>n g. gwNodeEvents n g name limit)))"

definition CustomResourceDefinitions :: "'gw env \<Rightarrow> (nat \<Rightarrow> 'gw \<Rightarrow> 'r result) \<Rightarrow>
    'gw go_context \<Rightarrow> string \<Rightarrow> ('gw, 'r) action" where
  "CustomResourceDefinitions env gwCustomResourceDefinitions ctx clusterID =
     kube_read env ctx clusterID gwCustomResourceDefinitions"

definition CustomResourceDefinition :: "'gw env \<Rightarrow> (nat \<Rightarrow> 'gw \<Rightarrow> string \<Rightarrow> 'r result) \<Rightarrow>
    'gw go_context \<Rightarrow> string \<Rightarrow> string \<Rightarrow> ('gw, 'r) action" where
  "CustomResourceDefinition env gwCustomResourceDefinition ctx clusterID name =
     guarded (ValidateCustomResourceDefinitionName name)
     (kube_read env ctx clusterID (\<lambda>n g. gwCustomResourceDefinition n g name))"

definition CertificateSigningRequests :: "'gw env \<Rightarrow> (nat \<Rightarrow> 'gw \<Rightarrow> 'r result) \<Rightarrow>
    'gw go_context \<Rightarrow> string \<Rightarrow> ('gw, 'r) action" where
  "CertificateSigningRequests env gwCertificateSigningRequests ctx clusterID =
     kube_read env ctx clusterID gwCertificateSigningRequests"

definition CertificateSigningRequest :: "'gw env \<Rightarrow> (nat \<Rightarrow> 'gw \<Rightarrow> string \<Rightarrow> 'r result) \<Rightarrow>
    'gw go_context \<Rightarrow> string \<Rightarrow> string \<Rightarrow> ('gw, 'r) action" where
  "CertificateSigningRequest env gwCertificateSigningRequest ctx clusterID name =
     guarded (ValidateCertificateSigningRequestName name)
     (kube_read env ctx clusterID (\<lambda>n g. gwCertificateSigningRequest n g name))"

definition PriorityClasses :: "'gw env \<Rightarrow> (nat \<Rightarrow> 'gw \<Rightarrow> 'r result) \<Rightarrow>
    'gw go_context \<Rightarrow> string \<Rightarrow> ('gw, 'r) action" where
  "PriorityClasses env gwPriorityClasses ctx clusterID =
     kube_read env ctx clusterID gwPriorityClasses"

definition PriorityClass :: "'gw env \<Rightarrow> (nat \<Rightarrow> 'gw \<Rightarrow> string \<Rightarrow> 'r result) \<Rightarrow>
    'gw go_context \<Rightarrow> string \<Rightarrow> string \<Rightarrow> ('gw, 'r) action" where
  "PriorityClass env gwPriorityClass ctx clusterID name =
     guarded (ValidatePriorityClassName name)
     (kube_read env ctx clusterID (\<lambda>n g. gwPriorityClass n g name))"

definition RuntimeClasses :: "'gw env \<Rightarrow> (nat \<Rightarrow> 'gw \<Rightarrow> 'r result) \<Rightarrow>
    'gw go_context \<Rightarrow> string \<Rightarrow> ('gw, 'r) action" where
  "RuntimeClasses env gwRuntimeClasses ctx clusterID =
     kube_read env ctx clusterID gwRuntimeClasses"

definition RuntimeClass :: "'gw env \<Rightarrow> (nat \<Rightarrow> 'gw \<Rightarrow> string \<Rightarrow> 'r result) \<Rightarrow>
    'gw go_context \<Rightarrow> string \<Rightarrow> string \<Rightarrow> ('gw, 'r) action" where
  "RuntimeClass env gwRuntimeClass ctx clusterID name =
     guarded (ValidateRuntimeClassName name)
     (kube_read env ctx clusterID (\<lambda>n g. gwRuntimeClass n g name))"

definition APIServices :: "'gw env \<Rightarrow> (nat \<Rightarrow> 'gw \<Rightarrow> 'r result) \<Rightarrow>
    'gw go_context \<Rightarrow> string \<Rightarrow> ('gw, 'r) action" where
  "APIServices env gwAPIServices ctx clusterID =
     kube_read env ctx clusterID gwAPIServices"

definition AdmissionWebhookConfigurations :: "'gw env \<Rightarrow> (nat \<Rightarrow> 'gw \<Rightarrow> KubernetesAdmissionWebhookConfigurationKind \<Rightarrow> 'r result) \<Rightarrow>
    'gw go_context \<Rightarrow> string \<Rightarrow> KubernetesAdmissionWebhookConfigurationKind \<Rightarrow> ('gw, 'r) action" where
  "AdmissionWebhookConfigurations env gwAdmissionWebhookConfigurations ctx clusterID kind =
     guarded (ValidateAdmissionWebhookConfigurationKind kind)
     (kube_read env ctx clusterID (\<lambda>n g. gwAdmissionWebhookConfigurations n g kind))"

definition AdmissionWebhookConfiguration :: "'gw env \<Rightarrow> (nat \<Rightarrow> 'gw \<Rightarrow> KubernetesAdmissionWebhookConfigurationKind \<Rightarrow> string \<Rightarrow> 'r result) \<Rightarrow>
    'gw go_context \<Rightarrow> string \<Rightarrow> KubernetesAdmissionWebhookConfigurationKind \<Rightarrow> string \<Rightarrow> ('gw, 'r) action" where
  "AdmissionWebhookConfiguration env gwAdmissionWebhookConfiguration ctx clusterID kind name =
     guarded (ValidateAdmissionWebhookConfigurationKind kind)
     (guarded (ValidateAdmissionWebhookConfigurationName name)
     (kube_read env ctx clusterID (\<lambda>n g. gwAdmissionWebhookConfiguration n g kind name)))"

definition ValidatingAdmissionPolicies :: "'gw env \<Rightarrow> (nat \<Rightarrow> 'gw \<Rightarrow> 'r result) \<Rightarrow>
    'gw go_context \<Rightarrow> string \<Rightarrow> ('gw, 'r) action" where
  "ValidatingAdmissionPolicies env gwValidatingAdmissionPolicies ctx clusterID =
     kube_read env ctx clusterID gwValidatingAdmissionPolicies"

definition ValidatingAdmissionPolicy :: "'gw env \<Rightarrow> (nat \<Rightarrow> 'gw \<Rightarrow> string \<Rightarrow> 'r result) \<Rightarrow>
    'gw go_context \<Rightarrow> string \<Rightarrow> string \<Rightarrow> ('gw, 'r) action" where
  "ValidatingAdmissionPolicy env gwValidatingAdmissionPolicy ctx clusterID name =
     guarded (ValidateAdmissionPolicyResourceName name)
     (kube_read env ctx clusterID (\<lambda>n g. gwValidatingAdmissionPolicy n g name))"

definition ValidatingAdmissionPolicyBindings :: "'gw env \<Rightarrow> (nat \<Rightarrow> 'gw \<Rightarrow> 'r result) \<Rightarrow>
    'gw go_context \<Rightarrow> string \<Rightarrow> ('gw, 'r) action" where
  "ValidatingAdmissionPolicyBindings env gwValidatingAdmissionPolicyBindings ctx clusterID =
     kube_read env ctx clusterID gwValidatingAdmissionPolicyBindings"

definition ValidatingAdmissionPolicyBinding :: "'gw env \<Rightarrow> (nat \<Rightarrow> 'gw \<Rightarrow> string \<Rightarrow> 'r result) \<Rightarrow>
    'gw go_context \<Rightarrow> string \<Rightarrow> string \<Rightarrow> ('gw, 'r) action" where
  "ValidatingAdmissionPolicyBinding env gwValidatingAdmissionPolicyBinding ctx clusterID name =
     guarded (ValidateAdmissionPolicyResourceName name)
     (kube_read env ctx clusterID (\<lambda>n g. gwValidatingAdmissionPolicyBinding n g name))"

definition Events :: "'gw env \<Rightarrow> (nat \<Rightarrow> 'gw \<Rightarrow> string \<Rightarrow> string \<Rightarrow> int \<Rightarrow> 'r result) \<Rightarrow>
    'gw go_context \<Rightarrow> string \<Rightarrow> string \<Rightarrow> string \<Rightarrow> int \<Rightarrow> ('gw, 'r) action" where
  "Events env gwEvents ctx clusterID namespace eventType limit =
     guarded (ValidateKubernetesEventList namespace eventType limit)
     (kube_read env ctx clusterID (\<lambda>n g. gwEvents n g namespace eventType limit))"

definition Workloads :: "'gw env \<Rightarrow> (nat \<Rightarrow> 'gw \<Rightarrow> string \<Rightarrow> string \<Rightarrow> 'r result) \<Rightarrow>
    'gw go_context \<Rightarrow> string \<Rightarrow> string \<Rightarrow> string \<Rightarrow> ('gw, 'r) action" where
  "Workloads env gwWorkloads ctx clusterID namespace kind =
     guarded (ValidateWorkloadList namespace kind)
     (kube_read env ctx clusterID (\<lambda>n g. gwWorkloads n g namespace kind))"

definition Services :: "'gw env \<Rightarrow> (nat \<Rightarrow> 'gw \<Rightarrow> string \<Rightarrow> 'r result) \<Rightarrow>
    'gw go_context \<Rightarrow> string \<Rightarrow> string \<Rightarrow> ('gw, 'r) action" where
  "Services env gwServices ctx clusterID namespace =
     guarded (if namespace \<noteq> [] then ValidateNamespace namespace else None)
     (kube_read env ctx clusterID (\<lambda>n g. gwServices n g namespace))"

definition Ingresses :: "'gw env \<Rightarrow> (nat \<Rightarrow> 'gw \<Rightarrow> string \<Rightarrow> 'r result) \<Rightarrow>
    'gw go_context \<Rightarrow> string \<Rightarrow> string \<Rightarrow> ('gw, 'r) action" where
  "Ingresses env gwIngresses ctx clusterID namespace =
     guarded (if namespace \<noteq> [] then ValidateNamespace namespace else None)
     (kube_read env ctx clusterID (\<lambda>n g. gwIngresses n g namespace))"

definition EndpointSlices :: "'gw env \<Rightarrow> (nat \<Rightarrow> 'gw \<Rightarrow> string \<Rightarrow> 'r result) \<Rightarrow>
    'gw go_context \<Rightarrow> string \<Rightarrow> string \<Rightarrow> ('gw, 'r) action" where
  "EndpointSlices env gwEndpointSlices ctx clusterID namespace =
     guarded (if namespace \<noteq> [] then ValidateNamespace namespace else None)
     (kube_read env ctx clusterID (\<lambda>n g. gwEndpointSlices n g namespace))"

definition NetworkPolicies :: "'gw env \<Rightarrow> (nat \<Rightarrow> 'gw \<Rightarrow> string \<Rightarrow> 'r result) \<Rightarrow>
    'gw go_context \<Rightarrow> string \<Rightarrow> string \<Rightarrow> ('gw, 'r) action" where
  "NetworkPolicies env gwNetworkPolicies ctx clusterID namespace =
     guarded (if namespace \<noteq> [] then ValidateNamespace namespace else None)
     (kube_read env ctx clusterID (\<lambda>n g. gwNetworkPolicies n g namespace))"

definition ConfigMaps :: "'gw env \<Rightarrow> (nat \<Rightarrow> 'gw \<Rightarrow> string \<Rightarrow> 'r result) \<Rightarrow>
    'gw go_context \<Rightarrow> string \<Rightarrow> string \<Rightarrow> ('gw, 'r) action" where
  "ConfigMaps env gwConfigMaps ctx clusterID namespace =
     guarded (if namespace \<noteq> [] then ValidateNamespace namespace else None)
     (kube_read env ctx clusterID (\<lambda>n g. gwConfigMaps n g namespace))"

definition PersistentVolumeClaims :: "'gw env \<Rightarrow> (nat \<Rightarrow> 'gw \<Rightarrow> string \<Rightarrow> 'r result) \<Rightarrow>
    'gw go_context \<Rightarrow> string \<Rightarrow> string \<Rightarrow> ('gw, 'r) action" where
  "PersistentVolumeClaims env gwPersistentVolumeClaims ctx clusterID namespace =
     guarded (if namespace \<noteq> [] then ValidateNamespace namespace else None)
     (kube_read env ctx clusterID (\<lambda>n g. gwPersistentVolumeClaims n g namespace))"

definition PersistentVolumes :: "'gw env \<Rightarrow> (nat \<Rightarrow> 'gw \<Rightarrow> 'r result) \<Rightarrow>
    'gw go_context \<Rightarrow> string \<Rightarrow> ('gw, 'r) action" where
  "PersistentVolumes env gwPersistentVolumes ctx clusterID =
     kube_read env ctx clusterID gwPersistentVolumes"

definition StorageClasses :: "'gw env \<Rightarrow> (nat \<Rightarrow> 'gw \<Rightarrow> 'r result) \<Rightarrow>
    'gw go_context \<Rightarrow> string \<Rightarrow> ('gw, 'r) action" where
  "StorageClasses env gwStorageClasses ctx clusterID =
     kube_read env ctx clusterID gwStorageClasses"

definition VolumeAttachments :: "'gw env \<Rightarrow> (nat \<Rightarrow> 'gw \<Rightarrow> 'r result) \<Rightarrow>
    'gw go_context \<Rightarrow> string \<Rightarrow> ('gw, 'r) action" where
  "VolumeAttachments env gwVolumeAttachments ctx clusterID =
     kube_read env ctx clusterID gwVolumeAttachments"

definition CSIStorageCapacities :: "'gw env \<Rightarrow> (nat \<Rightarrow> 'gw \<Rightarrow> string \<Rightarrow> 'r result) \<Rightarrow>
    'gw go_context \<Rightarrow> string \<Rightarrow> string \<Rightarrow> ('gw, 'r) action" where
  "CSIStorageCapacities env gwCSIStorageCapacities ctx clusterID namespace =
     guarded (if namespace \<noteq> [] then ValidateNamespace namespace else None)
     (kube_read env ctx clusterID (\<lambda>n g. gwCSIStorageCapacities n g namespace))"

definition VolumeAttributesClasses :: "'gw env \<Rightarrow> (nat \<Rightarrow> 'gw \<Rightarrow> 'r result) \<Rightarrow>
    'gw go_context \<Rightarrow> string \<Rightarrow> ('gw, 'r) action" where
  "VolumeAttributesClasses env gwVolumeAttributesClasses ctx clusterID =
     kube_read env ctx clusterID gwVolumeAttributesClasses"

definition CSIDrivers :: "'gw env \<Rightarrow> (nat \<Rightarrow> 'gw \<Rightarrow> 'r result) \<Rightarrow>
    'gw go_context \<Rightarrow> string \<Rightarrow> ('gw, 'r) action" where
  "CSIDrivers env gwCSIDrivers ctx clusterID =
     kube_read env ctx clusterID gwCSIDrivers"

definition CSIDriver :: "'gw env \<Rightarrow> (nat \<Rightarrow> 'gw \<Rightarrow> string \<Rightarrow> 'r result) \<Rightarrow>
    'gw go_context \<Rightarrow> string \<Rightarrow> string \<Rightarrow> ('gw, 'r) action" where
  "CSIDriver env gwCSIDriver ctx clusterID name =
     guarded (ValidateCSIDriverName name)
     (kube_read env ctx clusterID (\<lambda>n g. gwCSIDriver n g name))"

definition CSINodes :: "'gw env \<Rightarrow> (nat \<Rightarrow> 'gw \<Rightarrow> 'r result) \<Rightarrow>
    'gw go_context \<Rightarrow> string \<Rightarrow> ('gw, 'r) action" where
  "CSINodes env gwCSINodes ctx clusterID =
     kube_read env ctx clusterID gwCSINodes"

definition CSINode :: "'gw env \<Rightarrow> (nat \<Rightarrow> 'gw \<Rightarrow> string \<Rightarrow> 'r result) \<Rightarrow>
    'gw go_context \<Rightarrow> string \<Rightarrow> string \<Rightarrow> ('gw, 'r) action" where
  "CSINode env gwCSINode ctx clusterID name =
     guarded (ValidateNodeName name)
     (kube_read env ctx clusterID (\<lambda>n g. gwCSINode n g name))"

definition ResourceQuotas :: "'gw env \<Rightarrow> (nat \<Rightarrow> 'gw \<Rightarrow> string \<Rightarrow> 'r result) \<Rightarrow>
    'gw go_context \<Rightarrow> string \<Rightarrow> string \<Rightarrow> ('gw, 'r) action" where
  "ResourceQuotas env gwResourceQuotas ctx clusterID namespace =
     guarded (ValidateNamespace namespace)
     (kube_read env ctx clusterID (\<lambda>n g. gwResourceQuotas n g namespace))"

definition PodSecurityAdmissionNamespaces :: "'gw env \<Rightarrow> (nat \<Rightarrow> 'gw \<Rightarrow> 'r result) \<Rightarrow>
    'gw go_context \<Rightarrow> string \<Rightarrow> ('gw, 'r) action" where
  "PodSecurityAdmissionNamespaces env gwPodSecurityAdmissionNamespaces ctx clusterID =
     kube_read env ctx clusterID gwPodSecurityAdmissionNamespaces"

definition NodeVersionSkew :: "'gw env \<Rightarrow> (nat \<Rightarrow> 'gw \<Rightarrow> 'r result) \<Rightarrow>
    'gw go_context \<Rightarrow> string \<Rightarrow> ('gw, 'r) action" where
  "NodeVersionSkew env gwNodeVersionSkew ctx clusterID =
     kube_read env ctx clusterID gwNodeVersionSkew"

definition DeprecatedAPIRequests :: "'gw env \<Rightarrow> (nat \<Rightarrow> 'gw \<Rightarrow> 'r result) \<Rightarrow>
    'gw go_context \<Rightarrow> string \<Rightarrow> ('gw, 'r) action" where
  "DeprecatedAPIRequests env gwDeprecatedAPIRequests ctx clusterID =
     kube_read env ctx clusterID gwDeprecatedAPIRequests"

definition EndpointCertificate :: "'gw env \<Rightarrow> (nat \<Rightarrow> 'gw \<Rightarrow> 'r result) \<Rightarrow>
    'gw go_context \<Rightarrow> string \<Rightarrow> ('gw, 'r) action" where
  "EndpointCertificate env gwEndpointCertificate ctx clusterID =
     kube_read env ctx clusterID gwEndpointCertificate"

definition APIServerReadiness :: "'gw env \<Rightarrow> (nat \<Rightarrow> 'gw \<Rightarrow> 'r result) \<Rightarrow>
    'gw go_context \<Rightarrow> string \<Rightarrow> ('gw, 'r) action" where
  "APIServerReadiness env gwAPIServerReadiness ctx clusterID =
     kube_read env ctx clusterID gwAPIServerReadiness"

definition DisruptionBudgets :: "'gw env \<Rightarrow> (nat \<Rightarrow> 'gw \<Rightarrow> 'r result) \<Rightarrow>
    'gw go_context \<Rightarrow> string \<Rightarrow> ('gw, 'r) action" where
  "DisruptionBudgets env gwDisruptionBudgets ctx clusterID =
     kube_read env ctx clusterID gwDisruptionBudgets"

definition LimitRanges :: "'gw env \<Rightarrow> (nat \<Rightarrow> 'gw \<Rightarrow> string \<Rightarrow> 'r result) \<Rightarrow>
    'gw go_context \<Rightarrow> string \<Rightarrow> string \<Rightarrow> ('gw, 'r) action" where
  "LimitRanges env gwLimitRanges ctx clusterID namespace =
     guarded (ValidateNamespace namespace)
     (kube_read env ctx clusterID (\<lambda>n g. gwLimitRanges n g namespace))"

definition HorizontalPodAutoscalers :: "'gw env \<Rightarrow> (nat \<Rightarrow> 'gw \<Rightarrow> string \<Rightarrow> 'r result) \<Rightarrow>
    'gw go_context \<Rightarrow> string \<Rightarrow> string \<Rightarrow> ('gw, 'r) action" where
  "HorizontalPodAutoscalers env gwHorizontalPodAutoscalers ctx clusterID namespace =
     guarded (ValidateNamespace namespace)
     (kube_read env ctx clusterID (\<lambda>n g. gwHorizontalPodAutoscalers n g namespace))"

definition PodDisruptionBudgets :: "'gw env \<Rightarrow> (nat \<Rightarrow> 'gw \<Rightarrow> string \<Rightarrow> 'r result) \<Rightarrow>
    'gw go_context \<Rightarrow> string \<Rightarrow> string \<Rightarrow> ('gw, 'r) action" where
  "PodDisruptionBudgets env gwPodDisruptionBudgets ctx clusterID namespace =
     guarded (ValidateNamespace namespace)
     (kube_read env ctx clusterID (\<lambda>n g. gwPodDisruptionBudgets n g namespace))"

definition AccessResources :: "'gw env \<Rightarrow> (nat \<Rightarrow> 'gw \<Rightarrow> KubernetesAccessResourceKind \<Rightarrow> string \<Rightarrow> 'r result) \<Rightarrow>
    'gw go_context \<Rightarrow> string \<Rightarrow> KubernetesAccessResourceKind \<Rightarrow> string \<Rightarrow> ('gw, 'r) action" where
  "AccessResources env gwAccessResources ctx clusterID kind namespace =
     guarded (ValidateAccessResourceScope kind namespace)
     (kube_read env ctx clusterID (\<lambda>n g. gwAccessResources n g kind namespace))"

definition AccessResourceDetail :: "'gw env \<Rightarrow> (nat \<Rightarrow> 'gw \<Rightarrow> KubernetesAccessResourceReference \<Rightarrow> 'r result) \<Rightarrow>
    'gw go_context \<Rightarrow> string \<Rightarrow> KubernetesAccessResourceReference \<Rightarrow> ('gw, 'r) action" where
  "AccessResourceDetail env gwAccessResourceDetail ctx clusterID reference =
     guarded (ValidateAccessResourceReference reference)
     (kube_read env ctx clusterID (\<lambda>n g. gwAccessResourceDetail n g reference))"

definition WorkloadDetail :: "'gw env \<Rightarrow> (nat \<Rightarrow> 'gw \<Rightarrow> WorkloadReference \<Rightarrow> 'r result) \<Rightarrow>
    'gw go_context \<Rightarrow> string \<Rightarrow> WorkloadReference \<Rightarrow> ('gw, 'r) action" where
  "WorkloadDetail env gwWorkloadDetail ctx clusterID reference =
     guarded (ValidateWorkloadReference reference)
     (kube_read env ctx clusterID (\<lambda>n g. gwWorkloadDetail n g reference))"

definition WorkloadEvents :: "'gw env \<Rightarrow> (nat \<Rightarrow> 'gw \<Rightarrow> WorkloadReference \<Rightarrow> int \<Rightarrow> 'r result) \<Rightarrow>
    'gw go_context \<Rightarrow> string \<Rightarrow> WorkloadReference \<Rightarrow> int \<Rightarrow> ('gw, 'r) action" where
  "WorkloadEvents env gwWorkloadEvents ctx clusterID reference limit =
     guarded (ValidateWorkloadReference reference)
     (guarded (if limit < 1 \<or> limit > MaxWorkloadEventLimit then Some (Invalid ''limit'' ''must be between 1 and 100'') else None)
     (kube_read env ctx clusterID (\<lambda>n g. gwWorkloadEvents n g reference limit)))"

definition DeploymentRevisionHistory ::
  "'gw env \<Rightarrow> (nat \<Rightarrow> 'gw \<Rightarrow> WorkloadReference \<Rightarrow> 'r result) \<Rightarrow>
    'gw go_context \<Rightarrow> string \<Rightarrow> WorkloadReference \<Rightarrow> ('gw, 'r) action" where
  "DeploymentRevisionHistory env gwHistory ctx clusterID reference =
     (let reference = reference\<lparr>wr_Kind := to_lower (trim_space (wr_Kind reference))\<rparr> in
      guarded (ValidateDeploymentReference reference)
      (kube_read env ctx clusterID (\<lambda>n g. gwHistory n g reference)))"

section \<open>Reads with an audit trail, a lock or another client\<close>

definition Secrets ::
  "'gw env \<Rightarrow> (nat \<Rightarrow> 'gw \<Rightarrow> string \<Rightarrow> KubernetesSecret list result) \<Rightarrow>
    'gw go_context \<Rightarrow> string \<Rightarrow> string \<Rightarrow> string \<Rightarrow> string \<Rightarrow> ('gw, KubernetesSecret list) action" where
  "Secrets env gwSecrets ctx actor requestID clusterID namespace =
     guarded (ValidateNamespace namespace)
     (with_read env ctx
     (outcome (andThen (kubeGateway env ctx clusterID) (\<lambda>gateway.
        upstream (GatewayCall gateway) (\<lambda>n. gwSecrets n gateway namespace))) (\<lambda>items.
     andThen (wrapped ''write secret metadata audit''
       (case items of
          Inr xs \<Rightarrow> audit env ctx actor requestID ''secret.metadata.list'' ''succeeded'' clusterID namespace
                      ''secrets'' (''count='' @ itoa (int (length xs))) []
        | Inl _ \<Rightarrow> audit env ctx actor requestID ''secret.metadata.list'' ''failed'' clusterID namespace
                      ''secrets'' ''secret metadata list failed'' [])) (\<lambda>_ s. (s, items)))))"

definition bool_text :: "bool \<Rightarrow> string" where
  "bool_text b = (if b then ''true'' else ''false'')"

definition PodLogs ::
  "'gw env \<Rightarrow> (nat \<Rightarrow> 'gw \<Rightarrow> PodLogRequest \<Rightarrow> 'r result) \<Rightarrow>
    'gw go_context \<Rightarrow> string \<Rightarrow> string \<Rightarrow> string \<Rightarrow> PodLogRequest \<Rightarrow> ('gw, 'r) action" where
  "PodLogs env gwPodLogs ctx actor requestID clusterID input =
     guarded (ValidatePodLogRequest input)
     (with_read env ctx
     (andThen (kubeGateway env ctx clusterID) (\<lambda>gateway.
     outcome (upstream (GatewayCall gateway) (\<lambda>n. gwPodLogs n gateway input)) (\<lambda>logs.
     (let target = pl_Pod input @ ''/'' @ pl_Container input in
     andThen (wrapped ''write pod log audit''
       (case logs of
          Inr _ \<Rightarrow> audit env ctx actor requestID ''pod.logs.read'' ''succeeded'' clusterID (pl_Namespace input)
                     target (''container='' @ pl_Container input @ '', previous='' @ bool_text (pl_Previous input)
                       @ '', tail_lines='' @ itoa (pl_TailLines input)) []
        | Inl _ \<Rightarrow> audit env ctx actor requestID ''pod.logs.read'' ''failed'' clusterID (pl_Namespace input)
                     target ''pod log request failed'' [])) (\<lambda>_ s. (s, logs)))))))"

definition accessReviewAuditValue :: "string \<Rightarrow> string \<Rightarrow> string" where
  "accessReviewAuditValue val dflt = (if val = [] then dflt else val)"

definition accessReviewSummary :: "KubernetesCapabilityState \<Rightarrow> KubernetesResourceAttributes \<Rightarrow> string" where
  "accessReviewSummary st attributes =
     ''state='' @ capability_state_string st @ '', verb='' @ ra_Verb attributes
     @ '', group='' @ accessReviewAuditValue (ra_Group attributes) ''core''
     @ '', resource='' @ ra_Resource attributes
     @ '', subresource='' @ accessReviewAuditValue (ra_Subresource attributes) ''-''
     @ '', target_namespace='' @ accessReviewAuditValue (ra_Namespace attributes) ''cluster''"

text \<open>The answer of the gateway, refused when it is none of the three states.\<close>

definition checked_state :: "KubernetesCapabilityState result \<Rightarrow> KubernetesCapabilityState result" where
  "checked_state r =
     (case r of
        Inr st \<Rightarrow>
          if st \<noteq> KubernetesCapabilityAllowed \<and> st \<noteq> KubernetesCapabilityDenied
             \<and> st \<noteq> KubernetesCapabilityIndeterminate
          then Inl (Wrapped ''invalid Kubernetes service account access review state'' ErrUpstream)
          else Inr st
      | Inl e \<Rightarrow> Inl e)"

text \<open>Here the slot is given back before the audit event is written, not by a \<^verbatim>\<open>defer\<close>.\<close>

definition ReviewServiceAccountAccess ::
  "'gw env \<Rightarrow> (nat \<Rightarrow> 'gw \<Rightarrow> KubernetesServiceAccountAccessReviewInput \<Rightarrow> KubernetesCapabilityState result) \<Rightarrow>
    'gw go_context \<Rightarrow> string \<Rightarrow> string \<Rightarrow> string \<Rightarrow> KubernetesServiceAccountAccessReviewInput \<Rightarrow>
    ('gw, KubernetesServiceAccountAccessReview) action" where
  "ReviewServiceAccountAccess env gwReview ctx actor requestID clusterID input =
     guarded (ValidateServiceAccountAccessReviewInput input)
     (outcome (with_read env ctx
       (outcome (andThen (kubeGateway env ctx clusterID) (\<lambda>gateway.
          upstream (GatewayCall gateway) (\<lambda>n. gwReview n gateway input))) (\<lambda>answer.
        svc_now env (\<lambda>checkedAt. ret (checked_state answer, checkedAt))))) (\<lambda>slot.
     case slot of
       Inl e \<Rightarrow> fail e
     | Inr (review, checkedAt) \<Rightarrow>
     (let account = sr_ServiceAccount input;
          target = sa_Namespace account @ ''/'' @ sa_Name account in
     andThen (wrapped ''write service account access review audit''
       (case review of
          Inr st \<Rightarrow> audit env ctx actor requestID ''service_account.access_review'' ''succeeded'' clusterID
                      (sa_Namespace account) target (accessReviewSummary st (sr_ResourceAttributes input)) []
        | Inl _ \<Rightarrow> audit env ctx actor requestID ''service_account.access_review'' ''failed'' clusterID
                      (sa_Namespace account) target ''service account access review failed'' [])) (\<lambda>_.
     case review of
       Inl e \<Rightarrow> fail e
     | Inr st \<Rightarrow>
         ret \<lparr>sv_ServiceAccount = account, sv_ResourceAttributes = sr_ResourceAttributes input,
              sv_State = st, sv_CheckedAt = checkedAt\<rparr>))))"

text \<open>
  \<^verbatim>\<open>context.WithTimeout(ctx, capabilityScanTimeout)\<close>: \<open>late\<close> says at which
  interaction the timeout has passed.
\<close>

definition withTimeout :: "(nat \<Rightarrow> bool) \<Rightarrow> 'gw go_context \<Rightarrow> 'gw go_context" where
  "withTimeout late ctx s =
     (case ctx s of
        Some e \<Rightarrow> Some e
      | None \<Rightarrow> if late (ps_tick s) then Some ContextDeadlineExceeded else None)"

definition svc_ClusterCapabilities ::
  "'gw env \<Rightarrow> (nat \<Rightarrow> 'gw \<Rightarrow> string \<Rightarrow> KubernetesCapability list result) \<Rightarrow> (nat \<Rightarrow> bool) \<Rightarrow>
    'gw go_context \<Rightarrow> string \<Rightarrow> string \<Rightarrow> ('gw, ClusterCapabilities) action" where
  "svc_ClusterCapabilities env gwCapabilities late ctx clusterID namespace =
     guarded (ValidateNamespace namespace)
     (andThen (tryAcquireTargetLock ctx clusterID namespace capabilityScanLock) (\<lambda>stripe.
     deferred (unlockTarget stripe)
     (with_read env ctx
     (andThen (kubeGateway env (withTimeout late ctx) clusterID) (\<lambda>gateway.
     andThen (upstream (GatewayCall gateway) (\<lambda>n. gwCapabilities n gateway namespace)) (\<lambda>checks.
     svc_now env (\<lambda>now.
     ret \<lparr>cc_Namespace = namespace, cc_CheckedAt = now, cc_Checks = checks\<rparr>)))))))"

definition ListHelmReleases ::
  "'gw env \<Rightarrow> (nat \<Rightarrow> Connection \<Rightarrow> string \<Rightarrow> 'r result) \<Rightarrow>
    'gw go_context \<Rightarrow> string \<Rightarrow> string \<Rightarrow> ('gw, 'r) action" where
  "ListHelmReleases env helmList ctx clusterID namespace =
     andThen (store_read ctx (\<lambda>c. GetCluster c clusterID)) (\<lambda>cluster.
     if cl_Status cluster = ClusterDisabled then fail ErrInvalidState
     else
     with_read env ctx
     (andThen (\<lambda>s. (s, clusterConnection env cluster)) (\<lambda>connection.
      upstream (HelmListCall connection) (\<lambda>n. helmList n connection namespace))))"

definition svc_HelmReleaseHistory ::
  "'gw env \<Rightarrow> (nat \<Rightarrow> 'gw \<Rightarrow> string \<Rightarrow> string \<Rightarrow> 'r result) \<Rightarrow>
    'gw go_context \<Rightarrow> string \<Rightarrow> string \<Rightarrow> string \<Rightarrow> ('gw, 'r) action" where
  "svc_HelmReleaseHistory env gwHistory ctx clusterID namespace releaseName =
     guarded (if trim_space clusterID = [] then Some (Invalid ''cluster_id'' ''is required'') else None)
     (guarded (ValidateHelmReleaseReference namespace releaseName)
     (andThen (store_read ctx (\<lambda>c. GetCluster c clusterID)) (\<lambda>cluster.
     if cl_Status cluster = ClusterDisabled then fail ErrInvalidState
     else
     with_read env ctx
     (andThen (gatewayForCluster env ctx cluster) (\<lambda>gateway.
      upstream (GatewayCall gateway) (\<lambda>n. gwHistory n gateway namespace releaseName))))))"

section \<open>All reads of the gateway as values\<close>

datatype (plugins only:) read_request =
    RqSummary
  | RqNamespaces
  | RqNodes
  | RqNodeDetail string
  | RqNodeEvents string int
  | RqCustomResourceDefinitions
  | RqCustomResourceDefinition string
  | RqCertificateSigningRequests
  | RqCertificateSigningRequest string
  | RqPriorityClasses
  | RqPriorityClass string
  | RqRuntimeClasses
  | RqRuntimeClass string
  | RqAPIServices
  | RqAdmissionWebhookConfigurations KubernetesAdmissionWebhookConfigurationKind
  | RqAdmissionWebhookConfiguration KubernetesAdmissionWebhookConfigurationKind string
  | RqValidatingAdmissionPolicies
  | RqValidatingAdmissionPolicy string
  | RqValidatingAdmissionPolicyBindings
  | RqValidatingAdmissionPolicyBinding string
  | RqEvents string string int
  | RqWorkloads string string
  | RqServices string
  | RqIngresses string
  | RqEndpointSlices string
  | RqNetworkPolicies string
  | RqConfigMaps string
  | RqPersistentVolumeClaims string
  | RqPersistentVolumes
  | RqStorageClasses
  | RqVolumeAttachments
  | RqCSIStorageCapacities string
  | RqVolumeAttributesClasses
  | RqCSIDrivers
  | RqCSIDriver string
  | RqCSINodes
  | RqCSINode string
  | RqResourceQuotas string
  | RqPodSecurityAdmissionNamespaces
  | RqNodeVersionSkew
  | RqDeprecatedAPIRequests
  | RqEndpointCertificate
  | RqAPIServerReadiness
  | RqDisruptionBudgets
  | RqLimitRanges string
  | RqHorizontalPodAutoscalers string
  | RqPodDisruptionBudgets string
  | RqAccessResources KubernetesAccessResourceKind string
  | RqAccessResourceDetail KubernetesAccessResourceReference
  | RqWorkloadDetail WorkloadReference
  | RqWorkloadEvents WorkloadReference int
  | RqDeploymentRevisionHistory WorkloadReference

text \<open>
  The handler of a request; \<open>gw\<close> is the gateway, its methods indexed by their calls.
\<close>

primrec serve_read ::
  "'gw env \<Rightarrow> (read_request \<Rightarrow> nat \<Rightarrow> 'gw \<Rightarrow> 'r result) \<Rightarrow> 'gw go_context \<Rightarrow> string \<Rightarrow>
    read_request \<Rightarrow> ('gw, 'r) action" where
  "serve_read env gw ctx i RqSummary =
     Summary env (gw RqSummary) ctx i"
| "serve_read env gw ctx i RqNamespaces =
     Namespaces env (gw RqNamespaces) ctx i"
| "serve_read env gw ctx i RqNodes =
     Nodes env (gw RqNodes) ctx i"
| "serve_read env gw ctx i (RqNodeDetail name) =
     NodeDetail env (\<lambda>n g name. gw (RqNodeDetail name) n g) ctx i name"
| "serve_read env gw ctx i (RqNodeEvents name limit) =
     NodeEvents env (\<lambda>n g name limit. gw (RqNodeEvents name limit) n g) ctx i name limit"
| "serve_read env gw ctx i RqCustomResourceDefinitions =
     CustomResourceDefinitions env (gw RqCustomResourceDefinitions) ctx i"
| "serve_read env gw ctx i (RqCustomResourceDefinition name) =
     CustomResourceDefinition env (\<lambda>n g name. gw (RqCustomResourceDefinition name) n g) ctx i name"
| "serve_read env gw ctx i RqCertificateSigningRequests =
     CertificateSigningRequests env (gw RqCertificateSigningRequests) ctx i"
| "serve_read env gw ctx i (RqCertificateSigningRequest name) =
     CertificateSigningRequest env (\<lambda>n g name. gw (RqCertificateSigningRequest name) n g) ctx i name"
| "serve_read env gw ctx i RqPriorityClasses =
     PriorityClasses env (gw RqPriorityClasses) ctx i"
| "serve_read env gw ctx i (RqPriorityClass name) =
     PriorityClass env (\<lambda>n g name. gw (RqPriorityClass name) n g) ctx i name"
| "serve_read env gw ctx i RqRuntimeClasses =
     RuntimeClasses env (gw RqRuntimeClasses) ctx i"
| "serve_read env gw ctx i (RqRuntimeClass name) =
     RuntimeClass env (\<lambda>n g name. gw (RqRuntimeClass name) n g) ctx i name"
| "serve_read env gw ctx i RqAPIServices =
     APIServices env (gw RqAPIServices) ctx i"
| "serve_read env gw ctx i (RqAdmissionWebhookConfigurations kind) =
     AdmissionWebhookConfigurations env (\<lambda>n g kind. gw (RqAdmissionWebhookConfigurations kind) n g) ctx i kind"
| "serve_read env gw ctx i (RqAdmissionWebhookConfiguration kind name) =
     AdmissionWebhookConfiguration env (\<lambda>n g kind name. gw (RqAdmissionWebhookConfiguration kind name) n g) ctx i kind name"
| "serve_read env gw ctx i RqValidatingAdmissionPolicies =
     ValidatingAdmissionPolicies env (gw RqValidatingAdmissionPolicies) ctx i"
| "serve_read env gw ctx i (RqValidatingAdmissionPolicy name) =
     ValidatingAdmissionPolicy env (\<lambda>n g name. gw (RqValidatingAdmissionPolicy name) n g) ctx i name"
| "serve_read env gw ctx i RqValidatingAdmissionPolicyBindings =
     ValidatingAdmissionPolicyBindings env (gw RqValidatingAdmissionPolicyBindings) ctx i"
| "serve_read env gw ctx i (RqValidatingAdmissionPolicyBinding name) =
     ValidatingAdmissionPolicyBinding env (\<lambda>n g name. gw (RqValidatingAdmissionPolicyBinding name) n g) ctx i name"
| "serve_read env gw ctx i (RqEvents namespace eventType limit) =
     Events env (\<lambda>n g namespace eventType limit. gw (RqEvents namespace eventType limit) n g) ctx i namespace eventType limit"
| "serve_read env gw ctx i (RqWorkloads namespace kind) =
     Workloads env (\<lambda>n g namespace kind. gw (RqWorkloads namespace kind) n g) ctx i namespace kind"
| "serve_read env gw ctx i (RqServices namespace) =
     Services env (\<lambda>n g namespace. gw (RqServices namespace) n g) ctx i namespace"
| "serve_read env gw ctx i (RqIngresses namespace) =
     Ingresses env (\<lambda>n g namespace. gw (RqIngresses namespace) n g) ctx i namespace"
| "serve_read env gw ctx i (RqEndpointSlices namespace) =
     EndpointSlices env (\<lambda>n g namespace. gw (RqEndpointSlices namespace) n g) ctx i namespace"
| "serve_read env gw ctx i (RqNetworkPolicies namespace) =
     NetworkPolicies env (\<lambda>n g namespace. gw (RqNetworkPolicies namespace) n g) ctx i namespace"
| "serve_read env gw ctx i (RqConfigMaps namespace) =
     ConfigMaps env (\<lambda>n g namespace. gw (RqConfigMaps namespace) n g) ctx i namespace"
| "serve_read env gw ctx i (RqPersistentVolumeClaims namespace) =
     PersistentVolumeClaims env (\<lambda>n g namespace. gw (RqPersistentVolumeClaims namespace) n g) ctx i namespace"
| "serve_read env gw ctx i RqPersistentVolumes =
     PersistentVolumes env (gw RqPersistentVolumes) ctx i"
| "serve_read env gw ctx i RqStorageClasses =
     StorageClasses env (gw RqStorageClasses) ctx i"
| "serve_read env gw ctx i RqVolumeAttachments =
     VolumeAttachments env (gw RqVolumeAttachments) ctx i"
| "serve_read env gw ctx i (RqCSIStorageCapacities namespace) =
     CSIStorageCapacities env (\<lambda>n g namespace. gw (RqCSIStorageCapacities namespace) n g) ctx i namespace"
| "serve_read env gw ctx i RqVolumeAttributesClasses =
     VolumeAttributesClasses env (gw RqVolumeAttributesClasses) ctx i"
| "serve_read env gw ctx i RqCSIDrivers =
     CSIDrivers env (gw RqCSIDrivers) ctx i"
| "serve_read env gw ctx i (RqCSIDriver name) =
     CSIDriver env (\<lambda>n g name. gw (RqCSIDriver name) n g) ctx i name"
| "serve_read env gw ctx i RqCSINodes =
     CSINodes env (gw RqCSINodes) ctx i"
| "serve_read env gw ctx i (RqCSINode name) =
     CSINode env (\<lambda>n g name. gw (RqCSINode name) n g) ctx i name"
| "serve_read env gw ctx i (RqResourceQuotas namespace) =
     ResourceQuotas env (\<lambda>n g namespace. gw (RqResourceQuotas namespace) n g) ctx i namespace"
| "serve_read env gw ctx i RqPodSecurityAdmissionNamespaces =
     PodSecurityAdmissionNamespaces env (gw RqPodSecurityAdmissionNamespaces) ctx i"
| "serve_read env gw ctx i RqNodeVersionSkew =
     NodeVersionSkew env (gw RqNodeVersionSkew) ctx i"
| "serve_read env gw ctx i RqDeprecatedAPIRequests =
     DeprecatedAPIRequests env (gw RqDeprecatedAPIRequests) ctx i"
| "serve_read env gw ctx i RqEndpointCertificate =
     EndpointCertificate env (gw RqEndpointCertificate) ctx i"
| "serve_read env gw ctx i RqAPIServerReadiness =
     APIServerReadiness env (gw RqAPIServerReadiness) ctx i"
| "serve_read env gw ctx i RqDisruptionBudgets =
     DisruptionBudgets env (gw RqDisruptionBudgets) ctx i"
| "serve_read env gw ctx i (RqLimitRanges namespace) =
     LimitRanges env (\<lambda>n g namespace. gw (RqLimitRanges namespace) n g) ctx i namespace"
| "serve_read env gw ctx i (RqHorizontalPodAutoscalers namespace) =
     HorizontalPodAutoscalers env (\<lambda>n g namespace. gw (RqHorizontalPodAutoscalers namespace) n g) ctx i namespace"
| "serve_read env gw ctx i (RqPodDisruptionBudgets namespace) =
     PodDisruptionBudgets env (\<lambda>n g namespace. gw (RqPodDisruptionBudgets namespace) n g) ctx i namespace"
| "serve_read env gw ctx i (RqAccessResources kind namespace) =
     AccessResources env (\<lambda>n g kind namespace. gw (RqAccessResources kind namespace) n g) ctx i kind namespace"
| "serve_read env gw ctx i (RqAccessResourceDetail reference) =
     AccessResourceDetail env (\<lambda>n g reference. gw (RqAccessResourceDetail reference) n g) ctx i reference"
| "serve_read env gw ctx i (RqWorkloadDetail reference) =
     WorkloadDetail env (\<lambda>n g reference. gw (RqWorkloadDetail reference) n g) ctx i reference"
| "serve_read env gw ctx i (RqWorkloadEvents reference limit) =
     WorkloadEvents env (\<lambda>n g reference limit. gw (RqWorkloadEvents reference limit) n g) ctx i reference limit"
| "serve_read env gw ctx i (RqDeploymentRevisionHistory reference) =
     DeploymentRevisionHistory env (\<lambda>n g reference. gw (RqDeploymentRevisionHistory reference) n g) ctx i reference"

end
