(* ===== verification/Frames.thy ===== *)
theory Frames
  imports Clusters Repositories Reads
begin

text \<open>
  What every handler of the service keeps. A frame is a reflexive and transitive relation between
  the service before and after; \<open>keeps R m\<close> says that the action \<open>m\<close> respects it. The
  locale \<open>frame\<close> has one rule per combinator, so that a handler respects a frame when its
  elementary actions do. It is interpreted for three frames: slots and locks are given back, the
  store stays well formed, and the client cache stays well formed and idle.
\<close>

section \<open>Frames of actions\<close>

definition keeps :: "('gw Service \<Rightarrow> 'gw Service \<Rightarrow> bool) \<Rightarrow> ('gw, 'a) action \<Rightarrow> bool" where
  "keeps R m \<longleftrightarrow> (\<forall>s. R s (fst (m s)))"

locale frame =
  fixes R :: "'gw Service \<Rightarrow> 'gw Service \<Rightarrow> bool"
  assumes refl: "R s s"
    and trans: "R s t \<Longrightarrow> R t u \<Longrightarrow> R s u"
    and ticks: "R s (tick s)"
begin

lemma keeps_ret: "keeps R (ret x)"
  by (simp add: keeps_def ret_def refl)

lemma keeps_fail: "keeps R (fail e)"
  by (simp add: keeps_def fail_def refl)

lemma keeps_pure: "keeps R (\<lambda>s. (s, r s))"
  by (simp add: keeps_def refl)

lemma keeps_change: "(\<And>s. R s (g s)) \<Longrightarrow> keeps R (\<lambda>s. (g s, r s))"
  by (simp add: keeps_def)

lemma keeps_tick: "keeps R (\<lambda>s. (tick s, r s))"
  by (simp add: keeps_def ticks)

lemma keeps_after: "(\<And>s. R s (g s)) \<Longrightarrow> keeps R m \<Longrightarrow> keeps R (\<lambda>s. m (g s))"
  unfolding keeps_def by (blast intro: trans)

lemma keeps_andThen: "keeps R m \<Longrightarrow> (\<And>x. keeps R (f x)) \<Longrightarrow> keeps R (andThen m f)"
  unfolding keeps_def andThen_def
  by (auto split: prod.split sum.split) (metis fst_conv, metis fst_conv trans)

lemma keeps_outcome: "keeps R m \<Longrightarrow> (\<And>x. keeps R (f x)) \<Longrightarrow> keeps R (outcome m f)"
  unfolding keeps_def outcome_def
  by (auto split: prod.split) (metis fst_conv trans)

lemma keeps_wrapped: "keeps R m \<Longrightarrow> keeps R (wrapped t m)"
  unfolding keeps_def wrapped_def
  by (auto split: prod.split sum.split) (metis fst_conv)+

lemma keeps_guarded: "keeps R m \<Longrightarrow> keeps R (guarded e m)"
  by (simp add: guarded_def keeps_fail split: option.split)

lemma keeps_deferred: "(\<And>s. R s (f s)) \<Longrightarrow> keeps R m \<Longrightarrow> keeps R (deferred f m)"
  unfolding keeps_def deferred_def
  by (auto split: prod.split) (metis fst_conv trans)

lemma keeps_svc_now: "(\<And>t. keeps R (f t)) \<Longrightarrow> keeps R (svc_now env f)"
  unfolding keeps_def svc_now_def by (blast intro: trans ticks)

lemma keeps_newID: "keeps R (newID env p)"
  by (simp add: keeps_def newID_def ticks)

lemma keeps_SealString: "keeps R (SealString env p a)"
  by (simp add: keeps_def SealString_def ticks)

lemma keeps_store_read: "keeps R (store_read ctx call)"
  by (simp add: keeps_def store_read_def ticks)

lemma keeps_if: "keeps R m \<Longrightarrow> keeps R n \<Longrightarrow> keeps R (if b then m else n)"
  by simp

lemma keeps_case_sum:
  "(\<And>e. keeps R (m e)) \<Longrightarrow> (\<And>x. keeps R (n x)) \<Longrightarrow> keeps R (case r of Inl e \<Rightarrow> m e | Inr x \<Rightarrow> n x)"
  by (cases r) simp_all

lemma keeps_case_option:
  "keeps R m \<Longrightarrow> (\<And>x. keeps R (n x)) \<Longrightarrow> keeps R (case r of None \<Rightarrow> m | Some x \<Rightarrow> n x)"
  by (cases r) simp_all

lemma keeps_case_prod: "(\<And>x y. keeps R (m x y)) \<Longrightarrow> keeps R (case p of (x, y) \<Rightarrow> m x y)"
  by (cases p) simp

lemmas rules = keeps_ret keeps_fail keeps_andThen keeps_outcome keeps_wrapped keeps_guarded
  keeps_svc_now keeps_newID keeps_SealString keeps_store_read keeps_if keeps_case_sum
  keeps_case_option keeps_case_prod keeps_tick keeps_pure

text \<open>The audit helpers keep what writing an audit event keeps.\<close>

lemma keeps_newAuditEvent:
  "keeps R (newAuditEvent env actor requestID action res clusterID namespace target summary operationID)"
  unfolding newAuditEvent_def by (intro rules)

lemma keeps_audit:
  assumes "\<And>event. keeps R (store_write env ctx (\<lambda>io c. CreateAuditEvent io c event))"
  shows "keeps R (audit env ctx actor requestID action res clusterID namespace target summary operationID)"
  unfolding audit_def by (intro rules keeps_newAuditEvent assms)

end

section \<open>Frames of the whole service\<close>

lemmas read_defs =
  Summary_def Namespaces_def Nodes_def NodeDetail_def NodeEvents_def CustomResourceDefinitions_def
  CustomResourceDefinition_def CertificateSigningRequests_def CertificateSigningRequest_def
  PriorityClasses_def PriorityClass_def RuntimeClasses_def RuntimeClass_def APIServices_def
  AdmissionWebhookConfigurations_def AdmissionWebhookConfiguration_def
  ValidatingAdmissionPolicies_def ValidatingAdmissionPolicy_def
  ValidatingAdmissionPolicyBindings_def ValidatingAdmissionPolicyBinding_def Events_def
  Workloads_def Services_def Ingresses_def EndpointSlices_def NetworkPolicies_def ConfigMaps_def
  PersistentVolumeClaims_def PersistentVolumes_def StorageClasses_def VolumeAttachments_def
  CSIStorageCapacities_def VolumeAttributesClasses_def CSIDrivers_def CSIDriver_def CSINodes_def
  CSINode_def ResourceQuotas_def PodSecurityAdmissionNamespaces_def NodeVersionSkew_def
  DeprecatedAPIRequests_def EndpointCertificate_def APIServerReadiness_def DisruptionBudgets_def
  LimitRanges_def HorizontalPodAutoscalers_def PodDisruptionBudgets_def AccessResources_def
  AccessResourceDetail_def WorkloadDetail_def WorkloadEvents_def DeploymentRevisionHistory_def

lemma store_exec_calls:
  "store_exec io x (CreateClusterCall cl) = CreateCluster io x cl"
  "store_exec io x (UpdateClusterCall cl) = UpdateCluster io x cl"
  "store_exec io x (RotateClusterCredentialsCall cl cl' e) = RotateClusterCredentials io x cl cl' e"
  "store_exec io x (DeleteClusterCall i) = DeleteCluster io x i"
  "store_exec io x (CreateRepositoryCall rp) = CreateRepository io x rp"
  "store_exec io x (UpdateRepositoryCall rp) = UpdateRepository io x rp"
  "store_exec io x (DeleteRepositoryCall i) = DeleteRepository io x i"
  "store_exec io x (CreateOperationCall p) = CreateOperation io x p"
  "store_exec io x (UpdateOperationCall p) = UpdateOperation io x p"
  "store_exec io x (TransitionOperationCall st p a) = TransitionOperation io x st p a"
  "store_exec io x (CreateAuditEventCall e) = CreateAuditEvent io x e"
  by (rule ext, simp)+

lemma cancelAll_fields [simp]:
  "ps_store (cancelAllOperationControls s) = ps_store s"
  "ps_readGovernor (cancelAllOperationControls s) = ps_readGovernor s"
  "ps_operationGovernor (cancelAllOperationControls s) = ps_operationGovernor s"
  "ps_targetLocks (cancelAllOperationControls s) = ps_targetLocks s"
  "ps_gatewayCache (cancelAllOperationControls s) = ps_gatewayCache s"
proof -
  have "ps_store (fold cancelControl cs t) = ps_store t
      \<and> ps_readGovernor (fold cancelControl cs t) = ps_readGovernor t
      \<and> ps_operationGovernor (fold cancelControl cs t) = ps_operationGovernor t
      \<and> ps_targetLocks (fold cancelControl cs t) = ps_targetLocks t
      \<and> ps_gatewayCache (fold cancelControl cs t) = ps_gatewayCache t" for cs and t :: "'a Service"
    by (induction cs arbitrary: t) (simp_all add: cancelControl_def)
  then show "ps_store (cancelAllOperationControls s) = ps_store s"
    "ps_readGovernor (cancelAllOperationControls s) = ps_readGovernor s"
    "ps_operationGovernor (cancelAllOperationControls s) = ps_operationGovernor s"
    "ps_targetLocks (cancelAllOperationControls s) = ps_targetLocks s"
    "ps_gatewayCache (cancelAllOperationControls s) = ps_gatewayCache s"
    by (simp_all add: cancelAllOperationControls_def)
qed

text \<open>
  What a frame has to say about the elementary actions for every handler to respect it: writing
  calls of the store, calls beyond the panel, the client cache, slots, locks, cancellation handles
  and the queue.
\<close>

locale service_frame = frame R for R :: "'gw Service \<Rightarrow> 'gw Service \<Rightarrow> bool" +
  assumes stored: "call_keeps_names c \<Longrightarrow> R s (s\<lparr>ps_store := fst (store_exec io x c (ps_store s))\<rparr>)"
    and calls: "R s (s\<lparr>ps_calls := cs\<rparr>)"
    and gateway: "R s (fst (gatewayForCluster env ctx cluster s))"
    and invalidate: "R s (cacheInvalidate i s)"
    and closing: "R s (closeIdle gws s)"
    and read_refused: "acquireKubernetesRead env ctx s = (s', Inl e) \<Longrightarrow> R s s'"
    and read_slot: "acquireKubernetesRead env ctx s = (s', Inr u) \<Longrightarrow> R s' t \<Longrightarrow> R s (releaseKubernetesRead t)"
    and lock_refused: "tryAcquireTargetLock ctx a b c' s = (s', Inl e) \<Longrightarrow> R s s'"
    and lock: "tryAcquireTargetLock ctx a b c' s = (s', Inr n) \<Longrightarrow> R s' t \<Longrightarrow> R s (unlockTarget n t)"
    and slot_refused: "acquireOperationSlot env turns s = (s', Inl e) \<Longrightarrow> R s s'"
    and slot: "acquireOperationSlot env turns s = (s', Inr u) \<Longrightarrow> R s' t \<Longrightarrow> R s (releaseOperationSlot t)"
    and controls: "R s (s\<lparr>ps_canceled := cn, ps_operationControls := oc\<rparr>)"
    and queue: "R s (s\<lparr>ps_queue := q\<rparr>)"
    and reconciled: "R s (fst (svc_OperationCapacity env s))"
    and stopped: "R s (Run_shutdown started s)"
begin

lemma keeps_write:
  assumes "call_keeps_names c"
  shows "keeps R (store_write env ctx (\<lambda>io x. store_exec io x c))"
proof -
  have "R s (tick (s\<lparr>ps_store := fst (store_exec io x c (ps_store s))\<rparr>))" for s io x
    using stored [OF assms] ticks trans by blast
  then have "R s (fst (store_write env ctx (\<lambda>io x. store_exec io x c) s))" for s
    by (auto simp: store_write_def split: prod.split option.split) (metis fst_conv)+
  then show ?thesis by (simp add: keeps_def)
qed

lemma keeps_store_writes:
  "keeps R (store_write env ctx (\<lambda>io x. CreateCluster io x cl))"
  "keeps R (store_write env ctx (\<lambda>io x. UpdateCluster io x cl))"
  "keeps R (store_write env ctx (\<lambda>io x. DeleteCluster io x i))"
  "keeps R (store_write env ctx (\<lambda>io x. CreateRepository io x rp))"
  "keeps R (store_write env ctx (\<lambda>io x. UpdateRepository io x rp))"
  "keeps R (store_write env ctx (\<lambda>io x. DeleteRepository io x i))"
  "keeps R (store_write env ctx (\<lambda>io x. CreateOperation io x p))"
  "keeps R (store_write env ctx (\<lambda>io x. UpdateOperation io x p))"
  "keeps R (store_write env ctx (\<lambda>io x. TransitionOperation io x st p a))"
  "keeps R (store_write env ctx (\<lambda>io x. CreateAuditEvent io x e))"
  using keeps_write [of "CreateClusterCall cl"] keeps_write [of "UpdateClusterCall cl"]
    keeps_write [of "DeleteClusterCall i"] keeps_write [of "CreateRepositoryCall rp"]
    keeps_write [of "UpdateRepositoryCall rp"] keeps_write [of "DeleteRepositoryCall i"]
    keeps_write [of "CreateOperationCall p"] keeps_write [of "UpdateOperationCall p"]
    keeps_write [of "TransitionOperationCall st p a"] keeps_write [of "CreateAuditEventCall e"]
  by (simp_all add: store_exec_calls)

lemma keeps_rotation:
  assumes "cl_Name updated = cl_Name current"
  shows "keeps R (store_write env ctx (\<lambda>io x. RotateClusterCredentials io x current updated e))"
  using keeps_write [of "RotateClusterCredentialsCall current updated e"] assms
  by (simp add: store_exec_calls)

lemma keeps_upstream: "keeps R (upstream c f)"
  unfolding keeps_def upstream_def using calls ticks trans by (metis fst_conv)

lemma keeps_gateway: "keeps R (gatewayForCluster env ctx cluster)"
  by (simp add: keeps_def gateway)

lemma keeps_kubeGateway: "keeps R (kubeGateway env ctx i)"
  unfolding kubeGateway_def by (intro rules keeps_gateway)

lemma keeps_with_read: "keeps R body \<Longrightarrow> keeps R (with_read env ctx body)"
  unfolding keeps_def with_read_def andThen_def deferred_def
  by (auto split: prod.split sum.split intro: read_refused) (metis fst_conv read_slot)

lemma keeps_locked:
  "(\<And>n. keeps R (body n)) \<Longrightarrow>
   keeps R (andThen (tryAcquireTargetLock ctx a b c) (\<lambda>n. deferred (unlockTarget n) (body n)))"
  unfolding keeps_def andThen_def deferred_def
  by (auto split: prod.split sum.split intro: lock_refused) (metis fst_conv lock)

text \<open>The waiting variant takes the same lock, or only time passes.\<close>

lemma acquireTargetLock_try:
  "acquireTargetLock env ctx a b c s =
     (case tryAcquireTargetLock ctx a b c s of
        (s', Inl e) \<Rightarrow> if ctx s = None then (tick s, Inl (ev_done env (ps_tick s))) else (s, Inl e)
      | (s', Inr n) \<Rightarrow> (s', Inr n))"
  by (simp add: acquireTargetLock_def tryAcquireTargetLock_def Let_def split: option.split)

lemma keeps_wait_locked:
  assumes "\<And>n. keeps R (body n)"
  shows "keeps R (andThen (acquireTargetLock env ctx a b c) (\<lambda>n. deferred (unlockTarget n) (body n)))"
proof -
  have "R s (fst (andThen (acquireTargetLock env ctx a b c) (\<lambda>n. deferred (unlockTarget n) (body n)) s))" for s
  proof (cases "tryAcquireTargetLock ctx a b c s")
    case (Pair s' r)
    show ?thesis
    proof (cases r)
      case (Inl e)
      with Pair show ?thesis by (simp add: andThen_def acquireTargetLock_try refl ticks)
    next
      case (Inr n)
      have "R s' (fst (body n s'))" using assms by (simp add: keeps_def)
      with Pair Inr lock show ?thesis
        by (auto simp: andThen_def acquireTargetLock_try deferred_def split: prod.split)
    qed
  qed
  then show ?thesis by (simp add: keeps_def)
qed

lemma keeps_slotted:
  "keeps R body \<Longrightarrow> keeps R (andThen (acquireOperationSlot env turns) (\<lambda>_. deferred releaseOperationSlot body))"
  unfolding keeps_def andThen_def deferred_def
  by (auto split: prod.split sum.split intro: slot_refused) (metis fst_conv slot)

lemmas parts = rules keeps_store_writes keeps_upstream keeps_gateway keeps_kubeGateway keeps_newAuditEvent
  keeps_audit [OF keeps_store_writes(10)]

text \<open>Cluster handlers.\<close>

lemma keeps_testClusterConnection: "keeps R (testClusterConnection env ctx actor requestID i)"
proof -
  have inv: "keeps R (\<lambda>s. m (case probe of Inl e \<Rightarrow> cacheInvalidate i s | Inr p \<Rightarrow> s))" if "keeps R m"
    for probe :: "ClusterProbe result" and m :: "('gw, ClusterView \<times> go_error option) action"
    using that by (cases probe) (simp_all add: keeps_after invalidate)
  show ?thesis
    unfolding testClusterConnection_def Let_def by (intro parts inv)
qed

lemma keeps_CreateCluster: "keeps R (svc_CreateCluster env ctx actor requestID input)"
  unfolding svc_CreateCluster_def Let_def by (intro parts keeps_testClusterConnection)

lemma keeps_TestClusterConnection: "keeps R (TestClusterConnection env ctx actor requestID i)"
  unfolding TestClusterConnection_def
  by (rule keeps_with_read, rule keeps_after [OF invalidate keeps_testClusterConnection])

lemma keeps_recordFailure: "keeps R (recordCredentialRotationFailure env ctx actor requestID cluster cause)"
  unfolding recordCredentialRotationFailure_def by (intro parts)

lemma keeps_rotate_to: "keeps R (rotate_to env ctx actor requestID i input current probe)"
  unfolding rotate_to_def Let_def
  by (intro parts keeps_recordFailure keeps_rotation keeps_change invalidate) simp

lemma keeps_closed: "keeps R m \<Longrightarrow> keeps R (\<lambda>s. m (closeIdle gws s))"
  by (rule keeps_after [OF closing])

lemma keeps_RotateClusterCredentials: "keeps R (svc_RotateClusterCredentials env ctx actor requestID i input)"
  unfolding svc_RotateClusterCredentials_def Let_def
  by (rule keeps_guarded, rule keeps_locked, rule keeps_with_read)
     (intro parts keeps_deferred closing keeps_closed keeps_recordFailure keeps_rotate_to)

lemma keeps_SetClusterEnabled: "keeps R (SetClusterEnabled env ctx actor requestID i enabled)"
proof -
  have inv: "keeps R (\<lambda>s. m (if enabled then s else cacheInvalidate i s))" if "keeps R m"
    for m :: "('gw, ClusterView) action"
    using that by (cases enabled) (simp_all add: keeps_after invalidate)
  show ?thesis
    unfolding SetClusterEnabled_def Let_def by (intro parts inv keeps_testClusterConnection)
qed

lemma keeps_DeleteCluster: "keeps R (svc_DeleteCluster env ctx actor requestID i name)"
  unfolding svc_DeleteCluster_def by (intro parts keeps_change invalidate)

text \<open>Repository handlers.\<close>

lemma keeps_testRepository: "keeps R (testRepository env ctx actor requestID i)"
  unfolding testRepository_def Let_def by (intro parts)

lemma keeps_repository_handlers:
  "keeps R (TestRepository env ctx actor requestID i)"
  "keeps R (svc_CreateRepository env ctx actor requestID rinput)"
  "keeps R (SetRepositoryEnabled env ctx actor requestID i enabled)"
  "keeps R (svc_DeleteRepository env ctx actor requestID i)"
  unfolding TestRepository_def svc_CreateRepository_def SetRepositoryEnabled_def svc_DeleteRepository_def Let_def
  by (intro parts keeps_testRepository)+

text \<open>Operations.\<close>

lemma control_changes:
  "R s (cancelControl c s)" "R s (releaseOperationControl i co s)" "R s (signalOperationCancellation i s)"
  "R s (fst (registerOperationControl i s))"
proof -
  have canceled: "R s (s\<lparr>ps_canceled := cn\<rparr>)" for s cn
    using controls [where s = s and cn = cn and oc = "ps_operationControls s"] by simp
  have registry: "R s (s\<lparr>ps_operationControls := oc\<rparr>)" for s oc
    using controls [where s = s and cn = "ps_canceled s" and oc = oc] by simp
  have cancel: "R s (cancelControl c s)" for s c
    unfolding cancelControl_def by (rule canceled)
  then show "R s (cancelControl c s)" .
  show "R s (releaseOperationControl i co s)"
    using trans [OF cancel registry] by (simp add: releaseOperationControl_def Let_def refl cancel split: option.split)
  show "R s (signalOperationCancellation i s)"
    using trans [OF registry cancel] by (simp add: signalOperationCancellation_def Let_def registry split: option.split)
  show "R s (fst (registerOperationControl i s))"
    using trans [OF controls cancel] by (simp add: registerOperationControl_def Let_def controls split: option.split)
qed

lemma keeps_operation_audit: "keeps R (operation_audit env ctx p res summary)"
  unfolding operation_audit_def by (intro parts)

lemma keeps_enqueue_registered: "keeps R (enqueue_registered env ctx operation job control)"
proof -
  let ?release = "releaseOperationControl (op_ID operation) (Some control)"
  have queued: "keeps R (\<lambda>s. if length (ps_queue s) < ps_queueCapacity s then (s\<lparr>ps_queue := f s\<rparr>, x) else m (?release s))"
    if "keeps R m" for f and x :: "Operation result" and m
    using keeps_after [where g = ?release, OF control_changes(2) that] queue by (simp add: keeps_def)
  show ?thesis
    unfolding enqueue_registered_def Let_def
    by (intro parts keeps_operation_audit keeps_change control_changes queued)
qed

lemma keeps_createAndEnqueue: "keeps R (createAndEnqueueOperation env ctx operation job)"
proof -
  have "R s (fst (createAndEnqueueOperation env ctx operation job s))" for s
  proof (cases "registerOperationControl (op_ID operation) s")
    case (Pair s' c)
    then have "R s s'" using control_changes(4) [of s "op_ID operation"] by simp
    moreover have "R s' (fst (enqueue_registered env ctx operation (job\<lparr>jb_control := Some c\<rparr>) c s'))"
      using keeps_enqueue_registered by (simp add: keeps_def)
    ultimately show ?thesis
      using trans Pair by (auto simp: createAndEnqueueOperation_def)
  qed
  then show ?thesis by (simp add: keeps_def)
qed

lemma keeps_submissions:
  "keeps R (SubmitHelmOperation env ctx actor requestID kind hinput)"
  "keeps R (SubmitWorkloadOperation env ctx actor requestID kind winput)"
  "keeps R (SubmitWorkloadImageUpdate env ctx actor requestID iinput)"
  unfolding SubmitHelmOperation_def SubmitWorkloadOperation_def SubmitWorkloadImageUpdate_def
    confirmed_cluster_def Let_def
  by (intro parts keeps_createAndEnqueue)+

lemma keeps_PreviewWorkloadImage: "keeps R (PreviewWorkloadImage env preview ctx actor requestID iinput)"
  unfolding PreviewWorkloadImage_def Let_def by (intro parts keeps_with_read)

lemma keeps_CancelOperation: "keeps R (CancelOperation env ctx actor requestID i)"
  unfolding CancelOperation_def Let_def by (intro parts keeps_change control_changes)

lemma keeps_executeOperationJob: "keeps R (executeOperationJob env ctx p job)"
proof -
  have kinds: "keeps R (case k of OperationWorkloadScale \<Rightarrow> a | OperationWorkloadRestart \<Rightarrow> b | _ \<Rightarrow> c)"
    if "keeps R a" "keeps R b" "keeps R c" for k and a b c :: "('gw, unit) action"
    using that by (cases k) simp_all
  show ?thesis
    unfolding executeOperationJob_def helmRequest_def by (intro parts kinds)
qed

lemma keeps_recordOutcome: "keeps R (recordOutcome env ctx p err)"
proof -
  have fin: "keeps R (\<lambda>s. case mark_finished err (ctx s \<noteq> None) now p of (finished, res) \<Rightarrow> m finished res s)"
    if "\<And>f r. keeps R (m f r)" for now and m :: "Operation \<Rightarrow> string \<Rightarrow> ('gw, unit) action"
    using that by (simp add: keeps_def split: prod.split)
  show ?thesis
    unfolding recordOutcome_def Let_def by (intro parts fin keeps_operation_audit)
qed

lemma keeps_executeOperation: "keeps R (executeOperation env turns ctx job)"
  unfolding executeOperation_def Let_def finishExecution_def
  by (rule keeps_deferred, rule control_changes(2), rule keeps_andThen, unfold queuedOperation_def, intro parts,
      rule keeps_wait_locked, rule keeps_slotted)
     (intro parts keeps_executeOperationJob keeps_recordOutcome)

lemma keeps_worker: "R s (worker env turns ctx s)"
proof (induction env turns ctx s rule: worker.induct)
  case (2 env turns stop rest ctx s)
  show ?case
  proof (cases "ps_queue s")
    case (Cons job jobs)
    let ?t = "fst (executeOperation env turns ctx job (s\<lparr>ps_queue := jobs\<rparr>))"
    have "R (s\<lparr>ps_queue := jobs\<rparr>) ?t"
      using keeps_executeOperation [of env turns ctx job] by (simp add: keeps_def)
    then have "R s ?t" using queue trans by blast
    then show ?thesis
      using 2 Cons trans refl by auto
  qed (simp add: refl)
qed (simp add: refl)

text \<open>Reads.\<close>

lemma keeps_kube_read: "keeps R (kube_read env ctx i call)"
  unfolding kube_read_def by (intro keeps_with_read parts)

lemma keeps_serve_read: "keeps R (serve_read env gw ctx i rq)"
  by (cases rq) (simp_all add: read_defs Let_def keeps_guarded keeps_kube_read)

lemma keeps_other_reads:
  "keeps R (Secrets env gwSecrets ctx actor requestID i namespace)"
  "keeps R (PodLogs env gwPodLogs ctx actor requestID i linput)"
  "keeps R (ReviewServiceAccountAccess env gwReview ctx actor requestID i ainput)"
  "keeps R (ListHelmReleases env helmList ctx i namespace)"
  "keeps R (svc_HelmReleaseHistory env gwHistory ctx i namespace rel)"
  unfolding Secrets_def PodLogs_def ReviewServiceAccountAccess_def ListHelmReleases_def
    svc_HelmReleaseHistory_def Let_def
  by (intro parts keeps_with_read)+

lemma keeps_ClusterCapabilities:
  "keeps R (svc_ClusterCapabilities env gwCapabilities late ctx i namespace)"
  unfolding svc_ClusterCapabilities_def
  by (rule keeps_guarded, rule keeps_locked, rule keeps_with_read) (intro parts)

end

section \<open>Slots and locks are given back\<close>

definition gov_ok :: "Governor \<Rightarrow> bool" where
  "gov_ok g \<longleftrightarrow> 0 \<le> gv_active g \<and> gv_active g \<le> gv_maxConcurrent g
     \<and> 1 \<le> gv_maxConcurrent g \<and> gv_maxConcurrent g < 2 ^ 63"

definition resources_ok :: "'gw Service \<Rightarrow> bool" where
  "resources_ok s \<longleftrightarrow> gov_ok (ps_readGovernor s) \<and> gov_ok (ps_operationGovernor s)
     \<and> length (ps_targetLocks s) = targetLockStripes"

definition balanced :: "'gw Service \<Rightarrow> 'gw Service \<Rightarrow> bool" where
  "balanced s t \<longleftrightarrow> (resources_ok s \<longrightarrow> ps_readGovernor t = ps_readGovernor s
     \<and> ps_operationGovernor t = ps_operationGovernor s \<and> ps_targetLocks t = ps_targetLocks s)"

lemma resources_ok_cong:
  "ps_readGovernor t = ps_readGovernor s \<Longrightarrow> ps_operationGovernor t = ps_operationGovernor s \<Longrightarrow>
   ps_targetLocks t = ps_targetLocks s \<Longrightarrow> resources_ok t = resources_ok s"
  by (simp add: resources_ok_def)

lemma TryAcquire_gov:
  assumes "TryAcquire g sample now = (g', snap, ok)" and "gov_ok g"
  shows "if ok then g' = g\<lparr>gv_active := gv_active g + 1\<rparr> \<and> gov_ok g' else g' = g"
proof (cases "gv_active g < snd (capacity g (safeRatio (sp_MemoryRatio sample)) (safeRatio (sp_LoadRatio sample)))")
  case True
  have max: "gv_active g < gv_maxConcurrent g"
    using True capacity_bounds(2) assms(2) by (meson gov_ok_def order_less_le_trans)
  with assms(2) have "gv_active g < 2 ^ 63 - 1" "0 \<le> gv_active g" by (auto simp: gov_ok_def)
  from TryAcquire_cases(1,2) [OF assms(1) this] True max assms(2) show ?thesis
    by (simp add: gov_ok_def)
next
  case False
  with assms(1) show ?thesis
    by (auto simp: TryAcquire_def Let_def split: if_splits)
qed

lemma Acquire_gov:
  assumes "Acquire (map (\<lambda>(sample, now, stop). \<lparr>tn_sample = sample, tn_now = now,
             tn_others = (\<lambda>g. g), tn_done = stop\<rparr>) turns) g = Some (g', r)" and "gov_ok g"
  shows "case r of Inl e \<Rightarrow> g' = g | Inr snap \<Rightarrow> g' = g\<lparr>gv_active := gv_active g + 1\<rparr> \<and> gov_ok g'"
  using assms
proof (induction turns)
  case (Cons t turns)
  obtain sample now stop where t: "t = (sample, now, stop)" by (cases t)
  obtain h snap ok where a: "TryAcquire g sample now = (h, snap, ok)" by (metis prod_cases3)
  from TryAcquire_gov [OF a Cons.prems(2)] Cons a show ?case
    by (cases ok; cases stop) (auto simp: t)
qed simp

lemma release_gov:
  "gov_ok g \<Longrightarrow> gov_ok (g\<lparr>gv_active := gv_active g + 1\<rparr>) \<Longrightarrow>
   snd (release_slot False (g\<lparr>gv_active := gv_active g + 1\<rparr>)) = g"
  by (simp add: release_slot_def gov_ok_def)

lemma targetLock_range: "targetLock a b c < targetLockStripes"
proof -
  have "unat (h mod 64 :: 64 word) < 64" for h
    by (simp add: unat_mod)
  then show ?thesis
    by (simp add: targetLock_def targetLockStripes_def Let_def)
qed

lemma balanced_read:
  assumes "acquireKubernetesRead env ctx s = (s', Inr u)" and "balanced s' t"
  shows "balanced s (releaseKubernetesRead t)"
  unfolding balanced_def
proof
  assume ok: "resources_ok s"
  obtain g snap b where a: "TryAcquire (ps_readGovernor s) (ev_sample env (ps_tick s)) (ev_clock env (ps_tick s)) = (g, snap, b)"
    by (metis prod_cases3)
  from assms(1) a have b and s': "ps_readGovernor s' = g" "ps_operationGovernor s' = ps_operationGovernor s"
    "ps_targetLocks s' = ps_targetLocks s"
    by (auto simp: acquireKubernetesRead_def Let_def tick_def split: option.splits if_splits)
  have "gov_ok (ps_readGovernor s)" using ok by (simp add: resources_ok_def)
  with TryAcquire_gov [OF a] \<open>b\<close> have g: "g = (ps_readGovernor s)\<lparr>gv_active := gv_active (ps_readGovernor s) + 1\<rparr>" "gov_ok g"
    by auto
  with ok s' have "resources_ok s'" by (simp add: resources_ok_def)
  with assms(2) have "ps_readGovernor t = g" "ps_operationGovernor t = ps_operationGovernor s"
    "ps_targetLocks t = ps_targetLocks s"
    using s' by (auto simp: balanced_def)
  then show "ps_readGovernor (releaseKubernetesRead t) = ps_readGovernor s
     \<and> ps_operationGovernor (releaseKubernetesRead t) = ps_operationGovernor s
     \<and> ps_targetLocks (releaseKubernetesRead t) = ps_targetLocks s"
    using release_gov [of "ps_readGovernor s"] ok g by (simp add: releaseKubernetesRead_def resources_ok_def)
qed

lemma balanced_slot:
  assumes "acquireOperationSlot env turns s = (s', Inr u)" and "balanced s' t"
  shows "balanced s (releaseOperationSlot t)"
  unfolding balanced_def
proof
  assume ok: "resources_ok s"
  then have gov: "gov_ok (ps_operationGovernor s)" by (simp add: resources_ok_def)
  from assms(1) obtain g snap where a: "Acquire (map (\<lambda>(sample, now, stop). \<lparr>tn_sample = sample, tn_now = now,
        tn_others = (\<lambda>g. g), tn_done = stop\<rparr>) turns) (ps_operationGovernor s) = Some (g, Inr snap)"
    and s': "s' = tick (s\<lparr>ps_operationGovernor := g\<rparr>)"
    by (auto simp: acquireOperationSlot_def split: option.splits prod.splits sum.splits)
  have g: "g = (ps_operationGovernor s)\<lparr>gv_active := gv_active (ps_operationGovernor s) + 1\<rparr>" "gov_ok g"
    using Acquire_gov [OF a gov] by auto
  with ok s' have "resources_ok s'" by (simp add: resources_ok_def tick_def)
  with assms(2) have "ps_operationGovernor t = g" "ps_readGovernor t = ps_readGovernor s"
    "ps_targetLocks t = ps_targetLocks s"
    using s' by (auto simp: balanced_def tick_def)
  then show "ps_readGovernor (releaseOperationSlot t) = ps_readGovernor s
     \<and> ps_operationGovernor (releaseOperationSlot t) = ps_operationGovernor s
     \<and> ps_targetLocks (releaseOperationSlot t) = ps_targetLocks s"
    using release_gov [OF gov] g by (simp add: releaseOperationSlot_def)
qed

lemma balanced_lock:
  assumes "tryAcquireTargetLock ctx a b c s = (s', Inr n)" and "balanced s' t"
  shows "balanced s (unlockTarget n t)"
  unfolding balanced_def
proof
  assume ok: "resources_ok s"
  from assms(1) have n: "n = targetLock a b c" and free: "\<not> ps_targetLocks s ! n"
    and s': "s' = s\<lparr>ps_targetLocks := (ps_targetLocks s)[n := True]\<rparr>"
    by (auto simp: tryAcquireTargetLock_def Let_def split: option.splits if_splits)
  have "n < length (ps_targetLocks s)"
    using ok targetLock_range n by (simp add: resources_ok_def)
  with free have "(ps_targetLocks s)[n := False] = ps_targetLocks s"
    by (metis (full_types) list_update_id)
  moreover have "resources_ok s'" using ok s' by (simp add: resources_ok_def)
  ultimately show "ps_readGovernor (unlockTarget n t) = ps_readGovernor s
     \<and> ps_operationGovernor (unlockTarget n t) = ps_operationGovernor s
     \<and> ps_targetLocks (unlockTarget n t) = ps_targetLocks s"
    using assms(2) s' by (simp add: balanced_def unlockTarget_def)
qed

lemma gatewayForCluster_fields [simp]:
  "ps_store (fst (gatewayForCluster env ctx cl s)) = ps_store s"
  "ps_readGovernor (fst (gatewayForCluster env ctx cl s)) = ps_readGovernor s"
  "ps_operationGovernor (fst (gatewayForCluster env ctx cl s)) = ps_operationGovernor s"
  "ps_targetLocks (fst (gatewayForCluster env ctx cl s)) = ps_targetLocks s"
  by (auto simp: gatewayForCluster_def Let_def split: prod.split)

lemma refused_fields:
  "acquireKubernetesRead env ctx s = (s', Inl e) \<Longrightarrow> gov_ok (ps_readGovernor s) \<Longrightarrow>
     ps_readGovernor s' = ps_readGovernor s"
  "acquireKubernetesRead env ctx s = (s', r) \<Longrightarrow>
     ps_operationGovernor s' = ps_operationGovernor s \<and> ps_targetLocks s' = ps_targetLocks s \<and> ps_store s' = ps_store s"
  "acquireOperationSlot env turns s = (s', Inl e) \<Longrightarrow> gov_ok (ps_operationGovernor s) \<Longrightarrow>
     ps_operationGovernor s' = ps_operationGovernor s"
  "acquireOperationSlot env turns s = (s', q) \<Longrightarrow>
     ps_readGovernor s' = ps_readGovernor s \<and> ps_targetLocks s' = ps_targetLocks s \<and> ps_store s' = ps_store s
     \<and> ps_gatewayCache s' = ps_gatewayCache s"
  "tryAcquireTargetLock ctx a b c s = (s', Inl e) \<Longrightarrow> s' = s"
proof -
  show "acquireKubernetesRead env ctx s = (s', Inl e) \<Longrightarrow> gov_ok (ps_readGovernor s) \<Longrightarrow>
      ps_readGovernor s' = ps_readGovernor s"
    using TryAcquire_gov
    by (fastforce simp: acquireKubernetesRead_def Let_def tick_def split: option.splits prod.splits if_splits)
  show "acquireOperationSlot env turns s = (s', Inl e) \<Longrightarrow> gov_ok (ps_operationGovernor s) \<Longrightarrow>
      ps_operationGovernor s' = ps_operationGovernor s"
    using Acquire_gov [of turns "ps_operationGovernor s"]
    by (fastforce simp: acquireOperationSlot_def tick_def split: option.splits prod.splits sum.splits)
qed (auto simp: acquireKubernetesRead_def acquireOperationSlot_def tryAcquireTargetLock_def Let_def tick_def
      split: option.splits prod.splits sum.splits if_splits)

lemma balanced_trans:
  assumes "balanced s t" and "balanced t u"
  shows "balanced s u"
  unfolding balanced_def
proof
  assume ok: "resources_ok s"
  with assms(1) have "resources_ok t"
    by (simp add: balanced_def resources_ok_def)
  with ok assms show "ps_readGovernor u = ps_readGovernor s
     \<and> ps_operationGovernor u = ps_operationGovernor s \<and> ps_targetLocks u = ps_targetLocks s"
    by (simp add: balanced_def)
qed

lemma balanced_refused:
  "acquireKubernetesRead env ctx s = (t, Inl e) \<Longrightarrow> balanced s t"
  "acquireOperationSlot env turns s = (t, Inl e) \<Longrightarrow> balanced s t"
  "tryAcquireTargetLock ctx a b c s = (t, Inl e) \<Longrightarrow> balanced s t"
  using refused_fields(1) [of env ctx s t e] refused_fields(2) [of env ctx s t "Inl e"]
    refused_fields(3) [of env turns s t e] refused_fields(4) [of env turns s t "Inl e"]
    refused_fields(5) [of ctx a b c s t e]
  by (simp_all add: balanced_def resources_ok_def)

lemma balanced_same:
  "ps_readGovernor t = ps_readGovernor s \<Longrightarrow> ps_operationGovernor t = ps_operationGovernor s \<Longrightarrow>
   ps_targetLocks t = ps_targetLocks s \<Longrightarrow> balanced s t"
  by (simp add: balanced_def)

interpretation resources: service_frame balanced
  by unfold_locales
     ((rule balanced_trans balanced_read balanced_slot balanced_lock balanced_refused, assumption+)
      | (rule balanced_same; simp add: tick_def cacheInvalidate_def closeIdle_def svc_OperationCapacity_def
          Run_shutdown_def Let_def))+

section \<open>Invariants of the store and of the cache\<close>

definition store_ok :: "'gw Service \<Rightarrow> bool" where
  "store_ok s \<longleftrightarrow> store_wf (data (ps_store s))"

definition cache_idle :: "'gw Service \<Rightarrow> bool" where
  "cache_idle s \<longleftrightarrow> cache_ok (ps_gatewayCache s) \<and> gc_builds (ps_gatewayCache s) = []"

lemma Get_quiet:
  assumes "cache_ok c" and "gc_builds c = []" and "Get ctx stop now i f build later c = (d, called, res)"
  shows "cache_ok d \<and> gc_builds d = []"
proof (cases "ctx = None \<and> build \<noteq> None")
  case False
  with assms show ?thesis by (auto simp: Get_def split: option.splits)
next
  case True
  then obtain built where b: "ctx = None" "build = Some built" by auto
  obtain c1 out where l: "get_lookup now i f c = (c1, out)" by fastforce
  have ok: "cache_ok c1" using l assms(1) by (rule get_lookup_ok)
  have dist: "distinct (map fst (gc_entries c))" using assms(1) by (simp add: cache_ok_def)
  show ?thesis
    using l dist
  proof (cases rule: get_lookup_builds)
    case kept
    with assms(2,3) b l ok show ?thesis
      by (cases out) (auto simp: Get_def)
  next
    case started
    obtain c2 r where p: "get_publish i f (gc_generations c i) (length (gc_heap c)) built later c1 = (c2, r)"
      by fastforce
    have "d = c2" using assms(3) b l p started(4) by (simp add: Get_def)
    with get_publish_spec(1,2) [OF p ok] started(1) assms(2) show ?thesis by simp
  qed
qed

lemma cache_idle_changes:
  "cache_idle s \<Longrightarrow> cache_idle (cacheInvalidate i s)" "cache_idle s \<Longrightarrow> cache_idle (closeIdle gws s)"
  using Invalidate_spec(1,4) [of "ps_gatewayCache s" i]
  by (auto simp: cache_idle_def cacheInvalidate_def closeIdle_def cache_ok_def)

lemma cache_idle_service:
  "cache_idle s \<Longrightarrow> cache_idle (fst (svc_OperationCapacity env s))" "cache_idle s \<Longrightarrow> cache_idle (Run_shutdown started s)"
  using Reconcile_spec(1,3) [of "ps_gatewayCache s"] cache_Close_spec(1,3) [of "ps_gatewayCache s"]
  by (auto simp: cache_idle_def svc_OperationCapacity_def Run_shutdown_def Let_def)

lemma gatewayForCluster_idle: "cache_idle s \<Longrightarrow> cache_idle (fst (gatewayForCluster env ctx cl s))"
  using Get_quiet [of "ps_gatewayCache s"]
  by (auto simp: gatewayForCluster_def Let_def cache_idle_def split: prod.split)

lemma acquireKubernetesRead_idle:
  "acquireKubernetesRead env ctx s = (t, r) \<Longrightarrow> cache_idle s \<Longrightarrow> cache_idle t"
  using Reconcile_spec(1,3) [of "ps_gatewayCache s"]
  by (auto simp: acquireKubernetesRead_def Let_def cache_idle_def tick_def split: option.splits prod.splits if_splits)

text \<open>A state predicate that every elementary action keeps is an invariant of every handler.\<close>

locale service_invariant =
  fixes P :: "'gw Service \<Rightarrow> bool"
  assumes ticked: "P (tick s) = P s"
    and stored: "call_keeps_names c \<Longrightarrow> P s \<Longrightarrow> P (s\<lparr>ps_store := fst (store_exec io x c (ps_store s))\<rparr>)"
    and called: "P (s\<lparr>ps_calls := cs\<rparr>) = P s"
    and connected: "P s \<Longrightarrow> P (fst (gatewayForCluster env ctx cluster s))"
    and invalidated: "P s \<Longrightarrow> P (cacheInvalidate i s)"
    and closed: "P s \<Longrightarrow> P (closeIdle gws s)"
    and reading: "acquireKubernetesRead env ctx s = (s', r) \<Longrightarrow> P s \<Longrightarrow> P s'"
    and governed: "P (s\<lparr>ps_readGovernor := g\<rparr>) = P s" "P (s\<lparr>ps_operationGovernor := g\<rparr>) = P s"
    and locked: "P (s\<lparr>ps_targetLocks := ls\<rparr>) = P s"
    and controlled: "P (s\<lparr>ps_canceled := cn, ps_operationControls := oc\<rparr>) = P s"
    and queued: "P (s\<lparr>ps_queue := q\<rparr>) = P s"
    and measured: "P s \<Longrightarrow> P (fst (svc_OperationCapacity env s))"
    and ended: "P s \<Longrightarrow> P (Run_shutdown started s)"

sublocale service_invariant \<subseteq> kept: service_frame "\<lambda>s t. P s \<longrightarrow> P t"
  by unfold_locales
     (auto simp: ticked called governed locked controlled queued releaseKubernetesRead_def unlockTarget_def
        releaseOperationSlot_def tryAcquireTargetLock_def acquireOperationSlot_def Let_def
        intro: stored connected invalidated closed reading measured ended
        split: option.splits prod.splits sum.splits if_splits)

interpretation stores: service_invariant store_ok
  by unfold_locales
     (auto simp: store_ok_def tick_def cacheInvalidate_def closeIdle_def svc_OperationCapacity_def
        Run_shutdown_def Let_def dest: refused_fields(2) intro: store_exec_wf)

interpretation caches: service_invariant cache_idle
  by unfold_locales
     (auto simp: gatewayForCluster_idle cache_idle_changes cache_idle_service intro: acquireKubernetesRead_idle,
      auto simp: cache_idle_def tick_def)

end
