(* ===== verification/Service.thy ===== *)
theory Service
  imports Frames
begin

text \<open>
  The service as a whole: the requests it serves as a step relation, what holds in every reachable
  state, and the properties of single handlers on all their paths.
\<close>

section \<open>Requests\<close>

text \<open>
  One request, or one run of a worker, from its beginning to its end. Every request has its own
  context.
\<close>

inductive service_step :: "'gw env \<Rightarrow> 'gw Service \<Rightarrow> 'gw Service \<Rightarrow> bool" for env where
  create_cluster: "service_step env s (fst (svc_CreateCluster env ctx actor rid cinput s))"
| list_clusters: "service_step env s (fst (svc_ListClusters ctx s))"
| get_cluster: "service_step env s (fst (svc_GetCluster ctx i s))"
| test_cluster: "service_step env s (fst (TestClusterConnection env ctx actor rid i s))"
| rotate_credentials: "service_step env s (fst (svc_RotateClusterCredentials env ctx actor rid i rinput s))"
| enable_cluster: "service_step env s (fst (SetClusterEnabled env ctx actor rid i enabled s))"
| delete_cluster: "service_step env s (fst (svc_DeleteCluster env ctx actor rid i name s))"
| create_repository: "service_step env s (fst (svc_CreateRepository env ctx actor rid pinput s))"
| list_repositories: "service_step env s (fst (svc_ListRepositories ctx s))"
| test_repository: "service_step env s (fst (TestRepository env ctx actor rid i s))"
| enable_repository: "service_step env s (fst (SetRepositoryEnabled env ctx actor rid i enabled s))"
| delete_repository: "service_step env s (fst (svc_DeleteRepository env ctx actor rid i s))"
| submit_helm: "service_step env s (fst (SubmitHelmOperation env ctx actor rid kind hinput s))"
| submit_workload: "service_step env s (fst (SubmitWorkloadOperation env ctx actor rid kind winput s))"
| submit_image: "service_step env s (fst (SubmitWorkloadImageUpdate env ctx actor rid iinput s))"
| preview_image: "service_step env s (fst (PreviewWorkloadImage env preview ctx actor rid iinput s))"
| cancel: "service_step env s (fst (CancelOperation env ctx actor rid i s))"
| work: "service_step env s (worker env turns ctx s)"
| get_operation: "service_step env s (fst (svc_GetOperation ctx i s))"
| list_operations: "service_step env s (fst (svc_ListOperations ctx limit s))"
| list_events: "service_step env s (fst (svc_ListAuditEvents ctx limit s))"
| read: "service_step env s (fst (serve_read env (gw :: read_request \<Rightarrow> nat \<Rightarrow> 'gw \<Rightarrow> string result) ctx i rq s))"
| secrets: "service_step env s (fst (Secrets env gwSecrets ctx actor rid i ns s))"
| pod_logs: "service_step env s (fst (PodLogs env (gwLogs :: nat \<Rightarrow> 'gw \<Rightarrow> PodLogRequest \<Rightarrow> string result)
    ctx actor rid i linput s))"
| review_access: "service_step env s (fst (ReviewServiceAccountAccess env gwReview ctx actor rid i ainput s))"
| capabilities: "service_step env s (fst (svc_ClusterCapabilities env gwCaps late ctx i ns s))"
| helm_releases: "service_step env s (fst (ListHelmReleases env
    (helmList :: nat \<Rightarrow> Connection \<Rightarrow> string \<Rightarrow> string result) ctx i ns s))"
| helm_history: "service_step env s (fst (svc_HelmReleaseHistory env
    (gwHistory :: nat \<Rightarrow> 'gw \<Rightarrow> string \<Rightarrow> string \<Rightarrow> string result) ctx i ns rel s))"
| measure_capacity: "service_step env s (fst (svc_OperationCapacity env s))"
| shut_down: "service_step env s (Run_shutdown started s)"

inductive service_path :: "'gw env \<Rightarrow> 'gw Service \<Rightarrow> 'gw Service \<Rightarrow> bool" for env s0 where
  here: "service_path env s0 s0"
| there: "service_path env s0 s \<Longrightarrow> service_step env s t \<Longrightarrow> service_path env s0 t"

context service_frame
begin

lemma keeps_plain_reads:
  "keeps R (svc_ListClusters ctx)" "keeps R (svc_GetCluster ctx i)" "keeps R (svc_ListRepositories ctx)"
  "keeps R (svc_GetOperation ctx i)" "keeps R (svc_ListOperations ctx limit)" "keeps R (svc_ListAuditEvents ctx limit)"
  unfolding svc_ListClusters_def svc_GetCluster_def svc_ListRepositories_def svc_GetOperation_def
    svc_ListOperations_def svc_ListAuditEvents_def
  by (intro rules)+

lemmas handlers = keeps_plain_reads keeps_CreateCluster keeps_TestClusterConnection
  keeps_RotateClusterCredentials keeps_SetClusterEnabled keeps_DeleteCluster keeps_repository_handlers
  keeps_submissions keeps_PreviewWorkloadImage keeps_CancelOperation keeps_serve_read keeps_other_reads
  keeps_ClusterCapabilities

lemma step_kept: "service_step env s t \<Longrightarrow> R s t"
  by (induction rule: service_step.induct)
     (simp_all add: handlers [unfolded keeps_def, rule_format] keeps_worker reconciled stopped)

lemma path_kept: "service_path env s t \<Longrightarrow> R s t"
  by (induction rule: service_path.induct) (blast intro: refl trans step_kept)+

end

section \<open>Reachable states\<close>

lemma service_New_Inr:
  assumes "service_New a b q cs ttl st og rg = Inr s"
  shows "ps_store s = st" "ps_operationGovernor s = og" "ps_readGovernor s = rg"
    "ps_targetLocks s = replicate targetLockStripes False" "cache_idle s"
    "ps_queueCapacity s \<in> {1..128}"
proof -
  from assms obtain c where c: "newGatewayCache (if cs = 0 then defaultGatewayCacheSize else cs)
      (if ttl = 0 then defaultGatewayCacheTTL else ttl) = Inr c" and "ps_gatewayCache s = c"
    by (auto simp: service_New_def Let_def split: if_splits sum.splits)
  moreover have "gc_builds c = []"
    using c by (auto simp: newGatewayCache_def split: if_splits)
  ultimately show "cache_idle s"
    using newGatewayCache_ok(1) [OF c] by (simp add: cache_idle_def conf_ok_def)
  show "ps_store s = st" "ps_operationGovernor s = og" "ps_readGovernor s = rg"
    "ps_targetLocks s = replicate targetLockStripes False" "ps_queueCapacity s \<in> {1..128}"
    using assms by (auto simp: service_New_def Let_def defaultOperationQueueSize_def maxOperationQueueSize_def
        split: if_splits sum.splits)
qed

definition sample_service :: "string Service" where
  "sample_service = \<lparr>ps_store = sample_file, ps_operationGovernor = sample_governor,
     ps_readGovernor = sample_governor, ps_gatewayCache = sample_cache, ps_queue = [],
     ps_queueCapacity = 64, ps_targetLocks = replicate targetLockStripes False,
     ps_operationControls = [], ps_canceled = [], ps_tick = 0, ps_calls = []\<rparr>"

lemma sample_service_New:
  "service_New True True 0 2 minute sample_file sample_governor sample_governor = Inr sample_service"
  using sample_cache_new
  by (simp add: service_New_def sample_service_def Let_def defaultOperationQueueSize_def
      maxOperationQueueSize_def minute_def second_def)

text \<open>An environment in which every call succeeds at once.\<close>

definition sample_env :: "string env" where
  "sample_env = \<lparr>ev_clock = int, ev_newID = (\<lambda>n p. Inr (p @ ''_'' @ itoa (int n))),
     ev_io = (\<lambda>_ _. None), ev_sample = (\<lambda>_. \<lparr>sp_MemoryRatio = None, sp_LoadRatio = None\<rparr>),
     ev_done = (\<lambda>_. ContextCanceled), ev_parse = (\<lambda>_. None), ev_sha256 = id,
     ev_SealString = (\<lambda>_ p a. Inr (p @ ''|'' @ a)), ev_OpenString = (\<lambda>c a. Inr (take (length c - length a - 1) c)),
     ev_Validate = (\<lambda>_ _. None), ev_New = (\<lambda>_ c. (Some (cn_Server c), None)), ev_Check = (\<lambda>_ _. None),
     ev_Execute = (\<lambda>_ _ _. None),
     ev_Probe = (\<lambda>_ _. Inr \<lparr>pb_Version = ''v1.33.0'', pb_NamespaceCount = 1, pb_NodeCount = 1\<rparr>),
     ev_ScaleWorkload = (\<lambda>_ _ _ _ _. None), ev_RestartWorkload = (\<lambda>_ _ _ _ _. None),
     ev_UpdateWorkloadImage = (\<lambda>_ _ _. None)\<rparr>"

section \<open>Properties of the service\<close>

text \<open>
  Whatever requests were served, on every path of every handler and whatever the store, the file
  system, the clusters and the contexts did: no read slot, operation slot or target lock is left
  held, the stored data is well formed, and the client cache is within its bounds with no build
  pending.
\<close>

lemma service_path_ok:
  assumes "service_New allSet idSet queueSize cacheSize ttl file operationGovernor readGovernor = Inr s0"
    and "governor_New oc = Inr operationGovernor" and "cf_MaxConcurrent oc < 2 ^ 63"
    and "governor_New rc = Inr readGovernor" and "cf_MaxConcurrent rc < 2 ^ 63"
    and "store_wf (data file)" and "service_path env s0 s"
  shows "gv_active (ps_readGovernor s) = 0 \<and> gv_active (ps_operationGovernor s) = 0
         \<and> ps_targetLocks s = replicate targetLockStripes False
         \<and> store_wf (data (ps_store s))
         \<and> int (length (gc_entries (ps_gatewayCache s))) \<le> gc_capacity (ps_gatewayCache s)
         \<and> gc_builds (ps_gatewayCache s) = []"
proof -
  note new = service_New_Inr [OF assms(1)]
  have "gov_ok operationGovernor" "gov_ok readGovernor"
    using governor_New_Inr [OF assms(2)] governor_New_Inr [OF assms(4)] assms(3,5) by (auto simp: gov_ok_def)
  then have "resources_ok s0"
    using new by (simp add: resources_ok_def)
  moreover have "balanced s0 s" using assms(7) by (rule resources.path_kept)
  ultimately have "ps_readGovernor s = readGovernor" "ps_operationGovernor s = operationGovernor"
    "ps_targetLocks s = replicate targetLockStripes False"
    using new by (auto simp: balanced_def)
  moreover have "store_ok s"
    using stores.kept.path_kept [OF assms(7)] assms(6) new by (simp add: store_ok_def)
  moreover have "cache_idle s"
    using caches.kept.path_kept [OF assms(7)] new by simp
  ultimately show ?thesis
    using governor_New_Inr(1) [OF assms(2)] governor_New_Inr(1) [OF assms(4)]
    by (simp add: store_ok_def cache_idle_def cache_ok_def)
qed

end
