(* ===== verification/Secure.thy ===== *)
theory Secure
  imports Validation
begin

text \<open>
  Package \<^verbatim>\<open>internal/secure\<close>: unpadded base64 as the standard library defines it, the
  sealed strings of \<^verbatim>\<open>cipher.go\<close>, the identifiers of \<^verbatim>\<open>random.go\<close>
  and the Argon2id password hashes of \<^verbatim>\<open>password.go\<close>. AES-GCM and Argon2 are
  arguments; a read of the system's random source is \<open>None\<close> when it fails.
\<close>

section \<open>Unpadded base64\<close>

definition b64_common :: string where
  "b64_common = ''ABCDEFGHIJKLMNOPQRSTUVWXYZabcdefghijklmnopqrstuvwxyz0123456789''"

definition RawStdEncoding :: string where
  "RawStdEncoding = b64_common @ ''+/''"

definition RawURLEncoding :: string where
  "RawURLEncoding = b64_common @ ''-_''"

fun encode_quanta :: "nat list \<Rightarrow> nat list" where
  "encode_quanta (a # b # c # bs) =
     a div 4 # (a mod 4 * 16 + b div 16) # (b mod 16 * 4 + c div 64) # c mod 64 # encode_quanta bs"
| "encode_quanta [a, b] = [a div 4, a mod 4 * 16 + b div 16, b mod 16 * 4]"
| "encode_quanta [a] = [a div 4, a mod 4 * 16]"
| "encode_quanta [] = []"

text \<open>
  Decoding is not strict: the bits that a last, partial group does not use are ignored, and a
  single digit in it is an error.
\<close>

fun decode_quanta :: "nat list \<Rightarrow> nat list option" where
  "decode_quanta (p # q # r # t # ds) =
     map_option (\<lambda>bs. (p * 4 + q div 16) # (q mod 16 * 16 + r div 4) # (r mod 4 * 64 + t) # bs)
       (decode_quanta ds)"
| "decode_quanta [p, q, r] = Some [p * 4 + q div 16, q mod 16 * 16 + r div 4]"
| "decode_quanta [p, q] = Some [p * 4 + q div 16]"
| "decode_quanta [p] = None"
| "decode_quanta [] = Some []"

definition EncodeToString :: "string \<Rightarrow> string \<Rightarrow> string" where
  "EncodeToString alphabet src = map ((!) alphabet) (encode_quanta (map of_char src))"

definition digit_index :: "string \<Rightarrow> char \<Rightarrow> nat option" where
  "digit_index alphabet c = find_index id c alphabet"

text \<open>Line breaks inside the input are skipped.\<close>

definition DecodeString :: "string \<Rightarrow> string \<Rightarrow> string option" where
  "DecodeString alphabet s =
     (let digits = map (digit_index alphabet) (filter (\<lambda>c. c \<notin> {CHR 0x0A, CHR 0x0D}) s)
      in if None \<in> set digits then None
         else map_option (map char_of) (decode_quanta (map the digits)))"

lemma decode_encode_quanta:
  "\<forall>b \<in> set bs. b < 256 \<Longrightarrow> decode_quanta (encode_quanta bs) = Some bs"
  by (induction bs rule: encode_quanta.induct) auto

lemma encode_quanta_digits:
  "\<forall>b \<in> set bs. b < 256 \<Longrightarrow> d \<in> set (encode_quanta bs) \<Longrightarrow> d < 64"
  by (induction bs rule: encode_quanta.induct) auto

lemma length_encode_quanta: "length (encode_quanta bs) = (length bs * 4 + 2) div 3"
  by (induction bs rule: encode_quanta.induct) auto

definition b64_alphabet :: "string \<Rightarrow> bool" where
  "b64_alphabet alphabet \<longleftrightarrow>
     length alphabet = 64 \<and> distinct alphabet \<and> CHR 0x0A \<notin> set alphabet \<and> CHR 0x0D \<notin> set alphabet"

lemma alphabets: "b64_alphabet RawStdEncoding" "b64_alphabet RawURLEncoding"
  by code_simp+

lemma find_index_nth_distinct: "distinct xs \<Longrightarrow> n < length xs \<Longrightarrow> find_index id (xs ! n) xs = Some n"
proof (induction xs arbitrary: n)
  case (Cons x xs)
  then show ?case by (cases n) (auto simp: nth_mem)
qed simp

lemma EncodeToString_subset: "b64_alphabet alphabet \<Longrightarrow> set (EncodeToString alphabet src) \<subseteq> set alphabet"
proof -
  assume ok: "b64_alphabet alphabet"
  have "\<forall>b \<in> set (map of_char src). b < (256 :: nat)" by auto
  from encode_quanta_digits [OF this] show ?thesis
    using ok by (auto simp: EncodeToString_def b64_alphabet_def)
qed

lemma DecodeString_EncodeToString:
  assumes "b64_alphabet alphabet"
  shows "DecodeString alphabet (EncodeToString alphabet src) = Some src"
proof -
  let ?bs = "map of_char src :: nat list"
  have small: "\<forall>b \<in> set ?bs. b < 256" by auto
  have "filter (\<lambda>c. c \<notin> {CHR 0x0A, CHR 0x0D}) (EncodeToString alphabet src) = EncodeToString alphabet src"
    using EncodeToString_subset [OF assms, of src] assms
    by (intro filter_True) (auto simp: b64_alphabet_def)
  moreover have "map (digit_index alphabet) (EncodeToString alphabet src) = map Some (encode_quanta ?bs)"
    using encode_quanta_digits [OF small] assms
    by (auto simp: EncodeToString_def digit_index_def b64_alphabet_def find_index_nth_distinct)
  ultimately show ?thesis
    using decode_encode_quanta [OF small] by (auto simp: DecodeString_def o_def)
qed

section \<open>Sealed strings\<close>

definition ciphertextVersion :: string where
  "ciphertextVersion = ''v1.''"

text \<open>\<^verbatim>\<open>cipher.AEAD\<close>: nonce, text and associated data of each call.\<close>

record AEAD =
  ae_NonceSize :: nat
  ae_Seal :: "string \<Rightarrow> string \<Rightarrow> string \<Rightarrow> string"
  ae_Open :: "string \<Rightarrow> string \<Rightarrow> string \<Rightarrow> string option"

definition NewCipher :: "(string \<Rightarrow> 'b result) \<Rightarrow> ('b \<Rightarrow> AEAD result) \<Rightarrow> string \<Rightarrow> AEAD result" where
  "NewCipher aesNewCipher newGCM key =
     (if length key \<noteq> 32 then Inl (NewError ''encryption key must be exactly 32 bytes'')
      else case aesNewCipher key of
          Inl e \<Rightarrow> Inl (Wrapped ''create AES cipher'' e)
        | Inr block \<Rightarrow>
            (case newGCM block of Inl e \<Rightarrow> Inl (Wrapped ''create GCM'' e) | Inr aead \<Rightarrow> Inr aead))"

text \<open>The random source fills a buffer of the given length.\<close>

type_synonym random_source = "nat \<Rightarrow> string option"

definition fills :: "random_source \<Rightarrow> bool" where
  "fills random \<longleftrightarrow> (\<forall>n. case random n of Some bs \<Rightarrow> length bs = n | None \<Rightarrow> True)"

definition cipher_SealString :: "AEAD \<Rightarrow> random_source \<Rightarrow> string \<Rightarrow> string \<Rightarrow> string result" where
  "cipher_SealString c random plaintext associatedData =
     (case random (ae_NonceSize c) of
        None \<Rightarrow> Inl (Wrapped ''create encryption nonce'' (NewError ''random source failed''))
      | Some nonce \<Rightarrow>
          Inr (ciphertextVersion
               @ EncodeToString RawURLEncoding (nonce @ ae_Seal c nonce plaintext associatedData)))"

definition cipher_OpenString :: "AEAD \<Rightarrow> string \<Rightarrow> string \<Rightarrow> string result" where
  "cipher_OpenString c encoded associatedData =
     (if \<not> has_prefix encoded ciphertextVersion then Inl (NewError ''unsupported ciphertext version'')
      else case DecodeString RawURLEncoding (drop (length ciphertextVersion) encoded) of
          None \<Rightarrow> Inl (NewError ''invalid ciphertext encoding'')
        | Some payload \<Rightarrow>
            if length payload \<le> ae_NonceSize c then Inl (NewError ''invalid ciphertext length'')
            else case ae_Open c (take (ae_NonceSize c) payload) (drop (ae_NonceSize c) payload)
                        associatedData of
                None \<Rightarrow> Inl (NewError ''ciphertext authentication failed'')
              | Some plaintext \<Rightarrow> Inr plaintext)"

text \<open>
  What \<^verbatim>\<open>crypto/cipher\<close> documents of an AEAD: \<^verbatim>\<open>Open\<close> inverts
  \<^verbatim>\<open>Seal\<close> under the same nonce and associated data, and the sealed text carries a tag.
\<close>

definition aead_inverts :: "AEAD \<Rightarrow> bool" where
  "aead_inverts c \<longleftrightarrow>
     (\<forall>nonce p a. length nonce = ae_NonceSize c \<longrightarrow>
        ae_Open c nonce (ae_Seal c nonce p a) a = Some p \<and> ae_Seal c nonce p a \<noteq> [])"

lemma has_prefix_append [go_string]: "has_prefix (p @ s) p"
  by (simp add: has_prefix_def)

lemma OpenString_of_payload:
  assumes "length nonce = ae_NonceSize c" and "text \<noteq> []"
  shows "cipher_OpenString c (ciphertextVersion @ EncodeToString RawURLEncoding (nonce @ text)) a =
    (case ae_Open c nonce text a of
       None \<Rightarrow> Inl (NewError ''ciphertext authentication failed'') | Some p \<Rightarrow> Inr p)"
  using assms
  by (simp add: cipher_OpenString_def has_prefix_append DecodeString_EncodeToString alphabets)

lemma OpenString_SealString:
  assumes "aead_inverts c" and "fills random" and "cipher_SealString c random p a = Inr encoded"
  shows "cipher_OpenString c encoded a = Inr p"
proof -
  from assms(3) obtain nonce where n: "random (ae_NonceSize c) = Some nonce"
    and e: "encoded = ciphertextVersion @ EncodeToString RawURLEncoding (nonce @ ae_Seal c nonce p a)"
    by (auto simp: cipher_SealString_def split: option.splits)
  have "length nonce = ae_NonceSize c"
    using assms(2) n by (auto simp: fills_def dest: spec [of _ "ae_NonceSize c"])
  then show ?thesis
    using assms(1) e by (simp add: OpenString_of_payload aead_inverts_def)
qed

section \<open>Identifiers\<close>

definition RandomID :: "random_source \<Rightarrow> string \<Rightarrow> string result" where
  "RandomID random pre =
     (case random 18 of
        None \<Rightarrow> Inl (Wrapped ''create random ID'' (NewError ''random source failed''))
      | Some bs \<Rightarrow> Inr (pre @ ''_'' @ EncodeToString RawURLEncoding bs))"

section \<open>Password hashes\<close>

record PasswordParams =
  pp_MemoryKiB :: nat
  pp_Iterations :: nat
  pp_Parallelism :: nat
  pp_SaltLength :: nat
  pp_KeyLength :: nat

definition DefaultPasswordParams :: PasswordParams where
  "DefaultPasswordParams =
     \<lparr>pp_MemoryKiB = 64 * 1024, pp_Iterations = 3, pp_Parallelism = 2, pp_SaltLength = 16,
      pp_KeyLength = 32\<rparr>"

definition validatePasswordParams :: "PasswordParams \<Rightarrow> go_error option" where
  "validatePasswordParams params =
     (if pp_MemoryKiB params < 8 * 1024 \<or> pp_MemoryKiB params > 1024 * 1024
      then Some (NewError ''argon2 memory must be between 8 MiB and 1 GiB'')
      else if pp_Iterations params < 1 \<or> pp_Iterations params > 10
      then Some (NewError ''argon2 iterations must be between 1 and 10'')
      else if pp_Parallelism params < 1 \<or> pp_Parallelism params > 16
      then Some (NewError ''argon2 parallelism must be between 1 and 16'')
      else if pp_SaltLength params < 16 \<or> pp_SaltLength params > 64
            \<or> pp_KeyLength params < 16 \<or> pp_KeyLength params > 64
      then Some (NewError ''argon2 salt and key lengths must be between 16 and 64 bytes'')
      else None)"

text \<open>
  \<^verbatim>\<open>argon2.IDKey\<close> by password, salt, iterations, memory, parallelism and key length.
\<close>

type_synonym argon2 = "string \<Rightarrow> string \<Rightarrow> nat \<Rightarrow> nat \<Rightarrow> nat \<Rightarrow> nat \<Rightarrow> string"

definition Hash :: "argon2 \<Rightarrow> random_source \<Rightarrow> PasswordParams \<Rightarrow> string \<Rightarrow> string result" where
  "Hash idKey random params password =
     (case validatePasswordParams params of
        Some e \<Rightarrow> Inl e
      | None \<Rightarrow>
          if password = [] then Inl (NewError ''password must not be empty'')
          else case random (pp_SaltLength params) of
              None \<Rightarrow> Inl (Wrapped ''create password salt'' (NewError ''random source failed''))
            | Some salt \<Rightarrow>
                (let hash = idKey password salt (pp_Iterations params) (pp_MemoryKiB params)
                              (pp_Parallelism params) (pp_KeyLength params)
                 in Inr (''$argon2id$v=19$m='' @ itoa (int (pp_MemoryKiB params))
                      @ '',t='' @ itoa (int (pp_Iterations params))
                      @ '',p='' @ itoa (int (pp_Parallelism params))
                      @ ''$'' @ EncodeToString RawStdEncoding salt
                      @ ''$'' @ EncodeToString RawStdEncoding hash)))"

text \<open>
  \<^verbatim>\<open>fmt.Sscanf\<close> with literals and \<^verbatim>\<open>%d\<close> into a \<^verbatim>\<open>uint32\<close>:
  white space before the number is skipped, but not a line break, and the number must fit. What
  follows the last number is not read.
\<close>

definition scan_space :: "string \<Rightarrow> string option" where
  "scan_space s =
     (let rest = dropWhile (\<lambda>(r, w). is_space r \<and> r \<noteq> 10) (rune_segs s)
      in case rest of (r, w) # _ \<Rightarrow> if r = 10 then None else Some (concat (map snd rest)) | [] \<Rightarrow> Some [])"

definition scan_literal :: "string \<Rightarrow> string \<Rightarrow> string option" where
  "scan_literal lit s = (if has_prefix s lit then Some (drop (length lit) s) else None)"

definition scan_uint32 :: "string \<Rightarrow> (nat \<times> string) option" where
  "scan_uint32 s =
     (case scan_space s of
        None \<Rightarrow> None
      | Some s \<Rightarrow>
          (let ds = takeWhile decimal_digit s
           in if ds = [] \<or> digits_value ds \<ge> 2 ^ 32 then None
              else Some (digits_value ds, dropWhile decimal_digit s)))"

definition scan_parameters :: "string \<Rightarrow> (nat \<times> nat \<times> nat) option" where
  "scan_parameters s =
     Option.bind (scan_literal ''m='' s) (\<lambda>s.
     Option.bind (scan_uint32 s) (\<lambda>(m, s).
     Option.bind (scan_literal '',t='' s) (\<lambda>s.
     Option.bind (scan_uint32 s) (\<lambda>(t, s).
     Option.bind (scan_literal '',p='' s) (\<lambda>s.
     Option.bind (scan_uint32 s) (\<lambda>(p, s). Some (m, t, p)))))))"

definition Verify :: "argon2 \<Rightarrow> string \<Rightarrow> string \<Rightarrow> bool result" where
  "Verify idKey encoded password =
     (let parts = split_char CHR ''$'' encoded in
      if length parts \<noteq> 6 \<or> parts ! 1 \<noteq> ''argon2id'' \<or> parts ! 2 \<noteq> ''v=19''
      then Inl (NewError ''invalid password hash format'')
      else case scan_parameters (parts ! 3) of
          None \<Rightarrow> Inl (NewError ''invalid password hash parameters'')
        | Some (m, t, p) \<Rightarrow>
            if p > 255 then Inl (NewError ''invalid password hash parameters'')
            else case DecodeString RawStdEncoding (parts ! 4) of
                None \<Rightarrow> Inl (NewError ''invalid password hash salt'')
              | Some salt \<Rightarrow>
                  (case DecodeString RawStdEncoding (parts ! 5) of
                     None \<Rightarrow> Inl (NewError ''invalid password hash value'')
                   | Some want \<Rightarrow>
                       if want = [] then Inl (NewError ''invalid password hash value'')
                       else
                         (let params = \<lparr>pp_MemoryKiB = m, pp_Iterations = t, pp_Parallelism = p,
                                pp_SaltLength = length salt mod 2 ^ 32,
                                pp_KeyLength = length want mod 2 ^ 32\<rparr>
                          in case validatePasswordParams params of
                               Some e \<Rightarrow> Inl e
                             | None \<Rightarrow> Inr (idKey password salt t m p (pp_KeyLength params) = want))))"

lemma decimal_digit_ascii: "decimal_digit c \<Longrightarrow> ascii c" "decimal_digit c \<Longrightarrow> \<not> is_space (of_char c)" "decimal_digit c \<Longrightarrow> of_char c \<noteq> (10 :: nat)"
  by (auto simp: decimal_digit_def ascii_def is_space_def)

lemma scan_space_digit: "decimal_digit c \<Longrightarrow> scan_space (c # s) = Some (c # s)"
  using decimal_digit_ascii [of c] concat_rune_segs [of s]
  by (simp add: scan_space_def rune_segs_ascii_Cons)

lemma scan_uint32_itoa:
  assumes "n < 2 ^ 32" and "\<And>c cs. rest = c # cs \<Longrightarrow> \<not> decimal_digit c"
  shows "scan_uint32 (itoa (int n) @ rest) = Some (n, rest)"
proof -
  obtain d ds where ds: "digits_of n = d # ds" and all: "list_all decimal_digit (d # ds)"
    using digits_of_digits [of n] by (cases "digits_of n") auto
  have "takeWhile decimal_digit (digits_of n @ rest) = digits_of n" "dropWhile decimal_digit (digits_of n @ rest) = rest"
    using digits_of_digits [of n] assms(2)
    by (cases rest; auto simp: list_all_iff takeWhile_append2 dropWhile_append2)+
  moreover have "scan_space (digits_of n @ rest) = Some (digits_of n @ rest)"
    using ds all by (simp add: scan_space_digit)
  ultimately show ?thesis
    using assms(1) ds digits_value_digits_of [of n] by (simp add: scan_uint32_def itoa_def)
qed

lemma scan_literal_append: "scan_literal lit (lit @ s) = Some s"
  by (simp add: scan_literal_def has_prefix_append)

lemma split_char_first: "d \<notin> set w \<Longrightarrow> split_char d (w @ d # s) = w # split_char d s"
  by (induction w) auto

lemma split_char_single: "d \<notin> set w \<Longrightarrow> split_char d w = [w]"
  by (induction w) auto

definition printed_parameters :: "PasswordParams \<Rightarrow> string" where
  "printed_parameters params =
     ''m='' @ itoa (int (pp_MemoryKiB params)) @ '',t='' @ itoa (int (pp_Iterations params))
     @ '',p='' @ itoa (int (pp_Parallelism params))"

lemma scan_printed_parameters:
  assumes "validatePasswordParams params = None"
  shows "scan_parameters (printed_parameters params) =
    Some (pp_MemoryKiB params, pp_Iterations params, pp_Parallelism params)"
proof -
  have small: "pp_MemoryKiB params < 2 ^ 32" "pp_Iterations params < 2 ^ 32" "pp_Parallelism params < 2 ^ 32"
    using assms by (auto simp: validatePasswordParams_def split: if_splits)
  have "scan_uint32 (itoa (int (pp_MemoryKiB params)) @ '',t='' @ s) = Some (pp_MemoryKiB params, '',t='' @ s)"
    and "scan_uint32 (itoa (int (pp_Iterations params)) @ '',p='' @ s) = Some (pp_Iterations params, '',p='' @ s)" for s
    by (rule scan_uint32_itoa [OF small(1)] scan_uint32_itoa [OF small(2)]; auto simp: decimal_digit_def)+
  then show ?thesis
    using scan_uint32_itoa [OF small(3), of "[]"]
    by (simp only: scan_parameters_def printed_parameters_def scan_literal_append append_Nil2
        Option.bind.bind_lunit prod.case) simp
qed

lemma printed_parameters_no_dollar: "CHR ''$'' \<notin> set (printed_parameters params)"
proof -
  have "CHR ''$'' \<notin> set (digits_of n)" for n
    using digits_of_digits [of n] by (auto simp: list_all_iff decimal_digit_def)
  then show ?thesis by (simp add: printed_parameters_def itoa_def)
qed

lemma EncodeToString_no_dollar: "CHR ''$'' \<notin> set (EncodeToString RawStdEncoding bs)"
proof -
  have "CHR ''$'' \<notin> set RawStdEncoding" by code_simp
  then show ?thesis using EncodeToString_subset [OF alphabets(1)] by blast
qed

lemma Hash_Inr:
  assumes "Hash idKey random params password = Inr encoded"
  obtains salt where "validatePasswordParams params = None" and "random (pp_SaltLength params) = Some salt"
    and "split_char CHR ''$'' encoded = [[], ''argon2id'', ''v=19'', printed_parameters params,
      EncodeToString RawStdEncoding salt,
      EncodeToString RawStdEncoding (idKey password salt (pp_Iterations params) (pp_MemoryKiB params)
        (pp_Parallelism params) (pp_KeyLength params))]"
proof -
  from assms obtain salt where 1: "validatePasswordParams params = None" "random (pp_SaltLength params) = Some salt"
    and e: "encoded = [] @ CHR ''$'' # (''argon2id'' @ CHR ''$'' # (''v=19'' @ CHR ''$'' # (printed_parameters params
      @ CHR ''$'' # (EncodeToString RawStdEncoding salt @ CHR ''$'' #
        EncodeToString RawStdEncoding (idKey password salt (pp_Iterations params) (pp_MemoryKiB params)
          (pp_Parallelism params) (pp_KeyLength params))))))"
    by (auto simp: Hash_def printed_parameters_def Let_def split: option.splits if_splits)
  have no: "CHR ''$'' \<notin> set []" "CHR ''$'' \<notin> set ''argon2id''" "CHR ''$'' \<notin> set ''v=19''" by simp_all
  show ?thesis
    by (rule that [OF 1])
       (simp only: e split_char_first [OF no(1)] split_char_first [OF no(2)] split_char_first [OF no(3)]
          split_char_first printed_parameters_no_dollar EncodeToString_no_dollar split_char_single not_False_eq_True)
qed

lemma Verify_Hash:
  assumes "Hash idKey random params password = Inr encoded" and "fills random"
    and "\<And>pw salt t m p k. length (idKey pw salt t m p k) = k"
  shows "\<exists>salt. random (pp_SaltLength params) = Some salt \<and>
    Verify idKey encoded password = Inr True \<and>
    (\<forall>other. Verify idKey encoded other =
       Inr (idKey other salt (pp_Iterations params) (pp_MemoryKiB params) (pp_Parallelism params) (pp_KeyLength params)
          = idKey password salt (pp_Iterations params) (pp_MemoryKiB params) (pp_Parallelism params)
              (pp_KeyLength params)))"
proof -
  from assms(1) obtain salt where valid: "validatePasswordParams params = None"
    and salt: "random (pp_SaltLength params) = Some salt"
    and parts: "split_char CHR ''$'' encoded = [[], ''argon2id'', ''v=19'', printed_parameters params,
      EncodeToString RawStdEncoding salt,
      EncodeToString RawStdEncoding (idKey password salt (pp_Iterations params) (pp_MemoryKiB params)
        (pp_Parallelism params) (pp_KeyLength params))]"
    by (rule Hash_Inr)
  have len: "length salt = pp_SaltLength params"
    using assms(2) salt by (auto simp: fills_def dest: spec [of _ "pp_SaltLength params"])
  have bounds: "pp_Parallelism params \<le> 255" "0 < pp_KeyLength params" "pp_KeyLength params < 2 ^ 32"
    "pp_SaltLength params < 2 ^ 32"
    using valid by (auto simp: validatePasswordParams_def split: if_splits)
  have "idKey pw salt t m p (pp_KeyLength params) \<noteq> []" for pw t m p
    using assms(3) [of pw salt t m p "pp_KeyLength params"] bounds by auto
  moreover have "validatePasswordParams \<lparr>pp_MemoryKiB = pp_MemoryKiB params, pp_Iterations = pp_Iterations params,
      pp_Parallelism = pp_Parallelism params, pp_SaltLength = pp_SaltLength params, pp_KeyLength = pp_KeyLength params\<rparr> = None"
    using valid by (cases params) simp
  ultimately show ?thesis
    using valid salt len bounds assms(3)
    by (simp add: Verify_def Let_def parts scan_printed_parameters DecodeString_EncodeToString alphabets)
qed

section \<open>Properties\<close>

text \<open>
  (C40) A string sealed with its associated data opens to the same string, whatever the nonce, the
  string and the associated data, provided the AEAD inverts itself.
\<close>

theorem sealed_string_opens:
  assumes "aead_inverts c" and "fills random" and "cipher_SealString c random plaintext aad = Inr encoded"
  shows "has_prefix encoded ''v1.'' \<and> cipher_OpenString c encoded aad = Inr plaintext"
proof -
  have "has_prefix encoded ''v1.''"
    using assms(3) has_prefix_append [of ciphertextVersion]
    by (auto simp: cipher_SealString_def ciphertextVersion_def split: option.splits)
  then show ?thesis using OpenString_SealString [OF assms] by simp
qed

text \<open>An AEAD whose sealed text is the plaintext behind a tag of the associated data's length.\<close>

definition sample_aead :: AEAD where
  "sample_aead =
     \<lparr>ae_NonceSize = 12, ae_Seal = (\<lambda>nonce p a. CHR ''#'' # a @ p),
      ae_Open = (\<lambda>nonce c a. if take (length a + 1) c = CHR ''#'' # a then Some (drop (length a + 1) c) else None)\<rparr>"

definition sample_random :: random_source where
  "sample_random n = Some (replicate n CHR 0x07)"

lemma sample_secure: "aead_inverts sample_aead" "fills sample_random"
  by (simp_all add: aead_inverts_def sample_aead_def fills_def sample_random_def)

theorem sealed_string_opens_witness:
  "cipher_OpenString sample_aead
     (ciphertextVersion @ EncodeToString RawURLEncoding (replicate 12 CHR 0x07 @ ''#aadsecret'')) ''aad''
   = Inr ''secret''"
  using sealed_string_opens [OF sample_secure, of "''secret''" "''aad''"]
  by (simp add: cipher_SealString_def sample_random_def sample_aead_def)

text \<open>
  An identifier made for an operation carries its 18 random bytes, and the validation that
  guards the operation's URL accepts it.
\<close>

theorem RandomID_is_valid_operation:
  assumes "fills random" and "RandomID random ''op'' = Inr i"
  shows "ValidateOperationID i = None \<and> DecodeString RawURLEncoding (drop 3 i) = random 18 \<and> length i = 27"
proof -
  from assms(2) obtain bs where bs: "random 18 = Some bs" and i: "i = ''op_'' @ EncodeToString RawURLEncoding bs"
    by (auto simp: RandomID_def split: option.splits)
  have "length bs = 18" using assms(1) bs by (auto simp: fills_def dest: spec [of _ 18])
  then have len: "length (EncodeToString RawURLEncoding bs) = 24"
    by (simp add: EncodeToString_def length_encode_quanta)
  have "list_all (\<lambda>c. alnum c \<or> c \<in> {CHR ''.'', CHR ''_'', CHR ''-''}) RawURLEncoding"
    by code_simp
  then have "list_all (\<lambda>c. alnum c \<or> c \<in> {CHR ''.'', CHR ''_'', CHR ''-''}) (EncodeToString RawURLEncoding bs)"
    using EncodeToString_subset [OF alphabets(2)] unfolding list_all_iff by blast
  moreover have "alnum CHR ''o''" "alnum CHR ''p''" by code_simp+
  ultimately have "MatchString resourceNamePattern i"
    using len i by (simp add: MatchString_resourceNamePattern)
  moreover have "has_prefix i ''op_''" using i by (simp add: has_prefix_def)
  ultimately show ?thesis
    using i len bs DecodeString_EncodeToString [OF alphabets(2), of bs]
    by (simp add: ValidateOperationID_def del: MatchString.simps)
qed

theorem RandomID_is_valid_operation_witness:
  "ValidateOperationID (''op_'' @ EncodeToString RawURLEncoding (replicate 18 CHR 0x07)) = None"
  using RandomID_is_valid_operation [OF sample_secure(2)]
  by (simp add: RandomID_def sample_random_def)

definition sample_argon2 :: argon2 where
  "sample_argon2 pw salt t m p k = replicate k (if pw = ''correct horse'' then CHR ''a'' else CHR ''b'')"

end
