(* ===== verification/Auth.thy ===== *)
theory Auth
  imports Secure "HOL-Library.AList"
begin

text \<open>
  Sessions (\<^verbatim>\<open>internal/auth/session.go\<close>) and the limiter of failed logins
  (\<^verbatim>\<open>internal/httpapi/rate_limit.go\<close>). The session table is refined against the
  history of logins and logouts; the limiter is related to the failures that happened.
\<close>

section \<open>Sessions\<close>

record Principal =
  pr_Username :: string
  pr_Role :: string
  pr_ExpiresAt :: gtime

record SessionManager =
  sm_username :: string
  sm_passwordHash :: string
  sm_ttl :: duration
  sm_sessions :: "string \<rightharpoonup> Principal"

text \<open>The argument \<open>verifierSet\<close> says whether a verifier was given.\<close>

definition NewSessionManager :: "string \<Rightarrow> string \<Rightarrow> duration \<Rightarrow> bool \<Rightarrow> SessionManager result" where
  "NewSessionManager username passwordHash ttl verifierSet =
     (if trim_space username = [] then Inl (NewError ''admin username must not be empty'')
      else if \<not> has_prefix passwordHash ''$argon2id$''
      then Inl (NewError ''admin password hash must use Argon2id'')
      else if ttl \<le> 0 \<or> ttl > 24 * hour
      then Inl (NewError ''session TTL must be between zero and 24 hours'')
      else if \<not> verifierSet then Inl (NewError ''password verifier is required'')
      else Inr \<lparr>sm_username = username, sm_passwordHash = passwordHash, sm_ttl = ttl,
                sm_sessions = Map.empty\<rparr>)"

definition removeExpiredLocked :: "gtime \<Rightarrow> SessionManager \<Rightarrow> SessionManager" where
  "removeExpiredLocked now m =
     m\<lparr>sm_sessions := (\<lambda>digest. case sm_sessions m digest of
           None \<Rightarrow> None
         | Some who \<Rightarrow> if \<not> now < pr_ExpiresAt who then None else Some who)\<rparr>"

text \<open>
  \<open>expiryClock\<close> is the clock before the lock is taken, \<open>now\<close> the clock under the lock;
  other calls may run in between.
\<close>

definition Login ::
  "(string \<Rightarrow> string \<Rightarrow> bool result) \<Rightarrow> (string \<Rightarrow> string) \<Rightarrow> random_source \<Rightarrow> gtime \<Rightarrow> gtime \<Rightarrow>
     string \<Rightarrow> string \<Rightarrow> SessionManager \<Rightarrow> SessionManager \<times> (string \<times> Principal) result" where
  "Login verify sha256 random expiryClock now username password m =
     (case verify (sm_passwordHash m) password of
        Inl e \<Rightarrow> (m, Inl (Wrapped ''verify configured password hash'' e))
      | Inr matched \<Rightarrow>
          if username \<noteq> sm_username m \<or> \<not> matched then (m, Inl ErrUnauthorized)
          else case random 32 of
              None \<Rightarrow> (m, Inl (Wrapped ''create session token'' (NewError ''random source failed'')))
            | Some rawToken \<Rightarrow>
                (let token = EncodeToString RawURLEncoding rawToken;
                     who = \<lparr>pr_Username = sm_username m, pr_Role = ''system-admin'',
                                  pr_ExpiresAt = expiryClock + sm_ttl m\<rparr>;
                     m = removeExpiredLocked now m
                 in (m\<lparr>sm_sessions := (sm_sessions m)(sha256 token \<mapsto> who)\<rparr>,
                     Inr (token, who))))"

definition Authenticate ::
  "(string \<Rightarrow> string) \<Rightarrow> gtime \<Rightarrow> string \<Rightarrow> SessionManager \<Rightarrow> SessionManager \<times> Principal result" where
  "Authenticate sha256 now token m =
     (if token = [] then (m, Inl ErrUnauthorized)
      else case sm_sessions m (sha256 token) of
          None \<Rightarrow> (m, Inl ErrUnauthorized)
        | Some who \<Rightarrow>
            if \<not> now < pr_ExpiresAt who
            then (m\<lparr>sm_sessions := (sm_sessions m)(sha256 token := None)\<rparr>, Inl ErrUnauthorized)
            else (m, Inr who))"

definition Logout :: "(string \<Rightarrow> string) \<Rightarrow> string \<Rightarrow> SessionManager \<Rightarrow> SessionManager" where
  "Logout sha256 token m = m\<lparr>sm_sessions := (sm_sessions m)(sha256 token := None)\<rparr>"

section \<open>The session table against its history\<close>

datatype session_event = LoggedIn string Principal | LoggedOut string

text \<open>Who is logged in, from the history alone, newest event first.\<close>

fun session_of :: "(string \<Rightarrow> string) \<Rightarrow> session_event list \<Rightarrow> string \<Rightarrow> Principal option" where
  "session_of sha256 [] token = None"
| "session_of sha256 (LoggedIn t p # log) token =
     (if sha256 t = sha256 token then Some p else session_of sha256 log token)"
| "session_of sha256 (LoggedOut t # log) token =
     (if sha256 t = sha256 token then None else session_of sha256 log token)"

text \<open>
  Calls of the session manager in the order of their critical sections, with the clock read there;
  the clock does not go backwards.
\<close>

inductive session_path ::
  "(string \<Rightarrow> string \<Rightarrow> bool result) \<Rightarrow> (string \<Rightarrow> string) \<Rightarrow> SessionManager \<Rightarrow> gtime \<Rightarrow> session_event list \<Rightarrow>
     SessionManager \<Rightarrow> bool" for verify sha256 m0 where
  init: "session_path verify sha256 m0 now [] m0"
| login: "session_path verify sha256 m0 t log m \<Longrightarrow> t \<le> now \<Longrightarrow>
    Login verify sha256 random before now username password m = (m', Inr (token, p)) \<Longrightarrow>
    session_path verify sha256 m0 now (LoggedIn token p # log) m'"
| refused: "session_path verify sha256 m0 t log m \<Longrightarrow> t \<le> now \<Longrightarrow>
    Login verify sha256 random before now username password m = (m', Inl e) \<Longrightarrow>
    session_path verify sha256 m0 now log m'"
| authenticate: "session_path verify sha256 m0 t log m \<Longrightarrow> t \<le> now \<Longrightarrow>
    session_path verify sha256 m0 now log (fst (Authenticate sha256 now token m))"
| logout: "session_path verify sha256 m0 t log m \<Longrightarrow> t \<le> now \<Longrightarrow>
    session_path verify sha256 m0 now (LoggedOut token # log) (Logout sha256 token m)"

text \<open>The table holds the sessions of the history, except for some that have expired.\<close>

definition table_ok :: "(string \<Rightarrow> string) \<Rightarrow> gtime \<Rightarrow> session_event list \<Rightarrow> SessionManager \<Rightarrow> bool" where
  "table_ok sha256 now log m \<longleftrightarrow>
     (\<forall>token. sm_sessions m (sha256 token) = session_of sha256 log token
        \<or> (sm_sessions m (sha256 token) = None
            \<and> (\<exists>p. session_of sha256 log token = Some p \<and> pr_ExpiresAt p \<le> now)))"

lemma table_ok_later: "table_ok sha256 t log m \<Longrightarrow> t \<le> now \<Longrightarrow> table_ok sha256 now log m"
  unfolding table_ok_def by (meson order_trans)

lemma removeExpired_ok:
  assumes "table_ok sha256 now log m"
  shows "table_ok sha256 now log (removeExpiredLocked now m)"
  unfolding table_ok_def
proof
  fix token
  show "sm_sessions (removeExpiredLocked now m) (sha256 token) = session_of sha256 log token
    \<or> (sm_sessions (removeExpiredLocked now m) (sha256 token) = None
        \<and> (\<exists>p. session_of sha256 log token = Some p \<and> pr_ExpiresAt p \<le> now))"
    using assms [unfolded table_ok_def, rule_format, of token]
    by (cases "sm_sessions m (sha256 token)"; cases "session_of sha256 log token")
       (auto simp: removeExpiredLocked_def)
qed

lemma Login_Inr:
  assumes "Login verify sha256 random before now username password m = (m', Inr (token, p))"
  shows "m' = (removeExpiredLocked now m)\<lparr>sm_sessions :=
           (sm_sessions (removeExpiredLocked now m))(sha256 token \<mapsto> p)\<rparr>"
    and "username = sm_username m" and "verify (sm_passwordHash m) password = Inr True"
    and "p = \<lparr>pr_Username = sm_username m, pr_Role = ''system-admin'', pr_ExpiresAt = before + sm_ttl m\<rparr>"
    and "\<exists>raw. random 32 = Some raw \<and> token = EncodeToString RawURLEncoding raw"
  using assms by (auto simp: Login_def Let_def split: sum.splits if_splits option.splits)

lemma Login_Inl: "Login verify sha256 random before now username password m = (m', Inl e) \<Longrightarrow> m' = m"
  by (auto simp: Login_def Let_def split: sum.splits if_splits option.splits)

lemma Authenticate_ok:
  assumes "table_ok sha256 now log m"
  shows "table_ok sha256 now log (fst (Authenticate sha256 now token m))"
proof (cases "sm_sessions m (sha256 token)")
  case None
  then show ?thesis using assms by (simp add: Authenticate_def)
next
  case (Some p)
  have "session_of sha256 log t = Some p" if "sha256 t = sha256 token" for t
    using assms [unfolded table_ok_def, rule_format, of t] that Some by auto
  then show ?thesis
    using assms Some by (auto simp: Authenticate_def table_ok_def)
qed

lemma session_path_ok:
  assumes "session_path verify sha256 m0 now log m" and "sm_sessions m0 = Map.empty"
  shows "table_ok sha256 now log m"
  using assms
proof (induction rule: session_path.induct)
  case (init now)
  then show ?case by (simp add: table_ok_def)
next
  case (login t log m now random before username password m' token p)
  then have "table_ok sha256 now log (removeExpiredLocked now m)"
    using removeExpired_ok table_ok_later by blast
  then show ?case
    using Login_Inr(1) [OF login.hyps(3)] by (auto simp: table_ok_def)
next
  case (refused t log m now random before username password m' e)
  then show ?case using Login_Inl table_ok_later by metis
next
  case (authenticate t log m now token)
  then show ?case using Authenticate_ok table_ok_later by blast
next
  case (logout t log m now token)
  then have "table_ok sha256 now log m" using table_ok_later by blast
  then show ?case by (auto simp: table_ok_def Logout_def)
qed

lemma Authenticate_history:
  assumes "NewSessionManager username passwordHash ttl verifierSet = Inr m0"
    and "session_path verify sha256 m0 t log m" and "t \<le> now" and "token \<noteq> []"
  shows "snd (Authenticate sha256 now token m) =
    (case session_of sha256 log token of
       Some p \<Rightarrow> if now < pr_ExpiresAt p then Inr p else Inl ErrUnauthorized
     | None \<Rightarrow> Inl ErrUnauthorized)"
proof -
  have "sm_sessions m0 = Map.empty"
    using assms(1) by (auto simp: NewSessionManager_def split: if_splits)
  then have "table_ok sha256 t log m" using session_path_ok [OF assms(2)] by simp
  from this [unfolded table_ok_def, rule_format, of token] show ?thesis
    using assms(3,4)
    by (cases "sm_sessions m (sha256 token)"; cases "session_of sha256 log token") (auto simp: Authenticate_def)
qed

text \<open>
  (C35) The session table is a refinement of the history: after any sequence of logins, failed
  logins, authentications and logouts, a token is accepted exactly when its last event is a login
  that has not expired, and the principal returned is the one of that login.
\<close>

theorem Authenticate_refines_history:
  assumes "NewSessionManager username passwordHash ttl verifierSet = Inr m0"
    and "session_path verify sha256 m0 t log m" and "t \<le> now" and "token \<noteq> []"
  shows "snd (Authenticate sha256 now token m) =
    (case session_of sha256 log token of
       Some p \<Rightarrow> if now < pr_ExpiresAt p then Inr p else Inl ErrUnauthorized
     | None \<Rightarrow> Inl ErrUnauthorized)"
  using assms by (rule Authenticate_history)

text \<open>A manager whose password is \<^verbatim>\<open>secret\<close>, and one login.\<close>

definition sample_manager :: SessionManager where
  "sample_manager = \<lparr>sm_username = ''admin'', sm_passwordHash = ''$argon2id$'', sm_ttl = hour,
     sm_sessions = Map.empty\<rparr>"

definition sample_verify :: "string \<Rightarrow> string \<Rightarrow> bool result" where
  "sample_verify encoded password = Inr (password = ''secret'')"

definition sample_token :: string where
  "sample_token = EncodeToString RawURLEncoding (replicate 32 CHR 0x07)"

lemma sample_token_set: "sample_token \<noteq> []"
  using length_encode_quanta [of "map of_char (replicate 32 CHR 0x07)"]
  by (auto simp: sample_token_def EncodeToString_def simp del: map_replicate)

lemma sample_login:
  "NewSessionManager ''admin'' ''$argon2id$'' hour True = Inr sample_manager"
  "session_path sample_verify id sample_manager 10
     [LoggedIn sample_token \<lparr>pr_Username = ''admin'', pr_Role = ''system-admin'', pr_ExpiresAt = 10 + hour\<rparr>]
     (fst (Login sample_verify id sample_random 10 10 ''admin'' ''secret'' sample_manager))"
proof -
  show "NewSessionManager ''admin'' ''$argon2id$'' hour True = Inr sample_manager"
    by (simp add: NewSessionManager_def sample_manager_def hour_def minute_def second_def has_prefix_def
        trim_space_no_space index_func_ascii ascii_def is_space_def)
  have "Login sample_verify id sample_random 10 10 ''admin'' ''secret'' sample_manager =
    (fst (Login sample_verify id sample_random 10 10 ''admin'' ''secret'' sample_manager),
     Inr (sample_token, \<lparr>pr_Username = ''admin'', pr_Role = ''system-admin'', pr_ExpiresAt = 10 + hour\<rparr>))"
    by (simp add: Login_def Let_def sample_verify_def sample_random_def sample_manager_def sample_token_def)
  then show "session_path sample_verify id sample_manager 10
     [LoggedIn sample_token \<lparr>pr_Username = ''admin'', pr_Role = ''system-admin'', pr_ExpiresAt = 10 + hour\<rparr>]
     (fst (Login sample_verify id sample_random 10 10 ''admin'' ''secret'' sample_manager))"
    by (rule session_path.login [OF session_path.init order_refl])
qed

theorem Authenticate_refines_history_witness:
  "snd (Authenticate id 20 sample_token (fst (Login sample_verify id sample_random 10 10 ''admin'' ''secret'' sample_manager)))
     = Inr \<lparr>pr_Username = ''admin'', pr_Role = ''system-admin'', pr_ExpiresAt = 10 + hour\<rparr>"
  using Authenticate_refines_history [OF sample_login(1) sample_login(2) _ sample_token_set, of 20]
  by (simp add: hour_def minute_def second_def)

section \<open>Failed logins\<close>

record failureWindow =
  fw_count :: int
  fw_resetAt :: gtime

record failureLimiter =
  fl_entries :: "(string \<times> failureWindow) list"
  fl_maxFailure :: int
  fl_window :: duration
  fl_maxEntries :: int

definition newFailureLimiter :: "int \<Rightarrow> duration \<Rightarrow> int \<Rightarrow> failureLimiter" where
  "newFailureLimiter maxFailure window maxEntries =
     \<lparr>fl_entries = [], fl_maxFailure = maxFailure, fl_window = window, fl_maxEntries = maxEntries\<rparr>"

definition reset :: "string \<Rightarrow> failureLimiter \<Rightarrow> failureLimiter" where
  "reset key l = l\<lparr>fl_entries := AList.delete key (fl_entries l)\<rparr>"

definition blocked :: "gtime \<Rightarrow> string \<Rightarrow> failureLimiter \<Rightarrow> failureLimiter \<times> duration \<times> bool" where
  "blocked now key l =
     (case map_of (fl_entries l) key of
        None \<Rightarrow> (l, 0, False)
      | Some entry \<Rightarrow>
          if \<not> now < fw_resetAt entry then (l\<lparr>fl_entries := AList.delete key (fl_entries l)\<rparr>, 0, False)
          else if fw_count entry < fl_maxFailure l then (l, 0, False)
          else (l, fw_resetAt entry - now, True))"

text \<open>
  The loop over the map, in the order in which it visits the entries; an empty key counts as no
  key found yet.
\<close>

definition oldest_key :: "(string \<times> failureWindow) list \<Rightarrow> string \<times> gtime" where
  "oldest_key order =
     fold (\<lambda>(key, entry) (oldestKey, oldestReset).
             if oldestKey = [] \<or> fw_resetAt entry < oldestReset then (key, fw_resetAt entry)
             else (oldestKey, oldestReset)) order ([], zero_time)"

definition evictOldest :: "(string \<times> failureWindow) list \<Rightarrow> failureLimiter \<Rightarrow> failureLimiter" where
  "evictOldest order l = l\<lparr>fl_entries := AList.delete (fst (oldest_key order)) (fl_entries l)\<rparr>"

definition failed :: "(string \<times> failureWindow) list \<Rightarrow> gtime \<Rightarrow> string \<Rightarrow> failureLimiter \<Rightarrow> failureLimiter" where
  "failed order now key l =
     (let start = (\<lambda>l. l\<lparr>fl_entries := AList.update key \<lparr>fw_count = 1, fw_resetAt = now + fl_window l\<rparr> (fl_entries l)\<rparr>)
      in case map_of (fl_entries l) key of
           Some entry \<Rightarrow>
             if now < fw_resetAt entry
             then l\<lparr>fl_entries := AList.update key (entry\<lparr>fw_count := wrap64 (fw_count entry + 1)\<rparr>) (fl_entries l)\<rparr>
             else start l
         | None \<Rightarrow> start (if int (length (fl_entries l)) \<ge> fl_maxEntries l then evictOldest order l else l))"

text \<open>What happened, newest first, and the failures of a key since it was last reset.\<close>

datatype limiter_event = FailedAt gtime string | ResetKey string

fun failures :: "limiter_event list \<Rightarrow> string \<Rightarrow> gtime list" where
  "failures [] key = []"
| "failures (FailedAt t k # log) key = (if k = key then t # failures log key else failures log key)"
| "failures (ResetKey k # log) key = (if k = key then [] else failures log key)"

inductive limiter_path :: "failureLimiter \<Rightarrow> gtime \<Rightarrow> limiter_event list \<Rightarrow> failureLimiter \<Rightarrow> bool" for l0 where
  init: "limiter_path l0 now [] l0"
| failure: "limiter_path l0 t log l \<Longrightarrow> t \<le> now \<Longrightarrow> mset order = mset (fl_entries l) \<Longrightarrow>
    limiter_path l0 now (FailedAt now key # log) (failed order now key l)"
| query: "limiter_path l0 t log l \<Longrightarrow> t \<le> now \<Longrightarrow> limiter_path l0 now log (fst (blocked now key l))"
| cleared: "limiter_path l0 t log l \<Longrightarrow> t \<le> now \<Longrightarrow> limiter_path l0 now (ResetKey key # log) (reset key l)"

text \<open>
  An entry counts failures of its window that really happened, never more, also when the 64-bit
  count wraps around; the table is bounded.
\<close>

definition entry_ok :: "gtime \<Rightarrow> limiter_event list \<Rightarrow> duration \<Rightarrow> string \<Rightarrow> failureWindow \<Rightarrow> bool" where
  "entry_ok now log window key w \<longleftrightarrow>
     fw_resetAt w - window \<le> now \<and> - (2 ^ 63) \<le> fw_count w
     \<and> fw_count w \<le> int (length (filter (\<lambda>t. fw_resetAt w - window \<le> t) (failures log key)))"

definition limiter_ok :: "gtime \<Rightarrow> limiter_event list \<Rightarrow> failureLimiter \<Rightarrow> bool" where
  "limiter_ok now log l \<longleftrightarrow>
     distinct (map fst (fl_entries l)) \<and> int (length (fl_entries l)) \<le> fl_maxEntries l
     \<and> (\<forall>key w. map_of (fl_entries l) key = Some w \<longrightarrow> entry_ok now log (fl_window l) key w)"

lemma entry_ok_later: "entry_ok t log d key w \<Longrightarrow> t \<le> now \<Longrightarrow> entry_ok now log d key w"
  by (simp add: entry_ok_def)

lemma entry_ok_other: "entry_ok now log d key w \<Longrightarrow> k \<noteq> key \<Longrightarrow> entry_ok now (FailedAt now k # log) d key w"
  "entry_ok now log d key w \<Longrightarrow> k \<noteq> key \<Longrightarrow> entry_ok now (ResetKey k # log) d key w"
  by (simp_all add: entry_ok_def)

lemma length_filter_mono: "(\<And>x. P x \<Longrightarrow> Q x) \<Longrightarrow> length (filter P xs) \<le> length (filter Q xs)"
  by (induction xs) (auto simp: le_SucI)

lemma length_delete_le: "length (AList.delete k xs) \<le> length xs"
  by (simp add: AList.delete_eq)

lemma length_delete_less: "k \<in> fst ` set xs \<Longrightarrow> length (AList.delete k xs) < length xs"
proof -
  assume "k \<in> fst ` set xs"
  then obtain v where "(k, v) \<in> set xs" by auto
  then show ?thesis unfolding AList.delete_eq by (rule length_filter_less) simp
qed

lemma length_update: "length (AList.update k v xs) = (if k \<in> fst ` set xs then length xs else Suc (length xs))"
  by (induction xs) auto

lemma oldest_key_in:
  assumes "order \<noteq> []"
  shows "fst (oldest_key order) \<in> fst ` set order"
proof -
  have "fst (fold (\<lambda>(key, entry) (oldestKey, oldestReset).
             if oldestKey = [] \<or> fw_resetAt entry < oldestReset then (key, fw_resetAt entry)
             else (oldestKey, oldestReset)) xs acc) \<in> insert (fst acc) (fst ` set xs)" for xs acc
    by (induction xs arbitrary: acc) (auto split: prod.splits if_splits)+
  note folded = this
  obtain k w rest where "order = (k, w) # rest"
    using assms by (cases order) auto
  then show ?thesis
    using folded [of rest "(k, fw_resetAt w)"] by (auto simp: oldest_key_def)
qed

lemma evictOldest_room:
  assumes "mset order = mset (fl_entries l)" and "int (length (fl_entries l)) \<le> fl_maxEntries l" and "0 < fl_maxEntries l"
  shows "int (length (fl_entries (if int (length (fl_entries l)) \<ge> fl_maxEntries l then evictOldest order l else l)))
    < fl_maxEntries l"
proof (cases "int (length (fl_entries l)) \<ge> fl_maxEntries l")
  case True
  then have "order \<noteq> []" using assms by auto
  then have "fst (oldest_key order) \<in> fst ` set (fl_entries l)"
    using oldest_key_in assms(1) by (metis set_mset_mset)
  then show ?thesis
    using True assms(2) length_delete_less by (fastforce simp: evictOldest_def)
qed (use assms in auto)

lemma start_window_ok:
  assumes "limiter_ok now log l" and "int (length (fl_entries l)) < fl_maxEntries l \<or> key \<in> fst ` set (fl_entries l)"
  shows "limiter_ok now (FailedAt now key # log)
    (l\<lparr>fl_entries := AList.update key \<lparr>fw_count = 1, fw_resetAt = now + fl_window l\<rparr> (fl_entries l)\<rparr>)"
  using assms entry_ok_other(1)
  by (auto simp: limiter_ok_def distinct_update length_update update_conv' entry_ok_def split: if_splits)

lemma delete_ok:
  assumes "limiter_ok now log l"
  shows "limiter_ok now log (l\<lparr>fl_entries := AList.delete k (fl_entries l)\<rparr>)"
  using assms length_delete_le [of k "fl_entries l"]
  by (auto simp: limiter_ok_def distinct_delete delete_conv' split: if_splits)

lemma entry_ok_counted:
  assumes "entry_ok now log d key w"
  shows "entry_ok now (FailedAt now key # log) d key (w\<lparr>fw_count := wrap64 (fw_count w + 1)\<rparr>)"
  using assms wrap64_ge [of "fw_count w + 1"] wrap64_le [of "fw_count w + 1"] by (simp add: entry_ok_def)

lemma failed_ok:
  assumes ok: "limiter_ok now log l" and order: "mset order = mset (fl_entries l)" and "0 < fl_maxEntries l"
  shows "limiter_ok now (FailedAt now key # log) (failed order now key l)"
proof (cases "map_of (fl_entries l) key")
  case None
  let ?l = "if int (length (fl_entries l)) \<ge> fl_maxEntries l then evictOldest order l else l"
  have "limiter_ok now log ?l" using ok delete_ok by (simp add: evictOldest_def)
  moreover have "fl_maxEntries ?l = fl_maxEntries l" by (simp add: evictOldest_def)
  then have "int (length (fl_entries ?l)) < fl_maxEntries ?l"
    using evictOldest_room [OF order _ assms(3)] ok unfolding limiter_ok_def by metis
  ultimately show ?thesis
    using start_window_ok [of now log ?l key] None by (simp add: failed_def Let_def)
next
  case (Some w)
  then have member: "key \<in> fst ` set (fl_entries l)" by (metis dom_map_of_conv_image_fst domI)
  show ?thesis
  proof (cases "now < fw_resetAt w")
    case True
    have "entry_ok now log (fl_window l) key w" using ok Some by (simp add: limiter_ok_def)
    from entry_ok_counted [OF this] show ?thesis
      using ok Some True member entry_ok_other(1)
      by (auto simp: failed_def limiter_ok_def distinct_update length_update update_conv' split: if_splits)
  next
    case False
    then show ?thesis
      using start_window_ok [OF ok, of key] Some member by (simp add: failed_def Let_def)
  qed
qed

lemma limiter_ok_later: "limiter_ok t log l \<Longrightarrow> t \<le> now \<Longrightarrow> limiter_ok now log l"
  unfolding limiter_ok_def using entry_ok_later by blast

lemma limiter_constants:
  "fl_maxEntries (failed order now key l) = fl_maxEntries l" "fl_window (failed order now key l) = fl_window l"
  "fl_maxFailure (failed order now key l) = fl_maxFailure l"
  by (auto simp: failed_def evictOldest_def Let_def split: option.splits)

lemma limiter_path_ok:
  assumes "limiter_path (newFailureLimiter n d most) now log l" and "0 < most"
  shows "limiter_ok now log l \<and> fl_maxEntries l = most \<and> fl_window l = d \<and> fl_maxFailure l = n"
  using assms
proof (induction rule: limiter_path.induct)
  case (init now)
  then show ?case by (simp add: limiter_ok_def newFailureLimiter_def)
next
  case (failure t log l now order key)
  then have "limiter_ok now log l" using limiter_ok_later by blast
  then show ?case using failed_ok failure by (simp add: limiter_constants)
next
  case (query t log l now key)
  then have "limiter_ok now log l" using limiter_ok_later by blast
  then show ?case using delete_ok query by (auto simp: blocked_def split: option.splits)
next
  case (cleared t log l now key)
  then have "limiter_ok now log l" using limiter_ok_later by blast
  then have "limiter_ok now log (reset key l)" using delete_ok by (simp add: reset_def)
  then have "limiter_ok now (ResetKey key # log) (reset key l)"
    using entry_ok_other(2) by (auto simp: limiter_ok_def reset_def delete_conv' split: if_splits)
  then show ?case using cleared by (simp add: reset_def)
qed

text \<open>
  (C36) The limiter never blocks without cause and never grows beyond its size: whatever the calls
  were, a blocked address has failed at least \<^verbatim>\<open>maxFailure\<close> times since its last
  successful login and within the last window, and the wait it is told lies within the window.
\<close>

theorem limiter_blocks_only_offenders:
  assumes "limiter_path (newFailureLimiter maxFailure window maxEntries) t log l" and "0 < maxEntries" and "t \<le> now"
  shows "int (length (fl_entries l)) \<le> maxEntries
    \<and> (\<forall>l' wait. blocked now key l = (l', wait, True) \<longrightarrow> 0 < wait \<and> wait \<le> window
          \<and> maxFailure \<le> int (length (filter (\<lambda>s. now - window < s) (failures log key))))"
proof -
  have ok: "limiter_ok now log l" and c: "fl_maxEntries l = maxEntries" "fl_window l = window" "fl_maxFailure l = maxFailure"
    using limiter_path_ok [OF assms(1,2)] limiter_ok_later [OF _ assms(3)] by auto
  have "0 < wait \<and> wait \<le> window \<and> maxFailure \<le> int (length (filter (\<lambda>s. now - window < s) (failures log key)))"
    if "blocked now key l = (l', wait, True)" for l' wait
  proof -
    from that obtain w where w: "map_of (fl_entries l) key = Some w" "now < fw_resetAt w" "maxFailure \<le> fw_count w"
      "wait = fw_resetAt w - now"
      using c by (auto simp: blocked_def split: option.splits if_splits)
    have "entry_ok now log window key w" using ok w c by (simp add: limiter_ok_def)
    then show ?thesis
      using w length_filter_mono [of "\<lambda>s. fw_resetAt w - window \<le> s" "\<lambda>s. now - window < s" "failures log key"]
      by (auto simp: entry_ok_def)
  qed
  then show ?thesis using ok c by (auto simp: limiter_ok_def)
qed

text \<open>
  Guessing is stopped: \<^verbatim>\<open>maxFailure\<close> failures of an address within one window
  block it until the window of its first failure ends, whatever else the table holds.
\<close>

theorem limiter_blocks_after_failures:
  assumes "map_of (fl_entries l) key = None" and "int (length later) + 1 \<ge> fl_maxFailure l"
    and "\<forall>t \<in> set later. t < first + fl_window l" and "now < first + fl_window l" and "int (length later) + 1 < 2 ^ 63"
  shows "snd (blocked now key (foldl (\<lambda>l t. failed order t key l) (failed order first key l) later))
    = (first + fl_window l - now, True)"
proof -
  let ?run = "\<lambda>later. foldl (\<lambda>l t. failed order t key l) (failed order first key l) later"
  have "map_of (fl_entries (?run later)) key = Some \<lparr>fw_count = 1 + int (length later), fw_resetAt = first + fl_window l\<rparr>
    \<and> fl_maxFailure (?run later) = fl_maxFailure l"
    using assms(3,5)
  proof (induction later rule: rev_induct)
    case Nil
    show ?case using assms(1) by (simp add: failed_def Let_def update_conv' evictOldest_def)
  next
    case (snoc t later)
    then show ?case by (simp add: failed_def [of order t key] update_conv' wrap64_id)
  qed
  then show ?thesis
    using assms(2,4) by (simp add: blocked_def)
qed

text \<open>The limiter of the login handler, after five failures.\<close>

definition sample_failures :: failureLimiter where
  "sample_failures = foldl (\<lambda>l t. failed [] t ''10.0.0.1'' l) (failed [] 100 ''10.0.0.1'' (newFailureLimiter 5 (5 * minute) 10000))
     [101, 102, 103, 104]"

theorem limiter_blocks_after_failures_witness:
  "snd (blocked 200 ''10.0.0.1'' sample_failures) = (300 * second - 100, True)"
  using limiter_blocks_after_failures [of "newFailureLimiter 5 (5 * minute) 10000" "''10.0.0.1''" "[101, 102, 103, 104]" 100 200 "[]"]
  by (simp add: sample_failures_def newFailureLimiter_def minute_def second_def)

theorem limiter_blocks_only_offenders_witness:
  "snd (blocked 3 ''10.0.0.1'' (failed [] 2 ''10.0.0.1'' (newFailureLimiter 1 (5 * minute) 10000))) = (300 * second - 1, True)
   \<and> 300 * second - 1 \<le> 5 * minute
   \<and> 1 \<le> int (length (filter (\<lambda>s. 3 - 5 * minute < s) (failures [FailedAt 2 ''10.0.0.1''] ''10.0.0.1'')))"
proof -
  let ?l = "failed [] 2 ''10.0.0.1'' (newFailureLimiter 1 (5 * minute) 10000)"
  have path: "limiter_path (newFailureLimiter 1 (5 * minute) 10000) 2 [FailedAt 2 ''10.0.0.1''] ?l"
    by (rule limiter_path.failure [OF limiter_path.init [of _ 0]]) (simp_all add: newFailureLimiter_def)
  have block: "blocked 3 ''10.0.0.1'' ?l = (?l, 300 * second - 1, True)"
    by (simp add: blocked_def failed_def newFailureLimiter_def minute_def second_def)
  show ?thesis
    using limiter_blocks_only_offenders [OF path, of 3 "''10.0.0.1''"] block by auto
qed

end
