(* ===== verification/Outbound.thy ===== *)
theory Outbound
  imports Validation
begin

unbundle bit_operations_syntax

text \<open>
  The policy for outbound connections, \<^verbatim>\<open>internal/outbound/policy.go\<close>: which
  addresses the panel may connect to, the check of a URL and the dialer, with the address
  predicates of \<^verbatim>\<open>net/netip\<close> and the host and port splitting of \<^verbatim>\<open>net\<close>
  and \<^verbatim>\<open>net/url\<close>. The parsers of address, prefix and URL text are arguments. So are the
  resolver and the dialer, which are given the log of what the panel has done on the network so far:
  a name that is asked for twice may have two answers.
\<close>

section \<open>Addresses\<close>

text \<open>\<^verbatim>\<open>netip.Addr\<close>: the zero value, an IPv4 address, or an IPv6 address with its zone.\<close>

datatype Addr = NoAddr | V4 "32 word" | V6 "128 word" string

definition Is4In6 :: "128 word \<Rightarrow> bool" where
  "Is4In6 w \<longleftrightarrow> drop_bit 32 w = 0xFFFF"

fun Unmap :: "Addr \<Rightarrow> Addr" where
  "Unmap (V6 w zone) = (if Is4In6 w then V4 (ucast w) else V6 w zone)"
| "Unmap a = a"

fun IsValid :: "Addr \<Rightarrow> bool" where
  "IsValid NoAddr = False"
| "IsValid _ = True"

fun IsUnspecified :: "Addr \<Rightarrow> bool" where
  "IsUnspecified NoAddr = False"
| "IsUnspecified (V4 w) = (w = 0)"
| "IsUnspecified (V6 w zone) = (w = 0 \<and> zone = [])"

text \<open>The other predicates look at an IPv4-mapped IPv6 address as at the IPv4 address.\<close>

definition IsLoopback :: "Addr \<Rightarrow> bool" where
  "IsLoopback a =
     (case Unmap a of NoAddr \<Rightarrow> False | V4 w \<Rightarrow> drop_bit 24 w = 127 | V6 w zone \<Rightarrow> w = 1)"

definition IsMulticast :: "Addr \<Rightarrow> bool" where
  "IsMulticast a =
     (case Unmap a of
        NoAddr \<Rightarrow> False | V4 w \<Rightarrow> drop_bit 24 w AND 0xF0 = 0xE0 | V6 w zone \<Rightarrow> drop_bit 120 w = 0xFF)"

definition IsLinkLocalUnicast :: "Addr \<Rightarrow> bool" where
  "IsLinkLocalUnicast a =
     (case Unmap a of
        NoAddr \<Rightarrow> False
      | V4 w \<Rightarrow> drop_bit 24 w = 169 \<and> drop_bit 16 w AND 0xFF = 254
      | V6 w zone \<Rightarrow> drop_bit 112 w AND 0xFFC0 = 0xFE80)"

definition IsLinkLocalMulticast :: "Addr \<Rightarrow> bool" where
  "IsLinkLocalMulticast a =
     (case Unmap a of
        NoAddr \<Rightarrow> False
      | V4 w \<Rightarrow> drop_bit 24 w = 224 \<and> drop_bit 16 w AND 0xFF = 0 \<and> drop_bit 8 w AND 0xFF = 0
      | V6 w zone \<Rightarrow> drop_bit 112 w AND 0xFF0F = 0xFF02)"

definition IsPrivate :: "Addr \<Rightarrow> bool" where
  "IsPrivate a =
     (case Unmap a of
        NoAddr \<Rightarrow> False
      | V4 w \<Rightarrow>
          drop_bit 24 w = 10
          \<or> drop_bit 24 w = 172 \<and> (drop_bit 16 w AND 0xFF) AND 0xF0 = 16
          \<or> drop_bit 24 w = 192 \<and> drop_bit 16 w AND 0xFF = 168
      | V6 w zone \<Rightarrow> drop_bit 120 w AND 0xFE = 0xFC)"

definition IsGlobalUnicast :: "Addr \<Rightarrow> bool" where
  "IsGlobalUnicast address =
     (let a = Unmap address in
      a \<noteq> NoAddr \<and> a \<noteq> V4 0 \<and> a \<noteq> V4 (- 1) \<and> a \<noteq> V6 0 []
      \<and> \<not> IsLoopback a \<and> \<not> IsMulticast a \<and> \<not> IsLinkLocalUnicast a)"

record Prefix =
  pf_ip :: Addr
  pf_bits :: nat

definition Contains :: "Prefix \<Rightarrow> Addr \<Rightarrow> bool" where
  "Contains p a =
     (case (pf_ip p, a) of
        (V4 x, V4 y) \<Rightarrow> drop_bit (32 - pf_bits p) (x XOR y) = 0
      | (V6 x _, V6 y zone) \<Rightarrow> zone = [] \<and> (x XOR y) AND NOT (mask (128 - pf_bits p)) = 0
      | _ \<Rightarrow> False)"

definition Masked :: "Prefix \<Rightarrow> Prefix" where
  "Masked p =
     (case pf_ip p of
        V4 x \<Rightarrow> p\<lparr>pf_ip := V4 (x AND NOT (mask (32 - pf_bits p)))\<rparr>
      | V6 x zone \<Rightarrow> p\<lparr>pf_ip := V6 (x AND NOT (mask (128 - pf_bits p))) []\<rparr>
      | NoAddr \<Rightarrow> p)"

text \<open>\<^verbatim>\<open>netip.AddrFromSlice\<close> on the bytes of a \<^verbatim>\<open>net.IP\<close>.\<close>

definition word_of_bytes :: "string \<Rightarrow> 'a::len word" where
  "word_of_bytes bs = foldl (\<lambda>w b. w * 256 + of_char b) 0 bs"

definition AddrFromSlice :: "string \<Rightarrow> Addr option" where
  "AddrFromSlice bs =
     (if length bs = 4 then Some (V4 (word_of_bytes bs))
      else if length bs = 16 then Some (V6 (word_of_bytes bs) []) else None)"

section \<open>Hosts and ports\<close>

definition index_byte :: "char \<Rightarrow> string \<Rightarrow> nat option" where
  "index_byte c s = find_index id c s"

definition last_index_byte :: "char \<Rightarrow> string \<Rightarrow> nat option" where
  "last_index_byte c s = map_option (\<lambda>i. length s - 1 - i) (find_index id c (rev s))"

text \<open>\<^verbatim>\<open>net.SplitHostPort\<close>; its errors are told apart by nobody here.\<close>

definition SplitHostPort :: "string \<Rightarrow> (string \<times> string) option" where
  "SplitHostPort hostport =
     (case last_index_byte CHR '':'' hostport of
        None \<Rightarrow> None
      | Some i \<Rightarrow>
          (let finish = (\<lambda>host j k.
                 if CHR ''['' \<in> set (drop j hostport) \<or> CHR '']'' \<in> set (drop k hostport) then None
                 else Some (host, drop (i + 1) hostport))
           in if hd hostport = CHR ''[''
              then case index_byte CHR '']'' hostport of
                  None \<Rightarrow> None
                | Some end_ \<Rightarrow>
                    if end_ + 1 = i then finish (drop 1 (take end_ hostport)) 1 (end_ + 1) else None
              else
                (let host = take i hostport
                 in if CHR '':'' \<in> set host then None else finish host 0 0)))"

definition validOptionalPort :: "string \<Rightarrow> bool" where
  "validOptionalPort port \<longleftrightarrow>
     port = [] \<or> hd port = CHR '':'' \<and> list_all is_digit (tl port)"

text \<open>\<^verbatim>\<open>(*url.URL).Hostname\<close>.\<close>

definition Hostname :: "string \<Rightarrow> string" where
  "Hostname hostPort =
     (let host = (case last_index_byte CHR '':'' hostPort of
                    Some i \<Rightarrow> if validOptionalPort (drop i hostPort) then take i hostPort else hostPort
                  | None \<Rightarrow> hostPort)
      in if has_prefix host ''['' \<and> last host = CHR '']''
         then butlast (tl host) else host)"

definition trim_brackets :: "string \<Rightarrow> string" where
  "trim_brackets s =
     (let cut = dropWhile (\<lambda>c. c = CHR ''['' \<or> c = CHR '']'') in rev (cut (rev (cut s))))"

section \<open>The network\<close>

text \<open>
  What the panel does on the network, in order: a name it asks the resolver for, an address and port
  it dials, a request it sends. The value of an \<^verbatim>\<open>Authorization\<close> header is set by
  \<^verbatim>\<open>SetBasicAuth\<close>, taken from the user information of the URL of a request that has none, or
  set by a library.
\<close>

datatype authorization = BasicAuth string string | URLUserinfo string | LibraryAuth string

record http_request =
  rq_Target :: url
  rq_Accepts :: string
  rq_Authorization :: "authorization option"

datatype net_event = Asked string | Dialled Addr string | Sent http_request

section \<open>The policy\<close>

record Policy =
  po_allowed :: "Prefix list"
  po_ParseAddr :: "string \<Rightarrow> Addr option"
  po_LookupIP :: "net_event list \<Rightarrow> string \<Rightarrow> string list result"

definition NewPolicy ::
  "(string \<Rightarrow> Addr option) \<Rightarrow> (net_event list \<Rightarrow> string \<Rightarrow> string list result) \<Rightarrow> Prefix list \<Rightarrow> Policy" where
  "NewPolicy parseAddr resolver allowed =
     \<lparr>po_allowed = allowed, po_ParseAddr = parseAddr, po_LookupIP = resolver\<rparr>"

fun parse_parts :: "(string \<Rightarrow> Prefix result) \<Rightarrow> string list \<Rightarrow> Prefix list result" where
  "parse_parts parsePrefix [] = Inr []"
| "parse_parts parsePrefix (part # parts) =
     (case parsePrefix (trim_space part) of
        Inl e \<Rightarrow> Inl (Wrapped (''parse allowed CIDR '' @ trim_space part) e)
      | Inr p \<Rightarrow>
          (case parse_parts parsePrefix parts of
             Inl e \<Rightarrow> Inl e
           | Inr ps \<Rightarrow> Inr (Masked p # ps)))"

definition ParseAllowedPrefixes :: "(string \<Rightarrow> Prefix result) \<Rightarrow> string \<Rightarrow> Prefix list result" where
  "ParseAllowedPrefixes parsePrefix raw =
     (if trim_space raw = [] then Inr [] else parse_parts parsePrefix (split_char CHR '','' raw))"

definition isAllowed :: "Prefix list \<Rightarrow> Addr \<Rightarrow> bool" where
  "isAllowed allowed a \<longleftrightarrow>
     list_ex (\<lambda>p. Contains p a) allowed
     \<or> IsValid a \<and> IsGlobalUnicast a \<and> \<not> IsPrivate a \<and> \<not> IsLoopback a \<and> \<not> IsLinkLocalUnicast a
        \<and> \<not> IsLinkLocalMulticast a \<and> \<not> IsMulticast a \<and> \<not> IsUnspecified a"

fun resolved_addresses :: "string list \<Rightarrow> Addr list result" where
  "resolved_addresses [] = Inr []"
| "resolved_addresses (bs # rest) =
     (case AddrFromSlice bs of
        None \<Rightarrow> Inl (NewError ''resolver returned an invalid address'')
      | Some a \<Rightarrow>
          (case resolved_addresses rest of Inl e \<Rightarrow> Inl e | Inr as \<Rightarrow> Inr (Unmap a # as)))"

definition lookup :: "Policy \<Rightarrow> net_event list \<Rightarrow> string \<Rightarrow> net_event list \<times> Addr list result" where
  "lookup p log host =
     (case po_ParseAddr p (trim_brackets host) of
        Some parsed \<Rightarrow> (log, Inr [Unmap parsed])
      | None \<Rightarrow>
          (log @ [Asked host],
           case po_LookupIP p log host of Inl e \<Rightarrow> Inl e | Inr resolved \<Rightarrow> resolved_addresses resolved))"

text \<open>The lookup with the checks that \<^verbatim>\<open>ValidateHost\<close> and \<^verbatim>\<open>DialContext\<close> make of it.\<close>

definition validated_addresses :: "Policy \<Rightarrow> net_event list \<Rightarrow> string \<Rightarrow> net_event list \<times> Addr list result" where
  "validated_addresses p log host =
     (case lookup p log host of
        (log, Inl e) \<Rightarrow> (log, Inl (Wrapped ''resolve target host'' e))
      | (log, Inr addresses) \<Rightarrow>
          (log,
           if addresses = [] then Inl (NewError ''target host resolved to no addresses'')
           else if \<not> list_all (isAllowed (po_allowed p)) addresses
           then Inl (NewError ''target address is blocked by outbound policy'')
           else Inr addresses))"

definition ValidateHost :: "Policy \<Rightarrow> net_event list \<Rightarrow> string \<Rightarrow> net_event list \<times> go_error option" where
  "ValidateHost p log host =
     (case validated_addresses p log host of (log, Inl e) \<Rightarrow> (log, Some e) | (log, Inr _) \<Rightarrow> (log, None))"

definition policy_ValidateHTTPSURL ::
  "url_parser \<Rightarrow> Policy \<Rightarrow> net_event list \<Rightarrow> string \<Rightarrow> net_event list \<times> url result" where
  "policy_ValidateHTTPSURL parse p log raw =
     (case parse (trim_space raw) of
        None \<Rightarrow> (log, Inl (NewError ''invalid target URL''))
      | Some parsed \<Rightarrow>
          if Scheme parsed \<noteq> ''https'' \<or> Host parsed = [] \<or> User parsed \<noteq> None
          then (log, Inl (NewError ''target must be an HTTPS URL without credentials''))
          else case ValidateHost p log (Hostname (Host parsed)) of
              (log, Some e) \<Rightarrow> (log, Inl e) | (log, None) \<Rightarrow> (log, Inr parsed))"

definition Validate :: "url_parser \<Rightarrow> Policy \<Rightarrow> net_event list \<Rightarrow> string \<Rightarrow> net_event list \<times> go_error option" where
  "Validate parse p log raw =
     (case policy_ValidateHTTPSURL parse p log raw of (log, Inl e) \<Rightarrow> (log, Some e) | (log, Inr _) \<Rightarrow> (log, None))"

text \<open>
  The loop over the candidates: every dial is an event, and the result is the connection or the last
  error.
\<close>

fun dial_each ::
  "(net_event list \<Rightarrow> Addr \<Rightarrow> string \<Rightarrow> 'conn result) \<Rightarrow> string \<Rightarrow> net_event list \<Rightarrow> Addr list \<Rightarrow> go_error option
     \<Rightarrow> net_event list \<times> 'conn result" where
  "dial_each dial port log [] lastErr =
     (log, Inl (Wrapped ''connect to validated target'' (case lastErr of Some e \<Rightarrow> e | None \<Rightarrow> NewError ''nil'')))"
| "dial_each dial port log (candidate # rest) lastErr =
     (case dial log candidate port of
        Inr connection \<Rightarrow> (log @ [Dialled candidate port], Inr connection)
      | Inl dialErr \<Rightarrow> dial_each dial port (log @ [Dialled candidate port]) rest (Some dialErr))"

definition DialContext ::
  "Policy \<Rightarrow> (net_event list \<Rightarrow> Addr \<Rightarrow> string \<Rightarrow> 'conn result) \<Rightarrow> net_event list \<Rightarrow> string
     \<Rightarrow> net_event list \<times> 'conn result" where
  "DialContext p dial log address =
     (case SplitHostPort address of
        None \<Rightarrow> (log, Inl (NewError ''invalid target address''))
      | Some (host, port) \<Rightarrow>
          (case validated_addresses p log host of
             (log, Inl e) \<Rightarrow> (log, Inl e)
           | (log, Inr addresses) \<Rightarrow> dial_each dial port log addresses None))"

section \<open>The addresses by their ranges\<close>

lemma and_field: "w AND push_bit k (mask n) = push_bit k (take_bit n (drop_bit k w))" for w :: "'a::len word"
  by (rule bit_word_eqI) (auto simp: bit_simps)

lemma and_octet_masks:
  fixes x :: "32 word"
  shows "x AND 0xFF = take_bit 8 x" and "x AND 0xF0 = push_bit 4 (take_bit 4 (drop_bit 4 x))"
  using and_field [of x 0 8] and_field [of x 4 4] by (simp_all add: mask_eq_exp_minus_1 push_bit_eq_mult)

lemma div_is: "0 < d \<Longrightarrow> (m :: nat) div d = q \<longleftrightarrow> q * d \<le> m \<and> m < (q + 1) * d"
  by (metis Suc_eq_plus1 div_less_iff_less_mult less_Suc_eq_le less_eq_div_iff_mult_less_eq order_antisym_conv
      order_refl)

lemma div_mod_is: "0 < d \<Longrightarrow> (h :: nat) div d = a \<and> h mod d = b \<longleftrightarrow> b < d \<and> h = a * d + b"
  by (metis div_mod_decomp mod_less_divisor div_mult_self3 div_less mod_mult_self3 mod_less add.commute add_0
      less_numeral_extra(3))

lemma high_half: "(h :: nat) div 256 = a \<and> h mod 256 div 16 = b \<longleftrightarrow> h div 16 div 16 = a \<and> h div 16 mod 16 = b"
  using mod_mult2_eq [of h 16 16] by (simp add: div_mult2_eq [symmetric])

lemmas word_to_nat = word_unat_eq_iff unat_drop_bit_eq unsigned_take_bit_eq unsigned_push_bit_eq
  take_bit_eq_mod [where 'a = nat] drop_bit_eq_div [where 'a = nat] push_bit_eq_mult [where 'a = nat]

lemma v4_octets:
  fixes w :: "32 word"
  shows "drop_bit 24 w = 10 \<longleftrightarrow> unat w div 2 ^ 24 = 10"
    and "drop_bit 24 w = 127 \<longleftrightarrow> unat w div 2 ^ 24 = 127"
    and "drop_bit 24 w = 169 \<and> drop_bit 16 w AND 0xFF = 254 \<longleftrightarrow> unat w div 2 ^ 16 = 169 * 256 + 254"
    and "drop_bit 24 w = 192 \<and> drop_bit 16 w AND 0xFF = 168 \<longleftrightarrow> unat w div 2 ^ 16 = 192 * 256 + 168"
    and "drop_bit 24 w = 172 \<and> (drop_bit 16 w AND 0xFF) AND 0xF0 = 16 \<longleftrightarrow> unat w div 2 ^ 20 = 172 * 16 + 1"
    and "drop_bit 24 w AND 0xF0 = 0xE0 \<longleftrightarrow> unat w div 2 ^ 28 = 14"
proof -
  define h where "h = unat w div 65536"
  have split: "unat w div 65536 = h" "unat w div 16777216 = h div 256" "unat w div 1048576 = h div 16"
    "unat w div 268435456 = h div 4096"
    by (simp_all add: h_def div_mult2_eq [symmetric])
  have "unat w < 2 ^ 32" using unsigned_less [of w] by simp
  then have small: "h div 4096 < 16"
    by (simp add: h_def div_mult2_eq [symmetric] less_mult_imp_div_less)
  show "drop_bit 24 w = 10 \<longleftrightarrow> unat w div 2 ^ 24 = 10"
    and "drop_bit 24 w = 127 \<longleftrightarrow> unat w div 2 ^ 24 = 127"
    by (simp_all add: word_to_nat)
  show "drop_bit 24 w = 169 \<and> drop_bit 16 w AND 0xFF = 254 \<longleftrightarrow> unat w div 2 ^ 16 = 169 * 256 + 254"
    unfolding and_octet_masks by (simp add: word_to_nat split div_mod_is)
  show "drop_bit 24 w = 192 \<and> drop_bit 16 w AND 0xFF = 168 \<longleftrightarrow> unat w div 2 ^ 16 = 192 * 256 + 168"
    unfolding and_octet_masks by (simp add: word_to_nat split div_mod_is)
  show "drop_bit 24 w = 172 \<and> (drop_bit 16 w AND 0xFF) AND 0xF0 = 16 \<longleftrightarrow> unat w div 2 ^ 20 = 172 * 16 + 1"
    unfolding and_octet_masks by (simp add: word_to_nat split high_half div_mod_is)

  show "drop_bit 24 w AND 0xF0 = 0xE0 \<longleftrightarrow> unat w div 2 ^ 28 = 14"
    unfolding and_octet_masks using small by (simp add: word_to_nat split)
qed

lemma v6_groups:
  fixes w :: "128 word"
  shows "drop_bit 120 w = 0xFF \<longleftrightarrow> unat w div 2 ^ 120 = 0xFF"
    and "drop_bit 120 w AND 0xFE = 0xFC \<longleftrightarrow> unat w div 2 ^ 121 = 0x7E"
    and "drop_bit 112 w AND 0xFFC0 = 0xFE80 \<longleftrightarrow> unat w div 2 ^ 118 = 0x3FA"
proof -
  have "unat w < 2 ^ 128" using unsigned_less [of w] by simp
  then have small: "unat w div 2 ^ 121 < 128" "unat w div 2 ^ 118 < 1024"
    by (simp_all add: less_mult_imp_div_less)
  have masks: "x AND 0xFE = push_bit 1 (take_bit 7 (drop_bit 1 x))" "x AND 0xFFC0 = push_bit 6 (take_bit 10 (drop_bit 6 x))"
    for x :: "128 word"
    using and_field [of x 1 7] and_field [of x 6 10] by (simp_all add: mask_eq_exp_minus_1 push_bit_eq_mult)
  show "drop_bit 120 w = 0xFF \<longleftrightarrow> unat w div 2 ^ 120 = 0xFF"
    by (simp add: word_to_nat)
  show "drop_bit 120 w AND 0xFE = 0xFC \<longleftrightarrow> unat w div 2 ^ 121 = 0x7E"
    unfolding masks word_to_nat using small by (simp add: div_mult2_eq [symmetric])
  show "drop_bit 112 w AND 0xFFC0 = 0xFE80 \<longleftrightarrow> unat w div 2 ^ 118 = 0x3FA"
    unfolding masks using small by (simp add: word_to_nat div_mult2_eq [symmetric])
qed

text \<open>Blocks of addresses as a prefix and its length in bits, and what the policy must refuse.\<close>

definition in_block :: "nat \<Rightarrow> nat \<Rightarrow> nat \<times> nat \<Rightarrow> bool" where
  "in_block width n block = (n div 2 ^ (width - snd block) = fst block)"

definition reserved_v4 :: "(nat \<times> nat) list" where
  "reserved_v4 = [(0, 32), (10, 8), (127, 8), (169 * 256 + 254, 16), (172 * 16 + 1, 12),
     (192 * 256 + 168, 16), (14, 4), (2 ^ 32 - 1, 32)]"

definition reserved_v6 :: "(nat \<times> nat) list" where
  "reserved_v6 = [(1, 128), (0x7E, 7), (0x3FA, 10), (0xFF, 8)]"

lemmas address_predicates = IsLoopback_def IsMulticast_def IsLinkLocalUnicast_def IsLinkLocalMulticast_def IsPrivate_def
  IsGlobalUnicast_def

lemma Unmap_Unmap [simp]: "Unmap (Unmap a) = Unmap a"
  by (cases a) simp_all

lemma link_local_multicast: "IsLinkLocalMulticast a \<Longrightarrow> IsMulticast a"
proof (cases "Unmap a")
  case (V6 w zone)
  assume "IsLinkLocalMulticast a"
  then have "drop_bit 8 (drop_bit 112 w AND 0xFF0F) = (drop_bit 8 0xFF02 :: 128 word)"
    using V6 by (simp add: IsLinkLocalMulticast_def)
  then have "drop_bit 120 w AND 0xFF = 0xFF" by (simp add: drop_bit_and)
  moreover have "drop_bit 120 w AND 0xFF = take_bit 8 (drop_bit 120 w)"
    using and_field [of "drop_bit 120 w" 0 8] by (simp add: mask_eq_exp_minus_1)
  moreover have "take_bit 8 (drop_bit 120 w) = drop_bit 120 w"
    by (rule bit_word_eqI) (auto simp: bit_simps dest: bit_imp_le_length)
  ultimately show ?thesis using V6 by (simp add: IsMulticast_def)
qed (simp_all add: IsLinkLocalMulticast_def IsMulticast_def)

lemma isAllowed_v4:
  "isAllowed [] (V4 w) \<longleftrightarrow> \<not> list_ex (in_block 32 (unat w)) reserved_v4"
proof -
  have "w = 0 \<longleftrightarrow> unat w = 0" "w = - 1 \<longleftrightarrow> unat w = 2 ^ 32 - 1"
    by (simp_all add: word_unat_eq_iff unsigned_minus_1_eq_mask mask_eq_exp_minus_1)
  moreover have "drop_bit 24 w = 224 \<Longrightarrow> unat w div 2 ^ 28 = 14"
    using v4_octets(6) [of w] by simp
  ultimately show ?thesis
    by (auto simp: isAllowed_def address_predicates Let_def reserved_v4_def in_block_def v4_octets simp del: power_numeral)
qed


lemma isAllowed_v6:
  assumes "\<not> Is4In6 w"
  shows "isAllowed [] (V6 w zone) \<longleftrightarrow>
     \<not> list_ex (in_block 128 (unat w)) reserved_v6 \<and> (w = 0 \<longrightarrow> zone \<noteq> [])"
proof -
  have "w = 1 \<longleftrightarrow> unat w = 1" by (simp add: word_unat_eq_iff)
  moreover have "IsLinkLocalMulticast (V6 w zone) \<Longrightarrow> unat w div 2 ^ 120 = 0xFF"
    using link_local_multicast [of "V6 w zone"] v6_groups(1) [of w] assms by (simp add: IsMulticast_def)
  ultimately show ?thesis
    using assms
    by (auto simp: isAllowed_def IsLoopback_def IsMulticast_def IsLinkLocalUnicast_def IsPrivate_def IsGlobalUnicast_def
        Let_def reserved_v6_def in_block_def v6_groups simp del: power_numeral)
qed







section \<open>Properties\<close>


lemma dial_each_dials:
  assumes "dial_each dial port log candidates lastErr = (log', r)"
  shows "\<exists>tried. prefix tried candidates \<and> log' = log @ map (\<lambda>a. Dialled a port) tried
    \<and> (\<forall>c. r = Inr c \<longrightarrow> tried \<noteq> [] \<and> dial (butlast log') (last tried) port = Inr c)"
  using assms
proof (induction candidates arbitrary: log lastErr)
  case (Cons a rest)
  show ?case
  proof (cases "dial log a port")
    case (Inl e)
    then obtain tried where "prefix tried rest" "log' = (log @ [Dialled a port]) @ map (\<lambda>a. Dialled a port) tried"
        "\<forall>c. r = Inr c \<longrightarrow> tried \<noteq> [] \<and> dial (butlast log') (last tried) port = Inr c"
      using Cons.IH [of "log @ [Dialled a port]" "Some e"] Cons.prems by auto
    then show ?thesis by (intro exI [of _ "a # tried"]) auto
  next
    case (Inr c)
    then show ?thesis using Cons.prems by (intro exI [of _ "[a]"]) auto
  qed
qed auto

lemma validated_addresses_Inr:
  assumes "validated_addresses p log host = (log', Inr answers)"
  shows "list_all (isAllowed (po_allowed p)) answers \<and> lookup p log host = (log', Inr answers)"
  using assms by (auto simp: validated_addresses_def split: prod.splits sum.splits if_splits)

lemma validated_addresses_log: "set (drop (length log) (fst (validated_addresses p log host))) \<subseteq> {Asked host}"
  by (auto simp: validated_addresses_def lookup_def split: prod.splits sum.splits if_splits option.splits)

text \<open>
  (C38) Name resolution cannot be used to get around the policy, whatever the resolver answers and
  however its answers change: when an address is dialled, the panel has asked for the host at most
  once, not at all when the host is itself an address, and has not asked again after its check; every
  address of that one answer is allowed by the policy, the addresses dialled are its first ones, in
  its order, at the port of the target, and the connection returned is the one to the last of them.
\<close>

theorem dialled_addresses_are_allowed:
  assumes "DialContext p dial log address = (log', r)" and "Dialled a port \<in> set (drop (length log) log')"
  shows "\<exists>host answers asked tried. SplitHostPort address = Some (host, port)
    \<and> log' = log @ asked @ map (\<lambda>a. Dialled a port) tried \<and> a \<in> set tried
    \<and> (case po_ParseAddr p (trim_brackets host) of
         Some literal \<Rightarrow> asked = [] \<and> answers = [Unmap literal]
       | None \<Rightarrow> asked = [Asked host]
           \<and> (\<exists>resolved. po_LookupIP p log host = Inr resolved \<and> resolved_addresses resolved = Inr answers))
    \<and> list_all (isAllowed (po_allowed p)) answers \<and> prefix tried answers
    \<and> (\<forall>c. r = Inr c \<longrightarrow> dial (butlast log') (last tried) port = Inr c)"
proof -
  have "\<exists>host port' mid answers. SplitHostPort address = Some (host, port')
      \<and> validated_addresses p log host = (mid, Inr answers) \<and> dial_each dial port' mid answers None = (log', r)"
  proof (rule ccontr)
    assume none: "\<not> ?thesis"
    then obtain host where "set (drop (length log) log') \<subseteq> {Asked host}"
      using assms(1) validated_addresses_log [of log p]
      by (auto simp: DialContext_def split: option.split_asm prod.split_asm sum.split_asm) (metis fst_conv)
    then show False using assms(2) by auto
  qed
  then obtain host port' mid answers where h: "SplitHostPort address = Some (host, port')"
    "validated_addresses p log host = (mid, Inr answers)" "dial_each dial port' mid answers None = (log', r)"
    by blast
  from dial_each_dials [OF h(3)] obtain tried where tried: "prefix tried answers"
    "log' = mid @ map (\<lambda>a. Dialled a port') tried" "\<forall>c. r = Inr c \<longrightarrow> dial (butlast log') (last tried) port' = Inr c"
    by blast
  have look: "lookup p log host = (mid, Inr answers)" "list_all (isAllowed (po_allowed p)) answers"
    using validated_addresses_Inr [OF h(2)] by auto
  define asked where "asked = (if po_ParseAddr p (trim_brackets host) = None then [Asked host] else [])"
  have mid: "mid = log @ asked"
    using look(1) by (auto simp: lookup_def asked_def split: option.split_asm)
  have once: "case po_ParseAddr p (trim_brackets host) of
      Some literal \<Rightarrow> asked = [] \<and> answers = [Unmap literal]
    | None \<Rightarrow> asked = [Asked host]
        \<and> (\<exists>resolved. po_LookupIP p log host = Inr resolved \<and> resolved_addresses resolved = Inr answers)"
    using look(1) by (auto simp: lookup_def asked_def split: option.split_asm sum.split_asm)
  have port: "port' = port" "a \<in> set tried"
    using assms(2) tried(2) mid by (auto simp: asked_def split: if_split_asm)
  show ?thesis
    using h(1) mid tried once look(2) port by (intro exI [of _ host] exI [of _ answers] exI [of _ asked] exI [of _ tried]) simp
qed

text \<open>A policy that knows one public host.\<close>

definition sample_policy :: Policy where
  "sample_policy = NewPolicy (\<lambda>_. None) (\<lambda>log host. Inr [[CHR 0x5D, CHR 0xB8, CHR 0xD8, CHR 0x22]]) []"

text \<open>A name server that answers with a public address once, and with 127.0.0.1 from then on.\<close>

definition rebinding_policy :: Policy where
  "rebinding_policy =
     NewPolicy (\<lambda>_. None)
       (\<lambda>log host. Inr [if Asked host \<in> set log then [CHR 0x7F, CHR 0x00, CHR 0x00, CHR 0x01]
                       else [CHR 0x5D, CHR 0xB8, CHR 0xD8, CHR 0x22]]) []"

lemma rebinding_dial:
  "DialContext rebinding_policy (\<lambda>log a port. Inr (a, port)) [] ''api.test:6443''
     = ([Asked ''api.test'', Dialled (V4 0x5DB8D822) ''6443''], Inr (V4 0x5DB8D822, ''6443''))"
proof -
  have "SplitHostPort ''api.test:6443'' = Some (''api.test'', ''6443'')" by code_simp
  then show ?thesis
    by (simp add: DialContext_def rebinding_policy_def NewPolicy_def validated_addresses_def lookup_def AddrFromSlice_def
        word_of_bytes_def isAllowed_v4 reserved_v4_def in_block_def)
qed

theorem dialled_addresses_are_allowed_witness:
  "\<exists>answers. resolved_addresses [[CHR 0x5D, CHR 0xB8, CHR 0xD8, CHR 0x22]] = Inr answers
     \<and> po_LookupIP rebinding_policy [] ''api.test'' = Inr [[CHR 0x5D, CHR 0xB8, CHR 0xD8, CHR 0x22]]
     \<and> po_LookupIP rebinding_policy [Asked ''api.test''] ''api.test'' = Inr [[CHR 0x7F, CHR 0x00, CHR 0x00, CHR 0x01]]
     \<and> list_all (isAllowed (po_allowed rebinding_policy)) answers \<and> V4 0x5DB8D822 \<in> set answers"
proof -
  have split: "SplitHostPort ''api.test:6443'' = Some (''api.test'', ''6443'')" by code_simp
  have dialled: "Dialled (V4 0x5DB8D822) ''6443''
      \<in> set (drop (length ([] :: net_event list)) [Asked ''api.test'', Dialled (V4 0x5DB8D822) ''6443''])"
    by simp
  from dialled_addresses_are_allowed [OF rebinding_dial dialled] obtain answers resolved tried
    where "list_all (isAllowed (po_allowed rebinding_policy)) answers" "prefix tried answers" "V4 0x5DB8D822 \<in> set tried"
      "po_LookupIP rebinding_policy [] ''api.test'' = Inr resolved" "resolved_addresses resolved = Inr answers"
    by (auto simp: split rebinding_policy_def NewPolicy_def)
  then show ?thesis
    by (auto simp: rebinding_policy_def NewPolicy_def dest: set_mono_prefix)
qed

text \<open>
  (C39) A gap in the policy: the unspecified IPv6 address is refused, but not when it carries a
  zone, although the system connects to the local host in both cases.
\<close>

theorem zoned_unspecified_is_dialled:
  assumes "parseAddr ''::%lo'' = Some (V6 0 ''lo'')"
  shows "ValidateHost (NewPolicy parseAddr resolver []) log ''::%lo'' = (log, None)
    \<and> fst (DialContext (NewPolicy parseAddr resolver []) dial log ''[::%lo]:6443'') = log @ [Dialled (V6 0 ''lo'') ''6443'']
    \<and> \<not> isAllowed [] (V6 0 [])"
proof -
  have "trim_brackets ''::%lo'' = ''::%lo''" "SplitHostPort ''[::%lo]:6443'' = Some (''::%lo'', ''6443'')"
    by code_simp+
  moreover have zero: "\<not> Is4In6 0" by (simp add: Is4In6_def)
  moreover have "isAllowed [] (V6 0 ''lo'')" "\<not> isAllowed [] (V6 0 [])"
    by (simp_all add: isAllowed_v6 [OF zero] reserved_v6_def in_block_def)
  ultimately show ?thesis
    using assms
    by (auto simp: ValidateHost_def validated_addresses_def lookup_def NewPolicy_def DialContext_def split: sum.splits)
qed

theorem zoned_unspecified_is_dialled_witness:
  "ValidateHost (NewPolicy (\<lambda>s. if s = ''::%lo'' then Some (V6 0 ''lo'') else None) (\<lambda>_ _. Inr []) []) [] ''::%lo'' = ([], None)"
  using zoned_unspecified_is_dialled
    [of "\<lambda>s. if s = ''::%lo'' then Some (V6 0 ''lo'') else None" "\<lambda>_ _. Inr []" "[]" "\<lambda>_ _ _. Inr ()"] by simp

end
