(* ===== verification/Json.thy ===== *)
theory Json
  imports Domain
begin

text \<open>
  Request bodies. A body that is one JSON value arrives as a value of type \<open>json\<close>; the
  decoding of such a value into a Go struct follows \<^verbatim>\<open>encoding/json\<close> with unknown
  fields disallowed: names match up to case, a later occurrence of a field overwrites an earlier
  one, and \<^verbatim>\<open>null\<close> leaves a field as it is (or makes a pointer nil). The input structs
  are those of \<^verbatim>\<open>internal/httpapi/handlers.go\<close>.
\<close>

section \<open>Values and fields\<close>

datatype json =
    JNull
  | JBool bool
  | JInt int
    \<comment> \<open>a number written as an integer\<close>
  | JOtherNumber string
  | JStr string
  | JArr "json list"
  | JObj "(string \<times> json) list"

definition struct_fields :: "string list \<Rightarrow> json \<Rightarrow> (string \<times> json) list option" where
  "struct_fields names j =
     (case j of
        JNull \<Rightarrow> Some []
      | JObj kvs \<Rightarrow> if list_all (\<lambda>(k, v). list_ex (\<lambda>n. equal_fold n k) names) kvs then Some kvs else None
      | _ \<Rightarrow> None)"

text \<open>The value of a field after all its occurrences, or \<open>None\<close> when one has the wrong type.\<close>

definition json_field :: "('a \<Rightarrow> json \<Rightarrow> 'a option) \<Rightarrow> 'a \<Rightarrow> string \<Rightarrow> (string \<times> json) list \<Rightarrow> 'a option" where
  "json_field assign zero name kvs =
     foldl (\<lambda>acc (k, v). if equal_fold name k then Option.bind acc (\<lambda>x. assign x v) else acc) (Some zero) kvs"

definition set_string :: "string \<Rightarrow> json \<Rightarrow> string option" where
  "set_string old v = (case v of JStr s \<Rightarrow> Some s | JNull \<Rightarrow> Some old | _ \<Rightarrow> None)"

definition set_bool_pointer :: "bool option \<Rightarrow> json \<Rightarrow> bool option option" where
  "set_bool_pointer old v = (case v of JBool b \<Rightarrow> Some (Some b) | JNull \<Rightarrow> Some None | _ \<Rightarrow> None)"

definition set_int32_pointer :: "int option \<Rightarrow> json \<Rightarrow> int option option" where
  "set_int32_pointer old v =
     (case v of
        JInt n \<Rightarrow> if - (2 ^ 31) \<le> n \<and> n < 2 ^ 31 then Some (Some n) else None
      | JNull \<Rightarrow> Some None
      | _ \<Rightarrow> None)"

definition set_int :: "int \<Rightarrow> json \<Rightarrow> int option" where
  "set_int old v =
     (case v of
        JInt n \<Rightarrow> if - (2 ^ 63) \<le> n \<and> n < 2 ^ 63 then Some n else None
      | JNull \<Rightarrow> Some old
      | _ \<Rightarrow> None)"

text \<open>A nested struct collects the fields of all its occurrences.\<close>

definition set_struct :: "string list \<Rightarrow> (string \<times> json) list \<Rightarrow> json \<Rightarrow> (string \<times> json) list option" where
  "set_struct names old v = map_option (\<lambda>kvs. old @ kvs) (struct_fields names v)"

abbreviation str_field :: "string \<Rightarrow> (string \<times> json) list \<Rightarrow> string option" where
  "str_field \<equiv> json_field set_string []"

section \<open>The structs of the handlers\<close>

definition environment_of :: "string \<Rightarrow> Environment" where
  "environment_of s =
     (if s = ''development'' then EnvironmentDevelopment
      else if s = ''staging'' then EnvironmentStaging
      else if s = ''production'' then EnvironmentProduction
      else OtherEnvironment s)"

definition login_input :: "json \<Rightarrow> (string \<times> string) option" where
  "login_input j =
     Option.bind (struct_fields [''username'', ''password''] j) (\<lambda>kvs.
     Option.bind (str_field ''username'' kvs) (\<lambda>username.
     Option.bind (str_field ''password'' kvs) (\<lambda>password. Some (username, password))))"

definition createCluster_input :: "json \<Rightarrow> ClusterInput option" where
  "createCluster_input j =
     Option.bind (struct_fields [''name'', ''environment'', ''server'', ''ca_cert'', ''bearer_token''] j) (\<lambda>kvs.
     Option.bind (str_field ''name'' kvs) (\<lambda>name.
     Option.bind (str_field ''environment'' kvs) (\<lambda>environment.
     Option.bind (str_field ''server'' kvs) (\<lambda>server.
     Option.bind (str_field ''ca_cert'' kvs) (\<lambda>caCert.
     Option.bind (str_field ''bearer_token'' kvs) (\<lambda>bearerToken.
     Some \<lparr>ci_Name = name, ci_Environment = environment_of environment, ci_Server = server,
           ci_CACert = caCert, ci_BearerToken = bearerToken\<rparr>))))))"

definition enabled_input :: "json \<Rightarrow> bool option option" where
  "enabled_input j =
     Option.bind (struct_fields [''enabled''] j) (\<lambda>kvs. json_field set_bool_pointer None ''enabled'' kvs)"

definition confirmation_input :: "json \<Rightarrow> string option" where
  "confirmation_input j =
     Option.bind (struct_fields [''confirmation''] j) (\<lambda>kvs. str_field ''confirmation'' kvs)"

definition rotation_input :: "json \<Rightarrow> ClusterCredentialRotationInput option" where
  "rotation_input j =
     Option.bind (struct_fields [''ca_cert'', ''bearer_token'', ''confirmation''] j) (\<lambda>kvs.
     Option.bind (str_field ''ca_cert'' kvs) (\<lambda>caCert.
     Option.bind (str_field ''bearer_token'' kvs) (\<lambda>bearerToken.
     Option.bind (str_field ''confirmation'' kvs) (\<lambda>confirmation.
     Some \<lparr>cr_CACert = caCert, cr_BearerToken = bearerToken, cr_Confirmation = confirmation\<rparr>))))"

definition review_input :: "json \<Rightarrow> KubernetesServiceAccountAccessReviewInput option" where
  "review_input j =
     Option.bind (struct_fields [''service_account'', ''resource_attributes''] j) (\<lambda>kvs.
     Option.bind (json_field (set_struct [''namespace'', ''name'']) [] ''service_account'' kvs) (\<lambda>account.
     Option.bind (str_field ''namespace'' account) (\<lambda>accountNamespace.
     Option.bind (str_field ''name'' account) (\<lambda>accountName.
     Option.bind (json_field (set_struct [''group'', ''resource'', ''subresource'', ''verb'', ''namespace'', ''name'']) []
       ''resource_attributes'' kvs) (\<lambda>attributes.
     Option.bind (str_field ''group'' attributes) (\<lambda>apiGroup.
     Option.bind (str_field ''resource'' attributes) (\<lambda>resource.
     Option.bind (str_field ''subresource'' attributes) (\<lambda>subresource.
     Option.bind (str_field ''verb'' attributes) (\<lambda>verb.
     Option.bind (str_field ''namespace'' attributes) (\<lambda>namespace.
     Option.bind (str_field ''name'' attributes) (\<lambda>name.
     Some \<lparr>sr_ServiceAccount = \<lparr>sa_Namespace = accountNamespace, sa_Name = accountName\<rparr>,
           sr_ResourceAttributes = \<lparr>ra_Group = apiGroup, ra_Resource = resource,
             ra_Subresource = subresource, ra_Verb = verb, ra_Namespace = namespace, ra_Name = name\<rparr>\<rparr>)))))))))))"

definition scale_input :: "json \<Rightarrow> (int option \<times> string \<times> string) option" where
  "scale_input j =
     Option.bind (struct_fields [''replicas'', ''resource_version'', ''confirmation''] j) (\<lambda>kvs.
     Option.bind (json_field set_int32_pointer None ''replicas'' kvs) (\<lambda>replicas.
     Option.bind (str_field ''resource_version'' kvs) (\<lambda>resourceVersion.
     Option.bind (str_field ''confirmation'' kvs) (\<lambda>confirmation.
     Some (replicas, resourceVersion, confirmation)))))"

definition restart_input :: "json \<Rightarrow> (string \<times> string) option" where
  "restart_input j =
     Option.bind (struct_fields [''resource_version'', ''confirmation''] j) (\<lambda>kvs.
     Option.bind (str_field ''resource_version'' kvs) (\<lambda>resourceVersion.
     Option.bind (str_field ''confirmation'' kvs) (\<lambda>confirmation.
     Some (resourceVersion, confirmation))))"

text \<open>The image structs: container, current image, image, resource version and confirmation.\<close>

definition image_input :: "bool \<Rightarrow> json \<Rightarrow> (string \<times> string \<times> string \<times> string \<times> string) option" where
  "image_input confirmed j =
     Option.bind (struct_fields ([''container'', ''current_image'', ''image'', ''resource_version'']
       @ (if confirmed then [''confirmation''] else [])) j) (\<lambda>kvs.
     Option.bind (str_field ''container'' kvs) (\<lambda>container.
     Option.bind (str_field ''current_image'' kvs) (\<lambda>currentImage.
     Option.bind (str_field ''image'' kvs) (\<lambda>image.
     Option.bind (str_field ''resource_version'' kvs) (\<lambda>resourceVersion.
     Option.bind (str_field ''confirmation'' kvs) (\<lambda>confirmation.
     Some (container, currentImage, image, resourceVersion, confirmation)))))))"

definition repository_input :: "json \<Rightarrow> RepositoryInput option" where
  "repository_input j =
     Option.bind (struct_fields [''name'', ''url'', ''username'', ''password''] j) (\<lambda>kvs.
     Option.bind (str_field ''name'' kvs) (\<lambda>name.
     Option.bind (str_field ''url'' kvs) (\<lambda>url.
     Option.bind (str_field ''username'' kvs) (\<lambda>username.
     Option.bind (str_field ''password'' kvs) (\<lambda>password.
     Some \<lparr>ri_Name = name, ri_URL = url, ri_Username = username, ri_Password = password\<rparr>)))))"

definition helm_input :: "json \<Rightarrow> HelmOperationInput option" where
  "helm_input j =
     Option.bind (struct_fields [''cluster_id'', ''namespace'', ''release_name'', ''chart'', ''repository_id'',
       ''version'', ''values'', ''revision''] j) (\<lambda>kvs.
     Option.bind (str_field ''cluster_id'' kvs) (\<lambda>clusterID.
     Option.bind (str_field ''namespace'' kvs) (\<lambda>namespace.
     Option.bind (str_field ''release_name'' kvs) (\<lambda>releaseName.
     Option.bind (str_field ''chart'' kvs) (\<lambda>chart.
     Option.bind (str_field ''repository_id'' kvs) (\<lambda>repositoryID.
     Option.bind (str_field ''version'' kvs) (\<lambda>version.
     Option.bind (str_field ''values'' kvs) (\<lambda>values.
     Option.bind (json_field set_int 0 ''revision'' kvs) (\<lambda>revision.
     Some \<lparr>hi_ClusterID = clusterID, hi_Namespace = namespace, hi_ReleaseName = releaseName,
           hi_Chart = chart, hi_RepositoryID = repositoryID, hi_Version = version, hi_Values = values,
           hi_Revision = revision\<rparr>)))))))))"

definition empty_input :: "json \<Rightarrow> unit option" where
  "empty_input j = map_option (\<lambda>_. ()) (struct_fields [] j)"

end
