(* ===== verification/Handlers.thy ===== *)
theory Handlers
  imports Service Auth Outbound Json
begin

text \<open>
  The handlers of \<^verbatim>\<open>internal/httpapi/handlers.go\<close> and the responses of
  \<^verbatim>\<open>responses.go\<close>: parameters from path, query and body, the call of the service, and
  the translation of its result into a status, headers and a body. The encoding of a body as JSON is
  left out; \<open>payload\<close> says what is encoded. The message texts are UTF-8.
\<close>

section \<open>Requests and responses\<close>

text \<open>
  A request as the handlers see it. \<open>rq_Segments\<close> are the unescaped segments of the path,
  \<open>rq_MediaType\<close> is what \<^verbatim>\<open>mime.ParseMediaType\<close> makes of the content type, and
  \<open>rq_Body\<close> is the JSON value of the body, if the body is one value of at most 1 MiB. The
  last three fields are set on the way: the wildcards of the route, and the request identifier and
  the principal that the context carries.
\<close>

record 'gw request =
  rq_Method :: string
  rq_Path :: string
  rq_Segments :: "string list"
  rq_Query :: "string \<Rightarrow> string"
  rq_Host :: string
  rq_TLS :: bool
  rq_RequestIDHeader :: string
  rq_Origin :: string
  rq_Cookie :: "string option"
  rq_RemoteAddr :: string
  rq_MediaType :: "string option"
  rq_Body :: "json option"
  rq_Context :: "'gw go_context"
  rq_PathValue :: "string \<Rightarrow> string"
  rq_requestID :: string
  rq_principal :: Principal

datatype (plugins only:) payload =
    NoBody
  | ErrorBody string string "(string \<times> string) list" string
    \<comment> \<open>code, message, details and request identifier\<close>
  | StatusBody string
  | PrincipalBody Principal
  | ClusterBody ClusterView
  | ClustersBody "ClusterView list"
  | RepositoryBody RepositoryView
  | RepositoriesBody "RepositoryView list"
  | OperationBody Operation
  | OperationsBody "Operation list"
  | AuditBody "AuditEvent list"
  | CapacityBody OperationCapacity
  | CapabilitiesBody ClusterCapabilities
  | SecretsBody "KubernetesSecret list"
  | ReviewBody KubernetesServiceAccountAccessReview
  | PreviewBody WorkloadImagePreview
  | ReadBody string
    \<comment> \<open>the answer of a cluster or of Helm, as the gateway returned it\<close>
  | FileBody string

record cookie =
  ck_Value :: string
  ck_Expires :: "gtime option"
  ck_MaxAge :: int
  ck_Secure :: bool

text \<open>Every cookie is called \<^verbatim>\<open>panel_session\<close>, has path \<^verbatim>\<open>/\<close>, is HTTP-only and strict.\<close>

record response =
  rs_Status :: nat
  rs_Headers :: "(string \<times> string) list"
  rs_Cookie :: "cookie option"
  rs_Body :: payload

text \<open>What the server is connected to.\<close>

record 'gw http_env =
  hv_env :: "'gw env"
  hv_gateway :: "read_request \<Rightarrow> nat \<Rightarrow> 'gw \<Rightarrow> string result"
  hv_Secrets :: "nat \<Rightarrow> 'gw \<Rightarrow> string \<Rightarrow> KubernetesSecret list result"
  hv_PodLogs :: "nat \<Rightarrow> 'gw \<Rightarrow> PodLogRequest \<Rightarrow> string result"
  hv_Review :: "nat \<Rightarrow> 'gw \<Rightarrow> KubernetesServiceAccountAccessReviewInput \<Rightarrow> KubernetesCapabilityState result"
  hv_Capabilities :: "nat \<Rightarrow> 'gw \<Rightarrow> string \<Rightarrow> KubernetesCapability list result"
  hv_late :: "nat \<Rightarrow> bool"
  hv_HelmList :: "nat \<Rightarrow> Connection \<Rightarrow> string \<Rightarrow> string result"
  hv_HelmHistory :: "nat \<Rightarrow> 'gw \<Rightarrow> string \<Rightarrow> string \<Rightarrow> string result"
  hv_Preview :: "nat \<Rightarrow> 'gw \<Rightarrow> WorkloadImageChange \<Rightarrow> WorkloadImagePreview result"
  hv_Verify :: "string \<Rightarrow> string \<Rightarrow> bool result"
  hv_parseURL :: url_parser
  hv_Stat :: "string \<Rightarrow> bool option"
    \<comment> \<open>whether a path is a directory, if it exists\<close>

type_synonym 'gw handler = "'gw http_env \<Rightarrow> 'gw request \<Rightarrow> 'gw Service \<Rightarrow> 'gw Service \<times> response"

definition validation_message :: string where
  "validation_message = map char_of
    [232, 175, 183, 230, 177, 130, 229, 143, 130, 230, 149, 176, 228, 184, 141, 229, 144, 136,
     230, 179, 149 :: nat]"

definition unauthorized_message :: string where
  "unauthorized_message = map char_of
    [232, 175, 183, 229, 133, 136, 231, 153, 187, 229, 189, 149, 230, 136, 150, 233, 135, 141,
     230, 150, 176, 231, 153, 187, 229, 189, 149 :: nat]"

definition forbidden_message :: string where
  "forbidden_message = map char_of
    [230, 178, 161, 230, 156, 137, 230, 137, 167, 232, 161, 140, 232, 175, 165, 230, 147, 141,
     228, 189, 156, 231, 154, 132, 230, 157, 131, 233, 153, 144 :: nat]"

definition not_found_message :: string where
  "not_found_message = map char_of
    [231, 155, 174, 230, 160, 135, 232, 181, 132, 230, 186, 144, 228, 184, 141, 229, 173, 152,
     229, 156, 168 :: nat]"

definition conflict_message :: string where
  "conflict_message = map char_of
    [232, 181, 132, 230, 186, 144, 229, 144, 141, 231, 167, 176, 230, 136, 150, 231, 138, 182,
     230, 128, 129, 229, 143, 145, 231, 148, 159, 229, 134, 178, 231, 170, 129 :: nat]"

definition invalid_state_message :: string where
  "invalid_state_message = map char_of
    [232, 181, 132, 230, 186, 144, 229, 189, 147, 229, 137, 141, 231, 138, 182, 230, 128, 129,
     228, 184, 141, 229, 133, 129, 232, 174, 184, 232, 175, 165, 230, 147, 141, 228, 189,
     156 :: nat]"

definition busy_message :: string where
  "busy_message = map char_of
    [230, 156, 141, 229, 138, 161, 231, 185, 129, 229, 191, 153, 239, 188, 140, 232, 175, 183,
     231, 168, 141, 229, 144, 142, 233, 135, 141, 232, 175, 149 :: nat]"

definition upstream_timeout_message :: string where
  "upstream_timeout_message = map char_of
    [228, 184, 138, 230, 184, 184, 232, 175, 183, 230, 177, 130, 232, 182, 133, 230, 151,
     182 :: nat]"

definition upstream_message :: string where
  "upstream_message = map char_of
    [228, 184, 138, 230, 184, 184, 230, 156, 141, 229, 138, 161, 228, 184, 141, 229, 143, 175,
     231, 148, 168, 230, 136, 150, 230, 139, 146, 231, 187, 157, 228, 186, 134, 232, 175, 183,
     230, 177, 130 :: nat]"

definition internal_message :: string where
  "internal_message = map char_of
    [230, 156, 141, 229, 138, 161, 229, 164, 132, 231, 144, 134, 232, 175, 183, 230, 177, 130,
     230, 151, 182, 229, 143, 145, 231, 148, 159, 233, 148, 153, 232, 175, 175 :: nat]"

definition invalid_json_message :: string where
  "invalid_json_message = map char_of
    [232, 175, 183, 230, 177, 130, 230, 173, 163, 230, 150, 135, 228, 184, 141, 230, 152, 175,
     230, 156, 137, 230, 149, 136, 231, 154, 132, 32, 74, 83, 79, 78 :: nat]"

definition rate_limited_message :: string where
  "rate_limited_message = map char_of
    [231, 153, 187, 229, 189, 149, 229, 176, 157, 232, 175, 149, 232, 191, 135, 229, 164, 154,
     239, 188, 140, 232, 175, 183, 231, 168, 141, 229, 144, 142, 233, 135, 141, 232, 175,
     149 :: nat]"

definition no_route_message :: string where
  "no_route_message = map char_of
    [230, 142, 165, 229, 143, 163, 228, 184, 141, 229, 173, 152, 229, 156, 168 :: nat]"

definition writeJSON :: "nat \<Rightarrow> (string \<times> string) list \<Rightarrow> payload \<Rightarrow> response" where
  "writeJSON status headers body =
     \<lparr>rs_Status = status, rs_Headers = headers @ [(''Content-Type'', ''application/json; charset=utf-8'')],
      rs_Cookie = None, rs_Body = body\<rparr>"

definition writeData :: "nat \<Rightarrow> payload \<Rightarrow> response" where
  "writeData status body = writeJSON status [] body"

definition writeErrorStatus ::
  "'gw request \<Rightarrow> nat \<Rightarrow> string \<Rightarrow> string \<Rightarrow> (string \<times> string) list \<Rightarrow> response" where
  "writeErrorStatus rq status code message details =
     writeJSON status (if status = 503 \<and> code = ''server_busy'' then [(''Retry-After'', ''2'')] else [])
       (ErrorBody code message details (rq_requestID rq))"

text \<open>\<^verbatim>\<open>errors.As(err, &validationErr)\<close>.\<close>

fun as_validation :: "go_error \<Rightarrow> (string \<times> string) option" where
  "as_validation (ValidationError field message) = Some (field, message)"
| "as_validation (Wrapped text e) = as_validation e"
| "as_validation _ = None"

definition writeError :: "'gw request \<Rightarrow> go_error \<Rightarrow> response" where
  "writeError rq err =
     (case as_validation err of
        Some detail \<Rightarrow> writeErrorStatus rq 422 ''validation_error'' validation_message [detail]
      | None \<Rightarrow>
          if errors_is err ErrUnauthorized then writeErrorStatus rq 401 ''unauthorized'' unauthorized_message []
          else if errors_is err ErrForbidden then writeErrorStatus rq 403 ''forbidden'' forbidden_message []
          else if errors_is err ErrNotFound then writeErrorStatus rq 404 ''not_found'' not_found_message []
          else if errors_is err ErrConflict then writeErrorStatus rq 409 ''conflict'' conflict_message []
          else if errors_is err ErrInvalidState
          then writeErrorStatus rq 409 ''invalid_state'' invalid_state_message []
          else if errors_is err ErrBusy then writeErrorStatus rq 503 ''server_busy'' busy_message []
          else if errors_is err ErrTimeout \<or> errors_is err ContextDeadlineExceeded
          then writeErrorStatus rq 504 ''upstream_timeout'' upstream_timeout_message []
          else if errors_is err ErrUpstream
          then writeErrorStatus rq 502 ''upstream_unavailable'' upstream_message []
          else writeErrorStatus rq 500 ''internal_error'' internal_message [])"

definition writeInvalidJSON :: "'gw request \<Rightarrow> response" where
  "writeInvalidJSON rq = writeErrorStatus rq 400 ''invalid_json'' invalid_json_message []"

definition decodeJSON :: "'gw request \<Rightarrow> (json \<Rightarrow> 'a option) \<Rightarrow> 'a option" where
  "decodeJSON rq decode =
     (if rq_MediaType rq \<noteq> Some ''application/json'' then None
      else Option.bind (rq_Body rq) decode)"

text \<open>The three steps that most handlers consist of.\<close>

definition answered :: "'gw request \<Rightarrow> nat \<Rightarrow> ('a \<Rightarrow> payload) \<Rightarrow> ('gw, 'a) action \<Rightarrow> 'gw Service \<Rightarrow> 'gw Service \<times> response" where
  "answered rq status body call s =
     (case call s of (s, Inl e) \<Rightarrow> (s, writeError rq e) | (s, Inr x) \<Rightarrow> (s, writeData status (body x)))"

definition located ::
  "'gw request \<Rightarrow> nat \<Rightarrow> ('a \<Rightarrow> payload) \<Rightarrow> string \<Rightarrow> ('a \<Rightarrow> string) \<Rightarrow> ('gw, 'a) action \<Rightarrow> 'gw Service \<Rightarrow> 'gw Service \<times> response" where
  "located rq status body base ident call s =
     (case call s of
        (s, Inl e) \<Rightarrow> (s, writeError rq e)
      | (s, Inr x) \<Rightarrow> (s, writeJSON status [(''Location'', base @ ident x)] (body x)))"

definition with_body :: "'gw request \<Rightarrow> (json \<Rightarrow> 'a option) \<Rightarrow> ('a \<Rightarrow> 'gw Service \<Rightarrow> 'gw Service \<times> response) \<Rightarrow>
    'gw Service \<Rightarrow> 'gw Service \<times> response" where
  "with_body rq decode k s =
     (case decodeJSON rq decode of None \<Rightarrow> (s, writeInvalidJSON rq) | Some input \<Rightarrow> k input s)"

definition noContent :: response where
  "noContent = \<lparr>rs_Status = 204, rs_Headers = [], rs_Cookie = None, rs_Body = NoBody\<rparr>"

text \<open>A view beside the error of a connection test: the error wins.\<close>

definition checked :: "('gw, 'a \<times> go_error option) action \<Rightarrow> ('gw, 'a) action" where
  "checked call = andThen call (\<lambda>(view, err). case err of Some e \<Rightarrow> fail e | None \<Rightarrow> ret view)"

section \<open>Parameters\<close>

definition parseBoundedInt :: "string \<Rightarrow> int \<Rightarrow> int \<Rightarrow> int \<Rightarrow> string \<Rightarrow> int result" where
  "parseBoundedInt raw defaultValue minimum maximum field =
     (if raw = [] then Inr defaultValue
      else case Atoi raw of
          None \<Rightarrow> Inl (Invalid field (''must be between '' @ itoa minimum @ '' and '' @ itoa maximum))
        | Some value \<Rightarrow>
            if value < minimum \<or> value > maximum
            then Inl (Invalid field (''must be between '' @ itoa minimum @ '' and '' @ itoa maximum))
            else Inr value)"

definition parseOptionalBool :: "string \<Rightarrow> bool \<Rightarrow> string \<Rightarrow> bool result" where
  "parseOptionalBool raw defaultValue field =
     (if raw = [] then Inr defaultValue
      else case ParseBool raw of None \<Rightarrow> Inl (Invalid field ''must be true or false'') | Some value \<Rightarrow> Inr value)"

definition parseLimit :: "string \<Rightarrow> int result" where
  "parseLimit raw =
     (if raw = [] then Inr 100
      else case Atoi raw of
          None \<Rightarrow> Inl (Invalid ''limit'' ''must be between 1 and 100'')
        | Some limit \<Rightarrow>
            if limit < 1 \<or> limit > 100 then Inl (Invalid ''limit'' ''must be between 1 and 100'') else Inr limit)"

definition webhook_kind_of :: "string \<Rightarrow> KubernetesAdmissionWebhookConfigurationKind" where
  "webhook_kind_of s =
     (if s = ''validating'' then AdmissionWebhookConfigurationValidating
      else if s = ''mutating'' then AdmissionWebhookConfigurationMutating
      else OtherWebhookConfigurationKind s)"

definition access_kind_of :: "string \<Rightarrow> KubernetesAccessResourceKind" where
  "access_kind_of s =
     (if s = ''serviceaccounts'' then AccessResourceServiceAccounts
      else if s = ''roles'' then AccessResourceRoles
      else if s = ''rolebindings'' then AccessResourceRoleBindings
      else if s = ''clusterroles'' then AccessResourceClusterRoles
      else if s = ''clusterrolebindings'' then AccessResourceClusterRoleBindings
      else OtherAccessResourceKind s)"

definition workloadReference :: "'gw request \<Rightarrow> WorkloadReference" where
  "workloadReference rq =
     \<lparr>wr_Kind = rq_PathValue rq ''kind'', wr_Namespace = rq_PathValue rq ''namespace'',
      wr_Name = rq_PathValue rq ''name''\<rparr>"

abbreviation requester :: "'gw request \<Rightarrow> string" where
  "requester rq \<equiv> pr_Username (rq_principal rq)"


section \<open>Clusters\<close>

definition health :: "'gw handler" where
  "health hv rq s = (s, writeData 200 (StatusBody ''ok''))"

definition ready :: "'gw handler" where
  "ready hv rq s = (s, writeData 200 (StatusBody ''ready''))"

definition currentSession :: "'gw handler" where
  "currentSession hv rq s = (s, writeData 200 (PrincipalBody (rq_principal rq)))"

definition listClusters :: "'gw handler" where
  "listClusters hv rq = answered rq 200 ClustersBody (svc_ListClusters (rq_Context rq))"

definition createCluster :: "'gw handler" where
  "createCluster hv rq =
     with_body rq createCluster_input (\<lambda>input.
     located rq 201 ClusterBody ''/api/v1/clusters/'' cv_ID
       (svc_CreateCluster (hv_env hv) (rq_Context rq) (requester rq) (rq_requestID rq) input))"

definition getCluster :: "'gw handler" where
  "getCluster hv rq = answered rq 200 ClusterBody (svc_GetCluster (rq_Context rq) (rq_PathValue rq ''id''))"

definition patchCluster :: "'gw handler" where
  "patchCluster hv rq =
     with_body rq enabled_input (\<lambda>enabled s.
     case enabled of
       None \<Rightarrow> (s, writeError rq (Invalid ''enabled'' ''is required''))
     | Some enabled \<Rightarrow>
         answered rq 200 ClusterBody (SetClusterEnabled (hv_env hv) (rq_Context rq) (requester rq) (rq_requestID rq)
           (rq_PathValue rq ''id'') enabled) s)"

definition deleteCluster :: "'gw handler" where
  "deleteCluster hv rq =
     with_body rq confirmation_input (\<lambda>confirmation s.
     case svc_DeleteCluster (hv_env hv) (rq_Context rq) (requester rq) (rq_requestID rq) (rq_PathValue rq ''id'')
            confirmation s of
       (s, Inl e) \<Rightarrow> (s, writeError rq e)
     | (s, Inr _) \<Rightarrow> (s, noContent))"

definition testCluster :: "'gw handler" where
  "testCluster hv rq =
     answered rq 200 ClusterBody (checked (TestClusterConnection (hv_env hv) (rq_Context rq) (requester rq)
       (rq_requestID rq) (rq_PathValue rq ''id'')))"

definition rotateClusterCredentials :: "'gw handler" where
  "rotateClusterCredentials hv rq =
     with_body rq rotation_input (\<lambda>input.
     answered rq 200 ClusterBody (svc_RotateClusterCredentials (hv_env hv) (rq_Context rq) (requester rq)
       (rq_requestID rq) (rq_PathValue rq ''id'') input))"

definition clusterCapabilities :: "'gw handler" where
  "clusterCapabilities hv rq =
     answered rq 200 CapabilitiesBody (svc_ClusterCapabilities (hv_env hv) (hv_Capabilities hv) (hv_late hv)
       (rq_Context rq) (rq_PathValue rq ''id'') (rq_Query rq ''namespace''))"

section \<open>Reads\<close>

definition clusterSummary :: "'gw handler" where
  "clusterSummary hv rq =
     answered rq 200 ReadBody (serve_read (hv_env hv) (hv_gateway hv) (rq_Context rq) (rq_PathValue rq ''id'')
       RqSummary)"

definition listNamespaces :: "'gw handler" where
  "listNamespaces hv rq =
     answered rq 200 ReadBody (serve_read (hv_env hv) (hv_gateway hv) (rq_Context rq) (rq_PathValue rq ''id'')
       RqNamespaces)"

definition listPodSecurityAdmissionNamespaces :: "'gw handler" where
  "listPodSecurityAdmissionNamespaces hv rq =
     answered rq 200 ReadBody (serve_read (hv_env hv) (hv_gateway hv) (rq_Context rq) (rq_PathValue rq ''id'')
       RqPodSecurityAdmissionNamespaces)"

definition nodeVersionSkew :: "'gw handler" where
  "nodeVersionSkew hv rq =
     answered rq 200 ReadBody (serve_read (hv_env hv) (hv_gateway hv) (rq_Context rq) (rq_PathValue rq ''id'')
       RqNodeVersionSkew)"

definition listDeprecatedAPIRequests :: "'gw handler" where
  "listDeprecatedAPIRequests hv rq =
     answered rq 200 ReadBody (serve_read (hv_env hv) (hv_gateway hv) (rq_Context rq) (rq_PathValue rq ''id'')
       RqDeprecatedAPIRequests)"

definition endpointCertificate :: "'gw handler" where
  "endpointCertificate hv rq =
     answered rq 200 ReadBody (serve_read (hv_env hv) (hv_gateway hv) (rq_Context rq) (rq_PathValue rq ''id'')
       RqEndpointCertificate)"

definition apiServerReadiness :: "'gw handler" where
  "apiServerReadiness hv rq =
     answered rq 200 ReadBody (serve_read (hv_env hv) (hv_gateway hv) (rq_Context rq) (rq_PathValue rq ''id'')
       RqAPIServerReadiness)"

definition listDisruptionBudgetEvidence :: "'gw handler" where
  "listDisruptionBudgetEvidence hv rq =
     answered rq 200 ReadBody (serve_read (hv_env hv) (hv_gateway hv) (rq_Context rq) (rq_PathValue rq ''id'')
       RqDisruptionBudgets)"

definition listNodes :: "'gw handler" where
  "listNodes hv rq =
     answered rq 200 ReadBody (serve_read (hv_env hv) (hv_gateway hv) (rq_Context rq) (rq_PathValue rq ''id'')
       RqNodes)"

definition getNodeDetail :: "'gw handler" where
  "getNodeDetail hv rq =
     answered rq 200 ReadBody (serve_read (hv_env hv) (hv_gateway hv) (rq_Context rq) (rq_PathValue rq ''id'')
       (RqNodeDetail (rq_PathValue rq ''name'')))"

definition listNodeEvents :: "'gw handler" where
  "listNodeEvents hv rq s =
     (case parseBoundedInt (rq_Query rq ''limit'') 50 1 MaxNodeEventLimit ''limit'' of
        Inl e \<Rightarrow> (s, writeError rq e)
      | Inr limit \<Rightarrow>
     answered rq 200 ReadBody (serve_read (hv_env hv) (hv_gateway hv) (rq_Context rq) (rq_PathValue rq ''id'')
       (RqNodeEvents (rq_PathValue rq ''name'') limit)) s)"

definition listCustomResourceDefinitions :: "'gw handler" where
  "listCustomResourceDefinitions hv rq =
     answered rq 200 ReadBody (serve_read (hv_env hv) (hv_gateway hv) (rq_Context rq) (rq_PathValue rq ''id'')
       RqCustomResourceDefinitions)"

definition getCustomResourceDefinition :: "'gw handler" where
  "getCustomResourceDefinition hv rq =
     answered rq 200 ReadBody (serve_read (hv_env hv) (hv_gateway hv) (rq_Context rq) (rq_PathValue rq ''id'')
       (RqCustomResourceDefinition (rq_PathValue rq ''name'')))"

definition listCertificateSigningRequests :: "'gw handler" where
  "listCertificateSigningRequests hv rq =
     answered rq 200 ReadBody (serve_read (hv_env hv) (hv_gateway hv) (rq_Context rq) (rq_PathValue rq ''id'')
       RqCertificateSigningRequests)"

definition getCertificateSigningRequest :: "'gw handler" where
  "getCertificateSigningRequest hv rq =
     answered rq 200 ReadBody (serve_read (hv_env hv) (hv_gateway hv) (rq_Context rq) (rq_PathValue rq ''id'')
       (RqCertificateSigningRequest (rq_PathValue rq ''name'')))"

definition listPriorityClasses :: "'gw handler" where
  "listPriorityClasses hv rq =
     answered rq 200 ReadBody (serve_read (hv_env hv) (hv_gateway hv) (rq_Context rq) (rq_PathValue rq ''id'')
       RqPriorityClasses)"

definition getPriorityClass :: "'gw handler" where
  "getPriorityClass hv rq =
     answered rq 200 ReadBody (serve_read (hv_env hv) (hv_gateway hv) (rq_Context rq) (rq_PathValue rq ''id'')
       (RqPriorityClass (rq_PathValue rq ''name'')))"

definition listRuntimeClasses :: "'gw handler" where
  "listRuntimeClasses hv rq =
     answered rq 200 ReadBody (serve_read (hv_env hv) (hv_gateway hv) (rq_Context rq) (rq_PathValue rq ''id'')
       RqRuntimeClasses)"

definition getRuntimeClass :: "'gw handler" where
  "getRuntimeClass hv rq =
     answered rq 200 ReadBody (serve_read (hv_env hv) (hv_gateway hv) (rq_Context rq) (rq_PathValue rq ''id'')
       (RqRuntimeClass (rq_PathValue rq ''name'')))"

definition listAPIServices :: "'gw handler" where
  "listAPIServices hv rq =
     answered rq 200 ReadBody (serve_read (hv_env hv) (hv_gateway hv) (rq_Context rq) (rq_PathValue rq ''id'')
       RqAPIServices)"

definition listAdmissionWebhookConfigurations :: "'gw handler" where
  "listAdmissionWebhookConfigurations hv rq =
     answered rq 200 ReadBody (serve_read (hv_env hv) (hv_gateway hv) (rq_Context rq) (rq_PathValue rq ''id'')
       (RqAdmissionWebhookConfigurations (webhook_kind_of (rq_Query rq ''kind''))))"

definition getAdmissionWebhookConfiguration :: "'gw handler" where
  "getAdmissionWebhookConfiguration hv rq =
     answered rq 200 ReadBody (serve_read (hv_env hv) (hv_gateway hv) (rq_Context rq) (rq_PathValue rq ''id'')
       (RqAdmissionWebhookConfiguration (webhook_kind_of (rq_Query rq ''kind'')) (rq_PathValue rq ''name'')))"

definition listValidatingAdmissionPolicies :: "'gw handler" where
  "listValidatingAdmissionPolicies hv rq =
     answered rq 200 ReadBody (serve_read (hv_env hv) (hv_gateway hv) (rq_Context rq) (rq_PathValue rq ''id'')
       RqValidatingAdmissionPolicies)"

definition getValidatingAdmissionPolicy :: "'gw handler" where
  "getValidatingAdmissionPolicy hv rq =
     answered rq 200 ReadBody (serve_read (hv_env hv) (hv_gateway hv) (rq_Context rq) (rq_PathValue rq ''id'')
       (RqValidatingAdmissionPolicy (rq_PathValue rq ''name'')))"

definition listValidatingAdmissionPolicyBindings :: "'gw handler" where
  "listValidatingAdmissionPolicyBindings hv rq =
     answered rq 200 ReadBody (serve_read (hv_env hv) (hv_gateway hv) (rq_Context rq) (rq_PathValue rq ''id'')
       RqValidatingAdmissionPolicyBindings)"

definition getValidatingAdmissionPolicyBinding :: "'gw handler" where
  "getValidatingAdmissionPolicyBinding hv rq =
     answered rq 200 ReadBody (serve_read (hv_env hv) (hv_gateway hv) (rq_Context rq) (rq_PathValue rq ''id'')
       (RqValidatingAdmissionPolicyBinding (rq_PathValue rq ''name'')))"

definition listEvents :: "'gw handler" where
  "listEvents hv rq s =
     (case parseBoundedInt (rq_Query rq ''limit'') 200 1 MaxClusterEventLimit ''limit'' of
        Inl e \<Rightarrow> (s, writeError rq e)
      | Inr limit \<Rightarrow>
     answered rq 200 ReadBody (serve_read (hv_env hv) (hv_gateway hv) (rq_Context rq) (rq_PathValue rq ''id'')
       (RqEvents (rq_Query rq ''namespace'') (rq_Query rq ''type'') limit)) s)"

definition listWorkloads :: "'gw handler" where
  "listWorkloads hv rq =
     answered rq 200 ReadBody (serve_read (hv_env hv) (hv_gateway hv) (rq_Context rq) (rq_PathValue rq ''id'')
       (RqWorkloads (rq_Query rq ''namespace'') (rq_Query rq ''kind'')))"

definition listServices :: "'gw handler" where
  "listServices hv rq =
     answered rq 200 ReadBody (serve_read (hv_env hv) (hv_gateway hv) (rq_Context rq) (rq_PathValue rq ''id'')
       (RqServices (rq_Query rq ''namespace'')))"

definition listIngresses :: "'gw handler" where
  "listIngresses hv rq =
     answered rq 200 ReadBody (serve_read (hv_env hv) (hv_gateway hv) (rq_Context rq) (rq_PathValue rq ''id'')
       (RqIngresses (rq_Query rq ''namespace'')))"

definition listEndpointSlices :: "'gw handler" where
  "listEndpointSlices hv rq =
     answered rq 200 ReadBody (serve_read (hv_env hv) (hv_gateway hv) (rq_Context rq) (rq_PathValue rq ''id'')
       (RqEndpointSlices (rq_Query rq ''namespace'')))"

definition listNetworkPolicies :: "'gw handler" where
  "listNetworkPolicies hv rq =
     answered rq 200 ReadBody (serve_read (hv_env hv) (hv_gateway hv) (rq_Context rq) (rq_PathValue rq ''id'')
       (RqNetworkPolicies (rq_Query rq ''namespace'')))"

definition listConfigMaps :: "'gw handler" where
  "listConfigMaps hv rq =
     answered rq 200 ReadBody (serve_read (hv_env hv) (hv_gateway hv) (rq_Context rq) (rq_PathValue rq ''id'')
       (RqConfigMaps (rq_Query rq ''namespace'')))"

definition listPersistentVolumeClaims :: "'gw handler" where
  "listPersistentVolumeClaims hv rq =
     answered rq 200 ReadBody (serve_read (hv_env hv) (hv_gateway hv) (rq_Context rq) (rq_PathValue rq ''id'')
       (RqPersistentVolumeClaims (rq_Query rq ''namespace'')))"

definition listPersistentVolumes :: "'gw handler" where
  "listPersistentVolumes hv rq =
     answered rq 200 ReadBody (serve_read (hv_env hv) (hv_gateway hv) (rq_Context rq) (rq_PathValue rq ''id'')
       RqPersistentVolumes)"

definition listStorageClasses :: "'gw handler" where
  "listStorageClasses hv rq =
     answered rq 200 ReadBody (serve_read (hv_env hv) (hv_gateway hv) (rq_Context rq) (rq_PathValue rq ''id'')
       RqStorageClasses)"

definition listVolumeAttachments :: "'gw handler" where
  "listVolumeAttachments hv rq =
     answered rq 200 ReadBody (serve_read (hv_env hv) (hv_gateway hv) (rq_Context rq) (rq_PathValue rq ''id'')
       RqVolumeAttachments)"

definition listCSIStorageCapacities :: "'gw handler" where
  "listCSIStorageCapacities hv rq =
     answered rq 200 ReadBody (serve_read (hv_env hv) (hv_gateway hv) (rq_Context rq) (rq_PathValue rq ''id'')
       (RqCSIStorageCapacities (rq_Query rq ''namespace'')))"

definition listVolumeAttributesClasses :: "'gw handler" where
  "listVolumeAttributesClasses hv rq =
     answered rq 200 ReadBody (serve_read (hv_env hv) (hv_gateway hv) (rq_Context rq) (rq_PathValue rq ''id'')
       RqVolumeAttributesClasses)"

definition listCSIDrivers :: "'gw handler" where
  "listCSIDrivers hv rq =
     answered rq 200 ReadBody (serve_read (hv_env hv) (hv_gateway hv) (rq_Context rq) (rq_PathValue rq ''id'')
       RqCSIDrivers)"

definition getCSIDriver :: "'gw handler" where
  "getCSIDriver hv rq =
     answered rq 200 ReadBody (serve_read (hv_env hv) (hv_gateway hv) (rq_Context rq) (rq_PathValue rq ''id'')
       (RqCSIDriver (rq_PathValue rq ''name'')))"

definition listCSINodes :: "'gw handler" where
  "listCSINodes hv rq =
     answered rq 200 ReadBody (serve_read (hv_env hv) (hv_gateway hv) (rq_Context rq) (rq_PathValue rq ''id'')
       RqCSINodes)"

definition getCSINode :: "'gw handler" where
  "getCSINode hv rq =
     answered rq 200 ReadBody (serve_read (hv_env hv) (hv_gateway hv) (rq_Context rq) (rq_PathValue rq ''id'')
       (RqCSINode (rq_PathValue rq ''name'')))"

definition listResourceQuotas :: "'gw handler" where
  "listResourceQuotas hv rq =
     answered rq 200 ReadBody (serve_read (hv_env hv) (hv_gateway hv) (rq_Context rq) (rq_PathValue rq ''id'')
       (RqResourceQuotas (rq_Query rq ''namespace'')))"

definition listLimitRanges :: "'gw handler" where
  "listLimitRanges hv rq =
     answered rq 200 ReadBody (serve_read (hv_env hv) (hv_gateway hv) (rq_Context rq) (rq_PathValue rq ''id'')
       (RqLimitRanges (rq_Query rq ''namespace'')))"

definition listHorizontalPodAutoscalers :: "'gw handler" where
  "listHorizontalPodAutoscalers hv rq =
     answered rq 200 ReadBody (serve_read (hv_env hv) (hv_gateway hv) (rq_Context rq) (rq_PathValue rq ''id'')
       (RqHorizontalPodAutoscalers (rq_Query rq ''namespace'')))"

definition listPodDisruptionBudgets :: "'gw handler" where
  "listPodDisruptionBudgets hv rq =
     answered rq 200 ReadBody (serve_read (hv_env hv) (hv_gateway hv) (rq_Context rq) (rq_PathValue rq ''id'')
       (RqPodDisruptionBudgets (rq_Query rq ''namespace'')))"

definition listAccessResources :: "'gw handler" where
  "listAccessResources hv rq =
     answered rq 200 ReadBody (serve_read (hv_env hv) (hv_gateway hv) (rq_Context rq) (rq_PathValue rq ''id'')
       (RqAccessResources (access_kind_of (rq_Query rq ''kind'')) (rq_Query rq ''namespace'')))"

definition getAccessResourceDetail :: "'gw handler" where
  "getAccessResourceDetail hv rq =
     answered rq 200 ReadBody (serve_read (hv_env hv) (hv_gateway hv) (rq_Context rq) (rq_PathValue rq ''id'')
       (RqAccessResourceDetail \<lparr>ar_Kind = (access_kind_of (rq_PathValue rq ''kind'')), ar_Namespace = (rq_Query rq ''namespace''), ar_Name = (rq_PathValue rq ''name'')\<rparr>))"

definition getWorkloadDetail :: "'gw handler" where
  "getWorkloadDetail hv rq =
     answered rq 200 ReadBody (serve_read (hv_env hv) (hv_gateway hv) (rq_Context rq) (rq_PathValue rq ''id'')
       (RqWorkloadDetail (workloadReference rq)))"

definition getDeploymentRevisionHistory :: "'gw handler" where
  "getDeploymentRevisionHistory hv rq =
     answered rq 200 ReadBody (serve_read (hv_env hv) (hv_gateway hv) (rq_Context rq) (rq_PathValue rq ''id'')
       (RqDeploymentRevisionHistory (workloadReference rq)))"

definition listWorkloadEvents :: "'gw handler" where
  "listWorkloadEvents hv rq s =
     (case parseBoundedInt (rq_Query rq ''limit'') 50 1 MaxWorkloadEventLimit ''limit'' of
        Inl e \<Rightarrow> (s, writeError rq e)
      | Inr limit \<Rightarrow>
     answered rq 200 ReadBody (serve_read (hv_env hv) (hv_gateway hv) (rq_Context rq) (rq_PathValue rq ''id'')
       (RqWorkloadEvents (workloadReference rq) limit)) s)"

definition listSecrets :: "'gw handler" where
  "listSecrets hv rq =
     answered rq 200 SecretsBody (Secrets (hv_env hv) (hv_Secrets hv) (rq_Context rq) (requester rq)
       (rq_requestID rq) (rq_PathValue rq ''id'') (rq_Query rq ''namespace''))"

definition reviewServiceAccountAccess :: "'gw handler" where
  "reviewServiceAccountAccess hv rq =
     with_body rq review_input (\<lambda>input.
     answered rq 200 ReviewBody (ReviewServiceAccountAccess (hv_env hv) (hv_Review hv) (rq_Context rq) (requester rq)
       (rq_requestID rq) (rq_PathValue rq ''id'') input))"

definition getPodLogs :: "'gw handler" where
  "getPodLogs hv rq s =
     (case parseBoundedInt (rq_Query rq ''tail_lines'') 200 1 MaxPodLogTailLines ''tail_lines'' of
        Inl e \<Rightarrow> (s, writeError rq e)
      | Inr tailLines \<Rightarrow>
     (case parseOptionalBool (rq_Query rq ''previous'') False ''previous'' of
        Inl e \<Rightarrow> (s, writeError rq e)
      | Inr previous \<Rightarrow>
     (case parseOptionalBool (rq_Query rq ''timestamps'') True ''timestamps'' of
        Inl e \<Rightarrow> (s, writeError rq e)
      | Inr timestamps \<Rightarrow>
     answered rq 200 ReadBody (PodLogs (hv_env hv) (hv_PodLogs hv) (rq_Context rq) (requester rq) (rq_requestID rq)
       (rq_PathValue rq ''id'')
       \<lparr>pl_Namespace = rq_PathValue rq ''namespace'', pl_Pod = rq_PathValue rq ''name'',
        pl_Container = rq_Query rq ''container'', pl_TailLines = tailLines, pl_Previous = previous,
        pl_Timestamps = timestamps\<rparr>) s)))"

section \<open>Operations\<close>

definition submitWorkloadOperation :: "OperationKind \<Rightarrow> WorkloadOperationInput \<Rightarrow> 'gw handler" where
  "submitWorkloadOperation kind input hv rq =
     located rq 202 OperationBody ''/api/v1/operations/'' op_ID
       (SubmitWorkloadOperation (hv_env hv) (rq_Context rq) (requester rq) (rq_requestID rq) kind
         (input\<lparr>wi_ClusterID := rq_PathValue rq ''id'', wi_Reference := workloadReference rq\<rparr>))"

definition scaleWorkload :: "'gw handler" where
  "scaleWorkload hv rq =
     with_body rq scale_input (\<lambda>(replicas, resourceVersion, confirmation).
     submitWorkloadOperation OperationWorkloadScale
       \<lparr>wi_ClusterID = [], wi_Reference = workloadReference rq, wi_ResourceVersion = resourceVersion,
        wi_Replicas = replicas, wi_Confirmation = confirmation\<rparr> hv rq)"

definition restartWorkload :: "'gw handler" where
  "restartWorkload hv rq =
     with_body rq restart_input (\<lambda>(resourceVersion, confirmation).
     submitWorkloadOperation OperationWorkloadRestart
       \<lparr>wi_ClusterID = [], wi_Reference = workloadReference rq, wi_ResourceVersion = resourceVersion,
        wi_Replicas = None, wi_Confirmation = confirmation\<rparr> hv rq)"

definition workloadImageOperationInput ::
  "'gw request \<Rightarrow> string \<times> string \<times> string \<times> string \<times> string \<Rightarrow> WorkloadImageOperationInput" where
  "workloadImageOperationInput rq =
     (\<lambda>(container, currentImage, image, resourceVersion, confirmation).
     \<lparr>wo_ClusterID = rq_PathValue rq ''id'',
      wo_Change = \<lparr>wc_Reference = workloadReference rq, wc_ResourceVersion = resourceVersion,
        wc_Container = container, wc_CurrentImage = currentImage, wc_Image = image\<rparr>,
      wo_Confirmation = confirmation\<rparr>)"

definition previewWorkloadImage :: "'gw handler" where
  "previewWorkloadImage hv rq =
     with_body rq (image_input False) (\<lambda>input.
     answered rq 200 PreviewBody (PreviewWorkloadImage (hv_env hv) (hv_Preview hv) (rq_Context rq) (requester rq)
       (rq_requestID rq) (workloadImageOperationInput rq input)))"

definition updateWorkloadImage :: "'gw handler" where
  "updateWorkloadImage hv rq =
     with_body rq (image_input True) (\<lambda>input.
     located rq 202 OperationBody ''/api/v1/operations/'' op_ID
       (SubmitWorkloadImageUpdate (hv_env hv) (rq_Context rq) (requester rq) (rq_requestID rq)
         (workloadImageOperationInput rq input)))"

definition submitHelm :: "OperationKind \<Rightarrow> HelmOperationInput \<Rightarrow> 'gw handler" where
  "submitHelm kind input hv rq =
     located rq 202 OperationBody ''/api/v1/operations/'' op_ID
       (SubmitHelmOperation (hv_env hv) (rq_Context rq) (requester rq) (rq_requestID rq) kind input)"

definition installHelmRelease :: "'gw handler" where
  "installHelmRelease hv rq = with_body rq helm_input (\<lambda>input. submitHelm OperationHelmInstall input hv rq)"

definition upgradeHelmRelease :: "'gw handler" where
  "upgradeHelmRelease hv rq =
     with_body rq helm_input (\<lambda>input.
     submitHelm OperationHelmUpgrade (input\<lparr>hi_ReleaseName := rq_PathValue rq ''name''\<rparr>) hv rq)"

definition rollbackHelmRelease :: "'gw handler" where
  "rollbackHelmRelease hv rq =
     with_body rq helm_input (\<lambda>input.
     submitHelm OperationHelmRollback (input\<lparr>hi_ReleaseName := rq_PathValue rq ''name''\<rparr>) hv rq)"

definition uninstallHelmRelease :: "'gw handler" where
  "uninstallHelmRelease hv rq =
     with_body rq helm_input (\<lambda>input.
     submitHelm OperationHelmUninstall (input\<lparr>hi_ReleaseName := rq_PathValue rq ''name''\<rparr>) hv rq)"

definition listHelmReleases :: "'gw handler" where
  "listHelmReleases hv rq s =
     (let clusterID = rq_Query rq ''cluster_id'' in
      if clusterID = [] then (s, writeError rq (Invalid ''cluster_id'' ''is required''))
      else answered rq 200 ReadBody (ListHelmReleases (hv_env hv) (hv_HelmList hv) (rq_Context rq) clusterID
             (rq_Query rq ''namespace'')) s)"

definition getHelmReleaseHistory :: "'gw handler" where
  "getHelmReleaseHistory hv rq s =
     (let clusterID = rq_Query rq ''cluster_id'' in
      if clusterID = [] then (s, writeError rq (Invalid ''cluster_id'' ''is required''))
      else answered rq 200 ReadBody (svc_HelmReleaseHistory (hv_env hv) (hv_HelmHistory hv) (rq_Context rq)
             clusterID (rq_Query rq ''namespace'') (rq_PathValue rq ''name'')) s)"

definition listOperations :: "'gw handler" where
  "listOperations hv rq s =
     (case parseLimit (rq_Query rq ''limit'') of
        Inl e \<Rightarrow> (s, writeError rq e)
      | Inr limit \<Rightarrow> answered rq 200 OperationsBody (svc_ListOperations (rq_Context rq) limit) s)"

definition getOperation :: "'gw handler" where
  "getOperation hv rq = answered rq 200 OperationBody (svc_GetOperation (rq_Context rq) (rq_PathValue rq ''id''))"

definition cancelOperation :: "'gw handler" where
  "cancelOperation hv rq =
     with_body rq empty_input (\<lambda>_.
     answered rq 200 OperationBody (CancelOperation (hv_env hv) (rq_Context rq) (requester rq) (rq_requestID rq)
       (rq_PathValue rq ''id'')))"

definition listAuditEvents :: "'gw handler" where
  "listAuditEvents hv rq s =
     (case parseLimit (rq_Query rq ''limit'') of
        Inl e \<Rightarrow> (s, writeError rq e)
      | Inr limit \<Rightarrow> answered rq 200 AuditBody (svc_ListAuditEvents (rq_Context rq) limit) s)"

definition systemResources :: "'gw handler" where
  "systemResources hv rq s =
     (case svc_OperationCapacity (hv_env hv) s of (s, current) \<Rightarrow> (s, writeData 200 (CapacityBody current)))"

section \<open>Chart repositories\<close>

definition listRepositories :: "'gw handler" where
  "listRepositories hv rq = answered rq 200 RepositoriesBody (svc_ListRepositories (rq_Context rq))"

definition createRepository :: "'gw handler" where
  "createRepository hv rq =
     with_body rq repository_input (\<lambda>input.
     located rq 201 RepositoryBody ''/api/v1/chart-repositories/'' rv_ID
       (svc_CreateRepository (hv_env hv) (rq_Context rq) (requester rq) (rq_requestID rq) input))"

definition patchRepository :: "'gw handler" where
  "patchRepository hv rq =
     with_body rq enabled_input (\<lambda>enabled s.
     case enabled of
       None \<Rightarrow> (s, writeError rq (Invalid ''enabled'' ''is required''))
     | Some enabled \<Rightarrow>
         answered rq 200 RepositoryBody (SetRepositoryEnabled (hv_env hv) (rq_Context rq) (requester rq)
           (rq_requestID rq) (rq_PathValue rq ''id'') enabled) s)"

definition deleteRepository :: "'gw handler" where
  "deleteRepository hv rq s =
     (case svc_DeleteRepository (hv_env hv) (rq_Context rq) (requester rq) (rq_requestID rq) (rq_PathValue rq ''id'') s of
        (s, Inl e) \<Rightarrow> (s, writeError rq e)
      | (s, Inr _) \<Rightarrow> (s, noContent))"

definition http_testRepository :: "'gw handler" where
  "http_testRepository hv rq =
     answered rq 200 RepositoryBody (checked (TestRepository (hv_env hv) (rq_Context rq) (requester rq)
       (rq_requestID rq) (rq_PathValue rq ''id'')))"

end
