(* ===== verification/Server.thy ===== *)
theory Server
  imports Handlers
begin

text \<open>
  The HTTP server of \<^verbatim>\<open>internal/httpapi/server.go\<close>: the routes, the request
  identifier and security headers, the bound on concurrent requests, authentication and origin
  check in front of every handler, login and logout, and the static files. The routes are matched
  as \<^verbatim>\<open>http.ServeMux\<close> does it.
\<close>

section \<open>State\<close>

record 'gw Server =
  srv_service :: "'gw Service"
  srv_sessions :: SessionManager
  srv_staticDir :: string
  srv_secureCookies :: bool
  srv_loginLimiter :: failureLimiter
  srv_requestSlots :: nat
  srv_maxRequests :: nat

text \<open>What the clock and the random source answer while a request is served, in the order of the calls.\<close>

record moment =
  mo_requestID :: random_source
  mo_blocked :: gtime
  mo_token :: random_source
  mo_expiry :: gtime
  mo_session :: gtime
  mo_failed :: gtime

definition http_New ::
  "bool \<Rightarrow> bool \<Rightarrow> string \<Rightarrow> bool \<Rightarrow> int \<Rightarrow> 'gw Service \<Rightarrow> SessionManager \<Rightarrow> 'gw Server result" where
  "http_New serviceSet sessionsSet staticDir secureCookies maxConcurrentRequests service sessions =
     (if \<not> serviceSet \<or> \<not> sessionsSet then Inl (NewError ''service and session manager are required'')
      else let maxConcurrentRequests = (if maxConcurrentRequests = 0 then 16 else maxConcurrentRequests) in
        if maxConcurrentRequests < 1 \<or> maxConcurrentRequests > 128
        then Inl (NewError ''max concurrent requests must be between 1 and 128'')
        else Inr \<lparr>srv_service = service, srv_sessions = sessions, srv_staticDir = staticDir,
                  srv_secureCookies = secureCookies,
                  srv_loginLimiter = newFailureLimiter 5 (5 * minute) 10000,
                  srv_requestSlots = 0, srv_maxRequests = nat maxConcurrentRequests\<rparr>)"

section \<open>Routes\<close>

datatype pat = Lit string | Wild string

datatype (plugins only:) 'gw target =
    Public "'gw handler"
  | Protected "'gw handler"
  | LoginRoute
  | LogoutRoute

abbreviation api :: "pat list \<Rightarrow> pat list" where
  "api ps \<equiv> Lit ''api'' # Lit ''v1'' # ps"

abbreviation cluster :: "pat list \<Rightarrow> pat list" where
  "cluster ps \<equiv> api (Lit ''clusters'' # Wild ''id'' # ps)"

definition routes :: "(string \<times> pat list \<times> 'gw target) list" where
  "routes = [
     (''GET'', [Lit ''healthz''], Public health),
     (''GET'', [Lit ''readyz''], Public ready),
     (''POST'', api [Lit ''session''], LoginRoute),
     (''GET'', api [Lit ''session''], Protected currentSession),
     (''DELETE'', api [Lit ''session''], LogoutRoute),
     (''GET'', api [Lit ''clusters''], Protected listClusters),
     (''POST'', api [Lit ''clusters''], Protected createCluster),
     (''GET'', cluster [], Protected getCluster),
     (''PATCH'', cluster [], Protected patchCluster),
     (''DELETE'', cluster [], Protected deleteCluster),
     (''POST'', cluster [Lit ''connection-tests''], Protected testCluster),
     (''POST'', cluster [Lit ''credential-rotations''], Protected rotateClusterCredentials),
     (''GET'', cluster [Lit ''capabilities''], Protected clusterCapabilities),
     (''GET'', cluster [Lit ''summary''], Protected clusterSummary),
     (''GET'', cluster [Lit ''namespaces''], Protected listNamespaces),
     (''GET'', cluster [Lit ''pod-security-admission'', Lit ''namespaces''], Protected listPodSecurityAdmissionNamespaces),
     (''GET'', cluster [Lit ''upgrade-readiness'', Lit ''node-versions''], Protected nodeVersionSkew),
     (''GET'', cluster [Lit ''upgrade-readiness'', Lit ''deprecated-apis''], Protected listDeprecatedAPIRequests),
     (''GET'', cluster [Lit ''upgrade-readiness'', Lit ''endpoint-certificate''], Protected endpointCertificate),
     (''GET'', cluster [Lit ''control-plane'', Lit ''readiness''], Protected apiServerReadiness),
     (''GET'', cluster [Lit ''upgrade-readiness'', Lit ''disruption-budgets''], Protected listDisruptionBudgetEvidence),
     (''GET'', cluster [Lit ''nodes''], Protected listNodes),
     (''GET'', cluster [Lit ''nodes'', Wild ''name''], Protected getNodeDetail),
     (''GET'', cluster [Lit ''nodes'', Wild ''name'', Lit ''events''], Protected listNodeEvents),
     (''GET'', cluster [Lit ''custom-resource-definitions''], Protected listCustomResourceDefinitions),
     (''GET'', cluster [Lit ''custom-resource-definitions'', Wild ''name''], Protected getCustomResourceDefinition),
     (''GET'', cluster [Lit ''certificate-signing-requests''], Protected listCertificateSigningRequests),
     (''GET'', cluster [Lit ''certificate-signing-requests'', Wild ''name''], Protected getCertificateSigningRequest),
     (''GET'', cluster [Lit ''priority-classes''], Protected listPriorityClasses),
     (''GET'', cluster [Lit ''priority-classes'', Wild ''name''], Protected getPriorityClass),
     (''GET'', cluster [Lit ''runtime-classes''], Protected listRuntimeClasses),
     (''GET'', cluster [Lit ''runtime-classes'', Wild ''name''], Protected getRuntimeClass),
     (''GET'', cluster [Lit ''api-services''], Protected listAPIServices),
     (''GET'', cluster [Lit ''admission-webhook-configurations''], Protected listAdmissionWebhookConfigurations),
     (''GET'', cluster [Lit ''admission-webhook-configurations'', Wild ''name''], Protected getAdmissionWebhookConfiguration),
     (''GET'', cluster [Lit ''validating-admission-policies''], Protected listValidatingAdmissionPolicies),
     (''GET'', cluster [Lit ''validating-admission-policies'', Wild ''name''], Protected getValidatingAdmissionPolicy),
     (''GET'', cluster [Lit ''validating-admission-policy-bindings''], Protected listValidatingAdmissionPolicyBindings),
     (''GET'', cluster [Lit ''validating-admission-policy-bindings'', Wild ''name''], Protected getValidatingAdmissionPolicyBinding),
     (''GET'', cluster [Lit ''events''], Protected listEvents),
     (''GET'', cluster [Lit ''workloads''], Protected listWorkloads),
     (''GET'', cluster [Lit ''services''], Protected listServices),
     (''GET'', cluster [Lit ''ingresses''], Protected listIngresses),
     (''GET'', cluster [Lit ''endpoint-slices''], Protected listEndpointSlices),
     (''GET'', cluster [Lit ''network-policies''], Protected listNetworkPolicies),
     (''GET'', cluster [Lit ''configmaps''], Protected listConfigMaps),
     (''GET'', cluster [Lit ''secrets''], Protected listSecrets),
     (''GET'', cluster [Lit ''persistent-volume-claims''], Protected listPersistentVolumeClaims),
     (''GET'', cluster [Lit ''persistent-volumes''], Protected listPersistentVolumes),
     (''GET'', cluster [Lit ''storage-classes''], Protected listStorageClasses),
     (''GET'', cluster [Lit ''volume-attachments''], Protected listVolumeAttachments),
     (''GET'', cluster [Lit ''csi-storage-capacities''], Protected listCSIStorageCapacities),
     (''GET'', cluster [Lit ''volume-attributes-classes''], Protected listVolumeAttributesClasses),
     (''GET'', cluster [Lit ''csi-drivers''], Protected listCSIDrivers),
     (''GET'', cluster [Lit ''csi-drivers'', Wild ''name''], Protected getCSIDriver),
     (''GET'', cluster [Lit ''csi-nodes''], Protected listCSINodes),
     (''GET'', cluster [Lit ''csi-nodes'', Wild ''name''], Protected getCSINode),
     (''GET'', cluster [Lit ''resource-quotas''], Protected listResourceQuotas),
     (''GET'', cluster [Lit ''limit-ranges''], Protected listLimitRanges),
     (''GET'', cluster [Lit ''horizontal-pod-autoscalers''], Protected listHorizontalPodAutoscalers),
     (''GET'', cluster [Lit ''pod-disruption-budgets''], Protected listPodDisruptionBudgets),
     (''GET'', cluster [Lit ''access-resources''], Protected listAccessResources),
     (''GET'', cluster [Lit ''access-resources'', Wild ''kind'', Wild ''name''], Protected getAccessResourceDetail),
     (''POST'', cluster [Lit ''service-account-access-reviews''], Protected reviewServiceAccountAccess),
     (''GET'', cluster [Lit ''workloads'', Wild ''kind'', Wild ''namespace'', Wild ''name''], Protected getWorkloadDetail),
     (''GET'', cluster [Lit ''workloads'', Wild ''kind'', Wild ''namespace'', Wild ''name'', Lit ''revisions''], Protected getDeploymentRevisionHistory),
     (''GET'', cluster [Lit ''workloads'', Wild ''kind'', Wild ''namespace'', Wild ''name'', Lit ''events''], Protected listWorkloadEvents),
     (''GET'', cluster [Lit ''pods'', Wild ''namespace'', Wild ''name'', Lit ''logs''], Protected getPodLogs),
     (''POST'', cluster [Lit ''workloads'', Wild ''kind'', Wild ''namespace'', Wild ''name'', Lit ''scales''], Protected scaleWorkload),
     (''POST'', cluster [Lit ''workloads'', Wild ''kind'', Wild ''namespace'', Wild ''name'', Lit ''restarts''], Protected restartWorkload),
     (''POST'', cluster [Lit ''workloads'', Wild ''kind'', Wild ''namespace'', Wild ''name'', Lit ''image-previews''], Protected previewWorkloadImage),
     (''POST'', cluster [Lit ''workloads'', Wild ''kind'', Wild ''namespace'', Wild ''name'', Lit ''image-updates''], Protected updateWorkloadImage),
     (''GET'', api [Lit ''chart-repositories''], Protected listRepositories),
     (''POST'', api [Lit ''chart-repositories''], Protected createRepository),
     (''PATCH'', api [Lit ''chart-repositories'', Wild ''id''], Protected patchRepository),
     (''DELETE'', api [Lit ''chart-repositories'', Wild ''id''], Protected deleteRepository),
     (''POST'', api [Lit ''chart-repositories'', Wild ''id'', Lit ''connection-tests''], Protected http_testRepository),
     (''GET'', api [Lit ''helm-releases''], Protected listHelmReleases),
     (''POST'', api [Lit ''helm-releases''], Protected installHelmRelease),
     (''GET'', api [Lit ''helm-releases'', Wild ''name'', Lit ''history''], Protected getHelmReleaseHistory),
     (''POST'', api [Lit ''helm-releases'', Wild ''name'', Lit ''upgrades''], Protected upgradeHelmRelease),
     (''POST'', api [Lit ''helm-releases'', Wild ''name'', Lit ''rollbacks''], Protected rollbackHelmRelease),
     (''DELETE'', api [Lit ''helm-releases'', Wild ''name''], Protected uninstallHelmRelease),
     (''GET'', api [Lit ''operations''], Protected listOperations),
     (''GET'', api [Lit ''operations'', Wild ''id''], Protected getOperation),
     (''POST'', api [Lit ''operations'', Wild ''id'', Lit ''cancellations''], Protected cancelOperation),
     (''GET'', api [Lit ''audit-events''], Protected listAuditEvents),
     (''GET'', api [Lit ''system'', Lit ''resources''], Protected systemResources)
   ]"

fun match_path :: "pat list \<Rightarrow> string list \<Rightarrow> (string \<times> string) list option" where
  "match_path [] [] = Some []"
| "match_path (Lit l # ps) (seg # segs) = (if l = seg then match_path ps segs else None)"
| "match_path (Wild n # ps) (seg # segs) =
     (if seg = [] then None else map_option (\<lambda>vs. (n, seg) # vs) (match_path ps segs))"
| "match_path _ _ = None"

text \<open>A pattern for \<^verbatim>\<open>GET\<close> also serves \<^verbatim>\<open>HEAD\<close>.\<close>

definition match_method :: "string \<Rightarrow> string \<Rightarrow> bool" where
  "match_method pattern method \<longleftrightarrow> pattern = method \<or> pattern = ''GET'' \<and> method = ''HEAD''"

fun find_route ::
  "(string \<times> pat list \<times> 'gw target) list \<Rightarrow> string \<Rightarrow> string list \<Rightarrow> ((string \<times> string) list \<times> 'gw target) option" where
  "find_route [] method segs = None"
| "find_route ((mth, ps, t) # rs) method segs =
     (case (if match_method mth method then match_path ps segs else None) of
        Some vs \<Rightarrow> Some (vs, t)
      | None \<Rightarrow> find_route rs method segs)"

section \<open>Guards\<close>

definition isMutation :: "string \<Rightarrow> bool" where
  "isMutation method \<longleftrightarrow> method \<in> {''POST'', ''PUT'', ''PATCH'', ''DELETE''}"

definition sameOrigin :: "'gw http_env \<Rightarrow> 'gw request \<Rightarrow> bool" where
  "sameOrigin hv rq =
     (let origin = rq_Origin rq in
      if origin = [] then True
      else case hv_parseURL hv origin of
          None \<Rightarrow> False
        | Some parsed \<Rightarrow>
            if Host parsed \<noteq> rq_Host rq then False
            else if rq_TLS rq then Scheme parsed = ''https'' else Scheme parsed = ''http'')"

definition requestIDPattern :: regex where
  "requestIDPattern =
     (let p = (\<lambda>c. alnum c \<or> c \<in> {CHR ''.'', CHR ''_'', CHR '':'', CHR ''-''})
      in Seq (Class p) (UpTo 79 (Class p)))"

definition loginClientKey :: "'gw request \<Rightarrow> string" where
  "loginClientKey rq =
     (case SplitHostPort (rq_RemoteAddr rq) of Some (host, port) \<Rightarrow> host | None \<Rightarrow> rq_RemoteAddr rq)"

definition server_sha256 :: "'gw http_env \<Rightarrow> string \<Rightarrow> string" where
  "server_sha256 hv = ev_sha256 (hv_env hv)"

definition protected_by ::
  "'gw http_env \<Rightarrow> moment \<Rightarrow> ('gw request \<Rightarrow> 'gw Server \<Rightarrow> 'gw Server \<times> response) \<Rightarrow> 'gw request \<Rightarrow> 'gw Server \<Rightarrow>
     'gw Server \<times> response" where
  "protected_by hv mo k rq srv =
     (case rq_Cookie rq of
        None \<Rightarrow> (srv, writeError rq ErrUnauthorized)
      | Some token \<Rightarrow>
          (case Authenticate (server_sha256 hv) (mo_session mo) token (srv_sessions srv) of
             (sessions, Inl e) \<Rightarrow> (srv\<lparr>srv_sessions := sessions\<rparr>, writeError rq e)
           | (sessions, Inr who) \<Rightarrow>
               (let srv = srv\<lparr>srv_sessions := sessions\<rparr> in
                if isMutation (rq_Method rq) \<and> \<not> sameOrigin hv rq then (srv, writeError rq ErrForbidden)
                else k (rq\<lparr>rq_principal := who\<rparr>) srv)))"

definition on_service :: "'gw http_env \<Rightarrow> 'gw handler \<Rightarrow> 'gw request \<Rightarrow> 'gw Server \<Rightarrow> 'gw Server \<times> response" where
  "on_service hv h rq srv =
     (case h hv rq (srv_service srv) of (s, r) \<Rightarrow> (srv\<lparr>srv_service := s\<rparr>, r))"

section \<open>Sessions\<close>

definition login :: "'gw http_env \<Rightarrow> moment \<Rightarrow> 'gw request \<Rightarrow> 'gw Server \<Rightarrow> 'gw Server \<times> response" where
  "login hv mo rq srv =
     (let clientKey = loginClientKey rq in
      case blocked (mo_blocked mo) clientKey (srv_loginLimiter srv) of (limiter, retryAfter, isBlocked) \<Rightarrow>
      let srv = srv\<lparr>srv_loginLimiter := limiter\<rparr> in
      if isBlocked
      then (let response = writeErrorStatus rq 429 ''rate_limited'' rate_limited_message []
            in (srv, response\<lparr>rs_Headers :=
                  (''Retry-After'', itoa (go_div retryAfter second + 1)) # rs_Headers response\<rparr>))
      else case decodeJSON rq login_input of
          None \<Rightarrow> (srv, writeInvalidJSON rq)
        | Some (username, password) \<Rightarrow>
            (case Login (hv_Verify hv) (server_sha256 hv) (mo_token mo) (mo_expiry mo) (mo_session mo)
                    username password (srv_sessions srv) of
               (sessions, Inl e) \<Rightarrow>
                 (srv\<lparr>srv_sessions := sessions,
                      srv_loginLimiter :=
                        (if errors_is e ErrUnauthorized
                         then failed (fl_entries limiter) (mo_failed mo) clientKey limiter else limiter)\<rparr>,
                  writeError rq e)
             | (sessions, Inr (token, who)) \<Rightarrow>
                 (srv\<lparr>srv_sessions := sessions, srv_loginLimiter := reset clientKey limiter\<rparr>,
                  (writeData 200 (PrincipalBody who))\<lparr>rs_Cookie :=
                     Some \<lparr>ck_Value = token, ck_Expires = Some (pr_ExpiresAt who), ck_MaxAge = 0,
                           ck_Secure = srv_secureCookies srv \<or> rq_TLS rq\<rparr>\<rparr>)))"

definition logout :: "'gw http_env \<Rightarrow> 'gw request \<Rightarrow> 'gw Server \<Rightarrow> 'gw Server \<times> response" where
  "logout hv rq srv =
     ((case rq_Cookie rq of
         Some token \<Rightarrow> srv\<lparr>srv_sessions := Logout (server_sha256 hv) token (srv_sessions srv)\<rparr>
       | None \<Rightarrow> srv),
      noContent\<lparr>rs_Cookie := Some \<lparr>ck_Value = [], ck_Expires = None, ck_MaxAge = -1,
                                   ck_Secure = srv_secureCookies srv \<or> rq_TLS rq\<rparr>\<rparr>)"

section \<open>Static files\<close>

text \<open>\<^verbatim>\<open>filepath.Clean\<close> and \<^verbatim>\<open>filepath.Join\<close>.\<close>

fun clean_step :: "bool \<Rightarrow> string list \<Rightarrow> string \<Rightarrow> string list" where
  "clean_step rooted acc c =
     (if c = [] \<or> c = ''.'' then acc
      else if c = ''..''
      then (if acc \<noteq> [] \<and> last acc \<noteq> ''..'' then butlast acc else if rooted then acc else acc @ [c])
      else acc @ [c])"

definition clean_parts :: "string \<Rightarrow> string list" where
  "clean_parts p = foldl (clean_step (has_prefix p ''/'')) [] (split_char CHR ''/'' p)"

definition Clean :: "string \<Rightarrow> string" where
  "Clean p =
     (let body = join_str ''/'' (clean_parts p)
      in if has_prefix p ''/'' then CHR ''/'' # body else if body = [] then ''.'' else body)"

definition Join :: "string \<Rightarrow> string \<Rightarrow> string" where
  "Join dir p = Clean (join_str ''/'' (filter (\<lambda>x. x \<noteq> []) [dir, p]))"

definition static_file :: "'gw http_env \<Rightarrow> 'gw request \<Rightarrow> string \<Rightarrow> response" where
  "static_file hv rq staticDir =
     (if has_prefix (rq_Path rq) ''/api/''
      then writeErrorStatus rq 404 ''not_found'' no_route_message []
      else if staticDir = []
      then \<lparr>rs_Status = 404, rs_Headers = [], rs_Cookie = None, rs_Body = StatusBody ''404 page not found''\<rparr>
      else
        (let cleanPath = drop 1 (Clean (CHR ''/'' # rq_Path rq));
             assetPath = Join staticDir cleanPath
         in case hv_Stat hv assetPath of
              Some False \<Rightarrow>
                \<lparr>rs_Status = 200,
                 rs_Headers = (if contains_str cleanPath ''assets/''
                   then [(''Cache-Control'', ''public, max-age=31536000, immutable'')] else []),
                 rs_Cookie = None, rs_Body = FileBody assetPath\<rparr>
            | _ \<Rightarrow>
                \<lparr>rs_Status = 200, rs_Headers = [(''Cache-Control'', ''no-cache'')], rs_Cookie = None,
                 rs_Body = FileBody (Join staticDir ''index.html'')\<rparr>))"

section \<open>Serving a request\<close>

text \<open>
  \<^verbatim>\<open>http.ServeMux\<close>: a path that is not clean is redirected; otherwise the route that
  matches serves the request, or the static files.
\<close>

definition cleanPath :: "string \<Rightarrow> string" where
  "cleanPath p =
     (let p = (if has_prefix p ''/'' then p else CHR ''/'' # p); np = Clean p
      in if last p = CHR ''/'' \<and> np \<noteq> ''/'' then np @ ''/'' else np)"

definition dispatch :: "'gw http_env \<Rightarrow> moment \<Rightarrow> 'gw target \<Rightarrow> 'gw request \<Rightarrow> 'gw Server \<Rightarrow> 'gw Server \<times> response" where
  "dispatch hv mo t =
     (case t of
        Public h \<Rightarrow> on_service hv h
      | Protected h \<Rightarrow> protected_by hv mo (on_service hv h)
      | LoginRoute \<Rightarrow> login hv mo
      | LogoutRoute \<Rightarrow> protected_by hv mo (logout hv))"

definition mux :: "'gw http_env \<Rightarrow> moment \<Rightarrow> 'gw request \<Rightarrow> 'gw Server \<Rightarrow> 'gw Server \<times> response" where
  "mux hv mo rq srv =
     (if rq_Method rq \<noteq> ''CONNECT'' \<and> cleanPath (rq_Path rq) \<noteq> rq_Path rq
      then (srv, \<lparr>rs_Status = 301, rs_Headers = [(''Location'', cleanPath (rq_Path rq))], rs_Cookie = None, rs_Body = NoBody\<rparr>)
      else case find_route routes (rq_Method rq) (rq_Segments rq) of
          Some (vals, t) \<Rightarrow>
            dispatch hv mo t (rq\<lparr>rq_PathValue := (\<lambda>n. case map_of vals n of Some v \<Rightarrow> v | None \<Rightarrow> [])\<rparr>) srv
        | None \<Rightarrow> (srv, static_file hv rq (srv_staticDir srv)))"

definition content_security_policy :: string where
  "content_security_policy =
     join_str [CHR 0x27]
      [''default-src '', ''self'', ''; script-src '', ''self'', ''; style-src '', ''self'',
       ''; img-src '', ''self'', '' data:; connect-src '', ''self'', ''; object-src '', ''none'',
       ''; manifest-src '', ''self'', ''; frame-ancestors '', ''none'', ''; base-uri '', ''none'',
       ''; form-action '', ''self'', '''']"

definition security_headers :: "'gw request \<Rightarrow> string \<Rightarrow> (string \<times> string) list" where
  "security_headers rq requestID =
     [(''X-Request-ID'', requestID), (''X-Content-Type-Options'', ''nosniff''), (''X-Frame-Options'', ''DENY''),
      (''Cross-Origin-Opener-Policy'', ''same-origin''), (''Cross-Origin-Resource-Policy'', ''same-origin''),
      (''Referrer-Policy'', ''no-referrer''), (''Permissions-Policy'', ''camera=(), microphone=(), geolocation=()''),
      (''Content-Security-Policy'', content_security_policy)]
     @ (if rq_TLS rq then [(''Strict-Transport-Security'', ''max-age=31536000; includeSubDomains'')] else [])
     @ (if has_prefix (rq_Path rq) ''/api/'' then [(''Cache-Control'', ''no-store'')] else [])"

definition ServeHTTP :: "'gw http_env \<Rightarrow> moment \<Rightarrow> 'gw request \<Rightarrow> 'gw Server \<Rightarrow> 'gw Server \<times> response" where
  "ServeHTTP hv mo rq srv =
     (let header = trim_space (rq_RequestIDHeader rq)
      in case (if MatchString requestIDPattern header then Inr header else RandomID (mo_requestID mo) ''req'') of
           Inl e \<Rightarrow>
             (srv, \<lparr>rs_Status = 500, rs_Headers = [], rs_Cookie = None, rs_Body = StatusBody ''internal server error''\<rparr>)
         | Inr requestID \<Rightarrow>
             (let rq = rq\<lparr>rq_requestID := requestID\<rparr>;
                  headed = (\<lambda>(srv, r). (srv, r\<lparr>rs_Headers := security_headers rq requestID @ rs_Headers r\<rparr>))
              in if has_prefix (rq_Path rq) ''/api/''
                 then if srv_requestSlots srv < srv_maxRequests srv
                   then headed
                     (case mux hv mo rq (srv\<lparr>srv_requestSlots := srv_requestSlots srv + 1\<rparr>) of
                        (srv, r) \<Rightarrow> (srv\<lparr>srv_requestSlots := srv_requestSlots srv - 1\<rparr>, r))
                   else headed (srv, writeErrorStatus rq 503 ''server_busy'' busy_message [])
                 else headed (mux hv mo rq srv)))"

section \<open>What a request does to the service\<close>

text \<open>Every handler is, for the service, a path of its step relation: one request, or nothing at all.\<close>

definition serves :: "'gw http_env \<Rightarrow> 'gw handler \<Rightarrow> bool" where
  "serves hv h \<longleftrightarrow> (\<forall>rq s. service_path (hv_env hv) s (fst (h hv rq s)))"

lemma service_path_step: "service_step env s t \<Longrightarrow> service_path env s t"
  by (rule service_path.there [OF service_path.here])

lemma fst_answered: "fst (answered rq status body call s) = fst (call s)"
  by (auto simp: answered_def split: prod.splits sum.splits)

lemma fst_located: "fst (located rq status body base ident call s) = fst (call s)"
  by (auto simp: located_def split: prod.splits sum.splits)

lemma fst_checked: "fst (checked call s) = fst (call s)"
  by (auto simp: checked_def andThen_def ret_def fail_def split: prod.splits sum.splits option.splits)

lemma with_body_path:
  "(\<And>x s. service_path env s (fst (k x s))) \<Longrightarrow> service_path env s (fst (with_body rq decode k s))"
  by (auto simp: with_body_def service_path.here split: option.split)

lemmas fst_steps = fst_answered fst_located fst_checked

lemmas read_handler_defs =
  clusterSummary_def listNamespaces_def listPodSecurityAdmissionNamespaces_def nodeVersionSkew_def
  listDeprecatedAPIRequests_def endpointCertificate_def apiServerReadiness_def
  listDisruptionBudgetEvidence_def listNodes_def getNodeDetail_def listNodeEvents_def
  listCustomResourceDefinitions_def getCustomResourceDefinition_def
  listCertificateSigningRequests_def getCertificateSigningRequest_def listPriorityClasses_def
  getPriorityClass_def listRuntimeClasses_def getRuntimeClass_def listAPIServices_def
  listAdmissionWebhookConfigurations_def getAdmissionWebhookConfiguration_def
  listValidatingAdmissionPolicies_def getValidatingAdmissionPolicy_def
  listValidatingAdmissionPolicyBindings_def getValidatingAdmissionPolicyBinding_def listEvents_def
  listWorkloads_def listServices_def listIngresses_def listEndpointSlices_def
  listNetworkPolicies_def listConfigMaps_def listPersistentVolumeClaims_def
  listPersistentVolumes_def listStorageClasses_def listVolumeAttachments_def
  listCSIStorageCapacities_def listVolumeAttributesClasses_def listCSIDrivers_def getCSIDriver_def
  listCSINodes_def getCSINode_def listResourceQuotas_def listLimitRanges_def
  listHorizontalPodAutoscalers_def listPodDisruptionBudgets_def listAccessResources_def
  getAccessResourceDetail_def getWorkloadDetail_def getDeploymentRevisionHistory_def
  listWorkloadEvents_def

lemma read_handlers_serve:
  "serves hv clusterSummary"
  "serves hv listNamespaces"
  "serves hv listPodSecurityAdmissionNamespaces"
  "serves hv nodeVersionSkew"
  "serves hv listDeprecatedAPIRequests"
  "serves hv endpointCertificate"
  "serves hv apiServerReadiness"
  "serves hv listDisruptionBudgetEvidence"
  "serves hv listNodes"
  "serves hv getNodeDetail"
  "serves hv listNodeEvents"
  "serves hv listCustomResourceDefinitions"
  "serves hv getCustomResourceDefinition"
  "serves hv listCertificateSigningRequests"
  "serves hv getCertificateSigningRequest"
  "serves hv listPriorityClasses"
  "serves hv getPriorityClass"
  "serves hv listRuntimeClasses"
  "serves hv getRuntimeClass"
  "serves hv listAPIServices"
  "serves hv listAdmissionWebhookConfigurations"
  "serves hv getAdmissionWebhookConfiguration"
  "serves hv listValidatingAdmissionPolicies"
  "serves hv getValidatingAdmissionPolicy"
  "serves hv listValidatingAdmissionPolicyBindings"
  "serves hv getValidatingAdmissionPolicyBinding"
  "serves hv listEvents"
  "serves hv listWorkloads"
  "serves hv listServices"
  "serves hv listIngresses"
  "serves hv listEndpointSlices"
  "serves hv listNetworkPolicies"
  "serves hv listConfigMaps"
  "serves hv listPersistentVolumeClaims"
  "serves hv listPersistentVolumes"
  "serves hv listStorageClasses"
  "serves hv listVolumeAttachments"
  "serves hv listCSIStorageCapacities"
  "serves hv listVolumeAttributesClasses"
  "serves hv listCSIDrivers"
  "serves hv getCSIDriver"
  "serves hv listCSINodes"
  "serves hv getCSINode"
  "serves hv listResourceQuotas"
  "serves hv listLimitRanges"
  "serves hv listHorizontalPodAutoscalers"
  "serves hv listPodDisruptionBudgets"
  "serves hv listAccessResources"
  "serves hv getAccessResourceDetail"
  "serves hv getWorkloadDetail"
  "serves hv getDeploymentRevisionHistory"
  "serves hv listWorkloadEvents"
  unfolding serves_def read_handler_defs
  by (simp_all add: fst_steps service_path_step service_step.read service_path.here del: serve_read.simps
      split: sum.split)

lemma public_handlers_serve: "serves hv health" "serves hv ready" "serves hv currentSession"
  by (simp_all add: serves_def health_def ready_def currentSession_def service_path.here)

lemma plain_handlers_serve:
  "serves hv listClusters" "serves hv getCluster" "serves hv testCluster" "serves hv clusterCapabilities"
  "serves hv listSecrets" "serves hv listRepositories" "serves hv http_testRepository" "serves hv getOperation"
  unfolding serves_def listClusters_def getCluster_def testCluster_def clusterCapabilities_def listSecrets_def
    listRepositories_def http_testRepository_def getOperation_def
  by (simp_all add: fst_steps service_path_step service_step.intros)

lemma body_handlers_serve:
  "serves hv createCluster" "serves hv rotateClusterCredentials" "serves hv reviewServiceAccountAccess"
  "serves hv previewWorkloadImage" "serves hv updateWorkloadImage" "serves hv createRepository"
  "serves hv cancelOperation"
  unfolding serves_def createCluster_def rotateClusterCredentials_def reviewServiceAccountAccess_def
    previewWorkloadImage_def updateWorkloadImage_def createRepository_def cancelOperation_def
  by (intro allI with_body_path; simp add: fst_steps service_path_step service_step.intros)+

lemma operation_handlers_serve:
  "serves hv scaleWorkload" "serves hv restartWorkload" "serves hv installHelmRelease"
  "serves hv upgradeHelmRelease" "serves hv rollbackHelmRelease" "serves hv uninstallHelmRelease"
  unfolding serves_def scaleWorkload_def restartWorkload_def installHelmRelease_def upgradeHelmRelease_def
    rollbackHelmRelease_def uninstallHelmRelease_def submitWorkloadOperation_def submitHelm_def
  by (intro allI with_body_path; simp add: fst_steps service_path_step service_step.intros split: prod.split)+

lemma patch_handlers_serve: "serves hv patchCluster" "serves hv patchRepository"
  unfolding serves_def patchCluster_def patchRepository_def
  by (intro allI with_body_path;
      simp add: fst_steps service_path_step service_step.intros service_path.here split: option.split)+

lemma fst_either: "fst (case c of (s, Inl e) \<Rightarrow> (s, f e) | (s, Inr x) \<Rightarrow> (s, g x)) = fst c"
  by (auto split: prod.splits sum.splits)

lemma delete_handlers_serve: "serves hv deleteCluster" "serves hv deleteRepository"
  unfolding serves_def deleteCluster_def deleteRepository_def
  by (intro allI with_body_path; simp add: fst_either service_path_step service_step.intros)
     (simp add: fst_either service_path_step service_step.intros)

lemma other_handlers_serve:
  "serves hv getPodLogs" "serves hv listHelmReleases" "serves hv getHelmReleaseHistory" "serves hv listOperations"
  "serves hv listAuditEvents" "serves hv systemResources"
  unfolding serves_def getPodLogs_def listHelmReleases_def getHelmReleaseHistory_def listOperations_def
    listAuditEvents_def systemResources_def Let_def
  by (simp_all add: fst_steps case_prod_beta service_path_step service_step.intros service_path.here split: sum.split)

section \<open>Routes and the service\<close>

definition target_serves :: "'gw http_env \<Rightarrow> 'gw target \<Rightarrow> bool" where
  "target_serves hv t =
     (case t of
        Public h \<Rightarrow> serves hv h \<and> (\<forall>rq s. fst (h hv rq s) = s)
      | Protected h \<Rightarrow> serves hv h
      | _ \<Rightarrow> True)"

lemma routes_serve: "list_all (\<lambda>(mth, ps, t). target_serves hv t) routes"
  by (simp add: routes_def target_serves_def read_handlers_serve public_handlers_serve plain_handlers_serve
      body_handlers_serve operation_handlers_serve patch_handlers_serve delete_handlers_serve other_handlers_serve)
     (simp add: health_def ready_def)

lemma find_route_Some:
  "find_route rs mth segs = Some (vals, t) \<Longrightarrow>
     \<exists>m ps. (m, ps, t) \<in> set rs \<and> match_method m mth \<and> match_path ps segs = Some vals"
  by (induction rs mth segs rule: find_route.induct) (auto split: option.splits if_splits)

lemma found_serves: "find_route routes mth segs = Some (vals, t) \<Longrightarrow> target_serves hv t"
  using routes_serve [of hv] by (auto simp: list_all_iff dest!: find_route_Some)

lemma login_service: "srv_service (fst (login hv mo rq srv)) = srv_service srv"
  by (auto simp: login_def Let_def split: prod.splits sum.splits option.splits)

lemma logout_service: "srv_service (fst (logout hv rq srv)) = srv_service srv"
  by (simp add: logout_def split: option.split)

text \<open>Either the service is not touched, or a session was presented and the origin accepted.\<close>

definition admitted :: "'gw http_env \<Rightarrow> moment \<Rightarrow> 'gw request \<Rightarrow> 'gw Server \<Rightarrow> bool" where
  "admitted hv mo rq srv =
     (case rq_Cookie rq of
        None \<Rightarrow> False
      | Some token \<Rightarrow>
          (case snd (Authenticate (server_sha256 hv) (mo_session mo) token (srv_sessions srv)) of
             Inl _ \<Rightarrow> False
           | Inr _ \<Rightarrow> \<not> (isMutation (rq_Method rq) \<and> \<not> sameOrigin hv rq)))"

lemma protected_refuses:
  "\<not> admitted hv mo rq srv \<Longrightarrow> srv_service (fst (protected_by hv mo k rq srv)) = srv_service srv"
  by (auto simp: protected_by_def admitted_def split: option.splits prod.splits sum.splits)

lemma on_service_path:
  "serves hv h \<Longrightarrow> service_path (hv_env hv) (srv_service srv) (srv_service (fst (on_service hv h rq srv)))"
  by (simp add: on_service_def serves_def case_prod_beta)

lemma protected_path:
  assumes "\<And>rq srv. service_path env (srv_service srv) (srv_service (fst (k rq srv)))"
  shows "service_path env (srv_service srv) (srv_service (fst (protected_by hv mo k rq srv)))"
proof -
  have "service_path env (srv_service srv) (srv_service (fst (k rq' (srv\<lparr>srv_sessions := m\<rparr>))))" for rq' m
    using assms [of "srv\<lparr>srv_sessions := m\<rparr>"] by simp
  then show ?thesis
    by (auto simp: protected_by_def service_path.here Let_def split: option.split prod.split sum.split)
qed

lemma dispatch_path:
  assumes "target_serves hv t"
  shows "service_path (hv_env hv) (srv_service srv) (srv_service (fst (dispatch hv mo t rq srv)))"
  using assms
  by (cases t) (simp_all add: dispatch_def target_serves_def on_service_path protected_path login_service
      logout_service service_path.here)

lemma dispatch_refuses:
  assumes "target_serves hv t" and "\<not> admitted hv mo rq srv"
  shows "srv_service (fst (dispatch hv mo t rq srv)) = srv_service srv"
  using assms protected_refuses [OF assms(2)]
  by (cases t) (simp_all add: dispatch_def target_serves_def login_service on_service_def case_prod_beta)

lemma mux_path: "service_path (hv_env hv) (srv_service srv) (srv_service (fst (mux hv mo rq srv)))"
  by (auto simp: mux_def service_path.here dispatch_path found_serves split: option.split)

lemma admitted_fields [simp]:
  "admitted hv mo (rq\<lparr>rq_PathValue := f\<rparr>) srv = admitted hv mo rq srv"
  "admitted hv mo (rq\<lparr>rq_requestID := i\<rparr>) srv = admitted hv mo rq srv"
  "admitted hv mo rq (srv\<lparr>srv_requestSlots := n\<rparr>) = admitted hv mo rq srv"
  by (simp_all add: admitted_def sameOrigin_def split: option.split sum.split)

lemma mux_refuses: "\<not> admitted hv mo rq srv \<Longrightarrow> srv_service (fst (mux hv mo rq srv)) = srv_service srv"
  by (auto simp: mux_def dispatch_refuses found_serves split: option.split)

lemma ServeHTTP_service:
  "service_path (hv_env hv) (srv_service srv) (srv_service (fst (ServeHTTP hv mo rq srv)))"
  "\<not> admitted hv mo rq srv \<Longrightarrow> srv_service (fst (ServeHTTP hv mo rq srv)) = srv_service srv"
proof -
  have busy: "srv_service (srv\<lparr>srv_requestSlots := n\<rparr>) = srv_service srv" for n by simp
  note mux_path [of hv "srv\<lparr>srv_requestSlots := n\<rparr>" for n, unfolded busy]
  then show "service_path (hv_env hv) (srv_service srv) (srv_service (fst (ServeHTTP hv mo rq srv)))"
    by (auto simp: ServeHTTP_def Let_def case_prod_beta service_path.here mux_path split: sum.split)
  assume no: "\<not> admitted hv mo rq srv"
  have "srv_service (fst (mux hv mo (rq\<lparr>rq_requestID := i\<rparr>) (srv\<lparr>srv_requestSlots := n\<rparr>))) = srv_service srv"
    and "srv_service (fst (mux hv mo (rq\<lparr>rq_requestID := i\<rparr>) srv)) = srv_service srv" for i n
    using no by (simp_all add: mux_refuses)
  then show "srv_service (fst (ServeHTTP hv mo rq srv)) = srv_service srv"
    by (auto simp: ServeHTTP_def Let_def case_prod_beta split: sum.split)
qed

text \<open>What a response says of the service: the payloads that hold its data.\<close>

definition discloses :: "payload \<Rightarrow> bool" where
  "discloses body =
     (case body of
        NoBody \<Rightarrow> False
      | ErrorBody _ _ _ _ \<Rightarrow> False
      | StatusBody _ \<Rightarrow> False
      | PrincipalBody _ \<Rightarrow> False
      | FileBody _ \<Rightarrow> False
      | _ \<Rightarrow> True)"

lemma error_bodies [simp]:
  "\<not> discloses (rs_Body (writeError rq e))" "\<not> discloses (rs_Body (writeErrorStatus rq st c m d))"
  "\<not> discloses (rs_Body (writeInvalidJSON rq))"
  by (simp_all add: writeError_def writeErrorStatus_def writeInvalidJSON_def writeJSON_def discloses_def
      split: option.split)

lemma login_body: "\<not> discloses (rs_Body (snd (login hv mo rq srv)))"
  by (auto simp: login_def Let_def writeData_def writeJSON_def discloses_def [of "PrincipalBody _"]
      split: prod.splits sum.splits option.splits)

definition public_silent :: "'gw http_env \<Rightarrow> 'gw target \<Rightarrow> bool" where
  "public_silent hv t =
     (case t of Public h \<Rightarrow> (\<forall>rq s. \<not> discloses (rs_Body (snd (h hv rq s)))) | _ \<Rightarrow> True)"

lemma routes_silent: "list_all (\<lambda>(mth, ps, t). public_silent hv t) routes"
  by (simp add: routes_def public_silent_def)
     (simp add: health_def ready_def writeData_def writeJSON_def discloses_def)

lemma protected_body: "\<not> admitted hv mo rq srv \<Longrightarrow> \<not> discloses (rs_Body (snd (protected_by hv mo k rq srv)))"
  by (auto simp: protected_by_def admitted_def Let_def split: option.splits prod.splits sum.splits)

lemma dispatch_body:
  "public_silent hv t \<Longrightarrow> \<not> admitted hv mo rq srv \<Longrightarrow> \<not> discloses (rs_Body (snd (dispatch hv mo t rq srv)))"
  by (cases t) (simp_all add: dispatch_def public_silent_def on_service_def case_prod_beta login_body protected_body)

lemma mux_body:
  assumes "\<not> admitted hv mo rq srv"
  shows "\<not> discloses (rs_Body (snd (mux hv mo rq srv)))"
proof -
  have "public_silent hv t" if "find_route routes mth segs = Some (vals, t)" for mth segs vals t
    using routes_silent [of hv] that by (auto simp: list_all_iff dest!: find_route_Some)
  then show ?thesis
    using assms
    by (auto simp: mux_def static_file_def Let_def discloses_def [of NoBody] discloses_def [of "FileBody _"]
        discloses_def [of "StatusBody _"] dispatch_body split: option.splits bool.splits)
qed

lemma ServeHTTP_body:
  assumes "\<not> admitted hv mo rq srv"
  shows "\<not> discloses (rs_Body (snd (ServeHTTP hv mo rq srv)))"
  using assms
  by (auto simp: ServeHTTP_def Let_def case_prod_beta mux_body discloses_def [of "StatusBody _"] split: sum.split)


end
