(* ===== verification/Api.thy ===== *)
theory Api
  imports Server
begin

text \<open>
  What the panel's HTTP interface guarantees: who reaches the service, what a response discloses,
  that routing is unambiguous, and the invariant of the whole panel under any sequence of requests.
\<close>

section \<open>A server to try the properties on\<close>

definition sample_http_env :: "string http_env" where
  "sample_http_env =
     \<lparr>hv_env = sample_env, hv_gateway = (\<lambda>rq n g. Inr ''answer''), hv_Secrets = (\<lambda>n g ns. Inr []),
      hv_PodLogs = (\<lambda>n g rq. Inr ''log''), hv_Review = (\<lambda>n g rq. Inr KubernetesCapabilityAllowed),
      hv_Capabilities = (\<lambda>n g ns. Inr []), hv_late = (\<lambda>n. False), hv_HelmList = (\<lambda>n c ns. Inr ''releases''),
      hv_HelmHistory = (\<lambda>n g ns r. Inr ''history''),
      hv_Preview = (\<lambda>n g c. Inl ErrNotFound), hv_Verify = sample_verify, hv_parseURL = (\<lambda>_. None),
      hv_Stat = (\<lambda>_. None)\<rparr>"

definition sample_moment :: moment where
  "sample_moment = \<lparr>mo_requestID = sample_random, mo_blocked = 20, mo_token = sample_random, mo_expiry = 20,
     mo_session = 20, mo_failed = 20\<rparr>"

definition sample_server :: "string Server" where
  "sample_server = \<lparr>srv_service = sample_service, srv_sessions = sample_manager, srv_staticDir = ''web'',
     srv_secureCookies = True, srv_loginLimiter = newFailureLimiter 5 (5 * minute) 10000,
     srv_requestSlots = 0, srv_maxRequests = 16\<rparr>"

lemma sample_server_New: "http_New True True ''web'' True 0 sample_service sample_manager = Inr sample_server"
  by (simp add: http_New_def sample_server_def)

text \<open>A request to disable a cluster, from another origin and without a session.\<close>

definition sample_request :: "string request" where
  "sample_request =
     \<lparr>rq_Method = ''PATCH'', rq_Path = ''/api/v1/clusters/clu_1'', rq_Segments = [''api'', ''v1'', ''clusters'', ''clu_1''],
      rq_Query = (\<lambda>_. []), rq_Host = ''panel.test'', rq_TLS = True, rq_RequestIDHeader = ''req-1'',
      rq_Origin = ''https://other.test'', rq_Cookie = None, rq_RemoteAddr = ''10.0.0.1:4000'',
      rq_MediaType = Some ''application/json'', rq_Body = Some (JObj [(''enabled'', JBool False)]),
      rq_Context = (\<lambda>_. None), rq_PathValue = (\<lambda>_. []), rq_requestID = [],
      rq_principal = \<lparr>pr_Username = [], pr_Role = [], pr_ExpiresAt = 0\<rparr>\<rparr>"

section \<open>Access\<close>

text \<open>
  (C13) Only a live session reaches the service. Take any history of logins and logouts and any
  request whose cookie, if it has one, belongs to no login of that history, or to one that was
  logged out or has expired: whatever the method, path and body, no cluster, repository, operation
  or audit record is read or changed, nothing is called upstream, and the response holds no data of
  the service.
\<close>

theorem api_needs_live_session:
  assumes "NewSessionManager username passwordHash ttl verifierSet = Inr m0"
    and "session_path (hv_Verify hv) (server_sha256 hv) m0 t events (srv_sessions srv)" and "t \<le> mo_session mo"
    and "\<And>token p. rq_Cookie rq = Some token \<Longrightarrow> session_of (server_sha256 hv) events token = Some p
      \<Longrightarrow> pr_ExpiresAt p \<le> mo_session mo"
  shows "srv_service (fst (ServeHTTP hv mo rq srv)) = srv_service srv
    \<and> \<not> discloses (rs_Body (snd (ServeHTTP hv mo rq srv)))"
proof -
  have "\<not> admitted hv mo rq srv"
  proof (cases "rq_Cookie rq")
    case (Some token)
    have "snd (Authenticate (server_sha256 hv) (mo_session mo) token (srv_sessions srv)) = Inl ErrUnauthorized"
    proof (cases "token = []")
      case False
      then show ?thesis
        using Authenticate_history [OF assms(1-3)] assms(4) [OF Some]
        by (auto simp: not_less split: option.splits)
    qed (simp add: Authenticate_def)
    then show ?thesis using Some by (simp add: admitted_def)
  qed (simp add: admitted_def)
  then show ?thesis by (simp add: ServeHTTP_service(2) ServeHTTP_body)
qed

theorem api_needs_live_session_witness:
  "srv_service (fst (ServeHTTP sample_http_env sample_moment sample_request sample_server)) = sample_service
    \<and> \<not> discloses (rs_Body (snd (ServeHTTP sample_http_env sample_moment sample_request sample_server)))"
proof -
  have sample: "srv_sessions sample_server = sample_manager" "srv_service sample_server = sample_service"
    "rq_Cookie sample_request = None" "0 \<le> mo_session sample_moment"
    by (simp_all add: sample_server_def sample_request_def sample_moment_def)
  have "session_path (hv_Verify sample_http_env) (server_sha256 sample_http_env) sample_manager 0 [] (srv_sessions sample_server)"
    unfolding sample(1) by (rule session_path.init)
  from api_needs_live_session [OF sample_login(1) this sample(4)] show ?thesis
    unfolding sample(2) by (simp add: sample(3))
qed

text \<open>
  An origin is a scheme and a host. That of the panel, as a browser sees it, is the \<^verbatim>\<open>Host\<close> of the
  request with the scheme of its connection; a request comes from elsewhere when it names an origin that
  is not this one, or no origin at all in a header that is not empty.
\<close>

definition panel_origin :: "'gw request \<Rightarrow> string \<times> string" where
  "panel_origin rq = (if rq_TLS rq then ''https'' else ''http'', rq_Host rq)"

definition foreign_origin :: "'gw http_env \<Rightarrow> 'gw request \<Rightarrow> bool" where
  "foreign_origin hv rq \<longleftrightarrow>
     rq_Origin rq \<noteq> [] \<and> map_option (\<lambda>u. (Scheme u, Host u)) (hv_parseURL hv (rq_Origin rq)) \<noteq> Some (panel_origin rq)"

text \<open>
  (C34) Another site cannot act for the user: a POST, PUT, PATCH or DELETE whose \<^verbatim>\<open>Origin\<close> has another
  scheme or another host than the panel, or is no URL, leaves the service as it was and is told nothing
  of its data, even when the browser sends a valid session along.
\<close>

theorem cross_origin_changes_nothing:
  assumes "rq_Method rq \<in> {''POST'', ''PUT'', ''PATCH'', ''DELETE''}" and "foreign_origin hv rq"
  shows "srv_service (fst (ServeHTTP hv mo rq srv)) = srv_service srv
    \<and> \<not> discloses (rs_Body (snd (ServeHTTP hv mo rq srv)))"
proof -
  have "isMutation (rq_Method rq)" using assms(1) by (auto simp: isMutation_def)
  moreover have "\<not> sameOrigin hv rq"
    using assms(2) by (auto simp: foreign_origin_def panel_origin_def sameOrigin_def Let_def split: option.splits if_splits)
  ultimately have "\<not> admitted hv mo rq srv"
    by (simp add: admitted_def split: option.split sum.split)
  then show ?thesis by (simp add: ServeHTTP_service(2) ServeHTTP_body)
qed

text \<open>The session that the browser sends along in the example is alive, and the origin is a URL.\<close>

definition sample_session_server :: "string Server" where
  "sample_session_server =
     sample_server\<lparr>srv_sessions := fst (Login sample_verify id sample_random 10 10 ''admin'' ''secret'' sample_manager)\<rparr>"

definition sample_browser_env :: "string http_env" where
  "sample_browser_env =
     sample_http_env\<lparr>hv_parseURL := (\<lambda>s. if s = ''https://other.test''
       then Some \<lparr>Scheme = ''https'', Host = ''other.test'', User = None, Path = [], RawQuery = [], Fragment = []\<rparr> else None)\<rparr>"

theorem cross_origin_changes_nothing_witness:
  "snd (Authenticate (server_sha256 sample_browser_env) (mo_session sample_moment) sample_token (srv_sessions sample_session_server))
     = Inr \<lparr>pr_Username = ''admin'', pr_Role = ''system-admin'', pr_ExpiresAt = 10 + hour\<rparr>
   \<and> srv_service (fst (ServeHTTP sample_browser_env sample_moment (sample_request\<lparr>rq_Cookie := Some sample_token\<rparr>) sample_session_server))
     = srv_service sample_session_server"
proof -
  have "foreign_origin sample_browser_env (sample_request\<lparr>rq_Cookie := Some sample_token\<rparr>)"
    "rq_Method (sample_request\<lparr>rq_Cookie := Some sample_token\<rparr>) \<in> {''POST'', ''PUT'', ''PATCH'', ''DELETE''}"
    by (simp_all add: foreign_origin_def panel_origin_def sample_request_def sample_browser_env_def)
  note unchanged = cross_origin_changes_nothing [OF this(2,1), of sample_moment sample_session_server]
  have "mo_session sample_moment = 20" "server_sha256 sample_browser_env = id"
    by (simp_all add: sample_moment_def server_sha256_def sample_browser_env_def sample_http_env_def sample_env_def)
  then show ?thesis
    using unchanged Authenticate_history [OF sample_login(1) sample_login(2) _ sample_token_set, of 20]
    by (simp add: sample_session_server_def hour_def minute_def second_def)
qed

section \<open>Error responses\<close>

lemma either_shape:
  "(\<exists>a b c. x = f a b c) \<Longrightarrow> (\<exists>a b c. y = f a b c) \<Longrightarrow> \<exists>a b c. (if p then x else y) = f a b c"
  by simp

lemma writeError_shape:
  "\<exists>status code message. writeError rq e = writeErrorStatus rq status code message
     (case as_validation e of Some d \<Rightarrow> [d] | None \<Rightarrow> [])"
proof (cases "as_validation e")
  case None
  then show ?thesis unfolding writeError_def by (simp only: option.case) (intro either_shape; blast)
next
  case (Some d)
  then show ?thesis unfolding writeError_def by (simp only: option.case) blast
qed

lemma errors_is_Wrapped:
  "errors_is (Wrapped text e) ErrUnauthorized = errors_is e ErrUnauthorized"
  "errors_is (Wrapped text e) ErrForbidden = errors_is e ErrForbidden"
  "errors_is (Wrapped text e) ErrNotFound = errors_is e ErrNotFound"
  "errors_is (Wrapped text e) ErrConflict = errors_is e ErrConflict"
  "errors_is (Wrapped text e) ErrInvalidState = errors_is e ErrInvalidState"
  "errors_is (Wrapped text e) ErrBusy = errors_is e ErrBusy"
  "errors_is (Wrapped text e) ErrTimeout = errors_is e ErrTimeout"
  "errors_is (Wrapped text e) ContextDeadlineExceeded = errors_is e ContextDeadlineExceeded"
  "errors_is (Wrapped text e) ErrUpstream = errors_is e ErrUpstream"
  by simp_all

lemma writeError_Wrapped: "writeError rq (Wrapped text e) = writeError rq e"
  unfolding writeError_def as_validation.simps errors_is_Wrapped ..

lemma writeError_NewError: "writeError rq (NewError text) = writeErrorStatus rq 500 ''internal_error'' internal_message []"
  by (simp add: writeError_def)

text \<open>
  An error response does not leak internals: the text that the code wraps around an error, and
  the text of an error that is not one of the domain's, change nothing in the response. Only the
  field and message of a validation error are shown.
\<close>

theorem writeError_hides_internals:
  "writeError rq (Wrapped text e) = writeError rq e
   \<and> writeError rq (NewError text) = writeError rq (NewError [])
   \<and> rs_Status (writeError rq (NewError text)) = 500
   \<and> (\<exists>status code message. writeError rq e = writeErrorStatus rq status code message
        (case as_validation e of Some d \<Rightarrow> [d] | None \<Rightarrow> []))"
  using writeError_shape [of rq e]
  by (simp add: writeError_Wrapped writeError_NewError writeErrorStatus_def writeJSON_def)

section \<open>Routing\<close>

text \<open>The patterns of the table, those below one cluster without their common beginning.\<close>

definition front_patterns :: "(string \<times> pat list) list" where
  "front_patterns = [
     (''GET'', [Lit ''healthz'']),
     (''GET'', [Lit ''readyz'']),
     (''POST'', api [Lit ''session'']),
     (''GET'', api [Lit ''session'']),
     (''DELETE'', api [Lit ''session'']),
     (''GET'', api [Lit ''clusters'']),
     (''POST'', api [Lit ''clusters''])]"

definition cluster_patterns :: "(string \<times> pat list) list" where
  "cluster_patterns = [
     (''GET'', []),
     (''PATCH'', []),
     (''DELETE'', []),
     (''POST'', [Lit ''connection-tests'']),
     (''POST'', [Lit ''credential-rotations'']),
     (''GET'', [Lit ''capabilities'']),
     (''GET'', [Lit ''summary'']),
     (''GET'', [Lit ''namespaces'']),
     (''GET'', [Lit ''pod-security-admission'', Lit ''namespaces'']),
     (''GET'', [Lit ''upgrade-readiness'', Lit ''node-versions'']),
     (''GET'', [Lit ''upgrade-readiness'', Lit ''deprecated-apis'']),
     (''GET'', [Lit ''upgrade-readiness'', Lit ''endpoint-certificate'']),
     (''GET'', [Lit ''control-plane'', Lit ''readiness'']),
     (''GET'', [Lit ''upgrade-readiness'', Lit ''disruption-budgets'']),
     (''GET'', [Lit ''nodes'']),
     (''GET'', [Lit ''nodes'', Wild ''name'']),
     (''GET'', [Lit ''nodes'', Wild ''name'', Lit ''events'']),
     (''GET'', [Lit ''custom-resource-definitions'']),
     (''GET'', [Lit ''custom-resource-definitions'', Wild ''name'']),
     (''GET'', [Lit ''certificate-signing-requests'']),
     (''GET'', [Lit ''certificate-signing-requests'', Wild ''name'']),
     (''GET'', [Lit ''priority-classes'']),
     (''GET'', [Lit ''priority-classes'', Wild ''name'']),
     (''GET'', [Lit ''runtime-classes'']),
     (''GET'', [Lit ''runtime-classes'', Wild ''name'']),
     (''GET'', [Lit ''api-services'']),
     (''GET'', [Lit ''admission-webhook-configurations'']),
     (''GET'', [Lit ''admission-webhook-configurations'', Wild ''name'']),
     (''GET'', [Lit ''validating-admission-policies'']),
     (''GET'', [Lit ''validating-admission-policies'', Wild ''name'']),
     (''GET'', [Lit ''validating-admission-policy-bindings'']),
     (''GET'', [Lit ''validating-admission-policy-bindings'', Wild ''name'']),
     (''GET'', [Lit ''events'']),
     (''GET'', [Lit ''workloads'']),
     (''GET'', [Lit ''services'']),
     (''GET'', [Lit ''ingresses'']),
     (''GET'', [Lit ''endpoint-slices'']),
     (''GET'', [Lit ''network-policies'']),
     (''GET'', [Lit ''configmaps'']),
     (''GET'', [Lit ''secrets'']),
     (''GET'', [Lit ''persistent-volume-claims'']),
     (''GET'', [Lit ''persistent-volumes'']),
     (''GET'', [Lit ''storage-classes'']),
     (''GET'', [Lit ''volume-attachments'']),
     (''GET'', [Lit ''csi-storage-capacities'']),
     (''GET'', [Lit ''volume-attributes-classes'']),
     (''GET'', [Lit ''csi-drivers'']),
     (''GET'', [Lit ''csi-drivers'', Wild ''name'']),
     (''GET'', [Lit ''csi-nodes'']),
     (''GET'', [Lit ''csi-nodes'', Wild ''name'']),
     (''GET'', [Lit ''resource-quotas'']),
     (''GET'', [Lit ''limit-ranges'']),
     (''GET'', [Lit ''horizontal-pod-autoscalers'']),
     (''GET'', [Lit ''pod-disruption-budgets'']),
     (''GET'', [Lit ''access-resources'']),
     (''GET'', [Lit ''access-resources'', Wild ''kind'', Wild ''name'']),
     (''POST'', [Lit ''service-account-access-reviews'']),
     (''GET'', [Lit ''workloads'', Wild ''kind'', Wild ''namespace'', Wild ''name'']),
     (''GET'', [Lit ''workloads'', Wild ''kind'', Wild ''namespace'', Wild ''name'', Lit ''revisions'']),
     (''GET'', [Lit ''workloads'', Wild ''kind'', Wild ''namespace'', Wild ''name'', Lit ''events'']),
     (''GET'', [Lit ''pods'', Wild ''namespace'', Wild ''name'', Lit ''logs'']),
     (''POST'', [Lit ''workloads'', Wild ''kind'', Wild ''namespace'', Wild ''name'', Lit ''scales'']),
     (''POST'', [Lit ''workloads'', Wild ''kind'', Wild ''namespace'', Wild ''name'', Lit ''restarts'']),
     (''POST'', [Lit ''workloads'', Wild ''kind'', Wild ''namespace'', Wild ''name'', Lit ''image-previews'']),
     (''POST'', [Lit ''workloads'', Wild ''kind'', Wild ''namespace'', Wild ''name'', Lit ''image-updates''])]"

definition back_patterns :: "(string \<times> pat list) list" where
  "back_patterns = [
     (''GET'', api [Lit ''chart-repositories'']),
     (''POST'', api [Lit ''chart-repositories'']),
     (''PATCH'', api [Lit ''chart-repositories'', Wild ''id'']),
     (''DELETE'', api [Lit ''chart-repositories'', Wild ''id'']),
     (''POST'', api [Lit ''chart-repositories'', Wild ''id'', Lit ''connection-tests'']),
     (''GET'', api [Lit ''helm-releases'']),
     (''POST'', api [Lit ''helm-releases'']),
     (''GET'', api [Lit ''helm-releases'', Wild ''name'', Lit ''history'']),
     (''POST'', api [Lit ''helm-releases'', Wild ''name'', Lit ''upgrades'']),
     (''POST'', api [Lit ''helm-releases'', Wild ''name'', Lit ''rollbacks'']),
     (''DELETE'', api [Lit ''helm-releases'', Wild ''name'']),
     (''GET'', api [Lit ''operations'']),
     (''GET'', api [Lit ''operations'', Wild ''id'']),
     (''POST'', api [Lit ''operations'', Wild ''id'', Lit ''cancellations'']),
     (''GET'', api [Lit ''audit-events'']),
     (''GET'', api [Lit ''system'', Lit ''resources''])]"

lemma route_patterns:
  "map (\<lambda>(mth, ps, t). (mth, ps)) routes =
     front_patterns @ map (\<lambda>(mth, ps). (mth, cluster ps)) cluster_patterns @ back_patterns"
  by (simp add: routes_def front_patterns_def cluster_patterns_def back_patterns_def)

text \<open>Whether two patterns have a path in common.\<close>

fun overlap :: "pat list \<Rightarrow> pat list \<Rightarrow> bool" where
  "overlap [] [] = True"
| "overlap (Lit a # ps) (Lit b # qs) = (a = b \<and> overlap ps qs)"
| "overlap (Lit a # ps) (Wild _ # qs) = overlap ps qs"
| "overlap (Wild _ # ps) (_ # qs) = overlap ps qs"
| "overlap _ _ = False"

definition clash :: "string \<times> pat list \<Rightarrow> string \<times> pat list \<Rightarrow> bool" where
  "clash a b \<longleftrightarrow> overlap (snd a) (snd b) \<and> (fst a = fst b \<or> fst a = ''HEAD'' \<or> fst b = ''HEAD'')"

lemma match_overlap: "match_path ps segs = Some v \<Longrightarrow> match_path qs segs = Some w \<Longrightarrow> overlap ps qs"
proof (induction segs arbitrary: ps qs v w)
  case Nil
  then show ?case by (cases ps; cases qs) (auto elim: match_path.elims)
next
  case (Cons seg segs)
  then show ?case
    by (cases ps rule: list.exhaust; cases qs rule: list.exhaust;
        cases "hd ps"; cases "hd qs") (auto split: if_splits)
qed

lemma match_clash:
  assumes "match_method m mth" "match_path ps segs = Some v" "match_method m' mth" "match_path qs segs = Some w"
  shows "clash (m, ps) (m', qs)"
  using assms match_overlap [OF assms(2,4)] by (auto simp: match_method_def clash_def)

lemma patterns_apart:
  "sorted_wrt (\<lambda>a b. \<not> clash a b) (front_patterns @ back_patterns)"
  "sorted_wrt (\<lambda>a b. \<not> clash a b) cluster_patterns"
  by code_simp+

lemma others_apart:
  "list_all (\<lambda>a. \<not> overlap (snd a) (cluster ps) \<and> \<not> overlap (cluster ps) (snd a)) (front_patterns @ back_patterns)"
  by (simp add: front_patterns_def back_patterns_def)

lemma routes_apart: "sorted_wrt (\<lambda>a b. \<not> clash a b) (map (\<lambda>(mth, ps, t). (mth, ps)) routes)"
proof -
  have "sorted_wrt (\<lambda>a b. \<not> clash a b) (map (\<lambda>(mth, ps). (mth, cluster ps)) cluster_patterns)"
    using patterns_apart(2) by (simp add: sorted_wrt_map case_prod_beta clash_def)
  moreover have "\<not> clash a (m, cluster ps) \<and> \<not> clash (m, cluster ps) a"
    if "a \<in> set front_patterns \<union> set back_patterns" for a m ps
    using others_apart [of ps] that by (auto simp: list_all_iff clash_def)
  ultimately show ?thesis
    using patterns_apart(1) unfolding route_patterns by (auto simp: sorted_wrt_append)
qed

lemma filter_at_most_one: "sorted_wrt (\<lambda>a b. \<not> (P a \<and> P b)) xs \<Longrightarrow> length (filter P xs) \<le> 1"
  by (induction xs) (auto simp: filter_empty_conv)

text \<open>
  Routing is unambiguous: whatever the method and path, at most one route of the table matches,
  so the table's order and the precedence rules of the multiplexer do not matter.
\<close>

theorem routes_unambiguous:
  "length (filter (\<lambda>(m, ps, t). match_method m mth \<and> match_path ps segs \<noteq> None) routes) \<le> 1"
proof (rule filter_at_most_one)
  have "sorted_wrt (\<lambda>a b. \<not> clash (fst a, fst (snd a)) (fst b, fst (snd b))) routes"
    using routes_apart by (simp add: sorted_wrt_map case_prod_beta)
  then show "sorted_wrt (\<lambda>a b. \<not> ((case a of (m, ps, t) \<Rightarrow> match_method m mth \<and> match_path ps segs \<noteq> None)
      \<and> (case b of (m, ps, t) \<Rightarrow> match_method m mth \<and> match_path ps segs \<noteq> None))) routes"
    by (rule sorted_wrt_mono_rel [rotated]) (auto dest: match_clash)
qed

section \<open>The panel as a whole\<close>

text \<open>A request, or a step of the service in the background: a worker, or the shutdown.\<close>

inductive server_path :: "'gw http_env \<Rightarrow> 'gw Server \<Rightarrow> 'gw Server \<Rightarrow> bool" for hv srv0 where
  start: "server_path hv srv0 srv0"
| request: "server_path hv srv0 srv \<Longrightarrow> server_path hv srv0 (fst (ServeHTTP hv mo rq srv))"
| background: "server_path hv srv0 srv \<Longrightarrow> service_step (hv_env hv) (srv_service srv) s \<Longrightarrow>
    server_path hv srv0 (srv\<lparr>srv_service := s\<rparr>)"

lemma service_path_trans: "service_path env s t \<Longrightarrow> service_path env t u \<Longrightarrow> service_path env s u"
  by (rotate_tac, induction rule: service_path.induct) (auto intro: service_path.there)

text \<open>The request slots are given back.\<close>

lemma dispatch_slots:
  "srv_requestSlots (fst (dispatch hv mo t rq srv)) = srv_requestSlots srv"
  "srv_maxRequests (fst (dispatch hv mo t rq srv)) = srv_maxRequests srv"
  by (cases t; auto simp: dispatch_def on_service_def protected_by_def login_def logout_def Let_def
      split: prod.splits sum.splits option.splits)+

lemma mux_slots:
  "srv_requestSlots (fst (mux hv mo rq srv)) = srv_requestSlots srv"
  "srv_maxRequests (fst (mux hv mo rq srv)) = srv_maxRequests srv"
  by (auto simp: mux_def dispatch_slots split: option.split)

lemma ServeHTTP_slots:
  "srv_requestSlots (fst (ServeHTTP hv mo rq srv)) = srv_requestSlots srv"
  "srv_maxRequests (fst (ServeHTTP hv mo rq srv)) = srv_maxRequests srv"
  by (auto simp: ServeHTTP_def Let_def case_prod_beta mux_slots split: sum.split)

lemma server_path_service:
  "server_path hv srv0 srv \<Longrightarrow>
     service_path (hv_env hv) (srv_service srv0) (srv_service srv)
     \<and> srv_requestSlots srv = srv_requestSlots srv0 \<and> srv_maxRequests srv = srv_maxRequests srv0"
proof (induction rule: server_path.induct)
  case (request srv mo rq)
  then show ?case
    using service_path_trans [OF _ ServeHTTP_service(1) [of hv srv mo rq]] by (simp add: ServeHTTP_slots)
next
  case (background srv s)
  then show ?case using service_path.there [of "hv_env hv" "srv_service srv0" "srv_service srv" s] by simp
qed (simp add: service_path.here)

text \<open>
  (C14) The invariant of the panel: whatever requests arrive, with or without a session, and whatever
  the workers do in between, no request slot, read slot, operation slot or target lock stays held,
  the stored data is well formed, and the client cache keeps its bound with no build pending.
\<close>

theorem panel_invariant:
  assumes "http_New serviceSet sessionsSet dir secure maxRequests s0 sessions = Inr srv0"
    and "service_New allSet idSet queueSize cacheSize ttl file operationGovernor readGovernor = Inr s0"
    and "governor_New oc = Inr operationGovernor" and "cf_MaxConcurrent oc < 2 ^ 63"
    and "governor_New rc = Inr readGovernor" and "cf_MaxConcurrent rc < 2 ^ 63"
    and "store_wf (data file)" and "server_path hv srv0 srv"
  shows "srv_requestSlots srv = 0 \<and> srv_maxRequests srv \<in> {1..128}
    \<and> gv_active (ps_readGovernor (srv_service srv)) = 0
    \<and> gv_active (ps_operationGovernor (srv_service srv)) = 0
    \<and> ps_targetLocks (srv_service srv) = replicate targetLockStripes False
    \<and> store_wf (data (ps_store (srv_service srv)))
    \<and> int (length (gc_entries (ps_gatewayCache (srv_service srv)))) \<le> gc_capacity (ps_gatewayCache (srv_service srv))
    \<and> gc_builds (ps_gatewayCache (srv_service srv)) = []"
proof -
  have new: "srv_service srv0 = s0" "srv_requestSlots srv0 = 0" "srv_maxRequests srv0 \<in> {1..128}"
    using assms(1) by (auto simp: http_New_def Let_def split: if_splits)
  then have "service_path (hv_env hv) s0 (srv_service srv)" "srv_requestSlots srv = 0" "srv_maxRequests srv \<in> {1..128}"
    using server_path_service [OF assms(8)] by auto
  then show ?thesis using service_path_ok [OF assms(2-7)] by blast
qed

theorem panel_invariant_witness:
  "srv_requestSlots (fst (ServeHTTP sample_http_env sample_moment sample_request sample_server)) = 0"
proof -
  have "server_path sample_http_env sample_server (fst (ServeHTTP sample_http_env sample_moment sample_request sample_server))"
    by (rule server_path.request [OF server_path.start])
  moreover have "store_wf (data sample_file)"
    by (simp add: sample_defs store_wf_def schemaVersion_def unique_rows_def)
  moreover have "cf_MaxConcurrent sample_config < 2 ^ 63" by (simp add: sample_config_def)
  ultimately show ?thesis
    using panel_invariant [OF sample_server_New sample_service_New sample_governor_New _ sample_governor_New] by blast
qed

section \<open>Static files\<close>

lemma split_char_append: "split_char d (a @ d # b) = split_char d a @ split_char d b"
proof (induction a)
  case (Cons c a)
  then show ?case by (cases "split_char d a") (auto split: list.split)
qed simp

text \<open>A plain component is neither empty nor a dot name and holds no separator.\<close>

definition plain_part :: "string \<Rightarrow> bool" where
  "plain_part c \<longleftrightarrow> c \<noteq> [] \<and> c \<noteq> ''.'' \<and> c \<noteq> ''..'' \<and> CHR ''/'' \<notin> set c"

lemma foldl_plain: "list_all plain_part cs \<Longrightarrow> foldl (clean_step rooted) acc cs = acc @ cs"
  by (induction cs arbitrary: acc) (auto simp: plain_part_def)

lemma clean_rooted_plain:
  "\<forall>c \<in> set cs. CHR ''/'' \<notin> set c \<Longrightarrow> list_all plain_part acc \<Longrightarrow>
     list_all plain_part (foldl (clean_step True) acc cs)"
proof (induction cs arbitrary: acc)
  case (Cons c cs)
  have "list_all plain_part (clean_step True acc c)"
    using Cons.prems by (auto simp: plain_part_def list_all_iff dest: in_set_butlastD)
  then show ?case using Cons by simp
qed simp

lemma split_join_plain:
  "list_all plain_part cs \<Longrightarrow> cs \<noteq> [] \<Longrightarrow> split_char CHR ''/'' (join_str ''/'' cs) = cs"
proof (induction "''/''" cs rule: join_str.induct)
  case (2 w)
  then show ?case by (simp add: plain_part_def split_char_single)
next
  case (3 w v ws)
  then show ?case by (simp add: plain_part_def split_char_first)
qed simp

text \<open>
  The static files cannot be left: whatever the path of a request, the file served lies below
  the configured directory, at a relative path with no \<^verbatim>\<open>..\<close> in it.
\<close>

theorem static_file_stays_below:
  assumes "rs_Body (static_file hv rq dir) = FileBody file"
  shows "\<exists>p rest. file = Clean p \<and> has_prefix p ''/'' = has_prefix dir ''/'' \<and> clean_parts p = clean_parts dir @ rest
    \<and> list_all plain_part rest"
proof -
  let ?parts = "clean_parts (CHR ''/'' # rq_Path rq)"
  have plain: "list_all plain_part ?parts"
    unfolding clean_parts_def using split_char_no_sep [of _ "CHR ''/''"] by (auto simp: has_prefix_def intro!: clean_rooted_plain)
  have below: "\<exists>p rest. Join dir (join_str ''/'' cs) = Clean p \<and> has_prefix p ''/'' = has_prefix dir ''/''
      \<and> clean_parts p = clean_parts dir @ rest \<and> list_all plain_part rest"
    if "list_all plain_part cs" and "dir \<noteq> []" for cs
  proof (cases "cs = []")
    case True
    then show ?thesis using that by (intro exI [of _ dir] exI [of _ "[]"]) (simp add: Join_def)
  next
    case False
    then have "join_str ''/'' cs \<noteq> []"
      using that(1) by (cases cs; cases "tl cs") (auto simp: plain_part_def)
    then have "Join dir (join_str ''/'' cs) = Clean (dir @ CHR ''/'' # join_str ''/'' cs)"
      using that by (simp add: Join_def)
    moreover have "has_prefix (dir @ CHR ''/'' # join_str ''/'' cs) ''/'' = has_prefix dir ''/''"
      using that(2) by (cases dir) (auto simp: has_prefix_def)
    ultimately show ?thesis
      using that False
      by (intro exI [of _ "dir @ CHR ''/'' # join_str ''/'' cs"] exI [of _ cs])
         (simp add: clean_parts_def split_char_append split_join_plain foldl_plain)
  qed
  have "drop 1 (Clean (CHR ''/'' # rq_Path rq)) = join_str ''/'' ?parts"
    by (simp add: Clean_def has_prefix_def)
  then have "dir \<noteq> [] \<and> (file = Join dir (join_str ''/'' ?parts) \<or> file = Join dir (join_str ''/'' [''index.html'']))"
    using assms unfolding static_file_def Let_def
    by (auto simp: writeErrorStatus_def writeJSON_def split: if_splits option.splits bool.splits)
  moreover have "list_all plain_part [''index.html'']" by (simp add: plain_part_def)
  ultimately show ?thesis using below [OF plain] below [of "[''index.html'']"] by blast
qed

theorem static_file_stays_below_witness:
  "\<exists>p rest. Join ''web'' ''index.html'' = Clean p \<and> clean_parts p = ''web'' # rest \<and> list_all plain_part rest"
proof -
  have parts: "clean_parts ''web'' = [''web'']" by code_simp
  have "rs_Body (static_file sample_http_env (sample_request\<lparr>rq_Path := ''/../../etc/passwd''\<rparr>) ''web'')
      = FileBody (Join ''web'' ''index.html'')"
    by (simp add: static_file_def has_prefix_def sample_http_env_def Let_def)
  from static_file_stays_below [OF this] show ?thesis by (auto simp: parts)
qed

end
