(* ===== verification/Lifecycle.thy ===== *)
theory Lifecycle
  imports Service
begin

text \<open>
  The operations under concurrency: several workers, submissions and cancellations interleave, each
  store call and each lock operation being one step, in any order and with any failure. A worker
  goes through the stages of \<^verbatim>\<open>executeOperation\<close>; what it read may be stale when it acts
  on it, and a job may be delivered more than once. The worker loop of \<open>Operations\<close>, which runs
  alone, is shown to be a run of one of these workers.
\<close>

section \<open>Workers and their steps\<close>

datatype stage =
    Idle
  | Taken operationJob
  | Loaded operationJob Operation
  | Locked operationJob Operation nat
  | Slotted operationJob Operation nat
  | Running operationJob Operation nat
  | Executed operationJob Operation nat "unit result"
  | Leaving "string \<times> string \<times> string" nat

record lifecycle =
  lf_store :: File
  lf_locks :: "bool list"
  lf_workers :: "stage list"
  lf_used :: "string set"
    \<comment> \<open>the identifiers of operations so far\<close>
  lf_started :: "string list"
    \<comment> \<open>the operations that a worker began to execute\<close>
  lf_cancelled :: "string list"
    \<comment> \<open>the operations whose cancellation was confirmed to a user\<close>

abbreviation to_stage :: "nat \<Rightarrow> stage \<Rightarrow> lifecycle \<Rightarrow> lifecycle" where
  "to_stage i st c \<equiv> c\<lparr>lf_workers := (lf_workers c)[i := st]\<rparr>"

abbreviation unlocked :: "nat \<Rightarrow> lifecycle \<Rightarrow> lifecycle" where
  "unlocked stripe c \<equiv> c\<lparr>lf_locks := (lf_locks c)[stripe := False]\<rparr>"

definition at_stage :: "lifecycle \<Rightarrow> nat \<Rightarrow> stage \<Rightarrow> bool" where
  "at_stage c i st \<longleftrightarrow> i < length (lf_workers c) \<and> lf_workers c ! i = st"

definition target :: "Operation \<Rightarrow> string \<times> string \<times> string" where
  "target op = (op_ClusterID op, op_Namespace op, op_Target op)"

inductive lifecycle_step :: "lifecycle \<Rightarrow> lifecycle \<Rightarrow> bool" where
  submit: "CreateOperation io ctx op (lf_store c) = (f, r) \<Longrightarrow> op_State op = OperationQueued \<Longrightarrow>
    op_ID op \<notin> lf_used c \<Longrightarrow>
    lifecycle_step c (c\<lparr>lf_store := f, lf_used := insert (op_ID op) (lf_used c)\<rparr>)"
| reject: "TransitionOperation io ctx OperationQueued (mark_rejected code message now op) None (lf_store c) = (f, r) \<Longrightarrow>
    lifecycle_step c (c\<lparr>lf_store := f\<rparr>)"
| cancel: "TransitionOperation io ctx OperationQueued (mark_canceled now op)
      (Some (cancel_audit auditID requestID actor now op)) (lf_store c) = (f, r) \<Longrightarrow>
    lifecycle_step c (c\<lparr>lf_store := f, lf_cancelled := (if r = None then op_ID op # lf_cancelled c else lf_cancelled c)\<rparr>)"
| other: "Operations (data f) = Operations (data (lf_store c)) \<Longrightarrow> lifecycle_step c (c\<lparr>lf_store := f\<rparr>)"
| take: "at_stage c i Idle \<Longrightarrow> lifecycle_step c (to_stage i (Taken job) c)"
| load: "at_stage c i (Taken job) \<Longrightarrow> GetOperation ctx (jb_operationID job) (lf_store c) = Inr op \<Longrightarrow>
    op_State op = OperationQueued \<Longrightarrow> lifecycle_step c (to_stage i (Loaded job op) c)"
| skip: "at_stage c i (Taken job) \<Longrightarrow> lifecycle_step c (to_stage i Idle c)"
| lock: "at_stage c i (Loaded job op) \<Longrightarrow>
    stripe = targetLock (op_ClusterID op) (op_Namespace op) (op_Target op) \<Longrightarrow> \<not> lf_locks c ! stripe \<Longrightarrow>
    lifecycle_step c (to_stage i (Locked job op stripe) (c\<lparr>lf_locks := (lf_locks c)[stripe := True]\<rparr>))"
| no_lock: "at_stage c i (Loaded job op) \<Longrightarrow> lifecycle_step c (to_stage i Idle c)"
| slot: "at_stage c i (Locked job op stripe) \<Longrightarrow> lifecycle_step c (to_stage i (Slotted job op stripe) c)"
| no_slot: "at_stage c i (Locked job op stripe) \<Longrightarrow> lifecycle_step c (to_stage i (Leaving (target op) stripe) c)"
| start: "at_stage c i (Slotted job op stripe) \<Longrightarrow>
    TransitionOperation io ctx OperationQueued (mark_running now op) None (lf_store c) = (f, None) \<Longrightarrow>
    lifecycle_step c (to_stage i (Running job (mark_running now op) stripe)
      (c\<lparr>lf_store := f, lf_started := op_ID op # lf_started c\<rparr>))"
| no_start: "at_stage c i (Slotted job op stripe) \<Longrightarrow>
    TransitionOperation io ctx OperationQueued (mark_running now op) None (lf_store c) = (f, Some e) \<Longrightarrow>
    lifecycle_step c (to_stage i (Leaving (target op) stripe) (c\<lparr>lf_store := f\<rparr>))"
| execute: "at_stage c i (Running job op stripe) \<Longrightarrow> lifecycle_step c (to_stage i (Executed job op stripe result) c)"
| finish: "at_stage c i (Executed job op stripe result) \<Longrightarrow>
    final \<in> {fst (mark_finished result stopped now op), mark_unaudited (fst (mark_finished result stopped now op))} \<Longrightarrow>
    UpdateOperation io None final (lf_store c) = (f, r) \<Longrightarrow>
    lifecycle_step c (to_stage i (Leaving (target op) stripe) (c\<lparr>lf_store := f\<rparr>))"
| unlock: "at_stage c i (Leaving t stripe) \<Longrightarrow> lifecycle_step c (to_stage i Idle (unlocked stripe c))"

inductive lifecycle_path :: "lifecycle \<Rightarrow> lifecycle \<Rightarrow> bool" for c0 where
  init: "lifecycle_path c0 c0"
| step: "lifecycle_path c0 c \<Longrightarrow> lifecycle_step c d \<Longrightarrow> lifecycle_path c0 d"

text \<open>The panel after its start: every operation known, all locks free, the workers idle.\<close>

definition fresh :: "lifecycle \<Rightarrow> bool" where
  "fresh c \<longleftrightarrow>
     distinct (map op_ID (Operations (data (lf_store c)))) \<and> op_ID ` set (Operations (data (lf_store c))) \<subseteq> lf_used c
     \<and> lf_locks c = replicate targetLockStripes False \<and> set (lf_workers c) \<subseteq> {Idle}
     \<and> lf_started c = [] \<and> lf_cancelled c = []"

section \<open>The invariant of the operations\<close>

text \<open>The lock that a worker holds, the target it is for, and the operation it executes.\<close>

fun holds :: "stage \<Rightarrow> nat option" where
  "holds (Locked job op stripe) = Some stripe"
| "holds (Slotted job op stripe) = Some stripe"
| "holds (Running job op stripe) = Some stripe"
| "holds (Executed job op stripe r) = Some stripe"
| "holds (Leaving t stripe) = Some stripe"
| "holds _ = None"

fun aims_at :: "stage \<Rightarrow> (string \<times> string \<times> string) option" where
  "aims_at (Locked job op stripe) = Some (target op)"
| "aims_at (Slotted job op stripe) = Some (target op)"
| "aims_at (Running job op stripe) = Some (target op)"
| "aims_at (Executed job op stripe r) = Some (target op)"
| "aims_at (Leaving t stripe) = Some t"
| "aims_at _ = None"

fun works_on :: "stage \<Rightarrow> Operation option" where
  "works_on (Running job op stripe) = Some op"
| "works_on (Executed job op stripe r) = Some op"
| "works_on _ = None"

definition stripe_of :: "string \<times> string \<times> string \<Rightarrow> nat" where
  "stripe_of = (\<lambda>(clusterID, namespace, name). targetLock clusterID namespace name)"

definition locks_ok :: "bool list \<Rightarrow> stage list \<Rightarrow> bool" where
  "locks_ok locks workers \<longleftrightarrow>
     length locks = targetLockStripes
     \<and> (\<forall>i < length workers. holds (workers ! i) = map_option stripe_of (aims_at (workers ! i)))
     \<and> (\<forall>i < length workers. \<forall>stripe. holds (workers ! i) = Some stripe \<longrightarrow> locks ! stripe)
     \<and> (\<forall>i < length workers. \<forall>j < length workers. \<forall>stripe.
          holds (workers ! i) = Some stripe \<longrightarrow> holds (workers ! j) = Some stripe \<longrightarrow> i = j)"

text \<open>An operation that was started or cancelled is not queued any more.\<close>

definition settled :: "string set \<Rightarrow> Operation list \<Rightarrow> bool" where
  "settled ids ops \<longleftrightarrow> (\<forall>i p. find_key op_ID i ops = Some p \<longrightarrow> i \<in> ids \<longrightarrow> op_State p \<noteq> OperationQueued)"

definition known :: "string set \<Rightarrow> Operation list \<Rightarrow> bool" where
  "known ids ops \<longleftrightarrow> distinct (map op_ID ops) \<and> op_ID ` set ops \<subseteq> ids"

definition operations_ok :: "lifecycle \<Rightarrow> bool" where
  "operations_ok c \<longleftrightarrow>
     known (lf_used c) (Operations (data (lf_store c)))
     \<and> settled (set (lf_started c) \<union> set (lf_cancelled c)) (Operations (data (lf_store c)))
     \<and> set (lf_started c) \<union> set (lf_cancelled c) \<subseteq> lf_used c
     \<and> distinct (lf_started c) \<and> set (lf_started c) \<inter> set (lf_cancelled c) = {}
     \<and> (\<forall>st \<in> set (lf_workers c). \<forall>op. works_on st = Some op \<longrightarrow> op_ID op \<in> set (lf_started c))"

section \<open>Locks\<close>

lemma stripe_range: "stripe_of t < targetLockStripes"
proof -
  have "unat (h mod of_nat targetLockStripes) < targetLockStripes" for h :: "64 word"
    by (simp add: targetLockStripes_def unat_mod)
  then show ?thesis by (simp add: stripe_of_def targetLock_def Let_def split: prod.split)
qed

lemma locks_move:
  assumes "locks_ok locks workers" and "holds st = holds (workers ! i)" and "aims_at st = aims_at (workers ! i)"
  shows "locks_ok locks (workers[i := st])"
proof -
  have "holds (workers[i := st] ! j) = holds (workers ! j)" "aims_at (workers[i := st] ! j) = aims_at (workers ! j)"
    if "j < length workers" for j
    using assms(2,3) that by (cases "i = j"; simp)+
  then show ?thesis using assms(1) by (simp add: locks_ok_def)
qed

lemma locks_okI:
  assumes "length locks = targetLockStripes"
    and "\<And>i. i < length workers \<Longrightarrow> holds (workers ! i) = map_option stripe_of (aims_at (workers ! i))"
    and "\<And>i stripe. i < length workers \<Longrightarrow> holds (workers ! i) = Some stripe \<Longrightarrow> locks ! stripe"
    and "\<And>i j stripe. i < length workers \<Longrightarrow> j < length workers \<Longrightarrow> holds (workers ! i) = Some stripe \<Longrightarrow>
      holds (workers ! j) = Some stripe \<Longrightarrow> i = j"
  shows "locks_ok locks workers"
  using assms unfolding locks_ok_def by blast

lemma locks_okD:
  assumes "locks_ok locks workers"
  shows "length locks = targetLockStripes"
    and "i < length workers \<Longrightarrow> holds (workers ! i) = map_option stripe_of (aims_at (workers ! i))"
    and "i < length workers \<Longrightarrow> holds (workers ! i) = Some stripe \<Longrightarrow> locks ! stripe"
    and "i < length workers \<Longrightarrow> j < length workers \<Longrightarrow> holds (workers ! i) = Some stripe \<Longrightarrow>
      holds (workers ! j) = Some stripe \<Longrightarrow> i = j"
  using assms unfolding locks_ok_def by blast+

lemma locks_release:
  assumes ok: "locks_ok locks workers" and i: "i < length workers" "holds (workers ! i) = Some stripe"
  shows "locks_ok (locks[stripe := False]) (workers[i := Idle])"
proof (rule locks_okI)
  fix j k stripe' assume "j < length (workers[i := Idle])" and "holds (workers[i := Idle] ! j) = Some stripe'"
  then have j: "j < length workers" "j \<noteq> i" "holds (workers ! j) = Some stripe'"
    using i(1) by (auto simp: nth_list_update split: if_splits)
  then have "stripe' \<noteq> stripe" using locks_okD(4) [OF ok _ _ _ i(2)] i(1) by blast
  then show "locks[stripe := False] ! stripe'" using locks_okD(3) [OF ok j(1,3)] by simp
  assume "k < length (workers[i := Idle])" "holds (workers[i := Idle] ! k) = Some stripe'"
  then show "j = k" using locks_okD(4) [OF ok j(1) _ j(3)] i(1) by (auto simp: nth_list_update split: if_splits)
qed (use locks_okD(1,2) [OF ok] i(1) in \<open>auto simp: nth_list_update\<close>)

lemma locks_acquire:
  assumes ok: "locks_ok locks workers" and i: "i < length workers" and free: "\<not> locks ! stripe" and stripe: "stripe = stripe_of (target op)"
  shows "locks_ok (locks[stripe := True]) (workers[i := Locked job op stripe])"
proof (rule locks_okI)
  let ?ws = "workers[i := Locked job op stripe]"
  have len: "stripe < length locks" using stripe_range locks_okD(1) [OF ok] stripe by simp
  have other: "stripe' \<noteq> stripe" if "j < length workers" "holds (workers ! j) = Some stripe'" for j stripe'
    using locks_okD(3) [OF ok that] free by blast
  fix j k stripe' assume j: "j < length ?ws" "holds (?ws ! j) = Some stripe'"
  then show "locks[stripe := True] ! stripe'"
    using i len locks_okD(3) [OF ok, of j] by (auto simp: nth_list_update split: if_splits)
  assume "k < length ?ws" "holds (?ws ! k) = Some stripe'"
  then show "j = k"
    using i j other [of j] other [of k] locks_okD(4) [OF ok, of j k] by (auto simp: nth_list_update split: if_splits)
qed (use locks_okD(1,2) [OF ok] stripe i in \<open>auto simp: nth_list_update\<close>)

section \<open>Operations\<close>

lemma known_replace:
  assumes "known ids ops" and "find_index op_ID (op_ID p) ops = Some k"
  shows "known ids (ops[k := p])"
proof -
  have "map op_ID (ops[k := p]) = map op_ID ops"
    using find_index_Some [OF assms(2)] by (intro map_update_same) auto
  then show ?thesis using assms(1) unfolding known_def by (metis list.set_map)
qed

lemma settled_replace:
  assumes "settled ids ops" and "find_index op_ID (op_ID p) ops = Some k" and "op_State p \<noteq> OperationQueued"
  shows "settled (insert (op_ID p) ids) (ops[k := p])"
  using assms by (auto simp: settled_def find_key_update)

lemma settled_subset: "settled ids ops \<Longrightarrow> ids' \<subseteq> ids \<Longrightarrow> settled ids' ops"
  unfolding settled_def by blast

lemma transition_outcome:
  assumes "TransitionOperation io ctx OperationQueued p a s = (f, r)"
  shows "Operations (data f) = Operations (data s) \<and> r \<noteq> None
    \<or> (\<exists>k. find_index op_ID (op_ID p) (Operations (data s)) = Some k
        \<and> op_State (Operations (data s) ! k) = OperationQueued
        \<and> Operations (data f) = (Operations (data s))[k := p])"
proof (cases r)
  case None
  then show ?thesis using TransitionOperation_ok [OF assms [unfolded None]] by (auto split: option.splits)
next
  case (Some e)
  then have "data f = data s"
    using call_failed_data [of io ctx "TransitionOperationCall OperationQueued p a"] assms by simp
  then show ?thesis using Some by simp
qed

lemma update_outcome:
  assumes "UpdateOperation io ctx p s = (f, r)"
  shows "Operations (data f) = Operations (data s)
    \<or> (\<exists>k. find_index op_ID (op_ID p) (Operations (data s)) = Some k
        \<and> Operations (data f) = (Operations (data s))[k := p])"
proof (cases r)
  case None
  then show ?thesis using UpdateOperation_ok [OF assms [unfolded None]] by auto
next
  case (Some e)
  then show ?thesis
    using call_failed_data [of io ctx "UpdateOperationCall p"] assms by simp
qed

lemma subseq_subset: "subseq xs ys \<Longrightarrow> set xs \<subseteq> set ys"
  by (induction rule: list_emb.induct) auto

lemma create_outcome:
  assumes "CreateOperation io ctx p s = (f, r)" and "known ids (Operations (data s))" and "op_ID p \<notin> ids"
  shows "known (insert (op_ID p) ids) (Operations (data f))"
    and "find_key op_ID i (Operations (data f)) = Some q \<Longrightarrow> i \<noteq> op_ID p \<Longrightarrow>
      find_key op_ID i (Operations (data s)) = Some q"
proof -
  let ?ops = "Operations (data s)"
  have sub: "subseq (Operations (data f)) (?ops @ [p])"
  proof (cases r)
    case None
    then show ?thesis
      using CreateOperation_ok [OF assms(1) [unfolded None]] by (simp add: trimOperationHistory_subseq)
  next
    case (Some e)
    then have "data f = data s" using call_failed_data [of io ctx "CreateOperationCall p"] assms(1) by simp
    then show ?thesis using list_emb_prefix [OF subseq_order.order_refl] by simp
  qed
  have old: "distinct (map op_ID (?ops @ [p]))"
    using assms(2,3) by (auto simp: known_def)
  then have new: "distinct (map op_ID (Operations (data f)))" by (rule subseq_distinct_map [OF sub])
  moreover have "set (Operations (data f)) \<subseteq> insert p (set ?ops)"
    using subseq_subset [OF sub] by simp
  ultimately show "known (insert (op_ID p) ids) (Operations (data f))"
    using assms(2) by (auto simp: known_def)
  assume "find_key op_ID i (Operations (data f)) = Some q" and "i \<noteq> op_ID p"
  then have "q \<in> set ?ops" "op_ID q = i"
    using \<open>set (Operations (data f)) \<subseteq> insert p (set ?ops)\<close> by (auto dest!: find_key_Some)
  then show "find_key op_ID i ?ops = Some q"
    using assms(2) find_key_distinct unfolding known_def by metis
qed

lemma create_keeps:
  assumes "CreateOperation io ctx p s = (f, r)" and "known used (Operations (data s))" and "op_ID p \<notin> used"
    and "settled ids (Operations (data s))" and "ids \<subseteq> used"
  shows "known (insert (op_ID p) used) (Operations (data f)) \<and> settled ids (Operations (data f))"
  using create_outcome [OF assms(1-3)] assms(3-5) unfolding settled_def by blast

lemma transition_keeps:
  assumes "TransitionOperation io ctx OperationQueued p a s = (f, r)" and "op_State p \<noteq> OperationQueued"
    and "known used (Operations (data s))" and "settled ids (Operations (data s))"
  shows "known used (Operations (data f))" and "settled ids (Operations (data f))"
    and "r = None \<Longrightarrow> op_ID p \<notin> ids \<and> op_ID p \<in> used \<and> settled (insert (op_ID p) ids) (Operations (data f))"
proof -
  have replaced: "known used (Operations (data f)) \<and> op_ID p \<notin> ids \<and> op_ID p \<in> used
      \<and> settled (insert (op_ID p) ids) (Operations (data f))"
    if k: "find_index op_ID (op_ID p) (Operations (data s)) = Some k"
      and "op_State (Operations (data s) ! k) = OperationQueued"
      and "Operations (data f) = (Operations (data s))[k := p]" for k
  proof -
    note found = find_index_Some [OF k]
    then have "op_ID (Operations (data s) ! k) \<in> op_ID ` set (Operations (data s))"
      by (intro imageI nth_mem) simp
    then have "op_ID p \<in> used" using assms(3) found unfolding known_def by (metis subsetD)
    moreover have "op_ID p \<notin> ids" using assms(4) found that(2) unfolding settled_def by blast
    ultimately show ?thesis
      using known_replace [OF assms(3) k] settled_replace [OF assms(4) k assms(2)] that(3) by simp
  qed
  show "known used (Operations (data f))" "settled ids (Operations (data f))"
    using transition_outcome [OF assms(1)] replaced assms(3,4) by (metis, metis settled_subset subset_insertI)
  show "op_ID p \<notin> ids \<and> op_ID p \<in> used \<and> settled (insert (op_ID p) ids) (Operations (data f))" if "r = None"
    using transition_outcome [OF assms(1)] replaced that by metis
qed

lemma update_keeps:
  assumes "UpdateOperation io ctx p s = (f, r)" and "op_State p \<noteq> OperationQueued"
    and "known used (Operations (data s))" and "settled ids (Operations (data s))"
  shows "known used (Operations (data f)) \<and> settled ids (Operations (data f))"
  using update_outcome [OF assms(1)] known_replace [OF assms(3)] settled_replace [OF assms(4) _ assms(2)] assms(3,4)
  by (metis settled_subset subset_insertI)

section \<open>Every step keeps the invariant\<close>

lemma mark_simps [simp]:
  "op_ID (mark_running now op) = op_ID op" "op_State (mark_running now op) = OperationRunning"
  "op_ID (mark_canceled now op) = op_ID op" "op_State (mark_canceled now op) = OperationCanceled"
  "op_State (mark_rejected code message now op) = OperationFailed"
  "op_State (mark_unaudited op) = OperationFailed"
  "target (mark_running now op) = target op"
  by (simp_all add: mark_running_def mark_canceled_def mark_rejected_def mark_unaudited_def target_def)

lemma mark_finished_state [simp]: "op_State (fst (mark_finished result stopped now op)) \<noteq> OperationQueued"
  by (auto simp: mark_finished_def Let_def split: sum.split)

lemma step_locks:
  assumes "lifecycle_step c d" and "locks_ok (lf_locks c) (lf_workers c)"
  shows "locks_ok (lf_locks d) (lf_workers d)"
  using assms
proof (cases rule: lifecycle_step.cases)
  case (lock i job op stripe)
  then show ?thesis
    using assms(2) by (auto simp: at_stage_def stripe_of_def target_def intro: locks_acquire)
qed (auto simp: at_stage_def intro: locks_move locks_release)

lemma works_on_update:
  assumes "\<forall>st \<in> set ws. \<forall>op. works_on st = Some op \<longrightarrow> op_ID op \<in> ids"
    and "works_on st = None \<or> (\<exists>op. works_on st = Some op \<and> op_ID op \<in> ids)"
  shows "\<forall>st \<in> set (ws[i := st]). \<forall>op. works_on st = Some op \<longrightarrow> op_ID op \<in> ids"
  using assms set_update_subset_insert [of ws i st] by fastforce

lemma operations_okI:
  assumes "known (lf_used d) (Operations (data (lf_store d)))"
    and "settled (set (lf_started d) \<union> set (lf_cancelled d)) (Operations (data (lf_store d)))"
    and "set (lf_started d) \<union> set (lf_cancelled d) \<subseteq> lf_used d"
    and "distinct (lf_started d)" and "set (lf_started d) \<inter> set (lf_cancelled d) = {}"
    and "\<forall>st \<in> set (lf_workers d). \<forall>op. works_on st = Some op \<longrightarrow> op_ID op \<in> set (lf_started d)"
  shows "operations_ok d"
  using assms unfolding operations_ok_def by blast

lemma works_on_stage:
  assumes "at_stage c i st" and "works_on st = Some op"
    and "\<forall>st \<in> set (lf_workers c). \<forall>op. works_on st = Some op \<longrightarrow> op_ID op \<in> ids"
  shows "op_ID op \<in> ids"
  using assms nth_mem unfolding at_stage_def by blast

lemma step_operations:
  assumes step: "lifecycle_step c d" and ok: "operations_ok c"
  shows "operations_ok d"
proof -
  let ?ids = "set (lf_started c) \<union> set (lf_cancelled c)"
  have known: "known (lf_used c) (Operations (data (lf_store c)))"
    and settled: "settled ?ids (Operations (data (lf_store c)))"
    and used: "?ids \<subseteq> lf_used c"
    and once: "distinct (lf_started c)" "set (lf_started c) \<inter> set (lf_cancelled c) = {}"
    and work: "\<forall>st \<in> set (lf_workers c). \<forall>op. works_on st = Some op \<longrightarrow> op_ID op \<in> set (lf_started c)"
    using ok unfolding operations_ok_def by blast+
  have no_work: "op_ID op \<in> set (lf_started c)"
    if "st' \<in> set ((lf_workers c)[i := st])" "works_on st' = Some op" "works_on st = None" for i st st' op
    using works_on_update [OF work] that by blast
  note kept = known settled used once work
  from step show ?thesis
  proof (cases rule: lifecycle_step.cases)
    case (submit io ctx op f r)
    with create_keeps [OF _ known _ settled used] show ?thesis
      by (intro operations_okI) (use kept in \<open>auto dest: no_work\<close>)
  next
    case (reject io ctx code message now op f r)
    with transition_keeps [OF _ _ known settled] show ?thesis
      by (intro operations_okI) (use kept in \<open>auto dest: no_work\<close>)
  next
    case (cancel io ctx now op auditID requestID actor f r)
    note transition = transition_keeps [OF cancel(2) _ known settled]
    from cancel(1) transition show ?thesis
      by (intro operations_okI) (use kept in \<open>auto dest: no_work\<close>)
  next
    case (start i job op stripe io ctx now f)
    note transition = transition_keeps [OF start(3) _ known settled]
    have "\<forall>st \<in> set (lf_workers c). \<forall>op'. works_on st = Some op' \<longrightarrow> op_ID op' \<in> set (op_ID op # lf_started c)"
      using work by auto
    then have "\<forall>st \<in> set (lf_workers d). \<forall>op'. works_on st = Some op' \<longrightarrow> op_ID op' \<in> set (lf_started d)"
      using works_on_update [of "lf_workers c" "set (lf_started d)" "Running job (mark_running now op) stripe" i]
        start(1) by simp
    then show ?thesis
      by (intro operations_okI) (use start(1) transition kept in auto)
  next
    case (no_start i job op stripe io ctx now f e)
    with transition_keeps [OF no_start(3) _ known settled] show ?thesis
      by (intro operations_okI) (use kept in \<open>auto dest: no_work\<close>)
  next
    case (execute i job op stripe result)
    moreover have "op_ID op \<in> set (lf_started c)" using works_on_stage [OF execute(2) _ work] by simp
    then have "\<forall>st \<in> set ((lf_workers c)[i := Executed job op stripe result]). \<forall>op.
        works_on st = Some op \<longrightarrow> op_ID op \<in> set (lf_started c)"
      by (intro works_on_update [OF work]) simp
    ultimately show ?thesis
      by (intro operations_okI) (use kept in \<open>auto dest: no_work\<close>)
  next
    case (finish i job op stripe result final stopped now io f r)
    have "op_State final \<noteq> OperationQueued" using finish(3) by auto
    from update_keeps [OF finish(4) this known settled] finish(1) show ?thesis
      by (intro operations_okI) (use kept in \<open>auto dest: no_work\<close>)
  qed (intro operations_okI; use kept in \<open>auto dest: no_work\<close>)+
qed

lemma fresh_ok:
  assumes "fresh c"
  shows "operations_ok c \<and> locks_ok (lf_locks c) (lf_workers c)"
proof -
  have idle: "lf_workers c ! i = Idle" if "i < length (lf_workers c)" for i
    using assms that nth_mem unfolding fresh_def by blast
  have "operations_ok c"
    using assms by (intro operations_okI) (auto simp: fresh_def known_def settled_def)
  moreover have "locks_ok (lf_locks c) (lf_workers c)"
    using assms idle by (intro locks_okI) (auto simp: fresh_def)
  ultimately show ?thesis ..
qed

lemma path_ok:
  assumes "lifecycle_path c0 c" and "fresh c0"
  shows "operations_ok c \<and> locks_ok (lf_locks c) (lf_workers c)"
  using assms by induction (auto dest: fresh_ok intro: step_operations step_locks)

section \<open>One worker alone\<close>

text \<open>
  The worker of the service is one of the workers here: run alone, \<open>executeOperation\<close> goes
  through the stages. \<open>runs i st m post\<close> says that the action \<open>m\<close> takes worker \<open>i\<close>
  from the stage \<open>st\<close> to the stage \<open>post r\<close> that fits its result.
\<close>

definition sees :: "lifecycle \<Rightarrow> 'gw Service \<Rightarrow> bool" where
  "sees c s \<longleftrightarrow> lf_store c = ps_store s \<and> lf_locks c = ps_targetLocks s"

definition runs :: "nat \<Rightarrow> stage \<Rightarrow> ('gw, 'a) action \<Rightarrow> ('a result \<Rightarrow> stage) \<Rightarrow> bool" where
  "runs i st m post \<longleftrightarrow> (\<forall>s c. sees c s \<longrightarrow> at_stage c i st \<longrightarrow>
     (\<exists>d. lifecycle_path c d \<and> sees d (fst (m s)) \<and> at_stage d i (post (snd (m s)))))"

abbreviation either :: "stage \<Rightarrow> ('a \<Rightarrow> stage) \<Rightarrow> 'a result \<Rightarrow> stage" where
  "either out st r \<equiv> (case r of Inl e \<Rightarrow> out | Inr x \<Rightarrow> st x)"

lemma lifecycle_path_trans: "lifecycle_path c d \<Longrightarrow> lifecycle_path b c \<Longrightarrow> lifecycle_path b d"
  by (induction rule: lifecycle_path.induct) (auto intro: lifecycle_path.step)

lemma runsI:
  assumes "\<And>s c. sees c s \<Longrightarrow> at_stage c i st \<Longrightarrow>
    \<exists>d. lifecycle_step c d \<and> sees d (fst (m s)) \<and> at_stage d i (post (snd (m s)))"
  shows "runs i st m post"
  using assms unfolding runs_def by (meson lifecycle_path.intros)

lemma runs_outcome:
  fixes m :: "('gw, 'a) action"
  assumes "runs i st m mid" and "\<And>r. runs i (mid r) (f r) post"
  shows "runs i st (outcome m f) post"
  unfolding runs_def
proof (intro allI impI)
  fix s :: "'gw Service" and c assume "sees c s" "at_stage c i st"
  then obtain d where d: "lifecycle_path c d" "sees d (fst (m s))" "at_stage d i (mid (snd (m s)))"
    using assms(1) unfolding runs_def by blast
  then obtain e where e: "lifecycle_path d e" "sees e (fst (f (snd (m s)) (fst (m s))))"
      "at_stage e i (post (snd (f (snd (m s)) (fst (m s)))))"
    using assms(2) unfolding runs_def by blast
  have "outcome m f s = f (snd (m s)) (fst (m s))" by (simp add: outcome_def split: prod.split)
  with e lifecycle_path_trans [OF e(1) d(1)]
  show "\<exists>d. lifecycle_path c d \<and> sees d (fst (outcome m f s)) \<and> at_stage d i (post (snd (outcome m f s)))"
    by auto
qed

lemma runs_fail: "runs i st (fail e) (\<lambda>_. st)" and runs_ret: "runs i st (ret x) (\<lambda>_. st)"
  unfolding runs_def by (auto simp: fail_def ret_def intro: lifecycle_path.init)

lemma andThen_outcome: "andThen m f = outcome m (\<lambda>r. case r of Inl e \<Rightarrow> fail e | Inr x \<Rightarrow> f x)"
  by (auto simp: andThen_def outcome_def fail_def split: prod.split sum.split)

lemma runs_andThen:
  assumes "runs i st m (either out mid)" and "\<And>x. runs i (mid x) (f x) (\<lambda>_. out)"
  shows "runs i st (andThen m f) (\<lambda>_. out)"
  unfolding andThen_outcome
  by (rule runs_outcome [OF assms(1)]) (auto simp: runs_fail assms(2) split: sum.split)

lemma runs_svc_now: "(\<And>now. runs i st (f now) post) \<Longrightarrow> runs i st (svc_now env f) post"
  unfolding runs_def svc_now_def by (simp add: sees_def tick_def)

lemma runs_still:
  assumes "\<And>s. ps_store (fst (m s)) = ps_store s \<and> ps_targetLocks (fst (m s)) = ps_targetLocks s"
  shows "runs i st m (\<lambda>_. st)"
  using assms unfolding runs_def sees_def by (metis lifecycle_path.init)

lemma runs_deferred:
  assumes "runs i st m post" and "\<And>s. ps_store (f s) = ps_store s \<and> ps_targetLocks (f s) = ps_targetLocks s"
  shows "runs i st (deferred f m) post"
  using assms unfolding runs_def sees_def by (simp add: deferred_def split: prod.split) (metis fst_conv snd_conv)

lemma runs_unlock:
  fixes m :: "('gw, 'a) action"
  assumes "runs i st m (\<lambda>_. Leaving t stripe)"
  shows "runs i st (deferred (unlockTarget stripe) m) (\<lambda>_. Idle)"
proof -
  have "runs i (Leaving t stripe) (\<lambda>s :: 'gw Service. (unlockTarget stripe s, r)) (\<lambda>_. Idle)" for r :: "'a result"
    by (rule runsI) (auto simp: sees_def unlockTarget_def at_stage_def intro!: exI lifecycle_step.unlock)
  moreover have "deferred (unlockTarget stripe) m = outcome m (\<lambda>r s. (unlockTarget stripe s, r))"
    by (auto simp: deferred_def outcome_def split: prod.split)
  ultimately show ?thesis using runs_outcome [OF assms] by metis
qed

text \<open>The actions of the worker, one stage after the other.\<close>

lemma runs_take:
  fixes m :: "('gw, 'a) action"
  assumes "runs i (Taken job) m post"
  shows "runs i Idle m post"
  unfolding runs_def
proof (intro allI impI)
  fix s :: "'gw Service" and c assume "sees c s" and idle: "at_stage c i Idle"
  then have "sees (to_stage i (Taken job) c) s" "at_stage (to_stage i (Taken job) c) i (Taken job)"
    by (auto simp: sees_def at_stage_def)
  then obtain d where "lifecycle_path (to_stage i (Taken job) c) d" "sees d (fst (m s))" "at_stage d i (post (snd (m s)))"
    using assms unfolding runs_def by blast
  then show "\<exists>d. lifecycle_path c d \<and> sees d (fst (m s)) \<and> at_stage d i (post (snd (m s)))"
    using lifecycle_path_trans lifecycle_path.step [OF lifecycle_path.init lifecycle_step.take [OF idle]] by blast
qed

lemma runs_queued:
  fixes ctx :: "'gw go_context"
  shows "runs i (Taken job) (queuedOperation ctx job) (either Idle (Loaded job))"
proof (rule runsI)
  fix s :: "'gw Service" and c assume c: "sees c s" "at_stage c i (Taken job)"
  show "\<exists>d. lifecycle_step c d \<and> sees d (fst (queuedOperation ctx job s))
      \<and> at_stage d i (either Idle (Loaded job) (snd (queuedOperation ctx job s)))"
  proof (cases "\<exists>op. GetOperation (ctx s) (jb_operationID job) (ps_store s) = Inr op \<and> op_State op = OperationQueued")
    case True
    then obtain op where "GetOperation (ctx s) (jb_operationID job) (ps_store s) = Inr op" "op_State op = OperationQueued"
      by blast
    then show ?thesis
      using c by (intro exI [of _ "to_stage i (Loaded job op) c"])
        (auto simp: queuedOperation_def andThen_def store_read_def ret_def sees_def at_stage_def tick_def
          intro!: lifecycle_step.load)
  next
    case False
    then show ?thesis
      using c by (intro exI [of _ "to_stage i Idle c"])
        (auto simp: queuedOperation_def andThen_def store_read_def fail_def sees_def at_stage_def tick_def
          split: sum.split intro!: lifecycle_step.skip)
  qed
qed

lemma runs_lock:
  fixes ctx :: "'gw go_context"
  shows "runs i (Loaded job op) (acquireTargetLock env ctx (op_ClusterID op) (op_Namespace op) (op_Target op))
     (either Idle (Locked job op))"
proof (rule runsI)
  fix s :: "'gw Service" and c assume c: "sees c s" "at_stage c i (Loaded job op)"
  let ?stripe = "targetLock (op_ClusterID op) (op_Namespace op) (op_Target op)"
  let ?m = "acquireTargetLock env ctx (op_ClusterID op) (op_Namespace op) (op_Target op)"
  show "\<exists>d. lifecycle_step c d \<and> sees d (fst (?m s)) \<and> at_stage d i (either Idle (Locked job op) (snd (?m s)))"
  proof (cases "ctx s = None \<and> \<not> ps_targetLocks s ! ?stripe")
    case True
    then show ?thesis
      using c lifecycle_step.lock [OF c(2) HOL.refl]
      by (intro exI [of _ "to_stage i (Locked job op ?stripe) (c\<lparr>lf_locks := (lf_locks c)[?stripe := True]\<rparr>)"])
        (auto simp: acquireTargetLock_def sees_def at_stage_def Let_def)
  next
    case False
    then show ?thesis
      using c lifecycle_step.no_lock [OF c(2)]
      by (intro exI [of _ "to_stage i Idle c"])
        (auto simp: acquireTargetLock_def sees_def at_stage_def Let_def tick_def split: option.split)
  qed
qed

lemma runs_slot:
  fixes env :: "'gw env"
  shows "runs i (Locked job op stripe) (acquireOperationSlot env turns)
     (either (Leaving (target op) stripe) (\<lambda>_. Slotted job op stripe))"
proof (rule runsI)
  fix s :: "'gw Service" and c assume c: "sees c s" "at_stage c i (Locked job op stripe)"
  obtain s' r where m: "acquireOperationSlot env turns s = (s', r)" by fastforce
  then have "ps_store s' = ps_store s" "ps_targetLocks s' = ps_targetLocks s"
    by (auto simp: acquireOperationSlot_def tick_def split: option.splits sum.splits prod.splits)
  then have "sees c s'" using c(1) by (simp add: sees_def)
  then show "\<exists>d. lifecycle_step c d \<and> sees d (fst (acquireOperationSlot env turns s)) \<and>
      at_stage d i (either (Leaving (target op) stripe) (\<lambda>_. Slotted job op stripe) (snd (acquireOperationSlot env turns s)))"
    using c(2) lifecycle_step.slot [OF c(2)] lifecycle_step.no_slot [OF c(2)]
    by (cases r) (auto simp: m sees_def at_stage_def)
qed

lemma runs_start:
  fixes env :: "'gw env"
  shows "runs i (Slotted job op stripe)
     (store_write env ctx (\<lambda>io c. TransitionOperation io c OperationQueued (mark_running now op) None))
     (either (Leaving (target op) stripe) (\<lambda>_. Running job (mark_running now op) stripe))"
proof (rule runsI)
  fix s :: "'gw Service" and c assume c: "sees c s" "at_stage c i (Slotted job op stripe)"
  let ?io = "ev_io env (ps_tick s)"
  obtain f r where t: "TransitionOperation ?io (ctx s) OperationQueued (mark_running now op) None (ps_store s) = (f, r)"
    by fastforce
  then have t': "TransitionOperation ?io (ctx s) OperationQueued (mark_running now op) None (lf_store c) = (f, r)"
    using c(1) by (simp add: sees_def)
  let ?w = "store_write env ctx (\<lambda>io c. TransitionOperation io c OperationQueued (mark_running now op) None)"
  show "\<exists>d. lifecycle_step c d \<and> sees d (fst (?w s)) \<and>
      at_stage d i (either (Leaving (target op) stripe) (\<lambda>_. Running job (mark_running now op) stripe) (snd (?w s)))"
  proof (cases r)
    case None
    then show ?thesis
      using c lifecycle_step.start [OF c(2) t' [unfolded None]]
      by (auto simp: store_write_def t sees_def at_stage_def tick_def intro!: exI)
  next
    case (Some e)
    then show ?thesis
      using c lifecycle_step.no_start [OF c(2) t' [unfolded Some]]
      by (auto simp: store_write_def t sees_def at_stage_def tick_def intro!: exI)
  qed
qed

text \<open>The job itself changes neither the store nor the locks.\<close>

definition at_rest :: "'gw Service \<Rightarrow> 'gw Service \<Rightarrow> bool" where
  "at_rest s t \<longleftrightarrow> ps_store t = ps_store s \<and> ps_targetLocks t = ps_targetLocks s"

interpretation resting: frame at_rest
  by unfold_locales (auto simp: at_rest_def tick_def)

lemma resting_upstream: "keeps at_rest (upstream c f)"
  by (simp add: keeps_def upstream_def at_rest_def tick_def)

lemma resting_gateway: "keeps at_rest (gatewayForCluster env ctx cluster)"
  by (simp add: keeps_def gatewayForCluster_def at_rest_def Let_def split: prod.split)

lemma resting_job: "keeps at_rest (executeOperationJob env ctx op job)"
proof -
  have "keeps at_rest (kubeGateway env ctx i)" for i
    unfolding kubeGateway_def by (intro resting.rules resting_gateway)
  moreover have "keeps at_rest (helmRequest env ctx input)" for input
    unfolding helmRequest_def by (intro resting.rules)
  ultimately show ?thesis
    unfolding executeOperationJob_def
    by (auto intro!: resting.rules resting_upstream split: option.split OperationKind.split)
qed

lemma runs_job:
  fixes env :: "'gw env"
  shows "runs i (Running job op stripe) (executeOperationJob env ctx op' job) (Executed job op stripe)"
proof (rule runsI)
  fix s :: "'gw Service" and c assume "sees c s" and c: "at_stage c i (Running job op stripe)"
  moreover have "at_rest s (fst (executeOperationJob env ctx op' job s))"
    using resting_job unfolding keeps_def by blast
  ultimately show "\<exists>d. lifecycle_step c d \<and> sees d (fst (executeOperationJob env ctx op' job s))
      \<and> at_stage d i (Executed job op stripe (snd (executeOperationJob env ctx op' job s)))"
    using lifecycle_step.execute [OF c] by (auto simp: sees_def at_rest_def at_stage_def intro!: exI)
qed

lemma runs_audit:
  fixes env :: "'gw env"
  shows "runs i st (store_write env ctx (\<lambda>io c. CreateAuditEvent io c event)) (\<lambda>_. st)"
proof (rule runsI)
  fix s :: "'gw Service" and c assume c: "sees c s" "at_stage c i st"
  obtain f r where a: "CreateAuditEvent (ev_io env (ps_tick s)) (ctx s) event (ps_store s) = (f, r)"
    by fastforce
  have "Operations (data f) = Operations (data (lf_store c))"
  proof (cases r)
    case None
    then show ?thesis using CreateAuditEvent_ok [OF a [unfolded None]] c(1) by (simp add: sees_def)
  next
    case (Some e)
    then have "data f = data (ps_store s)"
      using call_failed_data [of _ _ "CreateAuditEventCall event"] a by simp
    then show ?thesis using c(1) by (simp add: sees_def)
  qed
  from lifecycle_step.other [OF this] c
  show "\<exists>d. lifecycle_step c d \<and> sees d (fst (store_write env ctx (\<lambda>io c. CreateAuditEvent io c event) s)) \<and> at_stage d i st"
    by (intro exI [of _ "c\<lparr>lf_store := f\<rparr>"])
      (auto simp: store_write_def a sees_def at_stage_def tick_def split: option.split)
qed

lemma runs_operation_audit: "runs i st (operation_audit env ctx op res summary) (\<lambda>_. st)"
proof -
  have "keeps at_rest (newAuditEvent env actor requestID action r clusterID namespace t summary i)"
    for actor requestID action r clusterID namespace t summary i
    by (rule resting.keeps_newAuditEvent)
  then have event: "runs i st (newAuditEvent env actor requestID action r clusterID namespace t summary j) (either st (\<lambda>_. st))"
    for actor requestID action r clusterID namespace t summary j
    using runs_still [of "newAuditEvent env actor requestID action r clusterID namespace t summary j" i st]
    by (simp add: keeps_def at_rest_def sum.case_eq_if)
  show ?thesis
    unfolding operation_audit_def audit_def by (rule runs_andThen [OF event]) (rule runs_audit)
qed

lemma runs_finish:
  fixes env :: "'gw env"
  assumes "final \<in> {fst (mark_finished r stopped now op), mark_unaudited (fst (mark_finished r stopped now op))}"
  shows "runs i (Executed job op stripe r) (store_write env withoutCancel (\<lambda>io c. UpdateOperation io c final))
    (\<lambda>_. Leaving (target op) stripe)"
proof (rule runsI)
  fix s :: "'gw Service" and c assume c: "sees c s" "at_stage c i (Executed job op stripe r)"
  obtain f e where u: "UpdateOperation (ev_io env (ps_tick s)) None final (ps_store s) = (f, e)" by fastforce
  then have u': "UpdateOperation (ev_io env (ps_tick s)) None final (lf_store c) = (f, e)"
    using c(1) by (simp add: sees_def)
  from c lifecycle_step.finish [OF c(2) assms u']
  show "\<exists>d. lifecycle_step c d
      \<and> sees d (fst (store_write env withoutCancel (\<lambda>io c. UpdateOperation io c final) s))
      \<and> at_stage d i (Leaving (target op) stripe)"
    by (intro exI) (auto simp: store_write_def withoutCancel_def u sees_def at_stage_def tick_def split: option.split)
qed

lemma runs_read:
  fixes m :: "'gw Service \<Rightarrow> ('gw, 'a) action"
  assumes "\<And>t. runs i st (m t) post"
  shows "runs i st (\<lambda>s. m s s) post"
  using assms unfolding runs_def by blast

lemma runs_recordOutcome:
  "runs i (Executed job op stripe r) (recordOutcome env ctx op r) (\<lambda>_. Leaving (target op) stripe)"
proof -
  let ?finished = "\<lambda>stopped now. fst (mark_finished r stopped now op)"
  let ?final = "\<lambda>stopped now audited. case audited of Inl x \<Rightarrow> mark_unaudited (?finished stopped now)
    | Inr x \<Rightarrow> ?finished stopped now"
  let ?written = "\<lambda>stopped now.
    outcome (operation_audit env withoutCancel (?finished stopped now) (snd (mark_finished r stopped now op))
        (op_ErrorCode (?finished stopped now)))
      (\<lambda>audited. outcome (store_write env withoutCancel (\<lambda>io c. UpdateOperation io c (?final stopped now audited)))
        (\<lambda>_. ret ()))"
  have final: "?final stopped now audited \<in> {?finished stopped now, mark_unaudited (?finished stopped now)}"
    for stopped now and audited :: "unit result"
    by (cases audited) simp_all
  have "runs i (Executed job op stripe r) (?written stopped now) (\<lambda>_. Leaving (target op) stripe)" for stopped now
    by (rule runs_outcome [OF runs_operation_audit], rule runs_outcome [OF runs_finish [OF final] runs_ret])
  then have "runs i (Executed job op stripe r) (\<lambda>s. ?written (ctx s \<noteq> None) now s) (\<lambda>_. Leaving (target op) stripe)" for now
    by (rule runs_read [of i _ "\<lambda>t. ?written (ctx t \<noteq> None) now"])
  then have "runs i (Executed job op stripe r) (svc_now env (\<lambda>now s. ?written (ctx s \<noteq> None) now s))
      (\<lambda>_. Leaving (target op) stripe)"
    by (rule runs_svc_now)
  then show ?thesis by (simp only: recordOutcome_def case_prod_beta Let_def)
qed

lemma runs_executeOperation: "runs i Idle (executeOperation env turns ctx job) (\<lambda>_. Idle)"
proof -
  have slot: "ps_store (releaseOperationSlot s) = ps_store s \<and> ps_targetLocks (releaseOperationSlot s) = ps_targetLocks s" for s
    by (simp add: releaseOperationSlot_def)
  have finish: "ps_store (finishExecution job s) = ps_store s \<and> ps_targetLocks (finishExecution job s) = ps_targetLocks s" for s
    by (simp add: finishExecution_def releaseOperationControl_def cancelControl_def Let_def split: option.split)
  have outcome: "runs i (Running job (mark_running now op) stripe)
      (outcome (executeOperationJob env ectx (mark_running now op) job) (\<lambda>r. recordOutcome env ctx (mark_running now op) r))
      (\<lambda>_. Leaving (target (mark_running now op)) stripe)" for now op stripe ectx
    by (rule runs_outcome [OF runs_job]) (rule runs_recordOutcome)
  show ?thesis
    unfolding executeOperation_def Let_def
    by (rule runs_take, rule runs_deferred [OF _ finish], rule runs_andThen [OF runs_queued],
        rule runs_andThen [OF runs_lock], rule runs_unlock, rule runs_andThen [OF runs_slot],
        rule runs_deferred [OF _ slot], rule runs_svc_now, rule runs_andThen [OF runs_start], rule outcome [simplified])
qed

lemma runs_worker:
  fixes env :: "'gw env"
  shows "runs i Idle (\<lambda>s. (worker env jobs ctx s, Inr ())) (\<lambda>_. Idle)"
proof -
  have "\<exists>d. lifecycle_path c d \<and> sees d (worker env jobs ctx s) \<and> at_stage d i Idle"
    if "sees c s" "at_stage c i Idle" for c and s :: "'gw Service"
    using that
  proof (induction env jobs ctx s arbitrary: c rule: worker.induct)
    case (1 env ctx s)
    then show ?case by (auto intro: lifecycle_path.init)
  next
    case (2 env turns stop rest ctx s)
    have none: "\<exists>d. lifecycle_path c d \<and> sees d s \<and> at_stage d i Idle"
      using 2(2,3) lifecycle_path.init by blast
    show ?case
    proof (cases "ps_queue s = [] \<or> (ctx s \<noteq> None \<and> stop)")
      case True
      with none show ?thesis by (auto split: list.split)
    next
      case False
      then obtain job queue where queue: "ps_queue s = job # queue" by (cases "ps_queue s") auto
      let ?s = "fst (executeOperation env turns ctx job (s\<lparr>ps_queue := queue\<rparr>))"
      have "sees c (s\<lparr>ps_queue := queue\<rparr>)" using 2(2) by (simp add: sees_def)
      then obtain d where d: "lifecycle_path c d" "sees d ?s" "at_stage d i Idle"
        using runs_executeOperation 2(3) unfolding runs_def by blast
      from 2(1) [OF queue _ d(2,3)] False obtain e where
        "lifecycle_path d e" "sees e (worker env rest ctx ?s)" "at_stage e i Idle" by auto
      then show ?thesis using lifecycle_path_trans [OF _ d(1)] queue False by auto
    qed
  qed
  then show ?thesis by (simp add: runs_def)
qed

section \<open>A sample run\<close>

definition sample_start :: lifecycle where
  "sample_start = \<lparr>lf_store = sample_file, lf_locks = replicate targetLockStripes False, lf_workers = [Idle, Idle],
     lf_used = {''op_1''}, lf_started = [], lf_cancelled = []\<rparr>"

definition sample_job :: operationJob where
  "sample_job = \<lparr>jb_operationID = ''op_1'', jb_helmInput = None, jb_workloadInput = None,
     jb_workloadImageInput = None, jb_control = None\<rparr>"

definition sample_running :: lifecycle where
  "sample_running =
     (let stripe = stripe_of (''clu_1'', ''default'', ''web'')
      in sample_start\<lparr>lf_store := fst (TransitionOperation (\<lambda>_. None) None OperationQueued (mark_running 9 sample_operation) None sample_file),
           lf_locks := (replicate targetLockStripes False)[stripe := True],
           lf_workers := [Running sample_job (mark_running 9 sample_operation) stripe, Loaded sample_job sample_operation],
           lf_started := [''op_1'']\<rparr>)"

lemma sample_start_fresh: "fresh sample_start"
  by (simp add: fresh_def sample_start_def sample_defs)

lemma sample_running_path: "lifecycle_path sample_start sample_running"
proof -
  let ?stripe = "targetLock ''clu_1'' ''default'' ''web''"
  let ?locks = "(replicate targetLockStripes False)[?stripe := True]"
  let ?p = "mark_running 9 sample_operation"
  let ?f = "fst (TransitionOperation (\<lambda>_. None) None OperationQueued ?p None sample_file)"
  have get: "GetOperation None ''op_1'' sample_file = Inr sample_operation"
    by (simp add: GetOperation_find sample_defs)
  have op: "op_State sample_operation = OperationQueued" "op_ID sample_operation = ''op_1''"
    "op_ClusterID sample_operation = ''clu_1''" "op_Namespace sample_operation = ''default''"
    "op_Target sample_operation = ''web''"
    by (simp_all add: sample_operation_def)
  have free: "\<not> replicate targetLockStripes False ! ?stripe"
    using stripe_range [of "(''clu_1'', ''default'', ''web'')"] by (simp add: stripe_of_def)
  have run: "TransitionOperation (\<lambda>_. None) None OperationQueued ?p None sample_file = (?f, None)"
    by (simp add: sample_defs mark_running_def TransitionOperation_def commit_no_fault Let_def)
  let ?L0 = "replicate targetLockStripes False"
  let ?L1 = "?L0[?stripe := True]"
  let ?c = "\<lambda>f locks st st' started. \<lparr>lf_store = f, lf_locks = locks, lf_workers = [st, st'],
     lf_used = {''op_1''}, lf_started = started, lf_cancelled = []\<rparr>"
  let ?taken = "Taken sample_job" and ?loaded = "Loaded sample_job sample_operation"
    and ?locked = "Locked sample_job sample_operation ?stripe"
    and ?slotted = "Slotted sample_job sample_operation ?stripe"
    and ?running = "Running sample_job ?p ?stripe"
  note evaluate = at_stage_def sample_job_def get op free
  have "lifecycle_step (?c sample_file ?L0 Idle Idle []) (?c sample_file ?L0 ?taken Idle [])"
    using lifecycle_step.take [of "?c sample_file ?L0 Idle Idle []" 0 sample_job] by (simp add: evaluate)
  moreover have "lifecycle_step (?c sample_file ?L0 ?taken Idle []) (?c sample_file ?L0 ?loaded Idle [])"
    using lifecycle_step.load [of "?c sample_file ?L0 ?taken Idle []" 0 sample_job None sample_operation]
    by (simp add: evaluate)
  moreover have "lifecycle_step (?c sample_file ?L0 ?loaded Idle []) (?c sample_file ?L0 ?loaded ?taken [])"
    using lifecycle_step.take [of "?c sample_file ?L0 ?loaded Idle []" 1 sample_job] by (simp add: evaluate)
  moreover have "lifecycle_step (?c sample_file ?L0 ?loaded ?taken []) (?c sample_file ?L0 ?loaded ?loaded [])"
    using lifecycle_step.load [of "?c sample_file ?L0 ?loaded ?taken []" 1 sample_job None sample_operation]
    by (simp add: evaluate)
  moreover have "lifecycle_step (?c sample_file ?L0 ?loaded ?loaded []) (?c sample_file ?L1 ?locked ?loaded [])"
    using lifecycle_step.lock [of "?c sample_file ?L0 ?loaded ?loaded []" 0 sample_job sample_operation ?stripe]
    by (simp add: evaluate)
  moreover have "lifecycle_step (?c sample_file ?L1 ?locked ?loaded []) (?c sample_file ?L1 ?slotted ?loaded [])"
    using lifecycle_step.slot [of "?c sample_file ?L1 ?locked ?loaded []" 0 sample_job sample_operation ?stripe]
    by (simp add: evaluate)
  moreover have "lifecycle_step (?c sample_file ?L1 ?slotted ?loaded []) (?c ?f ?L1 ?running ?loaded [''op_1''])"
    using lifecycle_step.start [of "?c sample_file ?L1 ?slotted ?loaded []" 0 sample_job sample_operation ?stripe
        "\<lambda>_. None" None 9 ?f] run by (simp add: evaluate)
  ultimately have "lifecycle_path (?c sample_file ?L0 Idle Idle []) (?c ?f ?L1 ?running ?loaded [''op_1''])"
    by (meson lifecycle_path.intros)
  then show ?thesis by (simp add: sample_start_def sample_running_def Let_def stripe_of_def)
qed

section \<open>Properties of concurrent operations\<close>

text \<open>
  (C17) The worker loop of the service, with everything that executing a job does, is a run of one
  worker of the interleaving model: the store and the target locks it leaves behind are those of a
  path on which this worker starts idle and ends idle.
\<close>

theorem worker_refines_lifecycle:
  assumes "sees c s" and "at_stage c i Idle"
  shows "\<exists>d. lifecycle_path c d \<and> sees d (worker env jobs ctx s) \<and> at_stage d i Idle"
  using runs_worker [of i env jobs ctx] assms unfolding runs_def by fastforce

theorem worker_refines_lifecycle_witness:
  "\<exists>d. lifecycle_path sample_start d
     \<and> sees d (worker sample_env [([], False)] (\<lambda>_. None) (sample_service\<lparr>ps_queue := [sample_job]\<rparr>))
     \<and> at_stage d 1 Idle"
  by (rule worker_refines_lifecycle) (simp_all add: sees_def at_stage_def sample_start_def sample_service_def)

text \<open>
  (C15) However the workers, the submissions and the cancellations interleave, with jobs delivered
  any number of times and any store call failing: no operation is started twice, and none whose
  cancellation was confirmed is ever started.
\<close>

theorem operations_start_once:
  assumes "fresh c0" and "lifecycle_path c0 c"
  shows "distinct (lf_started c) \<and> set (lf_started c) \<inter> set (lf_cancelled c) = {}"
  using path_ok [OF assms(2,1)] unfolding operations_ok_def by blast

theorem operations_start_once_witness: "set (lf_started sample_running) \<inter> set (lf_cancelled sample_running) = {}"
  using operations_start_once [OF sample_start_fresh sample_running_path] by blast

text \<open>
  (C16) At no moment do two workers hold the same cluster, namespace and name: from taking the lock
  until the outcome is recorded, a target belongs to one worker.
\<close>

theorem targets_exclusive:
  assumes "fresh c0" and "lifecycle_path c0 c"
    and "i < length (lf_workers c)" and "j < length (lf_workers c)" and "i \<noteq> j"
    and "aims_at (lf_workers c ! i) = Some t"
  shows "aims_at (lf_workers c ! j) \<noteq> Some t"
proof
  assume "aims_at (lf_workers c ! j) = Some t"
  moreover note ok = path_ok [OF assms(2,1), THEN conjunct2]
  ultimately have "holds (lf_workers c ! i) = Some (stripe_of t)" "holds (lf_workers c ! j) = Some (stripe_of t)"
    using locks_okD(2) [OF ok] assms(3,4,6) by simp_all
  then show False using locks_okD(4) [OF ok assms(3,4)] assms(5) by blast
qed

theorem targets_exclusive_witness:
  "aims_at (lf_workers sample_running ! 1) \<noteq> Some (''clu_1'', ''default'', ''web'')"
  using targets_exclusive [OF sample_start_fresh sample_running_path, of 0 1]
  by (simp add: sample_running_def Let_def target_def sample_operation_def)

end
