(* ===== verification/Json_Text.thy ===== *)
theory Json_Text
  imports Json
begin

text \<open>
  JSON texts, as package \<^verbatim>\<open>encoding/json\<close> reads and writes them: \<open>Unmarshal_value\<close> is the
  decoding into \<^verbatim>\<open>any\<close>, with the raw text of every element and member at hand for
  \<^verbatim>\<open>json.RawMessage\<close>, and \<open>Marshal\<close> the encoder with its escaping of HTML characters. The
  fuel of the parser is the length of its input, of which every call uses at least one byte;
  \<open>Unmarshal_Marshal\<close> shows that it is enough for every text that \<open>Marshal\<close> writes.
\<close>

section \<open>Runes\<close>

definition hex_value :: "char \<Rightarrow> nat option" where
  "hex_value c =
     (let b = of_char c in
      if 48 \<le> b \<and> b \<le> 57 then Some (b - 48)
      else if 97 \<le> b \<and> b \<le> 102 then Some (b - 87)
      else if 65 \<le> b \<and> b \<le> 70 then Some (b - 55)
      else None)"

text \<open>The four digits after \<^verbatim>\<open>\u\<close>.\<close>

fun hex4 :: "string \<Rightarrow> rune option" where
  "hex4 (a # b # c # d # _) =
     (case (hex_value a, hex_value b, hex_value c, hex_value d) of
        (Some a, Some b, Some c, Some d) \<Rightarrow> Some (((a * 16 + b) * 16 + c) * 16 + d)
      | _ \<Rightarrow> None)"
| "hex4 _ = None"

definition is_surrogate :: "rune \<Rightarrow> bool" where
  "is_surrogate r \<longleftrightarrow> 55296 \<le> r \<and> r < 57344"

text \<open>\<^verbatim>\<open>utf16.DecodeRune\<close> of a first half and of the escape that the text goes on with.\<close>

definition second_half :: "rune \<Rightarrow> string \<Rightarrow> rune option" where
  "second_half high s =
     (if take 2 s = [CHR 0x5C, CHR ''u''] \<and> high < 56320
      then case hex4 (drop 2 s) of
          Some low \<Rightarrow>
            if 56320 \<le> low \<and> low < 57344 then Some ((high - 55296) * 1024 + (low - 56320) + 65536) else None
        | None \<Rightarrow> None
      else None)"

section \<open>Strings\<close>

definition escaped_char :: "char \<Rightarrow> char option" where
  "escaped_char c =
     map_of [(CHR 0x22, CHR 0x22), (CHR 0x5C, CHR 0x5C), (CHR ''/'', CHR ''/''), (CHR ''b'', CHR 0x08),
       (CHR ''f'', CHR 0x0C), (CHR ''n'', CHR 0x0A), (CHR ''r'', CHR 0x0D), (CHR ''t'', CHR 0x09)] c"

abbreviation prepend :: "string \<Rightarrow> (string \<times> string) option \<Rightarrow> (string \<times> string) option" where
  "prepend p \<equiv> map_option (\<lambda>(s, rest). (p @ s, rest))"

text \<open>A string after its opening quote, and what follows it.\<close>

function parse_string :: "string \<Rightarrow> (string \<times> string) option" where
  "parse_string [] = None"
| "parse_string (c # s) =
     (if c = CHR 0x22 then Some ([], s)
      else if c = CHR 0x5C
      then case s of
          [] \<Rightarrow> None
        | e # r \<Rightarrow>
            (if e = CHR ''u''
             then case hex4 r of
                 None \<Rightarrow> None
               | Some high \<Rightarrow>
                   (if is_surrogate high
                    then case second_half high (drop 4 r) of
                        Some v \<Rightarrow> prepend (encode_rune v) (parse_string (drop 10 r))
                      | None \<Rightarrow> prepend (encode_rune rune_error) (parse_string (drop 4 r))
                    else prepend (encode_rune high) (parse_string (drop 4 r)))
             else case escaped_char e of
                 None \<Rightarrow> None
               | Some x \<Rightarrow> prepend [x] (parse_string r))
      else if of_char c < (32 :: nat) then None
      else case decode_rune (map of_char (c # s)) of
          (v, n) \<Rightarrow>
            if v = rune_error \<and> n = 1 then prepend (encode_rune rune_error) (parse_string s)
            else prepend (take n (c # s)) (parse_string (drop (n - 1) s)))"
  by pat_completeness auto
termination
  by (relation "measure length") auto

declare parse_string.simps(2) [simp del]

section \<open>Numbers\<close>

text \<open>An optional fraction and an optional exponent: their text, or \<open>None\<close> when they are broken off.\<close>

definition fraction_part :: "string \<Rightarrow> string option" where
  "fraction_part s =
     (case s of
        c # r \<Rightarrow>
          (if c = CHR ''.'' then (let ds = takeWhile decimal_digit r in if ds = [] then None else Some (c # ds))
           else Some [])
      | [] \<Rightarrow> Some [])"

definition exponent_part :: "string \<Rightarrow> string option" where
  "exponent_part s =
     (case s of
        c # r \<Rightarrow>
          (if c = CHR ''e'' \<or> c = CHR ''E''
           then let sign = (case r of d # _ \<Rightarrow> if d = CHR ''+'' \<or> d = CHR ''-'' then [d] else [] | [] \<Rightarrow> []);
                    ds = takeWhile decimal_digit (drop (length sign) r)
                in if ds = [] then None else Some (c # sign @ ds)
           else Some [])
      | [] \<Rightarrow> Some [])"

definition parse_number :: "string \<Rightarrow> (json \<times> string) option" where
  "parse_number s =
     (let sign = (case s of c # _ \<Rightarrow> if c = CHR ''-'' then [c] else [] | [] \<Rightarrow> []);
          s1 = drop (length sign) s;
          digits = takeWhile decimal_digit s1;
          whole = (if take 1 digits = ''0'' then ''0'' else digits);
          s2 = drop (length whole) s1
      in if digits = [] then None
         else case fraction_part s2 of
             None \<Rightarrow> None
           | Some f \<Rightarrow>
               (let s3 = drop (length f) s2 in
                case exponent_part s3 of
                  None \<Rightarrow> None
                | Some e \<Rightarrow>
                    Some (if f = [] \<and> e = []
                          then JInt (if sign = [] then int (digits_value whole) else - int (digits_value whole))
                          else JOtherNumber (sign @ whole @ f @ e),
                          drop (length e) s3)))"

section \<open>Values\<close>

definition json_space :: "char \<Rightarrow> bool" where
  "json_space c \<longleftrightarrow> c \<in> {CHR 0x20, CHR 0x09, CHR 0x0D, CHR 0x0A}"

abbreviation skip_space :: "string \<Rightarrow> string" where
  "skip_space \<equiv> dropWhile json_space"

definition parse_literal :: "string \<Rightarrow> (json \<times> string) option" where
  "parse_literal s =
     (if has_prefix s ''true'' then Some (JBool True, drop 4 s)
      else if has_prefix s ''false'' then Some (JBool False, drop 5 s)
      else if has_prefix s ''null'' then Some (JNull, drop 4 s)
      else parse_number s)"

text \<open>
  The text of a value ends where the parser stops, so \<open>raw_of s rest\<close> is the raw value at the
  front of \<open>s\<close>. Elements and members come with it.
\<close>

definition raw_of :: "string \<Rightarrow> string \<Rightarrow> string" where
  "raw_of s rest = take (length s - length rest) s"

fun parse_value :: "nat \<Rightarrow> string \<Rightarrow> (json \<times> string) option"
  and parse_elements :: "nat \<Rightarrow> string \<Rightarrow> ((string \<times> json) list \<times> string) option"
  and parse_members :: "nat \<Rightarrow> string \<Rightarrow> ((string \<times> string \<times> json) list \<times> string) option" where
  "parse_value 0 s = None"
| "parse_value (Suc n) s =
     (case s of
        [] \<Rightarrow> None
      | c # r \<Rightarrow>
          (if c = CHR ''{''
           then if take 1 (skip_space r) = ''}'' then Some (JObj [], tl (skip_space r))
                else map_option (\<lambda>(ms, rest). (JObj (map (\<lambda>(k, raw, v). (k, v)) ms), rest))
                       (parse_members n (skip_space r))
           else if c = CHR ''[''
           then if take 1 (skip_space r) = '']'' then Some (JArr [], tl (skip_space r))
                else map_option (\<lambda>(es, rest). (JArr (map snd es), rest)) (parse_elements n (skip_space r))
           else if c = CHR 0x22 then map_option (\<lambda>(t, rest). (JStr t, rest)) (parse_string r)
           else parse_literal s))"
| "parse_elements 0 s = None"
| "parse_elements (Suc n) s =
     (case parse_value n s of
        None \<Rightarrow> None
      | Some (v, rest) \<Rightarrow>
          (let r = skip_space rest in
           if take 1 r = '','' then map_option (\<lambda>(es, rest'). ((raw_of s rest, v) # es, rest'))
                                      (parse_elements n (skip_space (tl r)))
           else if take 1 r = '']'' then Some ([(raw_of s rest, v)], tl r)
           else None))"
| "parse_members 0 s = None"
| "parse_members (Suc n) s =
     (if take 1 s \<noteq> [CHR 0x22] then None
      else case parse_string (tl s) of
          None \<Rightarrow> None
        | Some (k, r) \<Rightarrow>
            (let r = skip_space r in
             if take 1 r \<noteq> '':'' then None
             else let s' = skip_space (tl r) in
               case parse_value n s' of
                 None \<Rightarrow> None
               | Some (v, rest) \<Rightarrow>
                   (let r = skip_space rest in
                    if take 1 r = '','' then map_option (\<lambda>(ms, rest'). ((k, raw_of s' rest, v) # ms, rest'))
                                               (parse_members n (skip_space (tl r)))
                    else if take 1 r = ''}'' then Some ([(k, raw_of s' rest, v)], tl r)
                    else None)))"

fun json_depth :: "json \<Rightarrow> nat" where
  "json_depth (JArr vs) = Suc (fold max (map json_depth vs) 0)"
| "json_depth (JObj kvs) = Suc (fold max (map (\<lambda>(k, v). json_depth v) kvs) 0)"
| "json_depth _ = 0"

definition maxNestingDepth :: nat where
  "maxNestingDepth = 10000"

text \<open>\<^verbatim>\<open>json.Unmarshal\<close> into \<^verbatim>\<open>any\<close>.\<close>

definition Unmarshal_value :: "string \<Rightarrow> json option" where
  "Unmarshal_value s =
     (case parse_value (Suc (length s)) (skip_space s) of
        None \<Rightarrow> None
      | Some (v, rest) \<Rightarrow> if skip_space rest = [] \<and> json_depth v \<le> maxNestingDepth then Some v else None)"

section \<open>Encoding\<close>

definition hex_char :: "nat \<Rightarrow> char" where
  "hex_char n = char_of (if n < 10 then 48 + n else 87 + n)"

definition escape_seg :: "rune \<times> string \<Rightarrow> string" where
  "escape_seg = (\<lambda>(r, bytes).
     if r = 34 \<or> r = 92 then CHR 0x5C # bytes
     else if r = 8 then CHR 0x5C # ''b'' else if r = 12 then CHR 0x5C # ''f''
     else if r = 10 then CHR 0x5C # ''n'' else if r = 13 then CHR 0x5C # ''r''
     else if r = 9 then CHR 0x5C # ''t''
     else if r < 32 \<or> r = 60 \<or> r = 62 \<or> r = 38
     then CHR 0x5C # ''u00'' @ [hex_char (r div 16), hex_char (r mod 16)]
     else if r = rune_error \<and> length bytes = 1 then CHR 0x5C # ''ufffd''
     else if r = 8232 then CHR 0x5C # ''u2028'' else if r = 8233 then CHR 0x5C # ''u2029''
     else bytes)"

definition quote :: "string \<Rightarrow> string" where
  "quote s = CHR 0x22 # concat (map escape_seg (rune_segs s)) @ [CHR 0x22]"

fun Marshal :: "json \<Rightarrow> string" where
  "Marshal JNull = ''null''"
| "Marshal (JBool b) = (if b then ''true'' else ''false'')"
| "Marshal (JInt n) = itoa n"
| "Marshal (JOtherNumber t) = t"
| "Marshal (JStr s) = quote s"
| "Marshal (JArr vs) = ''['' @ join_str '','' (map Marshal vs) @ '']''"
| "Marshal (JObj kvs) = ''{'' @ join_str '','' (map (\<lambda>(k, v). quote k @ '':'' @ Marshal v) kvs) @ ''}''"

text \<open>A map is encoded with its keys in order.\<close>

definition json_map :: "(string \<times> json) list \<Rightarrow> json" where
  "json_map kvs = JObj (sort_slice (\<lambda>a b. fst a < fst b) kvs)"

section \<open>Strings survive the round trip\<close>

lemma decode_rune_cases:
  assumes "decode_rune (a # bs) = (v, n)" and "\<not> (v = rune_error \<and> n = 1)"
  obtains "a < 128" "v = a" "n = 1"
  | b where "take 1 bs = [b]" "n = 2" "194 \<le> a" "a \<le> 223" "128 \<le> b" "b \<le> 191"
      "v = (a - 192) * 64 + (b - 128)"
  | b c where "take 2 bs = [b, c]" "n = 3" "224 \<le> a" "a \<le> 239" "128 \<le> b" "b \<le> 191" "128 \<le> c" "c \<le> 191"
      "a = 224 \<longrightarrow> 160 \<le> b" "v = (a - 224) * 4096 + (b - 128) * 64 + (c - 128)"
  | b c d where "take 3 bs = [b, c, d]" "n = 4" "240 \<le> a" "a \<le> 244" "128 \<le> b" "b \<le> 191" "128 \<le> c" "c \<le> 191"
      "128 \<le> d" "d \<le> 191" "a = 240 \<longrightarrow> 144 \<le> b"
      "v = (a - 240) * 262144 + (b - 128) * 4096 + (c - 128) * 64 + (d - 128)"
proof (cases "a < 128")
  case True
  then have "v = a" "n = 1" using assms(1) by auto
  with True show ?thesis by (rule that(1))
next
  case False
  with assms obtain w lo hi where lead: "utf8_lead a = Some (w, lo, hi)"
    by (auto split: option.splits)
  define ts where "ts = take (w - 1) bs"
  have ok: "length ts = w - 1" "lo \<le> hd ts" "hd ts \<le> hi" "list_all cont_byte ts" "v = utf8_value a ts" "n = w"
    using assms False lead by (auto simp: Let_def ts_def split: if_splits)
  have "w = 2 \<or> w = 3 \<or> w = 4"
    using lead by (auto simp: utf8_lead_def split: if_splits)
  then consider "w = 2" | "w = 3" | "w = 4" by blast
  then show ?thesis
  proof cases
    case 1
    then obtain b where "ts = [b]" using ok(1) by (auto simp: length_Suc_conv)
    then show ?thesis
      using 1 ok(2-) lead ts_def that(2) [of b] by (auto simp: cont_byte_def utf8_value_def utf8_lead_def split: if_splits)
  next
    case 2
    then obtain b c where "ts = [b, c]" using ok(1) by (auto simp: length_Suc_conv numeral_2_eq_2)
    then show ?thesis
      using 2 ok(2-) lead ts_def that(3) [of b c] by (auto simp: cont_byte_def utf8_value_def utf8_lead_def split: if_splits)
  next
    case 3
    then obtain b c d where "ts = [b, c, d]" using ok(1) by (auto simp: length_Suc_conv numeral_3_eq_3)
    then show ?thesis
      using 3 ok(2-) lead ts_def that(4) [of b c d] by (auto simp: cont_byte_def utf8_value_def utf8_lead_def split: if_splits)
  qed
qed

lemma decode_rune_prefix:
  assumes "decode_rune (a # bs) = (v, n)" and "\<not> (v = rune_error \<and> n = 1)"
  shows "1 \<le> n \<and> length (take n (a # bs)) = n \<and> decode_rune (take n (a # bs) @ ys) = (v, n)"
proof (cases "a < 128")
  case True
  then have "v = a" "n = 1" using assms(1) by auto
  with True show ?thesis by simp
next
  case False
  with assms obtain w lo hi where lead: "utf8_lead a = Some (w, lo, hi)"
    by (auto split: option.splits)
  then have w: "2 \<le> w" by (auto simp: utf8_lead_def split: if_splits)
  let ?ts = "take (w - 1) bs"
  have ok: "length ?ts = w - 1" "lo \<le> hd ?ts" "hd ?ts \<le> hi" "list_all cont_byte ?ts" "v = utf8_value a ?ts" "n = w"
    using assms False lead by (auto simp: Let_def split: if_splits)
  have "take n (a # bs) @ ys = a # (?ts @ ys)" using w ok(6) by (cases w) auto
  moreover have "take (w - 1) (?ts @ ys) = ?ts" using ok(1) by simp
  ultimately show ?thesis using ok w False lead by (simp add: Let_def min_def split: if_splits)
qed

lemma char_eqI: "(of_char c :: nat) = of_char d \<Longrightarrow> c = d"
  by (simp only: of_char_eq_iff)

lemma hex_value_hex_char: "n < 16 \<Longrightarrow> hex_value (hex_char n) = Some n"
  by (auto simp: hex_value_def hex_char_def Let_def)

lemma hex_value_digits [simp]:
  "hex_value CHR ''0'' = Some 0" "hex_value CHR ''2'' = Some 2" "hex_value CHR ''8'' = Some 8"
  "hex_value CHR ''9'' = Some 9"
  by (simp_all add: hex_value_def)

lemma escaped_chars:
  "of_char c \<in> {34, 92 :: nat} \<Longrightarrow> escaped_char c = Some c \<and> c \<noteq> CHR ''u''"
  by (auto simp: escaped_char_def dest!: char_eqI [of _ "CHR 0x22", simplified] char_eqI [of _ "CHR 0x5C", simplified])

lemma parse_escape_ascii:
  assumes "(of_char c :: nat) < 128"
  shows "parse_string (escape_seg (of_char c, [c]) @ t) = prepend [c] (parse_string t)"
proof -
  let ?r = "of_char c :: nat"
  consider "?r \<in> {34, 92}" | "?r \<in> {8, 9, 10, 12, 13}"
    | "?r \<notin> {8, 9, 10, 12, 13}" "?r < 32 \<or> ?r \<in> {38, 60, 62}"
    | "?r \<notin> {34, 92, 38, 60, 62}" "32 \<le> ?r"
    by fastforce
  then show ?thesis
  proof cases
    case 1
    with escaped_chars [OF 1] show ?thesis
      by (auto simp: escape_seg_def parse_string.simps(2))
  next
    case 2
    then have "c = CHR 0x08 \<or> c = CHR 0x09 \<or> c = CHR 0x0A \<or> c = CHR 0x0C \<or> c = CHR 0x0D"
      by (auto intro!: char_eqI)
    then have "\<exists>e. escape_seg (?r, [c]) = [CHR 0x5C, e] \<and> escaped_char e = Some c \<and> e \<noteq> CHR ''u''"
      by (elim disjE) (simp_all add: escape_seg_def escaped_char_def)
    then show ?thesis
      by (auto simp: parse_string.simps(2))
  next
    case 3
    then have "escape_seg (?r, [c]) = CHR 0x5C # ''u00'' @ [hex_char (?r div 16), hex_char (?r mod 16)]"
      by (auto simp: escape_seg_def)
    moreover have "?r div 16 < 16" "?r mod 16 < 16" using assms by auto
    ultimately show ?thesis
      using assms
      by (simp add: parse_string.simps(2) hex_value_hex_char is_surrogate_def encode_rune_ascii)
  next
    case 4
    then have "escape_seg (?r, [c]) = [c]" "c \<noteq> CHR 0x22" "c \<noteq> CHR 0x5C"
      using assms by (auto simp: escape_seg_def rune_error_def)
    then show ?thesis
      using assms 4(2) by (simp add: parse_string.simps(2) rune_error_def)
  qed
qed

lemma decode_separator:
  assumes dec: "decode_rune (a # bs) = (8232 + k, n)" and k: "k < 2"
  shows "n = 3 \<and> a = 226 \<and> take 2 bs = [128, 168 + k]"
proof (rule decode_rune_cases [OF dec])
  show "\<not> (8232 + k = rune_error \<and> n = 1)" using k by (simp add: rune_error_def)
next
  assume "a < 128" "8232 + k = a"
  then show ?thesis by simp
next
  fix b assume "a \<le> 223" "b \<le> 191" "8232 + k = (a - 192) * 64 + (b - 128)"
  moreover have "(a - 192) * 64 \<le> 31 * 64" using \<open>a \<le> 223\<close> by (intro mult_le_mono1) simp
  ultimately show ?thesis by simp
next
  fix b c assume h: "take 2 bs = [b, c]" "n = 3" "224 \<le> a" "a \<le> 239" "128 \<le> b" "b \<le> 191" "128 \<le> c" "c \<le> 191"
    "8232 + k = (a - 224) * 4096 + (b - 128) * 64 + (c - 128)"
  have "a - 224 = 2" using h(7-9) h(6) k by linarith
  moreover from this have "b - 128 = 0" using h(8,9) k by linarith
  ultimately show ?thesis using h by auto
next
  fix b c d assume h: "240 \<le> a" "a \<le> 244" "128 \<le> b" "a = 240 \<longrightarrow> 144 \<le> b"
    "8232 + k = (a - 240) * 262144 + (b - 128) * 4096 + (c - 128) * 64 + (d - 128)"
  have "a = 240 \<or> 1 \<le> a - 240" using h(1) by linarith
  then have False
  proof
    assume "a = 240"
    with h have "16 \<le> b - 128" by auto
    with h(5) k show False by linarith
  qed (use h(5) k in linarith)
  then show ?thesis ..
qed

lemma decode_rune_big:
  assumes dec: "decode_rune (a # bs) = (v, n)" and ok: "\<not> (v = rune_error \<and> n = 1)" and a: "128 \<le> a"
  shows "128 \<le> v"
proof (rule decode_rune_cases [OF dec ok])
  fix b assume "194 \<le> a" "v = (a - 192) * 64 + (b - 128)"
  then show ?thesis by linarith
next
  fix b c assume h: "224 \<le> a" "a = 224 \<longrightarrow> 160 \<le> b" "v = (a - 224) * 4096 + (b - 128) * 64 + (c - 128)"
  then have "1 \<le> a - 224 \<or> 32 \<le> b - 128" by auto
  with h(3) show ?thesis by linarith
next
  fix b c d assume h: "240 \<le> a" "a = 240 \<longrightarrow> 144 \<le> b"
    "v = (a - 240) * 262144 + (b - 128) * 4096 + (c - 128) * 64 + (d - 128)"
  then have "1 \<le> a - 240 \<or> 16 \<le> b - 128" by auto
  with h(3) show ?thesis by linarith
qed (use a in simp)

lemma separator_chars:
  "char_of (226 :: nat) = CHR 0xE2" "char_of (128 :: nat) = CHR 0x80" "char_of (168 :: nat) = CHR 0xA8"
  "char_of (169 :: nat) = CHR 0xA9"
  by (rule char_eqI, simp)+

lemma parse_escape_seg:
  assumes dec: "decode_rune (map of_char (c # cs)) = (v, n)" and ok: "\<not> (v = rune_error \<and> n = 1)"
  shows "parse_string (escape_seg (v, take n (c # cs)) @ t) = prepend (take n (c # cs)) (parse_string t)"
proof (cases "(of_char c :: nat) < 128")
  case True
  then have "v = of_char c" "n = 1" using dec by auto
  with parse_escape_ascii [OF True] show ?thesis by simp
next
  case False
  then have plain: "c \<noteq> CHR 0x22" "c \<noteq> CHR 0x5C" by auto
  note dec' = dec [unfolded list.map]
  have big: "128 \<le> v" by (rule decode_rune_big [OF dec' ok]) (use False in simp)
  note pre = decode_rune_prefix [OF dec' ok, of "map of_char t"]
  consider k where "v = 8232 + k" "k < 2" | "v \<noteq> 8232" "v \<noteq> 8233"
    using that(1) [of 0] that(1) [of 1] by fastforce
  then show ?thesis
  proof cases
    case 1
    then have sep: "n = 3" "of_char c = (226 :: nat)" "take 2 (map of_char cs) = [128, 168 + k :: nat]"
      using decode_separator dec by auto
    obtain z z' where z: "take 2 cs = [z, z']" "of_char z = (128 :: nat)" "of_char z' = 168 + k"
      using sep(3) by (auto simp: take_map)
    have "z = CHR 0x80" using z(2) by (auto intro!: char_eqI)
    moreover have "c = CHR 0xE2" using sep(2) by (auto intro!: char_eqI)
    moreover have "k = 0 \<and> z' = CHR 0xA8 \<or> k = 1 \<and> z' = CHR 0xA9"
      using z(3) 1(2) by (auto simp: less_2_cases_iff intro!: char_eqI)
    ultimately show ?thesis
      using sep(1) 1(1) z(1)
      by (auto simp: escape_seg_def parse_string.simps(2) rune_error_def is_surrogate_def encode_rune_def separator_chars numeral_3_eq_3 numeral_2_eq_2)
  next
    case 2
    let ?seg = "take n (c # cs)"
    have "escape_seg (v, ?seg) = ?seg"
      using big 2 ok pre by (auto simp: escape_seg_def)
    moreover obtain seg where seg: "?seg = c # seg" "length seg = n - 1" using pre by (cases n) auto
    moreover have "decode_rune (map of_char (?seg @ t)) = (v, n)"
      using pre by (simp add: take_map [symmetric])
    moreover have "take n (c # seg @ t) = c # seg" "drop (n - 1) (seg @ t) = t"
      using seg(2) pre by (auto simp: take_Cons')
    ultimately show ?thesis
      using plain False ok by (auto simp: parse_string.simps(2) simp del: decode_rune.simps(2))
  qed
qed

lemma parse_quoted:
  assumes "valid_utf8 s"
  shows "parse_string (concat (map escape_seg (rune_segs s)) @ CHR 0x22 # t) = Some (s, t)"
  using assms
proof (induction s rule: rune_segs.induct)
  case 1
  show ?case by (simp add: parse_string.simps(2))
next
  case (2 c cs)
  obtain v n where dec: "decode_rune (map of_char (c # cs)) = (v, n)" by fastforce
  have segs: "rune_segs (c # cs) = (v, take n (c # cs)) # rune_segs (drop n (c # cs))"
    unfolding rune_segs.simps(2) dec by simp
  have valid: "valid_utf8 (drop n (c # cs))" and seg: "\<not> (v = rune_error \<and> length (take n (c # cs)) = 1)"
    using 2(2) segs by (auto simp: valid_utf8_def invalid_seg_def)
  then have ok: "\<not> (v = rune_error \<and> n = 1)" by auto
  have "parse_string (concat (map escape_seg (rune_segs (drop n (c # cs)))) @ CHR 0x22 # t) = Some (drop n (c # cs), t)"
    by (rule 2(1) [OF HOL.refl dec [symmetric] valid])
  with parse_escape_seg [OF dec ok] show ?case
    unfolding segs by (simp del: take_Cons' drop_Cons')
qed

section \<open>Numbers survive the round trip\<close>

definition no_number :: "string \<Rightarrow> bool" where
  "no_number t \<longleftrightarrow> (case t of [] \<Rightarrow> True | c # _ \<Rightarrow> \<not> decimal_digit c \<and> c \<noteq> CHR ''.'' \<and> c \<noteq> CHR ''e'' \<and> c \<noteq> CHR ''E'')"

lemma takeWhile_digits: "list_all decimal_digit ds \<Longrightarrow> no_number t \<Longrightarrow> takeWhile decimal_digit (ds @ t) = ds"
  by (induction ds) (auto simp: no_number_def split: list.splits)

lemma parse_digits:
  assumes "no_number t" and ds: "list_all decimal_digit ds" "ds \<noteq> []" "take 1 ds = ''0'' \<longrightarrow> ds = ''0''"
  shows "parse_number (ds @ t) = Some (JInt (int (digits_value ds)), t)"
    and "parse_number (CHR ''-'' # ds @ t) = Some (JInt (- int (digits_value ds)), t)"
proof -
  have parts: "fraction_part t = Some []" "exponent_part t = Some []"
    using assms(1) by (auto simp: no_number_def fraction_part_def exponent_part_def split: list.splits)
  have whole: "take (Suc 0) ds = ''0'' \<Longrightarrow> ds = ''0''" using ds(3) by simp
  obtain d ds' where cons: "ds = d # ds'" "decimal_digit d" using ds(1,2) by (cases ds) auto
  then have "d \<noteq> CHR ''-''" by (auto simp: decimal_digit_def)
  then have sign: "(case ds @ t of c # _ \<Rightarrow> if c = CHR ''-'' then [c] else [] | [] \<Rightarrow> []) = []"
    by (simp add: cons(1))
  note digits = takeWhile_digits [OF ds(1) assms(1)]
  show "parse_number (ds @ t) = Some (JInt (int (digits_value ds)), t)"
    unfolding parse_number_def sign using ds(2) digits parts
    by (cases "take (Suc 0) ds = ''0''") (auto simp: Let_def dest!: whole)
  show "parse_number (CHR ''-'' # ds @ t) = Some (JInt (- int (digits_value ds)), t)"
    unfolding parse_number_def using ds(2) digits parts
    by (cases "take (Suc 0) ds = ''0''") (auto simp: Let_def dest!: whole)
qed

lemma parse_number_itoa:
  assumes "no_number t"
  shows "parse_number (itoa i @ t) = Some (JInt i, t)"
  using parse_digits [OF assms] digits_of_digits digits_of_no_zero digits_value_digits_of
  by (simp add: itoa_def)

section \<open>Values survive the round trip\<close>

fun text_ok :: "json \<Rightarrow> bool" where
  "text_ok (JStr s) = valid_utf8 s"
| "text_ok (JOtherNumber t) = False"
| "text_ok (JArr vs) = list_all text_ok vs"
| "text_ok (JObj kvs) = list_all (\<lambda>(k, v). valid_utf8 k \<and> text_ok v) kvs"
| "text_ok _ = True"

definition member_text :: "string \<times> json \<Rightarrow> string" where
  "member_text = (\<lambda>(k, v). quote k @ '':'' @ Marshal v)"

lemma itoa_first: "\<exists>c cs. itoa i = c # cs \<and> (c = CHR ''-'' \<or> decimal_digit c)"
proof -
  obtain d ds where "digits_of (nat \<bar>i\<bar>) = d # ds" "decimal_digit d"
    using digits_of_digits [of "nat \<bar>i\<bar>"] by (cases "digits_of (nat \<bar>i\<bar>)") auto
  then show ?thesis by (cases "i < 0") (auto simp: itoa_def)
qed

lemma Marshal_first:
  assumes "text_ok j"
  shows "\<exists>c cs. Marshal j = c # cs \<and> \<not> json_space c \<and> c \<noteq> CHR '']'' \<and> c \<noteq> CHR ''}''"
proof (cases j)
  case (JInt n)
  then show ?thesis
    using itoa_first [of n] by (auto simp: json_space_def decimal_digit_def)
qed (use assms in \<open>auto simp: json_space_def quote_def\<close>)

lemma skip_space_Marshal: "text_ok j \<Longrightarrow> skip_space (Marshal j @ t) = Marshal j @ t"
  using Marshal_first [of j] by auto

lemma parse_number_text:
  "no_number t \<Longrightarrow> 0 < n \<Longrightarrow> parse_value n (itoa i @ t) = Some (JInt i, t)"
proof -
  assume t: "no_number t" and "0 < n"
  then obtain m where n: "n = Suc m" by (cases n) auto
  obtain c cs where cs: "itoa i = c # cs" "c = CHR ''-'' \<or> decimal_digit c" using itoa_first by blast
  then have "c \<notin> {CHR ''{'', CHR ''['', CHR 0x22, CHR ''t'', CHR ''f'', CHR ''n''}" by (auto simp: decimal_digit_def)
  then have "parse_value n (itoa i @ t) = parse_number (itoa i @ t)"
    using cs(1) by (simp add: n parse_literal_def has_prefix_def)
  then show ?thesis using parse_number_itoa [OF t] by simp
qed

lemma parse_quote_text: "valid_utf8 s \<Longrightarrow> 0 < n \<Longrightarrow> parse_value n (quote s @ t) = Some (JStr s, t)"
  by (cases n) (simp_all add: quote_def parse_quoted)

lemma raw_of_append [simp]: "raw_of (s @ t) t = s"
  by (simp add: raw_of_def)

lemma parse_elements_text:
  assumes "\<And>v n t. v \<in> set vs \<Longrightarrow> no_number t \<Longrightarrow> length (Marshal v) \<le> n \<Longrightarrow> parse_value n (Marshal v @ t) = Some (v, t)"
    and "vs \<noteq> []" and "list_all text_ok vs" and "length (join_str '','' (map Marshal vs)) < n"
  shows "parse_elements n (join_str '','' (map Marshal vs) @ CHR '']'' # t) = Some (map (\<lambda>v. (Marshal v, v)) vs, t)"
  using assms
proof (induction vs arbitrary: n)
  case Nil
  then show ?case by simp
next
  case (Cons v vs)
  obtain m where n: "n = Suc m" using Cons.prems(4) by (cases n) auto
  show ?case
  proof (cases vs)
    case Nil
    have "parse_value m (Marshal v @ CHR '']'' # t) = Some (v, CHR '']'' # t)"
      using Cons.prems(1,4) Nil n by (simp add: no_number_def decimal_digit_def)
    then show ?thesis using Nil n by (simp add: json_space_def)
  next
    case more: (Cons w ws)
    let ?rest = "join_str '','' (map Marshal vs)"
    have joined: "join_str '','' (map Marshal (v # vs)) = Marshal v @ CHR '','' # ?rest" using more by simp
    have first: "parse_value m (Marshal v @ CHR '','' # ?rest @ CHR '']'' # t) = Some (v, CHR '','' # ?rest @ CHR '']'' # t)"
      using Cons.prems(1,4) n joined by (simp add: no_number_def decimal_digit_def)
    have "skip_space (?rest @ CHR '']'' # t) = ?rest @ CHR '']'' # t"
      using skip_space_Marshal [of w] Cons.prems(3) more by (cases ws) auto
    moreover have "parse_elements m (?rest @ CHR '']'' # t) = Some (map (\<lambda>v. (Marshal v, v)) vs, t)"
      using Cons.IH Cons.prems more n joined by simp
    ultimately show ?thesis
      unfolding joined n using first by (simp add: json_space_def)
  qed
qed

lemma no_space [simp]:
  "\<not> json_space CHR '':''" "\<not> json_space CHR '',''" "\<not> json_space CHR ''}''" "\<not> json_space CHR '']''" "\<not> json_space CHR 0x22"
  by (simp_all add: json_space_def)

lemma skip_space_member: "skip_space (member_text kv @ t) = member_text kv @ t"
  by (simp add: member_text_def quote_def json_space_def split: prod.split)

lemma parse_member_text:
  assumes value_ok: "parse_value n (Marshal v @ t) = Some (v, t)" and ok: "valid_utf8 k" "text_ok v"
    and t: "t = sep # t'" "\<not> json_space sep"
  shows "parse_members (Suc n) (member_text (k, v) @ t) =
    (if sep = CHR '','' then map_option (\<lambda>(ms, rest). ((k, Marshal v, v) # ms, rest)) (parse_members n (skip_space t'))
     else if sep = CHR ''}'' then Some ([(k, Marshal v, v)], t') else None)"
proof -
  have "parse_string (concat (map escape_seg (rune_segs k)) @ CHR 0x22 # CHR '':'' # Marshal v @ t)
      = Some (k, CHR '':'' # Marshal v @ t)"
    by (rule parse_quoted [OF ok(1)])
  then show ?thesis
    using value_ok skip_space_Marshal [OF ok(2)] t
    by (simp add: member_text_def quote_def Let_def)
qed

lemma parse_members_text:
  assumes "\<And>k v n t. (k, v) \<in> set kvs \<Longrightarrow> no_number t \<Longrightarrow> length (Marshal v) \<le> n \<Longrightarrow>
      parse_value n (Marshal v @ t) = Some (v, t)"
    and "kvs \<noteq> []" and "list_all (\<lambda>(k, v). valid_utf8 k \<and> text_ok v) kvs"
    and "length (join_str '','' (map member_text kvs)) < n"
  shows "parse_members n (join_str '','' (map member_text kvs) @ CHR ''}'' # t)
    = Some (map (\<lambda>(k, v). (k, Marshal v, v)) kvs, t)"
  using assms
proof (induction kvs arbitrary: n)
  case Nil
  then show ?case by simp
next
  case (Cons kv kvs)
  obtain k v where kv: "kv = (k, v)" by fastforce
  obtain m where n: "n = Suc m" using Cons.prems(4) by (cases n) auto
  have ok: "valid_utf8 k" "text_ok v" using Cons.prems(3) kv by auto
  have short: "length (Marshal v) \<le> m"
    using Cons.prems(4) n kv by (cases kvs) (auto simp: member_text_def)
  have value_ok: "parse_value m (Marshal v @ c # s) = Some (v, c # s)" if "c = CHR '','' \<or> c = CHR ''}''" for c s
  proof (rule Cons.prems(1))
    show "no_number (c # s)" using that by (auto simp: no_number_def decimal_digit_def)
  qed (use kv short in auto)
  show ?case
  proof (cases kvs)
    case Nil
    then show ?thesis
      using parse_member_text [OF value_ok ok, of "CHR ''}''" t] n kv by (simp add: json_space_def)
  next
    case more: (Cons w ws)
    let ?rest = "join_str '','' (map member_text kvs)"
    have joined: "join_str '','' (map member_text (kv # kvs)) = member_text (k, v) @ CHR '','' # ?rest"
      using more kv by simp
    have "skip_space (?rest @ CHR ''}'' # t) = ?rest @ CHR ''}'' # t"
      using more by (cases ws) (simp_all add: skip_space_member)
    moreover have "parse_members m (?rest @ CHR ''}'' # t) = Some (map (\<lambda>(k, v). (k, Marshal v, v)) kvs, t)"
    proof (rule Cons.IH)
      show "parse_value n' (Marshal v' @ t') = Some (v', t')"
        if "(k', v') \<in> set kvs" "no_number t'" "length (Marshal v') \<le> n'" for k' v' n' t'
        using Cons.prems(1) [of k' v'] that by simp
    qed (use Cons.prems more n joined in auto)
    ultimately show ?thesis
      unfolding joined n
      using parse_member_text [OF value_ok ok, of "CHR '',''" "?rest @ CHR ''}'' # t"] kv by (simp add: json_space_def)
  qed
qed

lemma parse_Marshal:
  "text_ok j \<Longrightarrow> no_number t \<Longrightarrow> length (Marshal j) \<le> n \<Longrightarrow> parse_value n (Marshal j @ t) = Some (j, t)"
proof (induction j arbitrary: n t)
  case JNull
  then show ?case by (cases n) (simp_all add: parse_literal_def has_prefix_def)
next
  case (JBool b)
  then show ?case by (cases n; cases b) (simp_all add: parse_literal_def has_prefix_def)
next
  case (JInt i)
  then show ?case using itoa_first [of i] by (auto intro!: parse_number_text)
next
  case (JOtherNumber s)
  then show ?case by simp
next
  case (JStr s)
  then have "0 < n" by (auto simp: quote_def)
  with JStr show ?case using parse_quote_text by simp
next
  case (JArr vs)
  then obtain m where n: "n = Suc m" by (cases n) auto
  show ?case
  proof (cases vs)
    case Nil
    then show ?thesis by (simp add: n json_space_def)
  next
    case (Cons w ws)
    have "skip_space (join_str '','' (map Marshal vs) @ CHR '']'' # t) = join_str '','' (map Marshal vs) @ CHR '']'' # t"
      "take 1 (join_str '','' (map Marshal vs) @ CHR '']'' # t) \<noteq> '']''"
      using Marshal_first [of w] JArr.prems(1) Cons by (cases ws; auto)+
    moreover have "parse_elements m (join_str '','' (map Marshal vs) @ CHR '']'' # t) = Some (map (\<lambda>v. (Marshal v, v)) vs, t)"
      using JArr Cons n by (intro parse_elements_text) (auto simp: list_all_iff)
    ultimately show ?thesis by (simp add: n comp_def)
  qed
next
  case (JObj kvs)
  then obtain m where n: "n = Suc m" by (cases n) auto
  have eq: "Marshal (JObj kvs) = CHR ''{'' # join_str '','' (map member_text kvs) @ ''}''"
    by (simp add: member_text_def)
  show ?case
  proof (cases kvs)
    case Nil
    then show ?thesis by (simp add: n json_space_def)
  next
    case (Cons w ws)
    have first: "skip_space (join_str '','' (map member_text kvs) @ CHR ''}'' # t) = join_str '','' (map member_text kvs) @ CHR ''}'' # t"
      using Cons by (cases ws) (simp_all add: skip_space_member)
    moreover have "take 1 (join_str '','' (map member_text kvs) @ CHR ''}'' # t) \<noteq> ''}''"
      using Cons by (cases ws) (simp_all add: member_text_def quote_def split: prod.split)
    moreover have "parse_members m (join_str '','' (map member_text kvs) @ CHR ''}'' # t)
        = Some (map (\<lambda>(k, v). (k, Marshal v, v)) kvs, t)"
    proof (rule parse_members_text)
      show "parse_value n' (Marshal v @ t') = Some (v, t')"
        if "(k, v) \<in> set kvs" "no_number t'" "length (Marshal v) \<le> n'" for k v n' t'
        using JObj.IH [of "(k, v)" v] JObj.prems(1) that by (auto simp: list_all_iff)
    qed (use JObj.prems Cons n eq in auto)
    ultimately show ?thesis by (simp add: eq n comp_def case_prod_beta del: Marshal.simps)
  qed
qed

lemma Unmarshal_Marshal:
  assumes "text_ok j" and "json_depth j \<le> maxNestingDepth"
  shows "Unmarshal_value (Marshal j) = Some j"
  using parse_Marshal [OF assms(1), of "[]" "Suc (length (Marshal j))"] skip_space_Marshal [OF assms(1), of "[]"] assms(2)
  by (simp add: Unmarshal_value_def no_number_def)

end
