(* ===== verification/Kube_Decode.thy ===== *)
theory Kube_Decode
  imports Json_Text "HOL-Library.AList" "HOL-Library.Monad_Syntax"
begin

text \<open>
  Decoding of API objects with \<^verbatim>\<open>json.Unmarshal\<close> into the anonymous structs of package
  \<^verbatim>\<open>internal/kubernetes\<close>: unknown fields are ignored, names match up to case, and
  \<^verbatim>\<open>null\<close> leaves a scalar as it is and empties a map, slice or pointer. A struct is the list
  of its fields, so that a nested struct that occurs again adds its fields; an array field that
  occurs again is decoded anew. A Go map is an association list with distinct keys. Every
  function returns \<open>None\<close> where \<^verbatim>\<open>Unmarshal\<close> returns an error.

  The time stamps are those of \<^verbatim>\<open>time.Time.UnmarshalJSON\<close>, strict RFC 3339, as
  nanoseconds since the zero time.
\<close>

type_synonym fields = "(string \<times> json) list"

section \<open>Time stamps\<close>

definition leap_year :: "int \<Rightarrow> bool" where
  "leap_year y \<longleftrightarrow> y mod 4 = 0 \<and> (y mod 100 \<noteq> 0 \<or> y mod 400 = 0)"

definition days_in_month :: "int \<Rightarrow> nat \<Rightarrow> int" where
  "days_in_month y m =
     (if m = 2 then (if leap_year y then 29 else 28) else if m \<in> {4, 6, 9, 11} then 30 else 31)"

text \<open>Days from 1 January of year 1.\<close>

definition days_before_year :: "int \<Rightarrow> int" where
  "days_before_year y = (let p = y - 1 in p * 365 + p div 4 - p div 100 + p div 400)"

definition days_before_month :: "int \<Rightarrow> nat \<Rightarrow> int" where
  "days_before_month y m = sum_list (map (days_in_month y) [1..<m])"

definition fixed_digits :: "nat \<Rightarrow> string \<Rightarrow> (nat \<times> string) option" where
  "fixed_digits n s =
     (if length (take n s) = n \<and> list_all decimal_digit (take n s)
      then Some (digits_value (take n s), drop n s) else None)"

definition expect :: "char \<Rightarrow> string \<Rightarrow> string option" where
  "expect c s = (case s of d # r \<Rightarrow> if d = c then Some r else None | [] \<Rightarrow> None)"

definition nanoseconds :: "string \<Rightarrow> (int \<times> string) option" where
  "nanoseconds s =
     (case expect (CHR ''.'') s of
        None \<Rightarrow> Some (0, s)
      | Some r \<Rightarrow>
          (let ds = takeWhile decimal_digit r; nine = take 9 (ds @ ''000000000'')
           in if ds = [] then None else Some (int (digits_value nine), dropWhile decimal_digit r)))"

definition zone_offset :: "string \<Rightarrow> int option" where
  "zone_offset s =
     (if s = ''Z'' then Some 0
      else case s of
          [] \<Rightarrow> None
        | sign # r \<Rightarrow>
            if sign \<noteq> CHR ''+'' \<and> sign \<noteq> CHR ''-'' then None
            else do {
              (h, r) \<leftarrow> fixed_digits 2 r;
              r \<leftarrow> expect (CHR '':'') r;
              (m, r) \<leftarrow> fixed_digits 2 r;
              if r = [] \<and> h < 24 \<and> m < 60
              then Some ((if sign = CHR ''-'' then - 1 else 1) * (int h * hour + int m * minute))
              else None
            })"

definition parse_time :: "string \<Rightarrow> gtime option" where
  "parse_time s = do {
     (y, s) \<leftarrow> fixed_digits 4 s;
     s \<leftarrow> expect (CHR ''-'') s;
     (m, s) \<leftarrow> fixed_digits 2 s;
     s \<leftarrow> expect (CHR ''-'') s;
     (d, s) \<leftarrow> fixed_digits 2 s;
     s \<leftarrow> expect (CHR ''T'') s;
     (hh, s) \<leftarrow> fixed_digits 2 s;
     s \<leftarrow> expect (CHR '':'') s;
     (mm, s) \<leftarrow> fixed_digits 2 s;
     s \<leftarrow> expect (CHR '':'') s;
     (ss, s) \<leftarrow> fixed_digits 2 s;
     (ns, s) \<leftarrow> nanoseconds s;
     offset \<leftarrow> zone_offset s;
     if 1 \<le> m \<and> m \<le> 12 \<and> 1 \<le> d \<and> int d \<le> days_in_month (int y) m \<and> hh < 24 \<and> mm < 60 \<and> ss < 60
     then Some ((days_before_year (int y) + days_before_month (int y) m + int d - 1) * (24 * hour)
                + int hh * hour + int mm * minute + int ss * second + ns - offset)
     else None
   }"

section \<open>Fields\<close>

definition set_bool :: "bool \<Rightarrow> json \<Rightarrow> bool option" where
  "set_bool old v = (case v of JBool b \<Rightarrow> Some b | JNull \<Rightarrow> Some old | _ \<Rightarrow> None)"

definition set_int32 :: "int \<Rightarrow> json \<Rightarrow> int option" where
  "set_int32 old v =
     (case v of
        JInt n \<Rightarrow> if - (2 ^ 31) \<le> n \<and> n < 2 ^ 31 then Some n else None
      | JNull \<Rightarrow> Some old
      | _ \<Rightarrow> None)"

definition set_string_pointer :: "string option \<Rightarrow> json \<Rightarrow> string option option" where
  "set_string_pointer old v = (case v of JStr s \<Rightarrow> Some (Some s) | JNull \<Rightarrow> Some None | _ \<Rightarrow> None)"

definition set_int64_pointer :: "int option \<Rightarrow> json \<Rightarrow> int option option" where
  "set_int64_pointer old v =
     (case v of
        JInt n \<Rightarrow> if - (2 ^ 63) \<le> n \<and> n < 2 ^ 63 then Some (Some n) else None
      | JNull \<Rightarrow> Some None
      | _ \<Rightarrow> None)"

definition set_time :: "gtime \<Rightarrow> json \<Rightarrow> gtime option" where
  "set_time old v = (case v of JStr s \<Rightarrow> parse_time s | JNull \<Rightarrow> Some old | _ \<Rightarrow> None)"

definition set_fields :: "fields \<Rightarrow> json \<Rightarrow> fields option" where
  "set_fields old v = (case v of JObj kvs \<Rightarrow> Some (old @ kvs) | JNull \<Rightarrow> Some old | _ \<Rightarrow> None)"

definition set_pointer :: "fields option \<Rightarrow> json \<Rightarrow> fields option option" where
  "set_pointer old v =
     (case v of
        JObj kvs \<Rightarrow> Some (Some ((case old of Some o' \<Rightarrow> o' | None \<Rightarrow> []) @ kvs))
      | JNull \<Rightarrow> Some None
      | _ \<Rightarrow> None)"

text \<open>Slices of values that \<open>decode\<close> reads, and maps to such values.\<close>

definition set_slice :: "(json \<Rightarrow> 'a option) \<Rightarrow> 'a list \<Rightarrow> json \<Rightarrow> 'a list option" where
  "set_slice decode old v = (case v of JArr vs \<Rightarrow> those (map decode vs) | JNull \<Rightarrow> Some [] | _ \<Rightarrow> None)"

definition set_map :: "(json \<Rightarrow> 'a option) \<Rightarrow> (string \<times> 'a) list \<Rightarrow> json \<Rightarrow> (string \<times> 'a) list option" where
  "set_map decode old v =
     (case v of
        JObj kvs \<Rightarrow> foldl (\<lambda>acc (k, v). do { m \<leftarrow> acc; x \<leftarrow> decode v; Some (AList.update k x m) }) (Some old) kvs
      | JNull \<Rightarrow> Some []
      | _ \<Rightarrow> None)"

text \<open>\<^verbatim>\<open>json.Unmarshal\<close> of a text into a struct.\<close>

definition Unmarshal_fields :: "string \<Rightarrow> fields option" where
  "Unmarshal_fields s = do { v \<leftarrow> Unmarshal_value s; set_fields [] v }"

abbreviation f_str :: "string \<Rightarrow> fields \<Rightarrow> string option" where
  "f_str \<equiv> json_field set_string []"

abbreviation f_bool :: "string \<Rightarrow> fields \<Rightarrow> bool option" where
  "f_bool \<equiv> json_field set_bool False"

abbreviation f_bool_ptr :: "string \<Rightarrow> fields \<Rightarrow> bool option option" where
  "f_bool_ptr \<equiv> json_field set_bool_pointer None"

abbreviation f_int32 :: "string \<Rightarrow> fields \<Rightarrow> int option" where
  "f_int32 \<equiv> json_field set_int32 0"

abbreviation f_int32_ptr :: "string \<Rightarrow> fields \<Rightarrow> int option option" where
  "f_int32_ptr \<equiv> json_field set_int32_pointer None"

abbreviation f_int64 :: "string \<Rightarrow> fields \<Rightarrow> int option" where
  "f_int64 \<equiv> json_field set_int 0"

abbreviation f_str_ptr :: "string \<Rightarrow> fields \<Rightarrow> string option option" where
  "f_str_ptr \<equiv> json_field set_string_pointer None"

abbreviation f_int64_ptr :: "string \<Rightarrow> fields \<Rightarrow> int option option" where
  "f_int64_ptr \<equiv> json_field set_int64_pointer None"

abbreviation f_time :: "string \<Rightarrow> fields \<Rightarrow> gtime option" where
  "f_time \<equiv> json_field set_time zero_time"

abbreviation f_struct :: "string \<Rightarrow> fields \<Rightarrow> fields option" where
  "f_struct \<equiv> json_field set_fields []"

abbreviation f_struct_ptr :: "string \<Rightarrow> fields \<Rightarrow> fields option option" where
  "f_struct_ptr \<equiv> json_field set_pointer None"

abbreviation f_strs :: "string \<Rightarrow> fields \<Rightarrow> string list option" where
  "f_strs \<equiv> json_field (set_slice (set_string [])) []"

abbreviation f_structs :: "(fields \<Rightarrow> 'a option) \<Rightarrow> string \<Rightarrow> fields \<Rightarrow> 'a list option" where
  "f_structs decode \<equiv> json_field (set_slice (\<lambda>v. set_fields [] v \<bind> decode)) []"

abbreviation f_str_map :: "string \<Rightarrow> fields \<Rightarrow> (string \<times> string) list option" where
  "f_str_map \<equiv> json_field (set_map (set_string [])) []"

section \<open>Raw members and elements\<close>

text \<open>The members of an object, and the elements of an array, with their raw text.\<close>

definition object_members :: "string \<Rightarrow> (string \<times> string \<times> json) list option" where
  "object_members s =
     (case Unmarshal_value s of
        Some (JObj []) \<Rightarrow> Some []
      | Some (JObj kvs) \<Rightarrow>
          map_option fst (parse_members (length s) (skip_space (tl (skip_space s))))
      | Some JNull \<Rightarrow> Some []
      | _ \<Rightarrow> None)"

definition array_elements :: "string \<Rightarrow> string list option" where
  "array_elements s =
     (case Unmarshal_value s of
        Some (JArr []) \<Rightarrow> Some []
      | Some (JArr vs) \<Rightarrow>
          map_option (map fst \<circ> fst) (parse_elements (length s) (skip_space (tl (skip_space s))))
      | Some JNull \<Rightarrow> Some []
      | _ \<Rightarrow> None)"

text \<open>A field of type \<^verbatim>\<open>[]json.RawMessage\<close>.\<close>

definition f_raws :: "string \<Rightarrow> (string \<times> string \<times> json) list \<Rightarrow> string list option" where
  "f_raws name ms =
     foldl (\<lambda>acc (k, raw, v). if equal_fold name k then acc \<bind> (\<lambda>_. array_elements raw) else acc) (Some []) ms"

end
