(* ===== verification/Kube_Transport.thy ===== *)
theory Kube_Transport
  imports Kube_Decode Validation
begin

text \<open>
  The transport of \<^verbatim>\<open>internal/kubernetes/client.go\<close>: requests to the API server, their size
  limits and error mapping, and the paginated lists with their budgets. \<open>kc_NewRequest\<close> is the
  error that \<^verbatim>\<open>http.NewRequestWithContext\<close> finds in a method and URL. The API server and the
  network are the function \<open>kc_do\<close> of a client, which answers a request knowing all requests
  before it. A client action maps the requests sent so far to the requests sent afterwards and a
  result, so that a theorem can speak about what was sent.
\<close>

section \<open>Query strings\<close>

type_synonym url_values = "(string \<times> string) list"
  \<comment> \<open>\<^verbatim>\<open>url.Values\<close> in which every key has one value\<close>

definition upper_hex :: "nat \<Rightarrow> char" where
  "upper_hex n = char_of (if n < 10 then 48 + n else 55 + n)"

definition unreserved :: "char \<Rightarrow> bool" where
  "unreserved c \<longleftrightarrow>
     (let b = of_char c :: nat in
      (97 \<le> b \<and> b \<le> 122) \<or> (65 \<le> b \<and> b \<le> 90) \<or> (48 \<le> b \<and> b \<le> 57) \<or> c \<in> {CHR ''-'', CHR ''_'', CHR ''.'', CHR ''~''})"

definition QueryEscape :: "string \<Rightarrow> string" where
  "QueryEscape s =
     concat (map (\<lambda>c. if unreserved c then [c] else if c = CHR '' '' then ''+''
       else [CHR ''%'', upper_hex (of_char c div 16), upper_hex (of_char c mod 16)]) s)"

definition Encode :: "url_values \<Rightarrow> string" where
  "Encode query =
     join_str ''&'' (map (\<lambda>(k, v). QueryEscape k @ ''='' @ QueryEscape v)
       (sort_slice (\<lambda>a b. fst a < fst b) query))"

text \<open>\<^verbatim>\<open>url.PathEscape\<close>, which leaves the characters of names as they are.\<close>

definition PathEscape :: "string \<Rightarrow> string" where
  "PathEscape s =
     concat (map (\<lambda>c. if unreserved c \<or> c \<in> {CHR ''$'', CHR ''&'', CHR ''+'', CHR ''='', CHR '':'', CHR ''@''} then [c]
       else [CHR ''%'', upper_hex (of_char c div 16), upper_hex (of_char c mod 16)]) s)"

abbreviation query_Set :: "string \<Rightarrow> string \<Rightarrow> url_values \<Rightarrow> url_values" where
  "query_Set \<equiv> AList.update"

section \<open>Requests\<close>

definition maxResponseBytes :: nat where
  "maxResponseBytes = 8 * 1024 * 1024"

definition maxMutationBytes :: nat where
  "maxMutationBytes = 2 * 1024 * 1024"

definition maxLogBytes :: nat where
  "maxLogBytes = 2 * 1024 * 1024"

definition maxListBytes :: nat where
  "maxListBytes = 32 * 1024 * 1024"

definition maxCapabilityReviewBytes :: nat where
  "maxCapabilityReviewBytes = 64 * 1024"

definition maxListItems :: nat where
  "maxListItems = 5000"

definition maxListPages :: nat where
  "maxListPages = 20"

definition listPageSize :: string where
  "listPageSize = ''500''"

record kube_request =
  kq_Method :: string
  kq_Path :: string
  kq_RawQuery :: string
  kq_Authorization :: string
  kq_Accept :: string
  kq_ContentType :: string
  kq_Body :: string

text \<open>
  What \<^verbatim>\<open>http.Client.Do\<close> comes back with: an error, or a status and a body that can be read
  to its end or breaks off with a read error.
\<close>

datatype http_outcome = DoFailed go_error | Responded int string bool

record Client =
  kc_basePath :: string
  kc_token :: string
  kc_NewRequest :: "kube_request \<Rightarrow> go_error option"
  kc_do :: "kube_request list \<Rightarrow> kube_request \<Rightarrow> http_outcome"

type_synonym 'a kube = "kube_request list \<Rightarrow> kube_request list \<times> 'a result"

definition kreturn :: "'a \<Rightarrow> 'a kube" where
  "kreturn x log = (log, Inr x)"

definition kfail :: "go_error \<Rightarrow> 'a kube" where
  "kfail e log = (log, Inl e)"

definition kthen :: "'a kube \<Rightarrow> ('a \<Rightarrow> 'b kube) \<Rightarrow> 'b kube" where
  "kthen m f log = (case m log of (log', Inl e) \<Rightarrow> (log', Inl e) | (log', Inr x) \<Rightarrow> f x log')"

definition kguard :: "go_error option \<Rightarrow> 'a kube \<Rightarrow> 'a kube" where
  "kguard err m = (case err of Some e \<Rightarrow> kfail e | None \<Rightarrow> m)"

definition kresult :: "'a result \<Rightarrow> 'a kube" where
  "kresult r log = (log, r)"

text \<open>A value that \<^verbatim>\<open>json.Unmarshal\<close> could not read is an error.\<close>

definition kdecoded :: "go_error \<Rightarrow> 'a option \<Rightarrow> 'a kube" where
  "kdecoded e v = (case v of None \<Rightarrow> kfail e | Some x \<Rightarrow> kreturn x)"

definition kube_upstream :: "string \<Rightarrow> go_error" where
  "kube_upstream text = Wrapped text ErrUpstream"

definition status_error :: "int \<Rightarrow> go_error" where
  "status_error status =
     (if status = 401 then Wrapped ''Kubernetes authentication rejected'' ErrUnauthorized
      else if status = 403 then Wrapped ''Kubernetes authorization rejected'' ErrForbidden
      else if status = 404 then Wrapped ''Kubernetes resource unavailable'' ErrNotFound
      else if status = 409 then Wrapped ''Kubernetes resource version conflict'' ErrConflict
      else kube_upstream (''Kubernetes returned HTTP '' @ itoa status))"

definition transport_error :: "go_error \<Rightarrow> go_error" where
  "transport_error e =
     (if errors_is e ContextCanceled then Wrapped ''Kubernetes request canceled'' ContextCanceled
      else if errors_is e ContextDeadlineExceeded then Wrapped ''Kubernetes request'' ErrTimeout
      else kube_upstream ''Kubernetes request'')"

text \<open>
  The body as far as \<^verbatim>\<open>io.LimitReader(body, maxBytes+1)\<close> gets: a read error behind the limit is
  not seen.
\<close>

definition read_limited :: "nat \<Rightarrow> bool \<Rightarrow> string \<Rightarrow> bool \<Rightarrow> (string \<times> bool) result" where
  "read_limited maxBytes cutoff body broken =
     (let payload = take (maxBytes + 1) body in
      if broken \<and> length body \<le> maxBytes then Inl (kube_upstream ''read Kubernetes response'')
      else if length payload > maxBytes
      then if cutoff then Inr (take maxBytes payload, True)
           else Inl (kube_upstream ''Kubernetes response exceeded size limit'')
      else Inr (payload, False))"

definition new_request ::
  "Client \<Rightarrow> string \<Rightarrow> string \<Rightarrow> url_values option \<Rightarrow> string \<Rightarrow> string \<Rightarrow> string \<Rightarrow> kube_request" where
  "new_request c method path query accept contentType body =
     \<lparr>kq_Method = method, kq_Path = trim_right_char (CHR ''/'') (kc_basePath c) @ path,
      kq_RawQuery = (case query of None \<Rightarrow> [] | Some q \<Rightarrow> Encode q),
      kq_Authorization = ''Bearer '' @ kc_token c, kq_Accept = accept, kq_ContentType = contentType,
      kq_Body = body\<rparr>"

definition requestPayload ::
  "Client \<Rightarrow> string \<Rightarrow> string \<Rightarrow> url_values option \<Rightarrow> string \<Rightarrow> string \<Rightarrow> string \<Rightarrow> nat \<Rightarrow> bool \<Rightarrow> (string \<times> bool) kube" where
  "requestPayload c method path query accept contentType body maxBytes cutoff log =
     (let request = new_request c method path query accept contentType body
      in case kc_NewRequest c request of
           Some e \<Rightarrow> (log, Inl (Wrapped ''create Kubernetes request'' e))
         | None \<Rightarrow>
             (log @ [request],
              case kc_do c log request of
                DoFailed e \<Rightarrow> Inl (transport_error e)
              | Responded status content broken \<Rightarrow>
                  if status < 200 \<or> status \<ge> 300 then Inl (status_error status)
                  else read_limited maxBytes cutoff content broken))"

definition getPayload :: "Client \<Rightarrow> string \<Rightarrow> url_values option \<Rightarrow> string \<Rightarrow> nat \<Rightarrow> bool \<Rightarrow> (string \<times> bool) kube" where
  "getPayload c path query accept maxBytes cutoff =
     requestPayload c ''GET'' path query accept [] [] maxBytes cutoff"

text \<open>\<^verbatim>\<open>getJSON\<close> into a target that \<open>decode\<close> reads.\<close>

definition getJSON :: "Client \<Rightarrow> string \<Rightarrow> url_values option \<Rightarrow> (string \<Rightarrow> 'a option) \<Rightarrow> 'a kube" where
  "getJSON c path query decode =
     kthen (getPayload c path query ''application/json'' maxResponseBytes False) (\<lambda>(payload, _).
     kdecoded (kube_upstream ''decode Kubernetes response'') (decode payload))"

section \<open>Lists\<close>

record listBudget =
  lb_items :: nat
  lb_pages :: nat
  lb_bytes :: nat

definition newListBudget :: listBudget where
  "newListBudget = \<lparr>lb_items = 0, lb_pages = 0, lb_bytes = 0\<rparr>"

fun page_bytes :: "nat \<Rightarrow> nat \<Rightarrow> string list \<Rightarrow> nat option" where
  "page_bytes used acc [] = Some acc"
| "page_bytes used acc (item # items) =
     (if int (length item) > int maxListBytes - int used - int acc then None
      else page_bytes used (acc + length item) items)"

definition appendListItemsWithBudget ::
  "string list \<Rightarrow> string list \<Rightarrow> listBudget \<Rightarrow> (string list \<times> listBudget) result" where
  "appendListItemsWithBudget items pageItems budget =
     (if int (length pageItems) > int maxListItems - int (lb_items budget)
      then Inl (kube_upstream ''Kubernetes list exceeded safe item limit'')
      else case page_bytes (lb_bytes budget) 0 pageItems of
          None \<Rightarrow> Inl (kube_upstream ''Kubernetes list exceeded safe byte limit'')
        | Some pageBytes \<Rightarrow>
            Inr (items @ pageItems, budget\<lparr>lb_items := lb_items budget + length pageItems,
                                           lb_bytes := lb_bytes budget + pageBytes\<rparr>))"

definition appendListItems :: "string list \<Rightarrow> nat \<Rightarrow> string list \<Rightarrow> (string list \<times> nat) result" where
  "appendListItems items totalBytes pageItems =
     (case appendListItemsWithBudget items pageItems
             \<lparr>lb_items = length items, lb_pages = 0, lb_bytes = totalBytes\<rparr> of
        Inl e \<Rightarrow> Inl e
      | Inr (appended, budget) \<Rightarrow> Inr (appended, lb_bytes budget))"

lemma append_pages:
  "appendListItemsWithBudget items pageItems budget = Inr (items', budget') \<Longrightarrow> lb_pages budget' = lb_pages budget"
  by (auto simp: appendListItemsWithBudget_def split: if_splits option.splits)

text \<open>A page: the continuation token and the raw items.\<close>

definition list_page :: "string \<Rightarrow> (string \<times> string list) option" where
  "list_page payload = do {
     ms \<leftarrow> object_members payload;
     metadata \<leftarrow> f_struct ''metadata'' (map (\<lambda>(k, raw, v). (k, v)) ms);
     continue \<leftarrow> f_str ''continue'' metadata;
     items \<leftarrow> f_raws ''items'' ms;
     Some (continue, items)
   }"

text \<open>The loop of \<^verbatim>\<open>listRawWithBudget\<close>.\<close>

function list_loop ::
  "Client \<Rightarrow> string \<Rightarrow> url_values \<Rightarrow> string list \<Rightarrow> listBudget \<Rightarrow> (string list \<times> listBudget) kube" where
  "list_loop c path query items budget log =
     (if lb_pages budget \<ge> maxListPages
      then (log, Inl (kube_upstream ''Kubernetes list exceeded safe page limit''))
      else
        case getJSON c path (Some query) list_page log of
          (log, Inl e) \<Rightarrow> (log, Inl e)
        | (log, Inr (continue, pageItems)) \<Rightarrow>
            (case appendListItemsWithBudget items pageItems (budget\<lparr>lb_pages := lb_pages budget + 1\<rparr>) of
               Inl e \<Rightarrow> (log, Inl e)
             | Inr (items, budget') \<Rightarrow>
                 if continue = [] then (log, Inr (items, budget'))
                 else list_loop c path (query_Set ''continue'' continue query) items budget' log))"
  by pat_completeness auto
termination
  by (relation "measure (\<lambda>(c, path, query, items, budget, log). maxListPages - lb_pages budget)")
     (auto dest!: append_pages)

definition listRawWithBudget ::
  "Client \<Rightarrow> string \<Rightarrow> url_values option \<Rightarrow> listBudget \<Rightarrow> (string list \<times> listBudget) kube" where
  "listRawWithBudget c path query budget =
     list_loop c path (query_Set ''limit'' listPageSize (case query of None \<Rightarrow> [] | Some q \<Rightarrow> q)) [] budget"

definition listRaw :: "Client \<Rightarrow> string \<Rightarrow> url_values option \<Rightarrow> string list kube" where
  "listRaw c path query =
     kthen (listRawWithBudget c path query newListBudget) (\<lambda>(items, budget). kreturn items)"

section \<open>Every list is bounded\<close>

declare list_loop.simps [simp del]

lemma page_bytes_total:
  "page_bytes used acc items = Some t \<Longrightarrow> t = acc + sum_list (map length items)
     \<and> (items \<noteq> [] \<longrightarrow> used + t \<le> maxListBytes)"
  by (induction used acc items rule: page_bytes.induct) (auto split: if_splits)

lemma append_budget:
  assumes "appendListItemsWithBudget items pageItems budget = Inr (items', budget')"
    and "lb_bytes budget \<le> maxListBytes"
  shows "items' = items @ pageItems \<and> lb_pages budget' = lb_pages budget
    \<and> lb_items budget' = lb_items budget + length pageItems
    \<and> lb_bytes budget' = lb_bytes budget + sum_list (map length pageItems)
    \<and> lb_items budget' \<le> maxListItems \<and> lb_bytes budget' \<le> maxListBytes"
  using assms
  by (cases "pageItems = []")
     (auto simp: appendListItemsWithBudget_def dest!: page_bytes_total split: if_splits option.splits)

abbreviation page_request :: "Client \<Rightarrow> string \<Rightarrow> url_values \<Rightarrow> kube_request" where
  "page_request c path q \<equiv> new_request c ''GET'' path (Some q) ''application/json'' [] []"

lemma requestPayload_log:
  assumes "requestPayload c method path query accept contentType body maxBytes cutoff log = (log', r)"
  shows "log' = log @ [new_request c method path query accept contentType body] \<or> log' = log \<and> (\<exists>e. r = Inl e)"
  using assms by (auto simp: requestPayload_def Let_def split: option.splits)

lemma getJSON_log:
  assumes "getJSON c path query decode log = (log', r)"
  shows "log' = log @ [new_request c ''GET'' path query ''application/json'' [] []] \<or> log' = log \<and> (\<exists>e. r = Inl e)"
  using assms
  by (auto simp: getJSON_def kthen_def getPayload_def kdecoded_def kreturn_def kfail_def
      split: sum.splits prod.splits option.splits dest!: requestPayload_log)

text \<open>
  What a list sends and returns: one GET per page, for at most the pages that the budget has left,
  and the items of all pages within the budget.
\<close>

definition list_outcome :: "listBudget \<Rightarrow> string list \<Rightarrow> nat \<Rightarrow> (string list \<times> listBudget) result \<Rightarrow> bool" where
  "list_outcome budget items pages r \<longleftrightarrow>
     (case r of
        Inl e \<Rightarrow> True
      | Inr (items', budget') \<Rightarrow>
          \<exists>new. items' = items @ new \<and> lb_pages budget' = lb_pages budget + pages
            \<and> lb_items budget' = lb_items budget + length new
            \<and> lb_bytes budget' = lb_bytes budget + sum_list (map length new)
            \<and> lb_items budget' \<le> maxListItems \<and> lb_bytes budget' \<le> maxListBytes)"

lemma list_loop_run:
  "\<exists>qs. fst (list_loop c path query items budget log) = log @ map (page_request c path) qs
    \<and> length qs \<le> maxListPages - lb_pages budget
    \<and> (lb_bytes budget \<le> maxListBytes \<longrightarrow>
         list_outcome budget items (length qs) (snd (list_loop c path query items budget log)))"
proof (induction "maxListPages - lb_pages budget" arbitrary: query items budget log rule: less_induct)
  case less
  show ?case
  proof (cases "lb_pages budget \<ge> maxListPages")
    case True
    then show ?thesis by (subst (1 2) list_loop.simps) (simp add: list_outcome_def)
  next
    case False
    obtain log' r where get: "getJSON c path (Some query) list_page log = (log', r)" by fastforce
    note log' = getJSON_log [OF get]
    let ?append = "\<lambda>pageItems. appendListItemsWithBudget items pageItems (budget\<lparr>lb_pages := lb_pages budget + 1\<rparr>)"
    consider e where "r = Inl e" | continue pageItems e where "r = Inr (continue, pageItems)" "?append pageItems = Inl e"
      | continue pageItems items' budget' where "r = Inr (continue, pageItems)" "?append pageItems = Inr (items', budget')"
      by (metis old.prod.exhaust sum.exhaust)
    then show ?thesis
    proof cases
      case 1
      obtain qs where "log' = log @ map (page_request c path) qs" "length qs \<le> 1"
        using log' that [of "[]"] that [of "[query]"] by auto
      then show ?thesis
        using 1 False get by (subst (1 2) list_loop.simps) (auto simp: list_outcome_def intro!: exI [of _ qs])
    next
      case 2
      then show ?thesis
        using False get log' by (subst (1 2) list_loop.simps) (auto simp: list_outcome_def intro!: exI [of _ "[query]"])
    next
      case 3
      note budget' = append_budget [OF 3(2)] append_pages [OF 3(2)]
      show ?thesis
      proof (cases "continue = []")
        case True
        then show ?thesis
          using False get log' 3 budget'
          by (subst (1 2) list_loop.simps) (auto simp: list_outcome_def intro!: exI [of _ "[query]"])
      next
        case more: False
        let ?next = "list_loop c path (query_Set ''continue'' continue query) items' budget' log'"
        have eq: "list_loop c path query items budget log = ?next"
          using False get 3 more by (subst list_loop.simps) simp
        have fewer: "maxListPages - lb_pages budget' < maxListPages - lb_pages budget"
          using budget'(2) False by simp
        obtain qs where qs: "fst ?next = log' @ map (page_request c path) qs"
            "length qs \<le> maxListPages - lb_pages budget'"
            "lb_bytes budget' \<le> maxListBytes \<longrightarrow> list_outcome budget' items' (length qs) (snd ?next)"
          using less.hyps [OF fewer, of "query_Set ''continue'' continue query" items' log'] by blast
        have "lb_bytes budget \<le> maxListBytes \<longrightarrow> list_outcome budget items (length (query # qs)) (snd ?next)"
          using qs(3) budget' unfolding list_outcome_def by (auto split: sum.splits)
        then show ?thesis
          unfolding eq using qs(1,2) log' 3(1) budget'(2) False by (intro exI [of _ "query # qs"]) auto
      qed
    qed
  qed
qed

section \<open>What an action sends\<close>

definition sends :: "(kube_request \<Rightarrow> bool) \<Rightarrow> 'a kube \<Rightarrow> bool" where
  "sends ok m \<longleftrightarrow> (\<forall>log. \<exists>rs. fst (m log) = log @ rs \<and> list_all ok rs)"

lemma sendsD: "sends ok m \<Longrightarrow> m log = (log', r) \<Longrightarrow> \<exists>rs. log' = log @ rs \<and> list_all ok rs"
  unfolding sends_def by (metis fst_conv)

lemma sends_return: "sends ok (kreturn x)"
  by (simp add: sends_def kreturn_def)

lemma sends_fail: "sends ok (kfail e)"
  by (simp add: sends_def kfail_def)

lemma sends_result: "sends ok (kresult r)"
  by (simp add: sends_def kresult_def)

lemma sends_decoded: "sends ok (kdecoded e v)"
  by (simp add: kdecoded_def sends_return sends_fail split: option.split)

lemma sends_guard: "sends ok m \<Longrightarrow> sends ok (kguard e m)"
  by (simp add: kguard_def sends_fail split: option.split)

lemma sends_if: "sends ok m \<Longrightarrow> sends ok n \<Longrightarrow> sends ok (if b then m else n)"
  by simp

lemma sends_then:
  assumes "sends ok m" and "\<And>x. sends ok (f x)"
  shows "sends ok (kthen m f)"
  unfolding sends_def
proof
  fix log
  obtain log' r where m: "m log = (log', r)" by fastforce
  with assms(1) obtain rs where rs: "log' = log @ rs" "list_all ok rs" using sendsD by blast
  show "\<exists>rs. fst (kthen m f log) = log @ rs \<and> list_all ok rs"
  proof (cases r)
    case (Inl e)
    then show ?thesis using m rs by (simp add: kthen_def)
  next
    case (Inr x)
    obtain log'' r' where f: "f x log' = (log'', r')" by fastforce
    then obtain ts where "log'' = log' @ ts" "list_all ok ts" using assms(2) sendsD by blast
    then show ?thesis using m Inr f rs by (auto simp: kthen_def)
  qed
qed

lemma sends_case_prod: "(\<And>x y. sends ok (f x y)) \<Longrightarrow> sends ok (case p of (x, y) \<Rightarrow> f x y)"
  by (cases p) simp

lemma sends_request:
  "ok (new_request c method path query accept contentType body) \<Longrightarrow>
   sends ok (requestPayload c method path query accept contentType body maxBytes cutoff)"
  by (simp add: sends_def requestPayload_def Let_def split: option.split)

lemmas sends_rules = sends_return sends_fail sends_result sends_decoded sends_guard sends_if sends_then
  sends_case_prod

text \<open>
  How many requests an action sends at most, and what it returns when it succeeds; an action that
  fails returns nothing.
\<close>

definition at_most :: "nat \<Rightarrow> 'a kube \<Rightarrow> bool" where
  "at_most n m \<longleftrightarrow> (\<forall>log. length (fst (m log)) \<le> length log + n)"

definition yields :: "('a \<Rightarrow> bool) \<Rightarrow> 'a kube \<Rightarrow> bool" where
  "yields P m \<longleftrightarrow> (\<forall>log x. snd (m log) = Inr x \<longrightarrow> P x)"

lemma at_most_return: "at_most n (kreturn x)"
  by (simp add: at_most_def kreturn_def)

lemma at_most_fail: "at_most n (kfail e)"
  by (simp add: at_most_def kfail_def)

lemma at_most_result: "at_most n (kresult r)"
  by (simp add: at_most_def kresult_def)

lemma at_most_decoded: "at_most n (kdecoded e v)"
  by (simp add: kdecoded_def at_most_return at_most_fail split: option.split)

lemma at_most_guard: "at_most n m \<Longrightarrow> at_most n (kguard e m)"
  by (simp add: kguard_def at_most_fail split: option.split)

lemma at_most_if: "at_most n l \<Longrightarrow> at_most n r \<Longrightarrow> at_most n (if b then l else r)"
  by simp

lemma at_most_case_prod: "(\<And>x y. at_most n (f x y)) \<Longrightarrow> at_most n (case p of (x, y) \<Rightarrow> f x y)"
  by (cases p) simp

lemma at_most_then:
  assumes "at_most a m" and "\<And>x. at_most b (f x)" and "a + b \<le> n"
  shows "at_most n (kthen m f)"
  unfolding at_most_def
proof
  fix log
  obtain log' r where m: "m log = (log', r)" by fastforce
  then have len: "length log' \<le> length log + a" using assms(1) unfolding at_most_def by (metis fst_conv)
  show "length (fst (kthen m f log)) \<le> length log + n"
  proof (cases r)
    case (Inl e)
    then show ?thesis using m len assms(3) by (simp add: kthen_def)
  next
    case (Inr x)
    have "length (fst (f x log')) \<le> length log' + b" using assms(2) unfolding at_most_def by blast
    then show ?thesis using Inr m len assms(3) by (simp add: kthen_def)
  qed
qed

lemma at_most_getPayload: "at_most (Suc 0) (getPayload c path query accept maxBytes cutoff)"
  by (simp add: at_most_def getPayload_def requestPayload_def Let_def split: option.split)

lemma yields_return: "P x \<Longrightarrow> yields P (kreturn x)"
  by (simp add: yields_def kreturn_def)

lemma yields_fail: "yields P (kfail e)"
  by (simp add: yields_def kfail_def)

lemma yields_result: "(\<And>x. r = Inr x \<Longrightarrow> P x) \<Longrightarrow> yields P (kresult r)"
  by (simp add: yields_def kresult_def)

lemma yields_decoded: "(\<And>x. v = Some x \<Longrightarrow> P x) \<Longrightarrow> yields P (kdecoded e v)"
  by (simp add: kdecoded_def yields_return yields_fail split: option.split)

lemma yields_guard: "(e = None \<Longrightarrow> yields P m) \<Longrightarrow> yields P (kguard e m)"
  by (simp add: kguard_def yields_fail split: option.split)

lemma yields_if: "(b \<Longrightarrow> yields P l) \<Longrightarrow> (\<not> b \<Longrightarrow> yields P r) \<Longrightarrow> yields P (if b then l else r)"
  by simp

lemma yields_case_prod: "(\<And>x y. p = (x, y) \<Longrightarrow> yields P (f x y)) \<Longrightarrow> yields P (case p of (x, y) \<Rightarrow> f x y)"
  by (cases p) simp

lemma yields_any: "yields (\<lambda>x. True) m"
  by (simp add: yields_def)

lemma yields_then:
  assumes "yields Q m" and "\<And>x. Q x \<Longrightarrow> yields P (f x)"
  shows "yields P (kthen m f)"
  unfolding yields_def
proof (intro allI impI)
  fix log y
  assume run: "snd (kthen m f log) = Inr y"
  obtain log' r where m: "m log = (log', r)" by fastforce
  with run obtain x where x: "r = Inr x" by (cases r) (auto simp: kthen_def)
  then have "Q x" using assms(1) m unfolding yields_def by (metis snd_conv)
  moreover have "snd (f x log') = Inr y" using run m x by (simp add: kthen_def)
  ultimately show "P y" using assms(2) unfolding yields_def by blast
qed

lemmas at_most_rules = at_most_return at_most_fail at_most_result at_most_decoded at_most_guard at_most_if
  at_most_case_prod

lemmas yields_rules = yields_return yields_fail yields_guard yields_if yields_case_prod

text \<open>
  A policy that admits every plain GET of a client admits everything that the client's reads send.
\<close>

locale read_policy =
  fixes c :: Client and ok :: "kube_request \<Rightarrow> bool"
  assumes get_ok: "ok (new_request c ''GET'' path query accept [] [])"
begin

lemma sends_getPayload: "sends ok (getPayload c path query accept maxBytes cutoff)"
  unfolding getPayload_def by (rule sends_request) (rule get_ok)

lemma sends_getJSON: "sends ok (getJSON c path query decode)"
  unfolding getJSON_def by (intro sends_rules sends_getPayload)

lemma sends_list_loop: "sends ok (list_loop c path query items budget)"
proof -
  have "\<exists>rs. fst (list_loop c path query items budget log) = log @ rs \<and> list_all ok rs" for log
    using list_loop_run [of c path query items budget log] get_ok by (fastforce simp: list_all_iff)
  then show ?thesis by (simp add: sends_def)
qed

lemma sends_listRawWithBudget: "sends ok (listRawWithBudget c path query budget)"
  unfolding listRawWithBudget_def by (rule sends_list_loop)

lemma sends_listRaw: "sends ok (listRaw c path query)"
  unfolding listRaw_def by (intro sends_rules sends_listRawWithBudget)

end

end
