(* ===== verification/Kube_Objects.thy ===== *)
theory Kube_Objects
  imports Kube_Transport
begin

text \<open>
  The objects of the API server and their projections: the structs of
  \<^verbatim>\<open>internal/kubernetes/client.go\<close> that objects are decoded into and the structs of
  \<^verbatim>\<open>internal/domain/models.go\<close> that the client returns, with the reads of namespaces and nodes.
  Counts stay far below \<^verbatim>\<open>int32\<close>, because a response has at most 8 MiB.
\<close>

section \<open>Projections\<close>

record Namespace =
  nm_Name :: string
  nm_Status :: string
  nm_Labels :: "(string \<times> string) list"
  nm_Finalizers :: "string list"
  nm_CreatedAt :: gtime

record NodeResources =
  nr_CPU :: string
  nr_Memory :: string
  nr_Pods :: string
  nr_EphemeralStorage :: string

record Node =
  nd_Name :: string
  nd_Status :: string
  nd_Roles :: "string list"
  nd_Version :: string
  nd_InternalIP :: string
  nd_OSImage :: string
  nd_Architecture :: string
  nd_Capacity :: NodeResources
  nd_Allocatable :: NodeResources
  nd_Unschedulable :: bool
  nd_TaintCount :: nat
  nd_CreatedAt :: gtime

record NodeTaint =
  nt_Key :: string
  nt_Value :: string
  nt_Effect :: string
  nt_TimeAdded :: gtime

record NodeAddress =
  na_Type :: string
  na_Address :: string

record NodeCondition =
  nc_Type :: string
  nc_Status :: string
  nc_Reason :: string
  nc_Message :: string
  nc_LastHeartbeatTime :: gtime
  nc_LastTransitionTime :: gtime

record NodeSystemInfo =
  si_OSImage :: string
  si_KernelVersion :: string
  si_ContainerRuntimeVersion :: string
  si_KubeletVersion :: string
  si_OperatingSystem :: string
  si_Architecture :: string

record NodeDetail =
  ne_Node :: Node
  ne_UID :: string
  ne_ResourceVersion :: string
  ne_Labels :: "(string \<times> string) list"
  ne_Taints :: "NodeTaint list"
  ne_Addresses :: "NodeAddress list"
  ne_Conditions :: "NodeCondition list"
  ne_SystemInfo :: NodeSystemInfo

record Workload =
  wl_Kind :: string
  wl_Namespace :: string
  wl_Name :: string
  wl_Ready :: int
  wl_Desired :: int
  wl_Status :: string
  wl_Images :: "string list"
  wl_CreatedAt :: gtime

record WorkloadContainer =
  wk_Name :: string
  wk_Image :: string
  wk_Type :: string
  wk_Ready :: bool
  wk_RestartCount :: int
  wk_State :: string

record WorkloadCondition =
  wn_Type :: string
  wn_Status :: string
  wn_Reason :: string
  wn_Message :: string
  wn_LastTransitionTime :: gtime

record WorkloadDetail =
  wd_Workload :: Workload
  wd_UID :: string
  wd_ResourceVersion :: string
  wd_Labels :: "(string \<times> string) list"
  wd_Containers :: "WorkloadContainer list"
  wd_Conditions :: "WorkloadCondition list"
  wd_YAML :: string

record KubernetesEvent =
  kv_Namespace :: string
  kv_Name :: string
  kv_Type :: string
  kv_Reason :: string
  kv_Message :: string
  kv_MessageTruncated :: bool
  kv_Source :: string
  kv_ObjectKind :: string
  kv_ObjectName :: string
  kv_Count :: int
  kv_FirstSeen :: gtime
  kv_LastSeen :: gtime
  kv_CreatedAt :: gtime

record PodLogs =
  lg_Namespace :: string
  lg_Pod :: string
  lg_Container :: string
  lg_TailLines :: int
  lg_Previous :: bool
  lg_Timestamps :: bool
  lg_Truncated :: bool
  lg_Content :: string

record ClusterSummary =
  cs_Version :: string
  cs_NamespaceCount :: nat
  cs_NodeCount :: nat
  cs_ReadyNodeCount :: nat
  cs_WorkloadCount :: nat
  cs_ReadyWorkloads :: nat
  cs_UnhealthyPods :: nat

section \<open>Objects of the API server\<close>

record objectMetadata =
  om_Name :: string
  om_Namespace :: string
  om_UID :: string
  om_ResourceVersion :: string
  om_Labels :: "(string \<times> string) list"
  om_CreationTimestamp :: gtime

definition objectMetadata_of :: "fields \<Rightarrow> objectMetadata option" where
  "objectMetadata_of fs = do {
     name \<leftarrow> f_str ''name'' fs;
     namespace \<leftarrow> f_str ''namespace'' fs;
     uid \<leftarrow> f_str ''uid'' fs;
     version \<leftarrow> f_str ''resourceVersion'' fs;
     labels \<leftarrow> f_str_map ''labels'' fs;
     created \<leftarrow> f_time ''creationTimestamp'' fs;
     Some \<lparr>om_Name = name, om_Namespace = namespace, om_UID = uid, om_ResourceVersion = version,
           om_Labels = labels, om_CreationTimestamp = created\<rparr>
   }"

definition metadata_of :: "fields \<Rightarrow> objectMetadata option" where
  "metadata_of fs = do { m \<leftarrow> f_struct ''metadata'' fs; objectMetadata_of m }"

text \<open>The fields below a path of struct fields.\<close>

fun f_path :: "string list \<Rightarrow> fields \<Rightarrow> fields option" where
  "f_path [] fs = Some fs"
| "f_path (name # names) fs = do { g \<leftarrow> f_struct name fs; f_path names g }"

record containerSpec =
  sp_Name :: string
  sp_Image :: string

definition containerSpec_of :: "fields \<Rightarrow> containerSpec option" where
  "containerSpec_of fs = do {
     name \<leftarrow> f_str ''name'' fs;
     image \<leftarrow> f_str ''image'' fs;
     Some \<lparr>sp_Name = name, sp_Image = image\<rparr>
   }"

abbreviation f_containers :: "string \<Rightarrow> fields \<Rightarrow> containerSpec list option" where
  "f_containers \<equiv> f_structs containerSpec_of"

text \<open>The state of a container: the reasons of the pointers that are set.\<close>

record containerStatus =
  ct_Name :: string
  ct_Ready :: bool
  ct_RestartCount :: int
  ct_Waiting :: "string option"
  ct_Running :: bool
  ct_Terminated :: "string option"

definition reason_of :: "fields option \<Rightarrow> string option option" where
  "reason_of p = (case p of None \<Rightarrow> Some None | Some fs \<Rightarrow> map_option Some (f_str ''reason'' fs))"

definition containerStatus_of :: "fields \<Rightarrow> containerStatus option" where
  "containerStatus_of fs = do {
     name \<leftarrow> f_str ''name'' fs;
     ready \<leftarrow> f_bool ''ready'' fs;
     restarts \<leftarrow> f_int32 ''restartCount'' fs;
     state \<leftarrow> f_struct ''state'' fs;
     waiting \<leftarrow> f_struct_ptr ''waiting'' state \<bind> reason_of;
     running \<leftarrow> f_struct_ptr ''running'' state;
     terminated \<leftarrow> f_struct_ptr ''terminated'' state \<bind> reason_of;
     Some \<lparr>ct_Name = name, ct_Ready = ready, ct_RestartCount = restarts, ct_Waiting = waiting,
           ct_Running = (running \<noteq> None), ct_Terminated = terminated\<rparr>
   }"

definition workloadCondition_of :: "fields \<Rightarrow> WorkloadCondition option" where
  "workloadCondition_of fs = do {
     type \<leftarrow> f_str ''type'' fs;
     status \<leftarrow> f_str ''status'' fs;
     reason \<leftarrow> f_str ''reason'' fs;
     message \<leftarrow> f_str ''message'' fs;
     time \<leftarrow> f_time ''lastTransitionTime'' fs;
     Some \<lparr>wn_Type = type, wn_Status = status, wn_Reason = reason, wn_Message = message,
           wn_LastTransitionTime = time\<rparr>
   }"

definition json_error :: go_error where
  "json_error = NewError ''json: cannot unmarshal''"

section \<open>Namespaces\<close>

definition decodeNamespace :: "string \<Rightarrow> Namespace option" where
  "decodeNamespace item = do {
     fs \<leftarrow> Unmarshal_fields item;
     metadata \<leftarrow> metadata_of fs;
     finalizers \<leftarrow> f_struct ''spec'' fs \<bind> f_strs ''finalizers'';
     phase \<leftarrow> f_struct ''status'' fs \<bind> f_str ''phase'';
     Some \<lparr>nm_Name = om_Name metadata, nm_Status = phase, nm_Labels = om_Labels metadata,
           nm_Finalizers = finalizers, nm_CreatedAt = om_CreationTimestamp metadata\<rparr>
   }"

text \<open>The loops \<^verbatim>\<open>for _, item := range items\<close> that decode, and return the first error.\<close>

fun decode_all :: "('a \<Rightarrow> 'b result) \<Rightarrow> 'a list \<Rightarrow> 'b list result" where
  "decode_all decode [] = Inr []"
| "decode_all decode (item # items) =
     (case decode item of
        Inl e \<Rightarrow> Inl e
      | Inr x \<Rightarrow> (case decode_all decode items of Inl e \<Rightarrow> Inl e | Inr xs \<Rightarrow> Inr (x # xs)))"

definition or_error :: "go_error \<Rightarrow> 'a option \<Rightarrow> 'a result" where
  "or_error e v = (case v of None \<Rightarrow> Inl e | Some x \<Rightarrow> Inr x)"

definition kc_Namespaces :: "Client \<Rightarrow> Namespace list kube" where
  "kc_Namespaces c =
     kthen (listRaw c ''/api/v1/namespaces'' None) (\<lambda>items.
     kthen (kresult (decode_all (\<lambda>item. or_error (Wrapped ''decode namespace'' json_error) (decodeNamespace item)) items))
       (\<lambda>namespaces. kreturn (sort_slice (\<lambda>a b. nm_Name a < nm_Name b) namespaces)))"

section \<open>Nodes\<close>

record nodeResource =
  no_Metadata :: objectMetadata
  no_Unschedulable :: bool
  no_Taints :: "NodeTaint list"
  no_Capacity :: "(string \<times> string) list"
  no_Allocatable :: "(string \<times> string) list"
  no_Addresses :: "NodeAddress list"
  no_Conditions :: "NodeCondition list"
  no_NodeInfo :: NodeSystemInfo

definition nodeTaint_of :: "fields \<Rightarrow> NodeTaint option" where
  "nodeTaint_of fs = do {
     key \<leftarrow> f_str ''key'' fs;
     taint \<leftarrow> f_str ''value'' fs;
     effect \<leftarrow> f_str ''effect'' fs;
     added \<leftarrow> f_time ''timeAdded'' fs;
     Some \<lparr>nt_Key = key, nt_Value = taint, nt_Effect = effect, nt_TimeAdded = added\<rparr>
   }"

definition nodeAddress_of :: "fields \<Rightarrow> NodeAddress option" where
  "nodeAddress_of fs = do {
     type \<leftarrow> f_str ''type'' fs;
     address \<leftarrow> f_str ''address'' fs;
     Some \<lparr>na_Type = type, na_Address = address\<rparr>
   }"

definition nodeCondition_of :: "fields \<Rightarrow> NodeCondition option" where
  "nodeCondition_of fs = do {
     type \<leftarrow> f_str ''type'' fs;
     status \<leftarrow> f_str ''status'' fs;
     reason \<leftarrow> f_str ''reason'' fs;
     message \<leftarrow> f_str ''message'' fs;
     heartbeat \<leftarrow> f_time ''lastHeartbeatTime'' fs;
     transition \<leftarrow> f_time ''lastTransitionTime'' fs;
     Some \<lparr>nc_Type = type, nc_Status = status, nc_Reason = reason, nc_Message = message,
           nc_LastHeartbeatTime = heartbeat, nc_LastTransitionTime = transition\<rparr>
   }"

definition nodeSystemInfo_of :: "fields \<Rightarrow> NodeSystemInfo option" where
  "nodeSystemInfo_of fs = do {
     osImage \<leftarrow> f_str ''osImage'' fs;
     kernel \<leftarrow> f_str ''kernelVersion'' fs;
     container \<leftarrow> f_str ''containerRuntimeVersion'' fs;
     kubelet \<leftarrow> f_str ''kubeletVersion'' fs;
     operating \<leftarrow> f_str ''operatingSystem'' fs;
     architecture \<leftarrow> f_str ''architecture'' fs;
     Some \<lparr>si_OSImage = osImage, si_KernelVersion = kernel, si_ContainerRuntimeVersion = container,
           si_KubeletVersion = kubelet, si_OperatingSystem = operating, si_Architecture = architecture\<rparr>
   }"

definition nodeResource_of :: "fields \<Rightarrow> nodeResource option" where
  "nodeResource_of fs = do {
     metadata \<leftarrow> metadata_of fs;
     spec \<leftarrow> f_struct ''spec'' fs;
     unschedulable \<leftarrow> f_bool ''unschedulable'' spec;
     taints \<leftarrow> f_structs nodeTaint_of ''taints'' spec;
     status \<leftarrow> f_struct ''status'' fs;
     capacity \<leftarrow> f_str_map ''capacity'' status;
     allocatable \<leftarrow> f_str_map ''allocatable'' status;
     addresses \<leftarrow> f_structs nodeAddress_of ''addresses'' status;
     conditions \<leftarrow> f_structs nodeCondition_of ''conditions'' status;
     nodeInfo \<leftarrow> f_struct ''nodeInfo'' status \<bind> nodeSystemInfo_of;
     Some \<lparr>no_Metadata = metadata, no_Unschedulable = unschedulable, no_Taints = taints,
           no_Capacity = capacity, no_Allocatable = allocatable, no_Addresses = addresses,
           no_Conditions = conditions, no_NodeInfo = nodeInfo\<rparr>
   }"

fun nodeReadyStatus :: "NodeCondition list \<Rightarrow> string" where
  "nodeReadyStatus [] = ''Unknown''"
| "nodeReadyStatus (condition # conditions) =
     (if nc_Type condition \<noteq> ''Ready'' then nodeReadyStatus conditions
      else if nc_Status condition = ''True'' then ''Ready''
      else if nc_Status condition = ''False'' then ''NotReady''
      else ''Unknown'')"

definition rolePrefix :: string where
  "rolePrefix = ''node-role.kubernetes.io/''"

definition label_role :: "string \<times> string \<Rightarrow> string" where
  "label_role = (\<lambda>(key, label).
     if has_prefix key rolePrefix
     then let role = drop (length rolePrefix) key in if role = [] then label else role
     else if key = ''kubernetes.io/role'' then label else [])"

definition nodeRoles :: "(string \<times> string) list \<Rightarrow> string list" where
  "nodeRoles labels = sort_slice (<) (remdups (filter (\<lambda>role. role \<noteq> []) (map label_role labels)))"

fun nodeInternalIP :: "NodeAddress list \<Rightarrow> string" where
  "nodeInternalIP [] = []"
| "nodeInternalIP (address # addresses) =
     (if na_Type address = ''InternalIP'' then na_Address address else nodeInternalIP addresses)"

definition map_get :: "string \<Rightarrow> (string \<times> string) list \<Rightarrow> string" where
  "map_get k m = (case map_of m k of None \<Rightarrow> [] | Some v \<Rightarrow> v)"

definition decodeNodeResources :: "(string \<times> string) list \<Rightarrow> NodeResources" where
  "decodeNodeResources resources =
     \<lparr>nr_CPU = map_get ''cpu'' resources, nr_Memory = map_get ''memory'' resources,
      nr_Pods = map_get ''pods'' resources, nr_EphemeralStorage = map_get ''ephemeral-storage'' resources\<rparr>"

definition decodeNode :: "string \<Rightarrow> (Node \<times> nodeResource) result" where
  "decodeNode item =
     (case Unmarshal_fields item \<bind> nodeResource_of of
        None \<Rightarrow> Inl (kube_upstream ''decode Kubernetes node'')
      | Some r \<Rightarrow>
          Inr (\<lparr>nd_Name = om_Name (no_Metadata r), nd_Status = nodeReadyStatus (no_Conditions r),
                nd_Roles = nodeRoles (om_Labels (no_Metadata r)),
                nd_Version = si_KubeletVersion (no_NodeInfo r),
                nd_InternalIP = nodeInternalIP (no_Addresses r), nd_OSImage = si_OSImage (no_NodeInfo r),
                nd_Architecture = si_Architecture (no_NodeInfo r),
                nd_Capacity = decodeNodeResources (no_Capacity r),
                nd_Allocatable = decodeNodeResources (no_Allocatable r),
                nd_Unschedulable = no_Unschedulable r, nd_TaintCount = length (no_Taints r),
                nd_CreatedAt = om_CreationTimestamp (no_Metadata r)\<rparr>, r))"

definition kc_Nodes :: "Client \<Rightarrow> Node list kube" where
  "kc_Nodes c =
     kthen (listRaw c ''/api/v1/nodes'' None) (\<lambda>items.
     kthen (kresult (decode_all decodeNode items)) (\<lambda>nodes.
     kreturn (sort_slice (\<lambda>a b. nd_Name a < nd_Name b) (map fst nodes))))"

text \<open>\<^verbatim>\<open>json.Unmarshal\<close> into \<^verbatim>\<open>json.RawMessage\<close>: the text of the value itself.\<close>

definition raw_message :: "string \<Rightarrow> string option" where
  "raw_message s = do {
     _ \<leftarrow> Unmarshal_value s;
     (v, rest) \<leftarrow> parse_value (Suc (length s)) (skip_space s);
     Some (raw_of (skip_space s) rest)
   }"

definition kc_NodeDetail :: "Client \<Rightarrow> string \<Rightarrow> NodeDetail kube" where
  "kc_NodeDetail c name =
     kguard (ValidateNodeName name)
     (kthen (getJSON c (''/api/v1/nodes/'' @ name) None raw_message) (\<lambda>raw.
      kthen (kresult (decodeNode raw)) (\<lambda>(node, r).
      kreturn \<lparr>ne_Node = node, ne_UID = om_UID (no_Metadata r),
               ne_ResourceVersion = om_ResourceVersion (no_Metadata r),
               ne_Labels = om_Labels (no_Metadata r), ne_Taints = no_Taints r,
               ne_Addresses = no_Addresses r, ne_Conditions = no_Conditions r,
               ne_SystemInfo = no_NodeInfo r\<rparr>)))"

end
