(* ===== verification/Kube_Workloads.thy ===== *)
theory Kube_Workloads
  imports Kube_Objects
begin

text \<open>
  Workloads, events, logs and patches of \<^verbatim>\<open>internal/kubernetes/client.go\<close>,
  \<^verbatim>\<open>batch.go\<close> and \<^verbatim>\<open>events.go\<close>, with the sanitized YAML of a workload. The YAML encoder is a
  parameter; it gets the sanitized tree.
\<close>

section \<open>Decoding workloads\<close>

definition images_of :: "containerSpec list \<Rightarrow> string list" where
  "images_of containers = map sp_Image containers"

definition decodePod :: "string \<Rightarrow> Workload result" where
  "decodePod item =
     or_error (Wrapped ''decode Kubernetes pod'' json_error) (do {
       fs \<leftarrow> Unmarshal_fields item;
       metadata \<leftarrow> metadata_of fs;
       containers \<leftarrow> f_struct ''spec'' fs \<bind> f_containers ''containers'';
       status \<leftarrow> f_struct ''status'' fs;
       phase \<leftarrow> f_str ''phase'' status;
       readies \<leftarrow> f_structs (f_bool ''ready'') ''containerStatuses'' status;
       let ready = int (length (filter id readies)); desired = int (length containers) in
       Some \<lparr>wl_Kind = ''Pod'', wl_Namespace = om_Namespace metadata, wl_Name = om_Name metadata,
             wl_Ready = ready, wl_Desired = desired,
             wl_Status = (if phase = ''Running'' \<and> ready = desired then ''Ready'' else phase),
             wl_Images = images_of containers, wl_CreatedAt = om_CreationTimestamp metadata\<rparr>
     })"

fun condition_status :: "WorkloadCondition list \<Rightarrow> string option" where
  "condition_status [] = None"
| "condition_status (condition # conditions) =
     (if wn_Status condition \<noteq> ''True'' then condition_status conditions
      else if wn_Type condition = ''Complete'' then Some ''Succeeded''
      else if wn_Type condition = ''Failed'' then Some ''Failed''
      else if wn_Type condition = ''Suspended'' then Some ''Suspended''
      else condition_status conditions)"

definition jobStatus :: "bool \<Rightarrow> int \<Rightarrow> int \<Rightarrow> int \<Rightarrow> int \<Rightarrow> WorkloadCondition list \<Rightarrow> string" where
  "jobStatus suspended active succeeded failures desired conditions =
     (case condition_status conditions of
        Some status \<Rightarrow> status
      | None \<Rightarrow>
          if suspended then ''Suspended''
          else if active > 0 then ''Running''
          else if desired > 0 \<and> succeeded \<ge> desired then ''Succeeded''
          else if failures > 0 then ''Retrying''
          else ''Pending'')"

definition decodeJob :: "string \<Rightarrow> Workload result" where
  "decodeJob item =
     or_error (kube_upstream ''decode Kubernetes Job'') (do {
       fs \<leftarrow> Unmarshal_fields item;
       metadata \<leftarrow> metadata_of fs;
       spec \<leftarrow> f_struct ''spec'' fs;
       completions \<leftarrow> f_int32_ptr ''completions'' spec;
       suspend \<leftarrow> f_bool ''suspend'' spec;
       containers \<leftarrow> f_path [''template'', ''spec''] spec \<bind> f_containers ''containers'';
       status \<leftarrow> f_struct ''status'' fs;
       active \<leftarrow> f_int32 ''active'' status;
       succeeded \<leftarrow> f_int32 ''succeeded'' status;
       failures \<leftarrow> f_int32 ''failed'' status;
       conditions \<leftarrow> f_structs workloadCondition_of ''conditions'' status;
       let desired = (case completions of None \<Rightarrow> 1 | Some n \<Rightarrow> n) in
       Some \<lparr>wl_Kind = ''Job'', wl_Namespace = om_Namespace metadata, wl_Name = om_Name metadata,
             wl_Ready = succeeded, wl_Desired = desired,
             wl_Status = jobStatus suspend active succeeded failures desired conditions,
             wl_Images = images_of containers, wl_CreatedAt = om_CreationTimestamp metadata\<rparr>
     })"

definition decodeCronJob :: "string \<Rightarrow> Workload result" where
  "decodeCronJob item =
     or_error (kube_upstream ''decode Kubernetes CronJob'') (do {
       fs \<leftarrow> Unmarshal_fields item;
       metadata \<leftarrow> metadata_of fs;
       spec \<leftarrow> f_struct ''spec'' fs;
       suspend \<leftarrow> f_bool ''suspend'' spec;
       containers \<leftarrow> f_path [''jobTemplate'', ''spec'', ''template'', ''spec''] spec \<bind> f_containers ''containers'';
       status \<leftarrow> f_struct ''status'' fs;
       actives \<leftarrow> f_structs (\<lambda>_. Some ()) ''active'' status;
       scheduled \<leftarrow> f_time ''lastScheduleTime'' status;
       let active = int (length actives) in
       Some \<lparr>wl_Kind = ''CronJob'', wl_Namespace = om_Namespace metadata, wl_Name = om_Name metadata,
             wl_Ready = active, wl_Desired = active,
             wl_Status = (if suspend then ''Suspended'' else if active > 0 then ''Running''
                          else if scheduled \<noteq> zero_time then ''Scheduled'' else ''Pending''),
             wl_Images = images_of containers, wl_CreatedAt = om_CreationTimestamp metadata\<rparr>
     })"

definition replicaStatus :: "int \<Rightarrow> int \<Rightarrow> string" where
  "replicaStatus ready desired =
     (if desired = ready then ''Ready'' else if ready > 0 then ''Progressing'' else ''Unavailable'')"

definition decodeReplicated :: "string \<Rightarrow> string \<Rightarrow> Workload result" where
  "decodeReplicated kind item =
     or_error (Wrapped ''decode Kubernetes workload'' json_error) (do {
       fs \<leftarrow> Unmarshal_fields item;
       metadata \<leftarrow> metadata_of fs;
       spec \<leftarrow> f_struct ''spec'' fs;
       replicas \<leftarrow> f_int32_ptr ''replicas'' spec;
       containers \<leftarrow> f_path [''template'', ''spec''] spec \<bind> f_containers ''containers'';
       status \<leftarrow> f_struct ''status'' fs;
       readyReplicas \<leftarrow> f_int32 ''readyReplicas'' status;
       availableReplicas \<leftarrow> f_int32 ''availableReplicas'' status;
       scheduled \<leftarrow> f_int32 ''desiredNumberScheduled'' status;
       numberReady \<leftarrow> f_int32 ''numberReady'' status;
       let daemon = (kind = ''daemonset'');
           desired = (if daemon then scheduled else case replicas of None \<Rightarrow> 1 | Some n \<Rightarrow> n);
           ready = (if daemon then numberReady else readyReplicas) in
       Some \<lparr>wl_Kind = (if daemon then ''DaemonSet'' else if kind = ''statefulset'' then ''StatefulSet'' else ''Deployment''),
             wl_Namespace = om_Namespace metadata, wl_Name = om_Name metadata, wl_Ready = ready, wl_Desired = desired,
             wl_Status = replicaStatus ready desired, wl_Images = images_of containers,
             wl_CreatedAt = om_CreationTimestamp metadata\<rparr>
     })"

definition decodeWorkload :: "string \<Rightarrow> string \<Rightarrow> Workload result" where
  "decodeWorkload kind item =
     (if kind = ''pod'' then decodePod item
      else if kind = ''job'' then decodeJob item
      else if kind = ''cronjob'' then decodeCronJob item
      else decodeReplicated kind item)"

section \<open>Listing workloads\<close>

definition workloadPaths :: "string \<Rightarrow> string \<Rightarrow> string" where
  "workloadPaths namespace kind =
     (let place = (if namespace = [] then ''/'' else ''/namespaces/'' @ PathEscape namespace @ ''/'') in
      if kind = ''deployment'' then ''/apis/apps/v1'' @ place @ ''deployments''
      else if kind = ''statefulset'' then ''/apis/apps/v1'' @ place @ ''statefulsets''
      else if kind = ''daemonset'' then ''/apis/apps/v1'' @ place @ ''daemonsets''
      else if kind = ''job'' then ''/apis/batch/v1'' @ place @ ''jobs''
      else if kind = ''cronjob'' then ''/apis/batch/v1'' @ place @ ''cronjobs''
      else if kind = ''pod'' then ''/api/v1'' @ place @ ''pods''
      else [])"

definition workloadKinds :: "string list" where
  "workloadKinds = [''deployment'', ''statefulset'', ''daemonset'', ''job'', ''cronjob'', ''pod'']"

fun workloads_loop :: "Client \<Rightarrow> string \<Rightarrow> string \<Rightarrow> string list \<Rightarrow> listBudget \<Rightarrow> Workload list kube" where
  "workloads_loop c namespace kind [] budget = kreturn []"
| "workloads_loop c namespace kind (resourceKind # kinds) budget =
     (if kind \<noteq> [] \<and> kind \<noteq> resourceKind then workloads_loop c namespace kind kinds budget
      else
        kthen (listRawWithBudget c (workloadPaths namespace resourceKind) None budget) (\<lambda>(items, budget).
        kthen (kresult (decode_all (decodeWorkload resourceKind) items)) (\<lambda>workloads.
        kthen (workloads_loop c namespace kind kinds budget) (\<lambda>rest.
        kreturn (workloads @ rest)))))"

definition workload_before :: "Workload \<Rightarrow> Workload \<Rightarrow> bool" where
  "workload_before a b \<longleftrightarrow>
     (if wl_Namespace a \<noteq> wl_Namespace b then wl_Namespace a < wl_Namespace b
      else if wl_Kind a \<noteq> wl_Kind b then wl_Kind a < wl_Kind b
      else wl_Name a < wl_Name b)"

definition kc_Workloads :: "Client \<Rightarrow> string \<Rightarrow> string \<Rightarrow> Workload list kube" where
  "kc_Workloads c namespace kind =
     (let kind = to_lower (trim_space kind) in
      kguard (ValidateWorkloadList namespace kind)
      (kthen (workloads_loop c namespace kind workloadKinds newListBudget) (\<lambda>workloads.
       kreturn (sort_slice workload_before workloads))))"

section \<open>Summary\<close>

definition probeResources :: "Client \<Rightarrow> (ClusterProbe \<times> Node list) kube" where
  "probeResources c =
     kthen (getJSON c ''/version'' None (\<lambda>payload. Unmarshal_fields payload \<bind> f_str ''gitVersion'')) (\<lambda>version.
     kthen (kc_Namespaces c) (\<lambda>namespaces.
     kthen (kc_Nodes c) (\<lambda>nodes.
     kreturn (\<lparr>pb_Version = version, pb_NamespaceCount = int (length namespaces), pb_NodeCount = int (length nodes)\<rparr>, nodes))))"

definition kc_Probe :: "Client \<Rightarrow> ClusterProbe kube" where
  "kc_Probe c = kthen (probeResources c) (\<lambda>(probe, nodes). kreturn probe)"

fun count_workload :: "Workload \<Rightarrow> ClusterSummary \<Rightarrow> ClusterSummary" where
  "count_workload workload summary =
     (if wl_Kind workload = ''Pod''
      then if wl_Status workload \<noteq> ''Ready'' \<and> wl_Status workload \<noteq> ''Succeeded''
           then summary\<lparr>cs_UnhealthyPods := cs_UnhealthyPods summary + 1\<rparr> else summary
      else let summary = summary\<lparr>cs_WorkloadCount := cs_WorkloadCount summary + 1\<rparr> in
           if wl_Ready workload = wl_Desired workload
           then summary\<lparr>cs_ReadyWorkloads := cs_ReadyWorkloads summary + 1\<rparr> else summary)"

definition kc_Summary :: "Client \<Rightarrow> ClusterSummary kube" where
  "kc_Summary c =
     kthen (probeResources c) (\<lambda>(probe, nodes).
     kthen (kc_Workloads c [] []) (\<lambda>workloads.
     kreturn (fold count_workload workloads
       \<lparr>cs_Version = pb_Version probe, cs_NamespaceCount = nat (pb_NamespaceCount probe),
        cs_NodeCount = nat (pb_NodeCount probe),
        cs_ReadyNodeCount = length (filter (\<lambda>node. nd_Status node = ''Ready'') nodes),
        cs_WorkloadCount = 0, cs_ReadyWorkloads = 0, cs_UnhealthyPods = 0\<rparr>)))"

end
