(* ===== verification/Kube_Sanitize.thy ===== *)
theory Kube_Sanitize
  imports Kube_Transport
begin

text \<open>
  The sanitized workload of \<^verbatim>\<open>internal/kubernetes/client.go\<close>: what \<^verbatim>\<open>sanitizedWorkloadYAML\<close>
  removes and redacts before the object is encoded as YAML for the user. The tree is the one that
  \<^verbatim>\<open>json.Unmarshal\<close> builds in a \<^verbatim>\<open>map[string]any\<close>: of members with the same key the last
  stays. A number stands for its \<^verbatim>\<open>float64\<close>.
\<close>

section \<open>Trees\<close>

fun to_any :: "json \<Rightarrow> json" where
  "to_any (JArr vs) = JArr (map to_any vs)"
| "to_any (JObj kvs) = JObj (fold (\<lambda>(k, v). AList.update k v) (map (\<lambda>(k, v). (k, to_any v)) kvs) [])"
| "to_any v = v"

text \<open>A change to the member of a map, if the value is a map and has it.\<close>

definition obj_update :: "string \<Rightarrow> (json \<Rightarrow> json) \<Rightarrow> json \<Rightarrow> json" where
  "obj_update k f v =
     (case v of JObj kvs \<Rightarrow> JObj (map (\<lambda>(k', v'). (k', if k' = k then f v' else v')) kvs) | _ \<Rightarrow> v)"

definition obj_delete :: "string list \<Rightarrow> json \<Rightarrow> json" where
  "obj_delete ks v = (case v of JObj kvs \<Rightarrow> JObj (filter (\<lambda>(k, v'). k \<notin> set ks) kvs) | _ \<Rightarrow> v)"

definition arr_map :: "(json \<Rightarrow> json) \<Rightarrow> json \<Rightarrow> json" where
  "arr_map f v = (case v of JArr vs \<Rightarrow> JArr (map f vs) | _ \<Rightarrow> v)"

section \<open>Redaction\<close>

definition redacted :: json where
  "redacted = JStr ''<redacted>''"

definition containerKeys :: "string list" where
  "containerKeys = [''containers'', ''initContainers'', ''ephemeralContainers'']"

definition redactContainer :: "json \<Rightarrow> json" where
  "redactContainer = obj_update ''env'' (arr_map (obj_update ''value'' (\<lambda>_. redacted)))"

definition redactSpecEnvironment :: "json \<Rightarrow> json" where
  "redactSpecEnvironment spec = fold (\<lambda>k. obj_update k (arr_map redactContainer)) containerKeys spec"

definition redactContainerEnvironment :: "json \<Rightarrow> json" where
  "redactContainerEnvironment object =
     obj_update ''spec'' (\<lambda>spec.
       (let spec = redactSpecEnvironment spec;
            spec = obj_update ''template'' (obj_update ''spec'' redactSpecEnvironment) spec
        in obj_update ''jobTemplate'' (obj_update ''spec'' (obj_update ''template'' (obj_update ''spec''
             redactSpecEnvironment))) spec)) object"

definition normalized_key :: "string \<Rightarrow> string" where
  "normalized_key key = to_lower (filter (\<lambda>c. c \<noteq> CHR ''-'' \<and> c \<noteq> CHR ''_'') key)"

definition sensitive :: "string list" where
  "sensitive = [''apikey'', ''authorization'', ''clientsecret'', ''credentials'', ''password'', ''passwd'',
     ''privatekey'', ''token'']"

definition sensitiveSequences :: "string list" where
  "sensitiveSequences = [''args'', ''command'']"

fun redactSensitiveFields :: "json \<Rightarrow> json" where
  "redactSensitiveFields (JObj kvs) =
     JObj (map (\<lambda>(key, child).
       (key, if normalized_key key \<in> set sensitiveSequences then JArr [redacted]
             else if normalized_key key \<in> set sensitive then redacted
             else redactSensitiveFields child)) kvs)"
| "redactSensitiveFields (JArr vs) = JArr (map redactSensitiveFields vs)"
| "redactSensitiveFields v = v"

definition hiddenMetadata :: "string list" where
  "hiddenMetadata = [''annotations'', ''creationTimestamp'', ''generation'', ''managedFields'',
     ''resourceVersion'', ''selfLink'', ''uid'']"

definition sanitize_object :: "json \<Rightarrow> json" where
  "sanitize_object object =
     redactSensitiveFields (redactContainerEnvironment
       (obj_update ''metadata'' (obj_delete hiddenMetadata) (obj_delete [''status''] object)))"

definition sanitizedWorkloadYAML :: "(json \<Rightarrow> string result) \<Rightarrow> string \<Rightarrow> string result" where
  "sanitizedWorkloadYAML yaml raw =
     (case Unmarshal_value raw of
        Some (JObj kvs) \<Rightarrow>
          (case yaml (sanitize_object (to_any (JObj kvs))) of
             Inl e \<Rightarrow> Inl (Wrapped ''encode workload YAML'' e) | Inr text \<Rightarrow> Inr text)
      | Some JNull \<Rightarrow>
          (case yaml (sanitize_object (JObj [])) of
             Inl e \<Rightarrow> Inl (Wrapped ''encode workload YAML'' e) | Inr text \<Rightarrow> Inr text)
      | _ \<Rightarrow> Inl (kube_upstream ''decode workload for YAML''))"

section \<open>Places in a tree\<close>

datatype place = Key string | Each

fun follow :: "place list \<Rightarrow> json \<Rightarrow> json list" where
  "follow [] v = [v]"
| "follow (Key k # p) v =
     (case v of JObj kvs \<Rightarrow> concat (map (\<lambda>(k', v'). if k' = k then follow p v' else []) kvs) | _ \<Rightarrow> [])"
| "follow (Each # p) v = (case v of JArr vs \<Rightarrow> concat (map (follow p) vs) | _ \<Rightarrow> [])"

fun json_nodes :: "json \<Rightarrow> json list" where
  "json_nodes (JObj kvs) = JObj kvs # concat (map (\<lambda>(k, v). json_nodes v) kvs)"
| "json_nodes (JArr vs) = JArr vs # concat (map json_nodes vs)"
| "json_nodes v = [v]"

definition everywhere :: "place list \<Rightarrow> (json \<Rightarrow> bool) \<Rightarrow> json \<Rightarrow> bool" where
  "everywhere p P v \<longleftrightarrow> list_all P (follow p v)"

lemma everywhere_here [simp]: "everywhere [] P v = P v"
  by (simp add: everywhere_def)

lemma everywhere_same: "(\<And>w. everywhere p P (f w)) \<Longrightarrow> everywhere (Key k # p) P (obj_update k f v)"
  by (auto simp: everywhere_def obj_update_def list_all_iff split: json.split)

lemma everywhere_other:
  assumes "k \<noteq> k'"
  shows "everywhere (Key k' # p) P (obj_update k f v) = everywhere (Key k' # p) P v"
proof -
  have "follow (Key k' # p) (obj_update k f v) = follow (Key k' # p) v"
    using assms
    by (cases v) (auto simp: obj_update_def comp_def case_prod_beta intro!: arg_cong [where f = concat])
  then show ?thesis by (simp only: everywhere_def)
qed

lemma everywhere_each: "(\<And>w. everywhere p P (f w)) \<Longrightarrow> everywhere (Each # p) P (arr_map f v)"
  by (auto simp: everywhere_def arr_map_def list_all_iff split: json.split)

lemma everywhere_deleted: "k \<in> set ks \<Longrightarrow> everywhere (Key k # p) P (obj_delete ks v)"
  by (auto simp: everywhere_def obj_delete_def list_all_iff split: json.split)

lemma everywhere_not_deleted:
  "k \<notin> set ks \<Longrightarrow> everywhere (Key k # p) P (obj_delete ks v) = everywhere (Key k # p) P v"
  by (auto simp: everywhere_def obj_delete_def list_all_iff split: json.split)

text \<open>Keys that redaction passes through.\<close>

definition harmless :: "string \<Rightarrow> bool" where
  "harmless k \<longleftrightarrow> normalized_key k \<notin> set sensitiveSequences \<and> normalized_key k \<notin> set sensitive"

lemma follow_redact:
  assumes "\<And>k. Key k \<in> set p \<Longrightarrow> harmless k"
  shows "follow p (redactSensitiveFields v) = map redactSensitiveFields (follow p v)"
  using assms
proof (induction p v rule: follow.induct)
  case (2 k p v)
  then show ?case
    by (cases v) (auto simp: harmless_def map_concat comp_def case_prod_beta intro!: arg_cong [where f = concat])
next
  case (3 p v)
  then show ?case
    by (cases v) (auto simp: map_concat comp_def intro!: arg_cong [where f = concat])
qed simp

lemma everywhere_redact:
  assumes "everywhere p P v" and "\<And>k. Key k \<in> set p \<Longrightarrow> harmless k" and "\<And>w. P w \<Longrightarrow> P (redactSensitiveFields w)"
  shows "everywhere p P (redactSensitiveFields v)"
  using assms(1,3) by (simp add: everywhere_def follow_redact [OF assms(2)] list_all_iff)

lemma json_nodes_redact:
  assumes "JObj kvs \<in> set (json_nodes (redactSensitiveFields v))" and "(k, w) \<in> set kvs"
  shows "(normalized_key k \<in> set sensitive \<longrightarrow> w = redacted)
    \<and> (normalized_key k \<in> set sensitiveSequences \<longrightarrow> w = JArr [redacted])"
  using assms
proof (induction v)
  case (JArr vs)
  then show ?case by auto
next
  case (JObj ms)
  have disjoint: "normalized_key k \<in> set sensitive \<Longrightarrow> normalized_key k \<notin> set sensitiveSequences"
    by (auto simp: sensitive_def sensitiveSequences_def)
  show ?case
  proof (cases "JObj kvs = redactSensitiveFields (JObj ms)")
    case True
    then show ?thesis using JObj.prems(2) disjoint by auto
  next
    case False
    then obtain key child where "(key, child) \<in> set ms" "JObj kvs \<in> set (json_nodes (redactSensitiveFields child))"
      using JObj.prems(1) by (auto simp: redacted_def split: if_splits)
    then show ?thesis using JObj.IH [of "(key, child)" child] JObj.prems(2) by simp
  qed
qed auto

section \<open>Properties\<close>

text \<open>Where the values of container environments are.\<close>

definition env_values :: "string \<Rightarrow> place list" where
  "env_values k = [Key k, Each, Key ''env'', Each, Key ''value'']"

definition spec_places :: "place list list" where
  "spec_places = [[Key ''spec''], [Key ''spec'', Key ''template'', Key ''spec''],
     [Key ''spec'', Key ''jobTemplate'', Key ''spec'', Key ''template'', Key ''spec'']]"

lemma normalized_keys:
  "harmless ''spec''" "harmless ''template''" "harmless ''jobTemplate''" "harmless ''env''" "harmless ''value''"
  "harmless ''containers''" "harmless ''initContainers''" "harmless ''ephemeralContainers''"
  "harmless ''status''" "harmless ''metadata''" "list_all harmless hiddenMetadata"
  by (simp_all add: harmless_def normalized_key_def sensitive_def sensitiveSequences_def hiddenMetadata_def
      to_lower_ascii ascii_def)

lemma container_env: "everywhere [Key ''env'', Each, Key ''value''] (\<lambda>w. w = redacted) (redactContainer v)"
  unfolding redactContainer_def by (intro everywhere_same everywhere_each) simp

lemma spec_env:
  assumes "k \<in> set containerKeys"
  shows "everywhere (env_values k) (\<lambda>w. w = redacted) (redactSpecEnvironment spec)"
proof -
  have "everywhere (env_values k) (\<lambda>w. w = redacted) (obj_update k (arr_map redactContainer) v)" for v
    unfolding env_values_def by (intro everywhere_same everywhere_each container_env)
  then show ?thesis
    using assms unfolding redactSpecEnvironment_def containerKeys_def
    by (auto simp: env_values_def everywhere_other)
qed

lemma environment_env:
  assumes "k \<in> set containerKeys" and "b \<in> set spec_places"
  shows "everywhere (b @ env_values k) (\<lambda>w. w = redacted) (redactContainerEnvironment v)"
proof -
  note env = spec_env [OF assms(1)]
  have other: "k \<noteq> ''template''" "k \<noteq> ''jobTemplate''" using assms(1) by (auto simp: containerKeys_def)
  have "b = [Key ''spec''] \<or> b = [Key ''spec'', Key ''template'', Key ''spec'']
      \<or> b = [Key ''spec'', Key ''jobTemplate'', Key ''spec'', Key ''template'', Key ''spec'']"
    using assms(2) by (auto simp: spec_places_def)
  then show ?thesis
    unfolding redactContainerEnvironment_def Let_def
  proof (elim disjE)
    assume "b = [Key ''spec'']"
    then show "everywhere (b @ env_values k) (\<lambda>w. w = redacted) (obj_update ''spec'' (\<lambda>spec.
        obj_update ''jobTemplate'' (obj_update ''spec'' (obj_update ''template'' (obj_update ''spec'' redactSpecEnvironment)))
          (obj_update ''template'' (obj_update ''spec'' redactSpecEnvironment) (redactSpecEnvironment spec))) v)"
      using env other unfolding env_values_def by (auto intro!: everywhere_same simp: everywhere_other)
  qed (auto intro!: everywhere_same env simp: everywhere_other)
qed

text \<open>
  (C21) In the YAML of a workload, whatever the API server sent: the value of every environment
  variable of every container, in the pod specification, the pod template and the job template, is
  redacted; so is every member, at any depth, whose key names a credential up to case, dashes and
  underscores, and every command and argument list; and the status and the hidden metadata are
  gone.
\<close>

theorem sanitized_workload_is_redacted:
  "list_all (\<lambda>b. list_all (\<lambda>k. everywhere (b @ env_values k) (\<lambda>w. w = redacted) (sanitize_object object)) containerKeys) spec_places
    \<and> list_all (\<lambda>node. case node of
          JObj kvs \<Rightarrow> list_all (\<lambda>(k, w). if normalized_key k \<in> set sensitive then w = redacted
              else if normalized_key k \<in> set sensitiveSequences then w = JArr [redacted] else True) kvs
        | _ \<Rightarrow> True) (json_nodes (sanitize_object object))
    \<and> follow [Key ''status''] (sanitize_object object) = []
    \<and> list_all (\<lambda>k. follow [Key ''metadata'', Key k] (sanitize_object object) = []) hiddenMetadata"
proof (intro conjI)
  let ?visible = "obj_update ''metadata'' (obj_delete hiddenMetadata) (obj_delete [''status''] object)"
  have keys: "harmless k'" if "Key k' \<in> set (b @ env_values k)" "b \<in> set spec_places" "k \<in> set containerKeys" for b k k'
    using that normalized_keys by (auto simp: spec_places_def env_values_def containerKeys_def)
  show "list_all (\<lambda>b. list_all (\<lambda>k. everywhere (b @ env_values k) (\<lambda>w. w = redacted) (sanitize_object object)) containerKeys) spec_places"
    unfolding list_all_iff sanitize_object_def
  proof (intro ballI, rule everywhere_redact)
    fix b k assume "b \<in> set spec_places" "k \<in> set containerKeys"
    then show "everywhere (b @ env_values k) (\<lambda>w. w = redacted) (redactContainerEnvironment ?visible)"
      by (intro environment_env)
  qed (auto simp: redacted_def intro: keys)
  show "list_all (\<lambda>node. case node of
          JObj kvs \<Rightarrow> list_all (\<lambda>(k, w). if normalized_key k \<in> set sensitive then w = redacted
              else if normalized_key k \<in> set sensitiveSequences then w = JArr [redacted] else True) kvs
        | _ \<Rightarrow> True) (json_nodes (sanitize_object object))"
    unfolding list_all_iff sanitize_object_def
    by (auto split: json.split dest: json_nodes_redact)
  have gone: "follow p (sanitize_object object) = []"
    if "everywhere p (\<lambda>_. False) ?visible" "\<And>k. Key k \<in> set p \<Longrightarrow> harmless k" "p = Key k0 # p'" "k0 \<noteq> ''spec''" for p k0 p'
  proof -
    have "everywhere p (\<lambda>_. False) (redactContainerEnvironment ?visible)"
      using that(1,3,4) unfolding redactContainerEnvironment_def by (simp add: everywhere_other)
    then have "everywhere p (\<lambda>_. False) (sanitize_object object)"
      unfolding sanitize_object_def using that(2) by (intro everywhere_redact) auto
    then show ?thesis by (auto simp: everywhere_def list_all_iff)
  qed
  show "follow [Key ''status''] (sanitize_object object) = []"
    by (rule gone [OF _ _ HOL.refl]) (auto simp: everywhere_other everywhere_deleted normalized_keys)
  show "list_all (\<lambda>k. follow [Key ''metadata'', Key k] (sanitize_object object) = []) hiddenMetadata"
    unfolding list_all_iff
  proof (intro ballI, rule gone [OF _ _ HOL.refl])
    fix k assume k: "k \<in> set hiddenMetadata"
    then show "everywhere [Key ''metadata'', Key k] (\<lambda>_. False) ?visible"
      by (intro everywhere_same everywhere_deleted)
    show "harmless k'" if "Key k' \<in> set [Key ''metadata'', Key k]" for k'
      using that k normalized_keys(10,11) by (auto simp: list_all_iff)
  qed simp
qed

end
