(* ===== verification/Kube_Mutations.thy ===== *)
theory Kube_Mutations
  imports Kube_Workloads Kube_Sanitize
begin

text \<open>
  Reading one workload and changing it, of \<^verbatim>\<open>internal/kubernetes/client.go\<close>: the detail with its
  sanitized YAML, scaling, restarting and the image change with its optimistic check, and pod
  logs.
\<close>

section \<open>Workload detail\<close>

record workloadDetailResource =
  wx_Metadata :: objectMetadata
  wx_Containers :: "containerSpec list"
  wx_InitContainers :: "containerSpec list"
  wx_EphemeralContainers :: "containerSpec list"
  wx_TemplateContainers :: "containerSpec list"
  wx_TemplateInitContainers :: "containerSpec list"
  wx_JobContainers :: "containerSpec list"
  wx_JobInitContainers :: "containerSpec list"
  wx_Conditions :: "WorkloadCondition list"
  wx_ContainerStatuses :: "containerStatus list"
  wx_InitContainerStatuses :: "containerStatus list"
  wx_EphemeralContainerStatuses :: "containerStatus list"

definition workloadDetailResource_of :: "fields \<Rightarrow> workloadDetailResource option" where
  "workloadDetailResource_of fs = do {
     metadata \<leftarrow> metadata_of fs;
     spec \<leftarrow> f_struct ''spec'' fs;
     containers \<leftarrow> f_containers ''containers'' spec;
     initContainers \<leftarrow> f_containers ''initContainers'' spec;
     ephemeralContainers \<leftarrow> f_containers ''ephemeralContainers'' spec;
     template \<leftarrow> f_path [''template'', ''spec''] spec;
     templateContainers \<leftarrow> f_containers ''containers'' template;
     templateInitContainers \<leftarrow> f_containers ''initContainers'' template;
     job \<leftarrow> f_path [''jobTemplate'', ''spec'', ''template'', ''spec''] spec;
     jobContainers \<leftarrow> f_containers ''containers'' job;
     jobInitContainers \<leftarrow> f_containers ''initContainers'' job;
     status \<leftarrow> f_struct ''status'' fs;
     conditions \<leftarrow> f_structs workloadCondition_of ''conditions'' status;
     statuses \<leftarrow> f_structs containerStatus_of ''containerStatuses'' status;
     initStatuses \<leftarrow> f_structs containerStatus_of ''initContainerStatuses'' status;
     ephemeralStatuses \<leftarrow> f_structs containerStatus_of ''ephemeralContainerStatuses'' status;
     Some \<lparr>wx_Metadata = metadata, wx_Containers = containers, wx_InitContainers = initContainers,
           wx_EphemeralContainers = ephemeralContainers, wx_TemplateContainers = templateContainers,
           wx_TemplateInitContainers = templateInitContainers, wx_JobContainers = jobContainers,
           wx_JobInitContainers = jobInitContainers, wx_Conditions = conditions,
           wx_ContainerStatuses = statuses, wx_InitContainerStatuses = initStatuses,
           wx_EphemeralContainerStatuses = ephemeralStatuses\<rparr>
   }"

definition workloadDetail :: "string \<Rightarrow> workloadDetailResource option" where
  "workloadDetail payload = Unmarshal_fields payload \<bind> workloadDetailResource_of"

definition zero_status :: containerStatus where
  "zero_status = \<lparr>ct_Name = [], ct_Ready = False, ct_RestartCount = 0, ct_Waiting = None, ct_Running = False,
     ct_Terminated = None\<rparr>"

definition containerState :: "containerStatus \<Rightarrow> string" where
  "containerState status =
     (if ct_Running status then ''Running''
      else case ct_Waiting status of
          Some reason \<Rightarrow> if reason \<noteq> [] then reason else ''Waiting''
        | None \<Rightarrow>
            (case ct_Terminated status of
               Some reason \<Rightarrow> if reason \<noteq> [] then reason else ''Terminated''
             | None \<Rightarrow> []))"

text \<open>Of several states with the same name the last counts.\<close>

definition mergeContainerDetails :: "containerSpec list \<Rightarrow> containerStatus list \<Rightarrow> string \<Rightarrow> WorkloadContainer list" where
  "mergeContainerDetails specs statuses containerType =
     map (\<lambda>spec.
       (let status = (case find_key ct_Name (sp_Name spec) (rev statuses) of None \<Rightarrow> zero_status | Some st \<Rightarrow> st)
        in \<lparr>wk_Name = sp_Name spec, wk_Image = sp_Image spec, wk_Type = containerType,
            wk_Ready = ct_Ready status, wk_RestartCount = ct_RestartCount status,
            wk_State = containerState status\<rparr>)) specs"

definition decodeContainers :: "string \<Rightarrow> workloadDetailResource \<Rightarrow> WorkloadContainer list" where
  "decodeContainers kind r =
     (if kind \<noteq> ''pod''
      then if kind = ''cronjob'' then mergeContainerDetails (wx_JobContainers r) [] ''container''
           else mergeContainerDetails (wx_TemplateContainers r) [] ''container''
      else mergeContainerDetails (wx_Containers r) (wx_ContainerStatuses r) ''container''
           @ mergeContainerDetails (wx_InitContainers r) (wx_InitContainerStatuses r) ''init''
           @ mergeContainerDetails (wx_EphemeralContainers r) (wx_EphemeralContainerStatuses r) ''ephemeral'')"

definition workloadResourcePath :: "WorkloadReference \<Rightarrow> string" where
  "workloadResourcePath reference =
     (let namespace = wr_Namespace reference; kind = wr_Kind reference in
      (if kind = ''deployment'' then ''/apis/apps/v1/namespaces/'' @ namespace @ ''/deployments/''
       else if kind = ''statefulset'' then ''/apis/apps/v1/namespaces/'' @ namespace @ ''/statefulsets/''
       else if kind = ''daemonset'' then ''/apis/apps/v1/namespaces/'' @ namespace @ ''/daemonsets/''
       else if kind = ''job'' then ''/apis/batch/v1/namespaces/'' @ namespace @ ''/jobs/''
       else if kind = ''cronjob'' then ''/apis/batch/v1/namespaces/'' @ namespace @ ''/cronjobs/''
       else ''/api/v1/namespaces/'' @ namespace @ ''/pods/'') @ wr_Name reference)"

definition displayWorkloadKind :: "string \<Rightarrow> string" where
  "displayWorkloadKind kind =
     (if kind = ''deployment'' then ''Deployment''
      else if kind = ''statefulset'' then ''StatefulSet''
      else if kind = ''daemonset'' then ''DaemonSet''
      else if kind = ''job'' then ''Job''
      else if kind = ''cronjob'' then ''CronJob''
      else ''Pod'')"

abbreviation lower_kind :: "WorkloadReference \<Rightarrow> WorkloadReference" where
  "lower_kind reference \<equiv> reference\<lparr>wr_Kind := to_lower (trim_space (wr_Kind reference))\<rparr>"

definition kc_WorkloadDetail :: "(json \<Rightarrow> string result) \<Rightarrow> Client \<Rightarrow> WorkloadReference \<Rightarrow> WorkloadDetail kube" where
  "kc_WorkloadDetail yaml c reference =
     (let reference = lower_kind reference in
      kguard (ValidateWorkloadReference reference)
      (kthen (getJSON c (workloadResourcePath reference) None raw_message) (\<lambda>raw.
       kthen (kresult (decodeWorkload (wr_Kind reference) raw)) (\<lambda>workload.
       kthen (kdecoded (kube_upstream ''decode Kubernetes workload detail'') (workloadDetail raw)) (\<lambda>r.
       kthen (kresult (sanitizedWorkloadYAML yaml raw)) (\<lambda>sanitized.
       kreturn \<lparr>wd_Workload = workload, wd_UID = om_UID (wx_Metadata r),
                wd_ResourceVersion = om_ResourceVersion (wx_Metadata r), wd_Labels = om_Labels (wx_Metadata r),
                wd_Containers = decodeContainers (wr_Kind reference) r, wd_Conditions = wx_Conditions r,
                wd_YAML = sanitized\<rparr>))))))"

section \<open>Patches\<close>

definition restartAnnotation :: string where
  "restartAnnotation = ''k8s-panel.io/restartedAt''"

text \<open>\<^verbatim>\<open>restartedAt.UTC().Format(time.RFC3339Nano)\<close>.\<close>

definition pad :: "nat \<Rightarrow> int \<Rightarrow> string" where
  "pad n i = (let ds = itoa i in replicate (n - length ds) CHR ''0'' @ ds)"

definition year_and_day :: "int \<Rightarrow> int \<times> int" where
  "year_and_day days =
     (let n400 = days div 146097; r = days mod 146097;
          n100 = min 3 (r div 36524); r = r - n100 * 36524;
          n4 = r div 1461; r = r mod 1461;
          n1 = min 3 (r div 365)
      in (400 * n400 + 100 * n100 + 4 * n4 + n1 + 1, r - n1 * 365))"

definition month_of :: "int \<Rightarrow> int \<Rightarrow> nat" where
  "month_of y day = last (filter (\<lambda>m. days_before_month y m \<le> day) [1..<13])"

definition format_fraction :: "int \<Rightarrow> string" where
  "format_fraction ns =
     (let ds = rev (dropWhile (\<lambda>c. c = CHR ''0'') (rev (pad 9 ns))) in if ds = [] then [] else CHR ''.'' # ds)"

definition format_time :: "gtime \<Rightarrow> string" where
  "format_time t =
     (let days = t div (24 * hour); r = t mod (24 * hour);
          (y, yday) = year_and_day days; m = month_of y yday;
          d = yday - days_before_month y m + 1
      in pad 4 y @ ''-'' @ pad 2 (int m) @ ''-'' @ pad 2 d @ ''T'' @ pad 2 (r div hour) @ '':''
         @ pad 2 (r mod hour div minute) @ '':'' @ pad 2 (r mod minute div second)
         @ format_fraction (r mod second) @ ''Z'')"

definition validateDeploymentMutation :: "WorkloadReference \<Rightarrow> string \<Rightarrow> go_error option" where
  "validateDeploymentMutation reference resourceVersion =
     (case ValidateWorkloadReference reference of
        Some e \<Rightarrow> Some e
      | None \<Rightarrow>
          if to_lower (trim_space (wr_Kind reference)) \<noteq> ''deployment''
          then Some (Invalid ''kind'' ''only Deployment operations are supported'')
          else if trim_space resourceVersion = [] \<or> length (trim_space resourceVersion) > 256
          then Some (Invalid ''resource_version'' ''is required and must not exceed 256 characters'')
          else None)"

definition patchDeployment :: "Client \<Rightarrow> WorkloadReference \<Rightarrow> json \<Rightarrow> Workload kube" where
  "patchDeployment c reference patch =
     kthen (requestPayload c ''PATCH''
        (''/apis/apps/v1/namespaces/'' @ wr_Namespace reference @ ''/deployments/'' @ wr_Name reference) None
        ''application/json'' ''application/merge-patch+json'' (Marshal patch) maxResponseBytes False)
       (\<lambda>(payload, _). kresult (decodeWorkload ''deployment'' payload))"

definition kc_ScaleWorkload :: "Client \<Rightarrow> WorkloadReference \<Rightarrow> string \<Rightarrow> int \<Rightarrow> Workload kube" where
  "kc_ScaleWorkload c reference resourceVersion replicas =
     kguard (validateDeploymentMutation reference resourceVersion)
     (if replicas < 0 \<or> replicas > MaxWorkloadReplicas
      then kfail (Invalid ''replicas'' ''must be between 0 and 1000'')
      else patchDeployment c reference (json_map
        [(''metadata'', json_map [(''resourceVersion'', JStr (trim_space resourceVersion))]),
         (''spec'', json_map [(''replicas'', JInt replicas)])]))"

definition kc_RestartWorkload :: "Client \<Rightarrow> WorkloadReference \<Rightarrow> string \<Rightarrow> gtime \<Rightarrow> Workload kube" where
  "kc_RestartWorkload c reference resourceVersion restartedAt =
     kguard (validateDeploymentMutation reference resourceVersion)
     (if restartedAt = zero_time then kfail (Invalid ''restarted_at'' ''is required'')
      else patchDeployment c reference (json_map
        [(''metadata'', json_map [(''resourceVersion'', JStr (trim_space resourceVersion))]),
         (''spec'', json_map [(''template'', json_map [(''metadata'', json_map [(''annotations'',
            json_map [(restartAnnotation, JStr (format_time restartedAt))])])])])]))"

section \<open>Image changes\<close>

fun containerImage :: "containerSpec list \<Rightarrow> string \<Rightarrow> string option" where
  "containerImage [] name = None"
| "containerImage (container # containers) name =
     (if sp_Name container = name then Some (sp_Image container) else containerImage containers name)"

definition normalizeWorkloadImageChange :: "WorkloadImageChange \<Rightarrow> WorkloadImageChange" where
  "normalizeWorkloadImageChange change =
     change\<lparr>wc_Reference := lower_kind (wc_Reference change),
            wc_ResourceVersion := trim_space (wc_ResourceVersion change)\<rparr>"

definition deploymentContainerImage :: "string \<Rightarrow> string \<Rightarrow> string option result" where
  "deploymentContainerImage payload name =
     (case workloadDetail payload of
        None \<Rightarrow> Inl (kube_upstream ''decode Kubernetes Deployment image'')
      | Some r \<Rightarrow> Inr (containerImage (wx_TemplateContainers r) name))"

definition image_patch :: "WorkloadImageChange \<Rightarrow> json" where
  "image_patch change =
     json_map
      [(''metadata'', json_map [(''resourceVersion'', JStr (wc_ResourceVersion change))]),
       (''spec'', json_map [(''template'', json_map [(''spec'', json_map [(''containers'',
          JArr [json_map [(''name'', JStr (wc_Container change)), (''image'', JStr (wc_Image change))]])])])])]"

definition patchDeploymentImage :: "Client \<Rightarrow> WorkloadImageChange \<Rightarrow> bool \<Rightarrow> string kube" where
  "patchDeploymentImage c change dryRun =
     kguard (ValidateWorkloadImageChange change)
     (let path = workloadResourcePath (wc_Reference change) in
      kthen (requestPayload c ''GET'' path None ''application/json'' [] [] maxMutationBytes False) (\<lambda>(currentPayload, _).
      kthen (kdecoded (kube_upstream ''decode Kubernetes Deployment for image update'') (workloadDetail currentPayload)) (\<lambda>current.
      if om_ResourceVersion (wx_Metadata current) \<noteq> wc_ResourceVersion change
      then kfail (Wrapped ''Deployment resource version changed'' ErrConflict)
      else if containerImage (wx_TemplateContainers current) (wc_Container change) \<noteq> Some (wc_CurrentImage change)
      then kfail (Wrapped ''Deployment container image changed'' ErrConflict)
      else
        kthen (requestPayload c ''PATCH'' path (if dryRun then Some [(''dryRun'', ''All'')] else None)
           ''application/json'' ''application/strategic-merge-patch+json'' (Marshal (image_patch change))
           maxMutationBytes False) (\<lambda>(payload, _). kreturn payload))))"

definition kc_PreviewWorkloadImage :: "Client \<Rightarrow> WorkloadImageChange \<Rightarrow> WorkloadImagePreview kube" where
  "kc_PreviewWorkloadImage c change =
     (let change = normalizeWorkloadImageChange change in
      kthen (patchDeploymentImage c change True) (\<lambda>payload.
      kthen (kresult (deploymentContainerImage payload (wc_Container change))) (\<lambda>image.
      if image \<noteq> Some (wc_Image change)
      then kfail (kube_upstream ''Kubernetes dry-run returned an unexpected container image'')
      else
        kreturn \<lparr>ip_Kind = ''Deployment'', ip_Namespace = wr_Namespace (wc_Reference change),
                 ip_Name = wr_Name (wc_Reference change), ip_Container = wc_Container change,
                 ip_ResourceVersion = wc_ResourceVersion change,
                 ip_Changes = [\<lparr>fc_Field = ''spec.template.spec.containers[name='' @ wc_Container change @ ''].image'',
                                fc_Before = wc_CurrentImage change, fc_After = wc_Image change\<rparr>]\<rparr>)))"

definition kc_UpdateWorkloadImage :: "Client \<Rightarrow> WorkloadImageChange \<Rightarrow> Workload kube" where
  "kc_UpdateWorkloadImage c change =
     (let change = normalizeWorkloadImageChange change in
      kthen (patchDeploymentImage c change False) (\<lambda>payload.
      kthen (kresult (deploymentContainerImage payload (wc_Container change))) (\<lambda>image.
      if image \<noteq> Some (wc_Image change)
      then kfail (kube_upstream ''Kubernetes update returned an unexpected container image'')
      else kresult (decodeWorkload ''deployment'' payload))))"

section \<open>Logs\<close>

text \<open>\<^verbatim>\<open>bytes.ToValidUTF8\<close> with U+FFFD: a run of invalid bytes becomes one replacement.\<close>

fun valid_segs :: "bool \<Rightarrow> (rune \<times> string) list \<Rightarrow> string" where
  "valid_segs after [] = []"
| "valid_segs after ((r, bytes) # segs) =
     (if r = rune_error \<and> length bytes = 1
      then (if after then [] else encode_rune rune_error) @ valid_segs True segs
      else bytes @ valid_segs False segs)"

definition ToValidUTF8 :: "string \<Rightarrow> string" where
  "ToValidUTF8 s = valid_segs False (rune_segs s)"

definition FormatBool :: "bool \<Rightarrow> string" where
  "FormatBool b = (if b then ''true'' else ''false'')"

definition kc_PodLogs :: "Client \<Rightarrow> PodLogRequest \<Rightarrow> PodLogs kube" where
  "kc_PodLogs c input =
     kguard (ValidatePodLogRequest input)
     (kthen (getPayload c (''/api/v1/namespaces/'' @ pl_Namespace input @ ''/pods/'' @ pl_Pod input @ ''/log'')
        (Some [(''container'', pl_Container input), (''tailLines'', itoa (pl_TailLines input)),
               (''previous'', FormatBool (pl_Previous input)), (''timestamps'', FormatBool (pl_Timestamps input))])
        ''text/plain'' maxLogBytes True) (\<lambda>(payload, truncated).
      kreturn \<lparr>lg_Namespace = pl_Namespace input, lg_Pod = pl_Pod input, lg_Container = pl_Container input,
               lg_TailLines = pl_TailLines input, lg_Previous = pl_Previous input,
               lg_Timestamps = pl_Timestamps input, lg_Truncated = truncated,
               lg_Content = ToValidUTF8 payload\<rparr>))"

end
