(* ===== verification/Kube_Events.thy ===== *)
theory Kube_Events
  imports Kube_Mutations
begin

text \<open>
  Events, of \<^verbatim>\<open>internal/kubernetes/events.go\<close> and \<^verbatim>\<open>client.go\<close>: the bounded list, the checked and
  bounded projection of an event, and the reads of the events of a namespace, a node and a
  workload.
\<close>

section \<open>Projection\<close>

definition eventListPageSize :: string where
  "eventListPageSize = ''250''"

definition maxEventListPages :: nat where
  "maxEventListPages = 8"

definition maxEventListItems :: nat where
  "maxEventListItems = 2000"

definition maxEventListBytes :: nat where
  "maxEventListBytes = 16 * 1024 * 1024"

definition maxEventMessageBytes :: nat where
  "maxEventMessageBytes = 1024"

definition maxEventScalarBytes :: nat where
  "maxEventScalarBytes = 256"

definition maxContinueTokenBytes :: nat where
  "maxContinueTokenBytes = 16 * 1024"

record eventResource =
  er_Metadata :: objectMetadata
  er_Type :: string
  er_Reason :: string
  er_Message :: string
  er_Count :: int
  er_ReportingComponent :: string
  er_SourceComponent :: string
  er_ObjectKind :: string
  er_ObjectNamespace :: string
  er_ObjectName :: string
  er_EventTime :: gtime
  er_FirstTimestamp :: gtime
  er_LastTimestamp :: gtime
  er_SeriesCount :: int
  er_LastObservedTime :: gtime

definition eventResource_of :: "fields \<Rightarrow> eventResource option" where
  "eventResource_of fs = do {
     metadata \<leftarrow> metadata_of fs;
     type \<leftarrow> f_str ''type'' fs;
     reason \<leftarrow> f_str ''reason'' fs;
     message \<leftarrow> f_str ''message'' fs;
     count \<leftarrow> f_int32 ''count'' fs;
     reporting \<leftarrow> f_str ''reportingComponent'' fs;
     source \<leftarrow> f_struct ''source'' fs \<bind> f_str ''component'';
     object \<leftarrow> f_struct ''involvedObject'' fs;
     objectKind \<leftarrow> f_str ''kind'' object;
     objectNamespace \<leftarrow> f_str ''namespace'' object;
     objectName \<leftarrow> f_str ''name'' object;
     eventTime \<leftarrow> f_time ''eventTime'' fs;
     first \<leftarrow> f_time ''firstTimestamp'' fs;
     lastSeen \<leftarrow> f_time ''lastTimestamp'' fs;
     series \<leftarrow> f_struct ''series'' fs;
     seriesCount \<leftarrow> f_int32 ''count'' series;
     observed \<leftarrow> f_time ''lastObservedTime'' series;
     Some \<lparr>er_Metadata = metadata, er_Type = type, er_Reason = reason, er_Message = message,
           er_Count = count, er_ReportingComponent = reporting, er_SourceComponent = source,
           er_ObjectKind = objectKind, er_ObjectNamespace = objectNamespace, er_ObjectName = objectName,
           er_EventTime = eventTime, er_FirstTimestamp = first, er_LastTimestamp = lastSeen,
           er_SeriesCount = seriesCount, er_LastObservedTime = observed\<rparr>
   }"

definition eventSource :: "eventResource \<Rightarrow> string" where
  "eventSource r = (if er_ReportingComponent r \<noteq> [] then er_ReportingComponent r else er_SourceComponent r)"

fun firstNonZeroTime :: "gtime list \<Rightarrow> gtime" where
  "firstNonZeroTime [] = zero_time"
| "firstNonZeroTime (t # ts) = (if t \<noteq> zero_time then t else firstNonZeroTime ts)"

definition eventScalar :: "string \<Rightarrow> bool \<Rightarrow> string result" where
  "eventScalar scalar allowEmpty =
     (if trim_space scalar \<noteq> scalar \<or> (\<not> allowEmpty \<and> scalar = []) \<or> length scalar > maxEventScalarBytes
         \<or> index_func is_control scalar
      then Inl ErrUpstream else Inr scalar)"

fun bounded_loop :: "string \<Rightarrow> bool \<Rightarrow> rune list \<Rightarrow> string \<times> bool" where
  "bounded_loop out pending [] = (out, False)"
| "bounded_loop out pending (r # rs) =
     (if is_space r \<or> is_control r then bounded_loop out (out \<noteq> []) rs
      else let required = length (encode_rune r) + (if pending then 1 else 0) in
        if length out + required > maxEventMessageBytes then (out, True)
        else bounded_loop (out @ (if pending then '' '' else []) @ encode_rune r) False rs)"

definition boundedEventMessage :: "string \<Rightarrow> string \<times> bool" where
  "boundedEventMessage message = bounded_loop [] False (runes message)"

definition validContinueToken :: "string \<Rightarrow> bool" where
  "validContinueToken token \<longleftrightarrow> token \<noteq> [] \<and> length token \<le> maxContinueTokenBytes \<and> \<not> index_func is_control token"

text \<open>A scalar of an event, or the error of its field.\<close>

definition event_field :: "string \<Rightarrow> string \<Rightarrow> bool \<Rightarrow> (string \<Rightarrow> 'a result) \<Rightarrow> 'a result" where
  "event_field what scalar allowEmpty k =
     (case eventScalar scalar allowEmpty of
        Inl _ \<Rightarrow> Inl (kube_upstream (''invalid Kubernetes event '' @ what))
      | Inr s \<Rightarrow> k s)"

definition projectEvent :: "eventResource \<Rightarrow> KubernetesEvent result" where
  "projectEvent r =
     event_field ''name'' (om_Name (er_Metadata r)) False (\<lambda>name.
     event_field ''namespace'' (om_Namespace (er_Metadata r)) True (\<lambda>namespace.
     if namespace \<noteq> [] \<and> ValidateNamespace namespace \<noteq> None
     then Inl (kube_upstream ''invalid Kubernetes event namespace'') else
     event_field ''type'' (er_Type r) True (\<lambda>eventType.
     event_field ''reason'' (er_Reason r) True (\<lambda>reason.
     event_field ''source'' (eventSource r) True (\<lambda>source.
     event_field ''object kind'' (er_ObjectKind r) True (\<lambda>objectKind.
     event_field ''object name'' (er_ObjectName r) True (\<lambda>objectName.
     event_field ''object namespace'' (er_ObjectNamespace r) True (\<lambda>objectNamespace.
     if objectNamespace \<noteq> [] \<and> ValidateNamespace objectNamespace \<noteq> None
     then Inl (kube_upstream ''invalid Kubernetes event object namespace'')
     else if namespace \<noteq> [] \<and> objectNamespace \<noteq> [] \<and> namespace \<noteq> objectNamespace
     then Inl (kube_upstream ''Kubernetes event object exceeded namespace scope'')
     else if er_Count r < 0 \<or> er_SeriesCount r < 0
     then Inl (kube_upstream ''invalid Kubernetes event count'')
     else let (message, truncated) = boundedEventMessage (er_Message r);
              created = om_CreationTimestamp (er_Metadata r) in
       Inr \<lparr>kv_Namespace = namespace, kv_Name = name, kv_Type = eventType, kv_Reason = reason,
            kv_Message = message, kv_MessageTruncated = truncated, kv_Source = source,
            kv_ObjectKind = objectKind, kv_ObjectName = objectName,
            kv_Count = max (max (er_Count r) (er_SeriesCount r)) 1,
            kv_FirstSeen = firstNonZeroTime [er_FirstTimestamp r, er_EventTime r, created],
            kv_LastSeen = firstNonZeroTime [er_LastObservedTime r, er_LastTimestamp r, er_EventTime r, created],
            kv_CreatedAt = created\<rparr>))))))))"

definition decodeEvent :: "string \<Rightarrow> KubernetesEvent result" where
  "decodeEvent item =
     (case Unmarshal_fields item \<bind> eventResource_of of
        None \<Rightarrow> Inl (kube_upstream ''decode Kubernetes event'')
      | Some r \<Rightarrow> projectEvent r)"

definition kube_event_before :: "KubernetesEvent \<Rightarrow> KubernetesEvent \<Rightarrow> bool" where
  "kube_event_before a b \<longleftrightarrow>
     (let left = firstNonZeroTime [kv_LastSeen a, kv_CreatedAt a];
          right = firstNonZeroTime [kv_LastSeen b, kv_CreatedAt b] in
      if left \<noteq> right then left > right
      else if kv_Namespace a \<noteq> kv_Namespace b then kv_Namespace a < kv_Namespace b
      else kv_Name a < kv_Name b)"

definition decodeEvents :: "string list \<Rightarrow> int \<Rightarrow> KubernetesEvent list result" where
  "decodeEvents items limit =
     (case decode_all decodeEvent items of
        Inl e \<Rightarrow> Inl e
      | Inr events \<Rightarrow>
          (let events = sort_slice kube_event_before events
           in Inr (if int (length events) > limit then take (nat limit) events else events)))"

section \<open>Lists\<close>

definition event_page :: "string \<Rightarrow> (string \<times> string \<times> string \<times> string list) option" where
  "event_page payload = do {
     ms \<leftarrow> object_members payload;
     let fs = map (\<lambda>(k, raw, v). (k, v)) ms;
     apiVersion \<leftarrow> f_str ''apiVersion'' fs;
     kind \<leftarrow> f_str ''kind'' fs;
     continue \<leftarrow> f_struct ''metadata'' fs \<bind> f_str ''continue'';
     items \<leftarrow> f_raws ''items'' ms;
     Some (apiVersion, kind, continue, items)
   }"

text \<open>The loop of \<^verbatim>\<open>listEventRaw\<close>, with the pages that are left.\<close>

fun event_loop :: "Client \<Rightarrow> string \<Rightarrow> nat \<Rightarrow> url_values \<Rightarrow> string list \<Rightarrow> nat \<Rightarrow> string list kube" where
  "event_loop c path 0 query items totalBytes =
     kfail (kube_upstream ''Kubernetes event list exceeded safe page limit'')"
| "event_loop c path (Suc pages) query items totalBytes =
     kthen (getPayload c path (Some query) ''application/json'' maxResponseBytes False) (\<lambda>(payload, _).
     if int (length payload) > int maxEventListBytes - int totalBytes
     then kfail (kube_upstream ''Kubernetes event list exceeded safe byte limit'')
     else
       kthen (kdecoded (kube_upstream ''decode Kubernetes event list'') (event_page payload)) (\<lambda>(apiVersion, kind, continue, pageItems).
       if apiVersion \<noteq> ''v1'' \<or> kind \<noteq> ''EventList''
       then kfail (kube_upstream ''unsupported Kubernetes event list'')
       else if int (length pageItems) > int maxEventListItems - int (length items)
       then kfail (kube_upstream ''Kubernetes event list exceeded safe item limit'')
       else if continue = [] then kreturn (items @ pageItems)
       else if \<not> validContinueToken continue
       then kfail (kube_upstream ''invalid Kubernetes event continuation token'')
       else event_loop c path pages (query_Set ''continue'' continue query) (items @ pageItems)
              (totalBytes + length payload)))"

definition listEventRaw :: "Client \<Rightarrow> string \<Rightarrow> url_values \<Rightarrow> string list kube" where
  "listEventRaw c path query =
     event_loop c path maxEventListPages (query_Set ''limit'' eventListPageSize query) [] 0"

fun check_events :: "string \<Rightarrow> string \<Rightarrow> KubernetesEvent list \<Rightarrow> go_error option" where
  "check_events namespace eventType [] = None"
| "check_events namespace eventType (event # events) =
     (if kv_Namespace event = [] \<or> ValidateNamespace (kv_Namespace event) \<noteq> None \<or> kv_CreatedAt event = zero_time
      then Some (kube_upstream ''invalid Kubernetes event metadata'')
      else if namespace \<noteq> [] \<and> kv_Namespace event \<noteq> namespace
      then Some (kube_upstream ''Kubernetes event exceeded namespace scope'')
      else if eventType \<noteq> [] \<and> kv_Type event \<noteq> eventType
      then Some (kube_upstream ''Kubernetes event exceeded type scope'')
      else check_events namespace eventType events)"

definition kc_Events :: "Client \<Rightarrow> string \<Rightarrow> string \<Rightarrow> int \<Rightarrow> KubernetesEvent list kube" where
  "kc_Events c namespace eventType limit =
     kguard (ValidateKubernetesEventList namespace eventType limit)
     (kthen (listEventRaw c (if namespace \<noteq> [] then ''/api/v1/namespaces/'' @ namespace @ ''/events'' else ''/api/v1/events'')
        (if eventType \<noteq> [] then [(''fieldSelector'', ''type='' @ eventType)] else [])) (\<lambda>items.
      kthen (kresult (decodeEvents items (int (length items)))) (\<lambda>events.
      kguard (check_events namespace eventType events)
      (kreturn (if int (length events) > limit then take (nat limit) events else events)))))"

definition kc_NodeEvents :: "Client \<Rightarrow> string \<Rightarrow> int \<Rightarrow> KubernetesEvent list kube" where
  "kc_NodeEvents c name limit =
     kguard (ValidateNodeName name)
     (if limit < 1 \<or> limit > MaxNodeEventLimit then kfail (Invalid ''limit'' ''must be between 1 and 100'')
      else
        kthen (listRaw c ''/api/v1/events'' (Some [(''fieldSelector'',
            join_str '','' [''involvedObject.kind=Node'', ''involvedObject.name='' @ name])])) (\<lambda>items.
        kresult (decodeEvents items limit)))"

definition kc_WorkloadEvents :: "Client \<Rightarrow> WorkloadReference \<Rightarrow> int \<Rightarrow> KubernetesEvent list kube" where
  "kc_WorkloadEvents c reference limit =
     (let reference = lower_kind reference in
      kguard (ValidateWorkloadReference reference)
      (if limit < 1 \<or> limit > MaxWorkloadEventLimit then kfail (Invalid ''limit'' ''must be between 1 and 100'')
       else
         kthen (listRaw c (''/api/v1/namespaces/'' @ wr_Namespace reference @ ''/events'') (Some [(''fieldSelector'',
             join_str '','' [''involvedObject.kind='' @ displayWorkloadKind (wr_Kind reference),
                            ''involvedObject.name='' @ wr_Name reference])])) (\<lambda>items.
         kthen (kresult (decodeEvents items limit)) (\<lambda>events.
         if list_ex (\<lambda>event. kv_Namespace event \<noteq> [] \<and> kv_Namespace event \<noteq> wr_Namespace reference) events
         then kfail (kube_upstream ''Kubernetes event exceeded namespace scope'')
         else kreturn events))))"

end
