(* ===== verification/Kube_Tables.thy ===== *)
theory Kube_Tables
  imports Kube_Objects
begin

text \<open>
  ConfigMaps and Secrets, of \<^verbatim>\<open>internal/kubernetes/configuration.go\<close>: they are read as server-side
  tables with only the metadata of each object, so that their data never reaches the panel, and a
  row that carries more than metadata is refused.
\<close>

section \<open>Table rows\<close>

definition kubernetesTableAccept :: string where
  "kubernetesTableAccept = ''application/json;as=Table;g=meta.k8s.io;v=v1''"

definition maxTableColumns :: nat where
  "maxTableColumns = 64"

definition maxTableStringBytes :: nat where
  "maxTableStringBytes = 256"

record configurationTableItem =
  ti_Namespace :: string
  ti_Name :: string
  ti_Type :: string
  ti_DataCount :: int
  ti_CreatedAt :: gtime

record kubernetesTableRow =
  tr_Cells :: "string list"
  tr_Object :: string

record kubernetesTable =
  tb_APIVersion :: string
  tb_Kind :: string
  tb_Continue :: string
  tb_ColumnDefinitions :: "(string \<times> string) list"
  tb_Rows :: "kubernetesTableRow list"

record partialObjectMetadata =
  pm_Name :: string
  pm_Namespace :: string
  pm_CreationTimestamp :: gtime
  pm_DeletionTimestamp :: "gtime option"

text \<open>A field of type \<^verbatim>\<open>json.RawMessage\<close>.\<close>

definition f_raw :: "string \<Rightarrow> (string \<times> string \<times> json) list \<Rightarrow> string" where
  "f_raw name ms = foldl (\<lambda>acc (k, raw, v). if equal_fold name k then raw else acc) [] ms"

definition table_row :: "string \<Rightarrow> kubernetesTableRow option" where
  "table_row raw = do {
     ms \<leftarrow> object_members raw;
     cells \<leftarrow> f_raws ''cells'' ms;
     Some \<lparr>tr_Cells = cells, tr_Object = f_raw ''object'' ms\<rparr>
   }"

definition table_page :: "string \<Rightarrow> kubernetesTable option" where
  "table_page payload = do {
     ms \<leftarrow> object_members payload;
     let fs = map (\<lambda>(k, raw, v). (k, v)) ms;
     apiVersion \<leftarrow> f_str ''apiVersion'' fs;
     kind \<leftarrow> f_str ''kind'' fs;
     continue \<leftarrow> f_struct ''metadata'' fs \<bind> f_str ''continue'';
     columns \<leftarrow> f_structs (\<lambda>column. do { name \<leftarrow> f_str ''name'' column; type \<leftarrow> f_str ''type'' column; Some (name, type) })
       ''columnDefinitions'' fs;
     rows \<leftarrow> f_raws ''rows'' ms;
     rows \<leftarrow> those (map table_row rows);
     Some \<lparr>tb_APIVersion = apiVersion, tb_Kind = kind, tb_Continue = continue, tb_ColumnDefinitions = columns,
           tb_Rows = rows\<rparr>
   }"

definition validKubernetesMetadataString :: "string \<Rightarrow> bool" where
  "validKubernetesMetadataString s \<longleftrightarrow>
     s \<noteq> [] \<and> length s \<le> 253 \<and> s = trim_space s \<and> \<not> index_func is_control s"

definition validTableString :: "string \<Rightarrow> bool" where
  "validTableString s \<longleftrightarrow> length s \<le> maxTableStringBytes \<and> s = trim_space s \<and> \<not> index_func is_control s"

definition set_time_pointer :: "gtime option \<Rightarrow> json \<Rightarrow> gtime option option" where
  "set_time_pointer old v =
     (case v of JStr s \<Rightarrow> map_option Some (parse_time s) | JNull \<Rightarrow> Some None | _ \<Rightarrow> None)"

definition partial_envelope :: "fields \<Rightarrow> (string \<times> string \<times> partialObjectMetadata) option" where
  "partial_envelope fs = do {
     apiVersion \<leftarrow> f_str ''apiVersion'' fs;
     kind \<leftarrow> f_str ''kind'' fs;
     metadata \<leftarrow> f_struct ''metadata'' fs;
     name \<leftarrow> f_str ''name'' metadata;
     namespace \<leftarrow> f_str ''namespace'' metadata;
     created \<leftarrow> f_time ''creationTimestamp'' metadata;
     deleted \<leftarrow> json_field set_time_pointer None ''deletionTimestamp'' metadata;
     Some (apiVersion, kind, \<lparr>pm_Name = name, pm_Namespace = namespace, pm_CreationTimestamp = created,
       pm_DeletionTimestamp = deleted\<rparr>)
   }"

definition decodePartialObjectMetadataForScope :: "string \<Rightarrow> bool \<Rightarrow> partialObjectMetadata result" where
  "decodePartialObjectMetadataForScope raw namespaced =
     (case (if raw = [] then None else Unmarshal_fields raw) of
        None \<Rightarrow> Inl (kube_upstream ''decode Kubernetes table metadata'')
      | Some fs \<Rightarrow>
          if list_ex (\<lambda>(k, v). k \<noteq> ''apiVersion'' \<and> k \<noteq> ''kind'' \<and> k \<noteq> ''metadata'') fs
          then Inl (kube_upstream ''unsafe Kubernetes table row object'')
          else case partial_envelope fs of
              None \<Rightarrow> Inl (kube_upstream ''unsupported Kubernetes table row object'')
            | Some (apiVersion, kind, metadata) \<Rightarrow>
                if apiVersion \<noteq> ''meta.k8s.io/v1'' \<or> kind \<noteq> ''PartialObjectMetadata''
                then Inl (kube_upstream ''unsupported Kubernetes table row object'')
                else if \<not> validKubernetesMetadataString (pm_Name metadata)
                    \<or> pm_CreationTimestamp metadata = zero_time
                    \<or> pm_DeletionTimestamp metadata = Some zero_time
                then Inl (kube_upstream ''invalid Kubernetes table metadata'')
                else if namespaced \<and> ValidateNamespace (pm_Namespace metadata) \<noteq> None
                then Inl (kube_upstream ''invalid Kubernetes table namespace'')
                else if \<not> namespaced \<and> pm_Namespace metadata \<noteq> []
                then Inl (kube_upstream ''cluster-scoped Kubernetes table row contains a namespace'')
                else Inr metadata)"

definition decodePartialObjectMetadata :: "string \<Rightarrow> partialObjectMetadata result" where
  "decodePartialObjectMetadata raw = decodePartialObjectMetadataForScope raw True"

definition configurationTableColumn :: "(string \<times> string) list \<Rightarrow> string \<Rightarrow> nat result" where
  "configurationTableColumn columns name =
     (case filter (\<lambda>i. fst (columns ! i) = name) [0..<length columns] of
        [] \<Rightarrow> Inl (kube_upstream ''missing Kubernetes table column'')
      | [index] \<Rightarrow> Inr index
      | _ \<Rightarrow> Inl (kube_upstream ''duplicate Kubernetes table column''))"

text \<open>The type column is \<open>None\<close> where the code has -1.\<close>

definition decodeConfigurationTableRow ::
  "kubernetesTableRow \<Rightarrow> nat \<Rightarrow> nat option \<Rightarrow> configurationTableItem result" where
  "decodeConfigurationTableRow row dataColumn typeColumn =
     (if tr_Cells row = [] \<or> length (tr_Cells row) > maxTableColumns \<or> dataColumn \<ge> length (tr_Cells row)
         \<or> (case typeColumn of None \<Rightarrow> False | Some i \<Rightarrow> i \<ge> length (tr_Cells row))
      then Inl (kube_upstream ''invalid Kubernetes table row'')
      else case decodePartialObjectMetadata (tr_Object row) of
          Inl e \<Rightarrow> Inl e
        | Inr metadata \<Rightarrow>
            (case Unmarshal_value (tr_Cells row ! dataColumn) \<bind> set_int 0 of
               None \<Rightarrow> Inl (kube_upstream ''invalid Kubernetes table data count'')
             | Some dataCount \<Rightarrow>
                 if dataCount < 0 then Inl (kube_upstream ''invalid Kubernetes table data count'')
                 else
                   (let item = \<lparr>ti_Namespace = pm_Namespace metadata, ti_Name = pm_Name metadata, ti_Type = [],
                                ti_DataCount = dataCount, ti_CreatedAt = pm_CreationTimestamp metadata\<rparr>
                    in case typeColumn of
                         None \<Rightarrow> Inr item
                       | Some i \<Rightarrow>
                           (case Unmarshal_value (tr_Cells row ! i) \<bind> set_string [] of
                              None \<Rightarrow> Inl (kube_upstream ''invalid Kubernetes table type'')
                            | Some type \<Rightarrow>
                                if \<not> validTableString type then Inl (kube_upstream ''invalid Kubernetes table type'')
                                else Inr (item\<lparr>ti_Type := if type = [] then ''Opaque'' else type\<rparr>)))))"

section \<open>Reading tables\<close>

definition scoped_row :: "string \<Rightarrow> nat \<Rightarrow> nat option \<Rightarrow> kubernetesTableRow \<Rightarrow> configurationTableItem result" where
  "scoped_row expectedNamespace dataColumn typeColumn row =
     (case decodeConfigurationTableRow row dataColumn typeColumn of
        Inl e \<Rightarrow> Inl e
      | Inr item \<Rightarrow>
          if expectedNamespace \<noteq> [] \<and> ti_Namespace item \<noteq> expectedNamespace
          then Inl (kube_upstream ''Kubernetes table row exceeded namespace scope'') else Inr item)"

definition table_columns :: "bool \<Rightarrow> kubernetesTable \<Rightarrow> (nat \<times> nat option) result" where
  "table_columns includeType response =
     (case configurationTableColumn (tb_ColumnDefinitions response) ''Data'' of
        Inl e \<Rightarrow> Inl e
      | Inr dataColumn \<Rightarrow>
          if includeType
          then case configurationTableColumn (tb_ColumnDefinitions response) ''Type'' of
              Inl e \<Rightarrow> Inl e | Inr typeColumn \<Rightarrow> Inr (dataColumn, Some typeColumn)
          else Inr (dataColumn, None))"

definition item_before :: "configurationTableItem \<Rightarrow> configurationTableItem \<Rightarrow> bool" where
  "item_before a b \<longleftrightarrow>
     (if ti_Namespace a \<noteq> ti_Namespace b then ti_Namespace a < ti_Namespace b else ti_Name a < ti_Name b)"

fun table_loop ::
  "Client \<Rightarrow> string \<Rightarrow> string \<Rightarrow> bool \<Rightarrow> nat \<Rightarrow> url_values \<Rightarrow> configurationTableItem list \<Rightarrow> nat \<Rightarrow>
     configurationTableItem list kube" where
  "table_loop c path expectedNamespace includeType 0 query items totalBytes =
     kfail (kube_upstream ''Kubernetes table exceeded safe page limit'')"
| "table_loop c path expectedNamespace includeType (Suc pages) query items totalBytes =
     kthen (getPayload c path (Some query) kubernetesTableAccept maxResponseBytes False) (\<lambda>(payload, _).
     if int (length payload) > int maxListBytes - int totalBytes
     then kfail (kube_upstream ''Kubernetes table exceeded safe byte limit'')
     else
       kthen (kdecoded (kube_upstream ''decode Kubernetes table'') (table_page payload)) (\<lambda>response.
       if tb_APIVersion response \<noteq> ''meta.k8s.io/v1'' \<or> tb_Kind response \<noteq> ''Table''
          \<or> tb_ColumnDefinitions response = [] \<or> length (tb_ColumnDefinitions response) > maxTableColumns
       then kfail (kube_upstream ''unsupported Kubernetes table response'')
       else if int (length (tb_Rows response)) > int maxListItems - int (length items)
       then kfail (kube_upstream ''Kubernetes table exceeded safe item limit'')
       else
         kthen (kresult (table_columns includeType response)) (\<lambda>(dataColumn, typeColumn).
         kthen (kresult (decode_all (scoped_row expectedNamespace dataColumn typeColumn) (tb_Rows response))) (\<lambda>rows.
         if tb_Continue response = [] then kreturn (sort_slice item_before (items @ rows))
         else table_loop c path expectedNamespace includeType pages
                (query_Set ''continue'' (tb_Continue response) query) (items @ rows) (totalBytes + length payload)))))"

definition listConfigurationTable ::
  "Client \<Rightarrow> string \<Rightarrow> string \<Rightarrow> bool \<Rightarrow> configurationTableItem list kube" where
  "listConfigurationTable c path expectedNamespace includeType =
     table_loop c path expectedNamespace includeType maxListPages
       [(''includeObject'', ''Metadata''), (''limit'', listPageSize)] [] 0"

record KubernetesConfigMap =
  kp_Namespace :: string
  kp_Name :: string
  kp_DataCount :: int
  kp_CreatedAt :: gtime

definition kc_ConfigMaps :: "Client \<Rightarrow> string \<Rightarrow> KubernetesConfigMap list kube" where
  "kc_ConfigMaps c namespace =
     kguard (if namespace \<noteq> [] then ValidateNamespace namespace else None)
     (kthen (listConfigurationTable c
        (if namespace \<noteq> [] then ''/api/v1/namespaces/'' @ namespace @ ''/configmaps'' else ''/api/v1/configmaps'')
        namespace False) (\<lambda>items.
      kreturn (map (\<lambda>item. \<lparr>kp_Namespace = ti_Namespace item, kp_Name = ti_Name item,
        kp_DataCount = ti_DataCount item, kp_CreatedAt = ti_CreatedAt item\<rparr>) items)))"

definition kc_Secrets :: "Client \<Rightarrow> string \<Rightarrow> KubernetesSecret list kube" where
  "kc_Secrets c namespace =
     kguard (ValidateNamespace namespace)
     (kthen (listConfigurationTable c (''/api/v1/namespaces/'' @ namespace @ ''/secrets'') namespace True) (\<lambda>items.
      kreturn (map (\<lambda>item. \<lparr>ks_Namespace = ti_Namespace item, ks_Name = ti_Name item, ks_Type = ti_Type item,
        ks_DataCount = ti_DataCount item, ks_CreatedAt = ti_CreatedAt item\<rparr>) items)))"

end
