(* ===== verification/Kube_Reviews.thy ===== *)
theory Kube_Reviews
  imports Kube_Transport
begin

text \<open>
  Access reviews, of \<^verbatim>\<open>internal/kubernetes/client.go\<close> and \<^verbatim>\<open>access_review.go\<close>: what the panel's own
  credentials may do, and what a service account may do, asked from the API server.
\<close>

record capabilityReviewSpec =
  rs_key :: string
  rs_group :: string
  rs_resource :: string
  rs_subresource :: string
  rs_verb :: string
  rs_namespaced :: bool

definition review_spec :: "string \<Rightarrow> string \<Rightarrow> string \<Rightarrow> string \<Rightarrow> string \<Rightarrow> bool \<Rightarrow> capabilityReviewSpec" where
  "review_spec key apiGroup resource subresource verb namespaced =
     \<lparr>rs_key = key, rs_group = apiGroup, rs_resource = resource, rs_subresource = subresource, rs_verb = verb,
      rs_namespaced = namespaced\<rparr>"

definition capabilityReviewSpecs :: "capabilityReviewSpec list" where
  "capabilityReviewSpecs =
     [review_spec ''namespaces.list'' [] ''namespaces'' [] ''list'' False,
      review_spec ''nodes.list'' [] ''nodes'' [] ''list'' False,
      review_spec ''pods.list'' [] ''pods'' [] ''list'' True,
      review_spec ''pods.logs.get'' [] ''pods'' ''log'' ''get'' True,
      review_spec ''events.list'' [] ''events'' [] ''list'' True,
      review_spec ''deployments.list'' ''apps'' ''deployments'' [] ''list'' True,
      review_spec ''statefulsets.list'' ''apps'' ''statefulsets'' [] ''list'' True,
      review_spec ''daemonsets.list'' ''apps'' ''daemonsets'' [] ''list'' True,
      review_spec ''deployments.patch'' ''apps'' ''deployments'' [] ''patch'' True,
      review_spec ''deployments.scale.patch'' ''apps'' ''deployments'' ''scale'' ''patch'' True]"

text \<open>A struct is encoded field by field; \<^verbatim>\<open>omitempty\<close> leaves out empty strings.\<close>

definition omitempty :: "string \<Rightarrow> string \<Rightarrow> (string \<times> json) list" where
  "omitempty k s = (if s = [] then [] else [(k, JStr s)])"

definition capability_body :: "capabilityReviewSpec \<Rightarrow> string \<Rightarrow> json" where
  "capability_body review namespace =
     JObj [(''apiVersion'', JStr ''authorization.k8s.io/v1''), (''kind'', JStr ''SelfSubjectAccessReview''),
       (''spec'', JObj [(''resourceAttributes'', JObj
         (omitempty ''group'' (rs_group review) @ [(''resource'', JStr (rs_resource review))]
          @ omitempty ''subresource'' (rs_subresource review) @ [(''verb'', JStr (rs_verb review))]
          @ omitempty ''namespace'' (if rs_namespaced review then namespace else [])))])]"

definition capability_state :: "string \<Rightarrow> KubernetesCapabilityState option" where
  "capability_state payload = do {
     fs \<leftarrow> Unmarshal_fields payload;
     status \<leftarrow> f_struct ''status'' fs;
     allowed \<leftarrow> f_bool_ptr ''allowed'' status;
     denied \<leftarrow> f_bool ''denied'' status;
     evaluationError \<leftarrow> f_str ''evaluationError'' status;
     allowed \<leftarrow> allowed;
     Some (if allowed then KubernetesCapabilityAllowed
           else if \<not> denied \<and> evaluationError \<noteq> [] then KubernetesCapabilityIndeterminate
           else KubernetesCapabilityDenied)
   }"

fun capability_loop :: "Client \<Rightarrow> string \<Rightarrow> capabilityReviewSpec list \<Rightarrow> KubernetesCapability list kube" where
  "capability_loop c namespace [] = kreturn []"
| "capability_loop c namespace (review # reviews) =
     kthen (requestPayload c ''POST'' ''/apis/authorization.k8s.io/v1/selfsubjectaccessreviews'' None
        ''application/json'' ''application/json'' (Marshal (capability_body review namespace))
        maxCapabilityReviewBytes False) (\<lambda>(payload, _).
     kthen (kdecoded (kube_upstream ''decode Kubernetes capability review'') (capability_state payload)) (\<lambda>state.
     kthen (capability_loop c namespace reviews) (\<lambda>checks.
     kreturn (\<lparr>kc_Key = rs_key review, kc_State = state\<rparr> # checks))))"

definition kc_Capabilities :: "Client \<Rightarrow> string \<Rightarrow> KubernetesCapability list kube" where
  "kc_Capabilities c namespace =
     kguard (ValidateNamespace namespace) (capability_loop c namespace capabilityReviewSpecs)"

definition access_review_body :: "KubernetesServiceAccountAccessReviewInput \<Rightarrow> json" where
  "access_review_body input =
     (let account = sr_ServiceAccount input; attributes = sr_ResourceAttributes input in
      JObj [(''apiVersion'', JStr ''authorization.k8s.io/v1''), (''kind'', JStr ''SubjectAccessReview''),
        (''spec'', JObj
          [(''user'', JStr (''system:serviceaccount:'' @ sa_Namespace account @ '':'' @ sa_Name account)),
           (''groups'', JArr [JStr ''system:serviceaccounts'',
             JStr (''system:serviceaccounts:'' @ sa_Namespace account), JStr ''system:authenticated'']),
           (''resourceAttributes'', JObj
             (omitempty ''group'' (ra_Group attributes) @ [(''resource'', JStr (ra_Resource attributes))]
              @ omitempty ''subresource'' (ra_Subresource attributes) @ [(''verb'', JStr (ra_Verb attributes))]
              @ omitempty ''namespace'' (ra_Namespace attributes) @ omitempty ''name'' (ra_Name attributes)))])])"

definition access_review_state :: "string \<Rightarrow> KubernetesCapabilityState option" where
  "access_review_state payload = do {
     fs \<leftarrow> Unmarshal_fields payload;
     apiVersion \<leftarrow> f_str ''apiVersion'' fs;
     kind \<leftarrow> f_str ''kind'' fs;
     status \<leftarrow> f_struct ''status'' fs;
     allowed \<leftarrow> f_bool_ptr ''allowed'' status;
     denied \<leftarrow> f_bool ''denied'' status;
     allowed \<leftarrow> allowed;
     if apiVersion \<noteq> ''authorization.k8s.io/v1'' \<or> kind \<noteq> ''SubjectAccessReview'' \<or> (allowed \<and> denied) then None
     else Some (if allowed then KubernetesCapabilityAllowed
                else if denied then KubernetesCapabilityDenied else KubernetesCapabilityIndeterminate)
   }"

definition kc_ReviewServiceAccountAccess ::
  "Client \<Rightarrow> KubernetesServiceAccountAccessReviewInput \<Rightarrow> KubernetesCapabilityState kube" where
  "kc_ReviewServiceAccountAccess c input =
     kguard (ValidateServiceAccountAccessReviewInput input)
     (kthen (requestPayload c ''POST'' ''/apis/authorization.k8s.io/v1/subjectaccessreviews'' None
        ''application/json'' ''application/json'' (Marshal (access_review_body input))
        maxCapabilityReviewBytes False) (\<lambda>(payload, _).
      kdecoded (kube_upstream ''decode Kubernetes service account access review'') (access_review_state payload)))"

end
