(* ===== verification/Kube_Client.thy ===== *)
theory Kube_Client
  imports Kube_Events Kube_Tables Kube_Reviews "HOL-Library.Product_Lexorder"
begin

text \<open>
  What the Kubernetes client does as a whole: which requests its reads and its changes send,
  whatever the API server answers, and the bounds of what they return.
\<close>

section \<open>Reads\<close>

definition read_only :: "Client \<Rightarrow> kube_request \<Rightarrow> bool" where
  "read_only c request \<longleftrightarrow>
     kq_Method request = ''GET'' \<and> kq_Body request = [] \<and> kq_Authorization request = ''Bearer '' @ kc_token c"

interpretation reads: read_policy c "read_only c" for c
  by unfold_locales (simp add: read_only_def new_request_def)

lemma read_get: "read_only c (new_request c ''GET'' path query accept [] [])"
  by (simp add: read_only_def new_request_def)

lemma sends_let: "sends ok (f x) \<Longrightarrow> sends ok (let y = x in f y)"
  by simp

lemmas reads_rules = sends_rules sends_let reads.sends_getPayload reads.sends_getJSON reads.sends_listRaw
  reads.sends_listRawWithBudget

lemma sends_Namespaces: "sends (read_only c) (kc_Namespaces c)"
  unfolding kc_Namespaces_def by (intro reads_rules)

lemma sends_Nodes: "sends (read_only c) (kc_Nodes c)"
  unfolding kc_Nodes_def by (intro reads_rules)

lemma sends_NodeDetail: "sends (read_only c) (kc_NodeDetail c name)"
  unfolding kc_NodeDetail_def by (intro reads_rules)

lemma sends_workloads_loop: "sends (read_only c) (workloads_loop c namespace kind kinds budget)"
  by (induction kinds arbitrary: budget) (auto intro!: reads_rules)

lemma sends_Workloads: "sends (read_only c) (kc_Workloads c namespace kind)"
  unfolding kc_Workloads_def by (intro reads_rules sends_workloads_loop)

lemma sends_probe: "sends (read_only c) (probeResources c)"
  unfolding probeResources_def by (intro reads_rules sends_Namespaces sends_Nodes)

lemma sends_Summary: "sends (read_only c) (kc_Summary c)"
  unfolding kc_Summary_def by (intro reads_rules sends_probe sends_Workloads)

lemma sends_WorkloadDetail: "sends (read_only c) (kc_WorkloadDetail yaml c reference)"
  unfolding kc_WorkloadDetail_def by (intro reads_rules)

lemma sends_PodLogs: "sends (read_only c) (kc_PodLogs c input)"
  unfolding kc_PodLogs_def by (intro reads_rules)

lemma sends_event_loop: "sends (read_only c) (event_loop c path pages query items totalBytes)"
  by (induction pages arbitrary: query items totalBytes) (auto intro!: reads_rules)

lemma sends_Events: "sends (read_only c) (kc_Events c namespace eventType limit)"
  unfolding kc_Events_def listEventRaw_def by (intro reads_rules sends_event_loop)

lemma sends_NodeEvents: "sends (read_only c) (kc_NodeEvents c name limit)"
  unfolding kc_NodeEvents_def by (intro reads_rules)

lemma sends_WorkloadEvents: "sends (read_only c) (kc_WorkloadEvents c reference limit)"
  unfolding kc_WorkloadEvents_def by (intro reads_rules)

section \<open>Query strings\<close>

lemma upper_hex_char: "n < 16 \<Longrightarrow> upper_hex n \<noteq> CHR ''&'' \<and> upper_hex n \<noteq> CHR ''=''"
  by (auto simp: upper_hex_def dest!: arg_cong [where f = "of_char :: char \<Rightarrow> nat"])

lemma escaped_char:
  "set (if unreserved c then [c] else if c = CHR '' '' then ''+''
       else [CHR ''%'', upper_hex (of_char c div 16), upper_hex (of_char c mod 16)]) \<inter> {CHR ''&'', CHR ''=''} = {}"
proof -
  have "of_char c div 16 < (16::nat)" "of_char c mod 16 < (16::nat)"
    using less_mult_imp_div_less [of "of_char c" 16 16] nat_of_char_less_256 [of c] by simp_all
  from this [THEN upper_hex_char] have
    "{CHR ''%'', upper_hex (of_char c div 16), upper_hex (of_char c mod 16)} \<inter> {CHR ''&'', CHR ''=''} = {}" by simp
  moreover have "\<not> unreserved CHR ''&''" "\<not> unreserved CHR ''=''" by (simp_all add: unreserved_def)
  ultimately show ?thesis by auto
qed

lemma QueryEscape_chars: "CHR ''&'' \<notin> set (QueryEscape s) \<and> CHR ''='' \<notin> set (QueryEscape s)"
  using escaped_char unfolding QueryEscape_def by (simp only: set_concat set_map) blast

lemma sort_slice_empty [simp]: "sort_slice lt xs = [] \<longleftrightarrow> xs = []"
  by (metis length_0_conv length_sort_slice)

text \<open>The parameters of an encoded query are those that were put in, in the order of their keys.\<close>

lemma split_Encode:
  assumes "q \<noteq> []"
  shows "split_char (CHR ''&'') (Encode q)
     = map (\<lambda>(k, v). QueryEscape k @ ''='' @ QueryEscape v) (sort_slice (\<lambda>a b. fst a < fst b) q)"
  unfolding Encode_def
proof (rule split_char_join)
  show "map (\<lambda>(k, v). QueryEscape k @ ''='' @ QueryEscape v) (sort_slice (\<lambda>a b. fst a < fst b) q) \<noteq> []"
    using assms by simp
  show "\<forall>w \<in> set (map (\<lambda>(k, v). QueryEscape k @ ''='' @ QueryEscape v) (sort_slice (\<lambda>a b. fst a < fst b) q)).
      CHR ''&'' \<notin> set w"
    using QueryEscape_chars by auto
qed

lemma Encode_parameter:
  "(k, v) \<in> set q \<Longrightarrow> QueryEscape k @ ''='' @ QueryEscape v \<in> set (split_char (CHR ''&'') (Encode q))"
  by (cases "q = []") (force simp: split_Encode)+

section \<open>Tables\<close>

text \<open>A request for a table that holds the metadata of the objects and nothing else of them.\<close>

definition metadata_table :: "Client \<Rightarrow> kube_request \<Rightarrow> bool" where
  "metadata_table c request \<longleftrightarrow>
     read_only c request \<and> kq_Accept request = kubernetesTableAccept
     \<and> ''includeObject=Metadata'' \<in> set (split_char (CHR ''&'') (kq_RawQuery request))"

lemma metadata_query:
  assumes "(''includeObject'', ''Metadata'') \<in> set q"
  shows "metadata_table c (new_request c ''GET'' path (Some q) kubernetesTableAccept [] [])"
proof -
  have "QueryEscape ''includeObject'' @ ''='' @ QueryEscape ''Metadata'' = ''includeObject=Metadata''" by code_simp
  then show ?thesis
    using Encode_parameter [OF assms] read_get [of c path "Some q" kubernetesTableAccept]
    by (simp add: metadata_table_def new_request_def)
qed

lemma query_Set_keeps: "k \<noteq> k' \<Longrightarrow> (k, v) \<in> set q \<Longrightarrow> (k, v) \<in> set (query_Set k' v' q)"
  by (induction q) auto

lemma sends_table_loop:
  "(''includeObject'', ''Metadata'') \<in> set query \<Longrightarrow>
     sends (metadata_table c) (table_loop c path expectedNamespace includeType pages query items totalBytes)"
proof (induction pages arbitrary: query items totalBytes)
  case 0
  show ?case by (simp add: sends_fail)
next
  case (Suc pages)
  have "(''includeObject'', ''Metadata'') \<in> set (query_Set ''continue'' continue query)" for continue
    using Suc.prems by (rule query_Set_keeps [rotated]) simp
  moreover have "sends (metadata_table c) (getPayload c path (Some query) kubernetesTableAccept maxResponseBytes False)"
    unfolding getPayload_def by (rule sends_request) (rule metadata_query [OF Suc.prems])
  ultimately show ?case by (auto intro!: sends_rules Suc.IH)
qed

lemma table_loop_bound: "at_most pages (table_loop c path expectedNamespace includeType pages query items totalBytes)"
proof (induction pages arbitrary: query items totalBytes)
  case 0
  show ?case by (simp add: at_most_fail)
next
  case (Suc pages)
  show ?case
    unfolding table_loop.simps
    by (rule at_most_then [OF at_most_getPayload, where b = pages])
       (auto intro!: at_most_rules at_most_then [where a = 0] Suc.IH)
qed

lemma decode_all_set: "decode_all f xs = Inr ys \<Longrightarrow> length ys = length xs \<and> (\<forall>y \<in> set ys. \<exists>x \<in> set xs. f x = Inr y)"
  by (induction xs arbitrary: ys) (auto split: sum.splits)

lemma scoped_row_namespace:
  "scoped_row expectedNamespace dataColumn typeColumn row = Inr item \<Longrightarrow>
     expectedNamespace \<noteq> [] \<Longrightarrow> ti_Namespace item = expectedNamespace"
  by (auto simp: scoped_row_def split: sum.splits if_splits)

definition table_scope :: "string \<Rightarrow> configurationTableItem list \<Rightarrow> bool" where
  "table_scope expectedNamespace items \<longleftrightarrow>
     length items \<le> maxListItems
     \<and> (expectedNamespace \<noteq> [] \<longrightarrow> (\<forall>item \<in> set items. ti_Namespace item = expectedNamespace))"

lemma table_scope_rows:
  assumes "decode_all (scoped_row expectedNamespace dataColumn typeColumn) rows = Inr new"
    and "\<not> int (length rows) > int maxListItems - int (length items)" and "table_scope expectedNamespace items"
  shows "table_scope expectedNamespace (items @ new)"
  using decode_all_set [OF assms(1)] assms(2,3) scoped_row_namespace
  unfolding table_scope_def by fastforce

lemma table_scope_sort: "table_scope expectedNamespace (sort_slice lt items) = table_scope expectedNamespace items"
  by (simp add: table_scope_def)

lemma table_loop_result:
  "table_scope expectedNamespace items \<Longrightarrow>
     yields (table_scope expectedNamespace)
       (table_loop c path expectedNamespace includeType pages query items totalBytes)"
proof (induction pages arbitrary: query items totalBytes)
  case 0
  show ?case by (simp add: yields_fail)
next
  case (Suc pages)
  note rows = yields_then [where Q = "\<lambda>rows. table_scope expectedNamespace (items @ rows)", OF yields_result]
  show ?case
    unfolding table_loop.simps
    by (intro yields_then [OF yields_any] yields_rules rows)
       (simp_all add: table_scope_rows table_scope_sort Suc.prems Suc.IH)
qed

lemma sends_mono: "sends ok m \<Longrightarrow> (\<And>r. ok r \<Longrightarrow> ok' r) \<Longrightarrow> sends ok' m"
  unfolding sends_def list_all_iff by metis

lemma sends_read: "sends (metadata_table c) m \<Longrightarrow> sends (read_only c) m"
  by (erule sends_mono) (simp add: metadata_table_def)

lemma sends_metadata_tables:
  "sends (metadata_table c) (kc_ConfigMaps c namespace)" "sends (metadata_table c) (kc_Secrets c namespace)"
  unfolding kc_ConfigMaps_def kc_Secrets_def listConfigurationTable_def
  by (intro sends_rules sends_table_loop; simp)+

text \<open>The reviews of access: a POST to one of the two review endpoints, which store nothing.\<close>

definition review_only :: "Client \<Rightarrow> kube_request \<Rightarrow> bool" where
  "review_only c request \<longleftrightarrow>
     kq_Method request = ''POST'' \<and> kq_RawQuery request = [] \<and> kq_Authorization request = ''Bearer '' @ kc_token c
     \<and> kq_Path request \<in> (\<lambda>endpoint. trim_right_char (CHR ''/'') (kc_basePath c) @ endpoint) `
         {''/apis/authorization.k8s.io/v1/selfsubjectaccessreviews'', ''/apis/authorization.k8s.io/v1/subjectaccessreviews''}"

lemma sends_Capabilities: "sends (review_only c) (kc_Capabilities c namespace)"
proof -
  have "sends (review_only c) (capability_loop c namespace reviews)" for reviews
  proof (induction reviews)
    case (Cons review reviews)
    show ?case
      unfolding capability_loop.simps
      by (intro sends_rules sends_request Cons.IH) (simp_all add: review_only_def new_request_def)
  qed (simp add: sends_return)
  then show ?thesis unfolding kc_Capabilities_def by (intro sends_rules)
qed

lemma sends_ReviewServiceAccountAccess: "sends (review_only c) (kc_ReviewServiceAccountAccess c review)"
  unfolding kc_ReviewServiceAccountAccess_def
  by (intro sends_rules sends_request) (simp_all add: review_only_def new_request_def)

text \<open>
  (C19) The basic reads of a cluster change nothing in it. Whatever the API server answers, every
  request that these twelve operations pass to \<^verbatim>\<open>http.Client.Do\<close> is a GET without a body that carries
  the client's own token: the lists of namespaces, nodes and workloads, the details of a node and of a
  workload, the events of a node, of a workload and of the cluster, the logs of a pod, the tables of
  ConfigMaps and Secrets, and the summary. The capability scan and the access review, which the service
  also runs as reads, send POSTs to the two review endpoints of the authorization API and nothing else.
\<close>

theorem reads_send_only_gets:
  "sends (read_only c) (kc_Namespaces c) \<and> sends (read_only c) (kc_Nodes c)
   \<and> sends (read_only c) (kc_NodeDetail c name) \<and> sends (read_only c) (kc_NodeEvents c name limit)
   \<and> sends (read_only c) (kc_Workloads c namespace kind) \<and> sends (read_only c) (kc_WorkloadDetail yaml c reference)
   \<and> sends (read_only c) (kc_WorkloadEvents c reference limit) \<and> sends (read_only c) (kc_Events c namespace eventType limit)
   \<and> sends (read_only c) (kc_PodLogs c input) \<and> sends (read_only c) (kc_ConfigMaps c namespace)
   \<and> sends (read_only c) (kc_Secrets c namespace) \<and> sends (read_only c) (kc_Summary c)
   \<and> sends (review_only c) (kc_Capabilities c namespace) \<and> sends (review_only c) (kc_ReviewServiceAccountAccess c review)"
  by (intro conjI sends_Namespaces sends_Nodes sends_NodeDetail sends_NodeEvents sends_Workloads sends_WorkloadDetail
      sends_WorkloadEvents sends_Events sends_PodLogs sends_read [OF sends_metadata_tables(1)]
      sends_read [OF sends_metadata_tables(2)] sends_Summary sends_Capabilities sends_ReviewServiceAccountAccess)

lemma partial_metadata_keys:
  "case decodePartialObjectMetadataForScope raw namespaced of
     Inl e \<Rightarrow> True
   | Inr metadata \<Rightarrow> (case Unmarshal_fields raw of
         None \<Rightarrow> False | Some fs \<Rightarrow> list_all (\<lambda>(k, v). k \<in> {''apiVersion'', ''kind'', ''metadata''}) fs)"
  by (auto simp: decodePartialObjectMetadataForScope_def list_ex_iff list_all_iff split: sum.splits option.splits if_splits)

text \<open>
  (C22) The data of a Secret never reaches the panel. Every request of the list of Secrets asks
  for a table with the metadata of the objects only, a row whose object has any member besides
  its metadata is refused, and the Secrets returned lie in the namespace asked for; the list is
  read in at most 20 requests and has at most 5000 entries.
\<close>

theorem secrets_read_metadata_only:
  "sends (metadata_table c) (kc_Secrets c namespace) \<and> at_most 20 (kc_Secrets c namespace)
   \<and> yields (\<lambda>secrets. length secrets \<le> 5000 \<and> list_all (\<lambda>secret. ks_Namespace secret = namespace) secrets)
       (kc_Secrets c namespace)
   \<and> (case decodePartialObjectMetadata raw of
        Inl e \<Rightarrow> True
      | Inr metadata \<Rightarrow> (case Unmarshal_fields raw of
            None \<Rightarrow> False | Some fs \<Rightarrow> list_all (\<lambda>(k, v). k \<in> {''apiVersion'', ''kind'', ''metadata''}) fs))"
proof (intro conjI)
  show "sends (metadata_table c) (kc_Secrets c namespace)" by (rule sends_metadata_tables)
  show "at_most 20 (kc_Secrets c namespace)"
    unfolding kc_Secrets_def listConfigurationTable_def
    by (intro at_most_rules at_most_then [OF table_loop_bound, where b = 0]) (simp_all add: maxListPages_def)
  have nonempty: "ValidateNamespace [] \<noteq> None" by code_simp
  show "yields (\<lambda>secrets. length secrets \<le> 5000 \<and> list_all (\<lambda>secret. ks_Namespace secret = namespace) secrets)
       (kc_Secrets c namespace)"
    unfolding kc_Secrets_def listConfigurationTable_def
  proof (rule yields_guard, rule yields_then)
    show "yields (table_scope namespace) (table_loop c (''/api/v1/namespaces/'' @ namespace @ ''/secrets'') namespace True
        maxListPages [(''includeObject'', ''Metadata''), (''limit'', listPageSize)] [] 0)"
      by (rule table_loop_result) (simp add: table_scope_def)
  next
    fix items
    assume "ValidateNamespace namespace = None" "table_scope namespace items"
    moreover from this nonempty have "namespace \<noteq> []" by metis
    ultimately show "yields (\<lambda>secrets. length secrets \<le> 5000 \<and> list_all (\<lambda>secret. ks_Namespace secret = namespace) secrets)
      (kreturn (map (\<lambda>item. \<lparr>ks_Namespace = ti_Namespace item, ks_Name = ti_Name item, ks_Type = ti_Type item,
        ks_DataCount = ti_DataCount item, ks_CreatedAt = ti_CreatedAt item\<rparr>) items))"
      by (intro yields_return) (simp add: table_scope_def maxListItems_def list_all_iff)
  qed
qed (simp add: decodePartialObjectMetadata_def partial_metadata_keys)

section \<open>Events\<close>

lemma event_loop_bound: "at_most pages (event_loop c path pages query items totalBytes)"
proof (induction pages arbitrary: query items totalBytes)
  case 0
  show ?case by (simp add: at_most_fail)
next
  case (Suc pages)
  show ?case
    unfolding event_loop.simps
    by (rule at_most_then [OF at_most_getPayload, where b = pages])
       (auto intro!: at_most_rules at_most_then [where a = 0] Suc.IH)
qed

lemma bounded_loop_length: "length out \<le> maxEventMessageBytes \<Longrightarrow> length (fst (bounded_loop out pending rs)) \<le> maxEventMessageBytes"
  by (induction out pending rs rule: bounded_loop.induct) (auto simp: Let_def)

lemma boundedEventMessage_length: "length (fst (boundedEventMessage message)) \<le> maxEventMessageBytes"
  by (simp add: boundedEventMessage_def bounded_loop_length)

lemma event_field_Inr: "event_field what scalar allowEmpty k = Inr e \<Longrightarrow> \<exists>s. k s = Inr e"
  by (auto simp: event_field_def split: sum.splits)

lemma projectEvent_message:
  assumes "projectEvent r = Inr e"
  shows "length (kv_Message e) \<le> maxEventMessageBytes"
  using assms boundedEventMessage_length [of "er_Message r"] unfolding projectEvent_def
  by (auto simp: Let_def dest!: event_field_Inr split: if_splits prod.splits)

lemma decodeEvent_message: "decodeEvent item = Inr e \<Longrightarrow> length (kv_Message e) \<le> maxEventMessageBytes"
  by (auto simp: decodeEvent_def projectEvent_message split: option.splits)

abbreviation newest_first :: "KubernetesEvent list \<Rightarrow> bool" where
  "newest_first \<equiv> sorted_wrt (\<lambda>a b. \<not> kube_event_before b a)"

lemma sorted_by_key:
  fixes key :: "'a \<Rightarrow> 'k :: linorder"
  assumes "\<And>a b. lt a b \<longleftrightarrow> key a < key b"
  shows "sorted_wrt (\<lambda>a b. \<not> lt b a) (sort_slice lt xs)"
  by (rule sorted_sort_slice) (auto simp: assms)

lemma newest_first_sort: "newest_first (sort_slice kube_event_before events)"
  by (rule sorted_by_key [where key = "\<lambda>e. (- firstNonZeroTime [kv_LastSeen e, kv_CreatedAt e], kv_Namespace e, kv_Name e)"])
     (auto simp: kube_event_before_def Let_def less_le simp del: firstNonZeroTime.simps)

lemma decodeEvents_spec:
  assumes "decodeEvents items limit = Inr events"
  shows "newest_first events \<and> (\<forall>e \<in> set events. length (kv_Message e) \<le> maxEventMessageBytes)"
proof -
  from assms obtain all where all: "decode_all decodeEvent items = Inr all"
    and events: "\<exists>n. events = take n (sort_slice kube_event_before all)"
    unfolding decodeEvents_def Let_def by (auto split: sum.splits if_splits) (metis take_all order_refl)
  have "length (kv_Message e) \<le> maxEventMessageBytes" if "e \<in> set all" for e
    using decode_all_set [OF all] decodeEvent_message that by blast
  then show ?thesis
    using events newest_first_sort [of all] by (auto simp: sorted_wrt_take dest: in_set_takeD)
qed

lemma check_events_None:
  "check_events namespace eventType events = None \<Longrightarrow> event \<in> set events \<Longrightarrow>
     (namespace \<noteq> [] \<longrightarrow> kv_Namespace event = namespace) \<and> (eventType \<noteq> [] \<longrightarrow> kv_Type event = eventType)"
  by (induction namespace eventType events rule: check_events.induct) (auto split: if_splits)

definition events_as_asked :: "string \<Rightarrow> string \<Rightarrow> int \<Rightarrow> KubernetesEvent list \<Rightarrow> bool" where
  "events_as_asked namespace eventType limit events \<longleftrightarrow>
     int (length events) \<le> limit
     \<and> list_all (\<lambda>e. (namespace = [] \<or> kv_Namespace e = namespace) \<and> (eventType = [] \<or> kv_Type e = eventType)
         \<and> length (kv_Message e) \<le> 1024) events
     \<and> newest_first events"

lemma events_cut:
  assumes "decodeEvents items n = Inr events" and "check_events namespace eventType events = None" and "0 \<le> limit"
  shows "events_as_asked namespace eventType limit (if int (length events) > limit then take (nat limit) events else events)"
proof -
  have all: "(namespace = [] \<or> kv_Namespace e = namespace) \<and> (eventType = [] \<or> kv_Type e = eventType)
      \<and> length (kv_Message e) \<le> 1024" if "e \<in> set events" for e
    using decodeEvents_spec [OF assms(1)] check_events_None [OF assms(2) that] that
    by (auto simp: maxEventMessageBytes_def)
  show ?thesis
    using decodeEvents_spec [OF assms(1)] assms(3) all
    by (simp add: events_as_asked_def list_all_iff sorted_wrt_take) (blast dest: in_set_takeD)
qed

text \<open>
  (C23) The events of a cluster are read within bounds and only as asked for: at most eight GETs,
  at most as many events as the limit, none of another namespace or type when one was given, each
  with a message of at most 1024 bytes, and the newest first, so that the limit cuts off only
  older ones.
\<close>

theorem events_bounded_and_scoped:
  "at_most 8 (kc_Events c namespace eventType limit)
   \<and> yields (events_as_asked namespace eventType limit) (kc_Events c namespace eventType limit)"
proof (intro conjI)
  show "at_most 8 (kc_Events c namespace eventType limit)"
    unfolding kc_Events_def listEventRaw_def
    by (intro at_most_rules at_most_then [OF event_loop_bound, where b = 0] at_most_then [OF at_most_result, where b = 0])
       (simp_all add: maxEventListPages_def)
  have "ValidateKubernetesEventList namespace eventType limit = None \<Longrightarrow> 0 \<le> limit"
    by (auto simp: ValidateKubernetesEventList_def split: option.splits if_splits)
  then show "yields (events_as_asked namespace eventType limit) (kc_Events c namespace eventType limit)"
    unfolding kc_Events_def
    by (intro yields_guard yields_return yields_then [OF yields_any] yields_then [OF yields_result])
       (assumption, rule events_cut, simp_all)
qed

section \<open>Workloads\<close>

lemma listRawWithBudget_run:
  assumes "listRawWithBudget c path query budget log = (log', r)" and "lb_bytes budget \<le> maxListBytes"
  shows "length log' \<le> length log + (maxListPages - lb_pages budget)
    \<and> (case r of
         Inl e \<Rightarrow> True
       | Inr (items, budget') \<Rightarrow>
           lb_pages budget' + length log = lb_pages budget + length log' \<and> lb_pages budget' \<le> max (lb_pages budget) maxListPages
           \<and> lb_items budget' = lb_items budget + length items \<and> lb_items budget' \<le> maxListItems
           \<and> lb_bytes budget' \<le> maxListBytes)"
proof -
  let ?query = "query_Set ''limit'' listPageSize (case query of None \<Rightarrow> [] | Some q \<Rightarrow> q)"
  obtain qs where "log' = log @ map (page_request c path) qs" "length qs \<le> maxListPages - lb_pages budget"
      "list_outcome budget [] (length qs) r"
    using list_loop_run [of c path ?query "[]" budget log] assms unfolding listRawWithBudget_def by auto
  then show ?thesis by (auto simp: list_outcome_def split: sum.splits)
qed

text \<open>All kinds of workloads together stay within one budget.\<close>

lemma workloads_loop_run:
  assumes "lb_bytes budget \<le> maxListBytes" and "lb_items budget \<le> maxListItems" and "lb_pages budget \<le> maxListPages"
  shows "length (fst (workloads_loop c namespace kind kinds budget log)) \<le> length log + (maxListPages - lb_pages budget)
    \<and> (case snd (workloads_loop c namespace kind kinds budget log) of
         Inl e \<Rightarrow> True | Inr workloads \<Rightarrow> lb_items budget + length workloads \<le> maxListItems)"
  using assms
proof (induction kinds arbitrary: budget log)
  case Nil
  then show ?case by (simp add: kreturn_def)
next
  case (Cons resourceKind kinds)
  obtain log1 r where list: "listRawWithBudget c (workloadPaths namespace resourceKind) None budget log = (log1, r)"
    by fastforce
  note run = listRawWithBudget_run [OF list Cons.prems(1)]
  consider (skip) "kind \<noteq> [] \<and> kind \<noteq> resourceKind"
    | (failed) e where "kind = [] \<or> kind = resourceKind" "r = Inl e"
    | (listed) items budget' where "kind = [] \<or> kind = resourceKind" "r = Inr (items, budget')"
    by (cases r) auto
  then show ?case
  proof cases
    case skip
    then show ?thesis using Cons by simp
  next
    case failed
    then show ?thesis using list run by (auto simp: kthen_def)
  next
    case listed
    have budget': "lb_bytes budget' \<le> maxListBytes" "lb_items budget' \<le> maxListItems" "lb_pages budget' \<le> maxListPages"
      using run listed(2) Cons.prems by auto
    show ?thesis
      using Cons.IH [OF budget', of log1] list listed run decode_all_set [of "decodeWorkload resourceKind" items]
      by (auto simp: kthen_def kresult_def kreturn_def split: sum.splits prod.splits)
  qed
qed

text \<open>
  (C20) Reading the workloads ends and is bounded, whatever the API server answers, even when it
  hands out continuation tokens forever: deployments, stateful sets, daemon sets, jobs, cron jobs
  and pods share one budget, so all their pages together are at most 20 requests and all workloads
  together are at most 5000; they come sorted by namespace, kind and name.
\<close>

theorem workloads_bounded:
  "at_most 20 (kc_Workloads c namespace kind)
   \<and> yields (\<lambda>workloads. length workloads \<le> 5000 \<and> sorted_wrt (\<lambda>a b. \<not> workload_before b a) workloads)
       (kc_Workloads c namespace kind)"
proof (intro conjI)
  have run: "length (fst (workloads_loop c namespace k workloadKinds newListBudget log)) \<le> length log + 20
    \<and> (case snd (workloads_loop c namespace k workloadKinds newListBudget log) of
         Inl e \<Rightarrow> True | Inr workloads \<Rightarrow> length workloads \<le> 5000)" for k log
    using workloads_loop_run [of newListBudget c namespace k workloadKinds log]
    by (auto simp: newListBudget_def maxListPages_def maxListItems_def split: sum.splits)
  have sends: "at_most 20 (workloads_loop c namespace k workloadKinds newListBudget)"
    and short: "yields (\<lambda>workloads. length workloads \<le> 5000) (workloads_loop c namespace k workloadKinds newListBudget)" for k
    using run [of k] unfolding at_most_def yields_def by (auto split: sum.splits) (metis sum.case(2))
  show "at_most 20 (kc_Workloads c namespace kind)"
    unfolding kc_Workloads_def Let_def
    by (intro at_most_guard at_most_then [OF sends at_most_return, where b = 0]) simp
  have sorted: "sorted_wrt (\<lambda>a b. \<not> workload_before b a) (sort_slice workload_before workloads)" for workloads
    by (rule sorted_by_key [where key = "\<lambda>w. (wl_Namespace w, wl_Kind w, wl_Name w)"])
       (auto simp: workload_before_def less_le)
  show "yields (\<lambda>workloads. length workloads \<le> 5000 \<and> sorted_wrt (\<lambda>a b. \<not> workload_before b a) workloads)
       (kc_Workloads c namespace kind)"
    unfolding kc_Workloads_def Let_def
    by (intro yields_guard yields_then [OF short] yields_return) (simp add: sorted)
qed

section \<open>Image changes\<close>

abbreviation image_get :: "Client \<Rightarrow> WorkloadImageChange \<Rightarrow> kube_request" where
  "image_get c change \<equiv> new_request c ''GET'' (workloadResourcePath (wc_Reference change)) None ''application/json'' [] []"

abbreviation image_patch_request :: "Client \<Rightarrow> WorkloadImageChange \<Rightarrow> bool \<Rightarrow> kube_request" where
  "image_patch_request c change dryRun \<equiv>
     new_request c ''PATCH'' (workloadResourcePath (wc_Reference change)) (if dryRun then Some [(''dryRun'', ''All'')] else None)
       ''application/json'' ''application/strategic-merge-patch+json'' (Marshal (image_patch change))"

text \<open>The deployment as the server showed it is the one that the change was made for.\<close>

definition image_current :: "WorkloadImageChange \<Rightarrow> http_outcome \<Rightarrow> bool" where
  "image_current change outcome \<longleftrightarrow>
     (case outcome of
        DoFailed e \<Rightarrow> False
      | Responded status body broken \<Rightarrow>
          200 \<le> status \<and> status < 300 \<and>
          (case workloadDetail body of
             None \<Rightarrow> False
           | Some current \<Rightarrow>
               om_ResourceVersion (wx_Metadata current) = wc_ResourceVersion change
               \<and> containerImage (wx_TemplateContainers current) (wc_Container change) = Some (wc_CurrentImage change)))"

definition image_requests :: "Client \<Rightarrow> WorkloadImageChange \<Rightarrow> bool \<Rightarrow> kube_request list \<Rightarrow> kube_request list \<Rightarrow> bool" where
  "image_requests c change dryRun log log' \<longleftrightarrow>
     log' = log \<or> ValidateWorkloadImageChange change = None \<and>
       (log' = log @ [image_get c change]
        \<or> log' = log @ [image_get c change, image_patch_request c change dryRun]
          \<and> image_current change (kc_do c log (image_get c change)))"

lemma read_limited_all: "read_limited maxBytes False body broken = Inr (payload, short) \<Longrightarrow> payload = body"
  by (auto simp: read_limited_def Let_def split: if_splits)

lemma requestPayload_Inr:
  assumes "requestPayload c method path query accept contentType body maxBytes False log = (log', Inr (payload, short))"
  shows "log' = log @ [new_request c method path query accept contentType body]
    \<and> (\<exists>status broken. kc_do c log (new_request c method path query accept contentType body)
         = Responded status payload broken \<and> 200 \<le> status \<and> status < 300)"
  using assms
  by (auto simp: requestPayload_def Let_def dest!: read_limited_all split: http_outcome.splits if_splits option.splits)

lemma kthen_quiet:
  assumes "\<And>x log. fst (f x log) = log"
  shows "fst (kthen m f log) = fst (m log)"
  using assms by (auto simp: kthen_def split: prod.splits sum.splits)

lemma patchDeploymentImage_requests: "image_requests c change dryRun log (fst (patchDeploymentImage c change dryRun log))"
proof (cases "ValidateWorkloadImageChange change")
  case (Some e)
  then show ?thesis by (simp add: patchDeploymentImage_def kguard_def kfail_def image_requests_def)
next
  case None
  let ?get = "requestPayload c ''GET'' (workloadResourcePath (wc_Reference change)) None ''application/json'' [] [] maxMutationBytes False"
  obtain log1 r where get: "?get log = (log1, r)" by fastforce
  show ?thesis
  proof (cases r)
    case (Inl e)
    then show ?thesis using None get requestPayload_log [OF get]
      by (auto simp: patchDeploymentImage_def kguard_def kthen_def image_requests_def Let_def)
  next
    case (Inr pc)
    obtain payload short where pc: "pc = (payload, short)" by fastforce
    then have log1: "log1 = log @ [image_get c change]"
      and "\<exists>status broken. kc_do c log (image_get c change) = Responded status payload broken \<and> 200 \<le> status \<and> status < 300"
      using requestPayload_Inr get Inr by blast+
    then obtain status broken where answer: "kc_do c log (image_get c change) = Responded status payload broken"
        "200 \<le> status" "status < 300"
      by blast
    show ?thesis
      using None get log1 Inr pc answer
      by (auto simp: patchDeploymentImage_def Let_def kguard_def kthen_def kdecoded_def kfail_def kreturn_def image_requests_def
          image_current_def split: option.splits sum.splits prod.splits dest!: requestPayload_log)
  qed
qed

text \<open>
  (C18) An image change is optimistic: the client patches a deployment only after a GET that
  the API server answered with the resource version and the container image that the change was
  made for, at the same path; a change that does not validate sends nothing at all. A preview
  sends its patch as a dry run.
\<close>

theorem image_change_is_guarded:
  "image_requests c (normalizeWorkloadImageChange change) False log (fst (kc_UpdateWorkloadImage c change log))
   \<and> image_requests c (normalizeWorkloadImageChange change) True log (fst (kc_PreviewWorkloadImage c change log))"
proof -
  have "fst (kc_UpdateWorkloadImage c change log) = fst (patchDeploymentImage c (normalizeWorkloadImageChange change) False log)"
    unfolding kc_UpdateWorkloadImage_def Let_def
    by (intro kthen_quiet) (simp add: kthen_def kresult_def kfail_def split: sum.split)
  moreover have "fst (kc_PreviewWorkloadImage c change log) = fst (patchDeploymentImage c (normalizeWorkloadImageChange change) True log)"
    unfolding kc_PreviewWorkloadImage_def Let_def
    by (intro kthen_quiet) (simp add: kthen_def kresult_def kfail_def kreturn_def split: sum.split)
  ultimately show ?thesis using patchDeploymentImage_requests by metis
qed

text \<open>The API server answered with a deployment whose container runs the image.\<close>

definition shows_image :: "string \<Rightarrow> string \<Rightarrow> http_outcome \<Rightarrow> bool" where
  "shows_image container expected outcome \<longleftrightarrow>
     (case outcome of
        DoFailed e \<Rightarrow> False
      | Responded status body broken \<Rightarrow>
          200 \<le> status \<and> status < 300 \<and>
          (case workloadDetail body of
             None \<Rightarrow> False | Some shown \<Rightarrow> containerImage (wx_TemplateContainers shown) container = Some expected))"

text \<open>The two requests of a change, and what the API server answered to them.\<close>

definition image_confirmed :: "Client \<Rightarrow> WorkloadImageChange \<Rightarrow> bool \<Rightarrow> kube_request list \<Rightarrow> kube_request list \<Rightarrow> bool" where
  "image_confirmed c change dryRun log log' \<longleftrightarrow>
     log' = log @ [image_get c change, image_patch_request c change dryRun]
     \<and> shows_image (wc_Container change) (wc_CurrentImage change) (kc_do c log (image_get c change))
     \<and> shows_image (wc_Container change) (wc_Image change)
         (kc_do c (log @ [image_get c change]) (image_patch_request c change dryRun))"

lemma image_current_shows: "image_current change outcome \<Longrightarrow> shows_image (wc_Container change) (wc_CurrentImage change) outcome"
  by (auto simp: image_current_def shows_image_def split: http_outcome.splits option.splits)

lemma patchDeploymentImage_confirmed:
  assumes "patchDeploymentImage c change dryRun log = (log', Inr payload)"
  shows "log' = log @ [image_get c change, image_patch_request c change dryRun]
    \<and> (\<exists>status broken. kc_do c (log @ [image_get c change]) (image_patch_request c change dryRun)
         = Responded status payload broken \<and> 200 \<le> status \<and> status < 300)"
proof -
  let ?path = "workloadResourcePath (wc_Reference change)"
  obtain log1 current short answer short' where
    get: "requestPayload c ''GET'' ?path None ''application/json'' [] [] maxMutationBytes False log = (log1, Inr (current, short))"
    and patch: "requestPayload c ''PATCH'' ?path (if dryRun then Some [(''dryRun'', ''All'')] else None) ''application/json''
        ''application/strategic-merge-patch+json'' (Marshal (image_patch change)) maxMutationBytes False log1
      = (log', Inr (payload, short'))"
    using assms
    by (auto simp: patchDeploymentImage_def Let_def kguard_def kthen_def kdecoded_def kfail_def kreturn_def
        split: option.split_asm sum.split_asm prod.split_asm if_split_asm)
  show ?thesis using requestPayload_Inr [OF get] requestPayload_Inr [OF patch] by simp
qed

lemma kthen_result:
  assumes "kthen m f log = (log', Inr y)"
  obtains x mid where "m log = (mid, Inr x)" "f x mid = (log', Inr y)"
  using assms by (auto simp: kthen_def split: prod.split_asm sum.split_asm)

lemma kresult_result: "kresult r log = (log', Inr x) \<Longrightarrow> log' = log \<and> r = Inr x"
  by (simp add: kresult_def)

lemma UpdateWorkloadImage_result:
  assumes "kc_UpdateWorkloadImage c change log = (log', Inr workload)"
  defines "ch \<equiv> normalizeWorkloadImageChange change"
  shows "\<exists>payload. patchDeploymentImage c ch False log = (log', Inr payload)
    \<and> deploymentContainerImage payload (wc_Container ch) = Inr (Some (wc_Image ch))"
  using assms(1) unfolding kc_UpdateWorkloadImage_def Let_def ch_def [symmetric]
  by (auto elim!: kthen_result dest!: kresult_result simp: kfail_def split: if_split_asm)

lemma PreviewWorkloadImage_result:
  assumes "kc_PreviewWorkloadImage c change log = (log', Inr preview)"
  defines "ch \<equiv> normalizeWorkloadImageChange change"
  shows "\<exists>payload. patchDeploymentImage c ch True log = (log', Inr payload)
    \<and> deploymentContainerImage payload (wc_Container ch) = Inr (Some (wc_Image ch))
    \<and> ip_Namespace preview = wr_Namespace (wc_Reference ch) \<and> ip_Name preview = wr_Name (wc_Reference ch)
    \<and> ip_Container preview = wc_Container ch \<and> ip_ResourceVersion preview = wc_ResourceVersion ch
    \<and> (\<exists>name. ip_Changes preview = [\<lparr>fc_Field = name, fc_Before = wc_CurrentImage ch, fc_After = wc_Image ch\<rparr>])"
  using assms(1) unfolding kc_PreviewWorkloadImage_def Let_def ch_def [symmetric]
  by (auto elim!: kthen_result dest!: kresult_result simp: kfail_def kreturn_def split: if_split_asm)

text \<open>
  (C24) Success is only reported for a change that the API server confirmed. When an update or a preview
  of an image returns a result, the client has sent exactly the GET and the PATCH, the answer to the GET
  showed the image that the change replaces, and the answer to the PATCH showed the requested image in
  the named container. A preview names the deployment, the container, the resource version and the two
  images that these answers showed.
\<close>

theorem image_change_is_confirmed:
  "(case kc_UpdateWorkloadImage c change log of
      (log', Inl e) \<Rightarrow> True
    | (log', Inr workload) \<Rightarrow> image_confirmed c (normalizeWorkloadImageChange change) False log log')
   \<and> (case kc_PreviewWorkloadImage c change log of
      (log', Inl e) \<Rightarrow> True
    | (log', Inr preview) \<Rightarrow>
        image_confirmed c (normalizeWorkloadImageChange change) True log log'
        \<and> ip_Namespace preview = wr_Namespace (wc_Reference change) \<and> ip_Name preview = wr_Name (wc_Reference change)
        \<and> ip_Container preview = wc_Container change \<and> ip_ResourceVersion preview = trim_space (wc_ResourceVersion change)
        \<and> map (\<lambda>field. (fc_Before field, fc_After field)) (ip_Changes preview) = [(wc_CurrentImage change, wc_Image change)])"
proof -
  let ?ch = "normalizeWorkloadImageChange change"
  have confirmed: "image_confirmed c ?ch dryRun log log'"
    if run: "patchDeploymentImage c ?ch dryRun log = (log', Inr payload)"
      and shown: "deploymentContainerImage payload (wc_Container ?ch) = Inr (Some (wc_Image ?ch))" for dryRun log' payload
  proof -
    note sent = patchDeploymentImage_confirmed [OF run]
    have "image_requests c ?ch dryRun log log'" using patchDeploymentImage_requests [of c ?ch dryRun log] run by simp
    then have "image_current ?ch (kc_do c log (image_get c ?ch))" using sent by (auto simp: image_requests_def)
    moreover have "shows_image (wc_Container ?ch) (wc_Image ?ch) (kc_do c (log @ [image_get c ?ch]) (image_patch_request c ?ch dryRun))"
      using sent shown by (auto simp: shows_image_def deploymentContainerImage_def split: option.splits)
    ultimately show ?thesis using sent image_current_shows unfolding image_confirmed_def by blast
  qed
  have "image_confirmed c ?ch False log log'" if "kc_UpdateWorkloadImage c change log = (log', Inr workload)" for log' workload
    using UpdateWorkloadImage_result [OF that] confirmed by blast
  moreover have "image_confirmed c ?ch True log log'
      \<and> ip_Namespace preview = wr_Namespace (wc_Reference change) \<and> ip_Name preview = wr_Name (wc_Reference change)
      \<and> ip_Container preview = wc_Container change \<and> ip_ResourceVersion preview = trim_space (wc_ResourceVersion change)
      \<and> map (\<lambda>field. (fc_Before field, fc_After field)) (ip_Changes preview) = [(wc_CurrentImage change, wc_Image change)]"
    if "kc_PreviewWorkloadImage c change log = (log', Inr preview)" for log' preview
  proof -
    from PreviewWorkloadImage_result [OF that] confirmed have "image_confirmed c ?ch True log log'" by blast
    then show ?thesis using PreviewWorkloadImage_result [OF that] by (auto simp: normalizeWorkloadImageChange_def)
  qed
  ultimately show ?thesis
    by (simp split: prod.split sum.split)
qed

end
