(* ===== verification/Kube_Inventory.thy ===== *)
theory Kube_Inventory
  imports Kube_Client
begin

text \<open>
  The bounded lists of \<^verbatim>\<open>internal/kubernetes\<close>. The files of this package list one kind of
  object each with the same loop, written out per file: pages with a limit on their number, on the
  items and on the bytes, a check of every row, of duplicate identities and of the continuation
  token. The loop is modelled once; what a file fills in is a record of type \<open>inventory\<close>.
\<close>

section \<open>The loop\<close>

text \<open>
  Where the sum of the bytes is limited: before a page is read, only by the limit of the page
  itself, or after it was read.
\<close>

datatype byte_check = BytesBefore | BytesWithin | BytesAfter

record ('r, 'i) inventory =
  iv_path :: string
  iv_accept :: string
  iv_query :: url_values
  iv_maxPages :: nat
  iv_maxItems :: nat
  iv_maxBytes :: nat
  iv_pageBytes :: nat
  iv_check :: byte_check
  iv_page :: "string \<Rightarrow> (string \<times> 'r list \<times> ('r \<Rightarrow> 'i result) result) result"
    \<comment> \<open>continuation token, rows, and how to decode a row\<close>
  iv_weight :: "'r \<Rightarrow> nat"
  iv_maxWeight :: nat
  iv_identity :: "'i \<Rightarrow> string"
  iv_unique :: bool
  iv_tokens :: bool
  iv_tokensOnce :: bool
  iv_stopFull :: bool
    \<comment> \<open>a full list is not continued\<close>
  iv_before :: "'i \<Rightarrow> 'i \<Rightarrow> bool"
  iv_list :: string
  iv_name :: string
  iv_duplicate :: string

text \<open>All continuation tokens are checked alike, by a function per file.\<close>

definition validContinue :: "string \<Rightarrow> bool" where
  "validContinue token \<longleftrightarrow>
     token \<noteq> [] \<and> length token \<le> 16 * 1024 \<and> token = trim_space token \<and> \<not> index_func is_control token"

fun inventory_rows ::
  "('r, 'i) inventory \<Rightarrow> ('r \<Rightarrow> 'i result) \<Rightarrow> 'r list \<Rightarrow> 'i list \<Rightarrow> nat \<Rightarrow> ('i list \<times> nat) result" where
  "inventory_rows iv decode [] items weight = Inr (items, weight)"
| "inventory_rows iv decode (row # rows) items weight =
     (if weight + iv_weight iv row > iv_maxWeight iv
      then Inl (kube_upstream (iv_list iv @ '' exceeded safe condition limit''))
      else case decode row of
          Inl e \<Rightarrow> Inl e
        | Inr item \<Rightarrow>
            if iv_unique iv \<and> iv_identity iv item \<in> iv_identity iv ` set items
            then Inl (kube_upstream (''duplicate '' @ iv_duplicate iv))
            else inventory_rows iv decode rows (items @ [item]) (weight + iv_weight iv row))"

text \<open>A page: its rows appended to the items before it.\<close>

definition inventory_page ::
  "('r, 'i) inventory \<Rightarrow> string \<Rightarrow> 'i list \<Rightarrow> nat \<Rightarrow> (string \<times> 'i list \<times> nat) result" where
  "inventory_page iv payload items weight =
     (case iv_page iv payload of
        Inl e \<Rightarrow> Inl e
      | Inr (continue, rows, decoder) \<Rightarrow>
          if int (length rows) > int (iv_maxItems iv) - int (length items)
          then Inl (kube_upstream (iv_list iv @ '' exceeded safe item limit''))
          else case decoder of
              Inl e \<Rightarrow> Inl e
            | Inr decode \<Rightarrow>
                (case inventory_rows iv decode rows items weight of
                   Inl e \<Rightarrow> Inl e | Inr (items, weight) \<Rightarrow> Inr (continue, items, weight)))"

primrec inventory_loop ::
  "Client \<Rightarrow> ('r, 'i) inventory \<Rightarrow> nat \<Rightarrow> url_values \<Rightarrow> 'i list \<Rightarrow> nat \<Rightarrow> nat \<Rightarrow> string list \<Rightarrow> 'i list kube" where
  "inventory_loop c iv 0 query items weight totalBytes seen =
     kfail (kube_upstream (iv_list iv @ '' exceeded safe page limit''))"
| "inventory_loop c iv (Suc pages) query items weight totalBytes seen =
     (if iv_check iv = BytesBefore \<and> iv_maxBytes iv \<le> totalBytes
      then kfail (kube_upstream (iv_list iv @ '' exceeded safe byte limit''))
      else
        kthen (getPayload c (iv_path iv) (Some query) (iv_accept iv)
           (if iv_check iv = BytesAfter then iv_pageBytes iv else min (iv_maxBytes iv - totalBytes) (iv_pageBytes iv)) False) (\<lambda>(payload, _).
        if iv_check iv = BytesAfter \<and> int (length payload) > int (iv_maxBytes iv) - int totalBytes
        then kfail (kube_upstream (iv_list iv @ '' exceeded safe byte limit''))
        else
          kthen (kresult (inventory_page iv payload items weight)) (\<lambda>(continue, items, weight).
          if continue = [] then kreturn (sort_slice (iv_before iv) items)
          else if iv_tokens iv \<and> \<not> validContinue continue
          then kfail (kube_upstream (''invalid '' @ iv_name iv @ '' continuation token''))
          else if iv_tokensOnce iv \<and> continue \<in> set seen
          then kfail (kube_upstream (''repeated '' @ iv_name iv @ '' continuation token''))
          else if iv_stopFull iv \<and> iv_maxItems iv \<le> length items
          then kfail (kube_upstream (iv_list iv @ '' exceeded safe item limit''))
          else inventory_loop c iv pages (query_Set ''continue'' continue query) items weight
                 (totalBytes + length payload) (continue # seen))))"

definition list_inventory :: "Client \<Rightarrow> ('r, 'i) inventory \<Rightarrow> 'i list kube" where
  "list_inventory c iv = inventory_loop c iv (iv_maxPages iv) (iv_query iv) [] 0 0 []"

section \<open>What it sends and returns\<close>

lemma sends_list_inventory: "sends (read_only c) (list_inventory c iv)"
proof -
  have "sends (read_only c) (inventory_loop c iv pages query items weight totalBytes seen)"
    for pages query items weight totalBytes seen
  proof (induction pages arbitrary: query items weight totalBytes seen)
    case 0
    show ?case by (simp add: sends_fail)
  next
    case (Suc pages)
    show ?case unfolding inventory_loop.simps by (intro reads_rules Suc.IH)
  qed
  then show ?thesis by (simp add: list_inventory_def)
qed

lemma at_most_list_inventory: "at_most (iv_maxPages iv) (list_inventory c iv)"
proof -
  have "at_most pages (inventory_loop c iv pages query items weight totalBytes seen)"
    for pages query items weight totalBytes seen
  proof (induction pages arbitrary: query items weight totalBytes seen)
    case 0
    show ?case by (simp add: at_most_fail)
  next
    case (Suc pages)
    show ?case
      unfolding inventory_loop.simps
      by (rule at_most_if [OF at_most_fail], rule at_most_then [OF at_most_getPayload, where b = pages])
         (auto intro!: at_most_rules at_most_then [where a = 0] Suc.IH)
  qed
  then show ?thesis by (simp add: list_inventory_def)
qed

lemma distinct_map_mset: "mset xs = mset ys \<Longrightarrow> distinct (map f xs) = distinct (map f ys)"
  by (metis mset_map mset_eq_imp_distinct_iff)

definition listed :: "('r, 'i) inventory \<Rightarrow> ('i \<Rightarrow> bool) \<Rightarrow> 'i list \<Rightarrow> bool" where
  "listed iv good items \<longleftrightarrow>
     length items \<le> iv_maxItems iv \<and> list_all good items
     \<and> (if iv_unique iv then distinct (map (iv_identity iv) items) else True)"

text \<open>
  A source of rows: every row that the list accepts has become an item with a property, and the
  items are ordered by a key. Such a list returns at most as many items as allowed, all with the
  property, no identity twice, in order.
\<close>

locale inventory_source =
  fixes iv :: "('r, 'i) inventory" and good :: "'i \<Rightarrow> bool" and key :: "'i \<Rightarrow> 'k :: linorder"
  assumes accepted: "iv_page iv payload = Inr (continue, rows, Inr decode) \<Longrightarrow> decode row = Inr item \<Longrightarrow> good item"
    and ordered: "iv_before iv a b \<longleftrightarrow> key a < key b"
begin

lemma rows_listed:
  assumes "inventory_rows iv decode rows items weight = Inr (items', weight')"
    and "\<And>row item. decode row = Inr item \<Longrightarrow> good item"
    and "length items + length rows \<le> iv_maxItems iv" and "listed iv good items"
  shows "listed iv good items'"
  using assms(1,3,4)
proof (induction rows arbitrary: items weight)
  case (Cons row rows)
  from Cons.prems(1) obtain item where item: "decode row = Inr item"
      "\<not> (iv_unique iv \<and> iv_identity iv item \<in> iv_identity iv ` set items)"
      "inventory_rows iv decode rows (items @ [item]) (weight + iv_weight iv row) = Inr (items', weight')"
    by (auto split: if_splits sum.splits)
  moreover have "listed iv good (items @ [item])"
    using Cons.prems(2,3) item(1,2) assms(2) by (auto simp: listed_def split: if_splits)
  ultimately show ?case using Cons.IH Cons.prems(2) by auto
qed simp

lemma page_listed:
  "inventory_page iv payload items weight = Inr (continue, items', weight') \<Longrightarrow> listed iv good items \<Longrightarrow> listed iv good items'"
  by (auto simp: inventory_page_def dest: accepted elim!: rows_listed split: sum.splits if_splits prod.splits)

lemma listed_sort: "listed iv good (sort_slice lt items) \<longleftrightarrow> listed iv good items"
  using distinct_map_mset [of "sort_slice lt items" items "iv_identity iv"] by (simp add: listed_def list_all_iff)

lemma yields_loop:
  "listed iv good items \<Longrightarrow>
     yields (\<lambda>items. listed iv good items \<and> sorted_wrt (\<lambda>a b. \<not> iv_before iv b a) items)
       (inventory_loop c iv pages query items weight totalBytes seen)"
proof (induction pages arbitrary: query items weight totalBytes seen)
  case 0
  show ?case by (simp add: yields_fail)
next
  case (Suc pages)
  note step = yields_then [where Q = "\<lambda>(continue, items, weight). listed iv good items", OF yields_result]
  show ?case
    unfolding inventory_loop.simps
    by (intro yields_if yields_fail yields_then [OF yields_any] yields_case_prod step)
       (auto simp: listed_sort sorted_by_key [OF ordered] intro!: yields_rules Suc.IH dest: page_listed [OF _ Suc.prems])
qed

lemma yields_list_inventory:
  "yields (\<lambda>items. listed iv good items \<and> sorted_wrt (\<lambda>a b. \<not> iv_before iv b a) items) (list_inventory c iv)"
  unfolding list_inventory_def by (rule yields_loop) (simp add: listed_def)

end

end
