(* ===== verification/Kube_Classes.thy ===== *)
theory Kube_Classes
  imports Kube_Inventory
begin

text \<open>
  Cluster-scoped classes and drivers, of \<^verbatim>\<open>priority_class.go\<close>, \<^verbatim>\<open>runtime_class.go\<close> and
  \<^verbatim>\<open>csi_driver.go\<close>: they are listed by their metadata alone and read one by one, with every field
  checked.
\<close>

section \<open>Metadata lists\<close>

definition kubernetesPartialMetadataListAccept :: string where
  "kubernetesPartialMetadataListAccept = ''application/json;as=PartialObjectMetadataList;g=meta.k8s.io;v=v1''"

text \<open>\<^verbatim>\<open>partialObjectMetadataList\<close> has the fields of a page of events.\<close>

definition metadata_list ::
  "string \<Rightarrow> (string \<Rightarrow> 'i result) \<Rightarrow> string \<Rightarrow> (string \<times> string list \<times> (string \<Rightarrow> 'i result) result) result" where
  "metadata_list what decode payload =
     (case event_page payload of
        None \<Rightarrow> Inl (kube_upstream (''decode Kubernetes '' @ what @ '' metadata list''))
      | Some (apiVersion, kind, continue, items) \<Rightarrow>
          if apiVersion \<noteq> ''meta.k8s.io/v1'' \<or> kind \<noteq> ''PartialObjectMetadataList''
          then Inl (kube_upstream (''unsupported Kubernetes '' @ what @ '' metadata list''))
          else Inr (continue, items, Inr decode))"

definition metadata_inventory ::
  "string \<Rightarrow> string \<Rightarrow> (string \<Rightarrow> 'i result) \<Rightarrow> ('i \<Rightarrow> string) \<Rightarrow> (string, 'i) inventory" where
  "metadata_inventory what path decode identity =
     \<lparr>iv_path = path, iv_accept = kubernetesPartialMetadataListAccept, iv_query = [(''limit'', ''250'')],
      iv_maxPages = 4, iv_maxItems = 1000, iv_maxBytes = 4 * 1024 * 1024, iv_pageBytes = 4 * 1024 * 1024,
      iv_check = BytesBefore, iv_page = metadata_list what decode, iv_weight = (\<lambda>_. 0), iv_maxWeight = 0,
      iv_identity = identity, iv_unique = True, iv_tokens = True, iv_tokensOnce = True, iv_stopFull = False,
      iv_before = (\<lambda>a b. identity a < identity b), iv_list = ''Kubernetes '' @ what @ '' list'', iv_name = ''Kubernetes '' @ what,
      iv_duplicate = ''Kubernetes '' @ what @ '' metadata identity''\<rparr>"

text \<open>The name and the creation time of an object without a namespace, once its name is valid.\<close>

definition named_metadata ::
  "string \<Rightarrow> (string \<Rightarrow> go_error option) \<Rightarrow> (string \<Rightarrow> gtime \<Rightarrow> 'i) \<Rightarrow> string \<Rightarrow> 'i result" where
  "named_metadata what validate project raw =
     (case decodePartialObjectMetadataForScope raw False of
        Inl e \<Rightarrow> Inl e
      | Inr metadata \<Rightarrow>
          if validate (pm_Name metadata) \<noteq> None
          then Inl (kube_upstream (''invalid Kubernetes '' @ what @ '' metadata identity''))
          else Inr (project (pm_Name metadata) (pm_CreationTimestamp metadata)))"

text \<open>What the sources of all details begin with.\<close>

record sourceHeader =
  sh_APIVersion :: string
  sh_Kind :: string
  sh_Name :: string
  sh_Namespace :: string
  sh_CreationTimestamp :: gtime

definition sourceHeader_of :: "fields \<Rightarrow> sourceHeader option" where
  "sourceHeader_of fs = do {
     apiVersion \<leftarrow> f_str ''apiVersion'' fs;
     kind \<leftarrow> f_str ''kind'' fs;
     metadata \<leftarrow> f_struct ''metadata'' fs;
     name \<leftarrow> f_str ''name'' metadata;
     namespace \<leftarrow> f_str ''namespace'' metadata;
     created \<leftarrow> f_time ''creationTimestamp'' metadata;
     Some \<lparr>sh_APIVersion = apiVersion, sh_Kind = kind, sh_Name = name, sh_Namespace = namespace,
           sh_CreationTimestamp = created\<rparr>
   }"

text \<open>It is the cluster-scoped object that was asked for.\<close>

definition cluster_object :: "sourceHeader \<Rightarrow> string \<Rightarrow> string \<Rightarrow> string \<Rightarrow> (string \<Rightarrow> go_error option) \<Rightarrow> bool" where
  "cluster_object h apiVersion kind expectedName validate \<longleftrightarrow>
     sh_APIVersion h = apiVersion \<and> sh_Kind h = kind \<and> sh_Name h = expectedName \<and> sh_Namespace h = []
     \<and> sh_CreationTimestamp h \<noteq> zero_time \<and> validate (sh_Name h) = None"

text \<open>Reading one object: its name is checked, its text is bounded.\<close>

definition get_detail ::
  "Client \<Rightarrow> go_error option \<Rightarrow> string \<Rightarrow> nat \<Rightarrow> (string \<Rightarrow> 'd result) \<Rightarrow> 'd kube" where
  "get_detail c err path maxBytes decode =
     kguard err
     (kthen (getPayload c path None ''application/json'' maxBytes False) (\<lambda>(payload, _). kresult (decode payload)))"

section \<open>Priority classes\<close>

record KubernetesPriorityClass =
  pc_Name :: string
  pc_CreatedAt :: gtime

datatype KubernetesPriorityClassPreemptionPolicy = PriorityClassPreemptNever | PriorityClassPreemptLower

record KubernetesPriorityClassDetail =
  pd_Class :: KubernetesPriorityClass
  pd_Value :: int
  pd_GlobalDefault :: bool
  pd_PreemptionPolicy :: KubernetesPriorityClassPreemptionPolicy
  pd_PreemptionPolicyDefaulted :: bool

record priorityClassSource =
  ps_Header :: sourceHeader
  ps_Value :: "int option"
  ps_GlobalDefault :: bool
  ps_PreemptionPolicy :: "string option"

definition priorityClassSource_of :: "fields \<Rightarrow> priorityClassSource option" where
  "priorityClassSource_of fs = do {
     header \<leftarrow> sourceHeader_of fs;
     priority \<leftarrow> f_int32_ptr ''value'' fs;
     globalDefault \<leftarrow> f_bool ''globalDefault'' fs;
     policy \<leftarrow> f_str_ptr ''preemptionPolicy'' fs;
     Some \<lparr>ps_Header = header, ps_Value = priority, ps_GlobalDefault = globalDefault, ps_PreemptionPolicy = policy\<rparr>
   }"

definition priorityClassCollectionPath :: string where
  "priorityClassCollectionPath = ''/apis/scheduling.k8s.io/v1/priorityclasses''"

definition priorityClasses :: "(string, KubernetesPriorityClass) inventory" where
  "priorityClasses = metadata_inventory ''PriorityClass'' priorityClassCollectionPath
     (named_metadata ''PriorityClass'' ValidatePriorityClassName (\<lambda>name created. \<lparr>pc_Name = name, pc_CreatedAt = created\<rparr>))
     pc_Name"

definition kc_PriorityClasses :: "Client \<Rightarrow> KubernetesPriorityClass list kube" where
  "kc_PriorityClasses c = list_inventory c priorityClasses"

definition preemption_policy :: "string option \<Rightarrow> KubernetesPriorityClassPreemptionPolicy result" where
  "preemption_policy policy =
     (case policy of
        None \<Rightarrow> Inr PriorityClassPreemptLower
      | Some s \<Rightarrow>
          if s = ''Never'' then Inr PriorityClassPreemptNever
          else if s = ''PreemptLowerPriority'' then Inr PriorityClassPreemptLower
          else Inl (kube_upstream ''invalid Kubernetes PriorityClass preemption policy''))"

definition decodePriorityClass :: "string \<Rightarrow> string \<Rightarrow> KubernetesPriorityClassDetail result" where
  "decodePriorityClass payload expectedName =
     (case Unmarshal_fields payload \<bind> priorityClassSource_of of
        None \<Rightarrow> Inl (kube_upstream ''decode Kubernetes PriorityClass detail'')
      | Some source \<Rightarrow>
          (case ps_Value source of
             None \<Rightarrow> Inl (kube_upstream ''invalid Kubernetes PriorityClass identity'')
           | Some priority \<Rightarrow>
               if \<not> cluster_object (ps_Header source) ''scheduling.k8s.io/v1'' ''PriorityClass'' expectedName ValidatePriorityClassName
               then Inl (kube_upstream ''invalid Kubernetes PriorityClass identity'')
               else case preemption_policy (ps_PreemptionPolicy source) of
                   Inl e \<Rightarrow> Inl e
                 | Inr policy \<Rightarrow>
                     Inr \<lparr>pd_Class = \<lparr>pc_Name = sh_Name (ps_Header source), pc_CreatedAt = sh_CreationTimestamp (ps_Header source)\<rparr>,
                          pd_Value = priority, pd_GlobalDefault = ps_GlobalDefault source, pd_PreemptionPolicy = policy,
                          pd_PreemptionPolicyDefaulted = (ps_PreemptionPolicy source = None)\<rparr>))"

definition kc_PriorityClass :: "Client \<Rightarrow> string \<Rightarrow> KubernetesPriorityClassDetail kube" where
  "kc_PriorityClass c name =
     get_detail c (ValidatePriorityClassName name) (priorityClassCollectionPath @ ''/'' @ name) (1024 * 1024)
       (\<lambda>payload. decodePriorityClass payload name)"

section \<open>Runtime classes\<close>

record KubernetesRuntimeClass =
  ru_Name :: string
  ru_CreatedAt :: gtime

record KubernetesRuntimeClassDetail =
  rd_Class :: KubernetesRuntimeClass
  rd_Handler :: string
  rd_OverheadConfigured :: bool
  rd_PodOverheadCPU :: "string option"
  rd_PodOverheadMemory :: "string option"
  rd_OverheadResourceCount :: nat
  rd_SchedulingConfigured :: bool
  rd_NodeSelectorCount :: nat
  rd_TolerationCount :: nat

text \<open>Members of a list of which only the number is kept must be objects.\<close>

definition counted_object :: "json \<Rightarrow> unit option" where
  "counted_object v = (case v of JObj kvs \<Rightarrow> Some () | _ \<Rightarrow> None)"

record runtimeClassSource =
  rc_Header :: sourceHeader
  rc_Handler :: string
  rc_Overhead :: "(string \<times> string) list option"
  rc_Scheduling :: "((string \<times> string) list \<times> nat) option"

definition f_pointer :: "(fields \<Rightarrow> 'a option) \<Rightarrow> string \<Rightarrow> fields \<Rightarrow> 'a option option" where
  "f_pointer decode name fs = do {
     p \<leftarrow> f_struct_ptr name fs;
     case p of None \<Rightarrow> Some None | Some inner \<Rightarrow> map_option Some (decode inner)
   }"

definition f_count :: "(json \<Rightarrow> 'a option) \<Rightarrow> string \<Rightarrow> fields \<Rightarrow> nat option" where
  "f_count decode name fs = map_option length (json_field (set_slice decode) [] name fs)"

definition runtimeClassSource_of :: "fields \<Rightarrow> runtimeClassSource option" where
  "runtimeClassSource_of fs = do {
     header \<leftarrow> sourceHeader_of fs;
     handler \<leftarrow> f_str ''handler'' fs;
     overhead \<leftarrow> f_pointer (f_str_map ''podFixed'') ''overhead'' fs;
     scheduling \<leftarrow> f_pointer (\<lambda>inner. do {
         selector \<leftarrow> f_str_map ''nodeSelector'' inner;
         tolerations \<leftarrow> f_count counted_object ''tolerations'' inner;
         Some (selector, tolerations)
       }) ''scheduling'' fs;
     Some \<lparr>rc_Header = header, rc_Handler = handler, rc_Overhead = overhead, rc_Scheduling = scheduling\<rparr>
   }"

definition runtimeClassCollectionPath :: string where
  "runtimeClassCollectionPath = ''/apis/node.k8s.io/v1/runtimeclasses''"

definition runtimeClasses :: "(string, KubernetesRuntimeClass) inventory" where
  "runtimeClasses = metadata_inventory ''RuntimeClass'' runtimeClassCollectionPath
     (named_metadata ''RuntimeClass'' ValidateRuntimeClassName (\<lambda>name created. \<lparr>ru_Name = name, ru_CreatedAt = created\<rparr>))
     ru_Name"

definition kc_RuntimeClasses :: "Client \<Rightarrow> KubernetesRuntimeClass list kube" where
  "kc_RuntimeClasses c = list_inventory c runtimeClasses"

definition validRuntimeClassScalar :: "string \<Rightarrow> bool \<Rightarrow> bool" where
  "validRuntimeClassScalar s allowEmpty \<longleftrightarrow>
     (allowEmpty \<or> s \<noteq> []) \<and> length s \<le> 512 \<and> valid_utf8 s \<and> s = trim_space s \<and> \<not> index_func is_control s"

definition runtime_overhead ::
  "(string \<times> string) list option \<Rightarrow> KubernetesRuntimeClassDetail \<Rightarrow> KubernetesRuntimeClassDetail result" where
  "runtime_overhead overhead detail =
     (case overhead of
        None \<Rightarrow> Inr detail
      | Some podFixed \<Rightarrow>
          if length podFixed > 64 then Inl (kube_upstream ''Kubernetes RuntimeClass overhead exceeded safe limit'')
          else if \<not> list_all (\<lambda>(name, quantity). validRuntimeClassScalar name False \<and> validRuntimeClassScalar quantity False) podFixed
          then Inl (kube_upstream ''invalid Kubernetes RuntimeClass overhead'')
          else Inr (detail\<lparr>rd_OverheadConfigured := True, rd_OverheadResourceCount := length podFixed,
                           rd_PodOverheadCPU := map_of podFixed ''cpu'', rd_PodOverheadMemory := map_of podFixed ''memory''\<rparr>))"

definition runtime_scheduling ::
  "((string \<times> string) list \<times> nat) option \<Rightarrow> KubernetesRuntimeClassDetail \<Rightarrow> KubernetesRuntimeClassDetail result" where
  "runtime_scheduling scheduling detail =
     (case scheduling of
        None \<Rightarrow> Inr detail
      | Some (nodeSelector, tolerations) \<Rightarrow>
          if length nodeSelector > 256 \<or> tolerations > 256
          then Inl (kube_upstream ''Kubernetes RuntimeClass scheduling exceeded safe limit'')
          else if \<not> list_all (\<lambda>(key, label). validRuntimeClassScalar key False \<and> validRuntimeClassScalar label True) nodeSelector
          then Inl (kube_upstream ''invalid Kubernetes RuntimeClass node selector'')
          else Inr (detail\<lparr>rd_SchedulingConfigured := True, rd_NodeSelectorCount := length nodeSelector,
                           rd_TolerationCount := tolerations\<rparr>))"

definition decodeRuntimeClass :: "string \<Rightarrow> string \<Rightarrow> KubernetesRuntimeClassDetail result" where
  "decodeRuntimeClass payload expectedName =
     (case Unmarshal_fields payload \<bind> runtimeClassSource_of of
        None \<Rightarrow> Inl (kube_upstream ''decode Kubernetes RuntimeClass detail'')
      | Some source \<Rightarrow>
          if \<not> cluster_object (rc_Header source) ''node.k8s.io/v1'' ''RuntimeClass'' expectedName ValidateRuntimeClassName
             \<or> ValidateRuntimeClassHandler (rc_Handler source) \<noteq> None
          then Inl (kube_upstream ''invalid Kubernetes RuntimeClass identity'')
          else
            let detail = \<lparr>rd_Class = \<lparr>ru_Name = sh_Name (rc_Header source), ru_CreatedAt = sh_CreationTimestamp (rc_Header source)\<rparr>,
                  rd_Handler = rc_Handler source, rd_OverheadConfigured = False, rd_PodOverheadCPU = None,
                  rd_PodOverheadMemory = None, rd_OverheadResourceCount = 0, rd_SchedulingConfigured = False,
                  rd_NodeSelectorCount = 0, rd_TolerationCount = 0\<rparr>
            in case runtime_overhead (rc_Overhead source) detail of
                 Inl e \<Rightarrow> Inl e
               | Inr detail \<Rightarrow> runtime_scheduling (rc_Scheduling source) detail)"

definition kc_RuntimeClass :: "Client \<Rightarrow> string \<Rightarrow> KubernetesRuntimeClassDetail kube" where
  "kc_RuntimeClass c name =
     get_detail c (ValidateRuntimeClassName name) (runtimeClassCollectionPath @ ''/'' @ name) (1024 * 1024)
       (\<lambda>payload. decodeRuntimeClass payload name)"

section \<open>CSI drivers\<close>

record KubernetesCSIDriver =
  cd_Name :: string
  cd_CreatedAt :: gtime

datatype KubernetesCSIFSGroupPolicy =
    CSIFSGroupPolicyReadWriteOnceWithFSType | CSIFSGroupPolicyFile | CSIFSGroupPolicyNone

datatype KubernetesCSIVolumeLifecycleMode = CSIVolumeLifecyclePersistent | CSIVolumeLifecycleEphemeral

record KubernetesCSIDriverDetail =
  dd_Driver :: KubernetesCSIDriver
  dd_AttachRequired :: bool
  dd_PodInfoOnMount :: bool
  dd_StorageCapacity :: bool
  dd_RequiresRepublish :: bool
  dd_SELinuxMount :: bool
  dd_FSGroupPolicy :: KubernetesCSIFSGroupPolicy
  dd_VolumeLifecycleModes :: "KubernetesCSIVolumeLifecycleMode list"
  dd_TokenRequestCount :: nat

record csiDriverSource =
  ds_Header :: sourceHeader
  ds_AttachRequired :: "bool option"
  ds_PodInfoOnMount :: "bool option"
  ds_StorageCapacity :: "bool option"
  ds_RequiresRepublish :: "bool option"
  ds_SELinuxMount :: "bool option"
  ds_FSGroupPolicy :: "string option"
  ds_VolumeLifecycleModes :: "string list"
  ds_TokenRequests :: nat

definition csiDriverSource_of :: "fields \<Rightarrow> csiDriverSource option" where
  "csiDriverSource_of fs = do {
     header \<leftarrow> sourceHeader_of fs;
     spec \<leftarrow> f_struct ''spec'' fs;
     attach \<leftarrow> f_bool_ptr ''attachRequired'' spec;
     podInfo \<leftarrow> f_bool_ptr ''podInfoOnMount'' spec;
     storageCapacity \<leftarrow> f_bool_ptr ''storageCapacity'' spec;
     republish \<leftarrow> f_bool_ptr ''requiresRepublish'' spec;
     seLinux \<leftarrow> f_bool_ptr ''seLinuxMount'' spec;
     policy \<leftarrow> f_str_ptr ''fsGroupPolicy'' spec;
     modes \<leftarrow> f_strs ''volumeLifecycleModes'' spec;
     tokens \<leftarrow> f_count counted_object ''tokenRequests'' spec;
     Some \<lparr>ds_Header = header, ds_AttachRequired = attach, ds_PodInfoOnMount = podInfo,
           ds_StorageCapacity = storageCapacity, ds_RequiresRepublish = republish, ds_SELinuxMount = seLinux,
           ds_FSGroupPolicy = policy, ds_VolumeLifecycleModes = modes, ds_TokenRequests = tokens\<rparr>
   }"

definition csiDriverCollectionPath :: string where
  "csiDriverCollectionPath = ''/apis/storage.k8s.io/v1/csidrivers''"

definition csiDrivers :: "(string, KubernetesCSIDriver) inventory" where
  "csiDrivers = metadata_inventory ''CSIDriver'' csiDriverCollectionPath
     (named_metadata ''CSIDriver'' ValidateCSIDriverName (\<lambda>name created. \<lparr>cd_Name = name, cd_CreatedAt = created\<rparr>))
     cd_Name"

definition kc_CSIDrivers :: "Client \<Rightarrow> KubernetesCSIDriver list kube" where
  "kc_CSIDrivers c = list_inventory c csiDrivers"

definition normalizeCSIFSGroupPolicy :: "string \<Rightarrow> KubernetesCSIFSGroupPolicy result" where
  "normalizeCSIFSGroupPolicy s =
     (if s = ''ReadWriteOnceWithFSType'' then Inr CSIFSGroupPolicyReadWriteOnceWithFSType
      else if s = ''File'' then Inr CSIFSGroupPolicyFile
      else if s = ''None'' then Inr CSIFSGroupPolicyNone
      else Inl (kube_upstream ''invalid Kubernetes CSIDriver FSGroupPolicy''))"

definition lifecycle_mode :: "string \<Rightarrow> KubernetesCSIVolumeLifecycleMode option" where
  "lifecycle_mode s =
     (if s = ''Persistent'' then Some CSIVolumeLifecyclePersistent
      else if s = ''Ephemeral'' then Some CSIVolumeLifecycleEphemeral else None)"

fun lifecycle_modes ::
  "string list \<Rightarrow> KubernetesCSIVolumeLifecycleMode list \<Rightarrow> KubernetesCSIVolumeLifecycleMode list result" where
  "lifecycle_modes [] seen = Inr seen"
| "lifecycle_modes (s # ss) seen =
     (case lifecycle_mode s of
        None \<Rightarrow> Inl (kube_upstream ''invalid Kubernetes CSIDriver volume lifecycle mode'')
      | Some mode \<Rightarrow>
          if mode \<in> set seen then Inl (kube_upstream ''duplicate Kubernetes CSIDriver volume lifecycle mode'')
          else lifecycle_modes ss (mode # seen))"

definition normalizeCSIVolumeLifecycleModes :: "string list \<Rightarrow> KubernetesCSIVolumeLifecycleMode list result" where
  "normalizeCSIVolumeLifecycleModes modes =
     (if modes = [] \<or> length modes > 2
      then Inl (kube_upstream ''invalid Kubernetes CSIDriver volume lifecycle modes'')
      else case lifecycle_modes modes [] of
          Inl e \<Rightarrow> Inl e
        | Inr seen \<Rightarrow>
            Inr (filter (\<lambda>mode. mode \<in> set seen) [CSIVolumeLifecyclePersistent, CSIVolumeLifecycleEphemeral]))"

definition decodeCSIDriver :: "string \<Rightarrow> string \<Rightarrow> KubernetesCSIDriverDetail result" where
  "decodeCSIDriver payload expectedName =
     (case Unmarshal_fields payload \<bind> csiDriverSource_of of
        None \<Rightarrow> Inl (kube_upstream ''decode Kubernetes CSIDriver detail'')
      | Some source \<Rightarrow>
          (case (ds_AttachRequired source, ds_PodInfoOnMount source, ds_StorageCapacity source,
                 ds_RequiresRepublish source, ds_FSGroupPolicy source) of
             (Some attach, Some podInfo, Some storageCapacity, Some republish, Some policy) \<Rightarrow>
               if \<not> cluster_object (ds_Header source) ''storage.k8s.io/v1'' ''CSIDriver'' expectedName ValidateCSIDriverName
               then Inl (kube_upstream ''invalid Kubernetes CSIDriver identity'')
               else
                 (case normalizeCSIFSGroupPolicy policy of
                    Inl e \<Rightarrow> Inl e
                  | Inr fsGroupPolicy \<Rightarrow>
                      (case normalizeCSIVolumeLifecycleModes (ds_VolumeLifecycleModes source) of
                         Inl e \<Rightarrow> Inl e
                       | Inr modes \<Rightarrow>
                           if ds_TokenRequests source > 32
                           then Inl (kube_upstream ''Kubernetes CSIDriver token requests exceeded safe limit'')
                           else Inr \<lparr>dd_Driver = \<lparr>cd_Name = sh_Name (ds_Header source),
                                       cd_CreatedAt = sh_CreationTimestamp (ds_Header source)\<rparr>,
                                  dd_AttachRequired = attach, dd_PodInfoOnMount = podInfo,
                                  dd_StorageCapacity = storageCapacity, dd_RequiresRepublish = republish,
                                  dd_SELinuxMount = (ds_SELinuxMount source = Some True), dd_FSGroupPolicy = fsGroupPolicy,
                                  dd_VolumeLifecycleModes = modes, dd_TokenRequestCount = ds_TokenRequests source\<rparr>))
           | _ \<Rightarrow> Inl (kube_upstream ''invalid Kubernetes CSIDriver identity'')))"

definition kc_CSIDriver :: "Client \<Rightarrow> string \<Rightarrow> KubernetesCSIDriverDetail kube" where
  "kc_CSIDriver c name =
     get_detail c (ValidateCSIDriverName name) (csiDriverCollectionPath @ ''/'' @ name) (1024 * 1024)
       (\<lambda>payload. decodeCSIDriver payload name)"

end
