(* ===== verification/Kube_Storage.thy ===== *)
theory Kube_Storage
  imports Kube_Classes
begin

text \<open>
  Storage objects, of \<^verbatim>\<open>storage.go\<close>, \<^verbatim>\<open>volume_attachment.go\<close>,
  \<^verbatim>\<open>volume_attributes_class.go\<close>, \<^verbatim>\<open>csi_node.go\<close> and \<^verbatim>\<open>csi_storage_capacity.go\<close>: they are
  read as server-side tables with only the metadata of the objects, cell by cell.
\<close>

section \<open>Tables\<close>

text \<open>A page of a table: the row decoder depends on the columns of the page.\<close>

definition table_rows ::
  "string \<Rightarrow> string \<Rightarrow> ((string \<times> string) list \<Rightarrow> (kubernetesTableRow \<Rightarrow> 'i result) result) \<Rightarrow> string
     \<Rightarrow> (string \<times> kubernetesTableRow list \<times> (kubernetesTableRow \<Rightarrow> 'i result) result) result" where
  "table_rows what response_name decoder payload =
     (case table_page payload of
        None \<Rightarrow> Inl (kube_upstream (''decode Kubernetes '' @ what @ '' table''))
      | Some response \<Rightarrow>
          if tb_APIVersion response \<noteq> ''meta.k8s.io/v1'' \<or> tb_Kind response \<noteq> ''Table''
             \<or> tb_ColumnDefinitions response = [] \<or> length (tb_ColumnDefinitions response) > maxTableColumns
          then Inl (kube_upstream (''unsupported Kubernetes '' @ what @ response_name))
          else Inr (tb_Continue response, tb_Rows response, decoder (tb_ColumnDefinitions response)))"

text \<open>
  The columns that a file requires, with their types: every column is checked, a required one must
  have its type and occur once, and none may be missing.
\<close>

fun required_columns ::
  "string \<Rightarrow> (string \<times> string) list \<Rightarrow> nat \<Rightarrow> (string \<times> string) list \<Rightarrow> (string \<times> nat) list \<Rightarrow> (string \<times> nat) list result" where
  "required_columns what required index [] found =
     (if length found \<noteq> length required
      then Inl (kube_upstream (''missing Kubernetes '' @ what @ '' table column'')) else Inr found)"
| "required_columns what required index ((name, type) # columns) found =
     (if name = [] \<or> type = [] \<or> \<not> validTableString name \<or> \<not> validTableString type
      then Inl (kube_upstream (''invalid Kubernetes '' @ what @ '' table column''))
      else case map_of required name of
          None \<Rightarrow> required_columns what required (Suc index) columns found
        | Some expectedType \<Rightarrow>
            if type \<noteq> expectedType
            then Inl (kube_upstream (''invalid Kubernetes '' @ what @ '' table column type''))
            else if name \<in> fst ` set found
            then Inl (kube_upstream (''duplicate Kubernetes '' @ what @ '' table column''))
            else required_columns what required (Suc index) columns ((name, index) # found))"

definition table_decoder ::
  "string \<Rightarrow> (string \<times> string) list \<Rightarrow> ((string \<Rightarrow> nat) \<Rightarrow> kubernetesTableRow \<Rightarrow> 'i result) \<Rightarrow> (string \<times> string) list
     \<Rightarrow> (kubernetesTableRow \<Rightarrow> 'i result) result" where
  "table_decoder what required decodeRow columns =
     (case required_columns what required 0 columns [] of
        Inl e \<Rightarrow> Inl e
      | Inr found \<Rightarrow> Inr (decodeRow (\<lambda>name. case map_of found name of Some i \<Rightarrow> i | None \<Rightarrow> 0)))"

definition storageStringCell :: "kubernetesTableRow \<Rightarrow> nat \<Rightarrow> string option" where
  "storageStringCell row index =
     (if index \<ge> length (tr_Cells row) then None
      else if tr_Cells row ! index = ''null'' then Some []
      else case Unmarshal_value (tr_Cells row ! index) \<bind> set_string [] of
          None \<Rightarrow> None
        | Some s \<Rightarrow> if validTableString s then Some s else None)"

definition storageBoolCell :: "kubernetesTableRow \<Rightarrow> nat \<Rightarrow> bool option" where
  "storageBoolCell row index =
     (if index \<ge> length (tr_Cells row) then None
      else let raw = tr_Cells row ! index in
        if raw = ''null'' then Some False
        else case Unmarshal_value raw \<bind> set_bool False of
            Some b \<Rightarrow> Some b
          | None \<Rightarrow>
              (case Unmarshal_value raw \<bind> set_string [] of
                 None \<Rightarrow> None
               | Some s \<Rightarrow>
                   if \<not> validTableString s then None
                   else if s = ''true'' then Some True
                   else if s = [] \<or> s = ''false'' \<or> s = ''<unset>'' then Some False
                   else None))"

text \<open>A named row: its cells are within bounds and its name is that of its metadata.\<close>

definition named_row ::
  "string \<Rightarrow> bool \<Rightarrow> (string \<Rightarrow> go_error option) \<Rightarrow> nat \<Rightarrow> (partialObjectMetadata \<Rightarrow> go_error option)
     \<Rightarrow> kubernetesTableRow \<Rightarrow> (partialObjectMetadata \<Rightarrow> 'i result) \<Rightarrow> 'i result" where
  "named_row what namespaced validate nameColumn check row k =
     (if tr_Cells row = [] \<or> length (tr_Cells row) > maxTableColumns
      then Inl (kube_upstream (''invalid Kubernetes '' @ what @ '' table row''))
      else case decodePartialObjectMetadataForScope (tr_Object row) namespaced of
          Inl e \<Rightarrow> Inl e
        | Inr metadata \<Rightarrow>
            (case check metadata of
               Some e \<Rightarrow> Inl e
             | None \<Rightarrow>
                 if storageStringCell row nameColumn \<noteq> Some (pm_Name metadata) \<or> validate (pm_Name metadata) \<noteq> None
                 then Inl (kube_upstream (''invalid Kubernetes '' @ what @ '' identity''))
                 else k metadata))"

definition table_inventory ::
  "string \<Rightarrow> string \<Rightarrow> ((string \<times> string) list \<Rightarrow> (kubernetesTableRow \<Rightarrow> 'i result) result) \<Rightarrow> ('i \<Rightarrow> string)
     \<Rightarrow> ('i \<Rightarrow> 'i \<Rightarrow> bool) \<Rightarrow> (kubernetesTableRow, 'i) inventory" where
  "table_inventory what path decoder identity before =
     \<lparr>iv_path = path, iv_accept = kubernetesTableAccept,
      iv_query = [(''includeObject'', ''Metadata''), (''limit'', ''250'')],
      iv_maxPages = 4, iv_maxItems = 1000, iv_maxBytes = 4 * 1024 * 1024, iv_pageBytes = 2 * 1024 * 1024,
      iv_check = BytesBefore, iv_page = table_rows what '' table'' decoder, iv_weight = (\<lambda>_. 0), iv_maxWeight = 0,
      iv_identity = identity, iv_unique = True, iv_tokens = True, iv_tokensOnce = True, iv_stopFull = False,
      iv_before = before, iv_list = ''Kubernetes '' @ what @ '' list'', iv_name = ''Kubernetes '' @ what, iv_duplicate = ''Kubernetes '' @ what @ '' identity''\<rparr>"

section \<open>Volume attachments\<close>

datatype KubernetesVolumeAttachmentStatus =
    VolumeAttachmentAttached | VolumeAttachmentAttaching | VolumeAttachmentDetaching

record KubernetesVolumeAttachment =
  va_Name :: string
  va_Attacher :: string
  va_PersistentVolume :: string
  va_Node :: string
  va_Status :: KubernetesVolumeAttachmentStatus
  va_CreatedAt :: gtime

text \<open>\<^verbatim>\<open>bytes.TrimSpace\<close> on the text of a JSON value, which begins and ends with ASCII.\<close>

definition volumeAttachmentBoolCell :: "kubernetesTableRow \<Rightarrow> nat \<Rightarrow> bool option" where
  "volumeAttachmentBoolCell row index =
     (if index \<ge> length (tr_Cells row) then None
      else let trimmed = trim_space (tr_Cells row ! index) in
        if trimmed = ''true'' then Some True else if trimmed = ''false'' then Some False else None)"

definition decodeVolumeAttachmentTableRow ::
  "(string \<Rightarrow> nat) \<Rightarrow> kubernetesTableRow \<Rightarrow> KubernetesVolumeAttachment result" where
  "decodeVolumeAttachmentTableRow columns row =
     named_row ''VolumeAttachment'' False ValidateVolumeAttachmentName (columns ''Name'') (\<lambda>_. None) row (\<lambda>metadata.
     case storageStringCell row (columns ''Attacher'') of
       None \<Rightarrow> Inl (kube_upstream ''invalid Kubernetes VolumeAttachment attacher'')
     | Some attacher \<Rightarrow>
         if attacher = [] then Inl (kube_upstream ''invalid Kubernetes VolumeAttachment attacher'')
         else case storageStringCell row (columns ''PV'') of
             None \<Rightarrow> Inl (kube_upstream ''invalid Kubernetes VolumeAttachment persistent volume'')
           | Some volume \<Rightarrow>
               if volume \<noteq> [] \<and> ValidatePersistentVolumeName volume \<noteq> None
               then Inl (kube_upstream ''invalid Kubernetes VolumeAttachment persistent volume'')
               else case storageStringCell row (columns ''Node'') of
                   None \<Rightarrow> Inl (kube_upstream ''invalid Kubernetes VolumeAttachment node'')
                 | Some node \<Rightarrow>
                     if ValidateNodeName node \<noteq> None
                     then Inl (kube_upstream ''invalid Kubernetes VolumeAttachment node'')
                     else case volumeAttachmentBoolCell row (columns ''Attached'') of
                         None \<Rightarrow> Inl (kube_upstream ''invalid Kubernetes VolumeAttachment attached status'')
                       | Some attached \<Rightarrow>
                           Inr \<lparr>va_Name = pm_Name metadata, va_Attacher = attacher, va_PersistentVolume = volume,
                                va_Node = node,
                                va_Status = (if pm_DeletionTimestamp metadata \<noteq> None then VolumeAttachmentDetaching
                                             else if attached then VolumeAttachmentAttached else VolumeAttachmentAttaching),
                                va_CreatedAt = pm_CreationTimestamp metadata\<rparr>)"

definition volumeAttachmentColumns :: "(string \<times> string) list" where
  "volumeAttachmentColumns =
     [(''Name'', ''string''), (''Attacher'', ''string''), (''PV'', ''string''), (''Node'', ''string''), (''Attached'', ''boolean'')]"

definition volumeAttachments :: "(kubernetesTableRow, KubernetesVolumeAttachment) inventory" where
  "volumeAttachments = table_inventory ''VolumeAttachment'' ''/apis/storage.k8s.io/v1/volumeattachments''
     (table_decoder ''VolumeAttachment'' volumeAttachmentColumns decodeVolumeAttachmentTableRow)
     va_Name (\<lambda>a b. va_Name a < va_Name b)"

definition kc_VolumeAttachments :: "Client \<Rightarrow> KubernetesVolumeAttachment list kube" where
  "kc_VolumeAttachments c = list_inventory c volumeAttachments"

section \<open>Volume attributes classes\<close>

record KubernetesVolumeAttributesClass =
  vc_Name :: string
  vc_DriverName :: string
  vc_CreatedAt :: gtime

definition decodeVolumeAttributesClassTableRow ::
  "(string \<Rightarrow> nat) \<Rightarrow> kubernetesTableRow \<Rightarrow> KubernetesVolumeAttributesClass result" where
  "decodeVolumeAttributesClassTableRow columns row =
     named_row ''VolumeAttributesClass'' False ValidateVolumeAttributesClassName (columns ''Name'') (\<lambda>_. None) row (\<lambda>metadata.
     case storageStringCell row (columns ''DriverName'') of
       None \<Rightarrow> Inl (kube_upstream ''invalid Kubernetes VolumeAttributesClass driver'')
     | Some driverName \<Rightarrow>
         if ValidateCSIDriverName driverName \<noteq> None
         then Inl (kube_upstream ''invalid Kubernetes VolumeAttributesClass driver'')
         else Inr \<lparr>vc_Name = pm_Name metadata, vc_DriverName = driverName, vc_CreatedAt = pm_CreationTimestamp metadata\<rparr>)"

definition volumeAttributesClasses :: "(kubernetesTableRow, KubernetesVolumeAttributesClass) inventory" where
  "volumeAttributesClasses = table_inventory ''VolumeAttributesClass'' ''/apis/storage.k8s.io/v1/volumeattributesclasses''
     (table_decoder ''VolumeAttributesClass'' [(''Name'', ''string''), (''DriverName'', ''string'')]
        decodeVolumeAttributesClassTableRow)
     vc_Name (\<lambda>a b. vc_Name a < vc_Name b)"

definition kc_VolumeAttributesClasses :: "Client \<Rightarrow> KubernetesVolumeAttributesClass list kube" where
  "kc_VolumeAttributesClasses c = list_inventory c volumeAttributesClasses"

section \<open>CSI nodes\<close>

record KubernetesCSINode =
  cn_Name :: string
  cn_DriverCount :: int
  cn_CreatedAt :: gtime

record KubernetesCSINodeDriver =
  cw_Name :: string
  cw_AllocatableCount :: "int option"
  cw_TopologyKeyCount :: nat

record KubernetesCSINodeDetail =
  cx_Node :: KubernetesCSINode
  cx_Drivers :: "KubernetesCSINodeDriver list"

definition csiNodeMaxDrivers :: nat where
  "csiNodeMaxDrivers = 128"

definition csiNodeIntegerCell :: "kubernetesTableRow \<Rightarrow> nat \<Rightarrow> int option" where
  "csiNodeIntegerCell row index =
     (if index \<ge> length (tr_Cells row) then None
      else let digits = trim_space (tr_Cells row ! index) in
        if digits = [] \<or> \<not> list_all decimal_digit digits then None else Atoi digits)"

definition decodeCSINodeTableRow :: "(string \<Rightarrow> nat) \<Rightarrow> kubernetesTableRow \<Rightarrow> KubernetesCSINode result" where
  "decodeCSINodeTableRow columns row =
     named_row ''CSINode'' False ValidateNodeName (columns ''Name'') (\<lambda>_. None) row (\<lambda>metadata.
     case csiNodeIntegerCell row (columns ''Drivers'') of
       None \<Rightarrow> Inl (kube_upstream ''invalid Kubernetes CSINode driver count'')
     | Some driverCount \<Rightarrow>
         if driverCount > int csiNodeMaxDrivers
         then Inl (kube_upstream ''invalid Kubernetes CSINode driver count'')
         else Inr \<lparr>cn_Name = pm_Name metadata, cn_DriverCount = driverCount, cn_CreatedAt = pm_CreationTimestamp metadata\<rparr>)"

definition csiNodeCollectionPath :: string where
  "csiNodeCollectionPath = ''/apis/storage.k8s.io/v1/csinodes''"

definition csiNodes :: "(kubernetesTableRow, KubernetesCSINode) inventory" where
  "csiNodes = table_inventory ''CSINode'' csiNodeCollectionPath
     (table_decoder ''CSINode'' [(''Name'', ''string''), (''Drivers'', ''integer'')] decodeCSINodeTableRow)
     cn_Name (\<lambda>a b. cn_Name a < cn_Name b)"

definition kc_CSINodes :: "Client \<Rightarrow> KubernetesCSINode list kube" where
  "kc_CSINodes c = list_inventory c csiNodes"

text \<open>
  The decoders of the fields whose content is checked and then dropped; \<open>qualified\<close> stands for
  \<^verbatim>\<open>IsQualifiedName\<close> of the Kubernetes libraries. The limit on the raw text of a node identifier,
  six bytes for each byte of the decoded one and two quotes, follows from the limit on the latter.
\<close>

definition discardedCSINodeID :: "json \<Rightarrow> unit option" where
  "discardedCSINodeID v =
     (case v of
        JStr s \<Rightarrow> if s = [] \<or> length s > 192 \<or> s \<noteq> trim_space s \<or> index_func is_control s then None else Some ()
      | _ \<Rightarrow> None)"

definition discardedCSINodeTopologyKeys :: "(string \<Rightarrow> bool) \<Rightarrow> json \<Rightarrow> nat option" where
  "discardedCSINodeTopologyKeys qualified v =
     (case v of
        JNull \<Rightarrow> Some 0
      | JArr keys \<Rightarrow>
          if length keys \<le> 64 \<and> list_all (\<lambda>key. case key of
               JStr s \<Rightarrow> s \<noteq> [] \<and> length s \<le> 317 \<and> qualified s | _ \<Rightarrow> False) keys
          then Some (length keys) else None
      | _ \<Rightarrow> None)"

record csiNodeDriverSource =
  cv_Name :: string
  cv_NodeID :: bool
  cv_TopologyKeys :: nat
  cv_AllocatableCount :: "int option"

definition csiNodeDriverSource_of :: "(string \<Rightarrow> bool) \<Rightarrow> fields \<Rightarrow> csiNodeDriverSource option" where
  "csiNodeDriverSource_of qualified fs = do {
     name \<leftarrow> f_str ''name'' fs;
     nodeID \<leftarrow> json_field (\<lambda>_ v. map_option (\<lambda>_. True) (discardedCSINodeID v)) False ''nodeID'' fs;
     keys \<leftarrow> json_field (\<lambda>_. discardedCSINodeTopologyKeys qualified) 0 ''topologyKeys'' fs;
     allocatable \<leftarrow> f_pointer (f_int32_ptr ''count'') ''allocatable'' fs;
     Some \<lparr>cv_Name = name, cv_NodeID = nodeID, cv_TopologyKeys = keys,
           cv_AllocatableCount = (case allocatable of None \<Rightarrow> None | Some n \<Rightarrow> n)\<rparr>
   }"

definition csiNodeDriverList :: "(string \<Rightarrow> bool) \<Rightarrow> json \<Rightarrow> csiNodeDriverSource list option" where
  "csiNodeDriverList qualified v =
     (case v of
        JNull \<Rightarrow> Some []
      | JArr drivers \<Rightarrow>
          if length drivers > csiNodeMaxDrivers then None
          else those (map (\<lambda>driver. set_fields [] driver \<bind> csiNodeDriverSource_of qualified) drivers)
      | _ \<Rightarrow> None)"

text \<open>The header, and the drivers where the field is there.\<close>

definition csiNodeSource_of :: "(string \<Rightarrow> bool) \<Rightarrow> fields \<Rightarrow> (sourceHeader \<times> csiNodeDriverSource list option) option" where
  "csiNodeSource_of qualified fs = do {
     header \<leftarrow> sourceHeader_of fs;
     spec \<leftarrow> f_struct ''spec'' fs;
     drivers \<leftarrow> json_field (\<lambda>_ v. map_option Some (csiNodeDriverList qualified v)) None ''drivers'' spec;
     Some (header, drivers)
   }"

fun csi_node_drivers ::
  "csiNodeDriverSource list \<Rightarrow> KubernetesCSINodeDriver list \<Rightarrow> nat \<Rightarrow> KubernetesCSINodeDriver list result" where
  "csi_node_drivers [] drivers topologyKeys = Inr drivers"
| "csi_node_drivers (driver # sources) drivers topologyKeys =
     (if ValidateCSIDriverName (cv_Name driver) \<noteq> None \<or> \<not> cv_NodeID driver
      then Inl (kube_upstream ''invalid Kubernetes CSINode driver'')
      else if cv_Name driver \<in> cw_Name ` set drivers
      then Inl (kube_upstream ''duplicate Kubernetes CSINode driver'')
      else if topologyKeys + cv_TopologyKeys driver > 4096
      then Inl (kube_upstream ''Kubernetes CSINode topology keys exceeded safe limit'')
      else if (case cv_AllocatableCount driver of None \<Rightarrow> False | Some n \<Rightarrow> n < 0)
      then Inl (kube_upstream ''invalid Kubernetes CSINode allocatable count'')
      else csi_node_drivers sources
             (drivers @ [\<lparr>cw_Name = cv_Name driver, cw_AllocatableCount = cv_AllocatableCount driver,
                          cw_TopologyKeyCount = cv_TopologyKeys driver\<rparr>])
             (topologyKeys + cv_TopologyKeys driver))"

definition decodeCSINode :: "(string \<Rightarrow> bool) \<Rightarrow> string \<Rightarrow> string \<Rightarrow> KubernetesCSINodeDetail result" where
  "decodeCSINode qualified payload expectedName =
     (case Unmarshal_fields payload \<bind> csiNodeSource_of qualified of
        None \<Rightarrow> Inl (kube_upstream ''decode Kubernetes CSINode detail'')
      | Some (header, None) \<Rightarrow> Inl (kube_upstream ''invalid Kubernetes CSINode identity'')
      | Some (header, Some sources) \<Rightarrow>
          if \<not> cluster_object header ''storage.k8s.io/v1'' ''CSINode'' expectedName ValidateNodeName
          then Inl (kube_upstream ''invalid Kubernetes CSINode identity'')
          else case csi_node_drivers sources [] 0 of
              Inl e \<Rightarrow> Inl e
            | Inr drivers \<Rightarrow>
                Inr \<lparr>cx_Node = \<lparr>cn_Name = sh_Name header, cn_DriverCount = int (length drivers),
                                cn_CreatedAt = sh_CreationTimestamp header\<rparr>,
                     cx_Drivers = sort_slice (\<lambda>a b. cw_Name a < cw_Name b) drivers\<rparr>)"

definition kc_CSINode :: "(string \<Rightarrow> bool) \<Rightarrow> Client \<Rightarrow> string \<Rightarrow> KubernetesCSINodeDetail kube" where
  "kc_CSINode qualified c name =
     get_detail c (ValidateNodeName name) (csiNodeCollectionPath @ ''/'' @ name) (1024 * 1024)
       (\<lambda>payload. decodeCSINode qualified payload name)"

section \<open>Storage capacities\<close>

record KubernetesCSIStorageCapacity =
  cc_Namespace :: string
  cc_Name :: string
  cc_StorageClass :: string
  cc_Capacity :: string
  cc_CreatedAt :: gtime

text \<open>
  \<open>quantity\<close> stands for \<^verbatim>\<open>ParseQuantity\<close> of the Kubernetes libraries: the canonical text of a
  quantity that is not negative.
\<close>

definition normalizeCSIStorageCapacityQuantity :: "(string \<Rightarrow> string option) \<Rightarrow> string \<Rightarrow> string result" where
  "normalizeCSIStorageCapacityQuantity quantity s =
     (if s = ''<unset>'' then Inr []
      else if s = [] \<or> length s > 64 \<or> s \<noteq> trim_space s \<or> index_func is_control s
      then Inl (kube_upstream ''invalid Kubernetes CSIStorageCapacity capacity'')
      else case quantity s of
          None \<Rightarrow> Inl (kube_upstream ''invalid Kubernetes CSIStorageCapacity capacity'')
        | Some canonical \<Rightarrow>
            if canonical = [] \<or> length canonical > 64
            then Inl (kube_upstream ''invalid Kubernetes CSIStorageCapacity capacity'') else Inr canonical)"

definition decodeCSIStorageCapacityTableRow ::
  "(string \<Rightarrow> string option) \<Rightarrow> string \<Rightarrow> (string \<Rightarrow> nat) \<Rightarrow> kubernetesTableRow \<Rightarrow> KubernetesCSIStorageCapacity result" where
  "decodeCSIStorageCapacityTableRow quantity expectedNamespace columns row =
     named_row ''CSIStorageCapacity'' True ValidateCSIStorageCapacityName (columns ''Name'')
       (\<lambda>metadata. if expectedNamespace \<noteq> [] \<and> pm_Namespace metadata \<noteq> expectedNamespace
          then Some (kube_upstream ''Kubernetes CSIStorageCapacity row exceeded namespace scope'') else None) row (\<lambda>metadata.
     case storageStringCell row (columns ''StorageClassName'') of
       None \<Rightarrow> Inl (kube_upstream ''invalid Kubernetes CSIStorageCapacity storage class'')
     | Some storageClass \<Rightarrow>
         if ValidateStorageClassName storageClass \<noteq> None
         then Inl (kube_upstream ''invalid Kubernetes CSIStorageCapacity storage class'')
         else case storageStringCell row (columns ''Capacity'') of
             None \<Rightarrow> Inl (kube_upstream ''invalid Kubernetes CSIStorageCapacity capacity'')
           | Some cell \<Rightarrow>
               (case normalizeCSIStorageCapacityQuantity quantity cell of
                  Inl e \<Rightarrow> Inl e
                | Inr storageCapacity \<Rightarrow>
                    Inr \<lparr>cc_Namespace = pm_Namespace metadata, cc_Name = pm_Name metadata, cc_StorageClass = storageClass,
                         cc_Capacity = storageCapacity, cc_CreatedAt = pm_CreationTimestamp metadata\<rparr>))"

definition csiStorageCapacities ::
  "(string \<Rightarrow> string option) \<Rightarrow> string \<Rightarrow> (kubernetesTableRow, KubernetesCSIStorageCapacity) inventory" where
  "csiStorageCapacities quantity namespace = table_inventory ''CSIStorageCapacity''
     (if namespace \<noteq> [] then ''/apis/storage.k8s.io/v1/namespaces/'' @ namespace @ ''/csistoragecapacities''
      else ''/apis/storage.k8s.io/v1/csistoragecapacities'')
     (table_decoder ''CSIStorageCapacity''
        [(''Name'', ''string''), (''StorageClassName'', ''string''), (''Capacity'', ''string'')]
        (decodeCSIStorageCapacityTableRow quantity namespace))
     (\<lambda>item. cc_Namespace item @ [CHR 0x00] @ cc_Name item)
     (\<lambda>a b. if cc_Namespace a \<noteq> cc_Namespace b then cc_Namespace a < cc_Namespace b
            else if cc_StorageClass a \<noteq> cc_StorageClass b then cc_StorageClass a < cc_StorageClass b
            else cc_Name a < cc_Name b)"

definition kc_CSIStorageCapacities ::
  "(string \<Rightarrow> string option) \<Rightarrow> Client \<Rightarrow> string \<Rightarrow> KubernetesCSIStorageCapacity list kube" where
  "kc_CSIStorageCapacities quantity c namespace =
     kguard (if namespace \<noteq> [] then ValidateNamespace namespace else None)
       (list_inventory c (csiStorageCapacities quantity namespace))"

section \<open>Claims, volumes and storage classes\<close>

datatype storageTableKind = storageTablePersistentVolumeClaim | storageTablePersistentVolume | storageTableStorageClass

record storageTableItem =
  st_Namespace :: string
  st_Name :: string
  st_Status :: string
  st_Volume :: string
  st_Claim :: string
  st_Capacity :: string
  st_AccessModes :: string
  st_StorageClass :: string
  st_ReclaimPolicy :: string
  st_VolumeMode :: string
  st_Provisioner :: string
  st_VolumeBindingMode :: string
  st_AllowVolumeExpansion :: bool
  st_Default :: bool
  st_CreatedAt :: gtime

definition storage_required :: "storageTableKind \<Rightarrow> string list" where
  "storage_required kind =
     ''Name'' # (case kind of
        storageTablePersistentVolumeClaim \<Rightarrow>
          [''Status'', ''Volume'', ''Capacity'', ''Access Modes'', ''StorageClass'', ''VolumeMode'']
      | storageTablePersistentVolume \<Rightarrow>
          [''Status'', ''Claim'', ''Capacity'', ''Access Modes'', ''StorageClass'', ''Reclaim Policy'', ''VolumeMode'']
      | storageTableStorageClass \<Rightarrow>
          [''Provisioner'', ''ReclaimPolicy'', ''VolumeBindingMode'', ''AllowVolumeExpansion''])"

fun storage_columns :: "(string \<times> string) list \<Rightarrow> string list \<Rightarrow> (string \<times> nat) list result" where
  "storage_columns columns [] = Inr []"
| "storage_columns columns (name # names) =
     (case configurationTableColumn columns name of
        Inl e \<Rightarrow> Inl e
      | Inr index \<Rightarrow> (case storage_columns columns names of Inl e \<Rightarrow> Inl e | Inr found \<Rightarrow> Inr ((name, index) # found)))"

definition storageColumns :: "storageTableKind \<Rightarrow> (string \<times> string) list \<Rightarrow> (string \<Rightarrow> nat) result" where
  "storageColumns kind columns =
     (case storage_columns columns (storage_required kind) of
        Inl e \<Rightarrow> Inl e
      | Inr found \<Rightarrow> Inr (\<lambda>name. case map_of found name of Some i \<Rightarrow> i | None \<Rightarrow> 0))"

definition defaultSuffix :: string where
  "defaultSuffix = '' (default)''"

definition has_suffix :: "string \<Rightarrow> string \<Rightarrow> bool" where
  "has_suffix s tail \<longleftrightarrow> has_prefix (rev s) (rev tail)"

text \<open>The cells of a row in the order in which they are read; the first that is invalid ends it.\<close>

definition storage_cells ::
  "storageTableKind \<Rightarrow> (string \<Rightarrow> nat) \<Rightarrow> kubernetesTableRow \<Rightarrow> storageTableItem \<Rightarrow> storageTableItem option" where
  "storage_cells kind columns row item =
     (let cell = (\<lambda>name. storageStringCell row (columns name)) in
      case kind of
        storageTablePersistentVolumeClaim \<Rightarrow> do {
          status \<leftarrow> cell ''Status'';
          volume \<leftarrow> cell ''Volume'';
          storageCapacity \<leftarrow> cell ''Capacity'';
          modes \<leftarrow> cell ''Access Modes'';
          storageClass \<leftarrow> cell ''StorageClass'';
          volumeMode \<leftarrow> cell ''VolumeMode'';
          Some (item\<lparr>st_Status := status, st_Volume := volume, st_Capacity := storageCapacity, st_AccessModes := modes,
                     st_StorageClass := storageClass, st_VolumeMode := volumeMode\<rparr>)
        }
      | storageTablePersistentVolume \<Rightarrow> do {
          status \<leftarrow> cell ''Status'';
          claim \<leftarrow> cell ''Claim'';
          storageCapacity \<leftarrow> cell ''Capacity'';
          modes \<leftarrow> cell ''Access Modes'';
          storageClass \<leftarrow> cell ''StorageClass'';
          policy \<leftarrow> cell ''Reclaim Policy'';
          volumeMode \<leftarrow> cell ''VolumeMode'';
          Some (item\<lparr>st_Status := status, st_Claim := claim, st_Capacity := storageCapacity, st_AccessModes := modes,
                     st_StorageClass := storageClass, st_ReclaimPolicy := policy, st_VolumeMode := volumeMode\<rparr>)
        }
      | storageTableStorageClass \<Rightarrow> do {
          provisioner \<leftarrow> cell ''Provisioner'';
          policy \<leftarrow> cell ''ReclaimPolicy'';
          binding \<leftarrow> cell ''VolumeBindingMode'';
          expansion \<leftarrow> storageBoolCell row (columns ''AllowVolumeExpansion'');
          Some (item\<lparr>st_Provisioner := provisioner, st_ReclaimPolicy := policy, st_VolumeBindingMode := binding,
                     st_AllowVolumeExpansion := expansion\<rparr>)
        })"

definition decodeStorageTableRow ::
  "storageTableKind \<Rightarrow> (string \<Rightarrow> nat) \<Rightarrow> kubernetesTableRow \<Rightarrow> storageTableItem result" where
  "decodeStorageTableRow kind columns row =
     (if tr_Cells row = [] \<or> length (tr_Cells row) > maxTableColumns
      then Inl (kube_upstream ''invalid Kubernetes storage table row'')
      else case decodePartialObjectMetadataForScope (tr_Object row) (kind = storageTablePersistentVolumeClaim) of
          Inl e \<Rightarrow> Inl e
        | Inr metadata \<Rightarrow>
            (case storageStringCell row (columns ''Name'') of
               None \<Rightarrow> Inl (kube_upstream ''invalid Kubernetes storage table name'')
             | Some printedName \<Rightarrow>
                 let defaultClass = (kind = storageTableStorageClass \<and> has_suffix printedName defaultSuffix);
                     name = (if defaultClass then take (length printedName - length defaultSuffix) printedName else printedName)
                 in
                 if name \<noteq> pm_Name metadata then Inl (kube_upstream ''invalid Kubernetes storage table name'')
                 else case storage_cells kind columns row
                     \<lparr>st_Namespace = pm_Namespace metadata, st_Name = pm_Name metadata, st_Status = [], st_Volume = [],
                      st_Claim = [], st_Capacity = [], st_AccessModes = [], st_StorageClass = [], st_ReclaimPolicy = [],
                      st_VolumeMode = [], st_Provisioner = [], st_VolumeBindingMode = [], st_AllowVolumeExpansion = False,
                      st_Default = defaultClass, st_CreatedAt = pm_CreationTimestamp metadata\<rparr> of
                     None \<Rightarrow> Inl (kube_upstream ''invalid Kubernetes storage table cell'')
                   | Some item \<Rightarrow> Inr item))"

definition scoped_storage_row ::
  "string \<Rightarrow> storageTableKind \<Rightarrow> (string \<Rightarrow> nat) \<Rightarrow> kubernetesTableRow \<Rightarrow> storageTableItem result" where
  "scoped_storage_row expectedNamespace kind columns row =
     (case decodeStorageTableRow kind columns row of
        Inl e \<Rightarrow> Inl e
      | Inr item \<Rightarrow>
          if expectedNamespace \<noteq> [] \<and> st_Namespace item \<noteq> expectedNamespace
          then Inl (kube_upstream ''Kubernetes storage table row exceeded namespace scope'') else Inr item)"

text \<open>This list checks neither its continuation tokens nor duplicates.\<close>

definition storageTable :: "string \<Rightarrow> string \<Rightarrow> storageTableKind \<Rightarrow> (kubernetesTableRow, storageTableItem) inventory" where
  "storageTable path expectedNamespace kind =
     \<lparr>iv_path = path, iv_accept = kubernetesTableAccept,
      iv_query = [(''includeObject'', ''Metadata''), (''limit'', listPageSize)],
      iv_maxPages = maxListPages, iv_maxItems = maxListItems, iv_maxBytes = maxListBytes, iv_pageBytes = maxResponseBytes,
      iv_check = BytesAfter,
      iv_page = table_rows ''storage'' '' table response'' (\<lambda>columns.
        case storageColumns kind columns of
          Inl e \<Rightarrow> Inl e | Inr found \<Rightarrow> Inr (scoped_storage_row expectedNamespace kind found)),
      iv_weight = (\<lambda>_. 0), iv_maxWeight = 0, iv_identity = st_Name, iv_unique = False, iv_tokens = False,
      iv_tokensOnce = False, iv_stopFull = False,
      iv_before = (\<lambda>a b. if st_Namespace a \<noteq> st_Namespace b then st_Namespace a < st_Namespace b else st_Name a < st_Name b),
      iv_list = ''Kubernetes storage table'', iv_name = [], iv_duplicate = []\<rparr>"

definition listStorageTable :: "Client \<Rightarrow> string \<Rightarrow> string \<Rightarrow> storageTableKind \<Rightarrow> storageTableItem list kube" where
  "listStorageTable c path expectedNamespace kind = list_inventory c (storageTable path expectedNamespace kind)"

record KubernetesPersistentVolumeClaim =
  vl_Namespace :: string
  vl_Name :: string
  vl_Status :: string
  vl_Volume :: string
  vl_Capacity :: string
  vl_AccessModes :: string
  vl_StorageClass :: string
  vl_VolumeMode :: string
  vl_CreatedAt :: gtime

definition kc_PersistentVolumeClaims :: "Client \<Rightarrow> string \<Rightarrow> KubernetesPersistentVolumeClaim list kube" where
  "kc_PersistentVolumeClaims c namespace =
     kguard (if namespace \<noteq> [] then ValidateNamespace namespace else None)
     (kthen (listStorageTable c
        (if namespace \<noteq> [] then ''/api/v1/namespaces/'' @ namespace @ ''/persistentvolumeclaims''
         else ''/api/v1/persistentvolumeclaims'') namespace storageTablePersistentVolumeClaim) (\<lambda>items.
      kreturn (map (\<lambda>item. \<lparr>vl_Namespace = st_Namespace item, vl_Name = st_Name item, vl_Status = st_Status item,
        vl_Volume = st_Volume item, vl_Capacity = st_Capacity item, vl_AccessModes = st_AccessModes item,
        vl_StorageClass = st_StorageClass item, vl_VolumeMode = st_VolumeMode item,
        vl_CreatedAt = st_CreatedAt item\<rparr>) items)))"

record KubernetesPersistentVolume =
  pv_Name :: string
  pv_Status :: string
  pv_Claim :: string
  pv_Capacity :: string
  pv_AccessModes :: string
  pv_StorageClass :: string
  pv_ReclaimPolicy :: string
  pv_VolumeMode :: string
  pv_CreatedAt :: gtime

definition kc_PersistentVolumes :: "Client \<Rightarrow> KubernetesPersistentVolume list kube" where
  "kc_PersistentVolumes c =
     kthen (listStorageTable c ''/api/v1/persistentvolumes'' [] storageTablePersistentVolume) (\<lambda>items.
     kreturn (map (\<lambda>item. \<lparr>pv_Name = st_Name item, pv_Status = st_Status item, pv_Claim = st_Claim item,
       pv_Capacity = st_Capacity item, pv_AccessModes = st_AccessModes item, pv_StorageClass = st_StorageClass item,
       pv_ReclaimPolicy = st_ReclaimPolicy item, pv_VolumeMode = st_VolumeMode item,
       pv_CreatedAt = st_CreatedAt item\<rparr>) items))"

record KubernetesStorageClass =
  sc_Name :: string
  sc_Provisioner :: string
  sc_ReclaimPolicy :: string
  sc_VolumeBindingMode :: string
  sc_AllowVolumeExpansion :: bool
  sc_Default :: bool
  sc_CreatedAt :: gtime

definition kc_StorageClasses :: "Client \<Rightarrow> KubernetesStorageClass list kube" where
  "kc_StorageClasses c =
     kthen (listStorageTable c ''/apis/storage.k8s.io/v1/storageclasses'' [] storageTableStorageClass) (\<lambda>items.
     kreturn (map (\<lambda>item. \<lparr>sc_Name = st_Name item, sc_Provisioner = st_Provisioner item,
       sc_ReclaimPolicy = st_ReclaimPolicy item, sc_VolumeBindingMode = st_VolumeBindingMode item,
       sc_AllowVolumeExpansion = st_AllowVolumeExpansion item, sc_Default = st_Default item,
       sc_CreatedAt = st_CreatedAt item\<rparr>) items))"

end
