(* ===== verification/Kube_Governance.thy ===== *)
theory Kube_Governance
  imports Kube_Storage
begin

text \<open>
  Quotas and limits, of \<^verbatim>\<open>governance.go\<close>, with the lists that
  \<^verbatim>\<open>availability.go\<close> shares: bounded lists of whole objects, of which a bounded projection is kept. The
  entries that all objects of a list may show together are a budget that is passed from object to
  object.
\<close>

section \<open>Lists\<close>

record governanceMetadata =
  gm_Name :: string
  gm_Namespace :: string
  gm_Generation :: int
  gm_CreationTimestamp :: gtime

definition governanceMetadata_of :: "fields \<Rightarrow> governanceMetadata option" where
  "governanceMetadata_of fs = do {
     metadata \<leftarrow> f_struct ''metadata'' fs;
     name \<leftarrow> f_str ''name'' metadata;
     namespace \<leftarrow> f_str ''namespace'' metadata;
     generation \<leftarrow> f_int64 ''generation'' metadata;
     created \<leftarrow> f_time ''creationTimestamp'' metadata;
     Some \<lparr>gm_Name = name, gm_Namespace = namespace, gm_Generation = generation, gm_CreationTimestamp = created\<rparr>
   }"

definition governance_page ::
  "string \<Rightarrow> string \<Rightarrow> string \<Rightarrow> (string \<times> string list \<times> (string \<Rightarrow> string result) result) result" where
  "governance_page expectedAPIVersion expectedKind payload =
     (case event_page payload of
        None \<Rightarrow> Inl (kube_upstream ''decode Kubernetes governance list'')
      | Some (apiVersion, kind, continue, items) \<Rightarrow>
          if apiVersion \<noteq> expectedAPIVersion \<or> kind \<noteq> expectedKind
          then Inl (kube_upstream ''unsupported Kubernetes governance list'')
          else Inr (continue, items, Inr Inr))"

text \<open>The raw items are kept as they are, in their order.\<close>

definition governanceList :: "string \<Rightarrow> string \<Rightarrow> string \<Rightarrow> (string, string) inventory" where
  "governanceList path expectedAPIVersion expectedKind =
     \<lparr>iv_path = path, iv_accept = ''application/json'', iv_query = [(''limit'', ''250'')],
      iv_maxPages = 4, iv_maxItems = 1000, iv_maxBytes = 4 * 1024 * 1024, iv_pageBytes = 2 * 1024 * 1024,
      iv_check = BytesAfter, iv_page = governance_page expectedAPIVersion expectedKind,
      iv_weight = (\<lambda>_. 0), iv_maxWeight = 0, iv_identity = (\<lambda>item. item), iv_unique = False, iv_tokens = True,
      iv_tokensOnce = False, iv_stopFull = False, iv_before = (\<lambda>_ _. False),
      iv_list = ''Kubernetes governance list'', iv_name = ''Kubernetes governance'', iv_duplicate = []\<rparr>"

definition listGovernanceRaw :: "Client \<Rightarrow> string \<Rightarrow> string \<Rightarrow> string \<Rightarrow> string list kube" where
  "listGovernanceRaw c path expectedAPIVersion expectedKind =
     list_inventory c (governanceList path expectedAPIVersion expectedKind)"

text \<open>Decoding a list with a budget.\<close>

fun decode_budget :: "('b \<Rightarrow> string \<Rightarrow> ('i \<times> 'b) result) \<Rightarrow> 'b \<Rightarrow> string list \<Rightarrow> 'i list result" where
  "decode_budget decode remaining [] = Inr []"
| "decode_budget decode remaining (item # items) =
     (case decode remaining item of
        Inl e \<Rightarrow> Inl e
      | Inr (x, remaining) \<Rightarrow> (case decode_budget decode remaining items of Inl e \<Rightarrow> Inl e | Inr xs \<Rightarrow> Inr (x # xs)))"

definition governanceScalar :: "string \<Rightarrow> bool \<Rightarrow> string option" where
  "governanceScalar s allowEmpty =
     (if (\<not> allowEmpty \<and> s = []) \<or> length s > 512 \<or> \<not> valid_utf8 s \<or> s \<noteq> trim_space s \<or> index_func is_control s
      then None else Some s)"

definition validateGovernanceObjectIdentity ::
  "string \<Rightarrow> string \<Rightarrow> string \<Rightarrow> string \<Rightarrow> governanceMetadata \<Rightarrow> go_error option" where
  "validateGovernanceObjectIdentity apiVersion kind expectedAPIVersion expectedKind metadata =
     (if apiVersion \<noteq> expectedAPIVersion \<or> kind \<noteq> expectedKind
         \<or> \<not> validKubernetesMetadataString (gm_Name metadata) \<or> gm_CreationTimestamp metadata = zero_time
      then Some (kube_upstream ''invalid Kubernetes governance object identity'') else None)"

definition validateGovernanceIdentity ::
  "string \<Rightarrow> string \<Rightarrow> string \<Rightarrow> string \<Rightarrow> governanceMetadata \<Rightarrow> string \<Rightarrow> go_error option" where
  "validateGovernanceIdentity apiVersion kind expectedAPIVersion expectedKind metadata expectedNamespace =
     (case validateGovernanceObjectIdentity apiVersion kind expectedAPIVersion expectedKind metadata of
        Some e \<Rightarrow> Some e
      | None \<Rightarrow>
          if gm_Namespace metadata \<noteq> expectedNamespace \<or> ValidateNamespace (gm_Namespace metadata) \<noteq> None
          then Some (kube_upstream ''Kubernetes governance object exceeded namespace scope'') else None)"

definition validateGovernanceIdentityAnyNamespace ::
  "string \<Rightarrow> string \<Rightarrow> string \<Rightarrow> string \<Rightarrow> governanceMetadata \<Rightarrow> go_error option" where
  "validateGovernanceIdentityAnyNamespace apiVersion kind expectedAPIVersion expectedKind metadata =
     (case validateGovernanceObjectIdentity apiVersion kind expectedAPIVersion expectedKind metadata of
        Some e \<Rightarrow> Some e
      | None \<Rightarrow>
          if ValidateNamespace (gm_Namespace metadata) \<noteq> None
          then Some (kube_upstream ''Kubernetes governance object exceeded namespace scope'') else None)"

definition sortedGovernanceKeys :: "(string \<times> string) list list \<Rightarrow> string list" where
  "sortedGovernanceKeys maps = sort_slice (<) (remdups (concat (map (map fst) maps)))"

section \<open>Resource quotas\<close>

record KubernetesQuotaResource =
  qr_Name :: string
  qr_Hard :: string
  qr_Used :: string
  qr_Observed :: bool

record KubernetesResourceQuota =
  rq_Namespace :: string
  rq_Name :: string
  rq_Scopes :: "string list"
  rq_ScopeCount :: nat
  rq_ScopesTruncated :: bool
  rq_ScopeSelectorCount :: nat
  rq_Resources :: "KubernetesQuotaResource list"
  rq_ResourceCount :: nat
  rq_ResourcesTruncated :: bool
  rq_CreatedAt :: gtime

definition quota_resource ::
  "(string \<times> string) list \<Rightarrow> (string \<times> string) list \<Rightarrow> (string \<times> string) list \<Rightarrow> string \<Rightarrow> KubernetesQuotaResource result" where
  "quota_resource specHard statusHard used key =
     (case governanceScalar key False of
        None \<Rightarrow> Inl (kube_upstream ''invalid Kubernetes quota resource name'')
      | Some name \<Rightarrow>
          (let observed = (map_of statusHard key \<noteq> None) in
           case governanceScalar (if observed then map_get key statusHard else map_get key specHard) True of
             None \<Rightarrow> Inl (kube_upstream ''invalid Kubernetes quota hard value'')
           | Some hard \<Rightarrow>
               (case governanceScalar (map_get key used) True of
                  None \<Rightarrow> Inl (kube_upstream ''invalid Kubernetes quota used value'')
                | Some usedValue \<Rightarrow>
                    Inr \<lparr>qr_Name = name, qr_Hard = hard, qr_Used = usedValue, qr_Observed = observed\<rparr>)))"

definition projectQuotaResources ::
  "(string \<times> string) list \<Rightarrow> (string \<times> string) list \<Rightarrow> (string \<times> string) list \<Rightarrow> nat
     \<Rightarrow> (KubernetesQuotaResource list \<times> nat \<times> bool \<times> nat) result" where
  "projectQuotaResources specHard statusHard used remaining =
     (let keys = sortedGovernanceKeys [specHard, statusHard, used];
          limit = min (length keys) (min 64 remaining) in
      case decode_all (quota_resource specHard statusHard used) (take limit keys) of
        Inl e \<Rightarrow> Inl e
      | Inr resources \<Rightarrow> Inr (resources, length keys, length keys > limit, remaining - limit))"

definition projectQuotaScopes :: "string list \<Rightarrow> nat \<Rightarrow> (string list \<times> bool \<times> nat) result" where
  "projectQuotaScopes scopes remaining =
     (let sortedScopes = sort_slice (<) scopes;
          limit = min (length sortedScopes) (min 16 remaining) in
      case decode_all (\<lambda>scope. case governanceScalar scope False of
             None \<Rightarrow> Inl (kube_upstream ''invalid Kubernetes quota scope'') | Some s \<Rightarrow> Inr s) (take limit sortedScopes) of
        Inl e \<Rightarrow> Inl e
      | Inr projected \<Rightarrow> Inr (projected, length sortedScopes > limit, remaining - limit))"

record resourceQuotaSource =
  qs_APIVersion :: string
  qs_Kind :: string
  qs_Metadata :: governanceMetadata
  qs_SpecHard :: "(string \<times> string) list"
  qs_Scopes :: "string list"
  qs_ScopeSelectors :: nat
  qs_StatusHard :: "(string \<times> string) list"
  qs_Used :: "(string \<times> string) list"

definition resourceQuotaSource_of :: "fields \<Rightarrow> resourceQuotaSource option" where
  "resourceQuotaSource_of fs = do {
     apiVersion \<leftarrow> f_str ''apiVersion'' fs;
     kind \<leftarrow> f_str ''kind'' fs;
     metadata \<leftarrow> governanceMetadata_of fs;
     spec \<leftarrow> f_struct ''spec'' fs;
     hard \<leftarrow> f_str_map ''hard'' spec;
     scopes \<leftarrow> f_strs ''scopes'' spec;
     selector \<leftarrow> f_struct ''scopeSelector'' spec;
     selectors \<leftarrow> f_count Some ''matchExpressions'' selector;
     status \<leftarrow> f_struct ''status'' fs;
     statusHard \<leftarrow> f_str_map ''hard'' status;
     used \<leftarrow> f_str_map ''used'' status;
     Some \<lparr>qs_APIVersion = apiVersion, qs_Kind = kind, qs_Metadata = metadata, qs_SpecHard = hard, qs_Scopes = scopes,
           qs_ScopeSelectors = selectors, qs_StatusHard = statusHard, qs_Used = used\<rparr>
   }"

definition decodeResourceQuota ::
  "string \<Rightarrow> nat \<times> nat \<Rightarrow> string \<Rightarrow> (KubernetesResourceQuota \<times> nat \<times> nat) result" where
  "decodeResourceQuota expectedNamespace = (\<lambda>(remainingResources, remainingScopes) raw.
     case Unmarshal_fields raw \<bind> resourceQuotaSource_of of
       None \<Rightarrow> Inl (kube_upstream ''decode Kubernetes ResourceQuota'')
     | Some source \<Rightarrow>
         (case validateGovernanceIdentity (qs_APIVersion source) (qs_Kind source) ''v1'' ''ResourceQuota''
                 (qs_Metadata source) expectedNamespace of
            Some e \<Rightarrow> Inl e
          | None \<Rightarrow>
              (case projectQuotaResources (qs_SpecHard source) (qs_StatusHard source) (qs_Used source) remainingResources of
                 Inl e \<Rightarrow> Inl e
               | Inr (resources, resourceCount, resourcesTruncated, remainingResources) \<Rightarrow>
                   (case projectQuotaScopes (qs_Scopes source) remainingScopes of
                      Inl e \<Rightarrow> Inl e
                    | Inr (scopes, scopesTruncated, remainingScopes) \<Rightarrow>
                        Inr (\<lparr>rq_Namespace = gm_Namespace (qs_Metadata source), rq_Name = gm_Name (qs_Metadata source),
                              rq_Scopes = scopes, rq_ScopeCount = length (qs_Scopes source),
                              rq_ScopesTruncated = scopesTruncated, rq_ScopeSelectorCount = qs_ScopeSelectors source,
                              rq_Resources = resources, rq_ResourceCount = resourceCount,
                              rq_ResourcesTruncated = resourcesTruncated,
                              rq_CreatedAt = gm_CreationTimestamp (qs_Metadata source)\<rparr>,
                             remainingResources, remainingScopes)))))"

definition maxGovernanceProjectedEntries :: nat where
  "maxGovernanceProjectedEntries = 4096"

definition maxGovernanceProjectedScopes :: nat where
  "maxGovernanceProjectedScopes = 1024"

definition kc_ResourceQuotas :: "Client \<Rightarrow> string \<Rightarrow> KubernetesResourceQuota list kube" where
  "kc_ResourceQuotas c namespace =
     kguard (ValidateNamespace namespace)
     (kthen (listGovernanceRaw c (''/api/v1/namespaces/'' @ namespace @ ''/resourcequotas'') ''v1'' ''ResourceQuotaList'') (\<lambda>items.
      kthen (kresult (decode_budget (decodeResourceQuota namespace)
        (maxGovernanceProjectedEntries, maxGovernanceProjectedScopes) items)) (\<lambda>quotas.
      kreturn (sort_slice (\<lambda>a b. rq_Name a < rq_Name b) quotas))))"

section \<open>Limit ranges\<close>

record KubernetesLimitRangeConstraint =
  lc_Type :: string
  lc_Resource :: string
  lc_DefaultRequest :: string
  lc_Default :: string
  lc_Min :: string
  lc_Max :: string
  lc_MaxLimitRequestRatio :: string

record KubernetesLimitRange =
  lr_Namespace :: string
  lr_Name :: string
  lr_Constraints :: "KubernetesLimitRangeConstraint list"
  lr_ConstraintCount :: nat
  lr_ConstraintsTruncated :: bool
  lr_CreatedAt :: gtime

record limitRangeSource =
  ls_Type :: string
  ls_DefaultRequest :: "(string \<times> string) list"
  ls_Default :: "(string \<times> string) list"
  ls_Min :: "(string \<times> string) list"
  ls_Max :: "(string \<times> string) list"
  ls_MaxLimitRequestRatio :: "(string \<times> string) list"

definition limitRangeSource_of :: "fields \<Rightarrow> limitRangeSource option" where
  "limitRangeSource_of fs = do {
     type \<leftarrow> f_str ''type'' fs;
     defaultRequest \<leftarrow> f_str_map ''defaultRequest'' fs;
     defaults \<leftarrow> f_str_map ''default'' fs;
     minimum \<leftarrow> f_str_map ''min'' fs;
     maximum \<leftarrow> f_str_map ''max'' fs;
     ratio \<leftarrow> f_str_map ''maxLimitRequestRatio'' fs;
     Some \<lparr>ls_Type = type, ls_DefaultRequest = defaultRequest, ls_Default = defaults, ls_Min = minimum, ls_Max = maximum,
           ls_MaxLimitRequestRatio = ratio\<rparr>
   }"

definition limit_keys :: "limitRangeSource \<Rightarrow> string list" where
  "limit_keys limit =
     sortedGovernanceKeys [ls_DefaultRequest limit, ls_Default limit, ls_Min limit, ls_Max limit, ls_MaxLimitRequestRatio limit]"

definition projectLimitRangeConstraint ::
  "limitRangeSource \<Rightarrow> string \<Rightarrow> KubernetesLimitRangeConstraint result" where
  "projectLimitRangeConstraint source resource =
     (let entry = (\<lambda>m. or_error (kube_upstream ''invalid Kubernetes limit range value'') (governanceScalar (map_get resource m) True)) in
      case governanceScalar (ls_Type source) False of
        None \<Rightarrow> Inl (kube_upstream ''invalid Kubernetes limit range type'')
      | Some constraintType \<Rightarrow>
          (case governanceScalar resource False of
             None \<Rightarrow> Inl (kube_upstream ''invalid Kubernetes limit range resource'')
           | Some resource \<Rightarrow>
               (case decode_all entry [ls_DefaultRequest source, ls_Default source, ls_Min source, ls_Max source,
                                       ls_MaxLimitRequestRatio source] of
                  Inl e \<Rightarrow> Inl e
                | Inr entries \<Rightarrow>
                    Inr \<lparr>lc_Type = constraintType, lc_Resource = resource, lc_DefaultRequest = entries ! 0,
                         lc_Default = entries ! 1, lc_Min = entries ! 2, lc_Max = entries ! 3,
                         lc_MaxLimitRequestRatio = entries ! 4\<rparr>)))"

text \<open>The constraints of the sorted limits, as many as the object may show.\<close>

fun limit_constraints ::
  "nat \<Rightarrow> limitRangeSource list \<Rightarrow> KubernetesLimitRangeConstraint list \<Rightarrow> KubernetesLimitRangeConstraint list result" where
  "limit_constraints objectRemaining [] constraints = Inr constraints"
| "limit_constraints objectRemaining (limit # limits) constraints =
     (case decode_all (projectLimitRangeConstraint limit) (take (objectRemaining - length constraints) (limit_keys limit)) of
        Inl e \<Rightarrow> Inl e
      | Inr projected \<Rightarrow> limit_constraints objectRemaining limits (constraints @ projected))"

definition limitRange_of :: "fields \<Rightarrow> (string \<times> string \<times> governanceMetadata \<times> limitRangeSource list) option" where
  "limitRange_of fs = do {
     apiVersion \<leftarrow> f_str ''apiVersion'' fs;
     kind \<leftarrow> f_str ''kind'' fs;
     metadata \<leftarrow> governanceMetadata_of fs;
     spec \<leftarrow> f_struct ''spec'' fs;
     limits \<leftarrow> f_structs limitRangeSource_of ''limits'' spec;
     Some (apiVersion, kind, metadata, limits)
   }"

definition decodeLimitRange :: "string \<Rightarrow> nat \<Rightarrow> string \<Rightarrow> (KubernetesLimitRange \<times> nat) result" where
  "decodeLimitRange expectedNamespace remaining raw =
     (case Unmarshal_fields raw \<bind> limitRange_of of
        None \<Rightarrow> Inl (kube_upstream ''decode Kubernetes LimitRange'')
      | Some (apiVersion, kind, metadata, limits) \<Rightarrow>
          (case validateGovernanceIdentity apiVersion kind ''v1'' ''LimitRange'' metadata expectedNamespace of
             Some e \<Rightarrow> Inl e
           | None \<Rightarrow>
               let sortedLimits = sort_slice (\<lambda>a b. ls_Type a < ls_Type b) limits;
                   constraintCount = sum_list (map (length \<circ> limit_keys) sortedLimits)
               in case limit_constraints (min 128 remaining) sortedLimits [] of
                 Inl e \<Rightarrow> Inl e
               | Inr constraints \<Rightarrow>
                   Inr (\<lparr>lr_Namespace = gm_Namespace metadata, lr_Name = gm_Name metadata, lr_Constraints = constraints,
                         lr_ConstraintCount = constraintCount,
                         lr_ConstraintsTruncated = (constraintCount > length constraints),
                         lr_CreatedAt = gm_CreationTimestamp metadata\<rparr>,
                        remaining - length constraints)))"

definition kc_LimitRanges :: "Client \<Rightarrow> string \<Rightarrow> KubernetesLimitRange list kube" where
  "kc_LimitRanges c namespace =
     kguard (ValidateNamespace namespace)
     (kthen (listGovernanceRaw c (''/api/v1/namespaces/'' @ namespace @ ''/limitranges'') ''v1'' ''LimitRangeList'') (\<lambda>items.
      kthen (kresult (decode_budget (decodeLimitRange namespace) maxGovernanceProjectedEntries items)) (\<lambda>limitRanges.
      kreturn (sort_slice (\<lambda>a b. lr_Name a < lr_Name b) limitRanges))))"

end
