(* ===== verification/Kube_Availability.thy ===== *)
theory Kube_Availability
  imports Kube_Governance
begin

text \<open>
  Autoscalers and disruption budgets, of \<^verbatim>\<open>availability.go\<close>. Their conditions are what the budget
  of a list counts.
\<close>

section \<open>Values and conditions\<close>

record availabilityConditionSource =
  ac_Type :: string
  ac_Status :: string
  ac_Reason :: string

definition availabilityConditionSource_of :: "fields \<Rightarrow> availabilityConditionSource option" where
  "availabilityConditionSource_of fs = do {
     type \<leftarrow> f_str ''type'' fs;
     status \<leftarrow> f_str ''status'' fs;
     reason \<leftarrow> f_str ''reason'' fs;
     Some \<lparr>ac_Type = type, ac_Status = status, ac_Reason = reason\<rparr>
   }"

record KubernetesPolicyCondition =
  co_Type :: string
  co_Status :: string
  co_Reason :: string

definition validConditionStatus :: "string \<Rightarrow> bool" where
  "validConditionStatus status \<longleftrightarrow> status = ''True'' \<or> status = ''False'' \<or> status = ''Unknown''"

definition policy_condition :: "availabilityConditionSource \<Rightarrow> KubernetesPolicyCondition result" where
  "policy_condition condition =
     (case governanceScalar (ac_Type condition) False of
        None \<Rightarrow> Inl (kube_upstream ''invalid Kubernetes availability condition'')
      | Some conditionType \<Rightarrow>
          if \<not> validConditionStatus (ac_Status condition)
          then Inl (kube_upstream ''invalid Kubernetes availability condition'')
          else case governanceScalar (ac_Reason condition) True of
              None \<Rightarrow> Inl (kube_upstream ''invalid Kubernetes availability condition reason'')
            | Some reason \<Rightarrow> Inr \<lparr>co_Type = conditionType, co_Status = ac_Status condition, co_Reason = reason\<rparr>)"

definition projectAvailabilityConditions ::
  "availabilityConditionSource list \<Rightarrow> nat \<Rightarrow> (KubernetesPolicyCondition list \<times> bool \<times> nat) result" where
  "projectAvailabilityConditions source remaining =
     (let ordered = sort_slice (\<lambda>a b. if ac_Type a \<noteq> ac_Type b then ac_Type a < ac_Type b else ac_Reason a < ac_Reason b) source;
          limit = min (length ordered) (min 8 remaining) in
      case decode_all policy_condition (take limit ordered) of
        Inl e \<Rightarrow> Inl e
      | Inr conditions \<Rightarrow> Inr (conditions, length ordered > limit, remaining - limit))"

definition availabilityValuePresent :: "string \<Rightarrow> bool" where
  "availabilityValuePresent raw \<longleftrightarrow> trim_space raw \<noteq> [] \<and> trim_space raw \<noteq> ''null''"

text \<open>
  An integer or a string: \<^verbatim>\<open>ParseInt\<close> refuses a number that is not written as an integer or
  is outside 32 bits.
\<close>

definition projectAvailabilityValue :: "string \<Rightarrow> string option" where
  "projectAvailabilityValue raw =
     (let trimmed = trim_space raw in
      if trimmed = [] \<or> trimmed = ''null'' then Some []
      else if length trimmed > 64 + 2 then None
      else case Unmarshal_value trimmed of
          Some (JStr s) \<Rightarrow> if length s > 64 then None else governanceScalar s False
        | Some (JInt n) \<Rightarrow> if 0 \<le> n \<and> n < 2 ^ 31 then Some (itoa n) else None
        | _ \<Rightarrow> None)"

definition generationObserved :: "int \<Rightarrow> int option \<Rightarrow> bool" where
  "generationObserved generation observed \<longleftrightarrow> generation > 0 \<and> observed = Some generation"

section \<open>Autoscalers\<close>

record KubernetesHorizontalPodAutoscaler =
  hp_Namespace :: string
  hp_Name :: string
  hp_TargetAPIVersion :: string
  hp_TargetKind :: string
  hp_TargetName :: string
  hp_MinReplicas :: int
  hp_MinReplicasDefaulted :: bool
  hp_MaxReplicas :: int
  hp_CurrentReplicas :: int
  hp_DesiredReplicas :: int
  hp_MetricCount :: nat
  hp_CurrentMetricCount :: nat
  hp_Observed :: bool
  hp_Conditions :: "KubernetesPolicyCondition list"
  hp_ConditionCount :: nat
  hp_ConditionsTruncated :: bool
  hp_LastScaleTime :: "gtime option"
  hp_CreatedAt :: gtime

record horizontalPodAutoscalerSource =
  hs_APIVersion :: string
  hs_Kind :: string
  hs_Metadata :: governanceMetadata
  hs_TargetAPIVersion :: string
  hs_TargetKind :: string
  hs_TargetName :: string
  hs_MinReplicas :: "int option"
  hs_MaxReplicas :: int
  hs_Metrics :: nat
  hs_ObservedGeneration :: "int option"
  hs_CurrentReplicas :: int
  hs_DesiredReplicas :: int
  hs_CurrentMetrics :: nat
  hs_LastScaleTime :: "gtime option"
  hs_Conditions :: "availabilityConditionSource list"

definition horizontalPodAutoscalerSource_of :: "fields \<Rightarrow> horizontalPodAutoscalerSource option" where
  "horizontalPodAutoscalerSource_of fs = do {
     apiVersion \<leftarrow> f_str ''apiVersion'' fs;
     kind \<leftarrow> f_str ''kind'' fs;
     metadata \<leftarrow> governanceMetadata_of fs;
     spec \<leftarrow> f_struct ''spec'' fs;
     target \<leftarrow> f_struct ''scaleTargetRef'' spec;
     targetAPIVersion \<leftarrow> f_str ''apiVersion'' target;
     targetKind \<leftarrow> f_str ''kind'' target;
     targetName \<leftarrow> f_str ''name'' target;
     minReplicas \<leftarrow> f_int32_ptr ''minReplicas'' spec;
     maxReplicas \<leftarrow> f_int32 ''maxReplicas'' spec;
     metrics \<leftarrow> f_count Some ''metrics'' spec;
     status \<leftarrow> f_struct ''status'' fs;
     observed \<leftarrow> f_int64_ptr ''observedGeneration'' status;
     current \<leftarrow> f_int32 ''currentReplicas'' status;
     desired \<leftarrow> f_int32 ''desiredReplicas'' status;
     currentMetrics \<leftarrow> f_count Some ''currentMetrics'' status;
     lastScaleTime \<leftarrow> json_field set_time_pointer None ''lastScaleTime'' status;
     conditions \<leftarrow> f_structs availabilityConditionSource_of ''conditions'' status;
     Some \<lparr>hs_APIVersion = apiVersion, hs_Kind = kind, hs_Metadata = metadata, hs_TargetAPIVersion = targetAPIVersion,
           hs_TargetKind = targetKind, hs_TargetName = targetName, hs_MinReplicas = minReplicas,
           hs_MaxReplicas = maxReplicas, hs_Metrics = metrics, hs_ObservedGeneration = observed,
           hs_CurrentReplicas = current, hs_DesiredReplicas = desired, hs_CurrentMetrics = currentMetrics,
           hs_LastScaleTime = lastScaleTime, hs_Conditions = conditions\<rparr>
   }"

definition defaultHPAMinReplicas :: int where
  "defaultHPAMinReplicas = 1"

definition decodeHorizontalPodAutoscaler ::
  "string \<Rightarrow> nat \<Rightarrow> string \<Rightarrow> (KubernetesHorizontalPodAutoscaler \<times> nat) result" where
  "decodeHorizontalPodAutoscaler expectedNamespace remainingConditions raw =
     (case Unmarshal_fields raw \<bind> horizontalPodAutoscalerSource_of of
        None \<Rightarrow> Inl (kube_upstream ''decode Kubernetes HorizontalPodAutoscaler'')
      | Some source \<Rightarrow>
          (case validateGovernanceIdentity (hs_APIVersion source) (hs_Kind source) ''autoscaling/v2'' ''HorizontalPodAutoscaler''
                  (hs_Metadata source) expectedNamespace of
             Some e \<Rightarrow> Inl e
           | None \<Rightarrow>
               let minReplicas = (case hs_MinReplicas source of None \<Rightarrow> defaultHPAMinReplicas | Some n \<Rightarrow> n) in
               if governanceScalar (hs_TargetAPIVersion source) True = None
               then Inl (kube_upstream ''invalid Kubernetes autoscaler target api version'')
               else if governanceScalar (hs_TargetKind source) False = None \<or> \<not> validKubernetesMetadataString (hs_TargetName source)
               then Inl (kube_upstream ''invalid Kubernetes autoscaler target'')
               else if minReplicas < 0 \<or> hs_MaxReplicas source \<le> 0 \<or> hs_MaxReplicas source < minReplicas
                 \<or> hs_CurrentReplicas source < 0 \<or> hs_DesiredReplicas source < 0
               then Inl (kube_upstream ''invalid Kubernetes autoscaler replica count'')
               else if hs_LastScaleTime source = Some zero_time
               then Inl (kube_upstream ''invalid Kubernetes autoscaler scale time'')
               else
                 (case projectAvailabilityConditions (hs_Conditions source) remainingConditions of
                    Inl e \<Rightarrow> Inl e
                  | Inr (conditions, truncated, remainingConditions) \<Rightarrow>
                      Inr (\<lparr>hp_Namespace = gm_Namespace (hs_Metadata source), hp_Name = gm_Name (hs_Metadata source),
                            hp_TargetAPIVersion = hs_TargetAPIVersion source, hp_TargetKind = hs_TargetKind source,
                            hp_TargetName = hs_TargetName source, hp_MinReplicas = minReplicas,
                            hp_MinReplicasDefaulted = (hs_MinReplicas source = None), hp_MaxReplicas = hs_MaxReplicas source,
                            hp_CurrentReplicas = hs_CurrentReplicas source, hp_DesiredReplicas = hs_DesiredReplicas source,
                            hp_MetricCount = hs_Metrics source, hp_CurrentMetricCount = hs_CurrentMetrics source,
                            hp_Observed = generationObserved (gm_Generation (hs_Metadata source)) (hs_ObservedGeneration source),
                            hp_Conditions = conditions, hp_ConditionCount = length (hs_Conditions source),
                            hp_ConditionsTruncated = truncated, hp_LastScaleTime = hs_LastScaleTime source,
                            hp_CreatedAt = gm_CreationTimestamp (hs_Metadata source)\<rparr>, remainingConditions))))"

definition kc_HorizontalPodAutoscalers :: "Client \<Rightarrow> string \<Rightarrow> KubernetesHorizontalPodAutoscaler list kube" where
  "kc_HorizontalPodAutoscalers c namespace =
     kguard (ValidateNamespace namespace)
     (kthen (listGovernanceRaw c (''/apis/autoscaling/v2/namespaces/'' @ namespace @ ''/horizontalpodautoscalers'')
        ''autoscaling/v2'' ''HorizontalPodAutoscalerList'') (\<lambda>items.
      kthen (kresult (decode_budget (decodeHorizontalPodAutoscaler namespace) maxGovernanceProjectedEntries items)) (\<lambda>autoscalers.
      kreturn (sort_slice (\<lambda>a b. hp_Name a < hp_Name b) autoscalers))))"

section \<open>Disruption budgets\<close>

datatype KubernetesSelectorMode = KubernetesSelectorNone | KubernetesSelectorAll | KubernetesSelectorFiltered

datatype KubernetesDisruptionBudgetStatus =
    DisruptionBudgetAvailable | DisruptionBudgetBlocked | DisruptionBudgetInactive | DisruptionBudgetUnobserved

record KubernetesPodDisruptionBudget =
  db_Namespace :: string
  db_Name :: string
  db_SelectorMode :: KubernetesSelectorMode
  db_SelectorLabelCount :: nat
  db_SelectorExpressionCount :: nat
  db_MinAvailable :: string
  db_MaxUnavailable :: string
  db_CurrentHealthy :: int
  db_DesiredHealthy :: int
  db_DisruptionsAllowed :: int
  db_ExpectedPods :: int
  db_Observed :: bool
  db_DisruptionStatus :: KubernetesDisruptionBudgetStatus
  db_UnhealthyPodEvictionPolicy :: string
  db_UnhealthyPodEvictionPolicyDefaulted :: bool
  db_Conditions :: "KubernetesPolicyCondition list"
  db_ConditionCount :: nat
  db_ConditionsTruncated :: bool
  db_CreatedAt :: gtime

definition disruptionBudgetStatus :: "bool \<Rightarrow> int \<Rightarrow> int \<Rightarrow> KubernetesDisruptionBudgetStatus" where
  "disruptionBudgetStatus observed expectedPods disruptionsAllowed =
     (if \<not> observed then DisruptionBudgetUnobserved
      else if expectedPods = 0 then DisruptionBudgetInactive
      else if disruptionsAllowed = 0 then DisruptionBudgetBlocked
      else DisruptionBudgetAvailable)"

text \<open>The numbers of labels and expressions of a selector, as \<^verbatim>\<open>availabilitySelectorSource\<close>.\<close>

definition availabilitySelectorSource_of :: "fields \<Rightarrow> (nat \<times> nat) option" where
  "availabilitySelectorSource_of fs = do {
     labels \<leftarrow> json_field (set_map Some) [] ''matchLabels'' fs;
     expressions \<leftarrow> f_count Some ''matchExpressions'' fs;
     Some (length labels, expressions)
   }"

text \<open>The raw members of a struct that is itself a member.\<close>

definition f_members :: "string \<Rightarrow> (string \<times> string \<times> json) list \<Rightarrow> (string \<times> string \<times> json) list" where
  "f_members name ms =
     concat (map (\<lambda>(k, raw, v). if equal_fold name k then case object_members raw of Some inner \<Rightarrow> inner | None \<Rightarrow> [] else []) ms)"

record podDisruptionBudgetSource =
  bs_APIVersion :: string
  bs_Kind :: string
  bs_Metadata :: governanceMetadata
  bs_Selector :: "(nat \<times> nat) option"
  bs_MinAvailable :: string
  bs_MaxUnavailable :: string
  bs_UnhealthyPodEvictionPolicy :: string
  bs_ObservedGeneration :: "int option"
  bs_CurrentHealthy :: int
  bs_DesiredHealthy :: int
  bs_DisruptionsAllowed :: int
  bs_ExpectedPods :: int
  bs_Conditions :: "availabilityConditionSource list"

definition podDisruptionBudgetSource_of :: "string \<Rightarrow> podDisruptionBudgetSource option" where
  "podDisruptionBudgetSource_of raw = do {
     ms \<leftarrow> object_members raw;
     let fs = map (\<lambda>(k, raw, v). (k, v)) ms;
     apiVersion \<leftarrow> f_str ''apiVersion'' fs;
     kind \<leftarrow> f_str ''kind'' fs;
     metadata \<leftarrow> governanceMetadata_of fs;
     spec \<leftarrow> f_struct ''spec'' fs;
     selector \<leftarrow> f_pointer availabilitySelectorSource_of ''selector'' spec;
     policy \<leftarrow> f_str ''unhealthyPodEvictionPolicy'' spec;
     status \<leftarrow> f_struct ''status'' fs;
     observed \<leftarrow> f_int64_ptr ''observedGeneration'' status;
     current \<leftarrow> f_int32 ''currentHealthy'' status;
     desired \<leftarrow> f_int32 ''desiredHealthy'' status;
     allowed \<leftarrow> f_int32 ''disruptionsAllowed'' status;
     expected \<leftarrow> f_int32 ''expectedPods'' status;
     conditions \<leftarrow> f_structs availabilityConditionSource_of ''conditions'' status;
     Some \<lparr>bs_APIVersion = apiVersion, bs_Kind = kind, bs_Metadata = metadata, bs_Selector = selector,
           bs_MinAvailable = f_raw ''minAvailable'' (f_members ''spec'' ms),
           bs_MaxUnavailable = f_raw ''maxUnavailable'' (f_members ''spec'' ms),
           bs_UnhealthyPodEvictionPolicy = policy, bs_ObservedGeneration = observed, bs_CurrentHealthy = current,
           bs_DesiredHealthy = desired, bs_DisruptionsAllowed = allowed, bs_ExpectedPods = expected,
           bs_Conditions = conditions\<rparr>
   }"

definition selector_mode :: "(nat \<times> nat) option \<Rightarrow> KubernetesSelectorMode" where
  "selector_mode selector =
     (case selector of
        None \<Rightarrow> KubernetesSelectorNone
      | Some (labels, expressions) \<Rightarrow>
          if labels > 0 \<or> expressions > 0 then KubernetesSelectorFiltered else KubernetesSelectorAll)"

definition defaultPDBUnhealthyPolicy :: string where
  "defaultPDBUnhealthyPolicy = ''IfHealthyBudget''"

definition decodePodDisruptionBudget ::
  "string \<Rightarrow> bool \<Rightarrow> nat \<Rightarrow> string \<Rightarrow> (KubernetesPodDisruptionBudget \<times> nat) result" where
  "decodePodDisruptionBudget expectedNamespace allNamespaces remainingConditions raw =
     (case podDisruptionBudgetSource_of raw of
        None \<Rightarrow> Inl (kube_upstream ''decode Kubernetes PodDisruptionBudget'')
      | Some source \<Rightarrow>
          (case (if allNamespaces
                 then validateGovernanceIdentityAnyNamespace (bs_APIVersion source) (bs_Kind source) ''policy/v1''
                        ''PodDisruptionBudget'' (bs_Metadata source)
                 else validateGovernanceIdentity (bs_APIVersion source) (bs_Kind source) ''policy/v1''
                        ''PodDisruptionBudget'' (bs_Metadata source) expectedNamespace) of
             Some e \<Rightarrow> Inl e
           | None \<Rightarrow>
               if availabilityValuePresent (bs_MinAvailable source) \<and> availabilityValuePresent (bs_MaxUnavailable source)
               then Inl (kube_upstream ''Kubernetes disruption budget has mutually exclusive availability fields'')
               else
                 (case (projectAvailabilityValue (bs_MinAvailable source), projectAvailabilityValue (bs_MaxUnavailable source)) of
                    (None, _) \<Rightarrow> Inl (kube_upstream ''invalid Kubernetes disruption budget minAvailable'')
                  | (Some minAvailable, None) \<Rightarrow> Inl (kube_upstream ''invalid Kubernetes disruption budget maxUnavailable'')
                  | (Some minAvailable, Some maxUnavailable) \<Rightarrow>
                      if bs_CurrentHealthy source < 0 \<or> bs_DesiredHealthy source < 0 \<or> bs_DisruptionsAllowed source < 0
                        \<or> bs_ExpectedPods source < 0
                      then Inl (kube_upstream ''invalid Kubernetes disruption budget status count'')
                      else
                        let policyDefaulted = (bs_UnhealthyPodEvictionPolicy source = []);
                            policy = (if policyDefaulted then defaultPDBUnhealthyPolicy else bs_UnhealthyPodEvictionPolicy source);
                            observed = generationObserved (gm_Generation (bs_Metadata source)) (bs_ObservedGeneration source)
                        in
                        if governanceScalar policy False = None
                        then Inl (kube_upstream ''invalid Kubernetes disruption budget unhealthy pod policy'')
                        else
                          (case projectAvailabilityConditions (bs_Conditions source) remainingConditions of
                             Inl e \<Rightarrow> Inl e
                           | Inr (conditions, truncated, remainingConditions) \<Rightarrow>
                               Inr (\<lparr>db_Namespace = gm_Namespace (bs_Metadata source), db_Name = gm_Name (bs_Metadata source),
                                     db_SelectorMode = selector_mode (bs_Selector source),
                                     db_SelectorLabelCount = (case bs_Selector source of None \<Rightarrow> 0 | Some (labels, _) \<Rightarrow> labels),
                                     db_SelectorExpressionCount =
                                       (case bs_Selector source of None \<Rightarrow> 0 | Some (_, expressions) \<Rightarrow> expressions),
                                     db_MinAvailable = minAvailable, db_MaxUnavailable = maxUnavailable,
                                     db_CurrentHealthy = bs_CurrentHealthy source, db_DesiredHealthy = bs_DesiredHealthy source,
                                     db_DisruptionsAllowed = bs_DisruptionsAllowed source,
                                     db_ExpectedPods = bs_ExpectedPods source, db_Observed = observed,
                                     db_DisruptionStatus =
                                       disruptionBudgetStatus observed (bs_ExpectedPods source) (bs_DisruptionsAllowed source),
                                     db_UnhealthyPodEvictionPolicy = policy,
                                     db_UnhealthyPodEvictionPolicyDefaulted = policyDefaulted, db_Conditions = conditions,
                                     db_ConditionCount = length (bs_Conditions source), db_ConditionsTruncated = truncated,
                                     db_CreatedAt = gm_CreationTimestamp (bs_Metadata source)\<rparr>, remainingConditions)))))"

definition listPodDisruptionBudgets ::
  "Client \<Rightarrow> string \<Rightarrow> string \<Rightarrow> bool \<Rightarrow> KubernetesPodDisruptionBudget list kube" where
  "listPodDisruptionBudgets c path expectedNamespace allNamespaces =
     kthen (listGovernanceRaw c path ''policy/v1'' ''PodDisruptionBudgetList'') (\<lambda>items.
     kthen (kresult (decode_budget (decodePodDisruptionBudget expectedNamespace allNamespaces) maxGovernanceProjectedEntries items)) (\<lambda>budgets.
     kreturn (sort_slice (\<lambda>a b. if db_Namespace a \<noteq> db_Namespace b then db_Namespace a < db_Namespace b else db_Name a < db_Name b)
       budgets)))"

definition kc_PodDisruptionBudgets :: "Client \<Rightarrow> string \<Rightarrow> KubernetesPodDisruptionBudget list kube" where
  "kc_PodDisruptionBudgets c namespace =
     kguard (ValidateNamespace namespace)
       (listPodDisruptionBudgets c (''/apis/policy/v1/namespaces/'' @ namespace @ ''/poddisruptionbudgets'') namespace False)"

definition kc_DisruptionBudgets :: "Client \<Rightarrow> KubernetesPodDisruptionBudget list kube" where
  "kc_DisruptionBudgets c = listPodDisruptionBudgets c ''/apis/policy/v1/poddisruptionbudgets'' [] True"

end
