(* ===== verification/Kube_Network.thy ===== *)
theory Kube_Network
  imports Kube_Availability
begin

text \<open>
  Services, ingresses, endpoint slices and network policies, of \<^verbatim>\<open>network.go\<close>,
  \<^verbatim>\<open>endpoint_slice.go\<close> and \<^verbatim>\<open>network_policy.go\<close>.
\<close>

section \<open>Services\<close>

definition MaxNetworkAddresses :: nat where
  "MaxNetworkAddresses = 32"

definition MaxServicePorts :: nat where
  "MaxServicePorts = 64"

definition MaxIngressHosts :: nat where
  "MaxIngressHosts = 32"

record ServicePort =
  sv_Name :: string
  sv_Protocol :: string
  sv_Port :: int
  sv_TargetPort :: string
  sv_NodePort :: int

record KubernetesService =
  sx_Namespace :: string
  sx_Name :: string
  sx_Type :: string
  sx_ClusterIP :: string
  sx_ExternalName :: string
  sx_ExternalAddresses :: "string list"
  sx_AddressCount :: nat
  sx_Ports :: "ServicePort list"
  sx_PortCount :: nat
  sx_CreatedAt :: gtime

text \<open>The values shown and the count of all of them.\<close>

definition appendBoundedNetworkValue :: "nat \<Rightarrow> string \<Rightarrow> string list \<times> nat \<Rightarrow> string list \<times> nat" where
  "appendBoundedNetworkValue limit raw = (\<lambda>(shown, n).
     let s = trim_space raw in
     if s = [] \<or> s \<in> set shown then (shown, n)
     else (if length shown < limit then shown @ [s] else shown, Suc n))"

definition bounded_network_values :: "nat \<Rightarrow> string list \<Rightarrow> string list \<times> nat" where
  "bounded_network_values limit raws = fold (appendBoundedNetworkValue limit) raws ([], 0)"

text \<open>The address and the host name of the entries of a load balancer, in their order.\<close>

definition loadBalancerAddress_of :: "fields \<Rightarrow> string list option" where
  "loadBalancerAddress_of fs = do { ip \<leftarrow> f_str ''ip'' fs; hostname \<leftarrow> f_str ''hostname'' fs; Some [ip, hostname] }"

definition load_balancer_addresses :: "fields \<Rightarrow> string list option" where
  "load_balancer_addresses fs = do {
     balancer \<leftarrow> f_path [''status'', ''loadBalancer''] fs;
     addresses \<leftarrow> f_structs loadBalancerAddress_of ''ingress'' balancer;
     Some (concat addresses)
   }"

record servicePortSource =
  su_Name :: string
  su_Protocol :: string
  su_Port :: int
  su_TargetPort :: json
    \<comment> \<open>\<open>JNull\<close> where the field is absent\<close>
  su_NodePort :: int

definition servicePortSource_of :: "fields \<Rightarrow> servicePortSource option" where
  "servicePortSource_of fs = do {
     name \<leftarrow> f_str ''name'' fs;
     protocol \<leftarrow> f_str ''protocol'' fs;
     port \<leftarrow> f_int32 ''port'' fs;
     targetPort \<leftarrow> json_field (\<lambda>_ v. Some v) JNull ''targetPort'' fs;
     nodePort \<leftarrow> f_int32 ''nodePort'' fs;
     Some \<lparr>su_Name = name, su_Protocol = protocol, su_Port = port, su_TargetPort = targetPort, su_NodePort = nodePort\<rparr>
   }"

definition decodeServiceTargetPort :: "json \<Rightarrow> string result" where
  "decodeServiceTargetPort raw =
     (case raw of
        JNull \<Rightarrow> Inr []
      | JStr named \<Rightarrow> Inr named
      | _ \<Rightarrow> (case set_int32 0 raw of
                None \<Rightarrow> Inl (kube_upstream ''decode service target port'')
              | Some numbered \<Rightarrow> Inr (itoa numbered)))"

definition service_port :: "servicePortSource \<Rightarrow> ServicePort result" where
  "service_port port =
     (case decodeServiceTargetPort (su_TargetPort port) of
        Inl e \<Rightarrow> Inl e
      | Inr targetPort \<Rightarrow>
          Inr \<lparr>sv_Name = su_Name port, sv_Protocol = (if su_Protocol port = [] then ''TCP'' else su_Protocol port),
               sv_Port = su_Port port, sv_TargetPort = targetPort, sv_NodePort = su_NodePort port\<rparr>)"

record serviceSource =
  se_Metadata :: objectMetadata
  se_Type :: string
  se_ClusterIP :: string
  se_ExternalName :: string
  se_ExternalIPs :: "string list"
  se_Ports :: "servicePortSource list"
  se_Addresses :: "string list"

definition serviceSource_of :: "fields \<Rightarrow> serviceSource option" where
  "serviceSource_of fs = do {
     metadata \<leftarrow> metadata_of fs;
     spec \<leftarrow> f_struct ''spec'' fs;
     type \<leftarrow> f_str ''type'' spec;
     clusterIP \<leftarrow> f_str ''clusterIP'' spec;
     externalName \<leftarrow> f_str ''externalName'' spec;
     externalIPs \<leftarrow> f_strs ''externalIPs'' spec;
     ports \<leftarrow> f_structs servicePortSource_of ''ports'' spec;
     addresses \<leftarrow> load_balancer_addresses fs;
     Some \<lparr>se_Metadata = metadata, se_Type = type, se_ClusterIP = clusterIP, se_ExternalName = externalName,
           se_ExternalIPs = externalIPs, se_Ports = ports, se_Addresses = addresses\<rparr>
   }"

definition decodeService :: "string \<Rightarrow> KubernetesService result" where
  "decodeService item =
     (case Unmarshal_fields item \<bind> serviceSource_of of
        None \<Rightarrow> Inl (kube_upstream ''decode service'')
      | Some resource \<Rightarrow>
          (let (addresses, addressCount) =
                 bounded_network_values MaxNetworkAddresses (se_ExternalIPs resource @ se_Addresses resource) in
           case decode_all service_port (take MaxServicePorts (se_Ports resource)) of
             Inl e \<Rightarrow> Inl e
           | Inr ports \<Rightarrow>
               Inr \<lparr>sx_Namespace = om_Namespace (se_Metadata resource), sx_Name = om_Name (se_Metadata resource),
                    sx_Type = (if se_Type resource = [] then ''ClusterIP'' else se_Type resource),
                    sx_ClusterIP = se_ClusterIP resource, sx_ExternalName = se_ExternalName resource,
                    sx_ExternalAddresses = addresses, sx_AddressCount = addressCount, sx_Ports = ports,
                    sx_PortCount = length (se_Ports resource),
                    sx_CreatedAt = om_CreationTimestamp (se_Metadata resource)\<rparr>))"

definition namespaced_path :: "string \<Rightarrow> string \<Rightarrow> string \<Rightarrow> string" where
  "namespaced_path root resource namespace =
     (if namespace \<noteq> [] then root @ ''/namespaces/'' @ namespace @ ''/'' @ resource else root @ ''/'' @ resource)"

definition optional_namespace :: "string \<Rightarrow> go_error option" where
  "optional_namespace namespace = (if namespace \<noteq> [] then ValidateNamespace namespace else None)"

definition kc_Services :: "Client \<Rightarrow> string \<Rightarrow> KubernetesService list kube" where
  "kc_Services c namespace =
     kguard (optional_namespace namespace)
     (kthen (listRaw c (namespaced_path ''/api/v1'' ''services'' namespace) None) (\<lambda>items.
      kthen (kresult (decode_all decodeService items)) (\<lambda>services.
      kreturn (sort_slice
        (\<lambda>a b. if sx_Namespace a \<noteq> sx_Namespace b then sx_Namespace a < sx_Namespace b else sx_Name a < sx_Name b) services))))"

section \<open>Ingresses\<close>

record KubernetesIngress =
  ki_Namespace :: string
  ki_Name :: string
  ki_ClassName :: string
  ki_Hosts :: "string list"
  ki_HostCount :: nat
  ki_Addresses :: "string list"
  ki_AddressCount :: nat
  ki_TLS :: bool
  ki_RuleCount :: nat
  ki_PathCount :: nat
  ki_CreatedAt :: gtime

record ingressSource =
  ig_Metadata :: objectMetadata
  ig_ClassName :: string
  ig_TLS :: nat
  ig_Rules :: "(string \<times> nat option) list"
    \<comment> \<open>host, and the number of paths where the rule has some\<close>
  ig_Addresses :: "string list"

definition ingress_rule_of :: "fields \<Rightarrow> (string \<times> nat option) option" where
  "ingress_rule_of fs = do {
     host \<leftarrow> f_str ''host'' fs;
     paths \<leftarrow> f_pointer (f_count Some ''paths'') ''http'' fs;
     Some (host, paths)
   }"

definition ingressSource_of :: "fields \<Rightarrow> ingressSource option" where
  "ingressSource_of fs = do {
     metadata \<leftarrow> metadata_of fs;
     spec \<leftarrow> f_struct ''spec'' fs;
     className \<leftarrow> f_str ''ingressClassName'' spec;
     tls \<leftarrow> f_count Some ''tls'' spec;
     rules \<leftarrow> f_structs ingress_rule_of ''rules'' spec;
     addresses \<leftarrow> load_balancer_addresses fs;
     Some \<lparr>ig_Metadata = metadata, ig_ClassName = className, ig_TLS = tls, ig_Rules = rules, ig_Addresses = addresses\<rparr>
   }"

definition decodeIngress :: "string \<Rightarrow> KubernetesIngress result" where
  "decodeIngress item =
     (case Unmarshal_fields item \<bind> ingressSource_of of
        None \<Rightarrow> Inl (kube_upstream ''decode ingress'')
      | Some resource \<Rightarrow>
          (let (hosts, hostCount) = bounded_network_values MaxIngressHosts
                 (map (\<lambda>(host, _). if trim_space host = [] then ''*'' else host) (ig_Rules resource));
               (addresses, addressCount) = bounded_network_values MaxNetworkAddresses (ig_Addresses resource)
           in Inr \<lparr>ki_Namespace = om_Namespace (ig_Metadata resource), ki_Name = om_Name (ig_Metadata resource),
                   ki_ClassName = ig_ClassName resource, ki_Hosts = hosts, ki_HostCount = hostCount,
                   ki_Addresses = addresses, ki_AddressCount = addressCount, ki_TLS = (ig_TLS resource > 0),
                   ki_RuleCount = length (ig_Rules resource),
                   ki_PathCount = sum_list (map (\<lambda>(_, paths). case paths of None \<Rightarrow> 0 | Some n \<Rightarrow> n) (ig_Rules resource)),
                   ki_CreatedAt = om_CreationTimestamp (ig_Metadata resource)\<rparr>))"

definition kc_Ingresses :: "Client \<Rightarrow> string \<Rightarrow> KubernetesIngress list kube" where
  "kc_Ingresses c namespace =
     kguard (optional_namespace namespace)
     (kthen (listRaw c (namespaced_path ''/apis/networking.k8s.io/v1'' ''ingresses'' namespace) None) (\<lambda>items.
      kthen (kresult (decode_all decodeIngress items)) (\<lambda>ingresses.
      kreturn (sort_slice
        (\<lambda>a b. if ki_Namespace a \<noteq> ki_Namespace b then ki_Namespace a < ki_Namespace b else ki_Name a < ki_Name b) ingresses))))"

section \<open>Endpoint slices\<close>

record KubernetesEndpointSlice =
  el_Namespace :: string
  el_Name :: string
  el_ServiceName :: string
  el_AddressType :: string
  el_EndpointCount :: nat
  el_ReadyEndpointCount :: nat
  el_ReadyDefaultedCount :: nat
  el_ServingEndpointCount :: nat
  el_ServingDefaultedCount :: nat
  el_TerminatingEndpointCount :: nat
  el_TerminatingDefaultedCount :: nat
  el_PortCount :: nat
  el_CreatedAt :: gtime

record endpointSliceEndpointSource =
  ee_Ready :: "bool option"
  ee_Serving :: "bool option"
  ee_Terminating :: "bool option"

definition endpointSliceEndpointSource_of :: "fields \<Rightarrow> endpointSliceEndpointSource option" where
  "endpointSliceEndpointSource_of fs = do {
     conditions \<leftarrow> f_struct ''conditions'' fs;
     ready \<leftarrow> f_bool_ptr ''ready'' conditions;
     serving \<leftarrow> f_bool_ptr ''serving'' conditions;
     terminating \<leftarrow> f_bool_ptr ''terminating'' conditions;
     Some \<lparr>ee_Ready = ready, ee_Serving = serving, ee_Terminating = terminating\<rparr>
   }"

record endpointSliceMetadataSource =
  em_Name :: string
  em_Namespace :: string
  em_CreationTimestamp :: gtime
  em_Labels :: "(string \<times> string) list"

definition endpointSliceMetadataSource_of :: "fields \<Rightarrow> endpointSliceMetadataSource option" where
  "endpointSliceMetadataSource_of fs = do {
     metadata \<leftarrow> f_struct ''metadata'' fs;
     name \<leftarrow> f_str ''name'' metadata;
     namespace \<leftarrow> f_str ''namespace'' metadata;
     created \<leftarrow> f_time ''creationTimestamp'' metadata;
     labels \<leftarrow> f_str_map ''labels'' metadata;
     Some \<lparr>em_Name = name, em_Namespace = namespace, em_CreationTimestamp = created, em_Labels = labels\<rparr>
   }"

definition endpointSliceServiceNameLabel :: string where
  "endpointSliceServiceNameLabel = ''kubernetes.io/service-name''"

definition validEndpointSliceAddressType :: "string \<Rightarrow> bool" where
  "validEndpointSliceAddressType s \<longleftrightarrow> s = ''IPv4'' \<or> s = ''IPv6'' \<or> s = ''FQDN''"

definition validateEndpointSliceIdentity ::
  "string \<Rightarrow> string \<Rightarrow> endpointSliceMetadataSource \<Rightarrow> string \<Rightarrow> string \<Rightarrow> string \<Rightarrow> go_error option" where
  "validateEndpointSliceIdentity apiVersion kind metadata expectedNamespace serviceName addressType =
     (if apiVersion \<noteq> ''discovery.k8s.io/v1'' \<or> kind \<noteq> ''EndpointSlice'' \<or> \<not> validKubernetesMetadataString (em_Name metadata)
         \<or> em_CreationTimestamp metadata = zero_time \<or> ValidateNamespace (em_Namespace metadata) \<noteq> None
         \<or> ValidateNamespace serviceName \<noteq> None \<or> \<not> validEndpointSliceAddressType addressType
      then Some (kube_upstream ''invalid Kubernetes EndpointSlice object identity'')
      else if expectedNamespace \<noteq> [] \<and> em_Namespace metadata \<noteq> expectedNamespace
      then Some (kube_upstream ''Kubernetes EndpointSlice object exceeded namespace scope'') else None)"

record endpointSliceSource =
  ew_APIVersion :: string
  ew_Kind :: string
  ew_Metadata :: endpointSliceMetadataSource
  ew_AddressType :: string
  ew_Endpoints :: "endpointSliceEndpointSource list"
  ew_Ports :: nat

definition endpointSliceSource_of :: "fields \<Rightarrow> endpointSliceSource option" where
  "endpointSliceSource_of fs = do {
     apiVersion \<leftarrow> f_str ''apiVersion'' fs;
     kind \<leftarrow> f_str ''kind'' fs;
     metadata \<leftarrow> endpointSliceMetadataSource_of fs;
     addressType \<leftarrow> f_str ''addressType'' fs;
     endpoints \<leftarrow> f_structs endpointSliceEndpointSource_of ''endpoints'' fs;
     ports \<leftarrow> f_count (set_fields []) ''ports'' fs;
     Some \<lparr>ew_APIVersion = apiVersion, ew_Kind = kind, ew_Metadata = metadata, ew_AddressType = addressType,
           ew_Endpoints = endpoints, ew_Ports = ports\<rparr>
   }"

text \<open>The endpoints for which a condition is true, where one that is absent counts as \<open>absent\<close>.\<close>

definition condition_count :: "bool \<Rightarrow> bool option list \<Rightarrow> nat" where
  "condition_count absent conditions =
     length (filter (\<lambda>condition. case condition of None \<Rightarrow> absent | Some b \<Rightarrow> b) conditions)"

definition defaulted_count :: "bool option list \<Rightarrow> nat" where
  "defaulted_count conditions = length (filter (\<lambda>condition. condition = None) conditions)"

definition decodeEndpointSlice :: "string \<Rightarrow> nat \<Rightarrow> string \<Rightarrow> (KubernetesEndpointSlice \<times> nat) result" where
  "decodeEndpointSlice expectedNamespace remainingEntries raw =
     (case Unmarshal_fields raw \<bind> endpointSliceSource_of of
        None \<Rightarrow> Inl (kube_upstream ''decode Kubernetes EndpointSlice'')
      | Some source \<Rightarrow>
          (let serviceName = map_get endpointSliceServiceNameLabel (em_Labels (ew_Metadata source));
               endpoints = ew_Endpoints source;
               nestedEntries = length endpoints + ew_Ports source in
           case validateEndpointSliceIdentity (ew_APIVersion source) (ew_Kind source) (ew_Metadata source) expectedNamespace
                  serviceName (ew_AddressType source) of
             Some e \<Rightarrow> Inl e
           | None \<Rightarrow>
               if length endpoints > 1000 \<or> ew_Ports source > 100
               then Inl (kube_upstream ''Kubernetes EndpointSlice exceeded safe entry limit'')
               else if nestedEntries > remainingEntries
               then Inl (kube_upstream ''Kubernetes EndpointSlice request exceeded safe nested entry limit'')
               else Inr (\<lparr>el_Namespace = em_Namespace (ew_Metadata source), el_Name = em_Name (ew_Metadata source),
                          el_ServiceName = serviceName, el_AddressType = ew_AddressType source,
                          el_EndpointCount = length endpoints,
                          el_ReadyEndpointCount = condition_count True (map ee_Ready endpoints),
                          el_ReadyDefaultedCount = defaulted_count (map ee_Ready endpoints),
                          el_ServingEndpointCount = condition_count True (map ee_Serving endpoints),
                          el_ServingDefaultedCount = defaulted_count (map ee_Serving endpoints),
                          el_TerminatingEndpointCount = condition_count False (map ee_Terminating endpoints),
                          el_TerminatingDefaultedCount = defaulted_count (map ee_Terminating endpoints),
                          el_PortCount = ew_Ports source, el_CreatedAt = em_CreationTimestamp (ew_Metadata source)\<rparr>,
                         remainingEntries - nestedEntries)))"

definition kc_EndpointSlices :: "Client \<Rightarrow> string \<Rightarrow> KubernetesEndpointSlice list kube" where
  "kc_EndpointSlices c namespace =
     kguard (optional_namespace namespace)
     (kthen (listGovernanceRaw c (namespaced_path ''/apis/discovery.k8s.io/v1'' ''endpointslices'' namespace)
        ''discovery.k8s.io/v1'' ''EndpointSliceList'') (\<lambda>items.
      kthen (kresult (decode_budget (decodeEndpointSlice namespace) (16 * 1024) items)) (\<lambda>slices.
      kreturn (sort_slice
        (\<lambda>a b. if el_Namespace a \<noteq> el_Namespace b then el_Namespace a < el_Namespace b else el_Name a < el_Name b) slices))))"

section \<open>Network policies\<close>

record KubernetesNetworkPolicy =
  np_Namespace :: string
  np_Name :: string
  np_PodSelectorMode :: KubernetesSelectorMode
  np_PodSelectorLabelCount :: nat
  np_PodSelectorExpressionCount :: nat
  np_PolicyTypes :: "string list"
  np_PolicyTypesDefaulted :: bool
  np_IngressRuleCount :: nat
  np_IngressPeerCount :: nat
  np_IngressPortCount :: nat
  np_EgressRuleCount :: nat
  np_EgressPeerCount :: nat
  np_EgressPortCount :: nat
  np_CreatedAt :: gtime

text \<open>A rule is the number of its peers and of its ports.\<close>

definition network_rule_of :: "string \<Rightarrow> fields \<Rightarrow> (nat \<times> nat) option" where
  "network_rule_of peersField fs = do {
     peers \<leftarrow> f_count Some peersField fs;
     ports \<leftarrow> f_count Some ''ports'' fs;
     Some (peers, ports)
   }"

text \<open>The sums of peers and ports; \<^verbatim>\<open>countNetworkPolicyIngressEntries\<close> and its egress counterpart.\<close>

definition count_network_entries :: "string \<Rightarrow> (nat \<times> nat) list \<Rightarrow> (nat \<times> nat) result" where
  "count_network_entries direction rules =
     (if list_ex (\<lambda>(peers, ports). peers > 128 \<or> ports > 128) rules
      then Inl (kube_upstream (''Kubernetes NetworkPolicy '' @ direction @ '' rule exceeded safe entry limit''))
      else Inr (sum_list (map fst rules), sum_list (map snd rules)))"

fun network_policy_types :: "string list \<Rightarrow> bool \<Rightarrow> bool \<Rightarrow> (bool \<times> bool) result" where
  "network_policy_types [] ingress egress = Inr (ingress, egress)"
| "network_policy_types (policyType # types) ingress egress =
     (if policyType = ''Ingress''
      then if ingress then Inl (kube_upstream ''duplicate Kubernetes NetworkPolicy policy type'')
           else network_policy_types types True egress
      else if policyType = ''Egress''
      then if egress then Inl (kube_upstream ''duplicate Kubernetes NetworkPolicy policy type'')
           else network_policy_types types ingress True
      else Inl (kube_upstream ''unsupported Kubernetes NetworkPolicy policy type''))"

definition networkPolicyTypes :: "string list \<Rightarrow> bool \<Rightarrow> (string list \<times> bool) result" where
  "networkPolicyTypes source hasEgressRules =
     (if source = [] then Inr (''Ingress'' # (if hasEgressRules then [''Egress''] else []), True)
      else if length source > 2 then Inl (kube_upstream ''invalid Kubernetes NetworkPolicy policy types'')
      else case network_policy_types source False False of
          Inl e \<Rightarrow> Inl e
        | Inr (ingress, egress) \<Rightarrow>
            Inr ((if ingress then [''Ingress''] else []) @ (if egress then [''Egress''] else []), False))"

definition validateNetworkPolicyIdentity :: "string \<Rightarrow> string \<Rightarrow> governanceMetadata \<Rightarrow> string \<Rightarrow> go_error option" where
  "validateNetworkPolicyIdentity apiVersion kind metadata expectedNamespace =
     (if apiVersion \<noteq> ''networking.k8s.io/v1'' \<or> kind \<noteq> ''NetworkPolicy'' \<or> \<not> validKubernetesMetadataString (gm_Name metadata)
         \<or> gm_CreationTimestamp metadata = zero_time \<or> ValidateNamespace (gm_Namespace metadata) \<noteq> None
      then Some (kube_upstream ''invalid Kubernetes NetworkPolicy object identity'')
      else if expectedNamespace \<noteq> [] \<and> gm_Namespace metadata \<noteq> expectedNamespace
      then Some (kube_upstream ''Kubernetes NetworkPolicy object exceeded namespace scope'') else None)"

record networkPolicySource =
  ns_APIVersion :: string
  ns_Kind :: string
  ns_Metadata :: governanceMetadata
  ns_PodSelector :: "(nat \<times> nat) option"
  ns_PolicyTypes :: "string list"
  ns_Ingress :: "(nat \<times> nat) list"
  ns_Egress :: "(nat \<times> nat) list"

definition networkPolicySource_of :: "fields \<Rightarrow> networkPolicySource option" where
  "networkPolicySource_of fs = do {
     apiVersion \<leftarrow> f_str ''apiVersion'' fs;
     kind \<leftarrow> f_str ''kind'' fs;
     metadata \<leftarrow> governanceMetadata_of fs;
     spec \<leftarrow> f_struct ''spec'' fs;
     selector \<leftarrow> f_pointer availabilitySelectorSource_of ''podSelector'' spec;
     types \<leftarrow> f_strs ''policyTypes'' spec;
     ingress \<leftarrow> f_structs (network_rule_of ''from'') ''ingress'' spec;
     egress \<leftarrow> f_structs (network_rule_of ''to'') ''egress'' spec;
     Some \<lparr>ns_APIVersion = apiVersion, ns_Kind = kind, ns_Metadata = metadata, ns_PodSelector = selector,
           ns_PolicyTypes = types, ns_Ingress = ingress, ns_Egress = egress\<rparr>
   }"

definition decodeNetworkPolicy :: "string \<Rightarrow> nat \<Rightarrow> string \<Rightarrow> (KubernetesNetworkPolicy \<times> nat) result" where
  "decodeNetworkPolicy expectedNamespace remainingEntries raw =
     (case Unmarshal_fields raw \<bind> networkPolicySource_of of
        None \<Rightarrow> Inl (kube_upstream ''decode Kubernetes NetworkPolicy'')
      | Some source \<Rightarrow>
          (let (labels, expressions) = (case ns_PodSelector source of None \<Rightarrow> (0, 0) | Some selector \<Rightarrow> selector);
               ingressRules = length (ns_Ingress source); egressRules = length (ns_Egress source) in
           case validateNetworkPolicyIdentity (ns_APIVersion source) (ns_Kind source) (ns_Metadata source) expectedNamespace of
             Some e \<Rightarrow> Inl e
           | None \<Rightarrow>
               if labels + expressions > 128
               then Inl (kube_upstream ''Kubernetes NetworkPolicy selector exceeded safe entry limit'')
               else if ingressRules > 128 \<or> egressRules > 128
               then Inl (kube_upstream ''Kubernetes NetworkPolicy rules exceeded safe entry limit'')
               else case count_network_entries ''ingress'' (ns_Ingress source) of
                   Inl e \<Rightarrow> Inl e
                 | Inr (ingressPeers, ingressPorts) \<Rightarrow>
                     (case count_network_entries ''egress'' (ns_Egress source) of
                        Inl e \<Rightarrow> Inl e
                      | Inr (egressPeers, egressPorts) \<Rightarrow>
                          let nestedEntries = labels + expressions + ingressRules + egressRules
                                + ingressPeers + ingressPorts + egressPeers + egressPorts in
                          if nestedEntries > remainingEntries
                          then Inl (kube_upstream ''Kubernetes NetworkPolicy request exceeded safe nested entry limit'')
                          else case networkPolicyTypes (ns_PolicyTypes source) (egressRules > 0) of
                              Inl e \<Rightarrow> Inl e
                            | Inr (policyTypes, defaulted) \<Rightarrow>
                                Inr (\<lparr>np_Namespace = gm_Namespace (ns_Metadata source), np_Name = gm_Name (ns_Metadata source),
                                      np_PodSelectorMode = (if labels > 0 \<or> expressions > 0 then KubernetesSelectorFiltered
                                                            else KubernetesSelectorAll),
                                      np_PodSelectorLabelCount = labels, np_PodSelectorExpressionCount = expressions,
                                      np_PolicyTypes = policyTypes, np_PolicyTypesDefaulted = defaulted,
                                      np_IngressRuleCount = ingressRules, np_IngressPeerCount = ingressPeers,
                                      np_IngressPortCount = ingressPorts, np_EgressRuleCount = egressRules,
                                      np_EgressPeerCount = egressPeers, np_EgressPortCount = egressPorts,
                                      np_CreatedAt = gm_CreationTimestamp (ns_Metadata source)\<rparr>,
                                     remainingEntries - nestedEntries))))"

definition kc_NetworkPolicies :: "Client \<Rightarrow> string \<Rightarrow> KubernetesNetworkPolicy list kube" where
  "kc_NetworkPolicies c namespace =
     kguard (optional_namespace namespace)
     (kthen (listGovernanceRaw c (namespaced_path ''/apis/networking.k8s.io/v1'' ''networkpolicies'' namespace)
        ''networking.k8s.io/v1'' ''NetworkPolicyList'') (\<lambda>items.
      kthen (kresult (decode_budget (decodeNetworkPolicy namespace) (16 * 1024) items)) (\<lambda>policies.
      kreturn (sort_slice
        (\<lambda>a b. if np_Namespace a \<noteq> np_Namespace b then np_Namespace a < np_Namespace b else np_Name a < np_Name b) policies))))"

end
