(* ===== verification/Kube_Access.thy ===== *)
theory Kube_Access
  imports Kube_Network
begin

text \<open>
  Access-control objects, of \<^verbatim>\<open>access.go\<close>, and custom resource definitions, of
  \<^verbatim>\<open>custom_resource_definition.go\<close>: both are listed by their metadata in larger lists than the
  other kinds, and read one by one.
\<close>

definition metadata_survey ::
  "string \<Rightarrow> string \<Rightarrow> (string \<Rightarrow> 'i result) \<Rightarrow> ('i \<Rightarrow> string) \<Rightarrow> ('i \<Rightarrow> 'i \<Rightarrow> bool) \<Rightarrow> (string, 'i) inventory" where
  "metadata_survey what path decode identity before =
     \<lparr>iv_path = path, iv_accept = kubernetesPartialMetadataListAccept, iv_query = [(''limit'', ''250'')],
      iv_maxPages = 8, iv_maxItems = 2000, iv_maxBytes = 16 * 1024 * 1024, iv_pageBytes = maxResponseBytes,
      iv_check = BytesAfter, iv_page = metadata_list what decode, iv_weight = (\<lambda>_. 0), iv_maxWeight = 0,
      iv_identity = identity, iv_unique = False, iv_tokens = True, iv_tokensOnce = False, iv_stopFull = False,
      iv_before = before, iv_list = ''Kubernetes '' @ what @ '' list'', iv_name = ''Kubernetes '' @ what, iv_duplicate = []\<rparr>"

section \<open>Access resources\<close>

record accessResourceSpec =
  as_apiVersion :: string
  as_kind :: string
  as_resource :: string
  as_namespaced :: bool

definition accessSpec :: "KubernetesAccessResourceKind \<Rightarrow> accessResourceSpec result" where
  "accessSpec kind =
     (let rbac = ''rbac.authorization.k8s.io/v1'' in
      case kind of
        AccessResourceServiceAccounts \<Rightarrow>
          Inr \<lparr>as_apiVersion = ''v1'', as_kind = ''ServiceAccount'', as_resource = ''serviceaccounts'', as_namespaced = True\<rparr>
      | AccessResourceRoles \<Rightarrow>
          Inr \<lparr>as_apiVersion = rbac, as_kind = ''Role'', as_resource = ''roles'', as_namespaced = True\<rparr>
      | AccessResourceRoleBindings \<Rightarrow>
          Inr \<lparr>as_apiVersion = rbac, as_kind = ''RoleBinding'', as_resource = ''rolebindings'', as_namespaced = True\<rparr>
      | AccessResourceClusterRoles \<Rightarrow>
          Inr \<lparr>as_apiVersion = rbac, as_kind = ''ClusterRole'', as_resource = ''clusterroles'', as_namespaced = False\<rparr>
      | AccessResourceClusterRoleBindings \<Rightarrow>
          Inr \<lparr>as_apiVersion = rbac, as_kind = ''ClusterRoleBinding'', as_resource = ''clusterrolebindings'',
               as_namespaced = False\<rparr>
      | OtherAccessResourceKind _ \<Rightarrow> Inl (Invalid ''kind'' ''must be a supported access resource kind''))"

definition accessCollectionPath :: "accessResourceSpec \<Rightarrow> string \<Rightarrow> string" where
  "accessCollectionPath spec namespace =
     (let root = (if as_apiVersion spec = ''v1'' then ''/api/v1'' else ''/apis/rbac.authorization.k8s.io/v1'') in
      if as_namespaced spec then root @ ''/namespaces/'' @ namespace @ ''/'' @ as_resource spec
      else root @ ''/'' @ as_resource spec)"

record KubernetesAccessResource =
  ka_Kind :: string
  ka_Namespace :: string
  ka_Name :: string
  ka_CreatedAt :: gtime

definition access_row :: "accessResourceSpec \<Rightarrow> string \<Rightarrow> string \<Rightarrow> KubernetesAccessResource result" where
  "access_row spec namespace raw =
     (case decodePartialObjectMetadataForScope raw (as_namespaced spec) of
        Inl e \<Rightarrow> Inl e
      | Inr metadata \<Rightarrow>
          if as_namespaced spec \<and> pm_Namespace metadata \<noteq> namespace
          then Inl (kube_upstream ''Kubernetes access metadata exceeded namespace scope'')
          else Inr \<lparr>ka_Kind = as_kind spec, ka_Namespace = pm_Namespace metadata, ka_Name = pm_Name metadata,
                    ka_CreatedAt = pm_CreationTimestamp metadata\<rparr>)"

definition accessResources :: "accessResourceSpec \<Rightarrow> string \<Rightarrow> (string, KubernetesAccessResource) inventory" where
  "accessResources spec namespace =
     metadata_survey ''access'' (accessCollectionPath spec namespace) (access_row spec namespace) ka_Name
       (\<lambda>a b. if ka_Namespace a \<noteq> ka_Namespace b then ka_Namespace a < ka_Namespace b else ka_Name a < ka_Name b)"

definition kc_AccessResources ::
  "Client \<Rightarrow> KubernetesAccessResourceKind \<Rightarrow> string \<Rightarrow> KubernetesAccessResource list kube" where
  "kc_AccessResources c kind namespace =
     kguard (ValidateAccessResourceScope kind namespace)
     (kthen (kresult (accessSpec kind)) (\<lambda>spec. list_inventory c (accessResources spec namespace)))"

record KubernetesRoleRule =
  rr_APIGroups :: "string list"
  rr_Resources :: "string list"
  rr_ResourceNames :: "string list"
  rr_Verbs :: "string list"
  rr_NonResourceURLs :: "string list"

record KubernetesRoleReference =
  rf_Kind :: string
  rf_Name :: string

record KubernetesAccessSubject =
  ab_Kind :: string
  ab_Namespace :: string
  ab_Name :: string

record KubernetesAccessResourceDetail =
  ad_Resource :: KubernetesAccessResource
  ad_RoleRef :: "KubernetesRoleReference option"
  ad_Rules :: "KubernetesRoleRule list"
  ad_RuleCount :: nat
  ad_RulesTruncated :: bool
  ad_Subjects :: "KubernetesAccessSubject list"
  ad_SubjectCount :: nat
  ad_SubjectsTruncated :: bool
  ad_AutomountServiceAccountToken :: "bool option"
  ad_SecretCount :: nat
  ad_ImagePullSecretCount :: nat

record accessDetailSource =
  ax_Header :: sourceHeader
  ax_Rules :: "json list"
  ax_RoleRef :: json
    \<comment> \<open>\<open>JNull\<close> where the field is absent\<close>
  ax_Subjects :: "json list"
  ax_Automount :: "bool option"
  ax_Secrets :: nat
  ax_ImagePullSecrets :: nat

definition accessDetailSource_of :: "fields \<Rightarrow> accessDetailSource option" where
  "accessDetailSource_of fs = do {
     header \<leftarrow> sourceHeader_of fs;
     rules \<leftarrow> json_field (set_slice Some) [] ''rules'' fs;
     roleRef \<leftarrow> json_field (\<lambda>_ v. Some v) JNull ''roleRef'' fs;
     subjects \<leftarrow> json_field (set_slice Some) [] ''subjects'' fs;
     automount \<leftarrow> f_bool_ptr ''automountServiceAccountToken'' fs;
     secrets \<leftarrow> f_count Some ''secrets'' fs;
     pullSecrets \<leftarrow> f_count Some ''imagePullSecrets'' fs;
     Some \<lparr>ax_Header = header, ax_Rules = rules, ax_RoleRef = roleRef, ax_Subjects = subjects, ax_Automount = automount,
           ax_Secrets = secrets, ax_ImagePullSecrets = pullSecrets\<rparr>
   }"

definition maxAccessRules :: nat where
  "maxAccessRules = 128"

definition maxAccessSubjects :: nat where
  "maxAccessSubjects = 128"

definition maxAccessRuleValues :: nat where
  "maxAccessRuleValues = 64"

definition maxAccessStringBytes :: nat where
  "maxAccessStringBytes = 512"

definition boundedAccessStrings :: "string list \<Rightarrow> (string list \<times> bool) result" where
  "boundedAccessStrings ss =
     (let shown = take maxAccessRuleValues ss in
      if list_all (\<lambda>s. length s \<le> maxAccessStringBytes \<and> s = trim_space s \<and> \<not> index_func is_control s) shown
      then Inr (shown, length ss > maxAccessRuleValues)
      else Inl (kube_upstream ''invalid Kubernetes access rule value''))"

text \<open>The five lists of a rule in their order.\<close>

definition role_rule_fields :: "json \<Rightarrow> string list list option" where
  "role_rule_fields raw = do {
     fs \<leftarrow> set_fields [] raw;
     those (map (\<lambda>name. f_strs name fs) [''apiGroups'', ''resources'', ''resourceNames'', ''verbs'', ''nonResourceURLs''])
   }"

definition role_rule :: "json \<Rightarrow> (KubernetesRoleRule \<times> bool) result" where
  "role_rule raw =
     (case role_rule_fields raw of
        None \<Rightarrow> Inl (kube_upstream ''decode Kubernetes access rule'')
      | Some parts \<Rightarrow>
          (case decode_all boundedAccessStrings parts of
             Inl e \<Rightarrow> Inl e
           | Inr bounded \<Rightarrow>
               Inr (\<lparr>rr_APIGroups = fst (bounded ! 0), rr_Resources = fst (bounded ! 1), rr_ResourceNames = fst (bounded ! 2),
                     rr_Verbs = fst (bounded ! 3), rr_NonResourceURLs = fst (bounded ! 4)\<rparr>, list_ex snd bounded)))"

definition decodeAccessRules ::
  "KubernetesAccessResourceDetail \<Rightarrow> json list \<Rightarrow> KubernetesAccessResourceDetail result" where
  "decodeAccessRules detail rawRules =
     (case decode_all role_rule (take maxAccessRules rawRules) of
        Inl e \<Rightarrow> Inl e
      | Inr rules \<Rightarrow>
          Inr (detail\<lparr>ad_Rules := map fst rules, ad_RuleCount := length rawRules,
                      ad_RulesTruncated := (length rawRules > maxAccessRules \<or> list_ex snd rules)\<rparr>))"

definition role_ref_of :: "json \<Rightarrow> (string \<times> string \<times> string) option" where
  "role_ref_of raw = do {
     fs \<leftarrow> set_fields [] raw;
     apiGroup \<leftarrow> f_str ''apiGroup'' fs;
     kind \<leftarrow> f_str ''kind'' fs;
     name \<leftarrow> f_str ''name'' fs;
     Some (apiGroup, kind, name)
   }"

definition decodeAccessRoleReference ::
  "json \<Rightarrow> KubernetesAccessResourceKind \<Rightarrow> string \<Rightarrow> KubernetesRoleReference result" where
  "decodeAccessRoleReference raw bindingKind bindingNamespace =
     (case (if raw = JNull then None else role_ref_of raw) of
        None \<Rightarrow> Inl (kube_upstream ''invalid Kubernetes role reference'')
      | Some (apiGroup, kind, name) \<Rightarrow>
          if apiGroup \<noteq> ''rbac.authorization.k8s.io'' then Inl (kube_upstream ''invalid Kubernetes role reference'')
          else if kind = ''Role'' \<and> bindingKind \<noteq> AccessResourceRoleBindings
          then Inl (kube_upstream ''invalid Kubernetes role reference scope'')
          else if kind \<noteq> ''Role'' \<and> kind \<noteq> ''ClusterRole''
          then Inl (kube_upstream ''invalid Kubernetes role reference kind'')
          else if ValidateAccessResourceReference
            (if kind = ''Role'' then \<lparr>ar_Kind = AccessResourceRoles, ar_Namespace = bindingNamespace, ar_Name = name\<rparr>
             else \<lparr>ar_Kind = AccessResourceClusterRoles, ar_Namespace = [], ar_Name = name\<rparr>) \<noteq> None
          then Inl (kube_upstream ''invalid Kubernetes role reference name'')
          else Inr \<lparr>rf_Kind = kind, rf_Name = name\<rparr>)"

definition validAccessSubjectName :: "string \<Rightarrow> bool" where
  "validAccessSubjectName s \<longleftrightarrow>
     s \<noteq> [] \<and> length s \<le> maxAccessStringBytes \<and> s = trim_space s \<and> \<not> index_func is_control s"

definition subject_of :: "json \<Rightarrow> (string \<times> string \<times> string \<times> string) option" where
  "subject_of raw = do {
     fs \<leftarrow> set_fields [] raw;
     apiGroup \<leftarrow> f_str ''apiGroup'' fs;
     kind \<leftarrow> f_str ''kind'' fs;
     namespace \<leftarrow> f_str ''namespace'' fs;
     name \<leftarrow> f_str ''name'' fs;
     Some (apiGroup, kind, namespace, name)
   }"

definition access_subject :: "string \<Rightarrow> json \<Rightarrow> KubernetesAccessSubject result" where
  "access_subject bindingNamespace raw =
     (case subject_of raw of
        None \<Rightarrow> Inl (kube_upstream ''invalid Kubernetes access subject'')
      | Some (apiGroup, kind, namespace, name) \<Rightarrow>
          if \<not> validAccessSubjectName name then Inl (kube_upstream ''invalid Kubernetes access subject'')
          else if kind = ''ServiceAccount''
          then
            let namespace = (if namespace = [] then bindingNamespace else namespace) in
            if apiGroup \<noteq> [] then Inl (kube_upstream ''invalid Kubernetes service account subject group'')
            else if ValidateAccessResourceReference
              \<lparr>ar_Kind = AccessResourceServiceAccounts, ar_Namespace = namespace, ar_Name = name\<rparr> \<noteq> None
            then Inl (kube_upstream ''invalid Kubernetes service account subject'')
            else Inr \<lparr>ab_Kind = kind, ab_Namespace = namespace, ab_Name = name\<rparr>
          else if kind = ''User'' \<or> kind = ''Group''
          then if apiGroup \<noteq> ''rbac.authorization.k8s.io'' then Inl (kube_upstream ''invalid Kubernetes identity subject'')
               else Inr \<lparr>ab_Kind = kind, ab_Namespace = [], ab_Name = name\<rparr>
          else Inl (kube_upstream ''invalid Kubernetes access subject kind''))"

definition decodeAccessSubjects ::
  "KubernetesAccessResourceDetail \<Rightarrow> json list \<Rightarrow> string \<Rightarrow> KubernetesAccessResourceDetail result" where
  "decodeAccessSubjects detail rawSubjects bindingNamespace =
     (case decode_all (access_subject bindingNamespace) (take maxAccessSubjects rawSubjects) of
        Inl e \<Rightarrow> Inl e
      | Inr subjects \<Rightarrow>
          Inr (detail\<lparr>ad_Subjects := subjects, ad_SubjectCount := length rawSubjects,
                      ad_SubjectsTruncated := (length rawSubjects > maxAccessSubjects)\<rparr>))"

definition decodeAccessResourceDetail ::
  "string \<Rightarrow> KubernetesAccessResourceReference \<Rightarrow> accessResourceSpec \<Rightarrow> KubernetesAccessResourceDetail result" where
  "decodeAccessResourceDetail payload reference spec =
     (case Unmarshal_fields payload \<bind> accessDetailSource_of of
        None \<Rightarrow> Inl (kube_upstream ''decode Kubernetes access detail'')
      | Some response \<Rightarrow>
          (let h = ax_Header response in
           if sh_APIVersion h \<noteq> as_apiVersion spec \<or> sh_Kind h \<noteq> as_kind spec \<or> sh_Name h \<noteq> ar_Name reference
              \<or> sh_Namespace h \<noteq> ar_Namespace reference \<or> \<not> validKubernetesMetadataString (sh_Name h)
              \<or> sh_CreationTimestamp h = zero_time
           then Inl (kube_upstream ''invalid Kubernetes access detail identity'')
           else if as_namespaced spec \<and> ValidateNamespace (sh_Namespace h) \<noteq> None
           then Inl (kube_upstream ''invalid Kubernetes access detail namespace'')
           else if \<not> as_namespaced spec \<and> sh_Namespace h \<noteq> []
           then Inl (kube_upstream ''cluster-scoped Kubernetes access detail contains a namespace'')
           else
             let detail = \<lparr>ad_Resource = \<lparr>ka_Kind = as_kind spec, ka_Namespace = ar_Namespace reference,
                              ka_Name = ar_Name reference, ka_CreatedAt = sh_CreationTimestamp h\<rparr>,
                   ad_RoleRef = None, ad_Rules = [], ad_RuleCount = 0, ad_RulesTruncated = False, ad_Subjects = [],
                   ad_SubjectCount = 0, ad_SubjectsTruncated = False, ad_AutomountServiceAccountToken = None,
                   ad_SecretCount = 0, ad_ImagePullSecretCount = 0\<rparr>
             in case ar_Kind reference of
                  AccessResourceServiceAccounts \<Rightarrow>
                    Inr (detail\<lparr>ad_AutomountServiceAccountToken := ax_Automount response,
                                ad_SecretCount := ax_Secrets response, ad_ImagePullSecretCount := ax_ImagePullSecrets response\<rparr>)
                | AccessResourceRoles \<Rightarrow> decodeAccessRules detail (ax_Rules response)
                | AccessResourceClusterRoles \<Rightarrow> decodeAccessRules detail (ax_Rules response)
                | OtherAccessResourceKind _ \<Rightarrow> Inl (kube_upstream ''unsupported Kubernetes access detail kind'')
                | _ \<Rightarrow>
                    (case decodeAccessRoleReference (ax_RoleRef response) (ar_Kind reference) (ar_Namespace reference) of
                       Inl e \<Rightarrow> Inl e
                     | Inr roleRef \<Rightarrow>
                         decodeAccessSubjects (detail\<lparr>ad_RoleRef := Some roleRef\<rparr>) (ax_Subjects response)
                           (ar_Namespace reference))))"

definition kc_AccessResourceDetail ::
  "Client \<Rightarrow> KubernetesAccessResourceReference \<Rightarrow> KubernetesAccessResourceDetail kube" where
  "kc_AccessResourceDetail c reference =
     kguard (ValidateAccessResourceReference reference)
     (kthen (kresult (accessSpec (ar_Kind reference))) (\<lambda>spec.
      kthen (getPayload c (accessCollectionPath spec (ar_Namespace reference) @ ''/'' @ ar_Name reference) None
        ''application/json'' (2 * 1024 * 1024) False) (\<lambda>(payload, _).
      kresult (decodeAccessResourceDetail payload reference spec))))"

section \<open>Custom resource definitions\<close>

definition customResourceDefinitionCollectionPath :: string where
  "customResourceDefinitionCollectionPath = ''/apis/apiextensions.k8s.io/v1/customresourcedefinitions''"

record KubernetesCustomResourceDefinition =
  cr_Name :: string
  cr_Resource :: string
  cr_Group :: string
  cr_CreatedAt :: gtime

record KubernetesCustomResourceDefinitionVersion =
  cy_Name :: string
  cy_Served :: bool
  cy_Storage :: bool
  cy_Deprecated :: bool

record KubernetesCustomResourceDefinitionCondition =
  ci_Type :: string
  ci_Status :: string
  ci_Reason :: string
  ci_ObservedGeneration :: int
  ci_LastTransitionTime :: gtime

record KubernetesCustomResourceDefinitionDetail =
  cf_Definition :: KubernetesCustomResourceDefinition
  cf_Scope :: string
  cf_Singular :: string
  cf_Kind :: string
  cf_ListKind :: string
  cf_ShortNames :: "string list"
  cf_ShortNameCount :: nat
  cf_ShortNamesTruncated :: bool
  cf_Categories :: "string list"
  cf_CategoryCount :: nat
  cf_CategoriesTruncated :: bool
  cf_Versions :: "KubernetesCustomResourceDefinitionVersion list"
  cf_VersionCount :: nat
  cf_VersionsTruncated :: bool
  cf_StoredVersions :: "string list"
  cf_StoredVersionCount :: nat
  cf_StoredVersionsTruncated :: bool
  cf_ConversionStrategy :: string
  cf_ConversionStrategyDefaulted :: bool
  cf_Generation :: int
  cf_ObservedGeneration :: int
  cf_Conditions :: "KubernetesCustomResourceDefinitionCondition list"
  cf_ConditionCount :: nat
  cf_ConditionsTruncated :: bool

definition splitCustomResourceDefinitionName :: "string \<Rightarrow> (string \<times> string) result" where
  "splitCustomResourceDefinitionName name =
     (case ValidateCustomResourceDefinitionName name of
        Some e \<Rightarrow> Inl e
      | None \<Rightarrow> (let (resource, apiGroup, _) = cut_char CHR ''.'' name in Inr (resource, apiGroup)))"

definition definition_row :: "string \<Rightarrow> KubernetesCustomResourceDefinition result" where
  "definition_row raw =
     (case decodePartialObjectMetadataForScope raw False of
        Inl e \<Rightarrow> Inl e
      | Inr metadata \<Rightarrow>
          (case splitCustomResourceDefinitionName (pm_Name metadata) of
             Inl _ \<Rightarrow> Inl (kube_upstream ''invalid Kubernetes CRD metadata identity'')
           | Inr (resource, apiGroup) \<Rightarrow>
               Inr \<lparr>cr_Name = pm_Name metadata, cr_Resource = resource, cr_Group = apiGroup,
                    cr_CreatedAt = pm_CreationTimestamp metadata\<rparr>))"

definition customResourceDefinitions :: "(string, KubernetesCustomResourceDefinition) inventory" where
  "customResourceDefinitions =
     metadata_survey ''CRD'' customResourceDefinitionCollectionPath definition_row cr_Name
       (\<lambda>a b. if cr_Group a \<noteq> cr_Group b then cr_Group a < cr_Group b else cr_Resource a < cr_Resource b)"

definition kc_CustomResourceDefinitions :: "Client \<Rightarrow> KubernetesCustomResourceDefinition list kube" where
  "kc_CustomResourceDefinitions c = list_inventory c customResourceDefinitions"

record customResourceDefinitionSource =
  ce_Header :: sourceHeader
  ce_Generation :: int
  ce_Group :: string
  ce_Scope :: string
  ce_Plural :: string
  ce_Singular :: string
  ce_Kind :: string
  ce_ListKind :: string
  ce_ShortNames :: "string list"
  ce_Categories :: "string list"
  ce_Versions :: "KubernetesCustomResourceDefinitionVersion list"
  ce_Conversion :: "string option"
  ce_ObservedGeneration :: int
  ce_StoredVersions :: "string list"
  ce_Conditions :: "KubernetesCustomResourceDefinitionCondition list"

text \<open>The sources of a version and of a condition have the fields of what is shown of them.\<close>

definition crd_version_of :: "fields \<Rightarrow> KubernetesCustomResourceDefinitionVersion option" where
  "crd_version_of fs = do {
     name \<leftarrow> f_str ''name'' fs;
     served \<leftarrow> f_bool ''served'' fs;
     storage \<leftarrow> f_bool ''storage'' fs;
     deprecated \<leftarrow> f_bool ''deprecated'' fs;
     Some \<lparr>cy_Name = name, cy_Served = served, cy_Storage = storage, cy_Deprecated = deprecated\<rparr>
   }"

definition crd_condition_of :: "fields \<Rightarrow> KubernetesCustomResourceDefinitionCondition option" where
  "crd_condition_of fs = do {
     type \<leftarrow> f_str ''type'' fs;
     status \<leftarrow> f_str ''status'' fs;
     reason \<leftarrow> f_str ''reason'' fs;
     observed \<leftarrow> f_int64 ''observedGeneration'' fs;
     transition \<leftarrow> f_time ''lastTransitionTime'' fs;
     Some \<lparr>ci_Type = type, ci_Status = status, ci_Reason = reason, ci_ObservedGeneration = observed,
           ci_LastTransitionTime = transition\<rparr>
   }"

definition customResourceDefinitionSource_of :: "fields \<Rightarrow> customResourceDefinitionSource option" where
  "customResourceDefinitionSource_of fs = do {
     header \<leftarrow> sourceHeader_of fs;
     metadata \<leftarrow> f_struct ''metadata'' fs;
     generation \<leftarrow> f_int64 ''generation'' metadata;
     spec \<leftarrow> f_struct ''spec'' fs;
     apiGroup \<leftarrow> f_str ''group'' spec;
     scope \<leftarrow> f_str ''scope'' spec;
     names \<leftarrow> f_struct ''names'' spec;
     plural \<leftarrow> f_str ''plural'' names;
     singular \<leftarrow> f_str ''singular'' names;
     kind \<leftarrow> f_str ''kind'' names;
     listKind \<leftarrow> f_str ''listKind'' names;
     shortNames \<leftarrow> f_strs ''shortNames'' names;
     categories \<leftarrow> f_strs ''categories'' names;
     versions \<leftarrow> f_structs crd_version_of ''versions'' spec;
     conversion \<leftarrow> f_pointer (f_str ''strategy'') ''conversion'' spec;
     status \<leftarrow> f_struct ''status'' fs;
     observed \<leftarrow> f_int64 ''observedGeneration'' status;
     stored \<leftarrow> f_strs ''storedVersions'' status;
     conditions \<leftarrow> f_structs crd_condition_of ''conditions'' status;
     Some \<lparr>ce_Header = header, ce_Generation = generation, ce_Group = apiGroup, ce_Scope = scope, ce_Plural = plural,
           ce_Singular = singular, ce_Kind = kind, ce_ListKind = listKind, ce_ShortNames = shortNames,
           ce_Categories = categories, ce_Versions = versions, ce_Conversion = conversion,
           ce_ObservedGeneration = observed, ce_StoredVersions = stored, ce_Conditions = conditions\<rparr>
   }"

definition validCustomResourceDefinitionLowerIdentifier :: "string \<Rightarrow> bool" where
  "validCustomResourceDefinitionLowerIdentifier s \<longleftrightarrow> ValidateNamespace s = None"

definition ascii_letter :: "char \<Rightarrow> bool" where
  "ascii_letter ch \<longleftrightarrow> (CHR ''a'' \<le> ch \<and> ch \<le> CHR ''z'') \<or> (CHR ''A'' \<le> ch \<and> ch \<le> CHR ''Z'')"

definition validCustomResourceDefinitionKind :: "string \<Rightarrow> bool" where
  "validCustomResourceDefinitionKind s \<longleftrightarrow>
     s \<noteq> [] \<and> length s \<le> 128 \<and> s = trim_space s \<and> ascii_letter (hd s)
     \<and> list_all (\<lambda>ch. ascii_letter ch \<or> decimal_digit ch) s"

definition validCustomResourceDefinitionText :: "string \<Rightarrow> bool \<Rightarrow> bool" where
  "validCustomResourceDefinitionText s required \<longleftrightarrow>
     (if s = [] then \<not> required else length s \<le> 256 \<and> s = trim_space s \<and> \<not> index_func is_control s)"

definition validateCustomResourceDefinitionIdentity ::
  "customResourceDefinitionSource \<Rightarrow> string \<Rightarrow> (string \<times> string) result" where
  "validateCustomResourceDefinitionIdentity source expectedName =
     (let h = ce_Header source in
      case splitCustomResourceDefinitionName (sh_Name h) of
        Inl _ \<Rightarrow> Inl (kube_upstream ''invalid Kubernetes CRD detail identity'')
      | Inr (resource, apiGroup) \<Rightarrow>
          if sh_APIVersion h \<noteq> ''apiextensions.k8s.io/v1'' \<or> sh_Kind h \<noteq> ''CustomResourceDefinition'' \<or> sh_Name h \<noteq> expectedName
             \<or> sh_Namespace h \<noteq> [] \<or> ce_Generation source < 1 \<or> sh_CreationTimestamp h = zero_time
             \<or> ce_Group source \<noteq> apiGroup \<or> ce_Plural source \<noteq> resource
             \<or> \<not> validCustomResourceDefinitionKind (ce_Kind source)
             \<or> (ce_Scope source \<noteq> ''Cluster'' \<and> ce_Scope source \<noteq> ''Namespaced'')
          then Inl (kube_upstream ''invalid Kubernetes CRD detail identity'')
          else Inr (resource, apiGroup))"

text \<open>
  Every entry of a list is checked, also against those before it; only the first ones are shown.
  The entries that were seen are kept in reverse.
\<close>

fun checked_entries :: "('a \<Rightarrow> 'a list \<Rightarrow> go_error option) \<Rightarrow> 'a list \<Rightarrow> 'a list \<Rightarrow> go_error option" where
  "checked_entries check [] seen = None"
| "checked_entries check (x # xs) seen =
     (case check x seen of Some e \<Rightarrow> Some e | None \<Rightarrow> checked_entries check xs (x # seen))"

definition bounded_entries :: "nat \<Rightarrow> ('a \<Rightarrow> 'a list \<Rightarrow> go_error option) \<Rightarrow> 'a list \<Rightarrow> ('a list \<times> bool) result" where
  "bounded_entries limit check xs =
     (case checked_entries check xs [] of Some e \<Rightarrow> Inl e | None \<Rightarrow> Inr (take limit xs, length xs > limit))"

definition decodeCustomResourceDefinitionVersions ::
  "KubernetesCustomResourceDefinitionVersion list
     \<Rightarrow> (KubernetesCustomResourceDefinitionVersion list \<times> bool \<times> string list) result" where
  "decodeCustomResourceDefinitionVersions source =
     (if source = [] then Inl (kube_upstream ''Kubernetes CRD has no versions'')
      else case bounded_entries 64 (\<lambda>version seen.
             if \<not> validCustomResourceDefinitionLowerIdentifier (cy_Name version)
             then Some (kube_upstream ''invalid Kubernetes CRD version'')
             else if cy_Name version \<in> cy_Name ` set seen
             then Some (kube_upstream ''duplicate Kubernetes CRD version'') else None) source of
          Inl e \<Rightarrow> Inl e
        | Inr (versions, truncated) \<Rightarrow>
            if length (filter cy_Storage source) \<noteq> 1 then Inl (kube_upstream ''invalid Kubernetes CRD storage version'')
            else Inr (versions, truncated, map cy_Name source))"

definition boundedCustomResourceDefinitionNames :: "string list \<Rightarrow> (string list \<times> bool) result" where
  "boundedCustomResourceDefinitionNames ss =
     bounded_entries 32 (\<lambda>s seen.
       if \<not> validCustomResourceDefinitionLowerIdentifier s then Some (kube_upstream ''invalid Kubernetes CRD resource name'')
       else if s \<in> set seen then Some (kube_upstream ''duplicate Kubernetes CRD resource name'') else None) ss"

definition boundedCustomResourceDefinitionStoredVersions ::
  "string list \<Rightarrow> string list \<Rightarrow> (string list \<times> bool) result" where
  "boundedCustomResourceDefinitionStoredVersions ss versionNames =
     bounded_entries 32 (\<lambda>s seen.
       if \<not> validCustomResourceDefinitionLowerIdentifier s then Some (kube_upstream ''invalid Kubernetes CRD stored version'')
       else if s \<notin> set versionNames then Some (kube_upstream ''unknown Kubernetes CRD stored version'')
       else if s \<in> set seen then Some (kube_upstream ''duplicate Kubernetes CRD stored version'') else None) ss"

definition decodeCustomResourceDefinitionConditions ::
  "KubernetesCustomResourceDefinitionCondition list \<Rightarrow> int
     \<Rightarrow> (KubernetesCustomResourceDefinitionCondition list \<times> bool) result" where
  "decodeCustomResourceDefinitionConditions source generation =
     bounded_entries 32 (\<lambda>condition seen.
       if \<not> validCustomResourceDefinitionText (ci_Type condition) True
          \<or> \<not> validCustomResourceDefinitionText (ci_Reason condition) False
          \<or> \<not> validConditionStatus (ci_Status condition)
          \<or> ci_ObservedGeneration condition < 0 \<or> ci_ObservedGeneration condition > generation
          \<or> ci_LastTransitionTime condition = zero_time
       then Some (kube_upstream ''invalid Kubernetes CRD condition'')
       else if ci_Type condition \<in> ci_Type ` set seen
       then Some (kube_upstream ''duplicate Kubernetes CRD condition'') else None) source"

definition crd_names :: "customResourceDefinitionSource \<Rightarrow> string \<times> string" where
  "crd_names source =
     (if ce_Singular source = [] then to_lower (ce_Kind source) else ce_Singular source,
      if ce_ListKind source = [] then ce_Kind source @ ''List'' else ce_ListKind source)"

definition conversion_strategy :: "string option \<Rightarrow> string \<times> bool" where
  "conversion_strategy conversion =
     (case conversion of
        None \<Rightarrow> (''None'', True)
      | Some strategy \<Rightarrow> if strategy = [] then (''None'', True) else (strategy, False))"

definition decodeCustomResourceDefinition :: "string \<Rightarrow> string \<Rightarrow> KubernetesCustomResourceDefinitionDetail result" where
  "decodeCustomResourceDefinition payload expectedName =
     (case Unmarshal_fields payload \<bind> customResourceDefinitionSource_of of
        None \<Rightarrow> Inl (kube_upstream ''decode Kubernetes CRD detail'')
      | Some source \<Rightarrow>
          rthen (validateCustomResourceDefinitionIdentity source expectedName) (\<lambda>(resource, apiGroup).
          ensure (length (ce_Versions source) + length (ce_ShortNames source) + length (ce_Categories source)
              + length (ce_StoredVersions source) + length (ce_Conditions source) \<le> 256)
            (kube_upstream ''Kubernetes CRD detail exceeded safe nested entry limit'') (
          rthen (boundedCustomResourceDefinitionNames (ce_ShortNames source)) (\<lambda>(shortNames, shortNamesTruncated).
          rthen (boundedCustomResourceDefinitionNames (ce_Categories source)) (\<lambda>(categories, categoriesTruncated).
          rthen (decodeCustomResourceDefinitionVersions (ce_Versions source)) (\<lambda>(versions, versionsTruncated, versionNames).
          rthen (boundedCustomResourceDefinitionStoredVersions (ce_StoredVersions source) versionNames) (\<lambda>(stored, storedTruncated).
          rthen (decodeCustomResourceDefinitionConditions (ce_Conditions source) (ce_Generation source)) (\<lambda>(conditions, conditionsTruncated).
          (let (strategy, strategyDefaulted) = conversion_strategy (ce_Conversion source) in
          ensure (strategy = ''None'' \<or> strategy = ''Webhook'') (kube_upstream ''invalid Kubernetes CRD conversion strategy'') (
          (let (singular, listKind) = crd_names source in
          ensure (validCustomResourceDefinitionLowerIdentifier singular \<and> validCustomResourceDefinitionKind listKind)
            (kube_upstream ''invalid Kubernetes CRD names'') (
          ensure (0 \<le> ce_ObservedGeneration source \<and> ce_ObservedGeneration source \<le> ce_Generation source)
            (kube_upstream ''invalid Kubernetes CRD observed generation'') (
          Inr \<lparr>cf_Definition = \<lparr>cr_Name = sh_Name (ce_Header source), cr_Resource = resource, cr_Group = apiGroup,
                  cr_CreatedAt = sh_CreationTimestamp (ce_Header source)\<rparr>,
               cf_Scope = ce_Scope source, cf_Singular = singular, cf_Kind = ce_Kind source, cf_ListKind = listKind,
               cf_ShortNames = shortNames, cf_ShortNameCount = length (ce_ShortNames source),
               cf_ShortNamesTruncated = shortNamesTruncated, cf_Categories = categories,
               cf_CategoryCount = length (ce_Categories source), cf_CategoriesTruncated = categoriesTruncated,
               cf_Versions = versions, cf_VersionCount = length (ce_Versions source),
               cf_VersionsTruncated = versionsTruncated, cf_StoredVersions = stored,
               cf_StoredVersionCount = length (ce_StoredVersions source), cf_StoredVersionsTruncated = storedTruncated,
               cf_ConversionStrategy = strategy, cf_ConversionStrategyDefaulted = strategyDefaulted,
               cf_Generation = ce_Generation source, cf_ObservedGeneration = ce_ObservedGeneration source,
               cf_Conditions = conditions, cf_ConditionCount = length (ce_Conditions source),
               cf_ConditionsTruncated = conditionsTruncated\<rparr>)))))))))))))"

definition kc_CustomResourceDefinition :: "Client \<Rightarrow> string \<Rightarrow> KubernetesCustomResourceDefinitionDetail kube" where
  "kc_CustomResourceDefinition c name =
     get_detail c (ValidateCustomResourceDefinitionName name) (customResourceDefinitionCollectionPath @ ''/'' @ name)
       (2 * 1024 * 1024) (\<lambda>payload. decodeCustomResourceDefinition payload name)"

end
