(* ===== verification/Kube_Admission.thy ===== *)
theory Kube_Admission
  imports Kube_Access Secure
begin

text \<open>
  Admission webhooks, of \<^verbatim>\<open>admission_webhook.go\<close>, and the rules they share with admission
  policies: what a cluster checks before it admits an object. Only counts and
  the settings of the rules are shown, never their expressions, addresses or certificates.
\<close>

section \<open>Rules and selectors\<close>

text \<open>A selector is the number of its labels and of its expressions.\<close>

type_synonym selector_size = "nat \<times> nat"

definition selector_of :: "fields \<Rightarrow> selector_size option" where
  "selector_of fs = do {
     labels \<leftarrow> json_field (set_map Some) [] ''matchLabels'' fs;
     expressions \<leftarrow> f_count (set_fields []) ''matchExpressions'' fs;
     Some (length labels, expressions)
   }"

record admissionRuleSource =
  wr_Operations :: "string list"
  wr_APIGroups :: "string list"
  wr_APIVersions :: "string list"
  wr_Resources :: "string list"
  wr_ResourceNames :: nat
  wr_Scope :: "string option"

text \<open>The rules of webhooks have no resource names.\<close>

definition admissionRuleSource_of :: "bool \<Rightarrow> fields \<Rightarrow> admissionRuleSource option" where
  "admissionRuleSource_of names fs = do {
     operations \<leftarrow> f_strs ''operations'' fs;
     apiGroups \<leftarrow> f_strs ''apiGroups'' fs;
     apiVersions \<leftarrow> f_strs ''apiVersions'' fs;
     resources \<leftarrow> f_strs ''resources'' fs;
     resourceNames \<leftarrow> (if names then f_count Some ''resourceNames'' fs else Some 0);
     scope \<leftarrow> f_str_ptr ''scope'' fs;
     Some \<lparr>wr_Operations = operations, wr_APIGroups = apiGroups, wr_APIVersions = apiVersions, wr_Resources = resources,
           wr_ResourceNames = resourceNames, wr_Scope = scope\<rparr>
   }"

definition rule_entries :: "admissionRuleSource \<Rightarrow> nat" where
  "rule_entries rule =
     length (wr_Operations rule) + length (wr_APIGroups rule) + length (wr_APIVersions rule) + length (wr_Resources rule)"

fun admission_operations :: "string list \<Rightarrow> string list \<Rightarrow> go_error option" where
  "admission_operations [] seen = None"
| "admission_operations (operation # operations) seen =
     (if operation \<notin> {''CREATE'', ''UPDATE'', ''DELETE'', ''CONNECT'', ''*''}
      then Some (kube_upstream ''invalid Kubernetes admission webhook operation'')
      else if operation \<in> set seen then Some (kube_upstream ''duplicate Kubernetes admission webhook operation'')
      else admission_operations operations (operation # seen))"

definition validateAdmissionWebhookOperations :: "string list \<Rightarrow> go_error option" where
  "validateAdmissionWebhookOperations operations = admission_operations operations []"

definition maxAdmissionWebhookTextBytes :: nat where
  "maxAdmissionWebhookTextBytes = 1024"

definition validAdmissionWebhookRuleValues :: "string list \<Rightarrow> bool" where
  "validAdmissionWebhookRuleValues ss \<longleftrightarrow>
     list_all (\<lambda>s. length s \<le> maxAdmissionWebhookTextBytes \<and> s = trim_space s \<and> \<not> index_func is_control s) ss \<and> distinct ss"

definition validAdmissionWebhookVersion :: "string \<Rightarrow> bool" where
  "validAdmissionWebhookVersion s \<longleftrightarrow>
     s \<noteq> [] \<and> length s \<le> 64 \<and> list_all (\<lambda>ch. (CHR ''a'' \<le> ch \<and> ch \<le> CHR ''z'') \<or> decimal_digit ch) s"

definition valid_rule_scope :: "string option \<Rightarrow> bool" where
  "valid_rule_scope scope \<longleftrightarrow>
     (case scope of None \<Rightarrow> True | Some s \<Rightarrow> s = ''Cluster'' \<or> s = ''Namespaced'' \<or> s = ''*'')"

section \<open>Webhooks\<close>

record admissionWebhookResourceSpec =
  aw_objectKind :: string
  aw_collectionPath :: string

definition admissionWebhookSpec :: "KubernetesAdmissionWebhookConfigurationKind \<Rightarrow> admissionWebhookResourceSpec result" where
  "admissionWebhookSpec kind =
     (case kind of
        AdmissionWebhookConfigurationValidating \<Rightarrow>
          Inr \<lparr>aw_objectKind = ''ValidatingWebhookConfiguration'',
               aw_collectionPath = ''/apis/admissionregistration.k8s.io/v1/validatingwebhookconfigurations''\<rparr>
      | AdmissionWebhookConfigurationMutating \<Rightarrow>
          Inr \<lparr>aw_objectKind = ''MutatingWebhookConfiguration'',
               aw_collectionPath = ''/apis/admissionregistration.k8s.io/v1/mutatingwebhookconfigurations''\<rparr>
      | OtherWebhookConfigurationKind _ \<Rightarrow> Inl (Invalid ''kind'' ''must be validating or mutating''))"

record KubernetesAdmissionWebhookConfiguration =
  ac_Kind :: KubernetesAdmissionWebhookConfigurationKind
  ac_Name :: string
  ac_CreatedAt :: gtime

record KubernetesAdmissionWebhook =
  wh_Name :: string
  wh_TargetType :: string
  wh_ServiceNamespace :: string
  wh_ServiceName :: string
  wh_ServicePort :: int
  wh_ServicePortDefaulted :: bool
  wh_CABundleConfigured :: bool
  wh_FailurePolicy :: string
  wh_FailurePolicyDefaulted :: bool
  wh_MatchPolicy :: string
  wh_MatchPolicyDefaulted :: bool
  wh_SideEffects :: string
  wh_TimeoutSeconds :: int
  wh_TimeoutSecondsDefaulted :: bool
  wh_ReinvocationPolicy :: string
  wh_ReinvocationPolicyDefaulted :: bool
  wh_AdmissionReviewVersions :: "string list"
  wh_RuleCount :: nat
  wh_OperationCount :: nat
  wh_APIGroupCount :: nat
  wh_APIVersionCount :: nat
  wh_ResourceCount :: nat
  wh_NamespaceSelectorLabelCount :: nat
  wh_NamespaceSelectorExpressionCount :: nat
  wh_ObjectSelectorLabelCount :: nat
  wh_ObjectSelectorExpressionCount :: nat
  wh_MatchConditionCount :: nat

record KubernetesAdmissionWebhookConfigurationDetail =
  wd_Configuration :: KubernetesAdmissionWebhookConfiguration
  wd_Generation :: int
  wd_Webhooks :: "KubernetesAdmissionWebhook list"
  wd_WebhookCount :: nat

text \<open>This list does not look at the bytes that are left before it asks for a page.\<close>

definition admissionWebhooks ::
  "KubernetesAdmissionWebhookConfigurationKind \<Rightarrow> admissionWebhookResourceSpec
     \<Rightarrow> (string, KubernetesAdmissionWebhookConfiguration) inventory" where
  "admissionWebhooks kind spec =
     (metadata_inventory ''admission webhook'' (aw_collectionPath spec)
        (named_metadata ''admission webhook'' ValidateAdmissionWebhookConfigurationName
           (\<lambda>name created. \<lparr>ac_Kind = kind, ac_Name = name, ac_CreatedAt = created\<rparr>)) ac_Name)
     \<lparr>iv_check := BytesWithin, iv_tokensOnce := False, iv_duplicate := ''Kubernetes admission webhook metadata''\<rparr>"

definition kc_AdmissionWebhookConfigurations ::
  "Client \<Rightarrow> KubernetesAdmissionWebhookConfigurationKind \<Rightarrow> KubernetesAdmissionWebhookConfiguration list kube" where
  "kc_AdmissionWebhookConfigurations c kind =
     kguard (ValidateAdmissionWebhookConfigurationKind kind)
     (kthen (kresult (admissionWebhookSpec kind)) (\<lambda>spec. list_inventory c (admissionWebhooks kind spec)))"

record webhookServiceSource =
  wt_Namespace :: string
  wt_Name :: string
  wt_Path :: string
  wt_Port :: "int option"

definition webhookServiceSource_of :: "fields \<Rightarrow> webhookServiceSource option" where
  "webhookServiceSource_of fs = do {
     namespace \<leftarrow> f_str ''namespace'' fs;
     name \<leftarrow> f_str ''name'' fs;
     servicePath \<leftarrow> f_str ''path'' fs;
     port \<leftarrow> f_int32_ptr ''port'' fs;
     Some \<lparr>wt_Namespace = namespace, wt_Name = name, wt_Path = servicePath, wt_Port = port\<rparr>
   }"

text \<open>
  The length of a field of type \<^verbatim>\<open>[]byte\<close>: a string in padded base64, where line ends are skipped,
  or an array of bytes.
\<close>

definition base64_length :: "string \<Rightarrow> nat option" where
  "base64_length s =
     (let digits = filter (\<lambda>ch. ch \<noteq> CHR 0x0A \<and> ch \<noteq> CHR 0x0D) s;
          body = takeWhile (\<lambda>ch. ch \<noteq> CHR ''='') digits;
          padding = dropWhile (\<lambda>ch. ch \<noteq> CHR ''='') digits in
      if length digits mod 4 = 0 \<and> length padding \<le> 2 \<and> list_all (\<lambda>ch. ch = CHR ''='') padding
         \<and> list_all (\<lambda>ch. ch \<in> set RawStdEncoding) body
      then Some (length body * 3 div 4) else None)"

definition set_bytes :: "nat \<Rightarrow> json \<Rightarrow> nat option" where
  "set_bytes old v =
     (case v of
        JNull \<Rightarrow> Some 0
      | JStr s \<Rightarrow> base64_length s
      | JArr vs \<Rightarrow>
          if list_all (\<lambda>v. case v of JInt n \<Rightarrow> 0 \<le> n \<and> n < 256 | JNull \<Rightarrow> True | _ \<Rightarrow> False) vs then Some (length vs) else None
      | _ \<Rightarrow> None)"

record admissionWebhookSource =
  ws_Name :: string
  ws_Service :: "webhookServiceSource option"
  ws_URL :: "string option"
  ws_CABundle :: nat
  ws_Rules :: "admissionRuleSource list"
  ws_FailurePolicy :: "string option"
  ws_MatchPolicy :: "string option"
  ws_NamespaceSelector :: selector_size
  ws_ObjectSelector :: selector_size
  ws_SideEffects :: "string option"
  ws_TimeoutSeconds :: "int option"
  ws_AdmissionReviewVersions :: "string list"
  ws_MatchConditions :: nat
  ws_ReinvocationPolicy :: "string option"

definition admissionWebhookSource_of :: "fields \<Rightarrow> admissionWebhookSource option" where
  "admissionWebhookSource_of fs = do {
     name \<leftarrow> f_str ''name'' fs;
     config \<leftarrow> f_struct ''clientConfig'' fs;
     service \<leftarrow> f_pointer webhookServiceSource_of ''service'' config;
     url \<leftarrow> f_str_ptr ''url'' config;
     bundle \<leftarrow> json_field set_bytes 0 ''caBundle'' config;
     rules \<leftarrow> f_structs (admissionRuleSource_of False) ''rules'' fs;
     failurePolicy \<leftarrow> f_str_ptr ''failurePolicy'' fs;
     matchPolicy \<leftarrow> f_str_ptr ''matchPolicy'' fs;
     namespaces \<leftarrow> f_struct ''namespaceSelector'' fs;
     namespaceSelector \<leftarrow> selector_of namespaces;
     objects \<leftarrow> f_struct ''objectSelector'' fs;
     objectSelector \<leftarrow> selector_of objects;
     sideEffects \<leftarrow> f_str_ptr ''sideEffects'' fs;
     timeout \<leftarrow> f_int32_ptr ''timeoutSeconds'' fs;
     versions \<leftarrow> f_strs ''admissionReviewVersions'' fs;
     conditions \<leftarrow> f_count (set_fields []) ''matchConditions'' fs;
     reinvocation \<leftarrow> f_str_ptr ''reinvocationPolicy'' fs;
     Some \<lparr>ws_Name = name, ws_Service = service, ws_URL = url, ws_CABundle = bundle, ws_Rules = rules,
           ws_FailurePolicy = failurePolicy, ws_MatchPolicy = matchPolicy, ws_NamespaceSelector = namespaceSelector,
           ws_ObjectSelector = objectSelector, ws_SideEffects = sideEffects, ws_TimeoutSeconds = timeout,
           ws_AdmissionReviewVersions = versions, ws_MatchConditions = conditions, ws_ReinvocationPolicy = reinvocation\<rparr>
   }"

record admissionWebhookConfigurationSource =
  wc_Header :: sourceHeader
  wc_Generation :: int
  wc_Webhooks :: "admissionWebhookSource list"

definition admissionWebhookConfigurationSource_of :: "fields \<Rightarrow> admissionWebhookConfigurationSource option" where
  "admissionWebhookConfigurationSource_of fs = do {
     header \<leftarrow> sourceHeader_of fs;
     metadata \<leftarrow> f_struct ''metadata'' fs;
     generation \<leftarrow> f_int64 ''generation'' metadata;
     webhooks \<leftarrow> f_structs admissionWebhookSource_of ''webhooks'' fs;
     Some \<lparr>wc_Header = header, wc_Generation = generation, wc_Webhooks = webhooks\<rparr>
   }"

definition webhook_entries :: "admissionWebhookSource \<Rightarrow> nat" where
  "webhook_entries webhook =
     length (ws_Rules webhook) + ws_MatchConditions webhook + length (ws_AdmissionReviewVersions webhook)
     + fst (ws_NamespaceSelector webhook) + snd (ws_NamespaceSelector webhook)
     + fst (ws_ObjectSelector webhook) + snd (ws_ObjectSelector webhook)
     + sum_list (map rule_entries (ws_Rules webhook))"

fun nested_entries :: "admissionWebhookSource list \<Rightarrow> nat \<Rightarrow> go_error option" where
  "nested_entries [] n = None"
| "nested_entries (webhook # webhooks) n =
     (if length (ws_Rules webhook) > 128 \<or> ws_MatchConditions webhook > 64
         \<or> length (ws_AdmissionReviewVersions webhook) > 32
         \<or> fst (ws_NamespaceSelector webhook) > 128 \<or> snd (ws_NamespaceSelector webhook) > 128
         \<or> fst (ws_ObjectSelector webhook) > 128 \<or> snd (ws_ObjectSelector webhook) > 128
      then Some (kube_upstream ''Kubernetes admission webhook detail exceeded safe nested field limit'')
      else if list_ex (\<lambda>rule. length (wr_Operations rule) > 128 \<or> length (wr_APIGroups rule) > 128
                \<or> length (wr_APIVersions rule) > 128 \<or> length (wr_Resources rule) > 128) (ws_Rules webhook)
      then Some (kube_upstream ''Kubernetes admission webhook rule exceeded safe value limit'')
      else if n + webhook_entries webhook > 8192
      then Some (kube_upstream ''Kubernetes admission webhook detail exceeded safe nested entry limit'')
      else nested_entries webhooks (n + webhook_entries webhook))"

definition validateAdmissionWebhookNestedEntries :: "admissionWebhookSource list \<Rightarrow> go_error option" where
  "validateAdmissionWebhookNestedEntries webhooks = nested_entries webhooks (length webhooks)"

definition url_target :: "url_parser \<Rightarrow> string \<Rightarrow> bool" where
  "url_target ParseRequestURI raw \<longleftrightarrow>
     (case ParseRequestURI raw of
        None \<Rightarrow> False
      | Some parsed \<Rightarrow>
          length raw \<le> maxAdmissionWebhookTextBytes \<and> raw = trim_space raw \<and> Scheme parsed = ''https''
          \<and> Host parsed \<noteq> [] \<and> User parsed = None \<and> RawQuery parsed = [] \<and> Fragment parsed = []
          \<and> \<not> index_func is_control raw)"

definition service_target :: "webhookServiceSource \<Rightarrow> bool" where
  "service_target service \<longleftrightarrow>
     ValidateNamespace (wt_Namespace service) = None \<and> ValidateNamespace (wt_Name service) = None
     \<and> (wt_Path service = []
        \<or> (length (wt_Path service) \<le> maxAdmissionWebhookTextBytes \<and> has_prefix (wt_Path service) ''/''
           \<and> wt_Path service = trim_space (wt_Path service) \<and> \<not> index_func is_control (wt_Path service)))"

definition decodeAdmissionWebhookTarget ::
  "url_parser \<Rightarrow> KubernetesAdmissionWebhook \<Rightarrow> admissionWebhookSource \<Rightarrow> KubernetesAdmissionWebhook result" where
  "decodeAdmissionWebhookTarget ParseRequestURI webhook source =
     (case (ws_Service source, ws_URL source) of
        (None, Some raw) \<Rightarrow>
          if url_target ParseRequestURI raw then Inr (webhook\<lparr>wh_TargetType := ''url''\<rparr>)
          else Inl (kube_upstream ''invalid Kubernetes admission webhook URL target'')
      | (Some service, None) \<Rightarrow>
          if \<not> service_target service then Inl (kube_upstream ''invalid Kubernetes admission webhook service target'')
          else if (case wt_Port service of None \<Rightarrow> False | Some port \<Rightarrow> port < 1 \<or> port > 65535)
          then Inl (kube_upstream ''invalid Kubernetes admission webhook service port'')
          else Inr (webhook\<lparr>wh_TargetType := ''service'', wh_ServiceNamespace := wt_Namespace service,
                            wh_ServiceName := wt_Name service,
                            wh_ServicePort := (case wt_Port service of None \<Rightarrow> 443 | Some port \<Rightarrow> port),
                            wh_ServicePortDefaulted := (wt_Port service = None)\<rparr>)
      | _ \<Rightarrow> Inl (kube_upstream ''invalid Kubernetes admission webhook client target''))"

definition defaulted :: "'a \<Rightarrow> 'a option \<Rightarrow> 'a" where
  "defaulted standard configured = (case configured of None \<Rightarrow> standard | Some x \<Rightarrow> x)"

definition decodeAdmissionWebhookPolicies ::
  "KubernetesAdmissionWebhook \<Rightarrow> admissionWebhookSource \<Rightarrow> KubernetesAdmissionWebhookConfigurationKind
     \<Rightarrow> KubernetesAdmissionWebhook result" where
  "decodeAdmissionWebhookPolicies webhook source kind =
     (let failure = defaulted ''Fail'' (ws_FailurePolicy source);
          matching = defaulted ''Equivalent'' (ws_MatchPolicy source);
          timeout = defaulted 10 (ws_TimeoutSeconds source);
          reinvocation = defaulted ''Never'' (ws_ReinvocationPolicy source) in
      ensure (failure = ''Fail'' \<or> failure = ''Ignore'') (kube_upstream ''invalid Kubernetes admission webhook failure policy'') (
      ensure (matching = ''Equivalent'' \<or> matching = ''Exact'') (kube_upstream ''invalid Kubernetes admission webhook match policy'') (
      case ws_SideEffects source of
        None \<Rightarrow> Inl (kube_upstream ''missing Kubernetes admission webhook side effects'')
      | Some effects \<Rightarrow>
          ensure (effects = ''None'' \<or> effects = ''NoneOnDryRun'' \<or> effects = ''Some'' \<or> effects = ''Unknown'')
            (kube_upstream ''invalid Kubernetes admission webhook side effects'') (
          ensure (1 \<le> timeout \<and> timeout \<le> 30) (kube_upstream ''invalid Kubernetes admission webhook timeout'') (
          let webhook = webhook\<lparr>wh_FailurePolicy := failure, wh_FailurePolicyDefaulted := (ws_FailurePolicy source = None),
                wh_MatchPolicy := matching, wh_MatchPolicyDefaulted := (ws_MatchPolicy source = None),
                wh_SideEffects := effects, wh_TimeoutSeconds := timeout,
                wh_TimeoutSecondsDefaulted := (ws_TimeoutSeconds source = None)\<rparr> in
          if kind = AdmissionWebhookConfigurationValidating
          then ensure (ws_ReinvocationPolicy source = None)
                 (kube_upstream ''validating Kubernetes admission webhook contains a reinvocation policy'') (Inr webhook)
          else ensure (reinvocation = ''Never'' \<or> reinvocation = ''IfNeeded'')
                 (kube_upstream ''invalid Kubernetes admission webhook reinvocation policy'')
                 (Inr (webhook\<lparr>wh_ReinvocationPolicy := reinvocation,
                               wh_ReinvocationPolicyDefaulted := (ws_ReinvocationPolicy source = None)\<rparr>)))))))"

fun review_versions :: "string list \<Rightarrow> string list \<Rightarrow> go_error option" where
  "review_versions [] seen = None"
| "review_versions (version # versions) seen =
     (if \<not> validAdmissionWebhookVersion version then Some (kube_upstream ''invalid Kubernetes admission webhook review version'')
      else if version \<in> set seen then Some (kube_upstream ''duplicate Kubernetes admission webhook review version'')
      else review_versions versions (version # seen))"

definition validateAdmissionReviewVersions :: "string list \<Rightarrow> go_error option" where
  "validateAdmissionReviewVersions versions =
     (if versions = [] \<or> length versions > 32
      then Some (kube_upstream ''invalid Kubernetes admission webhook review versions'')
      else review_versions versions [])"

fun summarizeAdmissionWebhookRules ::
  "KubernetesAdmissionWebhook \<Rightarrow> admissionRuleSource list \<Rightarrow> KubernetesAdmissionWebhook result" where
  "summarizeAdmissionWebhookRules webhook [] = Inr webhook"
| "summarizeAdmissionWebhookRules webhook (rule # rules) =
     (if wr_Operations rule = [] \<or> wr_APIGroups rule = [] \<or> wr_APIVersions rule = [] \<or> wr_Resources rule = []
      then Inl (kube_upstream ''incomplete Kubernetes admission webhook rule'')
      else if \<not> valid_rule_scope (wr_Scope rule) then Inl (kube_upstream ''invalid Kubernetes admission webhook rule scope'')
      else case validateAdmissionWebhookOperations (wr_Operations rule) of
          Some e \<Rightarrow> Inl e
        | None \<Rightarrow>
            if \<not> list_all validAdmissionWebhookRuleValues [wr_APIGroups rule, wr_APIVersions rule, wr_Resources rule]
            then Inl (kube_upstream ''invalid Kubernetes admission webhook rule value'')
            else summarizeAdmissionWebhookRules
                   (webhook\<lparr>wh_OperationCount := wh_OperationCount webhook + length (wr_Operations rule),
                            wh_APIGroupCount := wh_APIGroupCount webhook + length (wr_APIGroups rule),
                            wh_APIVersionCount := wh_APIVersionCount webhook + length (wr_APIVersions rule),
                            wh_ResourceCount := wh_ResourceCount webhook + length (wr_Resources rule)\<rparr>) rules)"

definition decodeAdmissionWebhook ::
  "url_parser \<Rightarrow> admissionWebhookSource \<Rightarrow> KubernetesAdmissionWebhookConfigurationKind
     \<Rightarrow> KubernetesAdmissionWebhook result" where
  "decodeAdmissionWebhook ParseRequestURI source kind =
     (if ValidateAdmissionWebhookConfigurationName (ws_Name source) \<noteq> None
      then Inl (kube_upstream ''invalid Kubernetes admission webhook name'')
      else
        let webhook = \<lparr>wh_Name = ws_Name source, wh_TargetType = [], wh_ServiceNamespace = [], wh_ServiceName = [],
              wh_ServicePort = 0, wh_ServicePortDefaulted = False, wh_CABundleConfigured = (ws_CABundle source > 0),
              wh_FailurePolicy = [], wh_FailurePolicyDefaulted = False, wh_MatchPolicy = [],
              wh_MatchPolicyDefaulted = False, wh_SideEffects = [], wh_TimeoutSeconds = 0,
              wh_TimeoutSecondsDefaulted = False, wh_ReinvocationPolicy = [], wh_ReinvocationPolicyDefaulted = False,
              wh_AdmissionReviewVersions = ws_AdmissionReviewVersions source, wh_RuleCount = length (ws_Rules source),
              wh_OperationCount = 0, wh_APIGroupCount = 0, wh_APIVersionCount = 0, wh_ResourceCount = 0,
              wh_NamespaceSelectorLabelCount = fst (ws_NamespaceSelector source),
              wh_NamespaceSelectorExpressionCount = snd (ws_NamespaceSelector source),
              wh_ObjectSelectorLabelCount = fst (ws_ObjectSelector source),
              wh_ObjectSelectorExpressionCount = snd (ws_ObjectSelector source),
              wh_MatchConditionCount = ws_MatchConditions source\<rparr>
        in rthen (decodeAdmissionWebhookTarget ParseRequestURI webhook source) (\<lambda>webhook.
           rthen (decodeAdmissionWebhookPolicies webhook source kind) (\<lambda>webhook.
           case validateAdmissionReviewVersions (wh_AdmissionReviewVersions webhook) of
             Some e \<Rightarrow> Inl e
           | None \<Rightarrow> summarizeAdmissionWebhookRules webhook (ws_Rules source))))"

fun decode_webhooks ::
  "url_parser \<Rightarrow> KubernetesAdmissionWebhookConfigurationKind \<Rightarrow> admissionWebhookSource list
     \<Rightarrow> KubernetesAdmissionWebhook list \<Rightarrow> KubernetesAdmissionWebhook list result" where
  "decode_webhooks ParseRequestURI kind [] webhooks = Inr webhooks"
| "decode_webhooks ParseRequestURI kind (source # sources) webhooks =
     (if ws_Name source \<in> wh_Name ` set webhooks then Inl (kube_upstream ''duplicate Kubernetes admission webhook'')
      else case decodeAdmissionWebhook ParseRequestURI source kind of
          Inl e \<Rightarrow> Inl e
        | Inr webhook \<Rightarrow> decode_webhooks ParseRequestURI kind sources (webhooks @ [webhook]))"

definition decodeAdmissionWebhookConfiguration ::
  "url_parser \<Rightarrow> string \<Rightarrow> KubernetesAdmissionWebhookConfigurationKind \<Rightarrow> string
     \<Rightarrow> KubernetesAdmissionWebhookConfigurationDetail result" where
  "decodeAdmissionWebhookConfiguration ParseRequestURI payload kind expectedName =
     rthen (admissionWebhookSpec kind) (\<lambda>spec.
     case Unmarshal_fields payload \<bind> admissionWebhookConfigurationSource_of of
       None \<Rightarrow> Inl (kube_upstream ''decode Kubernetes admission webhook detail'')
     | Some source \<Rightarrow>
         if \<not> cluster_object (wc_Header source) ''admissionregistration.k8s.io/v1'' (aw_objectKind spec) expectedName
               ValidateAdmissionWebhookConfigurationName \<or> wc_Generation source < 1
         then Inl (kube_upstream ''invalid Kubernetes admission webhook detail identity'')
         else if wc_Webhooks source = [] \<or> length (wc_Webhooks source) > 64
         then Inl (kube_upstream ''Kubernetes admission webhook detail exceeded safe webhook limit'')
         else case validateAdmissionWebhookNestedEntries (wc_Webhooks source) of
             Some e \<Rightarrow> Inl e
           | None \<Rightarrow>
               rthen (decode_webhooks ParseRequestURI kind (wc_Webhooks source) []) (\<lambda>webhooks.
               Inr \<lparr>wd_Configuration = \<lparr>ac_Kind = kind, ac_Name = sh_Name (wc_Header source),
                      ac_CreatedAt = sh_CreationTimestamp (wc_Header source)\<rparr>,
                    wd_Generation = wc_Generation source, wd_Webhooks = webhooks,
                    wd_WebhookCount = length (wc_Webhooks source)\<rparr>))"

definition kc_AdmissionWebhookConfiguration ::
  "url_parser \<Rightarrow> Client \<Rightarrow> KubernetesAdmissionWebhookConfigurationKind \<Rightarrow> string
     \<Rightarrow> KubernetesAdmissionWebhookConfigurationDetail kube" where
  "kc_AdmissionWebhookConfiguration ParseRequestURI c kind name =
     kguard (ValidateAdmissionWebhookConfigurationKind kind)
     (kguard (ValidateAdmissionWebhookConfigurationName name)
     (kthen (kresult (admissionWebhookSpec kind)) (\<lambda>spec.
      kthen (getPayload c (aw_collectionPath spec @ ''/'' @ name) None ''application/json'' (2 * 1024 * 1024) False) (\<lambda>(payload, _).
      kresult (decodeAdmissionWebhookConfiguration ParseRequestURI payload kind name)))))"

end
