(* ===== verification/Kube_Policies.thy ===== *)
theory Kube_Policies
  imports Kube_Admission
begin

text \<open>
  Admission policies with their bindings, of \<^verbatim>\<open>admission_policy.go\<close>.
\<close>

section \<open>Policies and bindings\<close>

datatype KubernetesAdmissionPolicyResourceKind = AdmissionPolicyResourcePolicy | AdmissionPolicyResourceBinding

record admissionPolicyResourceSpec =
  ay_kind :: KubernetesAdmissionPolicyResourceKind
  ay_objectKind :: string
  ay_collectionPath :: string

definition admissionPolicySpec :: "KubernetesAdmissionPolicyResourceKind \<Rightarrow> admissionPolicyResourceSpec" where
  "admissionPolicySpec kind =
     (case kind of
        AdmissionPolicyResourceBinding \<Rightarrow>
          \<lparr>ay_kind = AdmissionPolicyResourceBinding, ay_objectKind = ''ValidatingAdmissionPolicyBinding'',
           ay_collectionPath = ''/apis/admissionregistration.k8s.io/v1/validatingadmissionpolicybindings''\<rparr>
      | AdmissionPolicyResourcePolicy \<Rightarrow>
          \<lparr>ay_kind = AdmissionPolicyResourcePolicy, ay_objectKind = ''ValidatingAdmissionPolicy'',
           ay_collectionPath = ''/apis/admissionregistration.k8s.io/v1/validatingadmissionpolicies''\<rparr>)"

record KubernetesAdmissionPolicyResource =
  ap_Kind :: KubernetesAdmissionPolicyResourceKind
  ap_Name :: string
  ap_CreatedAt :: gtime

record KubernetesAdmissionMatchSummary =
  ma_Configured :: bool
  ma_MatchPolicy :: string
  ma_MatchPolicyDefaulted :: bool
  ma_ResourceRuleCount :: nat
  ma_ExcludeResourceRuleCount :: nat
  ma_OperationCount :: nat
  ma_APIGroupCount :: nat
  ma_APIVersionCount :: nat
  ma_ResourceCount :: nat
  ma_NamespaceSelectorLabelCount :: nat
  ma_NamespaceSelectorExpressionCount :: nat
  ma_ObjectSelectorLabelCount :: nat
  ma_ObjectSelectorExpressionCount :: nat

record KubernetesValidatingAdmissionPolicyDetail =
  vd_Resource :: KubernetesAdmissionPolicyResource
  vd_Generation :: int
  vd_FailurePolicy :: string
  vd_FailurePolicyDefaulted :: bool
  vd_ParamKindConfigured :: bool
  vd_ParamAPIVersion :: string
  vd_ParamKind :: string
  vd_Match :: KubernetesAdmissionMatchSummary
  vd_ValidationCount :: nat
  vd_AuditAnnotationCount :: nat
  vd_MatchConditionCount :: nat
  vd_VariableCount :: nat
  vd_ObservedGeneration :: int
  vd_TypeCheckingObserved :: bool
  vd_ExpressionWarningCount :: nat
  vd_ConditionCount :: nat

record KubernetesValidatingAdmissionPolicyBindingDetail =
  vb_Resource :: KubernetesAdmissionPolicyResource
  vb_Generation :: int
  vb_PolicyName :: string
  vb_ValidationActions :: "string list"
  vb_ParamRefConfigured :: bool
  vb_ParamRefMode :: string
  vb_ParamNamespace :: string
  vb_ParameterNotFoundAction :: string
  vb_ParamSelectorLabelCount :: nat
  vb_ParamSelectorExpressionCount :: nat
  vb_Match :: KubernetesAdmissionMatchSummary

definition admissionPolicies :: "admissionPolicyResourceSpec \<Rightarrow> (string, KubernetesAdmissionPolicyResource) inventory" where
  "admissionPolicies spec =
     (metadata_inventory ''admission policy'' (ay_collectionPath spec)
        (named_metadata ''admission policy'' ValidateAdmissionPolicyResourceName
           (\<lambda>name created. \<lparr>ap_Kind = ay_kind spec, ap_Name = name, ap_CreatedAt = created\<rparr>)) ap_Name)
     \<lparr>iv_tokensOnce := False, iv_list := ''Kubernetes admission policy metadata'',
      iv_duplicate := ''Kubernetes admission policy metadata''\<rparr>"

definition kc_ValidatingAdmissionPolicies :: "Client \<Rightarrow> KubernetesAdmissionPolicyResource list kube" where
  "kc_ValidatingAdmissionPolicies c = list_inventory c (admissionPolicies (admissionPolicySpec AdmissionPolicyResourcePolicy))"

definition kc_ValidatingAdmissionPolicyBindings :: "Client \<Rightarrow> KubernetesAdmissionPolicyResource list kube" where
  "kc_ValidatingAdmissionPolicyBindings c =
     list_inventory c (admissionPolicies (admissionPolicySpec AdmissionPolicyResourceBinding))"

record admissionPolicyMatchResourcesSource =
  mr_NamespaceSelector :: "selector_size option"
  mr_ObjectSelector :: "selector_size option"
  mr_ResourceRules :: "admissionRuleSource list"
  mr_ExcludeResourceRules :: "admissionRuleSource list"
  mr_MatchPolicy :: "string option"

definition admissionPolicyMatchResourcesSource_of :: "fields \<Rightarrow> admissionPolicyMatchResourcesSource option" where
  "admissionPolicyMatchResourcesSource_of fs = do {
     namespaceSelector \<leftarrow> f_pointer selector_of ''namespaceSelector'' fs;
     objectSelector \<leftarrow> f_pointer selector_of ''objectSelector'' fs;
     rules \<leftarrow> f_structs (admissionRuleSource_of True) ''resourceRules'' fs;
     excluded \<leftarrow> f_structs (admissionRuleSource_of True) ''excludeResourceRules'' fs;
     matchPolicy \<leftarrow> f_str_ptr ''matchPolicy'' fs;
     Some \<lparr>mr_NamespaceSelector = namespaceSelector, mr_ObjectSelector = objectSelector, mr_ResourceRules = rules,
           mr_ExcludeResourceRules = excluded, mr_MatchPolicy = matchPolicy\<rparr>
   }"

definition maxAdmissionPolicyNestedEntries :: nat where
  "maxAdmissionPolicyNestedEntries = 8192"

definition summarizeAdmissionPolicySelector :: "selector_size option \<Rightarrow> selector_size result" where
  "summarizeAdmissionPolicySelector selector =
     (case selector of
        None \<Rightarrow> Inr (0, 0)
      | Some (labels, expressions) \<Rightarrow>
          if labels > 128 \<or> expressions > 128
          then Inl (kube_upstream ''Kubernetes admission policy selector exceeded safe entry limit'')
          else Inr (labels, expressions))"

definition policy_rule_values :: "admissionRuleSource \<Rightarrow> bool" where
  "policy_rule_values rule \<longleftrightarrow>
     list_all (\<lambda>ss. validAdmissionWebhookRuleValues ss \<and> (''*'' \<in> set ss \<longrightarrow> length ss = 1))
       [wr_APIGroups rule, wr_APIVersions rule, wr_Resources rule]
     \<and> [] \<notin> set (wr_APIVersions rule) \<and> [] \<notin> set (wr_Resources rule)"

definition summarizeAdmissionPolicyRule ::
  "KubernetesAdmissionMatchSummary \<Rightarrow> admissionRuleSource \<Rightarrow> (KubernetesAdmissionMatchSummary \<times> nat) result" where
  "summarizeAdmissionPolicyRule summary rule =
     (if wr_Operations rule = [] \<or> wr_APIGroups rule = [] \<or> wr_APIVersions rule = [] \<or> wr_Resources rule = []
         \<or> length (wr_Operations rule) > 128 \<or> length (wr_APIGroups rule) > 128 \<or> length (wr_APIVersions rule) > 128
         \<or> length (wr_Resources rule) > 128 \<or> wr_ResourceNames rule > 128
      then Inl (kube_upstream ''invalid Kubernetes admission policy resource rule'')
      else if validateAdmissionWebhookOperations (wr_Operations rule) \<noteq> None
      then Inl (kube_upstream ''invalid Kubernetes admission policy operation'')
      else if \<not> policy_rule_values rule then Inl (kube_upstream ''invalid Kubernetes admission policy rule value'')
      else if \<not> valid_rule_scope (wr_Scope rule) then Inl (kube_upstream ''invalid Kubernetes admission policy rule scope'')
      else Inr (summary\<lparr>ma_OperationCount := ma_OperationCount summary + length (wr_Operations rule),
                        ma_APIGroupCount := ma_APIGroupCount summary + length (wr_APIGroups rule),
                        ma_APIVersionCount := ma_APIVersionCount summary + length (wr_APIVersions rule),
                        ma_ResourceCount := ma_ResourceCount summary + length (wr_Resources rule)\<rparr>,
                rule_entries rule + wr_ResourceNames rule))"

fun summarize_rules ::
  "KubernetesAdmissionMatchSummary \<Rightarrow> nat \<Rightarrow> admissionRuleSource list \<Rightarrow> (KubernetesAdmissionMatchSummary \<times> nat) result" where
  "summarize_rules summary nested [] = Inr (summary, nested)"
| "summarize_rules summary nested (rule # rules) =
     (case summarizeAdmissionPolicyRule summary rule of
        Inl e \<Rightarrow> Inl e
      | Inr (summary, entries) \<Rightarrow>
          if nested + entries > maxAdmissionPolicyNestedEntries
          then Inl (kube_upstream ''Kubernetes admission policy match exceeded safe nested entry limit'')
          else summarize_rules summary (nested + entries) rules)"

definition empty_match :: KubernetesAdmissionMatchSummary where
  "empty_match = \<lparr>ma_Configured = False, ma_MatchPolicy = [], ma_MatchPolicyDefaulted = False, ma_ResourceRuleCount = 0,
     ma_ExcludeResourceRuleCount = 0, ma_OperationCount = 0, ma_APIGroupCount = 0, ma_APIVersionCount = 0,
     ma_ResourceCount = 0, ma_NamespaceSelectorLabelCount = 0, ma_NamespaceSelectorExpressionCount = 0,
     ma_ObjectSelectorLabelCount = 0, ma_ObjectSelectorExpressionCount = 0\<rparr>"

definition summarizeAdmissionPolicyMatch ::
  "admissionPolicyMatchResourcesSource option \<Rightarrow> bool \<Rightarrow> (KubernetesAdmissionMatchSummary \<times> nat) result" where
  "summarizeAdmissionPolicyMatch match required =
     (case match of
        None \<Rightarrow>
          if required then Inl (kube_upstream ''missing Kubernetes admission policy match constraints'')
          else Inr (empty_match, 0)
      | Some source \<Rightarrow>
          (let rules = mr_ResourceRules source; excluded = mr_ExcludeResourceRules source;
               matching = defaulted ''Equivalent'' (mr_MatchPolicy source) in
           ensure (length rules \<le> 128 \<and> length excluded \<le> 128 \<and> \<not> (required \<and> rules = []))
             (kube_upstream ''Kubernetes admission policy match rules exceeded safe limit'') (
           ensure (matching = ''Equivalent'' \<or> matching = ''Exact'')
             (kube_upstream ''invalid Kubernetes admission policy match policy'') (
           rthen (summarizeAdmissionPolicySelector (mr_NamespaceSelector source)) (\<lambda>(namespaceLabels, namespaceExpressions).
           rthen (summarizeAdmissionPolicySelector (mr_ObjectSelector source)) (\<lambda>(objectLabels, objectExpressions).
           summarize_rules
             (empty_match\<lparr>ma_Configured := True, ma_MatchPolicy := matching,
                ma_MatchPolicyDefaulted := (mr_MatchPolicy source = None), ma_ResourceRuleCount := length rules,
                ma_ExcludeResourceRuleCount := length excluded, ma_NamespaceSelectorLabelCount := namespaceLabels,
                ma_NamespaceSelectorExpressionCount := namespaceExpressions, ma_ObjectSelectorLabelCount := objectLabels,
                ma_ObjectSelectorExpressionCount := objectExpressions\<rparr>)
             (length rules + length excluded + namespaceLabels + namespaceExpressions + objectLabels + objectExpressions)
             (rules @ excluded)))))))"

definition validAdmissionPolicyAPIVersion :: "string \<Rightarrow> bool" where
  "validAdmissionPolicyAPIVersion s \<longleftrightarrow>
     s \<noteq> [] \<and> length s \<le> 1024 \<and> s = trim_space s \<and> \<not> index_func is_control s
     \<and> (let (apiGroup, version, hasGroup) = cut_char CHR ''/'' s in
        if \<not> hasGroup then validAdmissionWebhookVersion s
        else apiGroup \<noteq> [] \<and> version \<noteq> [] \<and> CHR ''/'' \<notin> set version
          \<and> ValidateAPIServiceName (version @ ''.'' @ apiGroup) = None)"

definition validAdmissionPolicyKind :: "string \<Rightarrow> bool" where
  "validAdmissionPolicyKind s \<longleftrightarrow>
     s \<noteq> [] \<and> length s \<le> 63 \<and> ascii_letter (hd s) \<and> list_all (\<lambda>ch. ascii_letter ch \<or> decimal_digit ch) s"

definition validateAdmissionPolicyIdentity ::
  "sourceHeader \<Rightarrow> int \<Rightarrow> admissionPolicyResourceSpec \<Rightarrow> string \<Rightarrow> go_error option" where
  "validateAdmissionPolicyIdentity h generation spec expectedName =
     (if \<not> cluster_object h ''admissionregistration.k8s.io/v1'' (ay_objectKind spec) expectedName
           ValidateAdmissionPolicyResourceName \<or> generation < 1
      then Some (kube_upstream ''invalid Kubernetes admission policy resource identity'') else None)"

record validatingAdmissionPolicySource =
  vs_Header :: sourceHeader
  vs_Generation :: int
  vs_ParamKind :: "(string \<times> string) option"
  vs_MatchConstraints :: "admissionPolicyMatchResourcesSource option"
  vs_Validations :: nat
  vs_FailurePolicy :: "string option"
  vs_AuditAnnotations :: nat
  vs_MatchConditions :: nat
  vs_Variables :: nat
  vs_ObservedGeneration :: int
  vs_TypeChecking :: "nat option"
  vs_Conditions :: nat

definition validatingAdmissionPolicySource_of :: "fields \<Rightarrow> validatingAdmissionPolicySource option" where
  "validatingAdmissionPolicySource_of fs = do {
     header \<leftarrow> sourceHeader_of fs;
     metadata \<leftarrow> f_struct ''metadata'' fs;
     generation \<leftarrow> f_int64 ''generation'' metadata;
     spec \<leftarrow> f_struct ''spec'' fs;
     paramKind \<leftarrow> f_pointer (\<lambda>inner. do {
         apiVersion \<leftarrow> f_str ''apiVersion'' inner; kind \<leftarrow> f_str ''kind'' inner; Some (apiVersion, kind)
       }) ''paramKind'' spec;
     constraints \<leftarrow> f_pointer admissionPolicyMatchResourcesSource_of ''matchConstraints'' spec;
     validations \<leftarrow> f_count (set_fields []) ''validations'' spec;
     failurePolicy \<leftarrow> f_str_ptr ''failurePolicy'' spec;
     annotations \<leftarrow> f_count (set_fields []) ''auditAnnotations'' spec;
     matchConditions \<leftarrow> f_count (set_fields []) ''matchConditions'' spec;
     variables \<leftarrow> f_count (set_fields []) ''variables'' spec;
     status \<leftarrow> f_struct ''status'' fs;
     observed \<leftarrow> f_int64 ''observedGeneration'' status;
     checking \<leftarrow> f_pointer (f_count (set_fields []) ''expressionWarnings'') ''typeChecking'' status;
     conditions \<leftarrow> f_count (set_fields []) ''conditions'' status;
     Some \<lparr>vs_Header = header, vs_Generation = generation, vs_ParamKind = paramKind, vs_MatchConstraints = constraints,
           vs_Validations = validations, vs_FailurePolicy = failurePolicy, vs_AuditAnnotations = annotations,
           vs_MatchConditions = matchConditions, vs_Variables = variables, vs_ObservedGeneration = observed,
           vs_TypeChecking = checking, vs_Conditions = conditions\<rparr>
   }"

definition decodeValidatingAdmissionPolicy :: "string \<Rightarrow> string \<Rightarrow> KubernetesValidatingAdmissionPolicyDetail result" where
  "decodeValidatingAdmissionPolicy payload expectedName =
     (case Unmarshal_fields payload \<bind> validatingAdmissionPolicySource_of of
        None \<Rightarrow> Inl (kube_upstream ''decode Kubernetes validating admission policy'')
      | Some source \<Rightarrow>
          (let warnings = defaulted 0 (vs_TypeChecking source); failure = defaulted ''Fail'' (vs_FailurePolicy source);
               (paramAPIVersion, paramKind) = defaulted ([], []) (vs_ParamKind source) in
           case validateAdmissionPolicyIdentity (vs_Header source) (vs_Generation source)
                  (admissionPolicySpec AdmissionPolicyResourcePolicy) expectedName of
             Some e \<Rightarrow> Inl e
           | None \<Rightarrow>
               ensure (vs_Validations source \<le> 128 \<and> vs_AuditAnnotations source \<le> 128 \<and> vs_MatchConditions source \<le> 64
                   \<and> vs_Variables source \<le> 128 \<and> vs_Conditions source \<le> 32 \<and> warnings \<le> 128
                   \<and> \<not> (vs_Validations source = 0 \<and> vs_AuditAnnotations source = 0))
                 (kube_upstream ''Kubernetes admission policy exceeded safe field limit'') (
               rthen (summarizeAdmissionPolicyMatch (vs_MatchConstraints source) True) (\<lambda>(matches, matchEntries).
               ensure (matchEntries + vs_Validations source + vs_AuditAnnotations source + vs_MatchConditions source
                   + vs_Variables source + vs_Conditions source + warnings \<le> maxAdmissionPolicyNestedEntries)
                 (kube_upstream ''Kubernetes admission policy exceeded safe nested entry limit'') (
               ensure (0 \<le> vs_ObservedGeneration source \<and> vs_ObservedGeneration source \<le> vs_Generation source)
                 (kube_upstream ''invalid Kubernetes admission policy observed generation'') (
               ensure (failure = ''Fail'' \<or> failure = ''Ignore'')
                 (kube_upstream ''invalid Kubernetes admission policy failure policy'') (
               ensure (vs_ParamKind source = None
                   \<or> (validAdmissionPolicyAPIVersion paramAPIVersion \<and> validAdmissionPolicyKind paramKind))
                 (kube_upstream ''invalid Kubernetes admission policy parameter kind'') (
               Inr \<lparr>vd_Resource = \<lparr>ap_Kind = AdmissionPolicyResourcePolicy, ap_Name = expectedName,
                      ap_CreatedAt = sh_CreationTimestamp (vs_Header source)\<rparr>,
                    vd_Generation = vs_Generation source, vd_FailurePolicy = failure,
                    vd_FailurePolicyDefaulted = (vs_FailurePolicy source = None),
                    vd_ParamKindConfigured = (vs_ParamKind source \<noteq> None), vd_ParamAPIVersion = paramAPIVersion,
                    vd_ParamKind = paramKind, vd_Match = matches, vd_ValidationCount = vs_Validations source,
                    vd_AuditAnnotationCount = vs_AuditAnnotations source, vd_MatchConditionCount = vs_MatchConditions source,
                    vd_VariableCount = vs_Variables source, vd_ObservedGeneration = vs_ObservedGeneration source,
                    vd_TypeCheckingObserved = (vs_TypeChecking source \<noteq> None), vd_ExpressionWarningCount = warnings,
                    vd_ConditionCount = vs_Conditions source\<rparr>))))))))"

definition kc_ValidatingAdmissionPolicy :: "Client \<Rightarrow> string \<Rightarrow> KubernetesValidatingAdmissionPolicyDetail kube" where
  "kc_ValidatingAdmissionPolicy c name =
     get_detail c (ValidateAdmissionPolicyResourceName name)
       (ay_collectionPath (admissionPolicySpec AdmissionPolicyResourcePolicy) @ ''/'' @ name) (2 * 1024 * 1024)
       (\<lambda>payload. decodeValidatingAdmissionPolicy payload name)"

fun policy_actions :: "string list \<Rightarrow> string list \<Rightarrow> string list result" where
  "policy_actions [] seen = Inr seen"
| "policy_actions (action # actions) seen =
     (if action \<noteq> ''Deny'' \<and> action \<noteq> ''Warn'' \<and> action \<noteq> ''Audit''
      then Inl (kube_upstream ''invalid Kubernetes admission policy binding action'')
      else if action \<in> set seen then Inl (kube_upstream ''duplicate Kubernetes admission policy binding action'')
      else policy_actions actions (action # seen))"

definition canonicalAdmissionPolicyActions :: "string list \<Rightarrow> string list result" where
  "canonicalAdmissionPolicyActions actions =
     (if actions = [] \<or> length actions > 3 then Inl (kube_upstream ''invalid Kubernetes admission policy binding actions'')
      else rthen (policy_actions actions []) (\<lambda>seen.
        ensure (\<not> (''Deny'' \<in> set seen \<and> ''Warn'' \<in> set seen))
          (kube_upstream ''conflicting Kubernetes admission policy binding actions'')
          (Inr (filter (\<lambda>action. action \<in> set seen) [''Deny'', ''Warn'', ''Audit'']))))"

record admissionPolicyParamRefSource =
  af_Name :: string
  af_Namespace :: string
  af_Selector :: "selector_size option"
  af_ParameterNotFoundAction :: "string option"

definition admissionPolicyParamRefSource_of :: "fields \<Rightarrow> admissionPolicyParamRefSource option" where
  "admissionPolicyParamRefSource_of fs = do {
     name \<leftarrow> f_str ''name'' fs;
     namespace \<leftarrow> f_str ''namespace'' fs;
     selector \<leftarrow> f_pointer selector_of ''selector'' fs;
     action \<leftarrow> f_str_ptr ''parameterNotFoundAction'' fs;
     Some \<lparr>af_Name = name, af_Namespace = namespace, af_Selector = selector, af_ParameterNotFoundAction = action\<rparr>
   }"

definition valid_param_ref :: "admissionPolicyParamRefSource \<Rightarrow> bool" where
  "valid_param_ref source \<longleftrightarrow>
     (if af_Name source \<noteq> [] then af_Selector source = None \<and> ValidateAdmissionPolicyResourceName (af_Name source) = None
      else af_Selector source \<noteq> None)
     \<and> (af_Namespace source = [] \<or> ValidateNamespace (af_Namespace source) = None)
     \<and> (af_ParameterNotFoundAction source = Some ''Allow'' \<or> af_ParameterNotFoundAction source = Some ''Deny'')"

definition decodeAdmissionPolicyParamRef ::
  "KubernetesValidatingAdmissionPolicyBindingDetail \<Rightarrow> admissionPolicyParamRefSource
     \<Rightarrow> (KubernetesValidatingAdmissionPolicyBindingDetail \<times> nat) result" where
  "decodeAdmissionPolicyParamRef detail source =
     ensure (valid_param_ref source) (kube_upstream ''invalid Kubernetes admission policy binding parameter reference'') (
     let detail = detail\<lparr>vb_ParamRefConfigured := True, vb_ParamNamespace := af_Namespace source,
           vb_ParameterNotFoundAction := defaulted [] (af_ParameterNotFoundAction source),
           vb_ParamRefMode := (if af_Name source \<noteq> [] then ''name'' else ''selector'')\<rparr> in
     if af_Name source \<noteq> [] then Inr (detail, 0)
     else rthen (summarizeAdmissionPolicySelector (af_Selector source)) (\<lambda>(labels, expressions).
       Inr (detail\<lparr>vb_ParamSelectorLabelCount := labels, vb_ParamSelectorExpressionCount := expressions\<rparr>,
            labels + expressions)))"

record validatingAdmissionPolicyBindingSource =
  bg_Header :: sourceHeader
  bg_Generation :: int
  bg_PolicyName :: string
  bg_ParamRef :: "admissionPolicyParamRefSource option"
  bg_MatchResources :: "admissionPolicyMatchResourcesSource option"
  bg_ValidationActions :: "string list"

definition validatingAdmissionPolicyBindingSource_of :: "fields \<Rightarrow> validatingAdmissionPolicyBindingSource option" where
  "validatingAdmissionPolicyBindingSource_of fs = do {
     header \<leftarrow> sourceHeader_of fs;
     metadata \<leftarrow> f_struct ''metadata'' fs;
     generation \<leftarrow> f_int64 ''generation'' metadata;
     spec \<leftarrow> f_struct ''spec'' fs;
     policyName \<leftarrow> f_str ''policyName'' spec;
     paramRef \<leftarrow> f_pointer admissionPolicyParamRefSource_of ''paramRef'' spec;
     resources \<leftarrow> f_pointer admissionPolicyMatchResourcesSource_of ''matchResources'' spec;
     actions \<leftarrow> f_strs ''validationActions'' spec;
     Some \<lparr>bg_Header = header, bg_Generation = generation, bg_PolicyName = policyName, bg_ParamRef = paramRef,
           bg_MatchResources = resources, bg_ValidationActions = actions\<rparr>
   }"

definition decodeValidatingAdmissionPolicyBinding ::
  "string \<Rightarrow> string \<Rightarrow> KubernetesValidatingAdmissionPolicyBindingDetail result" where
  "decodeValidatingAdmissionPolicyBinding payload expectedName =
     (case Unmarshal_fields payload \<bind> validatingAdmissionPolicyBindingSource_of of
        None \<Rightarrow> Inl (kube_upstream ''decode Kubernetes validating admission policy binding'')
      | Some source \<Rightarrow>
          (case validateAdmissionPolicyIdentity (bg_Header source) (bg_Generation source)
                  (admissionPolicySpec AdmissionPolicyResourceBinding) expectedName of
             Some e \<Rightarrow> Inl e
           | None \<Rightarrow>
               ensure (ValidateAdmissionPolicyResourceName (bg_PolicyName source) = None)
                 (kube_upstream ''invalid Kubernetes admission policy binding policy reference'') (
               rthen (canonicalAdmissionPolicyActions (bg_ValidationActions source)) (\<lambda>actions.
               rthen (summarizeAdmissionPolicyMatch (bg_MatchResources source) False) (\<lambda>(matches, nestedEntries).
               let detail = \<lparr>vb_Resource = \<lparr>ap_Kind = AdmissionPolicyResourceBinding, ap_Name = expectedName,
                     ap_CreatedAt = sh_CreationTimestamp (bg_Header source)\<rparr>,
                     vb_Generation = bg_Generation source, vb_PolicyName = bg_PolicyName source,
                     vb_ValidationActions = actions, vb_ParamRefConfigured = False, vb_ParamRefMode = [],
                     vb_ParamNamespace = [], vb_ParameterNotFoundAction = [], vb_ParamSelectorLabelCount = 0,
                     vb_ParamSelectorExpressionCount = 0, vb_Match = matches\<rparr> in
               rthen (case bg_ParamRef source of
                        None \<Rightarrow> Inr (detail, 0) | Some reference \<Rightarrow> decodeAdmissionPolicyParamRef detail reference) (\<lambda>(detail, paramEntries).
               ensure (nestedEntries + paramEntries \<le> maxAdmissionPolicyNestedEntries)
                 (kube_upstream ''Kubernetes admission policy binding exceeded safe nested entry limit'') (Inr detail)))))))"

definition kc_ValidatingAdmissionPolicyBinding ::
  "Client \<Rightarrow> string \<Rightarrow> KubernetesValidatingAdmissionPolicyBindingDetail kube" where
  "kc_ValidatingAdmissionPolicyBinding c name =
     get_detail c (ValidateAdmissionPolicyResourceName name)
       (ay_collectionPath (admissionPolicySpec AdmissionPolicyResourceBinding) @ ''/'' @ name) (2 * 1024 * 1024)
       (\<lambda>payload. decodeValidatingAdmissionPolicyBinding payload name)"

end
