(* ===== verification/Kube_Registry.thy ===== *)
theory Kube_Registry
  imports Kube_Access
begin

text \<open>
  Aggregated APIs, of \<^verbatim>\<open>api_service.go\<close>, and the pod security levels of namespaces, of
  \<^verbatim>\<open>pod_security_admission.go\<close>.
\<close>

section \<open>API services\<close>

record KubernetesAPIService =
  ae_Name :: string
  ae_Group :: string
  ae_Version :: string
  ae_Local :: bool
  ae_ServiceNamespace :: string
  ae_ServiceName :: string
  ae_ServicePort :: int
  ae_ServicePortDefaulted :: bool
  ae_AvailabilityObserved :: bool
  ae_AvailabilityStatus :: string
  ae_AvailabilityReason :: string
  ae_AvailabilityTransitionTime :: "gtime option"
  ae_ConditionCount :: nat
  ae_InsecureSkipTLSVerify :: bool
  ae_GroupPriorityMinimum :: int
  ae_VersionPriority :: int
  ae_CreatedAt :: gtime

record apiServiceConditionSource =
  aq_Type :: string
  aq_Status :: string
  aq_Reason :: string
  aq_LastTransitionTime :: "gtime option"

definition apiServiceConditionSource_of :: "fields \<Rightarrow> apiServiceConditionSource option" where
  "apiServiceConditionSource_of fs = do {
     type \<leftarrow> f_str ''type'' fs;
     status \<leftarrow> f_str ''status'' fs;
     reason \<leftarrow> f_str ''reason'' fs;
     transition \<leftarrow> json_field set_time_pointer None ''lastTransitionTime'' fs;
     Some \<lparr>aq_Type = type, aq_Status = status, aq_Reason = reason, aq_LastTransitionTime = transition\<rparr>
   }"

record apiServiceTarget =
  at_Namespace :: string
  at_Name :: string
  at_Port :: "int option"

definition apiServiceTarget_of :: "fields \<Rightarrow> apiServiceTarget option" where
  "apiServiceTarget_of fs = do {
     namespace \<leftarrow> f_str ''namespace'' fs;
     name \<leftarrow> f_str ''name'' fs;
     port \<leftarrow> f_int32_ptr ''port'' fs;
     Some \<lparr>at_Namespace = namespace, at_Name = name, at_Port = port\<rparr>
   }"

record apiServiceSource =
  av_Header :: sourceHeader
  av_Group :: string
  av_Version :: string
  av_GroupPriorityMinimum :: int
  av_VersionPriority :: int
  av_Service :: "apiServiceTarget option"
  av_InsecureSkipTLSVerify :: bool
  av_Conditions :: "apiServiceConditionSource list"

definition apiServiceSource_of :: "fields \<Rightarrow> apiServiceSource option" where
  "apiServiceSource_of fs = do {
     header \<leftarrow> sourceHeader_of fs;
     spec \<leftarrow> f_struct ''spec'' fs;
     apiGroup \<leftarrow> f_str ''group'' spec;
     version \<leftarrow> f_str ''version'' spec;
     groupPriority \<leftarrow> f_int32 ''groupPriorityMinimum'' spec;
     versionPriority \<leftarrow> f_int32 ''versionPriority'' spec;
     service \<leftarrow> f_pointer apiServiceTarget_of ''service'' spec;
     insecure \<leftarrow> f_bool ''insecureSkipTLSVerify'' spec;
     status \<leftarrow> f_struct ''status'' fs;
     conditions \<leftarrow> f_structs apiServiceConditionSource_of ''conditions'' status;
     Some \<lparr>av_Header = header, av_Group = apiGroup, av_Version = version, av_GroupPriorityMinimum = groupPriority,
           av_VersionPriority = versionPriority, av_Service = service, av_InsecureSkipTLSVerify = insecure,
           av_Conditions = conditions\<rparr>
   }"

definition splitAPIServiceName :: "string \<Rightarrow> (string \<times> string) result" where
  "splitAPIServiceName name =
     (case ValidateAPIServiceName name of
        Some e \<Rightarrow> Inl e
      | None \<Rightarrow> (let (version, apiGroup, _) = cut_char CHR ''.'' name in Inr (version, apiGroup)))"

definition validAPIServiceText :: "string \<Rightarrow> bool \<Rightarrow> bool" where
  "validAPIServiceText s required \<longleftrightarrow>
     (if s = [] then \<not> required else length s \<le> 256 \<and> s = trim_space s \<and> \<not> index_func is_control s)"

definition api_service_target :: "apiServiceTarget option \<Rightarrow> KubernetesAPIService \<Rightarrow> KubernetesAPIService result" where
  "api_service_target service item =
     (case service of
        None \<Rightarrow> Inr item
      | Some target \<Rightarrow>
          if ValidateNamespace (at_Namespace target) \<noteq> None
          then Inl (kube_upstream ''invalid Kubernetes APIService service namespace'')
          else if ValidateNamespace (at_Name target) \<noteq> None
          then Inl (kube_upstream ''invalid Kubernetes APIService service name'')
          else if (case at_Port target of None \<Rightarrow> False | Some port \<Rightarrow> port < 1 \<or> port > 65535)
          then Inl (kube_upstream ''invalid Kubernetes APIService service port'')
          else Inr (item\<lparr>ae_ServiceNamespace := at_Namespace target, ae_ServiceName := at_Name target,
                         ae_ServicePort := (case at_Port target of None \<Rightarrow> 443 | Some port \<Rightarrow> port),
                         ae_ServicePortDefaulted := (at_Port target = None)\<rparr>))"

fun api_service_conditions ::
  "apiServiceConditionSource list \<Rightarrow> string list \<Rightarrow> KubernetesAPIService \<Rightarrow> KubernetesAPIService result" where
  "api_service_conditions [] seen item = Inr item"
| "api_service_conditions (condition # conditions) seen item =
     (if \<not> validAPIServiceText (aq_Type condition) True
         \<or> \<not> validAPIServiceText (aq_Reason condition) False
         \<or> \<not> validConditionStatus (aq_Status condition) \<or> aq_LastTransitionTime condition = Some zero_time
      then Inl (kube_upstream ''invalid Kubernetes APIService condition'')
      else if aq_Type condition \<in> set seen then Inl (kube_upstream ''duplicate Kubernetes APIService condition'')
      else api_service_conditions conditions (aq_Type condition # seen)
             (if aq_Type condition = ''Available''
              then item\<lparr>ae_AvailabilityObserved := True, ae_AvailabilityStatus := aq_Status condition,
                        ae_AvailabilityReason := aq_Reason condition,
                        ae_AvailabilityTransitionTime := aq_LastTransitionTime condition\<rparr>
              else item))"

definition decodeAPIService :: "apiServiceSource \<Rightarrow> KubernetesAPIService result" where
  "decodeAPIService source =
     (let h = av_Header source in
      case splitAPIServiceName (sh_Name h) of
        Inl _ \<Rightarrow> Inl (kube_upstream ''invalid Kubernetes APIService identity'')
      | Inr (version, apiGroup) \<Rightarrow>
          if sh_APIVersion h \<noteq> ''apiregistration.k8s.io/v1'' \<or> sh_Kind h \<noteq> ''APIService'' \<or> sh_Namespace h \<noteq> []
             \<or> sh_CreationTimestamp h = zero_time \<or> av_Group source \<noteq> apiGroup \<or> av_Version source \<noteq> version
             \<or> av_GroupPriorityMinimum source < 1 \<or> av_VersionPriority source < 1 \<or> av_VersionPriority source > 1000
          then Inl (kube_upstream ''invalid Kubernetes APIService identity'')
          else if length (av_Conditions source) > 32
          then Inl (kube_upstream ''Kubernetes APIService exceeded safe condition limit'')
          else
            rthen (api_service_target (av_Service source)
              \<lparr>ae_Name = sh_Name h, ae_Group = apiGroup, ae_Version = version, ae_Local = (av_Service source = None),
               ae_ServiceNamespace = [], ae_ServiceName = [], ae_ServicePort = 0, ae_ServicePortDefaulted = False,
               ae_AvailabilityObserved = False, ae_AvailabilityStatus = [], ae_AvailabilityReason = [],
               ae_AvailabilityTransitionTime = None, ae_ConditionCount = length (av_Conditions source),
               ae_InsecureSkipTLSVerify = av_InsecureSkipTLSVerify source,
               ae_GroupPriorityMinimum = av_GroupPriorityMinimum source, ae_VersionPriority = av_VersionPriority source,
               ae_CreatedAt = sh_CreationTimestamp h\<rparr>)
            (api_service_conditions (av_Conditions source) []))"

definition api_service_page ::
  "string \<Rightarrow> (string \<times> apiServiceSource list \<times> (apiServiceSource \<Rightarrow> KubernetesAPIService result) result) result" where
  "api_service_page payload =
     (case (do {
         fs \<leftarrow> Unmarshal_fields payload;
         apiVersion \<leftarrow> f_str ''apiVersion'' fs;
         kind \<leftarrow> f_str ''kind'' fs;
         continue \<leftarrow> f_struct ''metadata'' fs \<bind> f_str ''continue'';
         items \<leftarrow> f_structs apiServiceSource_of ''items'' fs;
         Some (apiVersion, kind, continue, items)
       }) of
        None \<Rightarrow> Inl (kube_upstream ''decode Kubernetes APIService list'')
      | Some (apiVersion, kind, continue, items) \<Rightarrow>
          if apiVersion \<noteq> ''apiregistration.k8s.io/v1'' \<or> kind \<noteq> ''APIServiceList''
          then Inl (kube_upstream ''unsupported Kubernetes APIService list'')
          else Inr (continue, items, Inr decodeAPIService))"

text \<open>The conditions of all services count against a limit of the list.\<close>

definition apiServices :: "(apiServiceSource, KubernetesAPIService) inventory" where
  "apiServices =
     \<lparr>iv_path = ''/apis/apiregistration.k8s.io/v1/apiservices'', iv_accept = ''application/json'',
      iv_query = [(''limit'', ''250'')], iv_maxPages = 4, iv_maxItems = 1000, iv_maxBytes = 4 * 1024 * 1024,
      iv_pageBytes = 4 * 1024 * 1024, iv_check = BytesBefore, iv_page = api_service_page,
      iv_weight = (\<lambda>source. length (av_Conditions source)), iv_maxWeight = 4096, iv_identity = ae_Name, iv_unique = True,
      iv_tokens = True, iv_tokensOnce = False, iv_stopFull = False,
      iv_before = (\<lambda>a b. if ae_Group a \<noteq> ae_Group b then ae_Group a < ae_Group b
                         else if ae_Version a \<noteq> ae_Version b then ae_Version a < ae_Version b else ae_Name a < ae_Name b),
      iv_list = ''Kubernetes APIService list'', iv_name = ''Kubernetes APIService'', iv_duplicate = ''Kubernetes APIService''\<rparr>"

definition kc_APIServices :: "Client \<Rightarrow> KubernetesAPIService list kube" where
  "kc_APIServices c = list_inventory c apiServices"

section \<open>Pod security levels\<close>

datatype KubernetesPodSecurityAdmissionModeStatus =
    PodSecurityAdmissionModeInherited | PodSecurityAdmissionModeConfigured | PodSecurityAdmissionModeInvalid

record KubernetesPodSecurityAdmissionMode =
  sm_Status :: KubernetesPodSecurityAdmissionModeStatus
  sm_Level :: string
  sm_Version :: string
  sm_VersionDefaulted :: bool

record KubernetesPodSecurityAdmissionNamespace =
  sn_Name :: string
  sn_Enforce :: KubernetesPodSecurityAdmissionMode
  sn_Audit :: KubernetesPodSecurityAdmissionMode
  sn_Warn :: KubernetesPodSecurityAdmissionMode
  sn_InvalidModeCount :: nat
  sn_CreatedAt :: gtime

record podSecurityAdmissionMetadata =
  sd_Name :: string
  sd_Labels :: "(string \<times> json) list"
  sd_CreationTimestamp :: gtime

definition podSecurityAdmissionMetadata_of :: "fields \<Rightarrow> (sourceHeader \<times> (string \<times> json) list) option" where
  "podSecurityAdmissionMetadata_of fs = do {
     header \<leftarrow> sourceHeader_of fs;
     metadata \<leftarrow> f_struct ''metadata'' fs;
     labels \<leftarrow> json_field (set_map Some) [] ''labels'' metadata;
     Some (header, labels)
   }"

definition decodePodSecurityAdmissionMetadata :: "string \<Rightarrow> podSecurityAdmissionMetadata result" where
  "decodePodSecurityAdmissionMetadata raw =
     (case Unmarshal_fields raw of
        None \<Rightarrow> Inl (kube_upstream ''decode Kubernetes Pod Security Admission metadata'')
      | Some fs \<Rightarrow>
          if \<not> list_all (\<lambda>(name, _). name \<in> {''apiVersion'', ''kind'', ''metadata''}) fs
          then Inl (kube_upstream ''unsafe Kubernetes Pod Security Admission metadata object'')
          else case podSecurityAdmissionMetadata_of fs of
              None \<Rightarrow> Inl (kube_upstream ''unsupported Kubernetes Pod Security Admission metadata object'')
            | Some (h, labels) \<Rightarrow>
                if sh_APIVersion h \<noteq> ''meta.k8s.io/v1'' \<or> sh_Kind h \<noteq> ''PartialObjectMetadata''
                then Inl (kube_upstream ''unsupported Kubernetes Pod Security Admission metadata object'')
                else if ValidateNamespace (sh_Name h) \<noteq> None \<or> sh_Namespace h \<noteq> [] \<or> sh_CreationTimestamp h = zero_time
                then Inl (kube_upstream ''invalid Kubernetes Pod Security Admission namespace identity'')
                else if length labels > 256
                then Inl (kube_upstream ''Kubernetes Pod Security Admission metadata exceeded safe label limit'')
                else Inr \<lparr>sd_Name = sh_Name h, sd_Labels = labels, sd_CreationTimestamp = sh_CreationTimestamp h\<rparr>)"

text \<open>A label: absent, or there with its text where it is a string.\<close>

definition podSecurityAdmissionLabel :: "(string \<times> json) list \<Rightarrow> string \<Rightarrow> string option option" where
  "podSecurityAdmissionLabel labels key = map_option (set_string []) (map_of labels key)"

definition validPodSecurityAdmissionLevel :: "string \<Rightarrow> bool" where
  "validPodSecurityAdmissionLevel s \<longleftrightarrow> s = ''privileged'' \<or> s = ''baseline'' \<or> s = ''restricted''"

definition validPodSecurityAdmissionVersion :: "string \<Rightarrow> bool" where
  "validPodSecurityAdmissionVersion s \<longleftrightarrow>
     s = ''latest''
     \<or> (4 \<le> length s \<and> length s \<le> 16 \<and> has_prefix s ''v1.''
        \<and> (let minor = drop 3 s in \<not> (length minor > 1 \<and> hd minor = CHR ''0'') \<and> list_all decimal_digit minor))"

definition security_mode ::
  "KubernetesPodSecurityAdmissionModeStatus \<Rightarrow> string \<Rightarrow> string \<Rightarrow> bool \<Rightarrow> KubernetesPodSecurityAdmissionMode" where
  "security_mode status level version versionDefaulted =
     \<lparr>sm_Status = status, sm_Level = level, sm_Version = version, sm_VersionDefaulted = versionDefaulted\<rparr>"

definition projectPodSecurityAdmissionMode :: "(string \<times> json) list \<Rightarrow> string \<Rightarrow> KubernetesPodSecurityAdmissionMode" where
  "projectPodSecurityAdmissionMode labels mode =
     (let label = ''pod-security.kubernetes.io/'' @ mode;
          invalid = security_mode PodSecurityAdmissionModeInvalid [] [] False in
      case (podSecurityAdmissionLabel labels label, podSecurityAdmissionLabel labels (label @ ''-version'')) of
        (Some None, _) \<Rightarrow> invalid
      | (_, Some None) \<Rightarrow> invalid
      | (None, None) \<Rightarrow> security_mode PodSecurityAdmissionModeInherited [] [] False
      | (None, Some (Some version)) \<Rightarrow> invalid
      | (Some (Some level), None) \<Rightarrow>
          if \<not> validPodSecurityAdmissionLevel level then invalid
          else security_mode PodSecurityAdmissionModeConfigured level ''latest'' True
      | (Some (Some level), Some (Some version)) \<Rightarrow>
          if \<not> validPodSecurityAdmissionLevel level \<or> \<not> validPodSecurityAdmissionVersion version then invalid
          else security_mode PodSecurityAdmissionModeConfigured level version False)"

definition projectPodSecurityAdmissionNamespace :: "podSecurityAdmissionMetadata \<Rightarrow> KubernetesPodSecurityAdmissionNamespace" where
  "projectPodSecurityAdmissionNamespace metadata =
     (let enforce = projectPodSecurityAdmissionMode (sd_Labels metadata) ''enforce'';
          audit = projectPodSecurityAdmissionMode (sd_Labels metadata) ''audit'';
          warn = projectPodSecurityAdmissionMode (sd_Labels metadata) ''warn'' in
      \<lparr>sn_Name = sd_Name metadata, sn_Enforce = enforce, sn_Audit = audit, sn_Warn = warn,
       sn_InvalidModeCount = length (filter (\<lambda>mode. sm_Status mode = PodSecurityAdmissionModeInvalid) [enforce, audit, warn]),
       sn_CreatedAt = sd_CreationTimestamp metadata\<rparr>)"

definition podSecurityAdmissionNamespaces :: "(string, KubernetesPodSecurityAdmissionNamespace) inventory" where
  "podSecurityAdmissionNamespaces =
     (metadata_inventory ''Pod Security Admission'' ''/api/v1/namespaces''
        (\<lambda>raw. rthen (decodePodSecurityAdmissionMetadata raw) (\<lambda>metadata. Inr (projectPodSecurityAdmissionNamespace metadata)))
        sn_Name)
     \<lparr>iv_pageBytes := 2 * 1024 * 1024, iv_stopFull := True, iv_duplicate := ''Kubernetes Pod Security Admission namespace''\<rparr>"

definition kc_PodSecurityAdmissionNamespaces :: "Client \<Rightarrow> KubernetesPodSecurityAdmissionNamespace list kube" where
  "kc_PodSecurityAdmissionNamespaces c = list_inventory c podSecurityAdmissionNamespaces"

end
