(* ===== verification/Kube_Upgrade.thy ===== *)
theory Kube_Upgrade
  imports Kube_Access
begin

text \<open>
  What an upgrade has to know, of \<^verbatim>\<open>version_skew.go\<close>, \<^verbatim>\<open>deprecated_api.go\<close> and
  \<^verbatim>\<open>api_server_readiness.go\<close>: the versions of the nodes against that of the API server, the
  deprecated APIs in use, read from the metrics of the server, and the checks of its readiness.
\<close>

section \<open>Versions\<close>

record kubernetesComponentVersion =
  kn_Major :: nat
  kn_Minor :: nat
  kn_Patch :: nat

text \<open>A number at the start of a text, without leading zeros and within 16 bits.\<close>

definition parseVersionNumber :: "string \<Rightarrow> (nat \<times> string) option" where
  "parseVersionNumber s =
     (let digits = takeWhile decimal_digit s in
      if digits = [] \<or> (length digits > 1 \<and> hd digits = CHR ''0'') \<or> digits_value digits > 65535 then None
      else Some (digits_value digits, dropWhile decimal_digit s))"

definition validVersionIdentifiers :: "string \<Rightarrow> bool" where
  "validVersionIdentifiers s \<longleftrightarrow>
     list_all (\<lambda>identifier. identifier \<noteq> []
         \<and> list_all (\<lambda>ch. ascii_letter ch \<or> decimal_digit ch \<or> ch = CHR ''-'') identifier) (split_char CHR ''.'' s)"

definition validKubernetesVersionSuffix :: "string \<Rightarrow> bool" where
  "validKubernetesVersionSuffix s \<longleftrightarrow>
     (case s of
        [] \<Rightarrow> True
      | ch # rest \<Rightarrow>
          if ch = CHR ''+'' then validVersionIdentifiers rest
          else if ch \<noteq> CHR ''-'' then False
          else let (prerelease, build, hasBuild) = cut_char CHR ''+'' rest in
            validVersionIdentifiers prerelease \<and> (\<not> hasBuild \<or> validVersionIdentifiers build))"

definition parseKubernetesComponentVersion :: "string \<Rightarrow> kubernetesComponentVersion option" where
  "parseKubernetesComponentVersion s =
     (if length s < 6 \<or> length s > 128 \<or> hd s \<noteq> CHR ''v'' then None
      else do {
        (major, s) \<leftarrow> parseVersionNumber (tl s);
        s \<leftarrow> expect CHR ''.'' s;
        (minor, s) \<leftarrow> parseVersionNumber s;
        s \<leftarrow> expect CHR ''.'' s;
        (patch, s) \<leftarrow> parseVersionNumber s;
        if validKubernetesVersionSuffix s then Some \<lparr>kn_Major = major, kn_Minor = minor, kn_Patch = patch\<rparr> else None
      })"

datatype KubernetesNodeVersionSkewStatus =
    NodeVersionSameMinor | NodeVersionWithinPolicy | NodeVersionUpgradeBlocking | NodeVersionOutsidePolicy
  | NodeVersionNewerThanServer | NodeVersionMajorMismatch

record KubernetesNodeVersionSkew =
  nk_Name :: string
  nk_KubeletVersion :: string
  nk_Status :: KubernetesNodeVersionSkewStatus
  nk_MinorSkew :: int
  nk_MaximumMinorSkew :: int
  nk_MinorSkewComparable :: bool

record KubernetesNodeVersionSkewReport =
  nr_APIServerVersion :: string
  nr_Nodes :: "KubernetesNodeVersionSkew list"

definition classifyNodeVersion ::
  "string \<Rightarrow> string \<Rightarrow> kubernetesComponentVersion \<Rightarrow> kubernetesComponentVersion \<Rightarrow> KubernetesNodeVersionSkew" where
  "classifyNodeVersion name kubeletVersionText apiServer kubelet =
     (if kn_Major apiServer \<noteq> kn_Major kubelet
      then \<lparr>nk_Name = name, nk_KubeletVersion = kubeletVersionText, nk_Status = NodeVersionMajorMismatch,
            nk_MinorSkew = 0, nk_MaximumMinorSkew = 0, nk_MinorSkewComparable = False\<rparr>
      else
        let maximum = (if kn_Major kubelet < 1 \<or> (kn_Major kubelet = 1 \<and> kn_Minor kubelet < 25) then 2 else 3);
            skew = int (kn_Minor apiServer) - int (kn_Minor kubelet)
        in \<lparr>nk_Name = name, nk_KubeletVersion = kubeletVersionText,
            nk_Status = (if skew < 0 then NodeVersionNewerThanServer
                         else if skew = 0 then NodeVersionSameMinor
                         else if skew > maximum then NodeVersionOutsidePolicy
                         else if skew = maximum then NodeVersionUpgradeBlocking
                         else NodeVersionWithinPolicy),
            nk_MinorSkew = skew, nk_MaximumMinorSkew = maximum, nk_MinorSkewComparable = True\<rparr>)"

section \<open>The versions of the nodes\<close>

definition observedAPIServerVersion :: "Client \<Rightarrow> (string \<times> kubernetesComponentVersion) kube" where
  "observedAPIServerVersion c =
     kthen (getPayload c ''/version'' None ''application/json'' (64 * 1024) False) (\<lambda>(payload, _).
     kthen (kdecoded (kube_upstream ''decode Kubernetes API Server version'')
       (Unmarshal_fields payload \<bind> f_str ''gitVersion'')) (\<lambda>gitVersion.
     kthen (kdecoded (kube_upstream ''invalid Kubernetes API Server version'')
       (parseKubernetesComponentVersion gitVersion)) (\<lambda>version.
     kreturn (gitVersion, version))))"

definition nodeVersionTableColumns :: "(string \<times> string) list \<Rightarrow> (nat \<times> nat) result" where
  "nodeVersionTableColumns columns =
     (if \<not> list_all (\<lambda>(name, type). validTableString name \<and> validTableString type) columns
      then Inl (kube_upstream ''invalid Kubernetes node version table column'')
      else rthen (configurationTableColumn columns ''Name'') (\<lambda>nameColumn.
        rthen (configurationTableColumn columns ''Version'') (\<lambda>versionColumn.
        if snd (columns ! nameColumn) \<noteq> ''string'' \<or> snd (columns ! versionColumn) \<noteq> ''string''
        then Inl (kube_upstream ''invalid Kubernetes node version table column type'')
        else Inr (nameColumn, versionColumn))))"

definition nodeVersionStringCell :: "string \<Rightarrow> nat \<Rightarrow> string option" where
  "nodeVersionStringCell raw maxBytes = do {
     s \<leftarrow> Unmarshal_value raw \<bind> set_string [];
     if s = [] \<or> length s > maxBytes \<or> s \<noteq> trim_space s \<or> index_func is_control s then None else Some s
   }"

definition emptyTableRowObject :: "string \<Rightarrow> bool" where
  "emptyTableRowObject raw \<longleftrightarrow> trim_space raw = [] \<or> trim_space raw = ''null''"

definition decodeNodeVersionTableRow ::
  "kubernetesComponentVersion \<Rightarrow> nat \<Rightarrow> nat \<times> nat \<Rightarrow> kubernetesTableRow \<Rightarrow> KubernetesNodeVersionSkew result" where
  "decodeNodeVersionTableRow apiServer columnCount = (\<lambda>(nameColumn, versionColumn) row.
     let cells = tr_Cells row in
     if length cells \<noteq> columnCount \<or> cells = [] \<or> length cells > maxTableColumns \<or> nameColumn \<ge> length cells
        \<or> versionColumn \<ge> length cells \<or> \<not> emptyTableRowObject (tr_Object row)
     then Inl (kube_upstream ''invalid Kubernetes node version table row'')
     else case nodeVersionStringCell (cells ! nameColumn) 253 of
         None \<Rightarrow> Inl (kube_upstream ''invalid Kubernetes node version name'')
       | Some name \<Rightarrow>
           if ValidateNodeName name \<noteq> None then Inl (kube_upstream ''invalid Kubernetes node version name'')
           else case nodeVersionStringCell (cells ! versionColumn) 128 of
               None \<Rightarrow> Inl (kube_upstream ''invalid Kubernetes node version table cell'')
             | Some kubeletVersionText \<Rightarrow>
                 (case parseKubernetesComponentVersion kubeletVersionText of
                    None \<Rightarrow> Inl (kube_upstream ''invalid Kubernetes Kubelet version'')
                  | Some kubelet \<Rightarrow> Inr (classifyNodeVersion name kubeletVersionText apiServer kubelet)))"

definition nodeVersions :: "kubernetesComponentVersion \<Rightarrow> (kubernetesTableRow, KubernetesNodeVersionSkew) inventory" where
  "nodeVersions apiServer =
     (table_inventory ''node version'' ''/api/v1/nodes'' (\<lambda>columns.
        rthen (nodeVersionTableColumns columns) (\<lambda>found. Inr (decodeNodeVersionTableRow apiServer (length columns) found)))
        nk_Name (\<lambda>a b. nk_Name a < nk_Name b))
     \<lparr>iv_query := [(''includeObject'', ''None''), (''limit'', ''250'')], iv_maxBytes := 2 * 1024 * 1024,
      iv_pageBytes := 1024 * 1024, iv_stopFull := True, iv_list := ''Kubernetes node version table'',
      iv_duplicate := ''Kubernetes node version row''\<rparr>"

definition kc_NodeVersionSkew :: "Client \<Rightarrow> KubernetesNodeVersionSkewReport kube" where
  "kc_NodeVersionSkew c =
     kthen (observedAPIServerVersion c) (\<lambda>(gitVersion, version).
     kthen (list_inventory c (nodeVersions version)) (\<lambda>nodes.
     kreturn \<lparr>nr_APIServerVersion = gitVersion, nr_Nodes = nodes\<rparr>))"

section \<open>Lines\<close>

text \<open>
  The lines that \<^verbatim>\<open>bufio.Scanner\<close> finds: without the line end and one carriage return before it.
  A line over the limit ends the scan, \<open>None\<close>: it does not fit into the buffer, which holds one byte
  more than the limit, the line end.
\<close>

definition drop_cr :: "string \<Rightarrow> string" where
  "drop_cr s = (if s \<noteq> [] \<and> last s = CHR 0x0D then butlast s else s)"

definition scan_lines :: "nat \<Rightarrow> string \<Rightarrow> string option list" where
  "scan_lines limit payload =
     (let parts = split_char CHR 0x0A payload;
          raws = (if last parts = [] then butlast parts else parts)
      in map (\<lambda>raw. if length raw > limit then None else Some (drop_cr raw)) raws)"

section \<open>Deprecated APIs\<close>

record KubernetesDeprecatedAPIRequest =
  dq_Group :: string
  dq_Version :: string
  dq_Resource :: string
  dq_Subresource :: string
  dq_RemovedRelease :: string

definition deprecatedAPIMetricName :: string where
  "deprecatedAPIMetricName = ''apiserver_requested_deprecated_apis''"

definition isPrometheusMetricNameCharacter :: "char \<Rightarrow> bool" where
  "isPrometheusMetricNameCharacter ch \<longleftrightarrow> ascii_letter ch \<or> decimal_digit ch \<or> ch = CHR ''_'' \<or> ch = CHR '':''"

definition isPrometheusLabelNameCharacter :: "char \<Rightarrow> bool \<Rightarrow> bool" where
  "isPrometheusLabelNameCharacter ch first \<longleftrightarrow>
     ascii_letter ch \<or> ch = CHR ''_'' \<or> (\<not> first \<and> decimal_digit ch)"

definition prometheus_space :: "char \<Rightarrow> bool" where
  "prometheus_space ch \<longleftrightarrow> ch = CHR '' '' \<or> ch = CHR 0x09"

definition skipPrometheusSpaces :: "string \<Rightarrow> string" where
  "skipPrometheusSpaces s = dropWhile prometheus_space s"

definition isDeprecatedAPIMetricLabel :: "string \<Rightarrow> bool" where
  "isDeprecatedAPIMetricLabel name \<longleftrightarrow>
     name \<in> {''group'', ''version'', ''resource'', ''subresource'', ''removed_release''}"

text \<open>The text of a label up to the closing quote, with its escapes.\<close>

fun label_text :: "string \<Rightarrow> string \<Rightarrow> (string \<times> string) result" where
  "label_text [] s = Inl (kube_upstream ''unterminated Kubernetes deprecated API metric label'')"
| "label_text (ch # rest) s =
     (if ch = CHR 0x22 then Inr (s, rest)
      else if ch = CHR 0x5C
      then (case rest of
              [] \<Rightarrow> Inl (kube_upstream ''invalid Kubernetes deprecated API metric escape'')
            | escaped # rest' \<Rightarrow>
                if escaped \<noteq> CHR 0x5C \<and> escaped \<noteq> CHR 0x22 \<and> escaped \<noteq> CHR ''n''
                then Inl (kube_upstream ''invalid Kubernetes deprecated API metric escape'')
                else if length s \<ge> 253
                then Inl (kube_upstream ''Kubernetes deprecated API metric label exceeded safe limit'')
                else label_text rest' (s @ [if escaped = CHR ''n'' then CHR 0x0A else escaped]))
      else if length s \<ge> 253 then Inl (kube_upstream ''Kubernetes deprecated API metric label exceeded safe limit'')
      else label_text rest (s @ [ch]))"

definition parsePrometheusLabelValue :: "string \<Rightarrow> (string \<times> string) result" where
  "parsePrometheusLabelValue s =
     (case expect CHR 0x22 s of
        None \<Rightarrow> Inl (kube_upstream ''invalid Kubernetes deprecated API metric label value'')
      | Some rest \<Rightarrow> label_text rest [])"

definition label_name :: "string \<Rightarrow> string" where
  "label_name s =
     (case s of
        [] \<Rightarrow> []
      | ch # rest \<Rightarrow>
          if isPrometheusLabelNameCharacter ch True
          then ch # takeWhile (\<lambda>ch. isPrometheusLabelNameCharacter ch False) rest else [])"

text \<open>One label, with what follows its text.\<close>

definition parse_label :: "string \<Rightarrow> (string \<times> string) list \<Rightarrow> (string \<times> string \<times> string) result" where
  "parse_label s labels =
     (let s = skipPrometheusSpaces s in
      if take 1 s = [] \<or> take 1 s = ''}''
      then Inl (kube_upstream ''invalid Kubernetes deprecated API metric label set'')
      else
        let name = label_name s; rest = skipPrometheusSpaces (drop (length name) s) in
        if name = [] \<or> take 1 rest \<noteq> ''='' then Inl (kube_upstream ''invalid Kubernetes deprecated API metric label'')
        else if \<not> isDeprecatedAPIMetricLabel name
        then Inl (kube_upstream ''unexpected Kubernetes deprecated API metric label'')
        else if map_of labels name \<noteq> None
        then Inl (kube_upstream ''duplicate Kubernetes deprecated API metric label'')
        else rthen (parsePrometheusLabelValue (skipPrometheusSpaces (tl rest))) (\<lambda>(s, rest).
          Inr (name, s, skipPrometheusSpaces rest)))"

lemma label_text_shorter: "label_text s acc = Inr (t, rest) \<Longrightarrow> length rest < length s"
  by (induction s acc rule: label_text.induct) (fastforce split: if_splits list.splits)+

lemma skip_shorter: "length (skipPrometheusSpaces s) \<le> length s"
  by (simp add: skipPrometheusSpaces_def length_dropWhile_le)

lemma parse_label_shorter:
  assumes "parse_label s labels = Inr (name, t, rest)" shows "length rest < length s"
proof -
  let ?s = "skipPrometheusSpaces s" and ?name = "label_name (skipPrometheusSpaces s)"
  let ?r = "skipPrometheusSpaces (drop (length ?name) ?s)"
  from assms obtain rest' where "parsePrometheusLabelValue (skipPrometheusSpaces (tl ?r)) = Inr (t, rest')"
      and rest: "rest = skipPrometheusSpaces rest'"
    by (auto simp: parse_label_def rthen_def Let_def split: if_splits sum.splits prod.splits)
  then obtain body where "skipPrometheusSpaces (tl ?r) = CHR 0x22 # body" "label_text body [] = Inr (t, rest')"
    by (auto simp: parsePrometheusLabelValue_def expect_def split: option.splits list.splits if_splits)
  then have "length rest' < length (skipPrometheusSpaces (tl ?r))" using label_text_shorter by fastforce
  also have "\<dots> \<le> length (drop (length ?name) ?s)"
    using skip_shorter [of "tl ?r"] skip_shorter [of "drop (length ?name) ?s"] by (simp del: length_drop)
  also have "\<dots> \<le> length s" using skip_shorter [of s] by simp
  finally show ?thesis using rest skip_shorter [of rest'] by simp
qed

function parse_labels ::
  "string \<Rightarrow> (string \<times> string) list \<Rightarrow> ((string \<times> string) list \<times> string) result" where
  "parse_labels s labels =
     (case parse_label s labels of
        Inl e \<Rightarrow> Inl e
      | Inr (name, t, rest) \<Rightarrow>
          (let labels = (name, t) # labels in
           if rest = [] then Inl (kube_upstream ''unterminated Kubernetes deprecated API metric'')
           else if hd rest = CHR ''}'' then Inr (labels, tl rest)
           else if hd rest \<noteq> CHR '',''
           then Inl (kube_upstream ''invalid Kubernetes deprecated API metric label separator'')
           else
             let rest = skipPrometheusSpaces (tl rest) in
             if take 1 rest = [] \<or> take 1 rest = ''}''
             then Inl (kube_upstream ''invalid Kubernetes deprecated API metric label separator'')
             else parse_labels rest labels))"
  by pat_completeness auto
termination
proof (relation "measure (length \<circ> fst)", goal_cases)
  case 1
  show ?case by simp
next
  case (2 s labels p name q t rest)
  then have "length rest < length s" by (metis parse_label_shorter)
  then show ?case using 2 skip_shorter [of "tl rest"] by simp
qed

definition parseDeprecatedAPILabelSet :: "string \<Rightarrow> ((string \<times> string) list \<times> string) result" where
  "parseDeprecatedAPILabelSet s =
     (case expect CHR ''{'' s of
        None \<Rightarrow> Inl (kube_upstream ''invalid Kubernetes deprecated API metric label set'')
      | Some rest \<Rightarrow> parse_labels rest [])"

definition parseDeprecatedAPIRemovedRelease :: "string \<Rightarrow> (nat \<times> nat) option" where
  "parseDeprecatedAPIRemovedRelease s = do {
     (major, s) \<leftarrow> parseVersionNumber s;
     s \<leftarrow> expect CHR ''.'' s;
     (minor, s) \<leftarrow> parseVersionNumber s;
     if s = [] then Some (major, minor) else None
   }"

definition isLowerAlphaNumeric :: "char \<Rightarrow> bool" where
  "isLowerAlphaNumeric ch \<longleftrightarrow> (CHR ''a'' \<le> ch \<and> ch \<le> CHR ''z'') \<or> decimal_digit ch"

definition validDeprecatedAPIResourceName :: "string \<Rightarrow> bool \<Rightarrow> bool" where
  "validDeprecatedAPIResourceName s allowEmpty \<longleftrightarrow>
     (if s = [] then allowEmpty
      else length s \<le> 63 \<and> isLowerAlphaNumeric (hd s) \<and> isLowerAlphaNumeric (last s)
        \<and> list_all (\<lambda>ch. isLowerAlphaNumeric ch \<or> ch = CHR ''-'') s)"

text \<open>
  A decimal number as its digits, the number of digits behind the point, and its exponent. The value
  of the metric has to be 1: the digits are the power of ten that the point and the exponent take
  away. A rational number with an exponent beyond a million, which \<^verbatim>\<open>big.Rat\<close> refuses, is not 1.
\<close>

definition signed_part :: "string \<Rightarrow> bool \<times> string" where
  "signed_part s = (if s \<noteq> [] \<and> (hd s = CHR ''+'' \<or> hd s = CHR ''-'') then (hd s = CHR ''-'', tl s) else (False, s))"

definition exponent_part :: "string \<Rightarrow> int option" where
  "exponent_part s =
     (case s of
        [] \<Rightarrow> Some 0
      | ch # rest \<Rightarrow>
          if ch \<noteq> CHR ''e'' \<and> ch \<noteq> CHR ''E'' then None
          else let (negative, digits) = signed_part rest in
            if digits = [] \<or> \<not> list_all decimal_digit digits then None
            else Some (if negative then - int (digits_value digits) else int (digits_value digits)))"

definition decimal_value :: "string \<Rightarrow> (bool \<times> nat \<times> int) option" where
  "decimal_value s =
     (let (negative, s) = signed_part s;
          whole = takeWhile decimal_digit s; rest = dropWhile decimal_digit s;
          fraction = (if take 1 rest = ''.'' then takeWhile decimal_digit (tl rest) else []);
          rest = (if take 1 rest = ''.'' then dropWhile decimal_digit (tl rest) else rest)
      in if whole @ fraction = [] then None
         else map_option (\<lambda>e. (negative, digits_value (whole @ fraction), int (length fraction) - e)) (exponent_part rest))"

definition validDeprecatedAPIMetricValue :: "string \<Rightarrow> bool" where
  "validDeprecatedAPIMetricValue s \<longleftrightarrow>
     s \<noteq> [] \<and> length s \<le> 32
     \<and> (case decimal_value s of
          None \<Rightarrow> False
        | Some (negative, digits, scale) \<Rightarrow> \<not> negative \<and> 0 \<le> scale \<and> scale \<le> 32 \<and> digits = 10 ^ nat scale)"

definition trim_prometheus :: "string \<Rightarrow> string" where
  "trim_prometheus s = rev (skipPrometheusSpaces (rev (skipPrometheusSpaces s)))"

text \<open>\<open>Inr None\<close> is a line of another metric.\<close>

definition parseDeprecatedAPIMetricLine :: "string \<Rightarrow> KubernetesDeprecatedAPIRequest option result" where
  "parseDeprecatedAPIMetricLine line =
     (let rest = drop (length deprecatedAPIMetricName) line in
      if \<not> has_prefix line deprecatedAPIMetricName
      then if has_prefix (skipPrometheusSpaces line) deprecatedAPIMetricName
           then Inl (kube_upstream ''invalid Kubernetes deprecated API metric'') else Inr None
      else if rest \<noteq> [] \<and> isPrometheusMetricNameCharacter (hd rest) then Inr None
      else rthen (parseDeprecatedAPILabelSet rest) (\<lambda>(labels, rest).
        if rest = [] \<or> \<not> prometheus_space (hd rest) \<or> \<not> validDeprecatedAPIMetricValue (trim_prometheus rest)
        then Inl (kube_upstream ''invalid Kubernetes deprecated API metric value'')
        else
          let item = \<lparr>dq_Group = map_get ''group'' labels, dq_Version = map_get ''version'' labels,
                dq_Resource = map_get ''resource'' labels, dq_Subresource = map_get ''subresource'' labels,
                dq_RemovedRelease = map_get ''removed_release'' labels\<rparr> in
          if length labels \<noteq> 5 \<or> ValidateAPIServiceName (dq_Version item @ ''.'' @ dq_Group item) \<noteq> None
             \<or> \<not> validDeprecatedAPIResourceName (dq_Resource item) False
             \<or> \<not> validDeprecatedAPIResourceName (dq_Subresource item) True
          then Inl (kube_upstream ''invalid Kubernetes deprecated API metric labels'')
          else if parseDeprecatedAPIRemovedRelease (dq_RemovedRelease item) = None
          then Inl (kube_upstream ''invalid Kubernetes deprecated API removal release'')
          else Inr (Some item)))"

fun deprecated_lines ::
  "string option list \<Rightarrow> KubernetesDeprecatedAPIRequest list \<Rightarrow> KubernetesDeprecatedAPIRequest list result" where
  "deprecated_lines [] items = Inr items"
| "deprecated_lines (None # lines) items = Inl (kube_upstream ''scan Kubernetes deprecated API metrics'')"
| "deprecated_lines (Some line # lines) items =
     (case parseDeprecatedAPIMetricLine (drop_cr line) of
        Inl e \<Rightarrow> Inl e
      | Inr None \<Rightarrow> deprecated_lines lines items
      | Inr (Some item) \<Rightarrow>
          if length items \<ge> 512 then Inl (kube_upstream ''Kubernetes deprecated API metrics exceeded safe sample limit'')
          else if item \<in> set items then Inl (kube_upstream ''duplicate Kubernetes deprecated API metric'')
          else deprecated_lines lines (items @ [item]))"

definition parseDeprecatedAPIMetrics :: "string \<Rightarrow> KubernetesDeprecatedAPIRequest list result" where
  "parseDeprecatedAPIMetrics payload = deprecated_lines (scan_lines (64 * 1024) payload) []"

definition removed_release :: "KubernetesDeprecatedAPIRequest \<Rightarrow> nat \<times> nat" where
  "removed_release item =
     (case parseDeprecatedAPIRemovedRelease (dq_RemovedRelease item) of None \<Rightarrow> (0, 0) | Some release \<Rightarrow> release)"

definition deprecated_before :: "KubernetesDeprecatedAPIRequest \<Rightarrow> KubernetesDeprecatedAPIRequest \<Rightarrow> bool" where
  "deprecated_before a b =
     (let (leftMajor, leftMinor) = removed_release a; (rightMajor, rightMinor) = removed_release b in
      if leftMajor \<noteq> rightMajor then leftMajor < rightMajor
      else if leftMinor \<noteq> rightMinor then leftMinor < rightMinor
      else if dq_Group a \<noteq> dq_Group b then dq_Group a < dq_Group b
      else if dq_Version a \<noteq> dq_Version b then dq_Version a < dq_Version b
      else if dq_Resource a \<noteq> dq_Resource b then dq_Resource a < dq_Resource b
      else dq_Subresource a < dq_Subresource b)"

definition kc_DeprecatedAPIRequests :: "Client \<Rightarrow> KubernetesDeprecatedAPIRequest list kube" where
  "kc_DeprecatedAPIRequests c =
     kthen (getPayload c ''/metrics'' None ''text/plain;version=0.0.4'' (8 * 1024 * 1024) False) (\<lambda>(payload, _).
     kthen (kresult (parseDeprecatedAPIMetrics payload)) (\<lambda>items.
     kreturn (sort_slice deprecated_before items)))"

section \<open>Readiness of the API server\<close>

datatype KubernetesAPIServerReadinessCheckStatus = APIServerReadinessCheckPassed | APIServerReadinessCheckFailed

record KubernetesAPIServerReadinessCheck =
  rk_Name :: string
  rk_Status :: KubernetesAPIServerReadinessCheckStatus

record KubernetesAPIServerReadiness =
  ry_ObservedAt :: gtime
  ry_Ready :: bool
  ry_PassedChecks :: nat
  ry_FailedChecks :: nat
  ry_Checks :: "KubernetesAPIServerReadinessCheck list"

text \<open>The result of a summary line.\<close>

definition apiServerReadinessSummary :: "string \<Rightarrow> bool option" where
  "apiServerReadinessSummary line =
     (if line = ''readyz check passed'' \<or> line = ''healthz check passed'' then Some True
      else if line = ''readyz check failed'' \<or> line = ''healthz check failed'' then Some False
      else None)"

definition validAPIServerReadinessCheckName :: "string \<Rightarrow> bool" where
  "validAPIServerReadinessCheckName name \<longleftrightarrow>
     name \<noteq> [] \<and> length name \<le> 253
     \<and> list_all (\<lambda>ch. ascii_letter ch \<or> decimal_digit ch \<or> ch \<in> {CHR ''.'', CHR ''_'', CHR ''-'', CHR ''/'', CHR '':''}) name
     \<and> list_all (\<lambda>segment. segment \<noteq> [] \<and> segment \<noteq> ''.'' \<and> segment \<noteq> ''..'') (split_char CHR ''/'' name)"

text \<open>What is before and behind the first occurrence of a text.\<close>

fun cut_str :: "string \<Rightarrow> string \<Rightarrow> (string \<times> string) option" where
  "cut_str p [] = (if p = [] then Some ([], []) else None)"
| "cut_str p (ch # s) =
     (if has_prefix (ch # s) p then Some ([], drop (length p) (ch # s))
      else map_option (\<lambda>(before, after). (ch # before, after)) (cut_str p s))"

definition parseAPIServerReadinessCheck :: "string \<Rightarrow> KubernetesAPIServerReadinessCheck option" where
  "parseAPIServerReadinessCheck line =
     (if has_prefix line ''[+]'' \<and> has_suffix line '' ok''
      then let name = take (length line - 6) (drop 3 line) in
        if validAPIServerReadinessCheckName name
        then Some \<lparr>rk_Name = name, rk_Status = APIServerReadinessCheckPassed\<rparr> else None
      else if \<not> has_prefix line ''[-]'' then None
      else case cut_str '' failed'' (drop 3 line) of
          None \<Rightarrow> None
        | Some (name, detail) \<Rightarrow>
            if name = [] \<or> (detail \<noteq> [] \<and> \<not> has_prefix detail '':'') \<or> \<not> validAPIServerReadinessCheckName name then None
            else Some \<lparr>rk_Name = name, rk_Status = APIServerReadinessCheckFailed\<rparr>)"

definition apiServerReadinessMaxLineBytes :: nat where
  "apiServerReadinessMaxLineBytes = 8 * 1024"

fun readiness_lines ::
  "string option list \<Rightarrow> KubernetesAPIServerReadinessCheck list \<Rightarrow> bool option
     \<Rightarrow> (KubernetesAPIServerReadinessCheck list \<times> bool option) result" where
  "readiness_lines [] checks summary = Inr (checks, summary)"
| "readiness_lines (None # lines) checks summary = Inl (kube_upstream ''scan Kubernetes readiness output'')"
| "readiness_lines (Some token # lines) checks summary =
     (let line = drop_cr token in
      if length line > apiServerReadinessMaxLineBytes
      then Inl (kube_upstream ''Kubernetes readiness line exceeded safe limit'')
      else case apiServerReadinessSummary line of
          Some ready \<Rightarrow>
            if summary \<noteq> None then Inl (kube_upstream ''duplicate Kubernetes readiness summary'')
            else readiness_lines lines checks (Some ready)
        | None \<Rightarrow>
            (case parseAPIServerReadinessCheck line of
               None \<Rightarrow> Inl (kube_upstream ''invalid Kubernetes readiness output'')
             | Some check \<Rightarrow>
                 if length checks \<ge> 256 then Inl (kube_upstream ''Kubernetes readiness checks exceeded safe limit'')
                 else if rk_Name check \<in> rk_Name ` set checks
                 then Inl (kube_upstream ''duplicate Kubernetes readiness check'')
                 else readiness_lines lines (checks @ [check]) summary))"

definition parseAPIServerReadiness :: "string \<Rightarrow> int \<Rightarrow> gtime \<Rightarrow> KubernetesAPIServerReadiness result" where
  "parseAPIServerReadiness payload statusCode observedAt =
     ensure (statusCode = 200 \<or> statusCode = 500) (kube_upstream ''unsupported Kubernetes readiness status'') (
     rthen (readiness_lines (scan_lines apiServerReadinessMaxLineBytes payload) [] None) (\<lambda>(checks, summary).
     let ready = (statusCode = 200);
         passed = length (filter (\<lambda>check. rk_Status check = APIServerReadinessCheckPassed) checks);
         failed = length checks - passed in
     ensure (checks \<noteq> [] \<and> summary = Some ready \<and> (if ready then failed = 0 else failed \<noteq> 0))
       (kube_upstream ''inconsistent Kubernetes readiness output'')
       (Inr \<lparr>ry_ObservedAt = observedAt, ry_Ready = ready, ry_PassedChecks = passed, ry_FailedChecks = failed,
             ry_Checks = checks\<rparr>)))"

definition apiServerReadinessStatusError :: "int \<Rightarrow> go_error option" where
  "apiServerReadinessStatusError statusCode =
     (if statusCode = 200 \<or> statusCode = 500 then None
      else if statusCode = 401 then Some (Wrapped ''Kubernetes authentication rejected'' ErrUnauthorized)
      else if statusCode = 403 then Some (Wrapped ''Kubernetes authorization rejected'' ErrForbidden)
      else if statusCode = 404 then Some (Wrapped ''Kubernetes resource unavailable'' ErrNotFound)
      else Some (kube_upstream (''Kubernetes returned HTTP '' @ itoa statusCode)))"

text \<open>
  The query is the bare word \<^verbatim>\<open>verbose\<close>; unlike in the other requests an answer with status 500 is
  read. A body is always there in an answer of \<^verbatim>\<open>http.Client.Do\<close>.
\<close>

definition kc_APIServerReadiness :: "gtime \<Rightarrow> Client \<Rightarrow> KubernetesAPIServerReadiness kube" where
  "kc_APIServerReadiness now c log =
     (let request = (new_request c ''GET'' ''/readyz'' None ''text/plain'' [] [])\<lparr>kq_RawQuery := ''verbose''\<rparr>
      in case kc_NewRequest c request of
           Some e \<Rightarrow> (log, Inl (Wrapped ''create Kubernetes request'' e))
         | None \<Rightarrow>
             (log @ [request],
              case kc_do c log request of
                DoFailed e \<Rightarrow> Inl (transport_error e)
              | Responded status content broken \<Rightarrow>
                  (case apiServerReadinessStatusError status of
                     Some e \<Rightarrow> Inl e
                   | None \<Rightarrow>
                       rthen (read_limited (64 * 1024) False content broken) (\<lambda>(payload, _).
                       parseAPIServerReadiness payload status now))))"

end
