(* ===== verification/Kube_Certificates.thy ===== *)
theory Kube_Certificates
  imports Kube_Access
begin

text \<open>
  Certificate signing requests, of \<^verbatim>\<open>certificate_signing_request.go\<close>, and the certificate of the
  API endpoint itself, of \<^verbatim>\<open>endpoint_certificate.go\<close>. \<open>isPrint\<close> stands for \<^verbatim>\<open>unicode.IsPrint\<close>,
  whose tables the Go release carries.
\<close>

section \<open>Certificate signing requests\<close>

record KubernetesCertificateSigningRequest =
  cq_Name :: string
  cq_CreatedAt :: gtime

datatype KubernetesCertificateSigningRequestState =
    CertificateSigningRequestPending | CertificateSigningRequestApproved | CertificateSigningRequestDenied
  | CertificateSigningRequestFailed | CertificateSigningRequestIssued

text \<open>The source of a condition has the fields of what is shown of it.\<close>

record KubernetesCertificateSigningRequestCondition =
  cj_Type :: string
  cj_Status :: string
  cj_Reason :: string
  cj_LastUpdateTime :: "gtime option"
  cj_LastTransitionTime :: "gtime option"

record KubernetesCertificateSigningRequestDetail =
  ck_Request :: KubernetesCertificateSigningRequest
  ck_Requester :: string
  ck_SignerName :: string
  ck_RequestedExpirationSeconds :: "int option"
  ck_Usages :: "string list"
  ck_State :: KubernetesCertificateSigningRequestState
  ck_CertificateIssued :: bool
  ck_Conditions :: "KubernetesCertificateSigningRequestCondition list"
  ck_ConditionCount :: nat

definition certificateSigningRequestCollectionPath :: string where
  "certificateSigningRequestCollectionPath = ''/apis/certificates.k8s.io/v1/certificatesigningrequests''"

definition certificateSigningRequests :: "(string, KubernetesCertificateSigningRequest) inventory" where
  "certificateSigningRequests = metadata_inventory ''CSR'' certificateSigningRequestCollectionPath
     (named_metadata ''CSR'' ValidateCertificateSigningRequestName (\<lambda>name created. \<lparr>cq_Name = name, cq_CreatedAt = created\<rparr>))
     cq_Name"

definition kc_CertificateSigningRequests :: "Client \<Rightarrow> KubernetesCertificateSigningRequest list kube" where
  "kc_CertificateSigningRequests c = list_inventory c certificateSigningRequests"

definition csr_condition_of :: "fields \<Rightarrow> KubernetesCertificateSigningRequestCondition option" where
  "csr_condition_of fs = do {
     type \<leftarrow> f_str ''type'' fs;
     status \<leftarrow> f_str ''status'' fs;
     reason \<leftarrow> f_str ''reason'' fs;
     updated \<leftarrow> json_field set_time_pointer None ''lastUpdateTime'' fs;
     transition \<leftarrow> json_field set_time_pointer None ''lastTransitionTime'' fs;
     Some \<lparr>cj_Type = type, cj_Status = status, cj_Reason = reason, cj_LastUpdateTime = updated,
           cj_LastTransitionTime = transition\<rparr>
   }"

record certificateSigningRequestSource =
  cs_Header :: sourceHeader
  cs_SignerName :: string
  cs_ExpirationSeconds :: "int option"
  cs_Usages :: "string list"
  cs_Username :: string
  cs_Certificate :: bool
  cs_Conditions :: "KubernetesCertificateSigningRequestCondition list"

text \<open>Of the certificate only whether its string is empty is kept; anything but a string is an error.\<close>

definition certificateSigningRequestCertificateSource :: "json \<Rightarrow> bool option" where
  "certificateSigningRequestCertificateSource v = (case v of JStr s \<Rightarrow> Some (s \<noteq> []) | _ \<Rightarrow> None)"

definition certificateSigningRequestSource_of :: "fields \<Rightarrow> certificateSigningRequestSource option" where
  "certificateSigningRequestSource_of fs = do {
     header \<leftarrow> sourceHeader_of fs;
     spec \<leftarrow> f_struct ''spec'' fs;
     signerName \<leftarrow> f_str ''signerName'' spec;
     expiration \<leftarrow> f_int32_ptr ''expirationSeconds'' spec;
     usages \<leftarrow> f_strs ''usages'' spec;
     username \<leftarrow> f_str ''username'' spec;
     status \<leftarrow> f_struct ''status'' fs;
     certificate \<leftarrow> json_field (\<lambda>_. certificateSigningRequestCertificateSource) False ''certificate'' status;
     conditions \<leftarrow> f_structs csr_condition_of ''conditions'' status;
     Some \<lparr>cs_Header = header, cs_SignerName = signerName, cs_ExpirationSeconds = expiration, cs_Usages = usages,
           cs_Username = username, cs_Certificate = certificate, cs_Conditions = conditions\<rparr>
   }"

definition certificateSigningRequestUsages :: "string list" where
  "certificateSigningRequestUsages =
     [''signing'', ''digital signature'', ''content commitment'', ''key encipherment'', ''key agreement'',
      ''data encipherment'', ''cert sign'', ''crl sign'', ''encipher only'', ''decipher only'', ''any'', ''server auth'',
      ''client auth'', ''code signing'', ''email protection'', ''s/mime'', ''ipsec end system'', ''ipsec tunnel'',
      ''ipsec user'', ''timestamping'', ''ocsp signing'', ''microsoft sgc'', ''netscape sgc'']"

definition decodeCertificateSigningRequestUsages :: "string list \<Rightarrow> string list result" where
  "decodeCertificateSigningRequestUsages source =
     (if source = [] \<or> length source > 32 then Inl (kube_upstream ''Kubernetes CSR usages exceeded safe limit'')
      else rthen (bounded_entries 32 (\<lambda>usage seen.
          if usage \<notin> set certificateSigningRequestUsages then Some (kube_upstream ''invalid Kubernetes CSR usage'')
          else if usage \<in> set seen then Some (kube_upstream ''duplicate Kubernetes CSR usage'') else None) source)
        (\<lambda>(usages, _). Inr (sort_slice (<) usages)))"

definition validCertificateSigningRequestText :: "(rune \<Rightarrow> bool) \<Rightarrow> string \<Rightarrow> nat \<Rightarrow> bool \<Rightarrow> bool" where
  "validCertificateSigningRequestText isPrint s maxBytes required \<longleftrightarrow>
     (if s = [] then \<not> required
      else length s \<le> maxBytes \<and> valid_utf8 s \<and> s = trim_space s \<and> \<not> index_func (\<lambda>r. \<not> isPrint r) s)"

definition validCertificateSigningRequestSignerName :: "string \<Rightarrow> bool" where
  "validCertificateSigningRequestSignerName s \<longleftrightarrow>
     s \<noteq> [] \<and> length s \<le> 512 \<and> s = trim_space s \<and> \<not> index_func is_control s
     \<and> (let (domain, signerPath, found) = cut_char CHR ''/'' s; alphanumeric = (\<lambda>ch. ascii_letter ch \<or> decimal_digit ch) in
        found \<and> CHR ''/'' \<notin> set signerPath \<and> ValidateAdmissionPolicyResourceName domain = None
        \<and> signerPath \<noteq> [] \<and> length signerPath \<le> 253
        \<and> alphanumeric (hd signerPath) \<and> alphanumeric (last signerPath)
        \<and> list_all (\<lambda>ch. alphanumeric ch \<or> ch = CHR ''-'' \<or> ch = CHR ''_'' \<or> ch = CHR ''.'') signerPath)"

definition csr_condition_error ::
  "(rune \<Rightarrow> bool) \<Rightarrow> KubernetesCertificateSigningRequestCondition \<Rightarrow> KubernetesCertificateSigningRequestCondition list
     \<Rightarrow> go_error option" where
  "csr_condition_error isPrint condition seen =
     (if \<not> validCertificateSigningRequestText isPrint (cj_Type condition) 128 True
         \<or> \<not> validCertificateSigningRequestText isPrint (cj_Reason condition) 256 False
         \<or> \<not> validConditionStatus (cj_Status condition)
         \<or> cj_LastUpdateTime condition = Some zero_time \<or> cj_LastTransitionTime condition = Some zero_time
      then Some (kube_upstream ''invalid Kubernetes CSR condition'')
      else if cj_Type condition \<in> cj_Type ` set seen then Some (kube_upstream ''duplicate Kubernetes CSR condition'')
      else if cj_Type condition \<in> {''Approved'', ''Denied'', ''Failed''} \<and> cj_Status condition \<noteq> ''True''
      then Some (kube_upstream ''invalid Kubernetes CSR known condition status'') else None)"

text \<open>The conditions in order, and whether the request was approved, denied or failed.\<close>

definition decodeCertificateSigningRequestConditions ::
  "(rune \<Rightarrow> bool) \<Rightarrow> KubernetesCertificateSigningRequestCondition list
     \<Rightarrow> (KubernetesCertificateSigningRequestCondition list \<times> bool \<times> bool \<times> bool) result" where
  "decodeCertificateSigningRequestConditions isPrint source =
     (if length source > 32 then Inl (kube_upstream ''Kubernetes CSR conditions exceeded safe limit'')
      else rthen (bounded_entries 32 (csr_condition_error isPrint) source) (\<lambda>(conditions, _).
        let has = (\<lambda>type. type \<in> cj_Type ` set conditions) in
        Inr (sort_slice (\<lambda>a b. cj_Type a < cj_Type b) conditions, has ''Approved'', has ''Denied'', has ''Failed'')))"

definition csr_state :: "bool \<Rightarrow> bool \<Rightarrow> bool \<Rightarrow> bool \<Rightarrow> KubernetesCertificateSigningRequestState" where
  "csr_state approved denied failed issued =
     (if denied then CertificateSigningRequestDenied
      else if failed then CertificateSigningRequestFailed
      else if issued then CertificateSigningRequestIssued
      else if approved then CertificateSigningRequestApproved
      else CertificateSigningRequestPending)"

definition decodeCertificateSigningRequest ::
  "(rune \<Rightarrow> bool) \<Rightarrow> string \<Rightarrow> string \<Rightarrow> KubernetesCertificateSigningRequestDetail result" where
  "decodeCertificateSigningRequest isPrint payload expectedName =
     (case Unmarshal_fields payload \<bind> certificateSigningRequestSource_of of
        None \<Rightarrow> Inl (kube_upstream ''decode Kubernetes CSR detail'')
      | Some source \<Rightarrow>
          ensure (cluster_object (cs_Header source) ''certificates.k8s.io/v1'' ''CertificateSigningRequest'' expectedName
              ValidateCertificateSigningRequestName) (kube_upstream ''invalid Kubernetes CSR identity'') (
          ensure (validCertificateSigningRequestSignerName (cs_SignerName source))
            (kube_upstream ''invalid Kubernetes CSR signer'') (
          ensure (validCertificateSigningRequestText isPrint (cs_Username source) 256 True)
            (kube_upstream ''invalid Kubernetes CSR requester'') (
          ensure (case cs_ExpirationSeconds source of None \<Rightarrow> True | Some n \<Rightarrow> n \<ge> 600)
            (kube_upstream ''invalid Kubernetes CSR requested expiration'') (
          rthen (decodeCertificateSigningRequestUsages (cs_Usages source)) (\<lambda>usages.
          rthen (decodeCertificateSigningRequestConditions isPrint (cs_Conditions source)) (\<lambda>(conditions, approved, denied, failed).
          ensure (\<not> (approved \<and> denied)) (kube_upstream ''conflicting Kubernetes CSR approval conditions'') (
          ensure (\<not> (cs_Certificate source \<and> (\<not> approved \<or> denied \<or> failed)))
            (kube_upstream ''invalid Kubernetes CSR issued state'') (
          Inr \<lparr>ck_Request = \<lparr>cq_Name = sh_Name (cs_Header source), cq_CreatedAt = sh_CreationTimestamp (cs_Header source)\<rparr>,
               ck_Requester = cs_Username source, ck_SignerName = cs_SignerName source,
               ck_RequestedExpirationSeconds = cs_ExpirationSeconds source, ck_Usages = usages,
               ck_State = csr_state approved denied failed (cs_Certificate source),
               ck_CertificateIssued = cs_Certificate source, ck_Conditions = conditions,
               ck_ConditionCount = length (cs_Conditions source)\<rparr>)))))))))"

definition kc_CertificateSigningRequest ::
  "(rune \<Rightarrow> bool) \<Rightarrow> Client \<Rightarrow> string \<Rightarrow> KubernetesCertificateSigningRequestDetail kube" where
  "kc_CertificateSigningRequest isPrint c name =
     get_detail c (ValidateCertificateSigningRequestName name) (certificateSigningRequestCollectionPath @ ''/'' @ name)
       (2 * 1024 * 1024) (\<lambda>payload. decodeCertificateSigningRequest isPrint payload name)"

section \<open>The certificate of the endpoint\<close>

text \<open>What the code reads of a certificate and of the state of the connection; \<open>None\<close> is a nil pointer.\<close>

record certificate =
  ct_Raw :: string
  ct_NotBefore :: gtime
  ct_NotAfter :: gtime

record connection_state =
  tls_HandshakeComplete :: bool
  tls_PeerCertificates :: "certificate option list"
  tls_VerifiedChains :: "certificate option list list"

definition verifiedEndpointCertificateLeaf :: "connection_state option \<Rightarrow> certificate option" where
  "verifiedEndpointCertificateLeaf state =
     (case state of
        None \<Rightarrow> None
      | Some state \<Rightarrow>
          (case tls_PeerCertificates state of
             Some leaf # _ \<Rightarrow>
               if tls_HandshakeComplete state
                  \<and> list_ex (\<lambda>chain. case chain of Some first # _ \<Rightarrow> ct_Raw first = ct_Raw leaf | _ \<Rightarrow> False) (tls_VerifiedChains state)
               then Some leaf else None
           | _ \<Rightarrow> None))"

datatype KubernetesEndpointCertificateStatus =
    EndpointCertificateValid | EndpointCertificateExpiring | EndpointCertificateCritical | EndpointCertificateExpired

record KubernetesEndpointCertificate =
  ec_ObservedAt :: gtime
  ec_NotBefore :: gtime
  ec_NotAfter :: gtime
  ec_RemainingSeconds :: int
  ec_Status :: KubernetesEndpointCertificateStatus

text \<open>\<^verbatim>\<open>time.Time.Sub\<close> saturates where the difference is not a 64-bit number of nanoseconds.\<close>

definition time_sub :: "gtime \<Rightarrow> gtime \<Rightarrow> int" where
  "time_sub t u = max (- (2 ^ 63)) (min (2 ^ 63 - 1) (t - u))"

definition projectEndpointCertificate :: "certificate \<Rightarrow> gtime \<Rightarrow> KubernetesEndpointCertificate" where
  "projectEndpointCertificate leaf observedAt =
     (let remaining = time_sub (ct_NotAfter leaf) observedAt;
          seconds = go_div remaining second
      in \<lparr>ec_ObservedAt = observedAt, ec_NotBefore = ct_NotBefore leaf, ec_NotAfter = ct_NotAfter leaf,
          ec_RemainingSeconds = (if remaining > 0 \<and> remaining - seconds * second \<noteq> 0 then seconds + 1 else seconds),
          ec_Status = (if remaining > 30 * 24 * hour then EndpointCertificateValid
                       else if remaining > 7 * 24 * hour then EndpointCertificateExpiring
                       else if remaining > 0 then EndpointCertificateCritical
                       else EndpointCertificateExpired)\<rparr>)"

definition endpointCertificateStatusError :: "int \<Rightarrow> go_error option" where
  "endpointCertificateStatusError statusCode =
     (if 200 \<le> statusCode \<and> statusCode < 300 then None else Some (status_error statusCode))"

text \<open>\<open>tls\<close> is the state of the connection on which an answer came.\<close>

definition kc_EndpointCertificate ::
  "gtime \<Rightarrow> (kube_request list \<Rightarrow> kube_request \<Rightarrow> connection_state option) \<Rightarrow> Client \<Rightarrow> KubernetesEndpointCertificate kube" where
  "kc_EndpointCertificate now tls c log =
     (let request = new_request c ''GET'' ''/version'' None ''application/json'' [] []
      in case kc_NewRequest c request of
           Some e \<Rightarrow> (log, Inl (Wrapped ''create Kubernetes request'' e))
         | None \<Rightarrow>
             (log @ [request],
              case kc_do c log request of
                DoFailed e \<Rightarrow> Inl (transport_error e)
              | Responded status content broken \<Rightarrow>
                  (case endpointCertificateStatusError status of
                     Some e \<Rightarrow> Inl e
                   | None \<Rightarrow>
                       (case verifiedEndpointCertificateLeaf (tls log request) of
                          None \<Rightarrow> Inl (kube_upstream ''Kubernetes endpoint certificate unavailable'')
                        | Some leaf \<Rightarrow>
                            rthen (read_limited (64 * 1024) False content broken) (\<lambda>_.
                            Inr (projectEndpointCertificate leaf now))))))"

end
