(* ===== verification/Kube_History.thy ===== *)
theory Kube_History
  imports Kube_Access
begin

text \<open>
  Revisions of Helm releases, of \<^verbatim>\<open>helm_release_history.go\<close>, and of deployments, of
  \<^verbatim>\<open>deployment_revision_history.go\<close>: both are read from the metadata of secrets and replica sets
  alone, so that neither the values of a release nor a pod template is seen.
\<close>

definition strict_metadata :: "fields \<Rightarrow> bool" where
  "strict_metadata fs \<longleftrightarrow> list_all (\<lambda>(name, _). name \<in> {''apiVersion'', ''kind'', ''metadata''}) fs"

definition metadata_page :: "string \<Rightarrow> string \<Rightarrow> (string \<times> string list) result" where
  "metadata_page what payload =
     (case event_page payload of
        None \<Rightarrow> Inl (kube_upstream (''decode '' @ what @ '' metadata list''))
      | Some (apiVersion, kind, continue, items) \<Rightarrow>
          if apiVersion \<noteq> ''meta.k8s.io/v1'' \<or> kind \<noteq> ''PartialObjectMetadataList''
          then Inl (kube_upstream (''unsupported '' @ what @ '' metadata list''))
          else Inr (continue, items))"

section \<open>Helm releases\<close>

record HelmReleaseRevision =
  hv_Revision :: int
  hv_Status :: string
  hv_CreatedAt :: gtime

record HelmReleaseHistory =
  hh_Name :: string
  hh_Namespace :: string
  hh_Revisions :: "HelmReleaseRevision list"
  hh_Truncated :: bool

definition validHelmReleaseStatus :: "string \<Rightarrow> bool" where
  "validHelmReleaseStatus status \<longleftrightarrow>
     status \<in> {''unknown'', ''deployed'', ''uninstalled'', ''superseded'', ''failed'', ''uninstalling'',
       ''pending-install'', ''pending-upgrade'', ''pending-rollback''}"

definition ParseInt32 :: "string \<Rightarrow> int option" where
  "ParseInt32 s =
     (case Atoi s of None \<Rightarrow> None | Some n \<Rightarrow> if - (2 ^ 31) \<le> n \<and> n < 2 ^ 31 then Some n else None)"

definition helmReleaseMetadata_of :: "fields \<Rightarrow> (sourceHeader \<times> (string \<times> string) list) option" where
  "helmReleaseMetadata_of fs = do {
     header \<leftarrow> sourceHeader_of fs;
     metadata \<leftarrow> f_struct ''metadata'' fs;
     labels \<leftarrow> f_str_map ''labels'' metadata;
     Some (header, labels)
   }"

definition decodeHelmReleaseRevision :: "string \<Rightarrow> string \<Rightarrow> string \<Rightarrow> HelmReleaseRevision result" where
  "decodeHelmReleaseRevision namespace releaseName raw =
     (case Unmarshal_fields raw of
        None \<Rightarrow> Inl (kube_upstream ''decode Helm release metadata'')
      | Some fs \<Rightarrow>
          if \<not> strict_metadata fs then Inl (kube_upstream ''unsafe Helm release metadata'')
          else case helmReleaseMetadata_of fs of
              None \<Rightarrow> Inl (kube_upstream ''invalid Helm release metadata identity'')
            | Some (h, labels) \<Rightarrow>
                if sh_APIVersion h \<noteq> ''meta.k8s.io/v1'' \<or> sh_Kind h \<noteq> ''PartialObjectMetadata'' \<or> sh_Namespace h \<noteq> namespace
                   \<or> sh_CreationTimestamp h = zero_time
                then Inl (kube_upstream ''invalid Helm release metadata identity'')
                else if map_get ''owner'' labels \<noteq> ''helm'' \<or> map_get ''name'' labels \<noteq> releaseName
                then Inl (kube_upstream ''invalid Helm release metadata labels'')
                else case ParseInt32 (map_get ''version'' labels) of
                    None \<Rightarrow> Inl (kube_upstream ''invalid Helm release revision'')
                  | Some revision \<Rightarrow>
                      if revision \<le> 0 then Inl (kube_upstream ''invalid Helm release revision'')
                      else if sh_Name h \<noteq> ''sh.helm.release.v1.'' @ releaseName @ ''.v'' @ itoa revision
                      then Inl (kube_upstream ''invalid Helm release storage identity'')
                      else if \<not> validHelmReleaseStatus (map_get ''status'' labels)
                      then Inl (kube_upstream ''invalid Helm release status'')
                      else Inr \<lparr>hv_Revision = revision, hv_Status = map_get ''status'' labels,
                                hv_CreatedAt = sh_CreationTimestamp h\<rparr>)"

definition helmRevisions :: "string \<Rightarrow> string \<Rightarrow> (string, HelmReleaseRevision) inventory" where
  "helmRevisions namespace releaseName =
     \<lparr>iv_path = ''/api/v1/namespaces/'' @ namespace @ ''/secrets'', iv_accept = kubernetesPartialMetadataListAccept,
      iv_query = [(''limit'', ''50''), (''labelSelector'', ''owner=helm,name='' @ releaseName)],
      iv_maxPages = 4, iv_maxItems = 200, iv_maxBytes = 2 * 1024 * 1024, iv_pageBytes = 2 * 1024 * 1024,
      iv_check = BytesBefore,
      iv_page = (\<lambda>payload. rthen (metadata_page ''Helm release'' payload) (\<lambda>(continue, items).
        Inr (continue, items, Inr (decodeHelmReleaseRevision namespace releaseName)))),
      iv_weight = (\<lambda>_. 0), iv_maxWeight = 0, iv_identity = (\<lambda>r. itoa (hv_Revision r)), iv_unique = True,
      iv_tokens = True, iv_tokensOnce = True, iv_stopFull = False, iv_before = (\<lambda>a b. hv_Revision a > hv_Revision b),
      iv_list = ''Helm release history'', iv_name = ''Helm release history'',
      iv_duplicate = ''Helm release revision metadata''\<rparr>"

text \<open>The latest ten; the list is sorted with the latest first.\<close>

definition boundedHelmReleaseHistory :: "string \<Rightarrow> string \<Rightarrow> HelmReleaseRevision list \<Rightarrow> HelmReleaseHistory" where
  "boundedHelmReleaseHistory namespace releaseName revisions =
     \<lparr>hh_Name = releaseName, hh_Namespace = namespace, hh_Revisions = take 10 revisions,
      hh_Truncated = (length revisions > 10)\<rparr>"

definition kc_HelmReleaseHistory :: "Client \<Rightarrow> string \<Rightarrow> string \<Rightarrow> HelmReleaseHistory kube" where
  "kc_HelmReleaseHistory c namespace releaseName =
     kguard (ValidateHelmReleaseReference namespace releaseName)
     (kthen (list_inventory c (helmRevisions namespace releaseName)) (\<lambda>revisions.
      kreturn (boundedHelmReleaseHistory namespace releaseName revisions)))"

section \<open>Deployments\<close>

record DeploymentRevision =
  dr_Revision :: int
  dr_ReplicaSet :: string
  dr_CreatedAt :: gtime
  dr_Current :: bool

record DeploymentRevisionHistory =
  dh_Namespace :: string
  dh_Name :: string
  dh_CurrentRevision :: int
  dh_UnassignedReplicaSetCount :: nat
  dh_Revisions :: "DeploymentRevision list"
  dh_Truncated :: bool

record ownerReference =
  ow_APIVersion :: string
  ow_Kind :: string
  ow_Name :: string
  ow_UID :: string
  ow_Controller :: "bool option"

definition ownerReference_of :: "fields \<Rightarrow> ownerReference option" where
  "ownerReference_of fs = do {
     apiVersion \<leftarrow> f_str ''apiVersion'' fs;
     kind \<leftarrow> f_str ''kind'' fs;
     name \<leftarrow> f_str ''name'' fs;
     uid \<leftarrow> f_str ''uid'' fs;
     controller \<leftarrow> f_bool_ptr ''controller'' fs;
     Some \<lparr>ow_APIVersion = apiVersion, ow_Kind = kind, ow_Name = name, ow_UID = uid, ow_Controller = controller\<rparr>
   }"

record deploymentRevisionMetadataEnvelope =
  dm_Header :: sourceHeader
  dm_UID :: string
  dm_Annotations :: "(string \<times> string) list"
  dm_OwnerReferences :: "ownerReference list"

definition deploymentRevisionMetadataEnvelope_of :: "fields \<Rightarrow> deploymentRevisionMetadataEnvelope option" where
  "deploymentRevisionMetadataEnvelope_of fs = do {
     header \<leftarrow> sourceHeader_of fs;
     metadata \<leftarrow> f_struct ''metadata'' fs;
     uid \<leftarrow> f_str ''uid'' metadata;
     annotations \<leftarrow> f_str_map ''annotations'' metadata;
     owners \<leftarrow> f_structs ownerReference_of ''ownerReferences'' metadata;
     Some \<lparr>dm_Header = header, dm_UID = uid, dm_Annotations = annotations, dm_OwnerReferences = owners\<rparr>
   }"

definition decodeStrictDeploymentRevisionMetadata :: "string \<Rightarrow> deploymentRevisionMetadataEnvelope result" where
  "decodeStrictDeploymentRevisionMetadata raw =
     (case Unmarshal_fields raw of
        None \<Rightarrow> Inl (kube_upstream ''decode Deployment revision metadata'')
      | Some fs \<Rightarrow>
          if \<not> strict_metadata fs then Inl (kube_upstream ''unsafe Deployment revision metadata'')
          else case deploymentRevisionMetadataEnvelope_of fs of
              None \<Rightarrow> Inl (kube_upstream ''unsupported Deployment revision metadata'')
            | Some metadata \<Rightarrow>
                if sh_APIVersion (dm_Header metadata) \<noteq> ''meta.k8s.io/v1'' \<or> sh_Kind (dm_Header metadata) \<noteq> ''PartialObjectMetadata''
                then Inl (kube_upstream ''unsupported Deployment revision metadata'')
                else if length (dm_OwnerReferences metadata) > 16 \<or> length (dm_Annotations metadata) > 256
                then Inl (kube_upstream ''Deployment revision metadata exceeded safe field limit'')
                else Inr metadata)"

definition validDeploymentRevisionUID :: "string \<Rightarrow> bool" where
  "validDeploymentRevisionUID s \<longleftrightarrow> s \<noteq> [] \<and> length s \<le> 128 \<and> s = trim_space s \<and> \<not> index_func is_control s"

definition validDeploymentRevisionOwner :: "ownerReference \<Rightarrow> bool" where
  "validDeploymentRevisionOwner owner \<longleftrightarrow>
     list_all (\<lambda>s. s \<noteq> [] \<and> length s \<le> 64 \<and> s = trim_space s \<and> \<not> index_func is_control s) [ow_APIVersion owner, ow_Kind owner]
     \<and> validKubernetesMetadataString (ow_Name owner) \<and> validDeploymentRevisionUID (ow_UID owner)"

definition decodeDeploymentRevisionMetadata :: "string \<Rightarrow> WorkloadReference \<Rightarrow> deploymentRevisionMetadataEnvelope result" where
  "decodeDeploymentRevisionMetadata raw reference =
     rthen (decodeStrictDeploymentRevisionMetadata raw) (\<lambda>metadata.
     ensure (sh_Name (dm_Header metadata) = wr_Name reference \<and> sh_Namespace (dm_Header metadata) = wr_Namespace reference
         \<and> validDeploymentRevisionUID (dm_UID metadata) \<and> sh_CreationTimestamp (dm_Header metadata) \<noteq> zero_time)
       (kube_upstream ''invalid Deployment revision identity'') (Inr metadata))"

definition deploymentRevisionAnnotation :: string where
  "deploymentRevisionAnnotation = ''deployment.kubernetes.io/revision''"

definition canonicalDeploymentRevision :: "string \<Rightarrow> int result" where
  "canonicalDeploymentRevision s =
     (if s = [] \<or> length s > 10 \<or> hd s = CHR ''0'' \<or> \<not> list_all decimal_digit s
      then Inl (kube_upstream ''invalid Deployment revision'')
      else case ParseInt32 s of
          None \<Rightarrow> Inl (kube_upstream ''invalid Deployment revision'')
        | Some n \<Rightarrow> if n \<le> 0 \<or> itoa n \<noteq> s then Inl (kube_upstream ''invalid Deployment revision'') else Inr n)"

definition optionalDeploymentRevision :: "(string \<times> string) list \<Rightarrow> int result" where
  "optionalDeploymentRevision annotations =
     (case map_of annotations deploymentRevisionAnnotation of None \<Rightarrow> Inr 0 | Some s \<Rightarrow> canonicalDeploymentRevision s)"

text \<open>The controllers are checked in their order; there may be one, and it says who owns the replica set.\<close>

definition owned_by :: "WorkloadReference \<Rightarrow> string \<Rightarrow> ownerReference list \<Rightarrow> bool result" where
  "owned_by reference deploymentUID owners =
     (let controllers = filter (\<lambda>owner. ow_Controller owner = Some True) owners in
      if \<not> list_all validDeploymentRevisionOwner controllers then Inl (kube_upstream ''invalid ReplicaSet controller owner'')
      else if length controllers > 1 then Inl (kube_upstream ''multiple ReplicaSet controller owners'')
      else Inr (list_ex (\<lambda>owner. ow_APIVersion owner = ''apps/v1'' \<and> ow_Kind owner = ''Deployment''
             \<and> ow_Name owner = wr_Name reference \<and> ow_UID owner = deploymentUID) controllers))"

datatype replica_set = NotOwned | Unassigned | Assigned DeploymentRevision

definition decodeDeploymentReplicaSetRevision ::
  "WorkloadReference \<Rightarrow> string \<Rightarrow> int \<Rightarrow> string \<Rightarrow> replica_set result" where
  "decodeDeploymentReplicaSetRevision reference deploymentUID currentRevision raw =
     rthen (decodeStrictDeploymentRevisionMetadata raw) (\<lambda>metadata.
     let h = dm_Header metadata in
     ensure (sh_Namespace h = wr_Namespace reference
         \<and> ValidateWorkloadReference \<lparr>wr_Kind = ''deployment'', wr_Namespace = wr_Namespace reference, wr_Name = sh_Name h\<rparr> = None
         \<and> validDeploymentRevisionUID (dm_UID metadata) \<and> sh_CreationTimestamp h \<noteq> zero_time)
       (kube_upstream ''invalid ReplicaSet revision identity'') (
     rthen (owned_by reference deploymentUID (dm_OwnerReferences metadata)) (\<lambda>owned.
     if \<not> owned then Inr NotOwned
     else case map_of (dm_Annotations metadata) deploymentRevisionAnnotation of
         None \<Rightarrow> Inr Unassigned
       | Some s \<Rightarrow>
           rthen (canonicalDeploymentRevision s) (\<lambda>revision.
           Inr (Assigned \<lparr>dr_Revision = revision, dr_ReplicaSet = sh_Name h, dr_CreatedAt = sh_CreationTimestamp h,
                          dr_Current = (currentRevision > 0 \<and> revision = currentRevision)\<rparr>)))))"

text \<open>The revisions and the number of replica sets without one, after the rows of a page.\<close>

fun revision_rows ::
  "(string \<Rightarrow> replica_set result) \<Rightarrow> string list \<Rightarrow> DeploymentRevision list \<Rightarrow> nat \<Rightarrow> (DeploymentRevision list \<times> nat) result" where
  "revision_rows decode [] revisions unassigned = Inr (revisions, unassigned)"
| "revision_rows decode (raw # raws) revisions unassigned =
     (case decode raw of
        Inl e \<Rightarrow> Inl e
      | Inr NotOwned \<Rightarrow> revision_rows decode raws revisions unassigned
      | Inr Unassigned \<Rightarrow> revision_rows decode raws revisions (Suc unassigned)
      | Inr (Assigned revision) \<Rightarrow>
          if dr_Revision revision \<in> dr_Revision ` set revisions
          then Inl (kube_upstream ''duplicate Deployment revision metadata'')
          else revision_rows decode raws (revisions @ [revision]) unassigned)"

primrec revision_loop ::
  "Client \<Rightarrow> string \<Rightarrow> (string \<Rightarrow> replica_set result) \<Rightarrow> nat \<Rightarrow> url_values \<Rightarrow> DeploymentRevision list \<Rightarrow> nat \<Rightarrow> nat \<Rightarrow> nat
     \<Rightarrow> string list \<Rightarrow> (DeploymentRevision list \<times> nat) kube" where
  "revision_loop c path decode 0 query revisions unassigned totalItems totalBytes seen =
     kfail (kube_upstream ''Deployment revision history exceeded safe page limit'')"
| "revision_loop c path decode (Suc pages) query revisions unassigned totalItems totalBytes seen =
     (if 4 * 1024 * 1024 \<le> totalBytes
      then kfail (kube_upstream ''Deployment revision history exceeded safe byte limit'')
      else
        kthen (getPayload c path (Some query) kubernetesPartialMetadataListAccept
          (min (4 * 1024 * 1024 - totalBytes) (2 * 1024 * 1024)) False) (\<lambda>(payload, _).
        kthen (kresult (metadata_page ''Deployment revision'' payload)) (\<lambda>(continue, items).
        if int (length items) > 1000 - int totalItems
        then kfail (kube_upstream ''Deployment revision history exceeded safe item limit'')
        else
          kthen (kresult (revision_rows decode items revisions unassigned)) (\<lambda>(revisions, unassigned).
          if continue = [] then kreturn (revisions, unassigned)
          else if \<not> validContinue continue
          then kfail (kube_upstream ''invalid Deployment revision continuation token'')
          else if continue \<in> set seen
          then kfail (kube_upstream ''repeated Deployment revision continuation token'')
          else revision_loop c path decode pages (query_Set ''continue'' continue query) revisions unassigned
                 (totalItems + length items) (totalBytes + length payload) (continue # seen)))))"

definition boundedDeploymentRevisionHistory ::
  "WorkloadReference \<Rightarrow> int \<Rightarrow> nat \<Rightarrow> DeploymentRevision list \<Rightarrow> DeploymentRevisionHistory" where
  "boundedDeploymentRevisionHistory reference currentRevision unassigned revisions =
     (let ordered = sort_slice (\<lambda>a b. dr_Revision a > dr_Revision b) revisions in
      \<lparr>dh_Namespace = wr_Namespace reference, dh_Name = wr_Name reference, dh_CurrentRevision = currentRevision,
       dh_UnassignedReplicaSetCount = unassigned, dh_Revisions = take 20 ordered, dh_Truncated = (length ordered > 20)\<rparr>)"

definition kubernetesPartialMetadataAccept :: string where
  "kubernetesPartialMetadataAccept = ''application/json;as=PartialObjectMetadata;g=meta.k8s.io;v=v1''"

definition kc_DeploymentRevisionHistory :: "Client \<Rightarrow> WorkloadReference \<Rightarrow> DeploymentRevisionHistory kube" where
  "kc_DeploymentRevisionHistory c reference =
     (let reference = lower_kind reference;
          collectionPath = ''/apis/apps/v1/namespaces/'' @ PathEscape (wr_Namespace reference) in
      kguard (ValidateDeploymentReference reference)
      (kthen (getPayload c (collectionPath @ ''/deployments/'' @ PathEscape (wr_Name reference)) None
         kubernetesPartialMetadataAccept (256 * 1024) False) (\<lambda>(payload, _).
       kthen (kresult (decodeDeploymentRevisionMetadata payload reference)) (\<lambda>deployment.
       kthen (kresult (optionalDeploymentRevision (dm_Annotations deployment))) (\<lambda>currentRevision.
       kthen (revision_loop c (collectionPath @ ''/replicasets'')
         (decodeDeploymentReplicaSetRevision reference (dm_UID deployment) currentRevision) 4 [(''limit'', ''250'')] [] 0 0 0 [])
         (\<lambda>(revisions, unassigned).
       kreturn (boundedDeploymentRevisionHistory reference currentRevision unassigned revisions)))))))"

end
