(* ===== verification/Kube_Inventories.thy ===== *)
theory Kube_Inventories
  imports Kube_Policies Kube_Registry Kube_Upgrade Kube_Certificates Kube_History Kube_Network
begin

text \<open>
  What the inventories have in common. The contract of the loop that lists them is discharged for
  the lists of every file, and the reads of the files are shown to send a bounded number of GETs,
  to return the object that was asked for, well-formed lists, and bounded nested entries.
\<close>

section \<open>Lists of named objects\<close>

definition named_list :: "(string \<Rightarrow> go_error option) \<Rightarrow> ('i \<Rightarrow> string) \<Rightarrow> 'i list \<Rightarrow> bool" where
  "named_list validate name items \<longleftrightarrow>
     length items \<le> 1000 \<and> list_all (\<lambda>item. validate (name item) = None) items
     \<and> distinct (map name items) \<and> sorted (map name items)"

locale named_source =
  fixes iv :: "('r, 'i) inventory" and validate :: "string \<Rightarrow> go_error option" and name :: "'i \<Rightarrow> string"
  assumes valid_name:
      "iv_page iv payload = Inr (continue, rows, Inr decode) \<Longrightarrow> decode row = Inr item \<Longrightarrow> validate (name item) = None"
    and by_name: "iv_before iv a b \<longleftrightarrow> name a < name b"
    and unique_names: "iv_identity iv = name" "iv_unique iv"
    and within: "iv_maxItems iv = 1000"

sublocale named_source \<subseteq> inventory_source iv "\<lambda>item. validate (name item) = None" name
  using valid_name by_name by unfold_locales auto

lemma yields_mono: "yields P m \<Longrightarrow> (\<And>x. P x \<Longrightarrow> Q x) \<Longrightarrow> yields Q m"
  by (simp add: yields_def)

context named_source
begin

lemma yields_named: "yields (named_list validate name) (list_inventory c iv)"
  by (rule yields_mono [OF yields_list_inventory])
     (simp add: listed_def named_list_def by_name unique_names within sorted_wrt_map not_less)

end

text \<open>Rows of metadata and of tables carry valid names.\<close>

lemma metadata_list_decoder: "metadata_list what decode payload = Inr (continue, rows, Inr decoder) \<Longrightarrow> decoder = decode"
  by (auto simp: metadata_list_def split: option.splits if_splits)

lemma named_metadata_valid:
  assumes "named_metadata what validate project raw = Inr item" and "\<And>n t. name (project n t) = n"
  shows "validate (name item) = None"
  using assms by (auto simp: named_metadata_def split: sum.splits if_splits)

lemma table_rows_decoder:
  "table_rows what response decoder payload = Inr (continue, rows, Inr decode) \<Longrightarrow> \<exists>columns. decoder columns = Inr decode"
  by (auto simp: table_rows_def split: option.splits if_splits)

lemma table_decoder_row:
  "table_decoder what required decodeRow columns = Inr decode \<Longrightarrow> \<exists>found. decode = decodeRow found"
  by (auto simp: table_decoder_def split: sum.splits)

lemma named_row_valid:
  "named_row what namespaced validate column check row k = Inr item
     \<Longrightarrow> \<exists>metadata. validate (pm_Name metadata) = None \<and> k metadata = Inr item"
  by (auto simp: named_row_def split: sum.splits option.splits if_splits)

interpretation priority_classes: named_source priorityClasses ValidatePriorityClassName pc_Name
  by unfold_locales
     (auto simp: priorityClasses_def metadata_inventory_def dest!: metadata_list_decoder elim: named_metadata_valid [where name = pc_Name])

interpretation runtime_classes: named_source runtimeClasses ValidateRuntimeClassName ru_Name
  by unfold_locales
     (auto simp: runtimeClasses_def metadata_inventory_def dest!: metadata_list_decoder elim: named_metadata_valid [where name = ru_Name])

interpretation csi_drivers: named_source csiDrivers ValidateCSIDriverName cd_Name
  by unfold_locales
     (auto simp: csiDrivers_def metadata_inventory_def dest!: metadata_list_decoder elim: named_metadata_valid [where name = cd_Name])

interpretation signing_requests: named_source certificateSigningRequests ValidateCertificateSigningRequestName cq_Name
  by unfold_locales
     (auto simp: certificateSigningRequests_def metadata_inventory_def
        dest!: metadata_list_decoder elim: named_metadata_valid [where name = cq_Name])

interpretation webhooks: named_source "admissionWebhooks kind spec" ValidateAdmissionWebhookConfigurationName ac_Name for kind spec
  by unfold_locales
     (auto simp: admissionWebhooks_def metadata_inventory_def
        dest!: metadata_list_decoder elim: named_metadata_valid [where name = ac_Name])

interpretation volume_attachments: named_source volumeAttachments ValidateVolumeAttachmentName va_Name
  by unfold_locales
     (auto simp: volumeAttachments_def table_inventory_def decodeVolumeAttachmentTableRow_def
        dest!: table_rows_decoder table_decoder_row named_row_valid split: option.splits if_splits)

interpretation attributes_classes: named_source volumeAttributesClasses ValidateVolumeAttributesClassName vc_Name
  by unfold_locales
     (auto simp: volumeAttributesClasses_def table_inventory_def decodeVolumeAttributesClassTableRow_def
        dest!: table_rows_decoder table_decoder_row named_row_valid split: option.splits if_splits)

interpretation csi_nodes: named_source csiNodes ValidateNodeName cn_Name
  by unfold_locales
     (auto simp: csiNodes_def table_inventory_def decodeCSINodeTableRow_def
        dest!: table_rows_decoder table_decoder_row named_row_valid split: option.splits if_splits)

interpretation admission_policies: named_source "admissionPolicies spec" ValidateAdmissionPolicyResourceName ap_Name for spec
  by unfold_locales
     (auto simp: admissionPolicies_def metadata_inventory_def
        dest!: metadata_list_decoder elim: named_metadata_valid [where name = ap_Name])

lemma security_namespace_valid:
  "decodePodSecurityAdmissionMetadata raw = Inr metadata
     \<Longrightarrow> ValidateNamespace (sn_Name (projectPodSecurityAdmissionNamespace metadata)) = None"
  by (auto simp: decodePodSecurityAdmissionMetadata_def projectPodSecurityAdmissionNamespace_def Let_def
        split: option.splits if_splits)

interpretation security_namespaces: named_source podSecurityAdmissionNamespaces ValidateNamespace sn_Name
  by unfold_locales
     (auto simp: podSecurityAdmissionNamespaces_def metadata_inventory_def rthen_def
        dest!: metadata_list_decoder dest: security_namespace_valid split: sum.splits)

lemma node_version_valid:
  "decodeNodeVersionTableRow apiServer columnCount found row = Inr item \<Longrightarrow> ValidateNodeName (nk_Name item) = None"
  by (auto simp: decodeNodeVersionTableRow_def classifyNodeVersion_def Let_def
        split: prod.splits option.splits if_splits)

interpretation node_versions: named_source "nodeVersions apiServer" ValidateNodeName nk_Name for apiServer
  by unfold_locales
     (auto simp: nodeVersions_def table_inventory_def rthen_def
        dest!: table_rows_decoder dest: node_version_valid split: sum.splits)

section \<open>Bounded reads\<close>

definition bounded_read :: "Client \<Rightarrow> nat \<Rightarrow> 'a kube \<Rightarrow> bool" where
  "bounded_read c n m \<longleftrightarrow> sends (read_only c) m \<and> at_most n m"

lemma bounded_mono: "bounded_read c k m \<Longrightarrow> k \<le> n \<Longrightarrow> bounded_read c n m"
  unfolding bounded_read_def at_most_def by (meson add_left_mono le_trans)

lemma bounded_guard: "bounded_read c n m \<Longrightarrow> bounded_read c n (kguard e m)"
  by (simp add: bounded_read_def sends_guard at_most_guard)

lemma bounded_result: "bounded_read c n (kresult r)" "bounded_read c n (kreturn x)" "bounded_read c n (kdecoded e v)"
  by (simp_all add: bounded_read_def sends_rules at_most_rules)

lemma bounded_then:
  "bounded_read c k m \<Longrightarrow> (\<And>x. bounded_read c l (f x)) \<Longrightarrow> k + l \<le> n \<Longrightarrow> bounded_read c n (kthen m f)"
  by (auto simp: bounded_read_def intro: sends_then at_most_then)

lemma bounded_projected: "bounded_read c n m \<Longrightarrow> (\<And>x. bounded_read c 0 (f x)) \<Longrightarrow> bounded_read c n (kthen m f)"
  by (rule bounded_then) auto

lemma bounded_resolved: "(\<And>x. bounded_read c n (f x)) \<Longrightarrow> bounded_read c n (kthen (kresult r) f)"
  by (rule bounded_then [where k = 0 and l = n]) (auto simp: bounded_result)

lemma bounded_prod: "(\<And>x y. bounded_read c n (f x y)) \<Longrightarrow> bounded_read c n (case p of (x, y) \<Rightarrow> f x y)"
  by (cases p) simp

lemma bounded_get: "bounded_read c (Suc 0) (getPayload c path query accept maxBytes cutoff)"
  by (simp add: bounded_read_def at_most_getPayload reads.sends_getPayload)

lemma bounded_detail: "bounded_read c (Suc 0) (get_detail c err path maxBytes decode)"
  unfolding get_detail_def by (intro bounded_guard bounded_projected bounded_get bounded_prod bounded_result)

lemma bounded_list: "iv_maxPages iv \<le> n \<Longrightarrow> bounded_read c n (list_inventory c iv)"
  by (rule bounded_mono [where k = "iv_maxPages iv"]) (simp add: bounded_read_def sends_list_inventory at_most_list_inventory)

lemma bounded_listRaw: "bounded_read c 20 (listRaw c path query)"
proof -
  have "at_most 20 (listRawWithBudget c path query newListBudget)"
    unfolding at_most_def
  proof
    fix log
    obtain log' r where run: "listRawWithBudget c path query newListBudget log = (log', r)" by fastforce
    then show "length (fst (listRawWithBudget c path query newListBudget log)) \<le> length log + 20"
      using listRawWithBudget_run [OF run] by (simp add: newListBudget_def maxListPages_def)
  qed
  then show ?thesis
    by (auto simp: bounded_read_def listRaw_def
          intro!: reads_rules at_most_then [where b = 0] at_most_rules)
qed

lemmas bounded_rules = bounded_guard bounded_projected bounded_result bounded_prod bounded_detail bounded_list
  bounded_listRaw bounded_get

text \<open>The limits of the pages of the inventories.\<close>

lemmas inventory_pages =
  priorityClasses_def runtimeClasses_def csiDrivers_def certificateSigningRequests_def admissionWebhooks_def
  admissionPolicies_def podSecurityAdmissionNamespaces_def metadata_inventory_def
  volumeAttachments_def volumeAttributesClasses_def csiNodes_def csiStorageCapacities_def nodeVersions_def table_inventory_def
  storageTable_def governanceList_def apiServices_def helmRevisions_def
  accessResources_def customResourceDefinitions_def metadata_survey_def maxListPages_def

lemmas inventory_reads =
  kc_PriorityClasses_def kc_PriorityClass_def kc_RuntimeClasses_def kc_RuntimeClass_def kc_CSIDrivers_def kc_CSIDriver_def
  kc_VolumeAttachments_def kc_VolumeAttributesClasses_def kc_CSINodes_def kc_CSINode_def kc_CSIStorageCapacities_def
  kc_PersistentVolumeClaims_def kc_PersistentVolumes_def kc_StorageClasses_def listStorageTable_def
  kc_ResourceQuotas_def kc_LimitRanges_def kc_HorizontalPodAutoscalers_def kc_PodDisruptionBudgets_def
  kc_DisruptionBudgets_def listPodDisruptionBudgets_def listGovernanceRaw_def kc_Services_def kc_Ingresses_def
  kc_EndpointSlices_def kc_NetworkPolicies_def kc_AccessResources_def kc_AccessResourceDetail_def
  kc_CustomResourceDefinitions_def kc_CustomResourceDefinition_def kc_AdmissionWebhookConfigurations_def
  kc_AdmissionWebhookConfiguration_def kc_ValidatingAdmissionPolicies_def kc_ValidatingAdmissionPolicyBindings_def
  kc_ValidatingAdmissionPolicy_def kc_ValidatingAdmissionPolicyBinding_def kc_APIServices_def
  kc_PodSecurityAdmissionNamespaces_def kc_CertificateSigningRequests_def kc_CertificateSigningRequest_def
  kc_HelmReleaseHistory_def kc_DeprecatedAPIRequests_def

lemma bounded_cluster_lists:
  "bounded_read c 4 (kc_PriorityClasses c)" "bounded_read c 4 (kc_RuntimeClasses c)" "bounded_read c 4 (kc_CSIDrivers c)"
  "bounded_read c 4 (kc_VolumeAttachments c)" "bounded_read c 4 (kc_VolumeAttributesClasses c)"
  "bounded_read c 4 (kc_CSINodes c)" "bounded_read c 4 (kc_CertificateSigningRequests c)"
  "bounded_read c 4 (kc_ValidatingAdmissionPolicies c)" "bounded_read c 4 (kc_ValidatingAdmissionPolicyBindings c)"
  "bounded_read c 4 (kc_APIServices c)" "bounded_read c 4 (kc_PodSecurityAdmissionNamespaces c)"
  "bounded_read c 8 (kc_CustomResourceDefinitions c)" "bounded_read c 20 (kc_PersistentVolumes c)"
  "bounded_read c 20 (kc_StorageClasses c)" "bounded_read c 4 (kc_DisruptionBudgets c)"
  unfolding inventory_reads by (auto intro!: bounded_rules simp: inventory_pages)

lemma bounded_chosen_lists:
  "bounded_read c 4 (kc_AdmissionWebhookConfigurations c webhookKind)" "bounded_read c 8 (kc_AccessResources c kind namespace)"
  unfolding inventory_reads by (auto intro!: bounded_guard bounded_resolved bounded_list simp: inventory_pages)

lemma bounded_namespaced_lists:
  "bounded_read c 4 (kc_CSIStorageCapacities quantity c namespace)" "bounded_read c 20 (kc_PersistentVolumeClaims c namespace)"
  "bounded_read c 4 (kc_ResourceQuotas c namespace)" "bounded_read c 4 (kc_LimitRanges c namespace)"
  "bounded_read c 4 (kc_HorizontalPodAutoscalers c namespace)" "bounded_read c 4 (kc_PodDisruptionBudgets c namespace)"
  "bounded_read c 20 (kc_Services c namespace)" "bounded_read c 20 (kc_Ingresses c namespace)"
  "bounded_read c 4 (kc_EndpointSlices c namespace)" "bounded_read c 4 (kc_NetworkPolicies c namespace)"
  "bounded_read c 4 (kc_HelmReleaseHistory c namespace releaseName)"
  unfolding inventory_reads by (auto intro!: bounded_rules simp: inventory_pages)

lemma bounded_revision_loop:
  "bounded_read c pages (revision_loop c path decode pages query revisions unassigned totalItems totalBytes seen)"
proof (induction pages arbitrary: query revisions unassigned totalItems totalBytes seen)
  case 0
  show ?case by (simp add: bounded_read_def sends_fail at_most_fail)
next
  case (Suc pages)
  have "bounded_read c n (kfail e)" for n e by (simp add: bounded_read_def sends_fail at_most_fail)
  then show ?case
    unfolding revision_loop.simps
    by (auto intro!: bounded_then [OF bounded_get, where l = pages] bounded_resolved bounded_result Suc.IH
          simp: split_beta split: if_splits)
qed

lemma bounded_revisions: "bounded_read c 5 (kc_DeploymentRevisionHistory c reference)"
  unfolding kc_DeploymentRevisionHistory_def Let_def
  by (intro bounded_guard bounded_then [OF bounded_get, where l = 4] bounded_prod bounded_resolved bounded_projected
        bounded_revision_loop bounded_result) simp

lemma bounded_version_skew: "bounded_read c 5 (kc_NodeVersionSkew c)"
proof -
  have "bounded_read c 1 (observedAPIServerVersion c)"
    unfolding observedAPIServerVersion_def One_nat_def
    by (intro bounded_projected bounded_get bounded_prod bounded_result)
  then show ?thesis
    unfolding kc_NodeVersionSkew_def
    by (rule bounded_then [where l = 4])
       (auto intro!: bounded_prod bounded_projected bounded_list bounded_result simp: inventory_pages)
qed

lemma bounded_details:
  "bounded_read c 1 (kc_PriorityClass c name)" "bounded_read c 1 (kc_RuntimeClass c name)"
  "bounded_read c 1 (kc_CSIDriver c name)" "bounded_read c 1 (kc_CSINode qualified c name)"
  "bounded_read c 1 (kc_CustomResourceDefinition c name)" "bounded_read c 1 (kc_ValidatingAdmissionPolicy c name)"
  "bounded_read c 1 (kc_ValidatingAdmissionPolicyBinding c name)" "bounded_read c 1 (kc_CertificateSigningRequest isPrint c name)"
  unfolding inventory_reads One_nat_def by (rule bounded_detail)+

lemma bounded_chosen_details:
  "bounded_read c 1 (kc_AccessResourceDetail c reference)"
  "bounded_read c 1 (kc_AdmissionWebhookConfiguration ParseRequestURI c webhookKind name)"
  unfolding inventory_reads One_nat_def
  by (intro bounded_guard bounded_resolved bounded_projected bounded_get bounded_prod bounded_result)+

lemma bounded_probes:
  "bounded_read c 1 (kc_DeprecatedAPIRequests c)" "bounded_read c 1 (kc_APIServerReadiness now c)"
  "bounded_read c 1 (kc_EndpointCertificate now tls c)"
proof -
  show "bounded_read c 1 (kc_DeprecatedAPIRequests c)"
    unfolding inventory_reads One_nat_def by (intro bounded_projected bounded_get bounded_prod bounded_result)
qed (simp_all add: bounded_read_def sends_def at_most_def kc_APIServerReadiness_def kc_EndpointCertificate_def Let_def
      read_only_def new_request_def split: option.split)

text \<open>
  (C26) Whatever the API server answers, even endless continuation tokens, every inventory is read
  with GETs only, carrying the client's token and no body, and with a number of requests that is
  bounded in advance: one for a single object, at most 20 for a list.
\<close>

theorem inventory_reads_bounded:
  "bounded_read c 4 (kc_PriorityClasses c) \<and> bounded_read c 1 (kc_PriorityClass c name)
   \<and> bounded_read c 4 (kc_RuntimeClasses c) \<and> bounded_read c 1 (kc_RuntimeClass c name)
   \<and> bounded_read c 4 (kc_CSIDrivers c) \<and> bounded_read c 1 (kc_CSIDriver c name)
   \<and> bounded_read c 4 (kc_CSINodes c) \<and> bounded_read c 1 (kc_CSINode qualified c name)
   \<and> bounded_read c 4 (kc_VolumeAttachments c) \<and> bounded_read c 4 (kc_VolumeAttributesClasses c)
   \<and> bounded_read c 4 (kc_CSIStorageCapacities quantity c namespace)
   \<and> bounded_read c 20 (kc_PersistentVolumeClaims c namespace) \<and> bounded_read c 20 (kc_PersistentVolumes c)
   \<and> bounded_read c 20 (kc_StorageClasses c) \<and> bounded_read c 4 (kc_ResourceQuotas c namespace)
   \<and> bounded_read c 4 (kc_LimitRanges c namespace) \<and> bounded_read c 4 (kc_HorizontalPodAutoscalers c namespace)
   \<and> bounded_read c 4 (kc_PodDisruptionBudgets c namespace) \<and> bounded_read c 4 (kc_DisruptionBudgets c)
   \<and> bounded_read c 20 (kc_Services c namespace) \<and> bounded_read c 20 (kc_Ingresses c namespace)
   \<and> bounded_read c 4 (kc_EndpointSlices c namespace) \<and> bounded_read c 4 (kc_NetworkPolicies c namespace)
   \<and> bounded_read c 8 (kc_AccessResources c kind namespace) \<and> bounded_read c 1 (kc_AccessResourceDetail c reference)
   \<and> bounded_read c 8 (kc_CustomResourceDefinitions c) \<and> bounded_read c 1 (kc_CustomResourceDefinition c name)
   \<and> bounded_read c 4 (kc_AdmissionWebhookConfigurations c webhookKind)
   \<and> bounded_read c 1 (kc_AdmissionWebhookConfiguration ParseRequestURI c webhookKind name)
   \<and> bounded_read c 4 (kc_ValidatingAdmissionPolicies c) \<and> bounded_read c 1 (kc_ValidatingAdmissionPolicy c name)
   \<and> bounded_read c 4 (kc_ValidatingAdmissionPolicyBindings c)
   \<and> bounded_read c 1 (kc_ValidatingAdmissionPolicyBinding c name)
   \<and> bounded_read c 4 (kc_APIServices c) \<and> bounded_read c 4 (kc_PodSecurityAdmissionNamespaces c)
   \<and> bounded_read c 5 (kc_NodeVersionSkew c) \<and> bounded_read c 1 (kc_DeprecatedAPIRequests c)
   \<and> bounded_read c 1 (kc_APIServerReadiness now c) \<and> bounded_read c 1 (kc_EndpointCertificate now tls c)
   \<and> bounded_read c 4 (kc_CertificateSigningRequests c) \<and> bounded_read c 1 (kc_CertificateSigningRequest isPrint c name)
   \<and> bounded_read c 4 (kc_HelmReleaseHistory c namespace releaseName)
   \<and> bounded_read c 5 (kc_DeploymentRevisionHistory c workload)"
  by (intro conjI bounded_cluster_lists bounded_chosen_lists bounded_namespaced_lists bounded_details bounded_chosen_details
        bounded_probes bounded_revisions bounded_version_skew)

text \<open>
  (C25) Twelve lists of cluster-scoped objects are well formed: at most 1000 objects, every name valid
  for its kind, no name twice, in the order of the names. They are the lists of priority classes,
  runtime classes, CSI drivers, CSI nodes, volume attachments, volume attributes classes, admission
  webhook configurations, validating admission policies and their bindings, certificate signing
  requests, namespaces with their pod security labels, and nodes with their version skew. The code does
  not compare the names of persistent volumes, storage classes and custom resource definitions, whose
  lists are not among them.
\<close>

theorem cluster_lists_well_formed:
  "yields (named_list ValidatePriorityClassName pc_Name) (kc_PriorityClasses c)
   \<and> yields (named_list ValidateRuntimeClassName ru_Name) (kc_RuntimeClasses c)
   \<and> yields (named_list ValidateCSIDriverName cd_Name) (kc_CSIDrivers c)
   \<and> yields (named_list ValidateNodeName cn_Name) (kc_CSINodes c)
   \<and> yields (named_list ValidateVolumeAttachmentName va_Name) (kc_VolumeAttachments c)
   \<and> yields (named_list ValidateVolumeAttributesClassName vc_Name) (kc_VolumeAttributesClasses c)
   \<and> yields (named_list ValidateAdmissionWebhookConfigurationName ac_Name) (kc_AdmissionWebhookConfigurations c webhookKind)
   \<and> yields (named_list ValidateAdmissionPolicyResourceName ap_Name) (kc_ValidatingAdmissionPolicies c)
   \<and> yields (named_list ValidateAdmissionPolicyResourceName ap_Name) (kc_ValidatingAdmissionPolicyBindings c)
   \<and> yields (named_list ValidateCertificateSigningRequestName cq_Name) (kc_CertificateSigningRequests c)
   \<and> yields (named_list ValidateNamespace sn_Name) (kc_PodSecurityAdmissionNamespaces c)
   \<and> yields (\<lambda>report. named_list ValidateNodeName nk_Name (nr_Nodes report)) (kc_NodeVersionSkew c)"
  unfolding inventory_reads kc_NodeVersionSkew_def
  by (intro conjI priority_classes.yields_named runtime_classes.yields_named csi_drivers.yields_named csi_nodes.yields_named
        volume_attachments.yields_named attributes_classes.yields_named yields_guard yields_then [OF yields_any] yields_case_prod
        webhooks.yields_named admission_policies.yields_named signing_requests.yields_named security_namespaces.yields_named
        yields_then [OF node_versions.yields_named] yields_return)
     simp

section \<open>Nested entries\<close>

interpretation governance_lists: inventory_source "governanceList path apiVersion kind" "\<lambda>_. True" "\<lambda>_. 0 :: nat"
  for path apiVersion kind
  by unfold_locales (simp_all add: governanceList_def)

lemma yields_governance: "yields (\<lambda>items. length items \<le> 1000) (listGovernanceRaw c path apiVersion kind)"
  unfolding listGovernanceRaw_def
  by (rule yields_mono [OF governance_lists.yields_list_inventory]) (simp add: listed_def governanceList_def)

lemma yields_conj: "yields P m \<Longrightarrow> yields Q m \<Longrightarrow> yields (\<lambda>x. P x \<and> Q x) m"
  by (simp add: yields_def)

lemma sum_list_sort_slice: "sum_list (map (f :: 'a \<Rightarrow> nat) (sort_slice lt xs)) = sum_list (map f xs)"
  by (metis mset_map mset_sort_slice sum_mset_sum_list)

text \<open>
  The lists whose objects share one budget of nested entries. A decoder spends of the budget what it
  returns, so a list never returns more than the budget it started with, however many objects it has.
\<close>

definition governed :: "nat \<Rightarrow> ('i \<Rightarrow> nat) \<Rightarrow> ('i \<Rightarrow> bool) \<Rightarrow> 'i list \<Rightarrow> bool" where
  "governed n spent good items \<longleftrightarrow> length items \<le> 1000 \<and> sum_list (map spent items) \<le> n \<and> list_all good items"

locale budgeted =
  fixes decode :: "'b \<Rightarrow> string \<Rightarrow> ('i \<times> 'b) result" and spent :: "'i \<Rightarrow> nat" and left :: "'b \<Rightarrow> nat"
    and good :: "'i \<Rightarrow> bool"
  assumes charged: "decode b raw = Inr (x, b') \<Longrightarrow> spent x + left b' \<le> left b"
    and sound: "decode b raw = Inr (x, b') \<Longrightarrow> good x"
begin

lemma budget_kept:
  "decode_budget decode b items = Inr xs
     \<Longrightarrow> sum_list (map spent xs) \<le> left b \<and> list_all good xs \<and> length xs = length items"
proof (induction items arbitrary: b xs)
  case (Cons item items)
  from Cons.prems obtain x b' ys where step: "decode b item = Inr (x, b')" "decode_budget decode b' items = Inr ys" "xs = x # ys"
    by (auto split: sum.splits)
  then show ?case using Cons.IH [OF step(2)] charged [OF step(1)] sound [OF step(1)] by simp
qed simp

lemma yields_governed:
  "left b \<le> n \<Longrightarrow> yields (governed n spent good)
     (kthen (listGovernanceRaw c path apiVersion kind) (\<lambda>items.
      kthen (kresult (decode_budget decode b items)) (\<lambda>xs. kreturn (sort_slice lt xs))))"
  by (rule yields_then [OF yields_governance],
      rule yields_then [where Q = "governed n spent good", OF yields_result])
     (auto simp: governed_def sum_list_sort_slice list_all_iff dest!: budget_kept intro!: yields_return)

end

text \<open>A truncated projection says so.\<close>

definition quota_good :: "string \<Rightarrow> KubernetesResourceQuota \<Rightarrow> bool" where
  "quota_good namespace quota \<longleftrightarrow>
     rq_Namespace quota = namespace
     \<and> (rq_ResourcesTruncated quota \<longleftrightarrow> length (rq_Resources quota) < rq_ResourceCount quota)
     \<and> (rq_ScopesTruncated quota \<longleftrightarrow> length (rq_Scopes quota) < rq_ScopeCount quota)"

definition limits_good :: "string \<Rightarrow> KubernetesLimitRange \<Rightarrow> bool" where
  "limits_good namespace limits \<longleftrightarrow>
     lr_Namespace limits = namespace
     \<and> (lr_ConstraintsTruncated limits \<longleftrightarrow> length (lr_Constraints limits) < lr_ConstraintCount limits)"

definition autoscaler_good :: "string \<Rightarrow> KubernetesHorizontalPodAutoscaler \<Rightarrow> bool" where
  "autoscaler_good namespace scaler \<longleftrightarrow>
     hp_Namespace scaler = namespace \<and> 0 \<le> hp_MinReplicas scaler \<and> hp_MinReplicas scaler \<le> hp_MaxReplicas scaler
     \<and> 0 < hp_MaxReplicas scaler
     \<and> (hp_ConditionsTruncated scaler \<longleftrightarrow> length (hp_Conditions scaler) < hp_ConditionCount scaler)"

definition disruption_good :: "string \<Rightarrow> bool \<Rightarrow> KubernetesPodDisruptionBudget \<Rightarrow> bool" where
  "disruption_good namespace allNamespaces budget \<longleftrightarrow>
     (allNamespaces \<or> db_Namespace budget = namespace) \<and> (db_MinAvailable budget = [] \<or> db_MaxUnavailable budget = [])
     \<and> (db_ConditionsTruncated budget \<longleftrightarrow> length (db_Conditions budget) < db_ConditionCount budget)"

lemma projectQuotaResources_shown:
  "projectQuotaResources specHard statusHard used remaining = Inr (resources, n, truncated, remaining')
     \<Longrightarrow> length resources + remaining' = remaining \<and> (truncated \<longleftrightarrow> length resources < n)"
  by (auto simp: projectQuotaResources_def Let_def dest: decode_all_set split: sum.splits)

lemma projectQuotaScopes_shown:
  "projectQuotaScopes scopes remaining = Inr (shown, truncated, remaining')
     \<Longrightarrow> length shown + remaining' = remaining \<and> (truncated \<longleftrightarrow> length shown < length scopes)"
  by (auto simp: projectQuotaScopes_def Let_def dest!: decode_all_set split: sum.splits)

lemma projectAvailabilityConditions_shown:
  "projectAvailabilityConditions source remaining = Inr (conditions, truncated, remaining')
     \<Longrightarrow> length conditions + remaining' = remaining \<and> (truncated \<longleftrightarrow> length conditions < length source)"
  by (auto simp: projectAvailabilityConditions_def Let_def dest!: decode_all_set split: sum.splits)

lemma limit_constraints_shown:
  "limit_constraints n limits constraints = Inr shown \<Longrightarrow> length constraints \<le> n \<Longrightarrow> length shown \<le> n"
  by (induction n limits constraints arbitrary: shown rule: limit_constraints.induct)
     (auto dest!: decode_all_set split: sum.splits)

lemma in_namespace:
  "validateGovernanceIdentity apiVersion kind expectedAPIVersion expectedKind metadata namespace = None
     \<Longrightarrow> gm_Namespace metadata = namespace"
  by (auto simp: validateGovernanceIdentity_def split: option.splits if_splits)

lemma decodeResourceQuota_spec:
  assumes "decodeResourceQuota namespace b raw = Inr (quota, b')"
  shows "length (rq_Resources quota) + fst b' \<le> fst b" and "length (rq_Scopes quota) + snd b' \<le> snd b"
    and "quota_good namespace quota"
  using assms
  by (auto simp: decodeResourceQuota_def quota_good_def
        dest: projectQuotaResources_shown projectQuotaScopes_shown in_namespace split: prod.splits option.splits sum.splits)

interpretation quota_resources: budgeted "decodeResourceQuota namespace" "\<lambda>q. length (rq_Resources q)" fst "quota_good namespace"
  for namespace
  using decodeResourceQuota_spec by unfold_locales

interpretation quota_scopes: budgeted "decodeResourceQuota namespace" "\<lambda>q. length (rq_Scopes q)" snd "quota_good namespace"
  for namespace
  using decodeResourceQuota_spec by unfold_locales

interpretation limit_ranges: budgeted "decodeLimitRange namespace" "\<lambda>l. length (lr_Constraints l)" id "limits_good namespace"
  for namespace
  by unfold_locales
     (auto simp: decodeLimitRange_def limits_good_def Let_def
        dest!: in_namespace limit_constraints_shown split: option.splits sum.splits)

interpretation autoscalers: budgeted "decodeHorizontalPodAutoscaler namespace" "\<lambda>h. length (hp_Conditions h)" id
  "autoscaler_good namespace" for namespace
  by unfold_locales
     (auto simp: decodeHorizontalPodAutoscaler_def autoscaler_good_def Let_def
        dest!: in_namespace projectAvailabilityConditions_shown split: option.splits sum.splits prod.splits if_splits)

lemma absent_availability: "\<not> availabilityValuePresent raw \<Longrightarrow> projectAvailabilityValue raw = Some s \<Longrightarrow> s = []"
  by (auto simp: availabilityValuePresent_def projectAvailabilityValue_def split: if_splits option.splits)

interpretation disruption_budgets: budgeted "decodePodDisruptionBudget namespace allNamespaces" "\<lambda>d. length (db_Conditions d)" id
  "disruption_good namespace allNamespaces" for namespace allNamespaces
  by unfold_locales
     (auto simp: decodePodDisruptionBudget_def disruption_good_def Let_def
        dest: absent_availability dest!: in_namespace projectAvailabilityConditions_shown
        split: option.splits sum.splits prod.splits if_splits)

definition slice_good :: "string \<Rightarrow> KubernetesEndpointSlice \<Rightarrow> bool" where
  "slice_good namespace endpoints \<longleftrightarrow>
     (namespace = [] \<or> el_Namespace endpoints = namespace)
     \<and> el_ReadyEndpointCount endpoints \<le> el_EndpointCount endpoints \<and> el_ServingEndpointCount endpoints \<le> el_EndpointCount endpoints
     \<and> el_TerminatingEndpointCount endpoints + el_TerminatingDefaultedCount endpoints \<le> el_EndpointCount endpoints"

definition slice_entries :: "KubernetesEndpointSlice \<Rightarrow> nat" where
  "slice_entries endpoints = el_EndpointCount endpoints + el_PortCount endpoints"

definition network_policy_entries :: "KubernetesNetworkPolicy \<Rightarrow> nat" where
  "network_policy_entries policy =
     np_PodSelectorLabelCount policy + np_PodSelectorExpressionCount policy + np_IngressRuleCount policy + np_EgressRuleCount policy
     + np_IngressPeerCount policy + np_IngressPortCount policy + np_EgressPeerCount policy + np_EgressPortCount policy"

definition network_policy_good :: "string \<Rightarrow> KubernetesNetworkPolicy \<Rightarrow> bool" where
  "network_policy_good namespace policy \<longleftrightarrow>
     (namespace = [] \<or> np_Namespace policy = namespace)
     \<and> np_PolicyTypes policy \<in> {[''Ingress''], [''Egress''], [''Ingress'', ''Egress'']}"

lemma condition_counts:
  "condition_count d xs \<le> length xs" "condition_count False xs + defaulted_count xs \<le> length xs"
proof -
  show "condition_count d xs \<le> length xs" by (simp add: condition_count_def)
  show "condition_count False xs + defaulted_count xs \<le> length xs"
    by (induction xs) (auto simp: condition_count_def defaulted_count_def)
qed

lemma network_policy_types_some:
  "network_policy_types source ingress egress = Inr (ingress', egress') \<Longrightarrow> source \<noteq> [] \<or> ingress \<or> egress \<Longrightarrow> ingress' \<or> egress'"
  by (induction source ingress egress rule: network_policy_types.induct) (auto split: if_splits)

lemma networkPolicyTypes_good:
  "networkPolicyTypes source egress = Inr (policyTypes, isDefault)
     \<Longrightarrow> policyTypes \<in> {[''Ingress''], [''Egress''], [''Ingress'', ''Egress'']}"
  using network_policy_types_some [of source False False]
  by (auto simp: networkPolicyTypes_def split: if_splits sum.splits prod.splits)

interpretation endpoint_slices: budgeted "decodeEndpointSlice namespace" slice_entries id "slice_good namespace" for namespace
  by unfold_locales
     (auto simp: decodeEndpointSlice_def slice_entries_def slice_good_def validateEndpointSliceIdentity_def Let_def
        condition_counts [where xs = "map f xs" for f xs, simplified]
        split: option.splits if_splits)

interpretation network_policies: budgeted "decodeNetworkPolicy namespace" network_policy_entries id "network_policy_good namespace"
  for namespace
  by unfold_locales
     (auto simp: decodeNetworkPolicy_def network_policy_entries_def network_policy_good_def validateNetworkPolicyIdentity_def Let_def
        dest!: networkPolicyTypes_good split: option.splits sum.splits prod.splits if_splits)

text \<open>
  The lists with nested entries keep to their limits and to their namespace: at most 1000
  objects, over all of them at most 4096 projected quota resources, constraints and conditions, 1024
  scopes, 16384 endpoints, ports and policy entries, every object in the namespace asked for, and an
  object whose entries were cut says so. An autoscaler's limits are consistent, a disruption budget has
  at most one of its two thresholds, and a network policy has one of the three valid sets of types.
\<close>

theorem governed_lists_bounded:
  "yields (\<lambda>quotas. governed 4096 (\<lambda>q. length (rq_Resources q)) (quota_good namespace) quotas
             \<and> governed 1024 (\<lambda>q. length (rq_Scopes q)) (quota_good namespace) quotas) (kc_ResourceQuotas c namespace)
   \<and> yields (governed 4096 (\<lambda>l. length (lr_Constraints l)) (limits_good namespace)) (kc_LimitRanges c namespace)
   \<and> yields (governed 4096 (\<lambda>h. length (hp_Conditions h)) (autoscaler_good namespace)) (kc_HorizontalPodAutoscalers c namespace)
   \<and> yields (governed 4096 (\<lambda>d. length (db_Conditions d)) (disruption_good namespace False)) (kc_PodDisruptionBudgets c namespace)
   \<and> yields (governed 4096 (\<lambda>d. length (db_Conditions d)) (disruption_good [] True)) (kc_DisruptionBudgets c)
   \<and> yields (governed 16384 slice_entries (slice_good namespace)) (kc_EndpointSlices c namespace)
   \<and> yields (governed 16384 network_policy_entries (network_policy_good namespace)) (kc_NetworkPolicies c namespace)"
  unfolding kc_ResourceQuotas_def kc_LimitRanges_def kc_HorizontalPodAutoscalers_def kc_PodDisruptionBudgets_def
    kc_DisruptionBudgets_def listPodDisruptionBudgets_def kc_EndpointSlices_def kc_NetworkPolicies_def
  by (intro conjI yields_guard yields_conj quota_resources.yields_governed quota_scopes.yields_governed
        limit_ranges.yields_governed autoscalers.yields_governed disruption_budgets.yields_governed
        endpoint_slices.yields_governed network_policies.yields_governed)
     (simp_all add: maxGovernanceProjectedEntries_def maxGovernanceProjectedScopes_def)

section \<open>Single objects\<close>

text \<open>
  A read of one object: nothing is sent when the request is refused, otherwise one GET for the path of
  the object, and what is returned satisfies a predicate.
\<close>

definition object_read :: "Client \<Rightarrow> go_error option \<Rightarrow> string \<Rightarrow> ('d \<Rightarrow> bool) \<Rightarrow> 'd kube \<Rightarrow> bool" where
  "object_read c refused path good m \<longleftrightarrow>
     sends (\<lambda>request. read_only c request \<and> kq_Path request = trim_right_char (CHR ''/'') (kc_basePath c) @ path) m
     \<and> at_most (if refused = None then 1 else 0) m \<and> yields good m"

lemma object_detail:
  assumes "\<And>payload d. decode payload = Inr d \<Longrightarrow> good d"
  shows "object_read c refused path good (get_detail c refused path maxBytes decode)"
proof -
  have "sends (\<lambda>request. read_only c request \<and> kq_Path request = trim_right_char (CHR ''/'') (kc_basePath c) @ path)
      (getPayload c path None ''application/json'' maxBytes False)"
    unfolding getPayload_def by (rule sends_request) (simp add: read_only_def new_request_def)
  then have "sends (\<lambda>request. read_only c request \<and> kq_Path request = trim_right_char (CHR ''/'') (kc_basePath c) @ path)
      (get_detail c refused path maxBytes decode)"
    unfolding get_detail_def by (intro sends_guard sends_then sends_case_prod sends_result)
  moreover have "at_most (if refused = None then 1 else 0) (get_detail c refused path maxBytes decode)"
    using bounded_detail [of c None path maxBytes decode] at_most_fail
    by (auto simp: get_detail_def kguard_def bounded_read_def split: option.split)
  moreover have "yields good (get_detail c refused path maxBytes decode)"
    unfolding get_detail_def
    by (intro yields_guard yields_then [OF yields_any] yields_case_prod yields_result) (rule assms)
  ultimately show ?thesis by (simp add: object_read_def)
qed

lemma runtime_class_detail:
  "decodeRuntimeClass payload name = Inr d
     \<Longrightarrow> ru_Name (rd_Class d) = name \<and> rd_OverheadResourceCount d \<le> 64 \<and> rd_NodeSelectorCount d \<le> 256 \<and> rd_TolerationCount d \<le> 256"
  by (auto simp: decodeRuntimeClass_def cluster_object_def runtime_overhead_def runtime_scheduling_def Let_def
        split: option.splits if_splits sum.splits prod.splits)

lemma priority_class_detail: "decodePriorityClass payload name = Inr d \<Longrightarrow> pc_Name (pd_Class d) = name"
  by (auto simp: decodePriorityClass_def cluster_object_def split: option.splits if_splits sum.splits)

lemma csi_driver_detail: "decodeCSIDriver payload name = Inr d \<Longrightarrow> cd_Name (dd_Driver d) = name \<and> dd_TokenRequestCount d \<le> 32"
  by (auto simp: decodeCSIDriver_def cluster_object_def split: option.splits if_splits sum.splits)

lemma csi_node_drivers_distinct:
  "csi_node_drivers sources drivers n = Inr all \<Longrightarrow> distinct (map cw_Name drivers) \<Longrightarrow> distinct (map cw_Name all)"
  by (induction sources drivers n arbitrary: all rule: csi_node_drivers.induct) (auto split: if_splits)

lemma csi_node_detail:
  assumes "decodeCSINode qualified payload name = Inr d"
  shows "cn_Name (cx_Node d) = name \<and> cn_DriverCount (cx_Node d) = int (length (cx_Drivers d))
    \<and> distinct (map cw_Name (cx_Drivers d)) \<and> sorted (map cw_Name (cx_Drivers d))"
proof -
  from assms obtain sources drivers where drivers: "csi_node_drivers sources [] 0 = Inr drivers"
      "cn_Name (cx_Node d) = name" "cn_DriverCount (cx_Node d) = int (length drivers)"
      "cx_Drivers d = sort_slice (\<lambda>a b. cw_Name a < cw_Name b) drivers"
    by (auto simp: decodeCSINode_def cluster_object_def split: option.splits if_splits sum.splits)
  moreover have "distinct (map cw_Name (sort_slice (\<lambda>a b. cw_Name a < cw_Name b) drivers))"
    using csi_node_drivers_distinct [OF drivers(1)] distinct_map_mset [OF mset_sort_slice] by (metis distinct.simps(1) list.map(1))
  moreover have "sorted (map cw_Name (sort_slice (\<lambda>a b. cw_Name a < cw_Name b) drivers))"
    using sorted_by_key [of "\<lambda>a b. cw_Name a < cw_Name b" cw_Name drivers] by (simp add: sorted_wrt_map not_less)
  ultimately show ?thesis by simp
qed

lemma signing_conditions:
  "decodeCertificateSigningRequestConditions isPrint source = Inr (conditions, approved, denied, failed)
     \<Longrightarrow> approved = (''Approved'' \<in> cj_Type ` set conditions) \<and> denied = (''Denied'' \<in> cj_Type ` set conditions)
       \<and> failed = (''Failed'' \<in> cj_Type ` set conditions)"
  by (simp add: decodeCertificateSigningRequestConditions_def rthen_Inr Let_def del: image_iff split: if_split_asm prod.split_asm) (elim exE conjE, metis set_sort_slice)

definition signing_state_good :: "KubernetesCertificateSigningRequestDetail \<Rightarrow> bool" where
  "signing_state_good d \<longleftrightarrow>
     (let has = (\<lambda>type. type \<in> cj_Type ` set (ck_Conditions d)) in
      (ck_State d = CertificateSigningRequestIssued \<longleftrightarrow> ck_CertificateIssued d)
      \<and> (ck_State d = CertificateSigningRequestDenied \<longleftrightarrow> has ''Denied'')
      \<and> (ck_State d \<in> {CertificateSigningRequestIssued, CertificateSigningRequestApproved} \<longleftrightarrow> has ''Approved'' \<and> \<not> has ''Failed''))"

lemma signing_state:
  "\<not> (approved \<and> denied) \<Longrightarrow> \<not> (issued \<and> (\<not> approved \<or> denied \<or> failed)) \<Longrightarrow>
     (csr_state approved denied failed issued = CertificateSigningRequestIssued \<longleftrightarrow> issued)
     \<and> (csr_state approved denied failed issued = CertificateSigningRequestDenied \<longleftrightarrow> denied)
     \<and> (csr_state approved denied failed issued \<in> {CertificateSigningRequestIssued, CertificateSigningRequestApproved}
          \<longleftrightarrow> approved \<and> \<not> failed)"
  by (auto simp: csr_state_def)

lemma signing_good:
  assumes "decodeCertificateSigningRequestConditions isPrint source = Inr (ck_Conditions d, approved, denied, failed)"
    and "\<not> (approved \<and> denied)" "\<not> (ck_CertificateIssued d \<and> (\<not> approved \<or> denied \<or> failed))"
    and "ck_State d = csr_state approved denied failed (ck_CertificateIssued d)"
  shows "signing_state_good d"
  using signing_conditions [OF assms(1)] signing_state [OF assms(2,3)] assms(4) unfolding signing_state_good_def Let_def by metis

lemma signing_request_detail:
  assumes "decodeCertificateSigningRequest isPrint payload name = Inr d"
  shows "cq_Name (ck_Request d) = name \<and> signing_state_good d"
proof (cases "Unmarshal_fields payload \<bind> certificateSigningRequestSource_of")
  case (Some source)
  show ?thesis
    using assms unfolding decodeCertificateSigningRequest_def Some option.case
    apply (elim rthenE ensureE)
    apply (clarsimp simp only: prod.case split_paired_all)
    apply (elim rthenE ensureE)
    apply (drule Inr_inject)
    apply hypsubst
    apply (rename_tac usages conditions approved denied failed)
    apply (rule conjI)
     apply (simp only: cluster_object_def KubernetesCertificateSigningRequest.select_convs KubernetesCertificateSigningRequestDetail.select_convs)
    apply (rule_tac approved = approved and denied = denied and failed = failed in signing_good)
       apply (simp_all only: KubernetesCertificateSigningRequestDetail.select_convs simp_thms)
    done
qed (use assms in \<open>simp add: decodeCertificateSigningRequest_def\<close>)

lemma definition_identity:
  "validateCustomResourceDefinitionIdentity source name = Inr parts \<Longrightarrow> sh_Name (ce_Header source) = name"
  by (auto simp: validateCustomResourceDefinitionIdentity_def Let_def split: if_splits sum.splits prod.splits)

lemma definition_detail:
  assumes "decodeCustomResourceDefinition payload name = Inr d"
  shows "cr_Name (cf_Definition d) = name"
proof (cases "Unmarshal_fields payload \<bind> customResourceDefinitionSource_of")
  case (Some source)
  show ?thesis
    using assms unfolding decodeCustomResourceDefinition_def Some option.case split_beta Let_def
    apply (elim rthenE ensureE)
    apply (drule Inr_inject definition_identity)+
    apply hypsubst
    apply (simp only: KubernetesCustomResourceDefinition.select_convs KubernetesCustomResourceDefinitionDetail.select_convs)
    done
qed (use assms in \<open>simp add: decodeCustomResourceDefinition_def\<close>)

lemma policy_detail:
  assumes "decodeValidatingAdmissionPolicy payload name = Inr d"
  shows "ap_Name (vd_Resource d) = name \<and> vd_FailurePolicy d \<in> {''Fail'', ''Ignore''}
    \<and> 0 < vd_ValidationCount d + vd_AuditAnnotationCount d \<and> vd_ObservedGeneration d \<le> vd_Generation d"
proof (cases "Unmarshal_fields payload \<bind> validatingAdmissionPolicySource_of")
  case (Some source)
  show ?thesis
  proof (cases "validateAdmissionPolicyIdentity (vs_Header source) (vs_Generation source)
      (admissionPolicySpec AdmissionPolicyResourcePolicy) name")
    case None
    show ?thesis
      using assms unfolding decodeValidatingAdmissionPolicy_def Some None option.case split_beta Let_def
      apply (elim rthenE ensureE)
      apply (drule Inr_inject)
      apply hypsubst
      apply auto
      done
  qed (use assms Some in \<open>simp add: decodeValidatingAdmissionPolicy_def split_beta Let_def\<close>)
qed (use assms in \<open>simp add: decodeValidatingAdmissionPolicy_def\<close>)

definition valid_policy_actions :: "string list \<Rightarrow> bool" where
  "valid_policy_actions actions \<longleftrightarrow>
     actions \<in> {[''Deny''], [''Warn''], [''Audit''], [''Deny'', ''Audit''], [''Warn'', ''Audit'']}"

lemma policy_actions_set:
  "policy_actions actions seen = Inr all \<Longrightarrow> set all = set actions \<union> set seen \<and> set actions \<subseteq> {''Deny'', ''Warn'', ''Audit''}"
  by (induction actions seen rule: policy_actions.induct) (auto split: if_splits)

lemma one_of_three: "xs \<noteq> [] \<Longrightarrow> set xs \<subseteq> {a, b, c} \<Longrightarrow> a \<in> set xs \<or> b \<in> set xs \<or> c \<in> set xs"
  by (cases xs) auto

lemma canonical_actions_valid:
  assumes "canonicalAdmissionPolicyActions actions = Inr all"
  shows "valid_policy_actions all"
proof -
  from assms obtain seen where seen: "actions \<noteq> []" "policy_actions actions [] = Inr seen"
      "\<not> (''Deny'' \<in> set seen \<and> ''Warn'' \<in> set seen)" "all = filter (\<lambda>action. action \<in> set seen) [''Deny'', ''Warn'', ''Audit'']"
    unfolding canonicalAdmissionPolicyActions_def by (simp only: rthen_Inr ensure_Inr sum.distinct sum.inject split: if_split_asm) metis
  from policy_actions_set [OF seen(2)] have "set seen = set actions" "set actions \<subseteq> {''Deny'', ''Warn'', ''Audit''}"
    by (simp_all only: set_simps Un_empty_right)
  then have "''Deny'' \<in> set seen \<or> ''Warn'' \<in> set seen \<or> ''Audit'' \<in> set seen"
    using one_of_three [OF seen(1)] by (simp only:)
  then show ?thesis
    using seen(3) unfolding seen(4) valid_policy_actions_def
    by (cases "''Deny'' \<in> set seen"; cases "''Warn'' \<in> set seen"; cases "''Audit'' \<in> set seen") simp_all
qed

lemma param_ref_keeps:
  "decodeAdmissionPolicyParamRef detail source = Inr (detail', n)
     \<Longrightarrow> vb_Resource detail' = vb_Resource detail \<and> vb_ValidationActions detail' = vb_ValidationActions detail"
  by (auto simp: decodeAdmissionPolicyParamRef_def rthen_Inr ensure_Inr Let_def split: if_splits)

lemma binding_detail:
  assumes "decodeValidatingAdmissionPolicyBinding payload name = Inr d"
  shows "ap_Name (vb_Resource d) = name \<and> valid_policy_actions (vb_ValidationActions d)"
proof (cases "Unmarshal_fields payload \<bind> validatingAdmissionPolicyBindingSource_of")
  case (Some source)
  show ?thesis
  proof (cases "validateAdmissionPolicyIdentity (bg_Header source) (bg_Generation source)
      (admissionPolicySpec AdmissionPolicyResourceBinding) name")
    case None
    show ?thesis
      using assms unfolding decodeValidatingAdmissionPolicyBinding_def Some None option.case Let_def
      by (auto elim!: rthenE ensureE dest!: canonical_actions_valid param_ref_keeps split: option.splits)
  qed (use assms Some in \<open>simp add: decodeValidatingAdmissionPolicyBinding_def\<close>)
qed (use assms in \<open>simp add: decodeValidatingAdmissionPolicyBinding_def\<close>)
text \<open>
  (C27) Reading a single object of eight kinds asks the API server only for that object: an invalid
  name sends nothing, a valid one at most a single GET of the object's path, and what is returned
  carries the name that was asked for and consistent fields. The kinds are priority class, runtime
  class, CSI driver, CSI node, custom resource definition, validating admission policy, its binding and
  certificate signing request; the details of nodes and workloads, which the code does not compare with
  the request, are not among them. A certificate request is shown as issued exactly when it has a
  certificate, as denied exactly when it has the condition, and as approved or issued exactly when it
  was approved and did not fail; the drivers of a node are distinct and in order.
\<close>

theorem details_match_request:
  "object_read c (ValidatePriorityClassName name) (priorityClassCollectionPath @ ''/'' @ name)
     (\<lambda>d. pc_Name (pd_Class d) = name) (kc_PriorityClass c name)
   \<and> object_read c (ValidateRuntimeClassName name) (runtimeClassCollectionPath @ ''/'' @ name)
     (\<lambda>d. ru_Name (rd_Class d) = name \<and> rd_OverheadResourceCount d \<le> 64 \<and> rd_NodeSelectorCount d \<le> 256
        \<and> rd_TolerationCount d \<le> 256) (kc_RuntimeClass c name)
   \<and> object_read c (ValidateCSIDriverName name) (csiDriverCollectionPath @ ''/'' @ name)
     (\<lambda>d. cd_Name (dd_Driver d) = name \<and> dd_TokenRequestCount d \<le> 32) (kc_CSIDriver c name)
   \<and> object_read c (ValidateNodeName name) (csiNodeCollectionPath @ ''/'' @ name)
     (\<lambda>d. cn_Name (cx_Node d) = name \<and> cn_DriverCount (cx_Node d) = int (length (cx_Drivers d))
        \<and> distinct (map cw_Name (cx_Drivers d)) \<and> sorted (map cw_Name (cx_Drivers d))) (kc_CSINode qualified c name)
   \<and> object_read c (ValidateCustomResourceDefinitionName name) (customResourceDefinitionCollectionPath @ ''/'' @ name)
     (\<lambda>d. cr_Name (cf_Definition d) = name) (kc_CustomResourceDefinition c name)
   \<and> object_read c (ValidateAdmissionPolicyResourceName name)
     (ay_collectionPath (admissionPolicySpec AdmissionPolicyResourcePolicy) @ ''/'' @ name)
     (\<lambda>d. ap_Name (vd_Resource d) = name \<and> vd_FailurePolicy d \<in> {''Fail'', ''Ignore''}
        \<and> 0 < vd_ValidationCount d + vd_AuditAnnotationCount d \<and> vd_ObservedGeneration d \<le> vd_Generation d)
     (kc_ValidatingAdmissionPolicy c name)
   \<and> object_read c (ValidateAdmissionPolicyResourceName name)
     (ay_collectionPath (admissionPolicySpec AdmissionPolicyResourceBinding) @ ''/'' @ name)
     (\<lambda>d. ap_Name (vb_Resource d) = name \<and> valid_policy_actions (vb_ValidationActions d))
     (kc_ValidatingAdmissionPolicyBinding c name)
   \<and> object_read c (ValidateCertificateSigningRequestName name) (certificateSigningRequestCollectionPath @ ''/'' @ name)
     (\<lambda>d. cq_Name (ck_Request d) = name \<and> signing_state_good d) (kc_CertificateSigningRequest isPrint c name)"
  unfolding inventory_reads
  by (intro conjI object_detail priority_class_detail runtime_class_detail csi_driver_detail csi_node_detail definition_detail
        policy_detail binding_detail signing_request_detail)

end
