(* ===== verification/Kube_Reports.thy ===== *)
theory Kube_Reports
  imports Kube_Inventories
begin

text \<open>
  The reports that the client puts together from several answers: the version skew of the nodes, the
  readiness of the API server, its certificate, and the histories of Helm releases and deployments.
\<close>

section \<open>Readiness\<close>

lemma readiness_lines_checks:
  assumes "readiness_lines lines checks summary = Inr (checks', summary')"
    and "distinct (map rk_Name checks)" and "length checks \<le> 256"
  shows "distinct (map rk_Name checks') \<and> length checks' \<le> 256"
  using assms
  by (induction lines checks summary rule: readiness_lines.induct) (auto simp: Let_def split: if_splits option.splits)

text \<open>A report of readiness agrees with its checks.\<close>

definition readiness_consistent :: "int \<Rightarrow> KubernetesAPIServerReadiness \<Rightarrow> bool" where
  "readiness_consistent status report \<longleftrightarrow>
     (ry_Ready report \<longleftrightarrow> status = 200)
     \<and> (ry_Ready report \<longleftrightarrow> list_all (\<lambda>check. rk_Status check = APIServerReadinessCheckPassed) (ry_Checks report))
     \<and> ry_PassedChecks report + ry_FailedChecks report = length (ry_Checks report)
     \<and> ry_Checks report \<noteq> [] \<and> length (ry_Checks report) \<le> 256 \<and> distinct (map rk_Name (ry_Checks report))"

lemma all_passed_iff: "length xs - length (filter P xs) = 0 \<longleftrightarrow> list_all P xs"
  by (metis diff_is_0_eq filter_True leD length_filter_less list_all_iff order_refl)

lemma parse_readiness_consistent:
  assumes "parseAPIServerReadiness payload status now = Inr report"
  shows "readiness_consistent status report"
proof -
  let ?passed = "\<lambda>check. rk_Status check = APIServerReadinessCheckPassed"
  from assms obtain checks summary where
      lines: "readiness_lines (scan_lines apiServerReadinessMaxLineBytes payload) [] None = Inr (checks, summary)"
      and "checks \<noteq> []" "if status = 200 then length checks - length (filter ?passed checks) = 0
             else length checks - length (filter ?passed checks) \<noteq> 0"
      and report: "report = \<lparr>ry_ObservedAt = now, ry_Ready = (status = 200), ry_PassedChecks = length (filter ?passed checks),
             ry_FailedChecks = length checks - length (filter ?passed checks), ry_Checks = checks\<rparr>"
    by (auto simp: parseAPIServerReadiness_def rthen_Inr ensure_Inr Let_def)
  then show ?thesis
    using readiness_lines_checks [OF lines] all_passed_iff [of checks ?passed]
    by (simp add: readiness_consistent_def split: if_splits)
qed

section \<open>Certificates\<close>

lemma go_div_ceiling:
  assumes "0 < d"
  shows "let q = go_div n d; s = (if 0 < n \<and> n - q * d \<noteq> 0 then q + 1 else q) in
     if 0 < n then (s - 1) * d < n \<and> n \<le> s * d else s \<le> 0"
proof (cases "0 < n")
  case True
  obtain q r where q: "q = n div d" and r: "n = q * d + r" "0 \<le> r" "r < d"
    using assms by (metis div_mult_mod_eq pos_mod_bound pos_mod_sign)
  have "go_div n d = q" using True assms q by (simp add: go_div_def)
  then show ?thesis using True r by (auto simp: Let_def algebra_simps)
next
  case False
  then have "go_div n d \<le> 0" using assms by (simp add: go_div_def sgn_if pos_imp_zdiv_nonneg_iff)
  then show ?thesis using False by (simp add: Let_def)
qed

text \<open>The classes of a certificate follow the whole seconds that it is still valid, rounded up.\<close>

definition certificate_consistent :: "KubernetesEndpointCertificate \<Rightarrow> bool" where
  "certificate_consistent report \<longleftrightarrow>
     (let remaining = time_sub (ec_NotAfter report) (ec_ObservedAt report) in
      (ec_Status report = EndpointCertificateExpired \<longleftrightarrow> ec_NotAfter report \<le> ec_ObservedAt report)
      \<and> (ec_Status report = EndpointCertificateValid \<longleftrightarrow> 30 * 24 * hour < remaining)
      \<and> (ec_Status report = EndpointCertificateCritical \<longleftrightarrow> 0 < remaining \<and> remaining \<le> 7 * 24 * hour)
      \<and> (if ec_Status report = EndpointCertificateExpired then ec_RemainingSeconds report \<le> 0
         else (ec_RemainingSeconds report - 1) * second < remaining \<and> remaining \<le> ec_RemainingSeconds report * second))"

lemma project_certificate_consistent: "certificate_consistent (projectEndpointCertificate leaf now)"
  using go_div_ceiling [of second "time_sub (ct_NotAfter leaf) now"]
  by (auto simp: certificate_consistent_def projectEndpointCertificate_def time_sub_def second_def hour_def minute_def Let_def
      split: if_splits)

section \<open>Node versions\<close>

text \<open>
  A node is within the version policy when its kubelet is not newer than the API server and not too
  old.
\<close>

definition supported_skew :: "KubernetesNodeVersionSkewStatus \<Rightarrow> bool" where
  "supported_skew status \<longleftrightarrow> status \<in> {NodeVersionSameMinor, NodeVersionWithinPolicy, NodeVersionUpgradeBlocking}"

lemma blocking_iff:
  "nk_Status (classifyNodeVersion name versionText apiServer kubelet) = NodeVersionUpgradeBlocking \<longleftrightarrow>
     supported_skew (nk_Status (classifyNodeVersion name versionText apiServer kubelet))
     \<and> nk_Status (classifyNodeVersion name versionText (apiServer\<lparr>kn_Minor := Suc (kn_Minor apiServer)\<rparr>) kubelet)
         = NodeVersionOutsidePolicy"
  by (auto simp: classifyNodeVersion_def supported_skew_def Let_def)

section \<open>Histories\<close>

text \<open>Revisions in a history are positive, unique, newest first and at most as many as allowed.\<close>

definition newest_revisions :: "nat \<Rightarrow> int list \<Rightarrow> bool" where
  "newest_revisions limit revisions \<longleftrightarrow>
     length revisions \<le> limit \<and> sorted_wrt (>) revisions \<and> list_all (\<lambda>n. 0 < n) revisions"

lemma strictly_descending: "sorted_wrt (\<ge>) (ns :: int list) \<Longrightarrow> distinct ns \<Longrightarrow> sorted_wrt (>) ns"
  by (induction ns) (auto simp: le_less)

lemma newest_take:
  assumes "sorted_wrt (\<lambda>a b. \<not> f b > f a) xs" and "distinct (map f xs)" and "list_all (\<lambda>x. 0 < f x) xs"
  shows "newest_revisions n (map (f :: 'a \<Rightarrow> int) (take n xs))"
proof -
  have "sorted_wrt (\<ge>) (map f xs)" using assms(1) by (simp add: sorted_wrt_map not_less)
  then have "sorted_wrt (>) (map f xs)"
    using assms(2) strictly_descending by blast
  then show ?thesis
    using assms(3) by (auto simp: newest_revisions_def sorted_wrt_map sorted_wrt_take list_all_iff dest: in_set_takeD)
qed

lemma helm_revision_positive: "decodeHelmReleaseRevision namespace releaseName raw = Inr revision \<Longrightarrow> 0 < hv_Revision revision"
  by (auto simp: decodeHelmReleaseRevision_def split: option.splits if_splits)

interpretation helm_revisions: inventory_source "helmRevisions namespace releaseName" "\<lambda>r. 0 < hv_Revision r" "\<lambda>r. - hv_Revision r"
  for namespace releaseName
  by unfold_locales (auto simp: helmRevisions_def rthen_Inr dest: helm_revision_positive)

lemma yields_helm_history:
  "yields (\<lambda>history. newest_revisions 10 (map hv_Revision (hh_Revisions history))) (kc_HelmReleaseHistory c namespace releaseName)"
  unfolding kc_HelmReleaseHistory_def
proof (intro yields_guard yields_then [OF helm_revisions.yields_list_inventory] yields_return)
  fix revisions
  assume "listed (helmRevisions namespace releaseName) (\<lambda>r. 0 < hv_Revision r) revisions
    \<and> sorted_wrt (\<lambda>a b. \<not> iv_before (helmRevisions namespace releaseName) b a) revisions"
  moreover from this have "distinct (map hv_Revision revisions)"
    by (auto simp: listed_def helmRevisions_def distinct_map inj_on_def)
  ultimately show "newest_revisions 10 (map hv_Revision (hh_Revisions (boundedHelmReleaseHistory namespace releaseName revisions)))"
    by (auto simp: boundedHelmReleaseHistory_def helmRevisions_def listed_def intro!: newest_take)
qed

text \<open>The revisions of a deployment; only the one that its annotation names is marked as current.\<close>

definition revisions_good :: "int \<Rightarrow> DeploymentRevision list \<Rightarrow> bool" where
  "revisions_good current revisions \<longleftrightarrow>
     distinct (map dr_Revision revisions)
     \<and> list_all (\<lambda>r. 0 < dr_Revision r \<and> (dr_Current r \<longleftrightarrow> dr_Revision r = current)) revisions"

lemma canonical_revision_positive: "canonicalDeploymentRevision s = Inr n \<Longrightarrow> 0 < n"
  by (auto simp: canonicalDeploymentRevision_def split: if_splits option.splits)

lemma replica_set_revision:
  assumes "decodeDeploymentReplicaSetRevision reference uid current raw = Inr (Assigned revision)"
  shows "0 < dr_Revision revision \<and> (dr_Current revision \<longleftrightarrow> dr_Revision revision = current)"
  using assms
  by (auto simp: decodeDeploymentReplicaSetRevision_def rthen_Inr ensure_Inr Let_def dest!: canonical_revision_positive
      split: if_splits option.splits)

lemma revision_rows_good:
  assumes "revision_rows (decodeDeploymentReplicaSetRevision reference uid current) raws revisions n = Inr (revisions', n')"
    and "revisions_good current revisions"
  shows "revisions_good current revisions'"
  using assms
proof (induction raws arbitrary: revisions n)
  case (Cons raw raws)
  then show ?case
    by (auto simp: revisions_good_def dest!: replica_set_revision split: sum.splits replica_set.splits if_splits)
qed simp

lemma yields_revision_loop:
  "revisions_good current revisions \<Longrightarrow>
     yields (\<lambda>(revisions, n). revisions_good current revisions)
       (revision_loop c path (decodeDeploymentReplicaSetRevision reference uid current) pages query revisions n totalItems totalBytes seen)"
proof (induction pages arbitrary: query revisions n totalItems totalBytes seen)
  case 0
  show ?case by (simp add: yields_fail)
next
  case (Suc pages)
  show ?case
    unfolding revision_loop.simps
    by (intro yields_if yields_fail yields_then [OF yields_any] yields_case_prod
          yields_then [where Q = "\<lambda>(revisions, n). revisions_good current revisions", OF yields_result])
       (auto intro!: yields_rules Suc.IH dest: revision_rows_good [OF _ Suc.prems])
qed

definition history_good :: "DeploymentRevisionHistory \<Rightarrow> bool" where
  "history_good history \<longleftrightarrow>
     newest_revisions 20 (map dr_Revision (dh_Revisions history))
     \<and> list_all (\<lambda>r. dr_Current r \<longleftrightarrow> dr_Revision r = dh_CurrentRevision history) (dh_Revisions history)"

lemma bounded_history_good:
  assumes "revisions_good current revisions"
  shows "history_good (boundedDeploymentRevisionHistory reference current n revisions)"
proof -
  let ?sorted = "sort_slice (\<lambda>a b. dr_Revision a > dr_Revision b) revisions"
  have "sorted_wrt (\<lambda>a b. \<not> dr_Revision b > dr_Revision a) ?sorted"
    by (rule sorted_by_key [where key = "\<lambda>r. - dr_Revision r"]) simp
  moreover have "distinct (map dr_Revision ?sorted)"
    using assms distinct_map_mset [of ?sorted revisions dr_Revision] by (simp add: revisions_good_def)
  moreover have "list_all (\<lambda>r. 0 < dr_Revision r \<and> (dr_Current r \<longleftrightarrow> dr_Revision r = current)) ?sorted"
    using assms by (simp add: revisions_good_def list_all_iff)
  ultimately show ?thesis
    using newest_take [of dr_Revision ?sorted 20]
    by (auto simp: history_good_def boundedDeploymentRevisionHistory_def Let_def list_all_iff dest!: in_set_takeD)
qed

lemma yields_deployment_history: "yields history_good (kc_DeploymentRevisionHistory c reference)"
  unfolding kc_DeploymentRevisionHistory_def Let_def
  by (rule yields_guard, rule yields_then [OF yields_any], rule yields_case_prod, rule yields_then [OF yields_any],
      rule yields_then [OF yields_any], rule yields_then [OF yields_revision_loop])
     (auto simp: revisions_good_def [of _ "[]"] intro!: yields_return bounded_history_good)

text \<open>
  The histories are complete up to their limit and unambiguous: at most 10 revisions of a Helm
  release and 20 of a deployment, all positive, none twice, newest first; a deployment's revision is
  marked as current exactly when it is the one that the deployment's own annotation names.
\<close>

theorem histories_newest_first:
  "yields (\<lambda>history. newest_revisions 10 (map hv_Revision (hh_Revisions history))) (kc_HelmReleaseHistory c namespace releaseName)
   \<and> yields history_good (kc_DeploymentRevisionHistory c reference)"
  by (intro conjI yields_helm_history yields_deployment_history)

text \<open>
  The diagnostic reports agree with what they are made of. A kubelet is reported as blocking the
  next upgrade exactly when it is supported now and would no longer be once the API server is one minor
  version newer. An API server is reported as ready exactly when it answered so and every check passed,
  and the counts add up to the distinct checks listed. The class of the endpoint's certificate follows
  from the time left, which is shown in seconds rounded up and is positive exactly until it expires.
\<close>

theorem diagnostics_consistent:
  "(nk_Status (classifyNodeVersion name versionText apiServer kubelet) = NodeVersionUpgradeBlocking \<longleftrightarrow>
      supported_skew (nk_Status (classifyNodeVersion name versionText apiServer kubelet))
      \<and> nk_Status (classifyNodeVersion name versionText (apiServer\<lparr>kn_Minor := Suc (kn_Minor apiServer)\<rparr>) kubelet)
          = NodeVersionOutsidePolicy)
   \<and> (case parseAPIServerReadiness payload status now of Inl e \<Rightarrow> True | Inr report \<Rightarrow> readiness_consistent status report)
   \<and> certificate_consistent (projectEndpointCertificate leaf now)"
  using parse_readiness_consistent
  by (intro conjI blocking_iff project_certificate_consistent) (simp split: sum.split)

section \<open>Addresses\<close>

text \<open>
  The list of addresses of a service shows each address once, up to a limit. Its count is exact as
  long as nothing was cut; beyond the limit an address that is not shown is counted each time.
\<close>

lemma network_values_step:
  assumes "appendBoundedNetworkValue limit raw (shown, n) = (shown', n')"
    and "distinct shown \<and> [] \<notin> set shown \<and> length shown = min limit n"
  shows "distinct shown' \<and> [] \<notin> set shown' \<and> length shown' = min limit n'"
  using assms by (auto simp: appendBoundedNetworkValue_def Let_def split: if_splits)

lemma network_values_shown:
  "let (shown, n) = bounded_network_values limit raws in distinct shown \<and> [] \<notin> set shown \<and> length shown = min limit n"
proof -
  have "distinct shown \<and> [] \<notin> set shown \<and> length shown = min limit n \<Longrightarrow>
      (let (shown, n) = fold (appendBoundedNetworkValue limit) raws (shown, n) in
        distinct shown \<and> [] \<notin> set shown \<and> length shown = min limit n)" for shown n
  proof (induction raws arbitrary: shown n)
    case (Cons raw raws)
    obtain shown' n' where step: "appendBoundedNetworkValue limit raw (shown, n) = (shown', n')" by fastforce
    show ?case using Cons.IH [OF network_values_step [OF step Cons.prems]] step by simp
  qed simp
  then show ?thesis by (simp add: bounded_network_values_def)
qed

lemma cut_addresses_are_counted_again:
  "bounded_network_values 1 [''a'', ''b'', ''b''] = ([''a''], 3)"
proof -
  have "trim_space ''a'' = ''a''" "trim_space ''b'' = ''b''" by (simp_all add: trim_space_no_space index_func_ascii ascii_def is_space_def)
  then show ?thesis by (simp add: bounded_network_values_def appendBoundedNetworkValue_def)
qed

end
