(* ===== verification/Floats.thy ===== *)
theory Floats
  imports Governor "HOL-Library.Log_Nat"
begin

text \<open>
  \<^bold>\<open>Arithmetic of \<^verbatim>\<open>float64\<close>.\<close> The governor only compares its values; the sampler and
  \<^verbatim>\<open>time.ParseDuration\<close> also divide and multiply. The operands there are never negative, so this
  theory has the rounding of IEEE 754 for values from zero up: to the nearest multiple of the unit
  in the last place, ties to even, with gradual underflow and overflow to infinity.
\<close>

definition pow2 :: "int \<Rightarrow> rat" where
  "pow2 e = (if 0 \<le> e then 2 ^ nat e else 1 / 2 ^ nat (- e))"

definition nearest_even :: "rat \<Rightarrow> int" where
  "nearest_even z =
     (let low = \<lfloor>z\<rfloor>; rest = z - of_int low
      in if rest < 1 / 2 then low else if rest > 1 / 2 then low + 1
         else if even low then low else low + 1)"

text \<open>The exponent of the leading binary digit.\<close>

definition exponent2 :: "rat \<Rightarrow> int" where
  "exponent2 x = (if 1 \<le> x then bitlen \<lfloor>x\<rfloor> - 1 else - bitlen (\<lceil>1 / x\<rceil> - 1))"

definition ulp_exponent :: "rat \<Rightarrow> int" where
  "ulp_exponent x = max (exponent2 x - 52) (- 1074)"

definition round_value :: "rat \<Rightarrow> rat" where
  "round_value x = of_int (nearest_even (x / pow2 (ulp_exponent x))) * pow2 (ulp_exponent x)"

definition round64 :: "rat \<Rightarrow> float64" where
  "round64 x =
     (if x \<le> 0 then Fin 0 else if round_value x \<ge> 2 ^ 1024 then PosInf else Fin (round_value x))"

definition f_of_nat :: "nat \<Rightarrow> float64" where
  "f_of_nat n = round64 (of_nat n)"

fun f_div :: "float64 \<Rightarrow> float64 \<Rightarrow> float64" where
  "f_div (Fin a) (Fin b) = (if b = 0 then if a = 0 then NaN else PosInf else round64 (a / b))"
| "f_div (Fin a) PosInf = Fin 0"
| "f_div PosInf (Fin b) = PosInf"
| "f_div _ _ = NaN"

fun f_mul :: "float64 \<Rightarrow> float64 \<Rightarrow> float64" where
  "f_mul (Fin a) (Fin b) = round64 (a * b)"
| "f_mul (Fin a) PosInf = (if a = 0 then NaN else PosInf)"
| "f_mul PosInf (Fin b) = (if b = 0 then NaN else PosInf)"
| "f_mul PosInf PosInf = PosInf"
| "f_mul _ _ = NaN"

definition maxFloat64 :: rat where
  "maxFloat64 = (2 ^ 53 - 1) * 2 ^ 971"

section \<open>Powers and exponents\<close>

lemma pow2_pos [simp]: "0 < pow2 e" "0 \<le> pow2 e" "pow2 e \<noteq> 0"
  by (simp_all add: pow2_def)

lemma pow2_add: "pow2 (a + b) = pow2 a * pow2 b"
proof -
  have powi: "pow2 e = 2 powi e" for e by (simp add: pow2_def power_int_def field_simps power_one_over)
  show ?thesis by (simp add: powi power_int_add)
qed

lemma pow2_nat: "pow2 (int n) = 2 ^ n"
  by (simp add: pow2_def)

lemma pow2_mono: "a \<le> b \<Longrightarrow> pow2 a \<le> pow2 b"
  using pow2_add [of a "b - a"] pow2_nat [of "nat (b - a)"]
    mult_left_mono [of 1 "2 ^ nat (b - a)" "pow2 a"] by simp

lemma pow2_strict_mono: "a < b \<Longrightarrow> pow2 a < pow2 b"
  using pow2_mono [of "a + 1" b] pow2_add [of a 1] pow2_pos(1) [of a] by (simp add: pow2_def)

lemma pow2_multiple: "e \<le> k \<Longrightarrow> \<exists>m. pow2 k / pow2 e = of_int m"
proof -
  assume "e \<le> k"
  then have "pow2 k / pow2 e = of_int (2 ^ nat (k - e))"
    using pow2_add [of e "k - e"] pow2_nat [of "nat (k - e)"] by simp
  then show ?thesis by blast
qed

lemma pow2_whole: "0 \<le> k \<Longrightarrow> pow2 k = of_int (2 ^ nat k)"
  by (simp add: pow2_def)

lemma pow2_bitlen: "0 < n \<Longrightarrow> pow2 (bitlen n - 1) \<le> of_int n"
proof -
  assume n: "0 < n"
  then have "bitlen n \<noteq> 0" by (simp add: bitlen_eq_zero_iff)
  then have "pow2 (bitlen n - 1) = of_int (2 ^ nat (bitlen n - 1))"
    using bitlen_nonneg [of n] by (intro pow2_whole) linarith
  moreover have "2 ^ nat (bitlen n - 1) \<le> n" using bitlen_bounds [OF n] by blast
  ultimately show ?thesis by (simp only: of_int_le_iff)
qed

lemma exponent2_bounds:
  assumes "0 < x"
  shows "pow2 (exponent2 x) \<le> x" "x < pow2 (exponent2 x + 1)"
proof -
  have "pow2 (exponent2 x) \<le> x \<and> x < pow2 (exponent2 x + 1)"
  proof (cases "1 \<le> x")
    case True
    then have "0 < \<lfloor>x\<rfloor>" by simp
    from pow2_bitlen [OF this] have low: "pow2 (bitlen \<lfloor>x\<rfloor> - 1) \<le> x" by linarith
    have "\<lfloor>x\<rfloor> < 2 ^ nat (bitlen \<lfloor>x\<rfloor>)" using \<open>0 < \<lfloor>x\<rfloor>\<close> bitlen_bounds [of "\<lfloor>x\<rfloor>"] by auto
    then have "x < of_int (2 ^ nat (bitlen \<lfloor>x\<rfloor>))" by (simp only: floor_less_iff)
    then have "x < pow2 (bitlen \<lfloor>x\<rfloor>)" using bitlen_nonneg [of "\<lfloor>x\<rfloor>"] by (simp add: pow2_def)
    with low True show ?thesis by (simp add: exponent2_def)
  next
    case False
    let ?n = "\<lceil>1 / x\<rceil> - 1" and ?b = "bitlen (\<lceil>1 / x\<rceil> - 1)"
    have "1 < 1 / x" using False assms by simp
    then have n: "0 < ?n" by (simp add: less_ceiling_iff)
    have inv: "pow2 (- k) = 1 / pow2 k" for k using pow2_add [of k "- k"] by (simp add: pow2_def field_simps)
    have "?n < 2 ^ nat ?b" using n bitlen_bounds [of ?n] by auto
    then have "\<lceil>1 / x\<rceil> \<le> 2 ^ nat ?b" by simp
    then have "1 / x \<le> of_int (2 ^ nat ?b)" by (simp only: ceiling_le_iff)
    then have "1 / x \<le> pow2 ?b" using bitlen_nonneg [of ?n] by (simp add: pow2_def)
    then have "1 / pow2 ?b \<le> x" using assms by (simp add: field_simps)
    then have low: "pow2 (- ?b) \<le> x" by (simp only: inv)
    have "pow2 (?b - 1) \<le> of_int ?n" by (rule pow2_bitlen [OF n])
    moreover have "of_int ?n < 1 / x" by linarith
    ultimately have "pow2 (?b - 1) < 1 / x" by linarith
    then have "x < 1 / pow2 (?b - 1)" using assms by (simp add: field_simps)
    then have "x < pow2 (- ?b + 1)" using inv [of "?b - 1"] by simp
    with low False show ?thesis by (simp add: exponent2_def)
  qed
  then show "pow2 (exponent2 x) \<le> x" "x < pow2 (exponent2 x + 1)" by auto
qed

section \<open>Rounding\<close>

lemma nearest_even_error: "\<bar>of_int (nearest_even z) - z\<bar> \<le> 1 / 2"
proof -
  define rest where "rest = z - of_int \<lfloor>z\<rfloor>"
  have "0 \<le> rest" "rest < 1" unfolding rest_def by linarith+
  moreover have "nearest_even z =
      (if rest < 1 / 2 then \<lfloor>z\<rfloor> else if rest > 1 / 2 then \<lfloor>z\<rfloor> + 1
       else if even \<lfloor>z\<rfloor> then \<lfloor>z\<rfloor> else \<lfloor>z\<rfloor> + 1)"
    by (simp add: nearest_even_def rest_def Let_def)
  moreover have "z = of_int \<lfloor>z\<rfloor> + rest" by (simp add: rest_def)
  moreover consider "nearest_even z = \<lfloor>z\<rfloor>" "rest \<le> 1 / 2" | "nearest_even z = \<lfloor>z\<rfloor> + 1" "1 / 2 \<le> rest"
    using calculation(3) by (cases "rest < 1 / 2"; cases "rest > 1 / 2"; simp split: if_splits)
  ultimately show ?thesis by cases simp_all
qed

lemma nearest_even_int [simp]: "nearest_even (of_int m) = m"
  by (simp add: nearest_even_def)

lemma nearest_even_le: "z \<le> of_int m \<Longrightarrow> nearest_even z \<le> m"
proof -
  assume "z \<le> of_int m"
  then consider "z = of_int m" | "z < of_int m" by fastforce
  then show ?thesis
  proof cases
    case 2
    then have "\<lfloor>z\<rfloor> + 1 \<le> m" by (simp add: floor_less_iff flip: less_iff_succ_less_eq)
    then show ?thesis by (auto simp: nearest_even_def Let_def)
  qed simp
qed

lemma nearest_even_ge: "of_int m \<le> z \<Longrightarrow> m \<le> nearest_even z"
  using le_floor_iff [of m z] by (auto simp: nearest_even_def Let_def)

text \<open>Rounding does not cross a value that is itself a multiple of the unit in the last place.\<close>

lemma round_value_le:
  assumes "x \<le> b" "b / pow2 (ulp_exponent x) = of_int m"
  shows "round_value x \<le> b"
proof -
  let ?u = "pow2 (ulp_exponent x)"
  have "x / ?u \<le> of_int m" unfolding assms(2) [symmetric] using assms(1) by (simp add: divide_right_mono)
  then have "of_int (nearest_even (x / ?u)) \<le> (of_int m :: rat)" using nearest_even_le by simp
  then have "round_value x \<le> of_int m * ?u" by (simp add: round_value_def)
  then show ?thesis by (simp flip: assms(2))
qed

lemma round_value_nonneg: "0 \<le> x \<Longrightarrow> 0 \<le> round_value x"
  using nearest_even_ge [of 0 "x / pow2 (ulp_exponent x)"] by (simp add: round_value_def)

text \<open>The error of a normal result is at most half a unit in the last place.\<close>

lemma round_value_error:
  assumes "pow2 (- 1022) \<le> x"
  shows "\<bar>round_value x - x\<bar> \<le> x / 2 ^ 53"
proof -
  have pos: "0 < x" using assms pow2_pos(1) [of "- 1022"] by linarith
  have "pow2 (- 1022) < pow2 (exponent2 x + 1)" using assms exponent2_bounds(2) [OF pos] by linarith
  then have "- 1022 \<le> exponent2 x" using pow2_mono [of "exponent2 x + 1" "- 1022"] by linarith
  then have u: "ulp_exponent x = exponent2 x - 52" by (simp add: ulp_exponent_def)
  let ?u = "pow2 (ulp_exponent x)"
  have "round_value x - x = (of_int (nearest_even (x / ?u)) - x / ?u) * ?u"
    by (simp add: round_value_def left_diff_distrib)
  then have "\<bar>round_value x - x\<bar> \<le> 1 / 2 * ?u"
    using nearest_even_error [of "x / ?u"] by (simp add: abs_mult)
  moreover have "?u * 2 ^ 52 = pow2 (exponent2 x)"
    using pow2_add [of "exponent2 x - 52" 52] u by (simp add: pow2_def [of 52])
  ultimately show ?thesis using exponent2_bounds(1) [OF pos] by simp
qed

text \<open>Finite results.\<close>

definition finite_ratio :: "rat \<Rightarrow> float64 \<Rightarrow> bool" where
  "finite_ratio bound x = (case x of Fin r \<Rightarrow> 0 \<le> r \<and> r \<le> bound | _ \<Rightarrow> False)"

lemma exponent2_less: "0 < x \<Longrightarrow> x < pow2 k \<Longrightarrow> exponent2 x < k"
  using exponent2_bounds(1) [of x] pow2_mono [of k "exponent2 x"] by linarith

lemma round64_le_pow2:
  assumes "0 \<le> x" "x \<le> pow2 k" "- 1074 \<le> k" "k < 1024"
  shows "finite_ratio (pow2 k) (round64 x)"
proof (cases "x = 0")
  case False
  then have pos: "0 < x" using assms(1) by simp
  have "x < pow2 (k + 1)" using assms(2) pow2_strict_mono [of k "k + 1"] by linarith
  then have "exponent2 x \<le> k" using exponent2_less [OF pos, of "k + 1"] by simp
  then have "ulp_exponent x \<le> k" using assms(3) by (simp add: ulp_exponent_def)
  then obtain m where "pow2 k / pow2 (ulp_exponent x) = of_int m" using pow2_multiple by blast
  then have le: "round_value x \<le> pow2 k" by (rule round_value_le [OF assms(2)])
  moreover have "pow2 k < pow2 1024" using assms(4) by (rule pow2_strict_mono)
  then have "pow2 k < 2 ^ 1024" by (simp only: pow2_def) simp
  ultimately show ?thesis
    using pos round_value_nonneg [OF assms(1)] by (simp add: round64_def finite_ratio_def)
qed (simp add: round64_def finite_ratio_def)

lemma round_value_ge_pow2:
  assumes "0 < x" "ulp_exponent x = exponent2 x - 52"
  shows "pow2 (exponent2 x) \<le> round_value x"
proof -
  let ?u = "pow2 (ulp_exponent x)"
  have split: "pow2 (exponent2 x) = of_int (2 ^ 52) * ?u"
    using pow2_add [of "exponent2 x - 52" 52] assms(2) by (simp add: pow2_def [of 52])
  then have "of_int (2 ^ 52) \<le> x / ?u" using exponent2_bounds(1) [OF assms(1)] by (simp only: pos_le_divide_eq pow2_pos)
  then have "2 ^ 52 \<le> nearest_even (x / ?u)" by (rule nearest_even_ge)
  then have "of_int (2 ^ 52) \<le> (of_int (nearest_even (x / ?u)) :: rat)" by (simp only: of_int_le_iff)
  then show ?thesis unfolding round_value_def split by (rule mult_right_mono) simp
qed

lemma round64_ge_one:
  assumes "1 \<le> x" "x \<le> pow2 k" "k < 1024"
  shows "case round64 x of Fin r \<Rightarrow> 1 \<le> r | _ \<Rightarrow> False"
proof -
  have pos: "0 < x" using assms(1) by simp
  have "pow2 0 < pow2 (exponent2 x + 1)"
    using assms(1) exponent2_bounds(2) [OF pos] by (simp add: pow2_def [of 0])
  then have e: "0 \<le> exponent2 x" using pow2_mono [of "exponent2 x + 1" 0] by linarith
  then have "ulp_exponent x = exponent2 x - 52" by (simp add: ulp_exponent_def)
  then have "pow2 (exponent2 x) \<le> round_value x" by (rule round_value_ge_pow2 [OF pos])
  moreover have "1 \<le> pow2 (exponent2 x)" using pow2_mono [OF e] by (simp add: pow2_def [of 0])
  moreover have "finite_ratio (pow2 k) (round64 x)"
  proof (rule round64_le_pow2 [OF _ assms(2) _ assms(3)])
    have "pow2 0 \<le> pow2 k" using assms by (simp add: pow2_def [of 0])
    then show "- 1074 \<le> k" using pow2_strict_mono [of k 0] by linarith
  qed (use pos in simp)
  ultimately show ?thesis using pos by (auto simp: round64_def finite_ratio_def)
qed

lemma nearest_even_mono: "z \<le> w \<Longrightarrow> nearest_even z \<le> nearest_even w"
proof (cases "\<lfloor>z\<rfloor> = \<lfloor>w\<rfloor>")
  case True
  assume "z \<le> w"
  then have "z - of_int \<lfloor>w\<rfloor> \<le> w - of_int \<lfloor>w\<rfloor>" by simp
  then show ?thesis unfolding nearest_even_def Let_def True
    by (cases "z - of_int \<lfloor>w\<rfloor> < 1 / 2"; cases "w - of_int \<lfloor>w\<rfloor> > 1 / 2") auto
next
  case False
  assume "z \<le> w"
  then have "\<lfloor>z\<rfloor> + 1 \<le> \<lfloor>w\<rfloor>" using False floor_mono [of z w] by linarith
  moreover have "nearest_even z \<le> \<lfloor>z\<rfloor> + 1" "\<lfloor>w\<rfloor> \<le> nearest_even w" by (auto simp: nearest_even_def Let_def)
  ultimately show ?thesis by linarith
qed

lemma round_value_mono:
  assumes "0 < x" "x \<le> y"
  shows "round_value x \<le> round_value y"
proof (cases "ulp_exponent x = ulp_exponent y")
  case True
  have "x / pow2 (ulp_exponent y) \<le> y / pow2 (ulp_exponent y)" using assms(2) by (simp add: divide_right_mono)
  from nearest_even_mono [OF this] show ?thesis by (simp add: round_value_def True)
next
  case False
  have "y < pow2 (exponent2 y + 1)" using exponent2_bounds(2) [of y] assms by simp
  then have "exponent2 x \<le> exponent2 y" using exponent2_less [OF assms(1), of "exponent2 y + 1"] assms(2) by simp
  with False have u: "ulp_exponent y = exponent2 y - 52" "exponent2 x < exponent2 y" "ulp_exponent x \<le> exponent2 y"
    by (auto simp: ulp_exponent_def)
  have "x \<le> pow2 (exponent2 y)"
    using exponent2_bounds(2) [OF assms(1)] pow2_mono [of "exponent2 x + 1" "exponent2 y"] u(2) by simp
  moreover obtain m where "pow2 (exponent2 y) / pow2 (ulp_exponent x) = of_int m" using pow2_multiple [OF u(3)] by blast
  ultimately have "round_value x \<le> pow2 (exponent2 y)" by (rule round_value_le)
  also have "\<dots> \<le> round_value y" using assms by (intro round_value_ge_pow2 u(1)) simp
  finally show ?thesis .
qed

lemma finite_ratio_mono: "finite_ratio a x \<Longrightarrow> a \<le> b \<Longrightarrow> finite_ratio b x"
  by (auto simp: finite_ratio_def split: float64.splits)

lemma finite_ratio_safe: "finite_ratio b x \<Longrightarrow> safeRatio (Some x) = Some x"
  by (auto simp: finite_ratio_def safeRatio_def f_is_inf_def split: float64.splits)

text \<open>The quotient of two unsigned integers, and of a finite value and a positive integer.\<close>

lemma f_of_nat_bounds:
  assumes "n < 2 ^ 64"
  shows "finite_ratio (2 ^ 64) (f_of_nat n)" "0 < n \<Longrightarrow> \<exists>r. f_of_nat n = Fin r \<and> 1 \<le> r"
proof -
  have le: "of_nat n \<le> pow2 64"
    using assms of_nat_mono [of n "2 ^ 64", where 'a = rat] by (simp add: pow2_def)
  show "finite_ratio (2 ^ 64) (f_of_nat n)"
    using round64_le_pow2 [of "of_nat n" 64] le by (simp add: f_of_nat_def pow2_def)
  show "\<exists>r. f_of_nat n = Fin r \<and> 1 \<le> r" if "0 < n"
  proof -
    have "1 \<le> (of_nat n :: rat)" using that by simp
    from round64_ge_one [OF this le] show ?thesis by (auto simp: f_of_nat_def split: float64.splits)
  qed
qed

lemma f_div_bounds:
  assumes "finite_ratio (pow2 k) x" "0 < n" "n < 2 ^ 64" "- 1074 \<le> k" "k < 1024"
  shows "finite_ratio (pow2 k) (f_div x (f_of_nat n))"
proof -
  obtain d where d: "f_of_nat n = Fin d" "1 \<le> d" using f_of_nat_bounds(2) [OF assms(3,2)] by blast
  obtain a where a: "x = Fin a" "0 \<le> a" "a \<le> pow2 k"
    using assms(1) by (auto simp: finite_ratio_def split: float64.splits)
  have "a / d \<le> a" using d(2) a(2) by (simp add: divide_le_eq mult_le_cancel_left1)
  then have "finite_ratio (pow2 k) (round64 (a / d))"
    using a d by (intro round64_le_pow2 assms(4,5)) auto
  then show ?thesis using a d by simp
qed

lemma f_div_unit:
  assumes "m \<le> n" "0 < n" "n < 2 ^ 64"
  shows "finite_ratio 1 (f_div (f_of_nat m) (f_of_nat n))"
proof -
  obtain d where d: "f_of_nat n = Fin d" "1 \<le> d" using f_of_nat_bounds(2) [OF assms(3,2)] by blast
  obtain a where a: "f_of_nat m = Fin a" "0 \<le> a"
    using f_of_nat_bounds(1) [of m] assms by (auto simp: finite_ratio_def split: float64.splits)
  have "a \<le> d"
  proof (cases "m = 0")
    case True
    then show ?thesis using a d by (simp add: f_of_nat_def round64_def)
  next
    case False
    then have "round_value (of_nat m) \<le> round_value (of_nat n)" using assms by (intro round_value_mono) auto
    then show ?thesis using a d False assms by (auto simp: f_of_nat_def round64_def split: if_splits)
  qed
  then have "a / d \<le> pow2 0" using d(2) by (simp add: pow2_def)
  then have "finite_ratio (pow2 0) (round64 (a / d))" using a d by (intro round64_le_pow2) auto
  then show ?thesis using a d by (simp add: pow2_def)
qed

end
