(* ===== verification/Sampler.thy ===== *)
theory Sampler
  imports Floats "HOL-Library.Word"
begin

text \<open>
  \<^bold>\<open>Load samples\<close>: \<^verbatim>\<open>resourceguard/sampler.go\<close>. The files of the host, the number of
  processors and the metrics of the runtime are arguments; \<^verbatim>\<open>strconv.ParseFloat\<close> is a parameter.
  Unsigned integers have their width, and the ratios are rounded as \<^verbatim>\<open>float64\<close> values.
\<close>

section \<open>Texts\<close>

text \<open>\<^verbatim>\<open>strings.Fields\<close>, \<^verbatim>\<open>strings.TrimSuffix\<close> and \<^verbatim>\<open>strconv.ParseUint(s, 10, 64)\<close>.\<close>

fun field_words :: "(rune \<times> string) list \<Rightarrow> string \<Rightarrow> string list" where
  "field_words [] w = (if w = [] then [] else [w])"
| "field_words ((r, bytes) # segs) w =
     (if is_space r then (if w = [] then [] else [w]) @ field_words segs []
      else field_words segs (w @ bytes))"

definition Fields :: "string \<Rightarrow> string list" where
  "Fields s = field_words (rune_segs s) []"

definition trim_suffix :: "string \<Rightarrow> string \<Rightarrow> string" where
  "trim_suffix s p =
     (if length p \<le> length s \<and> drop (length s - length p) s = p then take (length s - length p) s else s)"

definition ParseUint :: "string \<Rightarrow> 64 word option" where
  "ParseUint s =
     (if s = [] \<or> \<not> list_all decimal_digit s \<or> digits_value s \<ge> 2 ^ 64 then None
      else Some (word_of_nat (digits_value s)))"

section \<open>The sampler\<close>

definition maxMetricFileBytes :: nat where
  "maxMetricFileBytes = 64 * 1024"

text \<open>\<open>ss_processMemory\<close> is \<open>None\<close> when the function is not set.\<close>

record systemSampler =
  ss_readFile :: "string \<Rightarrow> string result"
  ss_cpuCount :: int
  ss_processMemory :: "(64 word \<times> 64 word \<times> bool) option"

definition readSmallFile :: "(string \<Rightarrow> string result) \<Rightarrow> string \<Rightarrow> string result" where
  "readSmallFile osOpen path =
     (case osOpen path of
        Inl e \<Rightarrow> Inl e
      | Inr content \<Rightarrow>
          let payload = take (maxMetricFileBytes + 1) content
          in if length payload > maxMetricFileBytes then Inl (NewError ''metric file exceeds size limit'')
             else Inr payload)"

text \<open>A metric of another kind than \<^verbatim>\<open>KindUint64\<close> is \<open>None\<close>.\<close>

definition processMemoryUsage ::
  "64 word option \<Rightarrow> 64 word option \<Rightarrow> 64 word option \<Rightarrow> 64 word \<times> 64 word \<times> bool" where
  "processMemoryUsage totalBytes releasedBytes memoryLimit =
     (case (totalBytes, releasedBytes, memoryLimit) of
        (Some all, Some released, Some limit) \<Rightarrow>
          if released > all \<or> limit = 0 \<or> limit > 2 ^ 60 then (0, 0, False)
          else (all - released, limit, True)
      | _ \<Rightarrow> (0, 0, False))"

definition NewSystemSampler ::
  "(string \<Rightarrow> string result) \<Rightarrow> int \<Rightarrow> 64 word option \<Rightarrow> 64 word option \<Rightarrow> 64 word option \<Rightarrow> systemSampler" where
  "NewSystemSampler osOpen processors totalBytes releasedBytes memoryLimit =
     \<lparr>ss_readFile = readSmallFile osOpen, ss_cpuCount = processors,
      ss_processMemory = Some (processMemoryUsage totalBytes releasedBytes memoryLimit)\<rparr>"

definition divide :: "64 word \<Rightarrow> 64 word \<Rightarrow> float64 option" where
  "divide numerator denominator =
     (if denominator = 0 then None
      else Some (f_div (f_of_nat (unat numerator)) (f_of_nat (unat denominator))))"

definition readUint :: "systemSampler \<Rightarrow> string \<Rightarrow> 64 word option" where
  "readUint s path = (case ss_readFile s path of Inl _ \<Rightarrow> None | Inr payload \<Rightarrow> ParseUint (trim_space payload))"

definition cgroup_paths :: "(string \<times> string) list" where
  "cgroup_paths =
     [(''/sys/fs/cgroup/memory.current'', ''/sys/fs/cgroup/memory.max''),
      (''/sys/fs/cgroup/memory/memory.usage_in_bytes'', ''/sys/fs/cgroup/memory/memory.limit_in_bytes'')]"

fun cgroup_loop :: "systemSampler \<Rightarrow> (string \<times> string) list \<Rightarrow> float64 option" where
  "cgroup_loop s [] = None"
| "cgroup_loop s ((usedPath, limitPath) # rest) =
     (case (readUint s usedPath, ss_readFile s limitPath) of
        (Some used, Inr limitPayload) \<Rightarrow>
          if trim_space limitPayload = ''max'' then cgroup_loop s rest
          else (case ParseUint (trim_space limitPayload) of
              None \<Rightarrow> cgroup_loop s rest
            | Some limit \<Rightarrow>
                if limit = 0 \<or> limit > 2 ^ 60 then cgroup_loop s rest else divide used limit)
      | _ \<Rightarrow> cgroup_loop s rest)"

definition cgroupMemoryRatio :: "systemSampler \<Rightarrow> float64 option" where
  "cgroupMemoryRatio s = cgroup_loop s cgroup_paths"

fun meminfo_values :: "string list \<Rightarrow> (string \<rightharpoonup> 64 word) \<Rightarrow> (string \<rightharpoonup> 64 word)" where
  "meminfo_values [] found = found"
| "meminfo_values (line # lines) found =
     (case Fields line of
        f0 # f1 # _ \<Rightarrow>
          let key = trim_suffix f0 '':''
          in if key \<noteq> ''MemTotal'' \<and> key \<noteq> ''MemAvailable'' then meminfo_values lines found
             else (case ParseUint f1 of
                     None \<Rightarrow> meminfo_values lines found
                   | Some value \<Rightarrow> meminfo_values lines (found(key \<mapsto> value)))
      | _ \<Rightarrow> meminfo_values lines found)"

definition procMemoryRatio :: "systemSampler \<Rightarrow> float64 option" where
  "procMemoryRatio s =
     (case ss_readFile s ''/proc/meminfo'' of
        Inl _ \<Rightarrow> None
      | Inr payload \<Rightarrow>
          let found = meminfo_values (split_char CHR 0x0A payload) Map.empty
          in case (found ''MemTotal'', found ''MemAvailable'') of
               (Some all, Some available) \<Rightarrow>
                 if all = 0 \<or> available > all then None else divide (all - available) all
             | _ \<Rightarrow> None)"

definition procLoadRatio :: "(string \<Rightarrow> float64 option) \<Rightarrow> systemSampler \<Rightarrow> float64 option" where
  "procLoadRatio parseFloat s =
     (case ss_readFile s ''/proc/loadavg'' of
        Inl _ \<Rightarrow> None
      | Inr payload \<Rightarrow>
          case Fields payload of
            [] \<Rightarrow> None
          | f0 # _ \<Rightarrow>
              if ss_cpuCount s < 1 then None
              else case parseFloat f0 of
                None \<Rightarrow> None
              | Some load \<Rightarrow>
                  if load = NaN \<or> f_is_inf load \<or> f_less load (Fin 0) then None
                  else Some (f_div load (f_of_nat (nat (ss_cpuCount s)))))"

definition sampler_Sample :: "(string \<Rightarrow> float64 option) \<Rightarrow> systemSampler \<Rightarrow> Sample" where
  "sampler_Sample parseFloat s =
     \<lparr>sp_MemoryRatio =
        (case cgroupMemoryRatio s of
           Some ratio \<Rightarrow> Some ratio
         | None \<Rightarrow>
             (case procMemoryRatio s of
                Some ratio \<Rightarrow> Some ratio
              | None \<Rightarrow>
                  (case ss_processMemory s of
                     Some (used, limit, True) \<Rightarrow> divide used limit
                   | _ \<Rightarrow> None))),
      sp_LoadRatio = procLoadRatio parseFloat s\<rparr>"

section \<open>What a sample holds\<close>

definition ratio_within :: "rat \<Rightarrow> float64 option \<Rightarrow> bool" where
  "ratio_within bound r = (case r of None \<Rightarrow> True | Some x \<Rightarrow> finite_ratio bound x)"

lemma ratio_within_safe: "ratio_within b r \<Longrightarrow> safeRatio r = r"
  by (cases r) (auto simp: ratio_within_def finite_ratio_safe, simp add: safeRatio_def)

lemma unat_64: "unat (x :: 64 word) < 2 ^ 64"
  by (rule order.strict_trans2 [OF unsigned_less]) simp

lemma divide_within: "ratio_within (pow2 64) (divide used limit)"
proof (cases "limit = 0")
  case False
  have "finite_ratio (pow2 64) (f_of_nat (unat used))"
    using f_of_nat_bounds(1) [OF unat_64, of used] by (simp add: pow2_def)
  then have "finite_ratio (pow2 64) (f_div (f_of_nat (unat used)) (f_of_nat (unat limit)))"
    using False unat_64 [of limit] by (intro f_div_bounds) (simp_all add: unat_gt_0)
  then show ?thesis using False by (simp add: divide_def ratio_within_def)
qed (simp add: divide_def ratio_within_def)

lemma divide_unit: "a \<le> b \<Longrightarrow> b \<noteq> 0 \<Longrightarrow> ratio_within 1 (divide a b)"
  using f_div_unit [of "unat a" "unat b"] unat_64 [of b]
  by (simp add: divide_def ratio_within_def word_le_nat_alt unat_gt_0)

lemma ratio_within_None [simp]: "ratio_within b None"
  by (simp add: ratio_within_def)

lemma ratio_within_mono: "ratio_within a r \<Longrightarrow> a \<le> b \<Longrightarrow> ratio_within b r"
  by (auto simp: ratio_within_def finite_ratio_mono split: option.splits)

lemma cgroup_within: "ratio_within (pow2 64) (cgroupMemoryRatio s)"
proof -
  have "ratio_within (pow2 64) (cgroup_loop s ps)" for ps
    by (induction s ps rule: cgroup_loop.induct) (auto simp: divide_within split: option.splits sum.splits)
  then show ?thesis by (simp add: cgroupMemoryRatio_def)
qed

lemma procMemory_within: "ratio_within 1 (procMemoryRatio s)"
proof -
  have "ratio_within 1 (divide (all - available) all)" if "all \<noteq> 0" "\<not> available > all" for all available
  proof -
    have "all - available \<le> all" using that(2) by (simp add: word_sub_le_iff)
    then show ?thesis using that(1) by (rule divide_unit)
  qed
  then show ?thesis
    by (auto simp: procMemoryRatio_def Let_def split: sum.splits option.splits)
qed

text \<open>\<^verbatim>\<open>strconv.ParseFloat\<close> returns a \<^verbatim>\<open>float64\<close>: a finite result is at most the largest one.\<close>

definition parses_float64 :: "(string \<Rightarrow> float64 option) \<Rightarrow> bool" where
  "parses_float64 parseFloat \<longleftrightarrow>
     (\<forall>w. case parseFloat w of Some (Fin x) \<Rightarrow> x \<le> maxFloat64 | _ \<Rightarrow> True)"

lemma f_div_max:
  assumes "0 \<le> a" "a \<le> maxFloat64" "0 < n" "n < 2 ^ 64"
  shows "finite_ratio maxFloat64 (f_div (Fin a) (f_of_nat n))"
proof -
  obtain d where d: "f_of_nat n = Fin d" "1 \<le> d" using f_of_nat_bounds(2) [OF assms(4,3)] by blast
  have le: "a / d \<le> maxFloat64" using d(2) assms(1,2) by (simp add: divide_le_eq mult_le_cancel_left1 order.trans)
  show ?thesis
  proof (cases "a = 0")
    case False
    then have pos: "0 < a / d" using assms(1) d(2) by simp
    have "maxFloat64 < pow2 1024" by (simp add: maxFloat64_def pow2_def)
    then have "exponent2 (a / d) < 1024" using exponent2_less [OF pos, of 1024] le by simp
    then have "ulp_exponent (a / d) \<le> 971" by (simp add: ulp_exponent_def)
    then obtain m where m: "pow2 971 / pow2 (ulp_exponent (a / d)) = of_int m" using pow2_multiple by blast
    have "maxFloat64 = of_int (2 ^ 53 - 1) * pow2 971" by (simp add: maxFloat64_def pow2_def)
    then have "maxFloat64 / pow2 (ulp_exponent (a / d)) = of_int (2 ^ 53 - 1) * (pow2 971 / pow2 (ulp_exponent (a / d)))"
      by (simp only: times_divide_eq_right)
    also have "\<dots> = of_int ((2 ^ 53 - 1) * m)" by (simp only: m of_int_mult)
    finally have "maxFloat64 / pow2 (ulp_exponent (a / d)) = of_int ((2 ^ 53 - 1) * m)" .
    then have "round_value (a / d) \<le> maxFloat64" by (rule round_value_le [OF le])
    moreover have "maxFloat64 < 2 ^ 1024" by (simp add: maxFloat64_def)
    ultimately show ?thesis
      using pos d round_value_nonneg [of "a / d"] by (simp add: round64_def finite_ratio_def)
  qed (use d in \<open>simp add: round64_def finite_ratio_def maxFloat64_def\<close>)
qed

lemma procLoad_within:
  assumes "parses_float64 parseFloat" "ss_cpuCount s < 2 ^ 63"
  shows "ratio_within maxFloat64 (procLoadRatio parseFloat s)"
proof -
  have "finite_ratio maxFloat64 (f_div load (f_of_nat (nat (ss_cpuCount s))))"
    if load: "parseFloat w = Some load" "load \<noteq> NaN" "\<not> f_is_inf load" "\<not> f_less load (Fin 0)" "\<not> ss_cpuCount s < 1" for w load
  proof -
    obtain a where a: "load = Fin a" "0 \<le> a" using load(2-4) by (cases load) (auto simp: f_is_inf_def)
    then have "a \<le> maxFloat64" using assms(1) load(1) by (auto simp: parses_float64_def dest: spec [of _ w])
    then show ?thesis using a assms(2) load(5) by (simp only: a(1)) (rule f_div_max; simp add: nat_less_iff)
  qed
  then show ?thesis
    by (auto simp: procLoadRatio_def ratio_within_def split: sum.splits list.splits option.splits)
qed

text \<open>
  (C33) Whatever the files of the host and the runtime say, a sample holds only finite ratios that
  are not negative, so that the governor discards none of them; the memory ratio is at most 2 to the
  power of 64, and where it is the share that is read from \<^verbatim>\<open>/proc/meminfo\<close> it is at most one, also
  after rounding. The shares of a cgroup limit and of the memory limit of the process may exceed one.
\<close>

theorem samples_are_usable:
  assumes "parses_float64 parseFloat" "processors < 2 ^ 63"
  shows "let s = NewSystemSampler osOpen processors totalBytes releasedBytes memoryLimit;
             sample = sampler_Sample parseFloat s
         in ratio_within (pow2 64) (sp_MemoryRatio sample)
            \<and> ratio_within maxFloat64 (sp_LoadRatio sample)
            \<and> ratio_within 1 (procMemoryRatio s)
            \<and> safeRatio (sp_MemoryRatio sample) = sp_MemoryRatio sample
            \<and> safeRatio (sp_LoadRatio sample) = sp_LoadRatio sample"
proof -
  define s where "s = NewSystemSampler osOpen processors totalBytes releasedBytes memoryLimit"
  have load: "ratio_within maxFloat64 (sp_LoadRatio (sampler_Sample parseFloat s))"
    using procLoad_within [OF assms(1), of s] assms(2) by (simp add: sampler_Sample_def s_def NewSystemSampler_def)
  have "(1 :: rat) \<le> pow2 64" by (simp add: pow2_def)
  then have "ratio_within (pow2 64) (procMemoryRatio s)" by (rule ratio_within_mono [OF procMemory_within])
  then have memory: "ratio_within (pow2 64) (sp_MemoryRatio (sampler_Sample parseFloat s))"
    using cgroup_within [of s]
    by (auto simp: sampler_Sample_def divide_within split: option.splits prod.splits bool.splits)
  show ?thesis unfolding Let_def s_def [symmetric]
    using load memory procMemory_within ratio_within_safe [OF load] ratio_within_safe [OF memory] by blast
qed

definition sample_host :: "string \<Rightarrow> string result" where
  "sample_host path =
     (if path = ''/proc/meminfo'' then Inr (''MemTotal: 16 kB'' @ [CHR 0x0A] @ ''MemAvailable: 4 kB'')
      else if path = ''/proc/loadavg'' then Inr ''1.5 0.9 0.7'' else Inl (NewError ''no such file''))"

definition sample_parseFloat :: "string \<Rightarrow> float64 option" where
  "sample_parseFloat w = (if w = ''1.5'' then Some (Fin (3 / 2)) else None)"

theorem samples_are_usable_witness:
  "parses_float64 sample_parseFloat \<and> sample_parseFloat ''1.5'' = Some (Fin (3 / 2))
   \<and> (let s = NewSystemSampler sample_host 2 (Some 4096) (Some 1024) (Some 8192);
          sample = sampler_Sample sample_parseFloat s
      in ratio_within (pow2 64) (sp_MemoryRatio sample)
         \<and> ratio_within maxFloat64 (sp_LoadRatio sample)
         \<and> ratio_within 1 (procMemoryRatio s)
         \<and> safeRatio (sp_MemoryRatio sample) = sp_MemoryRatio sample
         \<and> safeRatio (sp_LoadRatio sample) = sp_LoadRatio sample)"
proof -
  have parses: "parses_float64 sample_parseFloat"
    by (simp add: parses_float64_def sample_parseFloat_def maxFloat64_def)
  have count: "(2 :: int) < 2 ^ 63" by simp
  show ?thesis
    using parses samples_are_usable [OF parses count, of sample_host "Some 4096" "Some 1024" "Some 8192"]
    by (simp only: sample_parseFloat_def simp_thms if_True)
qed

end
