(* ===== verification/Configuration.thy ===== *)
theory Configuration
  imports Api Sampler
begin

text \<open>
  \<^bold>\<open>Configuration and start\<close>: \<^verbatim>\<open>internal/config/config.go\<close>, the wiring of the parts in
  \<^verbatim>\<open>cmd/panel/main.go\<close>, and \<^verbatim>\<open>cmd/panelctl/main.go\<close>, which prints an encryption key and a
  password hash for the configuration. The environment is a function from names to values. The
  parser of address prefixes is a parameter, as in \<open>Outbound\<close>.
\<close>

section \<open>Padded base64\<close>

text \<open>
  \<^verbatim>\<open>base64.StdEncoding\<close>: the last group is filled up with padding, which the decoder asks for and
  after which it accepts only line breaks.
\<close>

definition StdEncodeToString :: "string \<Rightarrow> string" where
  "StdEncodeToString src =
     EncodeToString RawStdEncoding src
     @ (if length src mod 3 = 1 then ''=='' else if length src mod 3 = 2 then ''='' else [])"

definition StdDecodeString :: "string \<Rightarrow> string option" where
  "StdDecodeString s =
     (let digits = filter (\<lambda>c. c \<notin> {CHR 0x0A, CHR 0x0D}) s;
          body = takeWhile (\<lambda>c. c \<noteq> CHR ''='') digits;
          padding = dropWhile (\<lambda>c. c \<noteq> CHR ''='') digits
      in if length body mod 4 = 0 \<and> padding = [] \<or> length body mod 4 = 2 \<and> padding = ''==''
            \<or> length body mod 4 = 3 \<and> padding = ''=''
         then DecodeString RawStdEncoding body else None)"

section \<open>Durations\<close>

text \<open>
  \<^verbatim>\<open>time.ParseDuration\<close>: a sign, then numbers with units. Numbers are unsigned and limited to
  \<open>2\<^sup>6\<^sup>3\<close>; digits of a fraction that do not fit any more are dropped. A fraction is scaled in
  \<^verbatim>\<open>float64\<close> and cut to whole nanoseconds.
\<close>

fun leadingInt :: "string \<Rightarrow> nat \<Rightarrow> (nat \<times> string) option" where
  "leadingInt [] x = Some (x, [])"
| "leadingInt (c # s) x =
     (if \<not> decimal_digit c then Some (x, c # s)
      else if x > 2 ^ 63 div 10 then None
      else let y = x * 10 + (of_char c - 48) in if y > 2 ^ 63 then None else leadingInt s y)"

fun leadingFraction :: "string \<Rightarrow> nat \<Rightarrow> float64 \<Rightarrow> bool \<Rightarrow> nat \<times> float64 \<times> string" where
  "leadingFraction [] x scale overflow = (x, scale, [])"
| "leadingFraction (c # s) x scale overflow =
     (if \<not> decimal_digit c then (x, scale, c # s)
      else if overflow \<or> x > (2 ^ 63 - 1) div 10 then leadingFraction s x scale True
      else let y = x * 10 + (of_char c - 48)
           in if y > 2 ^ 63 then leadingFraction s x scale True
              else leadingFraction s y (f_mul scale (Fin 10)) False)"

definition unitMap :: "(string \<times> nat) list" where
  "unitMap =
     [(''ns'', 1), (''us'', 1000), ([CHR 0xC2, CHR 0xB5, CHR ''s''], 1000),
      ([CHR 0xCE, CHR 0xBC, CHR ''s''], 1000), (''ms'', 1000000), (''s'', 1000000000),
      (''m'', 60000000000), (''h'', 3600000000000)]"

text \<open>\<^verbatim>\<open>uint64(x)\<close> for a value in range.\<close>

fun f_truncate :: "float64 \<Rightarrow> nat" where
  "f_truncate (Fin x) = nat \<lfloor>x\<rfloor>"
| "f_truncate _ = 0"

definition fraction_value :: "nat \<Rightarrow> nat \<Rightarrow> float64 \<Rightarrow> nat" where
  "fraction_value f unit scale =
     (if f > 0 then f_truncate (f_mul (f_of_nat f) (f_div (f_of_nat unit) scale)) else 0)"

text \<open>The optional fraction: its digits, its scale, what follows, and whether there was a digit.\<close>

definition duration_fraction :: "string \<Rightarrow> nat \<times> float64 \<times> string \<times> bool" where
  "duration_fraction s =
     (if s \<noteq> [] \<and> hd s = CHR ''.''
      then case leadingFraction (tl s) 0 (Fin 1) False of
             (f, scale, rest) \<Rightarrow> (f, scale, rest, length rest \<noteq> length (tl s))
      else (0, Fin 1, s, False))"

definition unit_char :: "char \<Rightarrow> bool" where
  "unit_char c \<longleftrightarrow> c \<noteq> CHR ''.'' \<and> \<not> decimal_digit c"

text \<open>One number with its unit: its nanoseconds and what follows.\<close>

definition duration_term :: "string \<Rightarrow> (nat \<times> string) option" where
  "duration_term s =
     (if unit_char (hd s) then None
      else case leadingInt s 0 of
        None \<Rightarrow> None
      | Some (v, s1) \<Rightarrow>
          (let pre = (length s1 \<noteq> length s);
               (f, scale, s2, post) = duration_fraction s1;
               name = takeWhile unit_char s2;
               rest = dropWhile unit_char s2
           in if \<not> pre \<and> \<not> post \<or> name = [] then None
              else case map_of unitMap name of
                None \<Rightarrow> None
              | Some unit \<Rightarrow>
                  if v > 2 ^ 63 div unit then None
                  else let v = v * unit + fraction_value f unit scale
                       in if v > 2 ^ 63 then None else Some (v, rest)))"

lemma leadingInt_length: "leadingInt s x = Some (y, rest) \<Longrightarrow> length rest \<le> length s"
proof (induction s arbitrary: x)
  case (Cons c s)
  then show ?case by (auto simp: Let_def le_SucI split: if_split_asm)
qed simp

lemma leadingFraction_length: "leadingFraction s x scale overflow = (y, scale', rest) \<Longrightarrow> length rest \<le> length s"
proof (induction s arbitrary: x scale overflow)
  case (Cons c s)
  then show ?case by (auto simp: Let_def le_SucI split: if_split_asm)
qed simp

lemma duration_fraction_length: "duration_fraction s = (f, scale, rest, post) \<Longrightarrow> length rest \<le> length s"
  by (cases s) (auto simp: duration_fraction_def le_SucI dest: leadingFraction_length split: if_split_asm prod.split_asm)

lemma duration_term_length: "duration_term s = Some (v, rest) \<Longrightarrow> length rest < length s"
proof -
  assume some: "duration_term s = Some (v, rest)"
  then obtain v1 s1 where s1: "leadingInt s 0 = Some (v1, s1)"
    by (auto simp: duration_term_def split: if_split_asm option.split_asm)
  obtain f scale s2 post where s2: "duration_fraction s1 = (f, scale, s2, post)" by (cases "duration_fraction s1")
  have "takeWhile unit_char s2 \<noteq> []" "rest = dropWhile unit_char s2"
    using some by (auto simp: duration_term_def s1 s2 Let_def split: if_split_asm option.split_asm)
  moreover have "length (takeWhile unit_char s2) + length (dropWhile unit_char s2) = length s2"
    by (metis length_append takeWhile_dropWhile_id)
  ultimately have "length rest < length s2" by (metis add.commute length_greater_0_conv less_add_same_cancel1)
  then show ?thesis using leadingInt_length [OF s1] duration_fraction_length [OF s2] by linarith
qed

function duration_loop :: "string \<Rightarrow> nat \<Rightarrow> nat option" where
  "duration_loop s d =
     (if s = [] then Some d
      else case duration_term s of
        None \<Rightarrow> None
      | Some (v, rest) \<Rightarrow>
          let d = (d + v) mod 2 ^ 64 in if d > 2 ^ 63 then None else duration_loop rest d)"
  by auto
termination by (relation "measure (length \<circ> fst)") (auto dest: duration_term_length)

definition ParseDuration :: "string \<Rightarrow> duration option" where
  "ParseDuration s =
     (let (neg, s) = (case s of
            c # cs \<Rightarrow> if c = CHR ''-'' then (True, cs) else if c = CHR ''+'' then (False, cs) else (False, s)
          | [] \<Rightarrow> (False, []))
      in if s = ''0'' then Some 0
         else if s = [] then None
         else case duration_loop s 0 of
           None \<Rightarrow> None
         | Some d \<Rightarrow>
             if neg then Some (- int d) else if d > 2 ^ 63 - 1 then None else Some (int d))"

section \<open>Settings\<close>

record panelConfig =
  pcf_ListenAddr :: string
  pcf_DataFile :: string
  pcf_WebDir :: string
  pcf_EncryptionKey :: string
  pcf_AdminUsername :: string
  pcf_AdminPasswordHash :: string
  pcf_SessionTTL :: duration
  pcf_HelmTimeout :: duration
  pcf_HelmWorkers :: int
  pcf_OperationQueueSize :: int
  pcf_AdaptiveOperations :: bool
  pcf_KubernetesReadConcurrency :: int
  pcf_KubernetesClientCacheSize :: int
  pcf_KubernetesClientCacheTTL :: duration
  pcf_MaxConcurrentRequests :: int
  pcf_AllowedPrivateCIDRs :: "Prefix list"
  pcf_SecureCookies :: bool
  pcf_LogLevel :: string

definition valueOrDefault :: "string \<Rightarrow> string \<Rightarrow> string" where
  "valueOrDefault value fallback = (if trim_space value = [] then fallback else trim_space value)"

definition durationOrDefault :: "string \<Rightarrow> duration \<Rightarrow> duration option" where
  "durationOrDefault value fallback =
     (if trim_space value = [] then Some fallback else ParseDuration (trim_space value))"

definition intOrDefault :: "string \<Rightarrow> int \<Rightarrow> int option" where
  "intOrDefault value fallback = (if trim_space value = [] then Some fallback else Atoi (trim_space value))"

definition boolOrDefault :: "string \<Rightarrow> bool \<Rightarrow> bool option" where
  "boolOrDefault value fallback = (if trim_space value = [] then Some fallback else ParseBool (trim_space value))"

definition validateListenAddress :: "string \<Rightarrow> go_error option" where
  "validateListenAddress address =
     (case SplitHostPort address of
        None \<Rightarrow> Some (Wrapped ''PANEL_LISTEN_ADDR must be host:port'' (NewError ''invalid address''))
      | Some (_, port) \<Rightarrow>
          (case Atoi port of
             Some numericPort \<Rightarrow>
               if numericPort < 1 \<or> numericPort > 65535
               then Some (NewError ''PANEL_LISTEN_ADDR port must be between 1 and 65535'') else None
           | None \<Rightarrow> Some (NewError ''PANEL_LISTEN_ADDR port must be between 1 and 65535'')))"

text \<open>A parsed value that is checked: a parse error and a value out of range give the same error.\<close>

definition checked_setting :: "'a option \<Rightarrow> ('a \<Rightarrow> bool) \<Rightarrow> string \<Rightarrow> 'a result" where
  "checked_setting parsed ok message =
     (case parsed of Some x \<Rightarrow> if ok x then Inr x else Inl (NewError message) | None \<Rightarrow> Inl (NewError message))"

definition between :: "int \<Rightarrow> int \<Rightarrow> int \<Rightarrow> bool" where
  "between low high x \<longleftrightarrow> low \<le> x \<and> x \<le> high"

definition Load :: "(string \<Rightarrow> Prefix result) \<Rightarrow> (string \<Rightarrow> string) option \<Rightarrow> panelConfig result" where
  "Load parsePrefix reader =
     (case reader of
        None \<Rightarrow> Inl (NewError ''environment reader is required'')
      | Some getenv \<Rightarrow>
     (let listenAddr = valueOrDefault (getenv ''PANEL_LISTEN_ADDR'') ''127.0.0.1:8080'';
          dataFile = valueOrDefault (getenv ''PANEL_DATA_FILE'') ''./data/panel.json'';
          webDir = valueOrDefault (getenv ''PANEL_WEB_DIR'') ''./web/dist'';
          adminUsername = valueOrDefault (getenv ''PANEL_ADMIN_USERNAME'') ''admin'';
          adminPasswordHash = trim_space (getenv ''PANEL_ADMIN_PASSWORD_HASH'');
          logLevel = valueOrDefault (getenv ''PANEL_LOG_LEVEL'') ''info'';
          encodedKey = trim_space (getenv ''PANEL_ENCRYPTION_KEY'')
      in case validateListenAddress listenAddr of
           Some e \<Rightarrow> Inl e
         | None \<Rightarrow>
      ensure (dataFile \<noteq> [] \<and> webDir \<noteq> []) (NewError ''data file and web directory must not be empty'')
     (ensure (encodedKey \<noteq> []) (NewError ''PANEL_ENCRYPTION_KEY is required'')
     (rthen (checked_setting (StdDecodeString encodedKey) (\<lambda>key. length key = 32)
              ''PANEL_ENCRYPTION_KEY must be Base64 for exactly 32 bytes'') (\<lambda>key.
      ensure (has_prefix adminPasswordHash ''$argon2id$'')
        (NewError ''PANEL_ADMIN_PASSWORD_HASH must be an Argon2id encoded hash'')
     (ensure (trim_space adminUsername \<noteq> []) (NewError ''PANEL_ADMIN_USERNAME must not be empty'')
     (rthen (checked_setting (durationOrDefault (getenv ''PANEL_SESSION_TTL'') (8 * hour))
              (\<lambda>d. 0 < d \<and> d \<le> 24 * hour)
              ''PANEL_SESSION_TTL must be greater than zero and at most 24h'') (\<lambda>sessionTTL.
      rthen (checked_setting (durationOrDefault (getenv ''PANEL_HELM_TIMEOUT'') (5 * minute))
              (between (10 * second) (30 * minute))
              ''PANEL_HELM_TIMEOUT must be between 10s and 30m'') (\<lambda>helmTimeout.
      rthen (checked_setting (intOrDefault (getenv ''PANEL_HELM_WORKERS'') 2) (between 1 8)
              ''PANEL_HELM_WORKERS must be between 1 and 8'') (\<lambda>helmWorkers.
      rthen (checked_setting (intOrDefault (getenv ''PANEL_OPERATION_QUEUE_SIZE'') 64) (between 1 128)
              ''PANEL_OPERATION_QUEUE_SIZE must be between 1 and 128'') (\<lambda>queueSize.
      rthen (checked_setting (boolOrDefault (getenv ''PANEL_ADAPTIVE_OPERATIONS'') True) (\<lambda>_. True)
              ''PANEL_ADAPTIVE_OPERATIONS must be true or false'') (\<lambda>adaptive.
      rthen (checked_setting (intOrDefault (getenv ''PANEL_KUBERNETES_READ_CONCURRENCY'') 4) (between 1 32)
              ''PANEL_KUBERNETES_READ_CONCURRENCY must be between 1 and 32'') (\<lambda>readConcurrency.
      rthen (checked_setting (intOrDefault (getenv ''PANEL_KUBERNETES_CLIENT_CACHE_SIZE'') 8) (between 1 64)
              ''PANEL_KUBERNETES_CLIENT_CACHE_SIZE must be between 1 and 64'') (\<lambda>cacheSize.
      rthen (checked_setting (durationOrDefault (getenv ''PANEL_KUBERNETES_CLIENT_CACHE_TTL'') (10 * minute))
              (between minute hour)
              ''PANEL_KUBERNETES_CLIENT_CACHE_TTL must be between 1m and 1h'') (\<lambda>cacheTTL.
      rthen (checked_setting (intOrDefault (getenv ''PANEL_MAX_CONCURRENT_REQUESTS'') 16) (between 1 128)
              ''PANEL_MAX_CONCURRENT_REQUESTS must be between 1 and 128'') (\<lambda>maxRequests.
      rthen (ParseAllowedPrefixes parsePrefix (getenv ''PANEL_ALLOWED_PRIVATE_CIDRS'')) (\<lambda>allowed.
      rthen (if trim_space (getenv ''PANEL_SECURE_COOKIES'') \<noteq> []
             then checked_setting (ParseBool (trim_space (getenv ''PANEL_SECURE_COOKIES''))) (\<lambda>_. True)
               ''PANEL_SECURE_COOKIES must be true or false''
             else Inr False) (\<lambda>secureCookies.
      ensure (logLevel = ''debug'' \<or> logLevel = ''info'' \<or> logLevel = ''warn'' \<or> logLevel = ''error'')
        (NewError ''PANEL_LOG_LEVEL must be debug, info, warn or error'')
       (Inr \<lparr>pcf_ListenAddr = listenAddr, pcf_DataFile = dataFile, pcf_WebDir = webDir,
             pcf_EncryptionKey = key, pcf_AdminUsername = adminUsername,
             pcf_AdminPasswordHash = adminPasswordHash, pcf_SessionTTL = sessionTTL,
             pcf_HelmTimeout = helmTimeout, pcf_HelmWorkers = helmWorkers,
             pcf_OperationQueueSize = queueSize, pcf_AdaptiveOperations = adaptive,
             pcf_KubernetesReadConcurrency = readConcurrency,
             pcf_KubernetesClientCacheSize = cacheSize, pcf_KubernetesClientCacheTTL = cacheTTL,
             pcf_MaxConcurrentRequests = maxRequests, pcf_AllowedPrivateCIDRs = allowed,
             pcf_SecureCookies = secureCookies, pcf_LogLevel = logLevel\<rparr>)))))))))))))))))))"

section \<open>The command panelctl\<close>

definition buildinfo_String :: "string \<Rightarrow> string \<Rightarrow> string \<Rightarrow> string" where
  "buildinfo_String version revision name = name @ '' '' @ version @ '' (commit '' @ revision @ '')''"

definition trim_newlines :: "string \<Rightarrow> string" where
  "trim_newlines s = rev (dropWhile (\<lambda>c. c \<in> {CHR 0x0A, CHR 0x0D}) (rev s))"

text \<open>The exit status and what is printed; \<open>stdin\<close> is what can be read from the standard input.\<close>

definition panelctl ::
  "string \<Rightarrow> string \<Rightarrow> argon2 \<Rightarrow> random_source \<Rightarrow> string result \<Rightarrow> string list \<Rightarrow> nat \<times> string" where
  "panelctl version revision idKey random stdin args =
     (case args of
        [_, command] \<Rightarrow>
          if command = ''version'' \<or> command = ''--version''
          then (0, buildinfo_String version revision ''panelctl'' @ [CHR 0x0A])
          else if command = ''encryption-key''
          then (case random 32 of None \<Rightarrow> (1, []) | Some key \<Rightarrow> (0, StdEncodeToString key @ [CHR 0x0A]))
          else if command = ''hash-password''
          then (case stdin of
                  Inl _ \<Rightarrow> (1, [])
                | Inr content \<Rightarrow>
                    let input = take 1025 content
                    in if length input > 1024 then (1, [])
                       else (case Hash idKey random DefaultPasswordParams (trim_newlines input) of
                               Inl _ \<Rightarrow> (1, [])
                             | Inr hash \<Rightarrow> (0, hash @ [CHR 0x0A])))
          else (2, [])
      | _ \<Rightarrow> (2, []))"

section \<open>Start of the panel\<close>

definition DefaultHighWatermark :: float64 where
  "DefaultHighWatermark = round64 (4 / 5)"

definition DefaultCriticalWatermark :: float64 where
  "DefaultCriticalWatermark = round64 (19 / 20)"

record 'gw Panel =
  pnl_server :: "'gw Server"
  pnl_cipher :: AEAD
  pnl_policy :: Policy
  pnl_settings :: panelConfig

definition default_governor :: "bool \<Rightarrow> int \<Rightarrow> Config" where
  "default_governor adaptive maximum =
     \<lparr>cf_Enabled = adaptive, cf_MaxConcurrent = maximum, cf_HighWatermark = DefaultHighWatermark,
      cf_CriticalWatermark = DefaultCriticalWatermark, cf_RetryInterval = 0\<rparr>"

text \<open>What is fatal is reported with the stage it happened in.\<close>

definition start_stage :: "string \<Rightarrow> 'a result \<Rightarrow> ('a \<Rightarrow> (string \<times> go_error) + 'b) \<Rightarrow> (string \<times> go_error) + 'b" where
  "start_stage what r k = (case r of Inl e \<Rightarrow> Inl (what, e) | Inr x \<Rightarrow> k x)"

definition start_panel ::
  "(string \<Rightarrow> Prefix result) \<Rightarrow> (string \<Rightarrow> 'block result) \<Rightarrow> ('block \<Rightarrow> AEAD result)
     \<Rightarrow> (string \<Rightarrow> Addr option) \<Rightarrow> (net_event list \<Rightarrow> string \<Rightarrow> string list result) \<Rightarrow> io_faults \<Rightarrow> io_faults \<Rightarrow> gtime
     \<Rightarrow> (string \<Rightarrow> disk_file) \<Rightarrow> (string \<Rightarrow> string) \<Rightarrow> (string \<times> go_error) + 'gw Panel" where
  "start_panel parsePrefix aesNewCipher newGCM parseAddr resolver io1 io2 now disks getenv =
     start_stage ''load configuration'' (Load parsePrefix (Some getenv)) (\<lambda>settings.
     start_stage ''open data store''
       (Open io1 io2 now (disks (pcf_DataFile settings)) (pcf_DataFile settings)) (\<lambda>fileStore.
     start_stage ''initialize encryption'' (NewCipher aesNewCipher newGCM (pcf_EncryptionKey settings)) (\<lambda>cipher.
     start_stage ''initialize sessions''
       (NewSessionManager (pcf_AdminUsername settings) (pcf_AdminPasswordHash settings)
          (pcf_SessionTTL settings) True) (\<lambda>sessions.
     start_stage ''initialize operation resource governor''
       (governor_New (default_governor (pcf_AdaptiveOperations settings) (pcf_HelmWorkers settings)))
       (\<lambda>operationGovernor.
     start_stage ''initialize Kubernetes read resource governor''
       (governor_New (default_governor (pcf_AdaptiveOperations settings)
          (pcf_KubernetesReadConcurrency settings))) (\<lambda>readGovernor.
     start_stage ''initialize platform service''
       (service_New True True (pcf_OperationQueueSize settings) (pcf_KubernetesClientCacheSize settings)
          (pcf_KubernetesClientCacheTTL settings) fileStore operationGovernor readGovernor) (\<lambda>service.
     start_stage ''initialize HTTP API''
       (http_New True True (pcf_WebDir settings) (pcf_SecureCookies settings)
          (pcf_MaxConcurrentRequests settings) service sessions) (\<lambda>handler.
     Inr \<lparr>pnl_server = handler, pnl_cipher = cipher,
          pnl_policy = NewPolicy parseAddr resolver (pcf_AllowedPrivateCIDRs settings),
          pnl_settings = settings\<rparr>))))))))"

section \<open>Bounds of the settings\<close>

definition settings_within :: "panelConfig \<Rightarrow> bool" where
  "settings_within c \<longleftrightarrow>
     length (pcf_EncryptionKey c) = 32 \<and> has_prefix (pcf_AdminPasswordHash c) ''$argon2id$''
     \<and> trim_space (pcf_AdminUsername c) \<noteq> [] \<and> pcf_DataFile c \<noteq> [] \<and> pcf_WebDir c \<noteq> []
     \<and> validateListenAddress (pcf_ListenAddr c) = None
     \<and> 0 < pcf_SessionTTL c \<and> pcf_SessionTTL c \<le> 24 * hour
     \<and> between (10 * second) (30 * minute) (pcf_HelmTimeout c)
     \<and> between 1 8 (pcf_HelmWorkers c) \<and> between 1 128 (pcf_OperationQueueSize c)
     \<and> between 1 32 (pcf_KubernetesReadConcurrency c) \<and> between 1 64 (pcf_KubernetesClientCacheSize c)
     \<and> between minute hour (pcf_KubernetesClientCacheTTL c)
     \<and> between 1 128 (pcf_MaxConcurrentRequests c)"

lemma checkedE: "checked_setting r ok msg = Inr x \<Longrightarrow> (ok x \<Longrightarrow> P) \<Longrightarrow> P"
  by (auto simp: checked_setting_def split: option.splits if_splits)

lemma error_guardE: "(case r of None \<Rightarrow> k | Some e \<Rightarrow> Inl e) = Inr y \<Longrightarrow> (r = None \<Longrightarrow> k = Inr y \<Longrightarrow> P) \<Longrightarrow> P"
  by (cases r) auto

lemma some_guardE:
  "(case r of None \<Rightarrow> Inl e | Some x \<Rightarrow> k x) = Inr y \<Longrightarrow> (\<And>x. r = Some x \<Longrightarrow> k x = Inr y \<Longrightarrow> P) \<Longrightarrow> P"
  by (cases r) auto

lemma Load_within: "Load parsePrefix reader = Inr c \<Longrightarrow> settings_within c"
  unfolding Load_def Let_def
  apply (elim some_guardE error_guardE rthenE ensureE)
  apply (drule Inr_inject)
  apply (elim checkedE conjE)
  apply hypsubst
  apply (unfold settings_within_def panelConfig.select_convs)
  apply (intro conjI; assumption)
  done

section \<open>The stages that cannot fail\<close>

lemma default_watermarks:
  "\<exists>high critical. DefaultHighWatermark = Fin high \<and> DefaultCriticalWatermark = Fin critical
     \<and> 0 < high \<and> high < critical \<and> critical < 1"
proof -
  have small: "pow2 (- 1022) \<le> pow2 (- 1)" by (rule pow2_mono) simp
  have normal: "pow2 (- 1022) \<le> 4 / 5" "pow2 (- 1022) \<le> 19 / 20"
    by (rule order.trans [OF small], simp add: pow2_def)+
  note near = round_value_error [OF normal(1)] round_value_error [OF normal(2)]
  have "(4 / 5 / 2 ^ 53 :: rat) < 1 / 1000" "(19 / 20 / 2 ^ 53 :: rat) < 1 / 1000" by simp_all
  with near have "\<bar>round_value (4 / 5) - 4 / 5\<bar> < 1 / 1000" "\<bar>round_value (19 / 20) - 19 / 20\<bar> < 1 / 1000" by linarith+
  then have "0 < round_value (4 / 5)" "round_value (4 / 5) < round_value (19 / 20)" "round_value (19 / 20) < 1"
    by linarith+
  moreover have "(1 :: rat) \<le> 2 ^ 1024" by simp
  ultimately show ?thesis
    unfolding DefaultHighWatermark_def DefaultCriticalWatermark_def round64_def by (simp add: not_le)
qed

lemma default_governor_New:
  "1 \<le> maximum \<Longrightarrow> \<exists>g. governor_New (default_governor adaptive maximum) = Inr g \<and> gv_active g = 0
     \<and> gv_maxConcurrent g = maximum \<and> gv_enabled g = adaptive"
proof -
  assume max: "1 \<le> maximum"
  obtain high critical where marks: "DefaultHighWatermark = Fin high" "DefaultCriticalWatermark = Fin critical"
    "0 < high" "high < critical" "critical < 1"
    using default_watermarks by blast
  have order: "\<not> f_leq (Fin high) (Fin 0)" "\<not> f_leq (Fin 1) (Fin high)" "\<not> f_leq (Fin critical) (Fin high)"
    "\<not> f_less (Fin 1) (Fin critical)"
    using marks(3-5) by (auto simp: f_leq_def)
  show ?thesis using max
    by (simp add: governor_New_def default_governor_def marks(1,2) order) (use marks(5) in simp)
qed

lemma service_New_within:
  assumes "between 1 128 queueSize" "between 1 64 cacheSize" "between minute hour cacheTTL"
  shows "\<exists>s. service_New True True queueSize cacheSize cacheTTL file og rg = Inr s
    \<and> ps_store s = file \<and> ps_operationGovernor s = og \<and> ps_readGovernor s = rg
    \<and> ps_queue s = [] \<and> ps_queueCapacity s = nat queueSize \<and> gc_capacity (ps_gatewayCache s) = cacheSize
    \<and> gc_ttl (ps_gatewayCache s) = cacheTTL"
proof -
  have ttl: "cacheTTL \<noteq> 0" "\<not> cacheTTL < minimumGatewayCacheTTL" "\<not> cacheTTL > maximumGatewayCacheTTL"
    using assms(3) by (auto simp: between_def minute_def second_def hour_def minimumGatewayCacheTTL_def maximumGatewayCacheTTL_def)
  have size: "cacheSize \<noteq> 0" "\<not> cacheSize < 1" "\<not> cacheSize > maximumGatewayCacheSize" "queueSize \<noteq> 0" "\<not> queueSize < 1"
    "\<not> queueSize > maxOperationQueueSize"
    using assms(1,2) by (auto simp: between_def maximumGatewayCacheSize_def maxOperationQueueSize_def)
  show ?thesis by (simp add: service_New_def newGatewayCache_def Let_def ttl size)
qed

lemma sessions_New_within:
  assumes "settings_within c"
  shows "\<exists>m. NewSessionManager (pcf_AdminUsername c) (pcf_AdminPasswordHash c) (pcf_SessionTTL c) True = Inr m
    \<and> sm_sessions m = Map.empty \<and> sm_username m = pcf_AdminUsername c
    \<and> sm_passwordHash m = pcf_AdminPasswordHash c \<and> sm_ttl m = pcf_SessionTTL c"
proof -
  have "trim_space (pcf_AdminUsername c) \<noteq> []" "has_prefix (pcf_AdminPasswordHash c) ''$argon2id$''"
    "\<not> (pcf_SessionTTL c \<le> 0 \<or> pcf_SessionTTL c > 24 * hour)"
    using assms unfolding settings_within_def by (elim conjE; simp only: not_le not_less de_Morgan_disj)+
  then show ?thesis by (simp add: NewSessionManager_def)
qed

text \<open>
  (C28) The panel starts or says why not. Only the configuration, the data store and the cipher can
  stop it: the limits that the sessions, the governors, the service and the HTTP interface check
  again are met by every configuration that was loaded, also after the watermarks are rounded. A
  panel that starts has an empty queue and no session or slot in use, and exactly the configured
  limits.
\<close>

theorem panel_starts:
  "case start_panel parsePrefix aesNewCipher newGCM parseAddr resolver io1 io2 now disks getenv of
     Inl (what, e) \<Rightarrow>
       (case Load parsePrefix (Some getenv) of
          Inl e' \<Rightarrow> what = ''load configuration'' \<and> e = e'
        | Inr c \<Rightarrow>
            (case Open io1 io2 now (disks (pcf_DataFile c)) (pcf_DataFile c) of
               Inl e' \<Rightarrow> what = ''open data store'' \<and> e = e'
             | Inr _ \<Rightarrow> what = ''initialize encryption'' \<and> NewCipher aesNewCipher newGCM (pcf_EncryptionKey c) = Inl e))
   | Inr (panel :: 'gw Panel) \<Rightarrow>
       (let c = pnl_settings panel; srv = pnl_server panel; s = srv_service srv in
        Load parsePrefix (Some getenv) = Inr c \<and> settings_within c
        \<and> Open io1 io2 now (disks (pcf_DataFile c)) (pcf_DataFile c) = Inr (ps_store s)
        \<and> NewCipher aesNewCipher newGCM (pcf_EncryptionKey c) = Inr (pnl_cipher panel)
        \<and> po_allowed (pnl_policy panel) = pcf_AllowedPrivateCIDRs c
        \<and> sm_sessions (srv_sessions srv) = Map.empty \<and> sm_ttl (srv_sessions srv) = pcf_SessionTTL c
        \<and> srv_requestSlots srv = 0 \<and> int (srv_maxRequests srv) = pcf_MaxConcurrentRequests c
        \<and> ps_queue s = [] \<and> int (ps_queueCapacity s) = pcf_OperationQueueSize c
        \<and> gc_capacity (ps_gatewayCache s) = pcf_KubernetesClientCacheSize c
        \<and> gv_active (ps_operationGovernor s) = 0 \<and> gv_maxConcurrent (ps_operationGovernor s) = pcf_HelmWorkers c
        \<and> gv_active (ps_readGovernor s) = 0
        \<and> gv_maxConcurrent (ps_readGovernor s) = pcf_KubernetesReadConcurrency c)"
proof (cases "Load parsePrefix (Some getenv)")
  case (Inr c)
  have within: "settings_within c" by (rule Load_within [OF Inr])
  then have lim: "1 \<le> pcf_HelmWorkers c" "1 \<le> pcf_KubernetesReadConcurrency c" "between 1 128 (pcf_OperationQueueSize c)"
    "between 1 64 (pcf_KubernetesClientCacheSize c)" "between minute hour (pcf_KubernetesClientCacheTTL c)"
    "between 1 128 (pcf_MaxConcurrentRequests c)" "1 \<le> pcf_OperationQueueSize c"
    unfolding settings_within_def between_def by blast+
  obtain m where m: "NewSessionManager (pcf_AdminUsername c) (pcf_AdminPasswordHash c) (pcf_SessionTTL c) True = Inr m"
    "sm_sessions m = Map.empty" "sm_ttl m = pcf_SessionTTL c"
    using sessions_New_within [OF within] by blast
  obtain og where og: "governor_New (default_governor (pcf_AdaptiveOperations c) (pcf_HelmWorkers c)) = Inr og"
    "gv_active og = 0" "gv_maxConcurrent og = pcf_HelmWorkers c"
    using default_governor_New [OF lim(1)] by blast
  obtain rg where rg: "governor_New (default_governor (pcf_AdaptiveOperations c) (pcf_KubernetesReadConcurrency c)) = Inr rg"
    "gv_active rg = 0" "gv_maxConcurrent rg = pcf_KubernetesReadConcurrency c"
    using default_governor_New [OF lim(2)] by blast
  show ?thesis
  proof (cases "Open io1 io2 now (disks (pcf_DataFile c)) (pcf_DataFile c)")
    case (Inr opened)
    obtain s :: "'gw Service" where s: "service_New True True (pcf_OperationQueueSize c)
        (pcf_KubernetesClientCacheSize c) (pcf_KubernetesClientCacheTTL c) opened og rg = Inr s"
      "ps_store s = opened" "ps_operationGovernor s = og" "ps_readGovernor s = rg" "ps_queue s = []"
      "ps_queueCapacity s = nat (pcf_OperationQueueSize c)" "gc_capacity (ps_gatewayCache s) = pcf_KubernetesClientCacheSize c"
      using service_New_within [OF lim(3-5)] by blast
    obtain srv where srv: "http_New True True (pcf_WebDir c) (pcf_SecureCookies c) (pcf_MaxConcurrentRequests c) s m = Inr srv"
      "srv_service srv = s" "srv_sessions srv = m" "srv_requestSlots srv = 0" "int (srv_maxRequests srv) = pcf_MaxConcurrentRequests c"
      using lim(6) by (auto simp: http_New_def between_def Let_def)
    show ?thesis
      by (cases "NewCipher aesNewCipher newGCM (pcf_EncryptionKey c)")
        (use lim(7) in \<open>simp_all add: start_panel_def start_stage_def \<open>Load parsePrefix (Some getenv) = Inr c\<close> Inr m og rg s srv
           within NewPolicy_def Let_def\<close>)
  qed (simp add: start_panel_def start_stage_def \<open>Load parsePrefix (Some getenv) = Inr c\<close>)
qed (simp add: start_panel_def start_stage_def)

section \<open>What panelctl prints\<close>

definition plain :: "char \<Rightarrow> bool" where
  "plain c \<longleftrightarrow> ascii c \<and> \<not> is_space (of_char c)"

lemma trim_space_line:
  assumes "list_all plain w"
  shows "trim_space (w @ [CHR 0x0A]) = w"
proof -
  let ?seg = "\<lambda>c. (of_char c :: nat, [c])"
  have w: "\<forall>c \<in> set w. ascii c \<and> \<not> is_space (of_char c)" using assms by (auto simp: plain_def list_all_iff)
  have nl: "ascii CHR 0x0A" "is_space (of_char CHR 0x0A)" by (simp_all add: ascii_def is_space_def)
  have segs: "rune_segs (w @ [CHR 0x0A]) = map ?seg w @ [?seg CHR 0x0A]"
    using w nl by (subst rune_segs_ascii) (auto simp: list_all_iff)
  have "concat (map snd (trim_right_func is_space (dropWhile (is_space \<circ> fst) (map ?seg w @ [?seg CHR 0x0A])))) = w"
  proof (cases w)
    case Nil
    then show ?thesis using nl by (simp add: trim_right_func_def)
  next
    case (Cons c cs)
    have front: "dropWhile (is_space \<circ> fst) (map ?seg w @ [?seg CHR 0x0A]) = map ?seg w @ [?seg CHR 0x0A]"
      using w Cons by simp
    have "dropWhile (is_space \<circ> fst) (rev (map ?seg w)) = rev (map ?seg w)"
      using w by (auto simp: dropWhile_eq_self_iff hd_rev last_map)
    then have "trim_right_func is_space (map ?seg w @ [?seg CHR 0x0A]) = map ?seg w"
      using nl by (simp add: trim_right_func_def)
    then show ?thesis using front by (simp add: o_def)
  qed
  then show ?thesis by (simp only: trim_space_def segs)
qed

lemma RawStd_plain: "list_all plain RawStdEncoding" "CHR ''='' \<notin> set RawStdEncoding"
  by (simp_all add: RawStdEncoding_def b64_common_def plain_def ascii_def is_space_def)

lemma EncodeToString_plain: "list_all plain (EncodeToString RawStdEncoding bs)" "CHR ''='' \<notin> set (EncodeToString RawStdEncoding bs)"
  using EncodeToString_subset [OF alphabets(1), of bs] RawStd_plain by (auto simp: list_all_iff)

lemma StdEncode_plain: "list_all plain (StdEncodeToString bs)"
proof -
  have "plain CHR ''=''" by (simp add: plain_def ascii_def is_space_def)
  then show ?thesis using EncodeToString_plain(1) by (simp add: StdEncodeToString_def)
qed

lemma StdDecode_StdEncode: "StdDecodeString (StdEncodeToString bs) = Some bs"
proof -
  let ?body = "EncodeToString RawStdEncoding bs"
  define padding where "padding = (if length bs mod 3 = 1 then ''=='' else if length bs mod 3 = 2 then ''='' else [])"
  have no: "\<forall>c \<in> set ?body. c \<noteq> CHR ''='' \<and> c \<notin> {CHR 0x0A, CHR 0x0D}"
    using EncodeToString_subset [OF alphabets(1), of bs] EncodeToString_plain(2) alphabets(1) by (auto simp: b64_alphabet_def)
  have digits: "filter (\<lambda>c. c \<notin> {CHR 0x0A, CHR 0x0D}) (StdEncodeToString bs) = ?body @ padding"
    using no by (auto simp: StdEncodeToString_def padding_def filter_id_conv)
  have parts: "takeWhile (\<lambda>c. c \<noteq> CHR ''='') (?body @ padding) = ?body"
    "dropWhile (\<lambda>c. c \<noteq> CHR ''='') (?body @ padding) = padding"
    using no by (auto simp: padding_def takeWhile_eq_all_conv dropWhile_eq_Nil_conv takeWhile_append2 dropWhile_append2)
  have "length ?body = (length bs * 4 + 2) div 3" by (simp add: EncodeToString_def length_encode_quanta)
  moreover have "((n * 4 + 2) div 3) mod 4 = (if n mod 3 = 1 then 2 else if n mod 3 = 2 then 3 else 0)" for n :: nat
    by presburger
  ultimately have filled: "length ?body mod 4 = 0 \<and> padding = [] \<or> length ?body mod 4 = 2 \<and> padding = ''==''
      \<or> length ?body mod 4 = 3 \<and> padding = ''=''"
    by (simp add: padding_def)
  show ?thesis
    unfolding StdDecodeString_def Let_def digits parts if_P [OF filled]
    by (rule DecodeString_EncodeToString [OF alphabets(1)])
qed

lemma Hash_text:
  assumes "Hash idKey random params password = Inr phc"
  shows "list_all plain phc" "has_prefix phc ''$argon2id$''" "password \<noteq> []"
proof -
  from assms obtain salt hash where e: "phc = ''$argon2id$'' @ ''v=19$m='' @ itoa (int (pp_MemoryKiB params))
      @ '',t='' @ itoa (int (pp_Iterations params)) @ '',p='' @ itoa (int (pp_Parallelism params))
      @ ''$'' @ EncodeToString RawStdEncoding salt @ ''$'' @ EncodeToString RawStdEncoding hash"
    and "password \<noteq> []"
    by (auto simp: Hash_def Let_def split: option.splits if_splits)
  then show "password \<noteq> []" by simp
  have "list_all plain (itoa (int n))" for n
    using digits_of_digits [of n] decimal_digit_ascii by (auto simp: itoa_def plain_def list_all_iff)
  moreover have "list_all plain ''$argon2id$''" "list_all plain ''v=19$m=''" "list_all plain '',t=''"
    "list_all plain '',p=''" "list_all plain ''$''" by (simp_all add: plain_def ascii_def is_space_def)
  ultimately show "list_all plain phc" unfolding e by (simp only: list_all_append EncodeToString_plain(1) simp_thms)
  show "has_prefix phc ''$argon2id$''" unfolding e by (rule has_prefix_append)
qed

definition panelctl_environment :: "string \<Rightarrow> string \<Rightarrow> string \<Rightarrow> string" where
  "panelctl_environment keyText hashText name =
     (if name = ''PANEL_ENCRYPTION_KEY'' then keyText
      else if name = ''PANEL_ADMIN_PASSWORD_HASH'' then hashText else [])"

lemma panelctl_encryption_key:
  assumes "panelctl version revision idKey random stdin [prog, ''encryption-key''] = (0, keyText)"
  obtains key where "random 32 = Some key" "keyText = StdEncodeToString key @ [CHR 0x0A]"
  using assms by (auto simp: panelctl_def split: option.splits)

lemma panelctl_hash_password:
  assumes "panelctl version revision idKey random (Inr input) [prog, ''hash-password''] = (0, hashText)"
  obtains hash where "Hash idKey random DefaultPasswordParams (trim_newlines input) = Inr hash" "hashText = hash @ [CHR 0x0A]"
proof -
  have shorten: "take 1025 input = input" if "\<not> length (take 1025 input) > 1024" using that by simp
  show ?thesis
    using assms shorten that by (auto simp: panelctl_def Let_def simp del: length_take split: sum.splits if_splits)
qed

lemma trim_space_Nil: "trim_space [] = []"
  by (simp add: trim_space_def trim_right_func_def)

lemmas default_settings =
  valueOrDefault_def durationOrDefault_def intOrDefault_def boolOrDefault_def trim_space_Nil simp_thms if_True if_False

lemma default_listen: "validateListenAddress ''127.0.0.1:8080'' = None"
proof -
  have "last_index_byte CHR '':'' ''127.0.0.1:8080'' = Some 9" by code_simp
  then have "SplitHostPort ''127.0.0.1:8080'' = Some (''127.0.0.1'', ''8080'')" by (simp add: SplitHostPort_def Let_def)
  moreover have "Atoi ''8080'' = Some 8080" by (simp add: Atoi_def digits_value_def decimal_digit_def Let_def)
  ultimately show ?thesis by (simp add: validateListenAddress_def)
qed

lemma checked_Some: "ok x \<Longrightarrow> checked_setting (Some x) ok msg = Inr x"
  by (simp add: checked_setting_def)

lemma rthen_step: "r = Inr x \<Longrightarrow> rthen r k = k x"
  by (simp add: rthen_def)

lemma ensure_step: "b \<Longrightarrow> ensure b e r = r"
  by (simp add: ensure_def)

lemma default_limits: "0 < 8 * hour \<and> 8 * hour \<le> 24 * hour" "between (10 * second) (30 * minute) (5 * minute)"
  "between minute hour (10 * minute)" "between 1 8 2" "between 1 128 64" "between 1 32 4" "between 1 64 8" "between 1 128 16"
  by (simp_all add: between_def hour_def minute_def second_def)

text \<open>With only a key and a hash set, everything else has its default.\<close>

lemma Load_defaults:
  assumes "trim_space keyText = encodedKey" "encodedKey \<noteq> []" "StdDecodeString encodedKey = Some key" "length key = 32"
    and "trim_space hashText = hash" "has_prefix hash ''$argon2id$''"
    and others: "\<And>name. name \<noteq> ''PANEL_ENCRYPTION_KEY'' \<Longrightarrow> name \<noteq> ''PANEL_ADMIN_PASSWORD_HASH'' \<Longrightarrow> getenv name = []"
    and set: "getenv ''PANEL_ENCRYPTION_KEY'' = keyText" "getenv ''PANEL_ADMIN_PASSWORD_HASH'' = hashText"
  shows "\<exists>c. Load parsePrefix (Some getenv) = Inr c \<and> pcf_EncryptionKey c = key \<and> pcf_AdminUsername c = ''admin''
    \<and> pcf_AdminPasswordHash c = hash"
proof -
  have env: "getenv ''PANEL_LISTEN_ADDR'' = []" "getenv ''PANEL_DATA_FILE'' = []" "getenv ''PANEL_WEB_DIR'' = []"
    "getenv ''PANEL_ADMIN_USERNAME'' = []" "getenv ''PANEL_LOG_LEVEL'' = []" "getenv ''PANEL_SESSION_TTL'' = []"
    "getenv ''PANEL_HELM_TIMEOUT'' = []" "getenv ''PANEL_HELM_WORKERS'' = []" "getenv ''PANEL_OPERATION_QUEUE_SIZE'' = []"
    "getenv ''PANEL_ADAPTIVE_OPERATIONS'' = []" "getenv ''PANEL_KUBERNETES_READ_CONCURRENCY'' = []"
    "getenv ''PANEL_KUBERNETES_CLIENT_CACHE_SIZE'' = []" "getenv ''PANEL_KUBERNETES_CLIENT_CACHE_TTL'' = []"
    "getenv ''PANEL_MAX_CONCURRENT_REQUESTS'' = []" "getenv ''PANEL_ALLOWED_PRIVATE_CIDRS'' = []"
    "getenv ''PANEL_SECURE_COOKIES'' = []"
    by (rule others; simp)+
  have user: "trim_space ''admin'' \<noteq> []"
    by (simp add: trim_space_no_space index_func_ascii ascii_def is_space_def)
  have paths: "''./data/panel.json'' \<noteq> [] \<and> ''./web/dist'' \<noteq> []" by simp
  have allowed: "ParseAllowedPrefixes parsePrefix [] = Inr []" by (simp add: ParseAllowedPrefixes_def trim_space_Nil)
  show ?thesis
    unfolding Load_def option.case Let_def env set assms(1,3,5) default_settings default_listen
      ensure_step [OF paths] ensure_step [OF assms(2)] rthen_step [OF checked_Some] ensure_step [OF assms(6)] ensure_step [OF user]
    by (simp add: rthen_def checked_Some assms(4) default_limits allowed ensure_step [OF TrueI])
qed

text \<open>
  (C29) The two commands of \<^verbatim>\<open>panelctl\<close> make a working configuration: with the key and the hash
  that they print and nothing else set, the settings load, the key is the one that was drawn, and
  the administrator can sign in with the password that was hashed.
\<close>

theorem panelctl_configures_panel:
  assumes "panelctl version revision idKey random1 stdin [prog, ''encryption-key''] = (0, keyText)"
    and "panelctl version revision idKey random2 (Inr input) [prog, ''hash-password''] = (0, hashText)"
    and "fills random1" "fills random2" and "\<And>pw salt t m p k. length (idKey pw salt t m p k) = k"
    and "random 32 = Some raw"
  shows "\<exists>c m who. Load parsePrefix (Some (panelctl_environment keyText hashText)) = Inr c
    \<and> random1 32 = Some (pcf_EncryptionKey c)
    \<and> NewSessionManager (pcf_AdminUsername c) (pcf_AdminPasswordHash c) (pcf_SessionTTL c) True = Inr m
    \<and> snd (Login (Verify idKey) sha256 random t now ''admin'' (trim_newlines input) m)
        = Inr (EncodeToString RawURLEncoding raw, who)"
proof -
  obtain key where key: "random1 32 = Some key" "keyText = StdEncodeToString key @ [CHR 0x0A]"
    using assms(1) by (rule panelctl_encryption_key)
  obtain hash where hash: "Hash idKey random2 DefaultPasswordParams (trim_newlines input) = Inr hash" "hashText = hash @ [CHR 0x0A]"
    using assms(2) by (rule panelctl_hash_password)
  have len: "length key = 32" using assms(3) key(1) by (auto simp: fills_def dest: spec [of _ 32])
  have read: "trim_space keyText = StdEncodeToString key" "trim_space hashText = hash"
    using trim_space_line [OF StdEncode_plain] trim_space_line [OF Hash_text(1) [OF hash(1)]] key(2) hash(2) by simp_all
  have "StdEncodeToString key \<noteq> []" using len StdDecode_StdEncode [of key] by (auto simp: StdDecodeString_def DecodeString_def)
  then have "\<exists>c. Load parsePrefix (Some (panelctl_environment keyText hashText)) = Inr c \<and> pcf_EncryptionKey c = key
      \<and> pcf_AdminUsername c = ''admin'' \<and> pcf_AdminPasswordHash c = hash"
    by (intro Load_defaults [OF read(1) _ StdDecode_StdEncode len read(2) Hash_text(2) [OF hash(1)]])
      (simp_all add: panelctl_environment_def)
  then obtain c where c: "Load parsePrefix (Some (panelctl_environment keyText hashText)) = Inr c" "pcf_EncryptionKey c = key"
    "pcf_AdminUsername c = ''admin''" "pcf_AdminPasswordHash c = hash" by blast
  obtain m where m: "NewSessionManager (pcf_AdminUsername c) (pcf_AdminPasswordHash c) (pcf_SessionTTL c) True = Inr m"
    "sm_username m = pcf_AdminUsername c" "sm_passwordHash m = pcf_AdminPasswordHash c"
    using sessions_New_within [OF Load_within [OF c(1)]] by blast
  have "Verify idKey hash (trim_newlines input) = Inr True" using Verify_Hash [OF hash(1) assms(4,5)] by blast
  then have "\<exists>who. snd (Login (Verify idKey) sha256 random t now ''admin'' (trim_newlines input) m)
      = Inr (EncodeToString RawURLEncoding raw, who)"
    unfolding Login_def m(2,3) c(3,4) assms(6) by (simp add: Let_def)
  then show ?thesis using c m(1) key(1) by blast
qed

theorem panelctl_configures_panel_witness:
  "\<exists>keyText hashText c.
     panelctl ''dev'' ''unknown'' sample_argon2 sample_random (Inl ErrTimeout) [''panelctl'', ''encryption-key''] = (0, keyText)
     \<and> panelctl ''dev'' ''unknown'' sample_argon2 sample_random (Inr ''correct horse'') [''panelctl'', ''hash-password''] = (0, hashText)
     \<and> Load (\<lambda>_. Inl ErrTimeout) (Some (panelctl_environment keyText hashText)) = Inr c
     \<and> sample_random 32 = Some (pcf_EncryptionKey c)"
proof -
  have "validatePasswordParams DefaultPasswordParams = None"
    by (simp add: validatePasswordParams_def DefaultPasswordParams_def)
  moreover have "trim_newlines ''correct horse'' \<noteq> []" "\<not> length (take 1025 ''correct horse'') > 1024"
    "take 1025 ''correct horse'' = ''correct horse''" by (simp_all add: trim_newlines_def)
  ultimately obtain hash where hash: "panelctl ''dev'' ''unknown'' sample_argon2 sample_random (Inr ''correct horse'') [''panelctl'', ''hash-password''] = (0, hash)"
    by (simp add: panelctl_def Hash_def sample_random_def Let_def)
  obtain key where key: "panelctl ''dev'' ''unknown'' sample_argon2 sample_random (Inl ErrTimeout) [''panelctl'', ''encryption-key''] = (0, key)"
    by (simp add: panelctl_def sample_random_def)
  have len: "length (sample_argon2 pw salt t m p k) = k" for pw salt t m p k by (simp add: sample_argon2_def)
  have rand: "sample_random 32 = Some (replicate 32 CHR 0x07)" by (simp only: sample_random_def)
  show ?thesis
    using key hash panelctl_configures_panel [where random = sample_random, OF key hash sample_secure(2) sample_secure(2) len rand]
    by blast
qed

end
