(* ===== verification/Charts.thy ===== *)
theory Charts
  imports Platform Outbound
begin

text \<open>
  \<^bold>\<open>Charts over HTTP\<close>: \<^verbatim>\<open>chartrepo/checker.go\<close>, which probes a chart repository, and
  \<^verbatim>\<open>helmadapter/secure_getter.go\<close>, which downloads indexes and archives for Helm. Both use
  \<^verbatim>\<open>http.Client\<close>, whose way of following redirects is modelled here: which requests are sent, to
  which URL and with which credentials. What a run does is the log of network events of \<open>Outbound\<close>:
  the names it asks the resolver for and the requests it sends. The servers and the resolver answer
  arbitrarily, knowing the log; the dialling of a connection is part of the server's answer here and is
  the subject of \<open>Outbound\<close>. The syntax of URLs (parsing, printing, resolving a reference, IDNA) and the
  YAML decoder are parameters.
\<close>

section \<open>The HTTP client\<close>

text \<open>The body is what can be read, and an error that ends it early.\<close>

record http_response =
  rs_StatusCode :: int
  rs_Location :: string
  rs_ContentLength :: int
  rs_Body :: string
  rs_ReadError :: "go_error option"

text \<open>A round trip is given the log so far, and returns the log afterwards and the response.\<close>

type_synonym round_trip = "net_event list \<Rightarrow> http_request \<Rightarrow> net_event list \<times> http_response result"

definition transport_RoundTrip :: "(net_event list \<Rightarrow> http_response result) \<Rightarrow> round_trip" where
  "transport_RoundTrip server trace rq = (trace @ [Sent rq], server (trace @ [Sent rq]))"

text \<open>
  \<open>hc_MaxRedirects\<close>, \<open>hc_TooMany\<close> and \<open>hc_OnRedirect\<close> are the function \<^verbatim>\<open>CheckRedirect\<close>: the number
  of requests after which it refuses, with which error, and how it changes the next request.
\<close>

record http_client =
  hc_RoundTrip :: round_trip
  hc_MaxRedirects :: nat
  hc_TooMany :: string
  hc_OnRedirect :: "http_request \<Rightarrow> http_request"

text \<open>The syntax of URLs: \<^verbatim>\<open>url.Parse\<close>, \<^verbatim>\<open>String\<close>, \<^verbatim>\<open>(*URL).Parse\<close> and the ASCII form of a host.\<close>

record url_syntax =
  ux_Parse :: url_parser
  ux_String :: "url \<Rightarrow> string"
  ux_Resolve :: "url \<Rightarrow> string \<Rightarrow> url option"
  ux_ASCII :: "string \<Rightarrow> string"

definition isDomainOrSubdomain :: "string \<Rightarrow> string \<Rightarrow> bool" where
  "isDomainOrSubdomain sub parent \<longleftrightarrow>
     sub = parent
     \<or> CHR '':'' \<notin> set sub \<and> CHR ''%'' \<notin> set sub \<and> length parent < length sub
        \<and> drop (length sub - length parent) sub = parent \<and> sub ! (length sub - length parent - 1) = CHR ''.''"

definition shouldCopyHeaderOnRedirect :: "url_syntax \<Rightarrow> url \<Rightarrow> url \<Rightarrow> bool" where
  "shouldCopyHeaderOnRedirect ux initial dest =
     isDomainOrSubdomain (ux_ASCII ux (Hostname (Host dest))) (ux_ASCII ux (Hostname (Host initial)))"

definition redirects :: "http_response \<Rightarrow> bool" where
  "redirects rsp \<longleftrightarrow> rs_StatusCode rsp \<in> {301, 302, 303, 307, 308} \<and> rs_Location rsp \<noteq> []"

definition with_userinfo :: "http_request \<Rightarrow> http_request" where
  "with_userinfo rq =
     (case (User (rq_Target rq), rq_Authorization rq) of
        (Some who, None) \<Rightarrow> rq\<lparr>rq_Authorization := Some (URLUserinfo who)\<rparr>
      | _ \<Rightarrow> rq)"

text \<open>
  The next request of a redirect: the headers of the first request, without the credentials once a
  hop has left its domain.
\<close>

definition redirected :: "http_request \<Rightarrow> url \<Rightarrow> bool \<Rightarrow> http_request" where
  "redirected ireq u strip =
     \<lparr>rq_Target = u, rq_Accepts = rq_Accepts ireq,
      rq_Authorization = (if strip then None else rq_Authorization ireq)\<rparr>"

text \<open>
  \<^verbatim>\<open>(*http.Client).Do\<close> for requests without a body. \<open>via\<close> are the requests made before this one,
  which begin with the first.
\<close>

function client_do ::
  "url_syntax \<Rightarrow> http_client \<Rightarrow> net_event list \<Rightarrow> http_request list \<Rightarrow> bool \<Rightarrow> http_request
     \<Rightarrow> net_event list \<times> http_response result" where
  "client_do ux c trace via strip rq =
     (case hc_RoundTrip c trace (with_userinfo rq) of
        (trace, Inl e) \<Rightarrow> (trace, Inl e)
      | (trace, Inr rsp) \<Rightarrow>
          if \<not> redirects rsp then (trace, Inr rsp)
          else case ux_Resolve ux (rq_Target rq) (rs_Location rsp) of
            None \<Rightarrow> (trace, Inl (NewError ''failed to parse Location header''))
          | Some u \<Rightarrow>
              let via = via @ [rq];
                  first = rq_Target (hd via);
                  strip = (strip \<or> Host first \<noteq> Host u \<and> \<not> shouldCopyHeaderOnRedirect ux first u)
              in if length via \<ge> hc_MaxRedirects c then (trace, Inl (NewError (hc_TooMany c)))
                 else client_do ux c trace via strip (hc_OnRedirect c (redirected (hd via) u strip)))"
  by auto
termination
  by (relation "measure (\<lambda>(ux, c, trace, via, strip, rq). hc_MaxRedirects c - length via)") auto

declare client_do.simps [simp del]

text \<open>What reading a body through \<^verbatim>\<open>io.LimitReader\<close> gives.\<close>

definition limit_reader :: "nat \<Rightarrow> http_response \<Rightarrow> http_response" where
  "limit_reader n rsp =
     rsp\<lparr>rs_Body := take n (rs_Body rsp),
         rs_ReadError := (if n \<le> length (rs_Body rsp) then None else rs_ReadError rsp)\<rparr>"

definition read_all :: "http_response \<Rightarrow> string result" where
  "read_all rsp = (case rs_ReadError rsp of Some e \<Rightarrow> Inl e | None \<Rightarrow> Inr (rs_Body rsp))"

section \<open>The repository checker\<close>

definition maxIndexBytes :: nat where
  "maxIndexBytes = 2 * 1024 * 1024"

text \<open>\<^verbatim>\<open>http.Client\<close> without a \<^verbatim>\<open>CheckRedirect\<close> of its own.\<close>

definition default_client :: "round_trip \<Rightarrow> http_client" where
  "default_client rt =
     \<lparr>hc_RoundTrip = rt, hc_MaxRedirects = 10, hc_TooMany = ''stopped after 10 redirects'', hc_OnRedirect = (\<lambda>rq. rq)\<rparr>"

definition index_url :: "url \<Rightarrow> url" where
  "index_url u = u\<lparr>Path := trim_right_char CHR ''/'' (Path u) @ ''/index.yaml'', RawQuery := [], Fragment := []\<rparr>"

text \<open>\<open>unmarshal\<close> gives the API version and the number of entries of an index.\<close>

definition Check ::
  "url_syntax \<Rightarrow> (string \<Rightarrow> (string \<times> nat) result) \<Rightarrow> Policy option \<Rightarrow> (net_event list \<Rightarrow> http_response result)
     \<Rightarrow> net_event list \<Rightarrow> RepositoryConnection \<Rightarrow> net_event list \<times> go_error option" where
  "Check ux unmarshal policy server trace connection =
     (case policy of
        None \<Rightarrow> (trace, Some (NewError ''outbound policy is required''))
      | Some p \<Rightarrow>
     (case policy_ValidateHTTPSURL (ux_Parse ux) p trace (rc_URL connection) of
        (trace, Inl _) \<Rightarrow> (trace, Some ErrUpstream)
      | (trace, Inr baseURL) \<Rightarrow>
     (case ux_Parse ux (ux_String ux (index_url baseURL)) of
        None \<Rightarrow> (trace, Some (Wrapped ''create repository request'' parse_error))
      | Some target \<Rightarrow>
     (case client_do ux (default_client (transport_RoundTrip server)) trace [] False
             \<lparr>rq_Target = target, rq_Accepts = ''application/yaml, text/yaml, text/plain'',
              rq_Authorization =
                (if rc_Username connection \<noteq> [] then Some (BasicAuth (rc_Username connection) (rc_Password connection))
                 else None)\<rparr> of
        (trace, Inl _) \<Rightarrow> (trace, Some ErrUpstream)
      | (trace, Inr response) \<Rightarrow>
          (trace,
           if rs_StatusCode response < 200 \<or> rs_StatusCode response \<ge> 300 then Some ErrUpstream
           else case read_all (limit_reader (maxIndexBytes + 1) response) of
               Inl _ \<Rightarrow> Some ErrUpstream
             | Inr payload \<Rightarrow>
                 if length payload > maxIndexBytes then Some ErrUpstream
                 else case unmarshal payload of
                     Inl _ \<Rightarrow> Some ErrUpstream
                   | Inr (apiVersion, entries) \<Rightarrow>
                       if trim_space apiVersion = [] \<or> entries = 0
                       then Some (NewError ''repository index contains no charts'') else None)))))"

section \<open>The chart getter\<close>

definition maxChartArchiveBytes :: nat where
  "maxChartArchiveBytes = 64 * 1024 * 1024"

definition policy_RoundTrip :: "url_syntax \<Rightarrow> Policy \<Rightarrow> nat \<Rightarrow> round_trip \<Rightarrow> round_trip" where
  "policy_RoundTrip ux p maxBytes nxt trace rq =
     (case policy_ValidateHTTPSURL (ux_Parse ux) p trace (ux_String ux (rq_Target rq)) of
        (trace, Inl e) \<Rightarrow> (trace, Inl (Wrapped ''outbound request is blocked'' e))
      | (trace, Inr _) \<Rightarrow>
          (case nxt trace rq of
             (trace, Inl e) \<Rightarrow> (trace, Inl e)
           | (trace, Inr response) \<Rightarrow>
               (trace, if rs_ContentLength response > int maxBytes
                     then Inl (NewError ''outbound response exceeds size limit'')
                     else Inr (limit_reader (maxBytes + 1) response))))"

definition newPolicyHTTPClient :: "url_syntax \<Rightarrow> Policy \<Rightarrow> round_trip \<Rightarrow> http_client" where
  "newPolicyHTTPClient ux p transport =
     \<lparr>hc_RoundTrip = policy_RoundTrip ux p maxChartArchiveBytes transport, hc_MaxRedirects = 5,
      hc_TooMany = ''outbound request exceeded redirect limit'', hc_OnRedirect = (\<lambda>rq. rq)\<rparr>"

record secureHTTPGetter =
  sg_policy :: Policy
  sg_repositoryHost :: string
  sg_username :: string
  sg_password :: string
  sg_timeout :: duration

definition setAuthorization :: "secureHTTPGetter \<Rightarrow> http_request \<Rightarrow> http_request" where
  "setAuthorization g rq =
     rq\<lparr>rq_Authorization :=
          (if sg_username g \<noteq> [] \<and> Host (rq_Target rq) = sg_repositoryHost g
           then Some (BasicAuth (sg_username g) (sg_password g)) else None)\<rparr>"

definition newSecureHTTPGetter ::
  "url_syntax \<Rightarrow> Policy option \<Rightarrow> net_event list \<Rightarrow> string \<Rightarrow> string \<Rightarrow> string \<Rightarrow> duration
     \<Rightarrow> net_event list \<times> secureHTTPGetter result" where
  "newSecureHTTPGetter ux policy trace repositoryURL username password timeout =
     (case policy of
        None \<Rightarrow> (trace, Inl (NewError ''outbound policy is required''))
      | Some p \<Rightarrow>
          (case policy_ValidateHTTPSURL (ux_Parse ux) p trace repositoryURL of
             (trace, Inl e) \<Rightarrow> (trace, Inl (Wrapped ''validate chart repository'' e))
           | (trace, Inr parsed) \<Rightarrow>
               (trace, Inr \<lparr>sg_policy = p, sg_repositoryHost = Host parsed, sg_username = username,
                    sg_password = password, sg_timeout = (if timeout \<le> 0 then 5 * minute else timeout)\<rparr>)))"

definition getter_client :: "url_syntax \<Rightarrow> round_trip \<Rightarrow> secureHTTPGetter \<Rightarrow> http_client" where
  "getter_client ux transport g =
     (newPolicyHTTPClient ux (sg_policy g) transport)
       \<lparr>hc_TooMany := ''chart download exceeded redirect limit'', hc_OnRedirect := setAuthorization g\<rparr>"

definition getter_Get ::
  "url_syntax \<Rightarrow> round_trip \<Rightarrow> secureHTTPGetter \<Rightarrow> net_event list \<Rightarrow> string \<Rightarrow> net_event list \<times> string result" where
  "getter_Get ux transport g trace rawURL =
     (case policy_ValidateHTTPSURL (ux_Parse ux) (sg_policy g) trace rawURL of
        (trace, Inl e) \<Rightarrow> (trace, Inl (Wrapped ''validate chart URL'' e))
      | (trace, Inr parsed) \<Rightarrow>
     (case ux_Parse ux (ux_String ux parsed) of
        None \<Rightarrow> (trace, Inl (Wrapped ''create chart request'' parse_error))
      | Some target \<Rightarrow>
     (case client_do ux (getter_client ux transport g) trace [] False
             (setAuthorization g
                \<lparr>rq_Target = target,
                 rq_Accepts = ''application/gzip, application/octet-stream, application/yaml, text/yaml'',
                 rq_Authorization = None\<rparr>) of
        (trace, Inl e) \<Rightarrow> (trace, Inl (Wrapped ''download chart content'' e))
      | (trace, Inr response) \<Rightarrow>
          (trace,
           if rs_StatusCode response < 200 \<or> rs_StatusCode response \<ge> 300
           then Inl (NewError (''chart server returned HTTP '' @ itoa (rs_StatusCode response)))
           else if rs_ContentLength response > int maxChartArchiveBytes
           then Inl (NewError ''chart content exceeds size limit'')
           else case read_all (limit_reader (maxChartArchiveBytes + 1) response) of
               Inl e \<Rightarrow> Inl (Wrapped ''read chart content'' e)
             | Inr payload \<Rightarrow>
                 if length payload > maxChartArchiveBytes then Inl (NewError ''chart content exceeds size limit'')
                 else Inr payload))))"

section \<open>What a client sends\<close>

text \<open>The requests of a log, and a property of every request of it and of the log before the request.\<close>

definition requests :: "net_event list \<Rightarrow> http_request list" where
  "requests trace = concat (map (\<lambda>e. case e of Sent rq \<Rightarrow> [rq] | _ \<Rightarrow> []) trace)"

fun each_sent :: "(net_event list \<Rightarrow> http_request \<Rightarrow> bool) \<Rightarrow> net_event list \<Rightarrow> net_event list \<Rightarrow> bool" where
  "each_sent P before [] = True"
| "each_sent P before (e # es) = ((case e of Sent rq \<Rightarrow> P before rq | _ \<Rightarrow> True) \<and> each_sent P (before @ [e]) es)"

lemma requests_simps [simp]:
  "requests [] = []" "requests (xs @ ys) = requests xs @ requests ys" "requests (Sent rq # xs) = rq # requests xs"
  "requests (Asked host # xs) = requests xs"
  by (simp_all add: requests_def)

lemma each_sent_append [simp]: "each_sent P before (xs @ ys) \<longleftrightarrow> each_sent P before xs \<and> each_sent P (before @ xs) ys"
  by (induction xs arbitrary: before) auto

lemma each_sent_quiet: "requests xs = [] \<Longrightarrow> each_sent P before xs"
  by (induction xs arbitrary: before) (auto simp: requests_def split: net_event.splits)

lemma each_sent_mono: "each_sent P before xs \<Longrightarrow> (\<And>before rq. P before rq \<Longrightarrow> Q before rq) \<Longrightarrow> each_sent Q before xs"
  by (induction xs arbitrary: before) (auto split: net_event.splits)

text \<open>
  A round trip may ask the resolver, and then sends the request it is given at most once, and only when
  it is permitted at that moment.
\<close>

locale round_tripper =
  fixes rt :: round_trip and permits :: "net_event list \<Rightarrow> http_request \<Rightarrow> bool"
  assumes sends: "rt trace rq = (trace', r) \<Longrightarrow>
    \<exists>asked. requests asked = [] \<and> (trace' = trace @ asked \<or> trace' = trace @ asked @ [Sent rq] \<and> permits (trace @ asked) rq)"
begin

lemma client_do_sends:
  assumes "hc_RoundTrip c = rt" and "length via < hc_MaxRedirects c"
    and "client_do ux c trace via strip rq = (trace', r)"
    and "list_all shaped (via @ [rq])" and "\<And>ireq u s. shaped ireq \<Longrightarrow> shaped (hc_OnRedirect c (redirected ireq u s))"
  shows "\<exists>new. trace' = trace @ new \<and> length (requests new) \<le> hc_MaxRedirects c - length via
    \<and> each_sent (\<lambda>before x. permits before x \<and> (\<exists>y. shaped y \<and> x = with_userinfo y)) trace new"
  using assms
proof (induction ux c trace via strip rq arbitrary: trace' r rule: client_do.induct)
  case (1 ux c trace via strip rq)
  let ?ok = "\<lambda>before x. permits before x \<and> (\<exists>y. shaped y \<and> x = with_userinfo y)"
  obtain mid a where step: "hc_RoundTrip c trace (with_userinfo rq) = (mid, a)" by fastforce
  then obtain asked where "requests asked = []"
      "mid = trace @ asked \<or> mid = trace @ asked @ [Sent (with_userinfo rq)] \<and> permits (trace @ asked) (with_userinfo rq)"
    using sends 1(2) by blast
  then obtain new where new: "mid = trace @ new" "length (requests new) \<le> 1" "each_sent ?ok trace new"
    using 1(5) by (fastforce simp: each_sent_quiet)
  show ?case
  proof (cases "trace' = mid")
    case True
    then show ?thesis using new 1(3) by auto
  next
    case False
    obtain rsp u where rsp: "a = Inr rsp" "redirects rsp" "ux_Resolve ux (rq_Target rq) (rs_Location rsp) = Some u"
        "length (via @ [rq]) < hc_MaxRedirects c"
      using 1(4) False by (auto simp: client_do.simps step Let_def split: sum.split_asm if_split_asm option.split_asm)
    define strip' where "strip' = (strip \<or> Host (rq_Target (hd (via @ [rq]))) \<noteq> Host u
      \<and> \<not> shouldCopyHeaderOnRedirect ux (rq_Target (hd (via @ [rq]))) u)"
    let ?next = "hc_OnRedirect c (redirected (hd (via @ [rq])) u strip')"
    have go: "client_do ux c mid (via @ [rq]) strip' ?next = (trace', r)"
      using 1(4) rsp by (simp add: client_do.simps [of ux c trace] step Let_def strip'_def)
    have "shaped (hd (via @ [rq]))" using 1(5) by (cases via) auto
    then have shaped: "list_all shaped ((via @ [rq]) @ [?next])" using 1(5) 1(6) by simp
    have "\<exists>more. trace' = mid @ more \<and> length (requests more) \<le> hc_MaxRedirects c - length (via @ [rq])
        \<and> each_sent ?ok mid more"
      by (rule 1(1) [OF step [symmetric] rsp(1) _ rsp(3) refl refl strip'_def _ 1(2) rsp(4) go shaped 1(6)])
        (use rsp in \<open>auto simp: not_le\<close>)
    then obtain more where "trace' = mid @ more" "length (requests more) \<le> hc_MaxRedirects c - length (via @ [rq])"
        "each_sent ?ok mid more" by blast
    with new rsp(4) show ?thesis by (intro exI [of _ "new @ more"]) auto
  qed
qed

end

text \<open>
  A request is permitted when the outbound policy has just accepted its URL: the log before the request
  ends with the question, if any, whose answer the policy checked.
\<close>

definition permitted_url :: "url_syntax \<Rightarrow> Policy \<Rightarrow> net_event list \<Rightarrow> http_request \<Rightarrow> bool" where
  "permitted_url ux p before rq =
     list_ex (\<lambda>earlier.
       case policy_ValidateHTTPSURL (ux_Parse ux) p earlier (ux_String ux (rq_Target rq)) of
         (trace, Inl _) \<Rightarrow> False | (trace, Inr _) \<Rightarrow> trace = before) [before, butlast before]"

lemma validated_log:
  assumes "policy_ValidateHTTPSURL parse p trace raw = (trace', r)"
  shows "trace' = trace \<or> (\<exists>host. trace' = trace @ [Asked host])"
  using assms
  by (auto simp: policy_ValidateHTTPSURL_def ValidateHost_def validated_addresses_def lookup_def
      split: option.split_asm if_split_asm prod.split_asm sum.split_asm)

lemma validated_quiet:
  assumes "policy_ValidateHTTPSURL parse p trace raw = (trace', r)"
  obtains asked where "trace' = trace @ asked" "requests asked = []"
  using validated_log [OF assms] by force

lemma validated_permits:
  assumes "policy_ValidateHTTPSURL (ux_Parse ux) p trace (ux_String ux (rq_Target rq)) = (trace', Inr u)"
  shows "permitted_url ux p trace' rq"
  using validated_log [OF assms] assms by (auto simp: permitted_url_def)

interpretation direct: round_tripper "transport_RoundTrip server" "\<lambda>_ _. True" for server
  by unfold_locales (auto simp: transport_RoundTrip_def intro: exI [of _ "[]"])

interpretation guarded: round_tripper "policy_RoundTrip ux p maxBytes (transport_RoundTrip server)" "permitted_url ux p"
  for ux p maxBytes server
proof
  fix trace rq trace' r
  assume rt: "policy_RoundTrip ux p maxBytes (transport_RoundTrip server) trace rq = (trace', r)"
  obtain mid v where check: "policy_ValidateHTTPSURL (ux_Parse ux) p trace (ux_String ux (rq_Target rq)) = (mid, v)" by fastforce
  then obtain asked where asked: "mid = trace @ asked" "requests asked = []" by (rule validated_quiet)
  show "\<exists>asked. requests asked = [] \<and> (trace' = trace @ asked \<or> trace' = trace @ asked @ [Sent rq] \<and> permitted_url ux p (trace @ asked) rq)"
  proof (cases v)
    case (Inl e)
    then show ?thesis using rt asked by (auto simp: policy_RoundTrip_def check)
  next
    case (Inr u)
    then have "trace' = trace @ asked @ [Sent rq]"
      using rt asked by (auto simp: policy_RoundTrip_def check transport_RoundTrip_def split: sum.split_asm)
    then show ?thesis using asked validated_permits check Inr by blast
  qed
qed

section \<open>Where credentials go\<close>

text \<open>
  A request of the getter: its printed URL has just passed the outbound policy, and its credentials, if
  they are those of the repository, go to the host of the repository.
\<close>

definition confined :: "url_syntax \<Rightarrow> secureHTTPGetter \<Rightarrow> net_event list \<Rightarrow> http_request \<Rightarrow> bool" where
  "confined ux g before rq \<longleftrightarrow>
     permitted_url ux (sg_policy g) before rq
     \<and> (case rq_Authorization rq of
          None \<Rightarrow> True
        | Some (BasicAuth user password) \<Rightarrow>
            user = sg_username g \<and> user \<noteq> [] \<and> password = sg_password g
            \<and> Host (rq_Target rq) = sg_repositoryHost g
        | Some (URLUserinfo who) \<Rightarrow> User (rq_Target rq) = Some who
        | Some (LibraryAuth _) \<Rightarrow> False)"

definition authorized_by :: "secureHTTPGetter \<Rightarrow> http_request \<Rightarrow> bool" where
  "authorized_by g rq \<longleftrightarrow> (\<exists>rq0. rq = setAuthorization g rq0)"

lemma authorized_confined:
  assumes "permitted_url ux (sg_policy g) before (with_userinfo rq)" "authorized_by g rq"
  shows "confined ux g before (with_userinfo rq)"
  using assms
  by (auto simp: confined_def authorized_by_def setAuthorization_def with_userinfo_def split: option.splits)

lemma getter_sends:
  assumes "client_do ux (getter_client ux (transport_RoundTrip server) g) trace [] False (setAuthorization g rq) = (trace', r)"
  shows "\<exists>new. trace' = trace @ new \<and> length (requests new) \<le> 5 \<and> each_sent (confined ux g) trace new"
proof -
  let ?c = "getter_client ux (transport_RoundTrip server) g"
  have c: "hc_RoundTrip ?c = policy_RoundTrip ux (sg_policy g) maxChartArchiveBytes (transport_RoundTrip server)"
    "hc_MaxRedirects ?c = 5" "hc_OnRedirect ?c = setAuthorization g"
    by (simp_all add: getter_client_def newPolicyHTTPClient_def)
  have "\<exists>new. trace' = trace @ new \<and> length (requests new) \<le> hc_MaxRedirects ?c - length ([] :: http_request list)
      \<and> each_sent (\<lambda>before x. permitted_url ux (sg_policy g) before x \<and> (\<exists>y. authorized_by g y \<and> x = with_userinfo y)) trace new"
    by (rule guarded.client_do_sends [OF c(1) _ assms]) (auto simp: c authorized_by_def)
  then obtain new where new: "trace' = trace @ new" "length (requests new) \<le> 5"
    "each_sent (\<lambda>before x. permitted_url ux (sg_policy g) before x \<and> (\<exists>y. authorized_by g y \<and> x = with_userinfo y)) trace new"
    by (auto simp: c)
  have "each_sent (confined ux g) trace new"
    using new(3) by (rule each_sent_mono) (use authorized_confined in blast)
  with new show ?thesis by blast
qed

lemma getter_Get_log:
  assumes "getter_Get ux (transport_RoundTrip server) g trace rawURL = (trace', r)"
  shows "\<exists>new. trace' = trace @ new \<and> length (requests new) \<le> 5 \<and> each_sent (confined ux g) trace new"
proof -
  obtain mid v where check: "policy_ValidateHTTPSURL (ux_Parse ux) (sg_policy g) trace rawURL = (mid, v)" by fastforce
  then obtain asked where asked: "mid = trace @ asked" "requests asked = []" by (rule validated_quiet)
  show ?thesis
  proof (cases "trace' = mid")
    case True
    then show ?thesis using asked by (auto simp: each_sent_quiet)
  next
    case False
    then obtain rq r' where "client_do ux (getter_client ux (transport_RoundTrip server) g) mid [] False (setAuthorization g rq) = (trace', r')"
      using assms by (auto simp: getter_Get_def check split: sum.split_asm option.split_asm prod.split_asm)
    from getter_sends [OF this] obtain new where "trace' = mid @ new" "length (requests new) \<le> 5" "each_sent (confined ux g) mid new"
      by blast
    with asked show ?thesis by (intro exI [of _ "asked @ new"]) (auto simp: each_sent_quiet)
  qed
qed

text \<open>
  (C30) Downloading for Helm, from a server that redirects and answers as it likes and with a resolver
  that changes its answers as it likes: at most five requests are sent, each right after the outbound
  policy has accepted its URL as HTTPS without credentials; the credentials of the repository are sent
  only to the host of the repository, whatever the hops in between; and what is returned is within the
  size limit.
\<close>

theorem chart_credentials_stay_with_repository:
  "case getter_Get ux (transport_RoundTrip server) g trace rawURL of
     (trace', r) \<Rightarrow>
       (\<exists>new. trace' = trace @ new \<and> length (requests new) \<le> 5 \<and> each_sent (confined ux g) trace new)
       \<and> (case r of Inl _ \<Rightarrow> True | Inr payload \<Rightarrow> length payload \<le> maxChartArchiveBytes)"
proof -
  obtain trace' r where get: "getter_Get ux (transport_RoundTrip server) g trace rawURL = (trace', r)" by fastforce
  have "length payload \<le> maxChartArchiveBytes" if "r = Inr payload" for payload
    using get that by (auto simp: getter_Get_def split: sum.split_asm option.split_asm prod.split_asm if_split_asm)
  then show ?thesis using getter_Get_log [OF get] by (cases r) (simp_all add: get)
qed

text \<open>
  (C32) The check of a repository has no such confinement: its client keeps the credentials on every
  redirect to the same host, also when the redirect leaves TLS. A repository whose first answer
  redirects to plain HTTP on its own host makes the panel send user and password there in the clear.
\<close>

theorem checker_sends_credentials_without_TLS:
  assumes "policy_ValidateHTTPSURL (ux_Parse ux) p [] (rc_URL connection) = (start, Inr base)"
    and "ux_Parse ux (ux_String ux (index_url base)) = Some target"
    and "rc_Username connection \<noteq> []"
    and "\<And>trace. length (requests trace) = 1 \<Longrightarrow> server trace = Inr rsp" and "redirects rsp"
    and "ux_Resolve ux target (rs_Location rsp) = Some plain" and "Host plain = Host target" and "Scheme plain = ''http''"
  shows "\<exists>first second more. requests (fst (Check ux unmarshal (Some p) server [] connection)) = first # second # more
    \<and> Scheme (rq_Target second) = ''http'' \<and> Host (rq_Target second) = Host target
    \<and> rq_Authorization second = Some (BasicAuth (rc_Username connection) (rc_Password connection))"
proof -
  let ?auth = "Some (BasicAuth (rc_Username connection) (rc_Password connection))"
  define first where "first = \<lparr>rq_Target = target, rq_Accepts = ''application/yaml, text/yaml, text/plain'', rq_Authorization = ?auth\<rparr>"
  define second where "second = redirected first plain False"
  define trace1 where "trace1 = start @ [Sent first]"
  let ?c = "default_client (transport_RoundTrip server)"
  have quiet: "requests start = []" using assms(1) by (metis validated_quiet append_Nil)
  then have answer: "server trace1 = Inr rsp" using assms(4) [of trace1] by (simp add: trace1_def)
  have same: "with_userinfo first = first" "with_userinfo second = second" "hd [first] = first"
    by (simp_all add: with_userinfo_def first_def second_def redirected_def split: option.split)
  have target: "rq_Target first = target" by (simp add: first_def)
  have c: "hc_RoundTrip ?c = transport_RoundTrip server" "hc_MaxRedirects ?c = 10" "hc_OnRedirect ?c rq = rq" for rq
    by (simp_all add: default_client_def)
  have "client_do ux ?c start [] False first = client_do ux ?c trace1 [first] False second"
    using assms(5-7) target answer
    by (simp add: client_do.simps [of _ _ start] c same(1) transport_RoundTrip_def second_def trace1_def)
  moreover obtain trace r where go: "client_do ux ?c trace1 [first] False second = (trace, r)" by fastforce
  ultimately have sent: "fst (Check ux unmarshal (Some p) server [] connection) = trace"
    using assms(1-3) by (simp add: Check_def first_def [symmetric] split: sum.split)
  have "\<exists>more. trace = trace1 @ [Sent second] @ more"
  proof -
    have rt: "hc_RoundTrip ?c trace1 (with_userinfo second) = (trace1 @ [Sent second], server (trace1 @ [Sent second]))"
      by (simp add: c same transport_RoundTrip_def)
    show ?thesis
    proof (cases "trace = trace1 @ [Sent second]")
      case False
      then obtain via strip rq where "client_do ux ?c (trace1 @ [Sent second]) via strip rq = (trace, r)" "length via = 2"
        using go by (auto simp: client_do.simps [of _ _ trace1] rt Let_def split: sum.split_asm if_split_asm option.split_asm)
      from direct.client_do_sends [OF c(1) _ this(1), of "\<lambda>_. True"] this(2) show ?thesis by (auto simp: c list_all_iff)
    qed simp
  qed
  then show ?thesis
    using sent assms(7,8) quiet by (auto simp: trace1_def second_def redirected_def first_def)
qed

definition sample_url :: "string \<Rightarrow> url" where
  "sample_url scheme =
     \<lparr>Scheme = scheme, Host = ''charts.test'', User = None, Path = [], RawQuery = [], Fragment = []\<rparr>"

definition sample_syntax :: url_syntax where
  "sample_syntax =
     \<lparr>ux_Parse = (\<lambda>s. if s = ''http:'' then Some (sample_url ''http'') else Some (sample_url ''https'')),
      ux_String = Scheme, ux_Resolve = (\<lambda>_ s. if s = ''http:'' then Some (sample_url ''http'') else None),
      ux_ASCII = (\<lambda>h. h)\<rparr>"

theorem checker_sends_credentials_without_TLS_witness:
  "\<exists>first second more. requests (fst (Check sample_syntax (\<lambda>_. Inl ErrTimeout) (Some sample_policy)
         (\<lambda>_. Inr \<lparr>rs_StatusCode = 302, rs_Location = ''http:'', rs_ContentLength = 0, rs_Body = [], rs_ReadError = None\<rparr>) []
         \<lparr>rc_URL = ''https:'', rc_Username = ''reader'', rc_Password = ''secret''\<rparr>)) = first # second # more
     \<and> rq_Authorization second = Some (BasicAuth ''reader'' ''secret'') \<and> Scheme (rq_Target second) = ''http''"
proof -
  let ?conn = "\<lparr>rc_URL = ''https:'', rc_Username = ''reader'', rc_Password = ''secret''\<rparr>"
  let ?rsp = "\<lparr>rs_StatusCode = 302, rs_Location = ''http:'', rs_ContentLength = 0, rs_Body = [], rs_ReadError = None\<rparr>"
  have host: "ValidateHost sample_policy trace host = (trace @ [Asked host], None)" for trace host
    by (simp add: ValidateHost_def sample_policy_def NewPolicy_def validated_addresses_def lookup_def AddrFromSlice_def
        word_of_bytes_def isAllowed_v4 reserved_v4_def in_block_def)
  have "trim_space ''https:'' = ''https:''" by (simp add: trim_space_no_space index_func_ascii ascii_def is_space_def)
  then have base: "policy_ValidateHTTPSURL (ux_Parse sample_syntax) sample_policy [] (rc_URL ?conn)
      = ([Asked (Hostname (Host (sample_url ''https'')))], Inr (sample_url ''https''))"
    by (simp add: policy_ValidateHTTPSURL_def sample_syntax_def sample_url_def host)
  have "ux_Parse sample_syntax (ux_String sample_syntax (index_url (sample_url ''https''))) = Some (sample_url ''https'')"
    "rc_Username ?conn \<noteq> []" "redirects ?rsp"
    "ux_Resolve sample_syntax (sample_url ''https'') (rs_Location ?rsp) = Some (sample_url ''http'')"
    "Host (sample_url ''http'') = Host (sample_url ''https'')" "Scheme (sample_url ''http'') = ''http''"
    by (simp_all add: sample_syntax_def index_url_def sample_url_def redirects_def)
  from checker_sends_credentials_without_TLS [OF base this(1,2) refl this(3-6), of "\<lambda>_. Inl ErrTimeout"] show ?thesis by fastforce
qed

end
