(* ===== verification/Helm.thy ===== *)
theory Helm
  imports Charts Json_Text
begin

text \<open>
  \<^bold>\<open>The Helm adapter\<close>: \<^verbatim>\<open>helmadapter/adapter.go\<close> and \<^verbatim>\<open>oci.go\<close>. The Helm library, the OCI registry
  client and the archive loader are parameters, called with the options that the adapter sets; those
  that go to the network are given the function with which they send, and the log of what was done on
  the network so far, which they extend. The files of the temporary workspace are an explicit state, and every step of making it may fail;
  removing it is assumed to work, since the code does not look at its error.
\<close>

section \<open>Options and the library\<close>

record ChartPathOptions =
  po_Version :: string
  po_RepoURL :: string
  po_Username :: string
  po_Password :: string
  po_PassCredentialsAll :: bool
  po_InsecureSkipTLSverify :: bool
  po_PlainHTTP :: bool

text \<open>The fields of \<^verbatim>\<open>cli.EnvSettings\<close> that the adapter sets.\<close>

record EnvSettings =
  es_KubeAPIServer :: string
  es_KubeToken :: string
  es_KubeInsecureSkipTLSVerify :: bool
  es_KubeTLSServerName :: string
  es_KubeCaFile :: string
  es_RepositoryConfig :: string
  es_RepositoryCache :: string
  es_RegistryConfig :: string
  es_PluginsDirectory :: string
  es_Namespace :: string

text \<open>The REST client: connections are dialled by the policy, without a proxy and with a time limit.\<close>

record rest_client =
  re_Settings :: EnvSettings
  re_Dial :: Policy
  re_Proxy :: "string option"
  re_Timeout :: duration

record action_options =
  ao_Chart :: ChartPathOptions
  ao_ReleaseName :: string
  ao_Namespace :: string
  ao_Timeout :: duration
  ao_Atomic :: bool
  ao_CleanupOnFail :: bool
  ao_Wait :: bool
  ao_WaitForJobs :: bool
  ao_CreateNamespace :: bool
  ao_DependencyUpdate :: bool
  ao_EnableDNS :: bool
  ao_HideNotes :: bool
  ao_MaxHistory :: int
  ao_Version :: int
  ao_DeletionPropagation :: string

text \<open>A release as the library lists it; a missing part is \<open>None\<close>.\<close>

record library_release =
  lr_Name :: string
  lr_Namespace :: string
  lr_Version :: int
  lr_Info :: "(string \<times> gtime) option"
  lr_Metadata :: "(string \<times> string \<times> string) option"

text \<open>
  The registry client is made with an HTTP client and a credential, \<open>None\<close> for
  \<^verbatim>\<open>auth.EmptyCredential\<close>. Both its operations may send requests: resolving a reference lists the tags
  of the repository when the version is not an exact one.
\<close>

type_synonym send = "net_event list \<Rightarrow> http_request \<Rightarrow> net_event list \<times> http_response result"
type_synonym registry_credential = "(string \<times> string) option"

record ('conf, 'chart, 'v) helm_library =
  hl_NewSettings :: EnvSettings
  hl_IsConfigFlags :: "EnvSettings \<Rightarrow> bool"
  hl_Init :: "rest_client \<Rightarrow> string \<Rightarrow> string \<Rightarrow> 'conf result"
  hl_List :: "'conf \<Rightarrow> bool \<Rightarrow> library_release list result"
  hl_Rollback :: "'conf \<Rightarrow> action_options \<Rightarrow> string \<Rightarrow> go_error option"
  hl_Uninstall :: "'conf \<Rightarrow> action_options \<Rightarrow> string \<Rightarrow> go_error option"
  hl_Install :: "'conf \<Rightarrow> action_options \<Rightarrow> 'chart \<Rightarrow> json \<Rightarrow> go_error option"
  hl_Upgrade :: "'conf \<Rightarrow> action_options \<Rightarrow> string \<Rightarrow> 'chart \<Rightarrow> json \<Rightarrow> go_error option"
  hl_ReadValues :: "string \<Rightarrow> 'v result"
  hl_MarshalValues :: "'v \<Rightarrow> string result"
  hl_FindChart :: "(net_event list \<Rightarrow> string \<Rightarrow> net_event list \<times> string result) \<Rightarrow> net_event list
     \<Rightarrow> ChartPathOptions \<Rightarrow> string \<Rightarrow> net_event list \<times> string result"
  hl_NewRegistry :: "go_error option"
  hl_ValidateReference :: "registry_credential \<Rightarrow> send \<Rightarrow> net_event list \<Rightarrow> string \<Rightarrow> string \<Rightarrow> url
     \<Rightarrow> net_event list \<times> string result"
  hl_Pull :: "registry_credential \<Rightarrow> send \<Rightarrow> net_event list \<Rightarrow> string \<Rightarrow> net_event list \<times> string option result"
  hl_LoadArchive :: "string \<Rightarrow> 'chart result"

record HelmRelease =
  hz_Name :: string
  hz_Namespace :: string
  hz_Revision :: int
  hz_Status :: string
  hz_Chart :: string
  hz_AppVersion :: string
  hz_UpdatedAt :: "gtime option"

record Adapter =
  ad_timeout :: duration
  ad_policy :: "Policy option"

definition adapter_New :: "duration \<Rightarrow> Policy option \<Rightarrow> Adapter" where
  "adapter_New timeout policy = \<lparr>ad_timeout = (if timeout \<le> 0 then 5 * minute else timeout), ad_policy = policy\<rparr>"

section \<open>Errors\<close>

text \<open>\<^verbatim>\<open>err.Error()\<close>.\<close>

fun error_text :: "go_error \<Rightarrow> string" where
  "error_text ErrNotFound = ''resource not found''"
| "error_text ErrConflict = ''resource conflict''"
| "error_text ErrUnauthorized = ''unauthorized''"
| "error_text ErrForbidden = ''forbidden''"
| "error_text ErrInvalidState = ''invalid resource state''"
| "error_text ErrBusy = ''system is busy''"
| "error_text ErrUpstream = ''upstream request failed''"
| "error_text ErrTimeout = ''request timed out''"
| "error_text (ValidationError field message) = ''validate '' @ field @ '': '' @ message"
| "error_text ContextCanceled = ''context canceled''"
| "error_text ContextDeadlineExceeded = ''context deadline exceeded''"
| "error_text (NewError message) = message"
| "error_text (Wrapped message e) = message @ '': '' @ error_text e"

definition classifyHelmError :: "go_error \<Rightarrow> go_error" where
  "classifyHelmError e =
     (let message = to_lower (error_text e)
      in if contains_str message ''cannot re-use a name'' \<or> contains_str message ''another operation'' then ErrConflict
         else if errors_is e ContextDeadlineExceeded \<or> errors_is e ContextCanceled then ErrTimeout
         else ErrUpstream)"

definition validateConnection :: "url_syntax \<Rightarrow> Adapter \<Rightarrow> net_event list \<Rightarrow> Connection \<Rightarrow> net_event list \<times> go_error option" where
  "validateConnection ux a trace connection =
     (case ad_policy a of
        None \<Rightarrow> (trace, Some (NewError ''outbound policy is required''))
      | Some p \<Rightarrow>
          (case policy_ValidateHTTPSURL (ux_Parse ux) p trace (cn_Server connection) of
             (trace, Inl _) \<Rightarrow> (trace, Some ErrUpstream) | (trace, Inr _) \<Rightarrow> (trace, None)))"

section \<open>The workspace\<close>

record workspace_file =
  wf_path :: string
  wf_mode :: nat
  wf_content :: string

record workspace_faults =
  fa_MkdirTemp :: "string result"
  fa_Mkdir :: "string \<Rightarrow> go_error option"
  fa_WriteFile :: "string \<Rightarrow> go_error option"

definition path_join :: "string \<Rightarrow> string \<Rightarrow> string" where
  "path_join dir name = dir @ ''/'' @ name"

definition below :: "string \<Rightarrow> string \<Rightarrow> bool" where
  "below dir name \<longleftrightarrow> name = dir \<or> has_prefix name (dir @ ''/'')"

definition RemoveAll :: "string \<Rightarrow> workspace_file list \<Rightarrow> workspace_file list" where
  "RemoveAll dir = filter (\<lambda>f. \<not> below dir (wf_path f))"

fun make_directories ::
  "workspace_faults \<Rightarrow> string \<Rightarrow> string list \<Rightarrow> workspace_file list \<Rightarrow> workspace_file list \<times> go_error option" where
  "make_directories faults workspace [] fs = (fs, None)"
| "make_directories faults workspace (directory # directories) fs =
     (case fa_Mkdir faults (path_join workspace directory) of
        Some e \<Rightarrow> (fs, Some e)
      | None \<Rightarrow>
          make_directories faults workspace directories
            (fs @ [\<lparr>wf_path = path_join workspace directory, wf_mode = 448, wf_content = []\<rparr>]))"

definition workspace_settings :: "url_syntax \<Rightarrow> EnvSettings \<Rightarrow> Connection \<Rightarrow> string \<Rightarrow> string \<Rightarrow> EnvSettings" where
  "workspace_settings ux settings connection workspace namespace =
     settings\<lparr>es_KubeAPIServer := cn_Server connection, es_KubeToken := cn_BearerToken connection,
       es_KubeInsecureSkipTLSVerify := False,
       es_KubeTLSServerName :=
         (case ux_Parse ux (cn_Server connection) of
            Some parsed \<Rightarrow> Hostname (Host parsed) | None \<Rightarrow> es_KubeTLSServerName settings),
       es_RepositoryConfig := path_join workspace ''repositories.yaml'',
       es_RepositoryCache := path_join workspace ''cache'',
       es_RegistryConfig := path_join workspace ''registry.json'',
       es_PluginsDirectory := path_join workspace ''plugins'', es_Namespace := namespace\<rparr>"

text \<open>
  The configuration of an action with its settings and its workspace, which the caller removes. On
  an error the workspace is removed here.
\<close>

definition actionConfiguration ::
  "url_syntax \<Rightarrow> ('conf, 'chart, 'v) helm_library \<Rightarrow> workspace_faults \<Rightarrow> Connection \<Rightarrow> string \<Rightarrow> Policy option \<Rightarrow> duration
     \<Rightarrow> workspace_file list \<Rightarrow> workspace_file list \<times> ('conf \<times> EnvSettings \<times> string) result" where
  "actionConfiguration ux lib faults connection namespace policy timeout fs =
     (case policy of
        None \<Rightarrow> (fs, Inl (NewError ''outbound policy is required''))
      | Some p \<Rightarrow>
     (case fa_MkdirTemp faults of
        Inl e \<Rightarrow> (fs, Inl (Wrapped ''create Helm workspace'' e))
      | Inr workspace \<Rightarrow>
     (case make_directories faults workspace [''cache'', ''plugins'']
             (fs @ [\<lparr>wf_path = workspace, wf_mode = 448, wf_content = []\<rparr>]) of
        (fs, Some e) \<Rightarrow> (RemoveAll workspace fs, Inl (Wrapped ''create Helm workspace directory'' e))
      | (fs, None) \<Rightarrow>
          (let namespace = (if namespace = [] then ''default'' else namespace);
               settings = workspace_settings ux (hl_NewSettings lib) connection workspace namespace;
               caPath = path_join workspace ''cluster-ca.pem'';
               (fs, written) =
                 (if cn_CACert connection = [] then (fs, Inr settings)
                  else case fa_WriteFile faults caPath of
                      Some e \<Rightarrow> (fs, Inl (Wrapped ''write Helm CA file'' e))
                    | None \<Rightarrow> (fs @ [\<lparr>wf_path = caPath, wf_mode = 384, wf_content = cn_CACert connection\<rparr>],
                               Inr (settings\<lparr>es_KubeCaFile := caPath\<rparr>)))
           in case rthen written (\<lambda>settings.
                    ensure (hl_IsConfigFlags lib settings)
                      (NewError ''unsupported Kubernetes REST client configuration'')
                    (case hl_Init lib \<lparr>re_Settings = settings, re_Dial = p, re_Proxy = None, re_Timeout = timeout\<rparr>
                            namespace ''secret'' of
                       Inl e \<Rightarrow> Inl (Wrapped ''initialize Helm client'' e)
                     | Inr configuration \<Rightarrow> Inr (configuration, settings, workspace))) of
                Inl e \<Rightarrow> (RemoveAll workspace fs, Inl e)
              | Inr r \<Rightarrow> (fs, Inr r)))))"

text \<open>An operation on a configuration, after which the workspace is removed.\<close>

definition with_configuration ::
  "url_syntax \<Rightarrow> ('conf, 'chart, 'v) helm_library \<Rightarrow> workspace_faults \<Rightarrow> Adapter \<Rightarrow> Connection \<Rightarrow> string \<Rightarrow> workspace_file list
     \<Rightarrow> net_event list \<Rightarrow> (go_error \<Rightarrow> 'r) \<Rightarrow> (net_event list \<Rightarrow> 'conf \<Rightarrow> EnvSettings \<Rightarrow> net_event list \<times> 'r)
     \<Rightarrow> workspace_file list \<times> net_event list \<times> 'r" where
  "with_configuration ux lib faults a connection namespace fs trace failed body =
     (case validateConnection ux a trace connection of
        (trace, Some e) \<Rightarrow> (fs, trace, failed e)
      | (trace, None) \<Rightarrow>
          (case actionConfiguration ux lib faults connection namespace (ad_policy a) (ad_timeout a) fs of
             (fs, Inl e) \<Rightarrow> (fs, trace, failed e)
           | (fs, Inr (configuration, settings, workspace)) \<Rightarrow>
               (RemoveAll workspace fs, body trace configuration settings)))"

section \<open>Releases\<close>

definition release_of :: "library_release \<Rightarrow> HelmRelease" where
  "release_of item =
     \<lparr>hz_Name = lr_Name item, hz_Namespace = lr_Namespace item, hz_Revision = lr_Version item,
      hz_Status = (case lr_Info item of Some (status, _) \<Rightarrow> status | None \<Rightarrow> []),
      hz_Chart = (case lr_Metadata item of
          Some (name, version, _) \<Rightarrow> if version \<noteq> [] then name @ ''-'' @ version else name
        | None \<Rightarrow> []),
      hz_AppVersion = (case lr_Metadata item of Some (_, _, appVersion) \<Rightarrow> appVersion | None \<Rightarrow> []),
      hz_UpdatedAt = map_option snd (lr_Info item)\<rparr>"

definition release_before :: "HelmRelease \<Rightarrow> HelmRelease \<Rightarrow> bool" where
  "release_before a b =
     (if hz_Namespace a \<noteq> hz_Namespace b then hz_Namespace a < hz_Namespace b else hz_Name a < hz_Name b)"

definition helm_List ::
  "url_syntax \<Rightarrow> ('conf, 'chart, 'v) helm_library \<Rightarrow> workspace_faults \<Rightarrow> Adapter \<Rightarrow> go_error option \<Rightarrow> Connection \<Rightarrow> string
     \<Rightarrow> workspace_file list \<Rightarrow> net_event list \<Rightarrow> workspace_file list \<times> net_event list \<times> HelmRelease list result" where
  "helm_List ux lib faults a ctxErr connection namespace fs trace =
     with_configuration ux lib faults a connection namespace fs trace Inl (\<lambda>trace configuration settings. (trace,
       case ctxErr of
         Some e \<Rightarrow> Inl e
       | None \<Rightarrow>
           (case hl_List lib configuration (namespace = []) of
              Inl e \<Rightarrow> Inl (classifyHelmError e)
            | Inr releases \<Rightarrow> Inr (sort_slice release_before (map release_of releases)))))"

section \<open>Charts and values\<close>

definition parseValues :: "('conf, 'chart, 'v) helm_library \<Rightarrow> string \<Rightarrow> json result" where
  "parseValues lib raw =
     (if trim_space raw = [] then Inr (JObj [])
      else case hl_ReadValues lib raw of
          Inl _ \<Rightarrow> Inl (Invalid ''values'' ''must be valid YAML with a mapping root'')
        | Inr v \<Rightarrow>
            (case hl_MarshalValues lib v of
               Inl _ \<Rightarrow> Inl (Invalid ''values'' ''contains unsupported values'')
             | Inr encodedValues \<Rightarrow>
                 (case Unmarshal_value encodedValues of
                    Some (JObj members) \<Rightarrow> Inr (JObj members)
                  | _ \<Rightarrow> Inl (Invalid ''values'' ''must have a mapping root''))))"

definition chartOptions ::
  "url_syntax \<Rightarrow> string \<Rightarrow> string \<Rightarrow> RepositoryConnection option \<Rightarrow> ChartPathOptions result" where
  "chartOptions ux chartReference version repository =
     (let chartReference = trim_space chartReference;
          options = \<lparr>po_Version = version, po_RepoURL = [], po_Username = [], po_Password = [],
            po_PassCredentialsAll = False, po_InsecureSkipTLSverify = False, po_PlainHTTP = False\<rparr>
      in if has_prefix chartReference ''oci://''
         then (case ux_Parse ux chartReference of
                 Some parsed \<Rightarrow>
                   if Host parsed = [] \<or> Path parsed = [] \<or> User parsed \<noteq> None \<or> RawQuery parsed \<noteq> [] \<or> Fragment parsed \<noteq> []
                   then Inl (Invalid ''chart'' ''invalid OCI reference'') else Inr options
               | None \<Rightarrow> Inl (Invalid ''chart'' ''invalid OCI reference''))
         else case repository of
             Some connection \<Rightarrow>
               if rc_URL connection = [] \<or> has_prefix chartReference ''/'' \<or> contains_str chartReference ''..''
                 \<or> contains_str chartReference [CHR 0x5C] \<or> contains_str chartReference ''://''
               then Inl (Invalid ''chart'' ''local and unconfigured chart references are not allowed'')
               else Inr (options\<lparr>po_RepoURL := rc_URL connection, po_Username := rc_Username connection,
                      po_Password := rc_Password connection\<rparr>)
           | None \<Rightarrow> Inl (Invalid ''chart'' ''local and unconfigured chart references are not allowed''))"

definition trim_oci :: "string \<Rightarrow> string" where
  "trim_oci reference = (if has_prefix reference ''oci://'' then drop 6 reference else reference)"

definition loadOCIChart ::
  "url_syntax \<Rightarrow> ('conf, 'chart, 'v) helm_library \<Rightarrow> round_trip \<Rightarrow> Policy option \<Rightarrow> string \<Rightarrow> string \<Rightarrow> net_event list
     \<Rightarrow> net_event list \<times> 'chart result" where
  "loadOCIChart ux lib transport policy reference version trace =
     (case policy of
        None \<Rightarrow> (trace, Inl (NewError ''outbound policy is required''))
      | Some p \<Rightarrow>
     (case policy_ValidateHTTPSURL (ux_Parse ux) p trace (''https://'' @ trim_oci reference) of
        (trace, Inl e) \<Rightarrow> (trace, Inl (Wrapped ''validate OCI registry'' e))
      | (trace, Inr _) \<Rightarrow>
     (case ux_Parse ux reference of
        None \<Rightarrow> (trace, Inl (Wrapped ''parse OCI reference'' parse_error))
      | Some parsed \<Rightarrow>
     (let send = (\<lambda>trace rq. client_do ux (newPolicyHTTPClient ux p transport) trace [] False rq) in
      case hl_NewRegistry lib of
        Some e \<Rightarrow> (trace, Inl (Wrapped ''create OCI registry client'' e))
      | None \<Rightarrow>
     (case hl_ValidateReference lib None send trace reference version parsed of
        (trace, Inl e) \<Rightarrow> (trace, Inl (Wrapped ''resolve OCI chart version'' e))
      | (trace, Inr resolved) \<Rightarrow>
     (case hl_Pull lib None send trace (trim_oci resolved) of
        (trace, Inl e) \<Rightarrow> (trace, Inl (Wrapped ''pull OCI chart'' e))
      | (trace, Inr content) \<Rightarrow>
          (trace,
           case content of
             None \<Rightarrow> Inl (NewError ''OCI artifact contains no Helm chart'')
           | Some bytes \<Rightarrow>
               if bytes = [] then Inl (NewError ''OCI artifact contains no Helm chart'')
               else if length bytes > maxChartArchiveBytes then Inl (NewError ''OCI chart exceeds size limit'')
               else hl_LoadArchive lib bytes)))))))"

definition locateAndLoadChart ::
  "url_syntax \<Rightarrow> ('conf, 'chart, 'v) helm_library \<Rightarrow> round_trip \<Rightarrow> string \<Rightarrow> ChartPathOptions \<Rightarrow> Policy option \<Rightarrow> duration
     \<Rightarrow> net_event list \<Rightarrow> net_event list \<times> 'chart result" where
  "locateAndLoadChart ux lib transport reference options policy timeout trace =
     (if has_prefix reference ''oci://''
      then loadOCIChart ux lib transport policy reference (po_Version options) trace
      else case newSecureHTTPGetter ux policy trace (po_RepoURL options) (po_Username options) (po_Password options) timeout of
          (trace, Inl e) \<Rightarrow> (trace, Inl e)
        | (trace, Inr g) \<Rightarrow>
            (case hl_FindChart lib (getter_Get ux transport g) trace options reference of
               (trace, Inl e) \<Rightarrow> (trace, Inl e)
             | (trace, Inr chartURL) \<Rightarrow>
                 (case getter_Get ux transport g trace chartURL of
                    (trace, Inl e) \<Rightarrow> (trace, Inl e)
                  | (trace, Inr archive) \<Rightarrow> (trace, hl_LoadArchive lib archive))))"

section \<open>Operations\<close>

definition no_action :: action_options where
  "no_action =
     \<lparr>ao_Chart = \<lparr>po_Version = [], po_RepoURL = [], po_Username = [], po_Password = [],
        po_PassCredentialsAll = False, po_InsecureSkipTLSverify = False, po_PlainHTTP = False\<rparr>,
      ao_ReleaseName = [], ao_Namespace = [], ao_Timeout = 0, ao_Atomic = False, ao_CleanupOnFail = False,
      ao_Wait = False, ao_WaitForJobs = False, ao_CreateNamespace = False, ao_DependencyUpdate = False,
      ao_EnableDNS = False, ao_HideNotes = False, ao_MaxHistory = 0, ao_Version = 0, ao_DeletionPropagation = []\<rparr>"

definition loaded_chart ::
  "url_syntax \<Rightarrow> ('conf, 'chart, 'v) helm_library \<Rightarrow> round_trip \<Rightarrow> Adapter \<Rightarrow> HelmRequest
     \<Rightarrow> (json \<Rightarrow> ChartPathOptions \<Rightarrow> 'chart \<Rightarrow> go_error option) \<Rightarrow> net_event list \<Rightarrow> net_event list \<times> go_error option" where
  "loaded_chart ux lib transport a request run trace =
     (case parseValues lib (hi_Values (hr_Input request)) of
        Inl e \<Rightarrow> (trace, Some e)
      | Inr v \<Rightarrow>
          (case chartOptions ux (hi_Chart (hr_Input request)) (hi_Version (hr_Input request)) (hr_Repository request) of
             Inl e \<Rightarrow> (trace, Some e)
           | Inr options \<Rightarrow>
               (case locateAndLoadChart ux lib transport (hi_Chart (hr_Input request)) options (ad_policy a) (ad_timeout a) trace of
                  (trace, Inl e) \<Rightarrow> (trace, Some (classifyHelmError e))
                | (trace, Inr chart) \<Rightarrow> (trace, map_option classifyHelmError (run v options chart)))))"

definition install ::
  "url_syntax \<Rightarrow> ('conf, 'chart, 'v) helm_library \<Rightarrow> round_trip \<Rightarrow> Adapter \<Rightarrow> 'conf \<Rightarrow> HelmRequest
     \<Rightarrow> net_event list \<Rightarrow> net_event list \<times> go_error option" where
  "install ux lib transport a configuration request =
     loaded_chart ux lib transport a request (\<lambda>v options chart.
       hl_Install lib configuration
         (no_action\<lparr>ao_Chart := options, ao_ReleaseName := hi_ReleaseName (hr_Input request),
            ao_Namespace := hi_Namespace (hr_Input request), ao_Timeout := ad_timeout a, ao_Atomic := True,
            ao_Wait := True, ao_WaitForJobs := True, ao_CreateNamespace := False, ao_DependencyUpdate := False,
            ao_EnableDNS := False, ao_HideNotes := True\<rparr>) chart v)"

definition upgrade ::
  "url_syntax \<Rightarrow> ('conf, 'chart, 'v) helm_library \<Rightarrow> round_trip \<Rightarrow> Adapter \<Rightarrow> 'conf \<Rightarrow> HelmRequest
     \<Rightarrow> net_event list \<Rightarrow> net_event list \<times> go_error option" where
  "upgrade ux lib transport a configuration request =
     loaded_chart ux lib transport a request (\<lambda>v options chart.
       hl_Upgrade lib configuration
         (no_action\<lparr>ao_Chart := options, ao_Namespace := hi_Namespace (hr_Input request), ao_Timeout := ad_timeout a,
            ao_Atomic := True, ao_CleanupOnFail := True, ao_Wait := True, ao_WaitForJobs := True,
            ao_DependencyUpdate := False, ao_EnableDNS := False, ao_MaxHistory := 10, ao_HideNotes := True\<rparr>)
         (hi_ReleaseName (hr_Input request)) chart v)"

definition helm_Execute ::
  "url_syntax \<Rightarrow> ('conf, 'chart, 'v) helm_library \<Rightarrow> round_trip \<Rightarrow> workspace_faults \<Rightarrow> Adapter \<Rightarrow> OperationKind \<Rightarrow> HelmRequest
     \<Rightarrow> workspace_file list \<Rightarrow> net_event list \<Rightarrow> workspace_file list \<times> net_event list \<times> go_error option" where
  "helm_Execute ux lib transport faults a kind request fs trace =
     with_configuration ux lib faults a (hr_Connection request) (hi_Namespace (hr_Input request)) fs trace
       Some (\<lambda>trace configuration settings.
       case kind of
         OperationHelmInstall \<Rightarrow> install ux lib transport a configuration request trace
       | OperationHelmUpgrade \<Rightarrow> upgrade ux lib transport a configuration request trace
       | OperationHelmRollback \<Rightarrow>
           (trace, map_option classifyHelmError
              (hl_Rollback lib configuration
                 (no_action\<lparr>ao_Version := hi_Revision (hr_Input request), ao_Timeout := ad_timeout a, ao_Wait := True,
                    ao_WaitForJobs := True, ao_CleanupOnFail := True\<rparr>) (hi_ReleaseName (hr_Input request))))
       | OperationHelmUninstall \<Rightarrow>
           (trace, map_option classifyHelmError
              (hl_Uninstall lib configuration
                 (no_action\<lparr>ao_Timeout := ad_timeout a, ao_Wait := True, ao_DeletionPropagation := ''foreground''\<rparr>)
                 (hi_ReleaseName (hr_Input request))))
       | _ \<Rightarrow> (trace, Some (Invalid ''kind'' ''unsupported Helm operation'')))"

section \<open>The workspace is removed\<close>

text \<open>\<^verbatim>\<open>os.MkdirTemp\<close> makes a directory that did not exist.\<close>

definition fresh_workspace :: "workspace_faults \<Rightarrow> workspace_file list \<Rightarrow> bool" where
  "fresh_workspace faults fs =
     (case fa_MkdirTemp faults of Inl _ \<Rightarrow> True | Inr w \<Rightarrow> list_all (\<lambda>f. \<not> below w (wf_path f)) fs)"

lemma below_join: "below w (path_join w name)" "below w w"
  by (simp_all add: below_def path_join_def has_prefix_def)

lemma RemoveAll_fresh:
  "list_all (\<lambda>f. \<not> below w (wf_path f)) fs \<Longrightarrow> list_all (\<lambda>f. below w (wf_path f)) extra \<Longrightarrow> RemoveAll w (fs @ extra) = fs"
  by (simp add: RemoveAll_def list_all_iff)

lemma make_directories_below:
  "make_directories faults w ds fs = (fs', r) \<Longrightarrow> \<exists>extra. fs' = fs @ extra \<and> list_all (\<lambda>f. below w (wf_path f)) extra"
proof (induction faults w ds fs arbitrary: fs' r rule: make_directories.induct)
  case (2 faults w d ds fs)
  show ?case
  proof (cases "fa_Mkdir faults (path_join w d)")
    case None
    with 2 obtain extra where "fs' = (fs @ [\<lparr>wf_path = path_join w d, wf_mode = 448, wf_content = []\<rparr>]) @ extra"
      "list_all (\<lambda>f. below w (wf_path f)) extra" by force
    then show ?thesis by (auto simp: below_join)
  qed (use 2(2) in simp)
qed simp

lemma actionConfiguration_files:
  assumes "fresh_workspace faults fs"
    and "actionConfiguration ux lib faults connection namespace policy timeout fs = (fs', r)"
  shows "case r of Inl _ \<Rightarrow> fs' = fs | Inr (_, _, w) \<Rightarrow> RemoveAll w fs' = fs"
proof (cases "\<exists>p w. policy = Some p \<and> fa_MkdirTemp faults = Inr w")
  case True
  then obtain p w where w: "policy = Some p" "fa_MkdirTemp faults = Inr w" by blast
  obtain made err where made: "make_directories faults w [''cache'', ''plugins'']
      (fs @ [\<lparr>wf_path = w, wf_mode = 448, wf_content = []\<rparr>]) = (made, err)" by fastforce
  from make_directories_below [OF made] obtain extra where extra: "made = fs @ extra" "list_all (\<lambda>f. below w (wf_path f)) extra"
    by (auto simp: below_join)
  have restore: "RemoveAll w (fs @ extra) = fs" "RemoveAll w (fs @ extra @ [\<lparr>wf_path = path_join w name, wf_mode = m, wf_content = x\<rparr>]) = fs" for name m x
    using RemoveAll_fresh [of w fs extra] RemoveAll_fresh [of w fs "extra @ [\<lparr>wf_path = path_join w name, wf_mode = m, wf_content = x\<rparr>]"]
      extra assms(1) w by (simp_all add: fresh_workspace_def below_join)
  show ?thesis
    using assms(2)
    by (auto simp: actionConfiguration_def w made [unfolded extra(1)] restore Let_def rthen_def ensure_def simp del: make_directories.simps
        split: option.split_asm sum.split_asm if_split_asm)
qed (use assms(2) in \<open>auto simp: actionConfiguration_def split: option.split_asm sum.split_asm\<close>)

lemma with_configuration_files:
  assumes "fresh_workspace faults fs"
  shows "fst (with_configuration ux lib faults a connection namespace fs trace failed body) = fs"
proof -
  obtain fs' r where step: "actionConfiguration ux lib faults connection namespace (ad_policy a) (ad_timeout a) fs = (fs', r)" by fastforce
  obtain mid err where conn: "validateConnection ux a trace connection = (mid, err)" by fastforce
  from actionConfiguration_files [OF assms step] show ?thesis
    by (cases err; cases r) (auto simp: with_configuration_def step conn split: prod.split_asm)
qed

section \<open>What is sent for a chart\<close>

text \<open>
  The Helm library fetches the index with the getter it is given, and the registry client sends its
  requests with the HTTP client it is given, for resolving a reference as for pulling, and uses no other
  user and password than those of its credential: what each such call keeps is kept.
\<close>

definition finds_through_getter :: "('conf, 'chart, 'v) helm_library \<Rightarrow> bool" where
  "finds_through_getter lib \<longleftrightarrow>
     (\<forall>P get trace options reference. (\<forall>t u. P t \<longrightarrow> P (fst (get t u))) \<longrightarrow> P trace \<longrightarrow>
        P (fst (hl_FindChart lib get trace options reference)))"

definition within_credential :: "registry_credential \<Rightarrow> http_request \<Rightarrow> bool" where
  "within_credential credential rq =
     (case rq_Authorization rq of
        None \<Rightarrow> True
      | Some (LibraryAuth _) \<Rightarrow> True
      | Some (BasicAuth user password) \<Rightarrow> credential = Some (user, password)
      | Some (URLUserinfo _) \<Rightarrow> False)"

definition registry_through_client :: "('conf, 'chart, 'v) helm_library \<Rightarrow> bool" where
  "registry_through_client lib \<longleftrightarrow>
     (\<forall>P send credential trace. (\<forall>t rq. P t \<longrightarrow> within_credential credential rq \<longrightarrow> P (fst (send t rq))) \<longrightarrow> P trace \<longrightarrow>
        (\<forall>reference version parsed. P (fst (hl_ValidateReference lib credential send trace reference version parsed)))
        \<and> (\<forall>reference. P (fst (hl_Pull lib credential send trace reference))))"

lemma finds_keep:
  "finds_through_getter lib \<Longrightarrow> (\<And>t u. P t \<Longrightarrow> P (fst (get t u))) \<Longrightarrow> P trace \<Longrightarrow>
     P (fst (hl_FindChart lib get trace options reference))"
  unfolding finds_through_getter_def by (elim allE [of _ P] allE [of _ get]) simp

lemma registry_keep:
  assumes "registry_through_client lib" and "\<And>t rq. P t \<Longrightarrow> within_credential credential rq \<Longrightarrow> P (fst (send t rq))" and "P trace"
  shows "P (fst (hl_ValidateReference lib credential send trace reference version parsed))"
    and "P (fst (hl_Pull lib credential send trace reference))"
proof -
  have "(\<forall>reference version parsed. P (fst (hl_ValidateReference lib credential send trace reference version parsed)))
      \<and> (\<forall>reference. P (fst (hl_Pull lib credential send trace reference)))"
    using assms(1) unfolding registry_through_client_def
    by (elim allE [of _ P] allE [of _ send] allE [of _ credential] allE [of _ trace]) (simp add: assms(2,3))
  then show "P (fst (hl_ValidateReference lib credential send trace reference version parsed))"
    and "P (fst (hl_Pull lib credential send trace reference))" by blast+
qed

text \<open>The log goes on from \<open>before\<close>, and every request of what was added satisfies \<open>Q\<close>.\<close>

definition extends :: "(net_event list \<Rightarrow> http_request \<Rightarrow> bool) \<Rightarrow> net_event list \<Rightarrow> net_event list \<Rightarrow> bool" where
  "extends Q before trace \<longleftrightarrow> (\<exists>new. trace = before @ new \<and> each_sent Q before new)"

lemma extends_refl: "extends Q before before"
  by (simp add: extends_def)

lemma extends_trans: "extends Q before mid \<Longrightarrow> extends Q mid trace \<Longrightarrow> extends Q before trace"
  by (fastforce simp: extends_def)

lemma extends_mono: "extends Q before trace \<Longrightarrow> (\<And>t rq. Q t rq \<Longrightarrow> Q' t rq) \<Longrightarrow> extends Q' before trace"
  unfolding extends_def using each_sent_mono by blast

lemma extends_validated: "policy_ValidateHTTPSURL parse p before raw = (trace, r) \<Longrightarrow> extends Q before trace"
  by (erule validated_quiet) (auto simp: extends_def each_sent_quiet)

lemma extends_getter: "extends (confined ux g) before t \<Longrightarrow> extends (confined ux g) before (fst (getter_Get ux (transport_RoundTrip server) g t u))"
proof (erule extends_trans)
  show "extends (confined ux g) t (fst (getter_Get ux (transport_RoundTrip server) g t u))"
    using getter_Get_log [of ux server g t u] by (cases "getter_Get ux (transport_RoundTrip server) g t u") (auto simp: extends_def)
qed

text \<open>A request that the policy has just accepted and that carries no user and password.\<close>

definition anonymous :: "url_syntax \<Rightarrow> Policy \<Rightarrow> net_event list \<Rightarrow> http_request \<Rightarrow> bool" where
  "anonymous ux p before rq \<longleftrightarrow>
     permitted_url ux p before rq \<and> (case rq_Authorization rq of Some (BasicAuth _ _) \<Rightarrow> False | _ \<Rightarrow> True)"

lemma with_userinfo_BasicAuth:
  "rq_Authorization (with_userinfo rq) = Some (BasicAuth user password) \<Longrightarrow> rq_Authorization rq = Some (BasicAuth user password)"
  by (auto simp: with_userinfo_def split: option.splits)

lemma extends_registry:
  assumes "extends (anonymous ux p) before t" and "within_credential None rq"
  shows "extends (anonymous ux p) before (fst (client_do ux (newPolicyHTTPClient ux p (transport_RoundTrip server)) t [] False rq))"
  using assms(1)
proof (rule extends_trans)
  let ?c = "newPolicyHTTPClient ux p (transport_RoundTrip server)"
  let ?plain = "\<lambda>rq. \<forall>user password. rq_Authorization rq \<noteq> Some (BasicAuth user password)"
  obtain t' r where go: "client_do ux ?c t [] False rq = (t', r)" by fastforce
  have c: "hc_RoundTrip ?c = policy_RoundTrip ux p maxChartArchiveBytes (transport_RoundTrip server)" "0 < hc_MaxRedirects ?c"
      "hc_OnRedirect ?c = (\<lambda>rq. rq)"
    by (simp_all add: newPolicyHTTPClient_def)
  have plain: "?plain rq" using assms(2) by (auto simp: within_credential_def)
  have "\<exists>new. t' = t @ new \<and> length (requests new) \<le> hc_MaxRedirects ?c - length ([] :: http_request list)
      \<and> each_sent (\<lambda>before x. permitted_url ux p before x \<and> (\<exists>y. ?plain y \<and> x = with_userinfo y)) t new"
    by (rule guarded.client_do_sends [OF c(1) _ go]) (use c plain in \<open>auto simp: redirected_def\<close>)
  then obtain new where new: "t' = t @ new"
      "each_sent (\<lambda>before x. permitted_url ux p before x \<and> (\<exists>y. ?plain y \<and> x = with_userinfo y)) t new" by blast
  have "each_sent (anonymous ux p) t new"
    using new(2) by (rule each_sent_mono) (auto simp: anonymous_def split: option.split authorization.split dest: with_userinfo_BasicAuth)
  then show "extends (anonymous ux p) t (fst (client_do ux ?c t [] False rq))" using new(1) by (auto simp: go extends_def)
qed

lemma loadOCIChart_sends:
  assumes lib: "registry_through_client lib"
  shows "extends (anonymous ux p) before (fst (loadOCIChart ux lib (transport_RoundTrip server) (Some p) reference version before))"
proof -
  let ?send = "\<lambda>trace rq. client_do ux (newPolicyHTTPClient ux p (transport_RoundTrip server)) trace [] False rq"
  let ?P = "extends (anonymous ux p) before"
  have resolve: "?P t'" if "hl_ValidateReference lib None ?send t ref v u = (t', r)" "?P t" for t ref v u t' r
    using registry_keep(1) [where P = ?P and send = ?send and credential = None, OF lib extends_registry that(2), where reference = ref and version = v
      and parsed = u] that(1) by simp
  have pull: "?P t'" if "hl_Pull lib None ?send t ref = (t', r)" "?P t" for t ref t' r
    using registry_keep(2) [where P = ?P and send = ?send and credential = None, OF lib extends_registry that(2), where reference = ref] that(1) by simp
  define raw where "raw = ''https://'' @ trim_oci reference"
  obtain mid v where check: "policy_ValidateHTTPSURL (ux_Parse ux) p before raw = (mid, v)" by fastforce
  then have mid: "?P mid" by (rule extends_validated)
  show ?thesis
    unfolding loadOCIChart_def raw_def [symmetric]
    by (auto simp: check Let_def mid split: sum.split option.split prod.split) (use resolve pull mid in blast)+
qed

text \<open>The credentials of a repository in a request for a chart of it.\<close>

definition repository_only :: "url_syntax \<Rightarrow> string \<Rightarrow> string \<Rightarrow> string \<Rightarrow> http_request \<Rightarrow> bool" where
  "repository_only ux repoURL username password rq =
     (case rq_Authorization rq of
        Some (BasicAuth user pass) \<Rightarrow>
          user = username \<and> user \<noteq> [] \<and> pass = password
          \<and> (case ux_Parse ux (trim_space repoURL) of
               None \<Rightarrow> False | Some base \<Rightarrow> Host (rq_Target rq) = Host base)
      | _ \<Rightarrow> True)"

lemma newSecureHTTPGetter_Inr:
  assumes "newSecureHTTPGetter ux (Some p) before repoURL username password timeout = (mid, Inr g)"
  shows "sg_policy g = p \<and> sg_username g = username \<and> sg_password g = password
    \<and> (\<exists>base. ux_Parse ux (trim_space repoURL) = Some base \<and> sg_repositoryHost g = Host base)"
  using assms
  by (auto simp: newSecureHTTPGetter_def policy_ValidateHTTPSURL_def
      split: prod.split_asm sum.split_asm option.split_asm if_split_asm)

lemma confined_repository_only:
  assumes "newSecureHTTPGetter ux (Some p) before repoURL username password timeout = (mid, Inr g)" "confined ux g t rq"
  shows "permitted_url ux p t rq \<and> repository_only ux repoURL username password rq"
  using newSecureHTTPGetter_Inr [OF assms(1)] assms(2)
  by (auto simp: confined_def repository_only_def split: option.split authorization.split)

lemma locateAndLoadChart_sends:
  assumes "finds_through_getter lib" "registry_through_client lib"
  shows "extends (\<lambda>t rq. permitted_url ux p t rq \<and> repository_only ux (po_RepoURL options) (po_Username options) (po_Password options) rq)
    before (fst (locateAndLoadChart ux lib (transport_RoundTrip server) reference options (Some p) timeout before))"
    (is "extends ?Q before ?run")
proof (cases "has_prefix reference ''oci://''")
  case True
  have "extends (anonymous ux p) before ?run"
    using loadOCIChart_sends [OF assms(2)] True by (simp add: locateAndLoadChart_def)
  then show ?thesis
    by (rule extends_mono) (auto simp: anonymous_def repository_only_def split: option.splits authorization.splits)
next
  case False
  obtain mid made where new: "newSecureHTTPGetter ux (Some p) before (po_RepoURL options) (po_Username options) (po_Password options) timeout
      = (mid, made)" by fastforce
  then have quiet: "extends Q before mid" for Q
    by (auto simp: newSecureHTTPGetter_def extends_validated split: prod.split_asm sum.split_asm)
  show ?thesis
  proof (cases made)
    case (Inl e)
    then show ?thesis using quiet by (simp add: locateAndLoadChart_def False new)
  next
    case (Inr g)
    let ?get = "getter_Get ux (transport_RoundTrip server) g"
    let ?P = "extends (confined ux g) before"
    have "?P (fst (hl_FindChart lib ?get mid options reference))"
      by (rule finds_keep [where P = ?P, OF assms(1) extends_getter quiet])
    then have find: "?P found" if "hl_FindChart lib ?get mid options reference = (found, r)" for found r
      using that by (metis fst_conv)
    have get: "?P got" if "?get found u = (got, r)" "?P found" for found u got r
      using extends_getter [OF that(2), of server u] that(1) by simp
    have "?P ?run"
      by (auto simp: locateAndLoadChart_def False new Inr find get split: sum.split prod.split)
    then show ?thesis
      by (rule extends_mono) (use confined_repository_only new Inr in blast)
  qed
qed

section \<open>Properties\<close>

definition chart_request_ok :: "url_syntax \<Rightarrow> Policy \<Rightarrow> RepositoryConnection option \<Rightarrow> net_event list \<Rightarrow> http_request \<Rightarrow> bool" where
  "chart_request_ok ux p repository before rq \<longleftrightarrow>
     permitted_url ux p before rq
     \<and> (case repository of
          Some c \<Rightarrow> repository_only ux (rc_URL c) (rc_Username c) (rc_Password c) rq
        | None \<Rightarrow> (case rq_Authorization rq of Some (BasicAuth _ _) \<Rightarrow> False | _ \<Rightarrow> True))"

lemma chartOptions_request:
  assumes "chartOptions ux reference version repository = Inr options" and "permitted_url ux p t rq"
    and "repository_only ux (po_RepoURL options) (po_Username options) (po_Password options) rq"
  shows "chart_request_ok ux p repository t rq"
proof (cases "po_Username options = []")
  case True
  then show ?thesis using assms(2,3)
    by (auto simp: chart_request_ok_def repository_only_def split: option.split authorization.split option.split_asm authorization.split_asm)
next
  case False
  then obtain c where "repository = Some c" "po_RepoURL options = rc_URL c" "po_Username options = rc_Username c" "po_Password options = rc_Password c"
    using assms(1) by (auto simp: chartOptions_def Let_def split: if_split_asm option.split_asm)
  then show ?thesis using assms(2,3) by (simp add: chart_request_ok_def)
qed

lemma loaded_chart_sends:
  assumes "finds_through_getter lib" "registry_through_client lib" "ad_policy a = Some p"
  shows "extends (chart_request_ok ux p (hr_Repository request)) before
    (fst (loaded_chart ux lib (transport_RoundTrip server) a request run before))" (is "extends ?Q before ?run")
proof -
  let ?input = "hr_Input request"
  have "extends ?Q before t"
    if "chartOptions ux (hi_Chart ?input) (hi_Version ?input) (hr_Repository request) = Inr options"
      "locateAndLoadChart ux lib (transport_RoundTrip server) (hi_Chart ?input) options (Some p) (ad_timeout a) before = (t, r)"
    for options t r
  proof (rule extends_mono)
    show "extends (\<lambda>t rq. permitted_url ux p t rq \<and> repository_only ux (po_RepoURL options) (po_Username options) (po_Password options) rq) before t"
      using locateAndLoadChart_sends [OF assms(1,2), of ux p options before server "hi_Chart ?input" "ad_timeout a"] that(2) by simp
  qed (use chartOptions_request [OF that(1)] in blast)
  then show ?thesis
    by (auto simp: loaded_chart_def assms(3) extends_refl split: sum.split prod.split)
qed

text \<open>
  (C31) Every Helm operation cleans up and stays within the outbound policy. Listing and executing
  leave no file of their temporary workspace, the file with the certificate of the cluster included,
  whichever step fails. Whatever the servers and the resolver answer, every request for a chart, also
  those of the OCI registry client, is sent right after the policy has accepted its URL, and the user and
  password of a repository go to its own host only. This rests on the library sending with the getter
  and the HTTP client it is given, and using no user and password but those of its credential.
\<close>

theorem helm_operations_contained:
  assumes "finds_through_getter lib" and "registry_through_client lib"
    and "fresh_workspace faults fs" and "ad_policy a = Some p"
  shows "fst (helm_List ux lib faults a ctxErr connection namespace fs before) = fs
    \<and> (case helm_Execute ux lib (transport_RoundTrip server) faults a kind request fs before of
         (fs', trace, r) \<Rightarrow> fs' = fs
           \<and> (\<exists>new. trace = before @ new \<and> each_sent (chart_request_ok ux p (hr_Repository request)) before new))"
proof -
  let ?run = "helm_Execute ux lib (transport_RoundTrip server) faults a kind request fs before"
  let ?P = "extends (chart_request_ok ux p (hr_Repository request)) before"
  obtain mid err where conn: "validateConnection ux a before (hr_Connection request) = (mid, err)" by fastforce
  then have mid: "extends Q before mid" for Q
    by (auto simp: validateConnection_def assms(4) extends_validated split: prod.split_asm sum.split_asm)
  have load: "?P (fst (loaded_chart ux lib (transport_RoundTrip server) a request run mid))" for run
    using mid loaded_chart_sends [OF assms(1,2,4)] by (rule extends_trans)
  have "?P (fst (snd ?run))"
    unfolding helm_Execute_def with_configuration_def install_def upgrade_def
    by (auto simp: conn mid load split: option.split prod.split sum.split OperationKind.split)
  moreover have "fst ?run = fs" unfolding helm_Execute_def by (rule with_configuration_files [OF assms(3)])
  moreover have "fst (helm_List ux lib faults a ctxErr connection namespace fs before) = fs"
    unfolding helm_List_def by (rule with_configuration_files [OF assms(3)])
  ultimately show ?thesis by (cases ?run) (simp add: extends_def)
qed

definition sample_helm :: "(unit, unit, unit) helm_library" where
  "sample_helm =
     \<lparr>hl_NewSettings = \<lparr>es_KubeAPIServer = [], es_KubeToken = [], es_KubeInsecureSkipTLSVerify = False,
        es_KubeTLSServerName = [], es_KubeCaFile = [], es_RepositoryConfig = [], es_RepositoryCache = [],
        es_RegistryConfig = [], es_PluginsDirectory = [], es_Namespace = []\<rparr>,
      hl_IsConfigFlags = (\<lambda>_. True), hl_Init = (\<lambda>_ _ _. Inr ()), hl_List = (\<lambda>_ _. Inr []),
      hl_Rollback = (\<lambda>_ _ _. None), hl_Uninstall = (\<lambda>_ _ _. None), hl_Install = (\<lambda>_ _ _ _. None),
      hl_Upgrade = (\<lambda>_ _ _ _ _. None), hl_ReadValues = (\<lambda>_. Inr ()), hl_MarshalValues = (\<lambda>_. Inr ''{}''),
      hl_FindChart = (\<lambda>get trace options reference.
        case get trace (po_RepoURL options @ ''/index.yaml'') of
          (trace, Inl e) \<Rightarrow> (trace, Inl e) | (trace, Inr _) \<Rightarrow> (trace, Inr (po_RepoURL options @ ''/chart.tgz''))),
      hl_NewRegistry = None,
      hl_ValidateReference = (\<lambda>credential send trace reference version parsed.
        case send trace \<lparr>rq_Target = parsed, rq_Accepts = [], rq_Authorization = None\<rparr> of
          (trace, Inl e) \<Rightarrow> (trace, Inl e) | (trace, Inr _) \<Rightarrow> (trace, Inr reference)),
      hl_Pull = (\<lambda>credential send trace reference. (trace, Inr None)), hl_LoadArchive = (\<lambda>_. Inr ())\<rparr>"

definition sample_faults :: workspace_faults where
  "sample_faults =
     \<lparr>fa_MkdirTemp = Inr ''/tmp/k8s-panel-helm-1'', fa_Mkdir = (\<lambda>_. None), fa_WriteFile = (\<lambda>_. Some ErrTimeout)\<rparr>"

definition sample_helm_request :: HelmRequest where
  "sample_helm_request =
     \<lparr>hr_Connection = \<lparr>cn_Server = ''https:'', cn_CACert = ''PEM'', cn_BearerToken = ''token''\<rparr>,
      hr_Repository = Some \<lparr>rc_URL = ''https:'', rc_Username = ''reader'', rc_Password = ''secret''\<rparr>,
      hr_Input = \<lparr>hi_ClusterID = ''c'', hi_Namespace = ''web'', hi_ReleaseName = ''shop'', hi_Chart = ''shop'',
        hi_RepositoryID = ''r'', hi_Version = [], hi_Values = [], hi_Revision = 0\<rparr>\<rparr>"

lemma sample_helm_laws: "finds_through_getter sample_helm" "registry_through_client sample_helm"
proof -
  show "finds_through_getter sample_helm"
    unfolding finds_through_getter_def sample_helm_def by (auto split: prod.split sum.split) (metis fst_conv)+
  have plain: "within_credential credential \<lparr>rq_Target = parsed, rq_Accepts = [], rq_Authorization = None\<rparr>" for credential parsed
    by (simp add: within_credential_def)
  show "registry_through_client sample_helm"
    unfolding registry_through_client_def sample_helm_def using plain
    by (auto split: prod.split sum.split) (metis fst_conv)+
qed

theorem helm_operations_contained_witness:
  "fst (helm_Execute sample_syntax sample_helm (transport_RoundTrip (\<lambda>_. Inl ErrTimeout)) sample_faults
     (adapter_New 0 (Some sample_policy)) OperationHelmInstall sample_helm_request [] []) = []"
proof -
  have "fresh_workspace sample_faults []" "ad_policy (adapter_New 0 (Some sample_policy)) = Some sample_policy"
    by (simp_all add: fresh_workspace_def sample_faults_def adapter_New_def)
  from helm_operations_contained [OF sample_helm_laws this, where ux = sample_syntax and server = "\<lambda>_. Inl ErrTimeout"
      and kind = OperationHelmInstall and request = sample_helm_request and ctxErr = None
      and connection = "hr_Connection sample_helm_request" and namespace = "[]" and before = "[]"]
  show ?thesis by (auto split: prod.split_asm)
qed

end
