(* ===== verification/Spec2Isabelle.thy ===== *)
theory Spec2Isabelle
  imports Api Lifecycle Kube_Reports Configuration Helm
begin

text \<open>
  \<^bold>\<open>k8s-panel: a verification library.\<close>

  \<^bold>\<open>The program.\<close> The panel is one Go process that manages Kubernetes clusters for signed-in
  operators. Its HTTP interface (\<^verbatim>\<open>internal/httpapi\<close>) authenticates requests with
  sessions (\<^verbatim>\<open>internal/auth\<close>), limits failed logins, and calls the platform service
  (\<^verbatim>\<open>internal/platform\<close>). The service keeps clusters, chart repositories, operations and the
  audit log in a file store (\<^verbatim>\<open>internal/store\<close>), seals credentials
  (\<^verbatim>\<open>internal/secure\<close>), checks inputs (\<^verbatim>\<open>internal/domain\<close>), admits work through
  governors (\<^verbatim>\<open>internal/resourceguard\<close>), keeps a cache of Kubernetes clients and runs queued
  operations with a pool of workers. The clients (\<^verbatim>\<open>internal/kubernetes\<close>) talk to API servers
  over connections that the outbound policy (\<^verbatim>\<open>internal/outbound\<close>) admits.

  \<^bold>\<open>Theories and the code they model.\<close>
    \<^item> \<open>Prelude\<close>: Go's strings, UTF-8, integers, time and sorting, shared by all theories;
      \<open>Domain\<close>: \<^verbatim>\<open>domain/models.go\<close>, \<^verbatim>\<open>domain/errors.go\<close>; \<open>Regexp\<close> and
      \<open>Validation\<close>: \<^verbatim>\<open>domain/validation.go\<close> over a matcher proved equal to its language.
    \<^item> \<open>Store\<close>: \<^verbatim>\<open>store/file.go\<close>. The state in memory and the file are two components of a
      record; the steps of replacing the file may each fail. The locale \<open>registry\<close> is the contract
      of a table with unique identifiers and names, interpreted for clusters and repositories.
    \<^item> \<open>Governor\<close>: \<^verbatim>\<open>resourceguard/governor.go\<close>; \<open>Gateway_Cache\<close>:
      \<^verbatim>\<open>platform/gateway_cache.go\<close>, with the interleaving of goroutines as a step relation.
    \<^item> \<open>Platform\<close>, \<open>Clusters\<close>, \<open>Repositories\<close>, \<open>Operations\<close>, \<open>Reads\<close>: the handlers of
      \<^verbatim>\<open>platform/service.go\<close>, \<^verbatim>\<open>repositories.go\<close>, \<^verbatim>\<open>operations.go\<close>, \<^verbatim>\<open>contracts.go\<close> and
      \<^verbatim>\<open>views.go\<close>, as state-passing functions on the record \<open>Service\<close>. \<open>Frames\<close> has the
      locales \<open>frame\<close>, \<open>service_frame\<close> and \<open>service_invariant\<close>: what every handler keeps, proved
      once per handler and interpreted for held resources, for the stored data and for the client
      cache. \<open>Service\<close> and \<open>Lifecycle\<close>: requests as steps, and workers, submissions and
      cancellations interleaved at the granularity of store calls and locks.
    \<^item> \<open>Secure\<close>: \<^verbatim>\<open>secure/cipher.go\<close>, \<^verbatim>\<open>random.go\<close>, \<^verbatim>\<open>password.go\<close>; \<open>Auth\<close>:
      \<^verbatim>\<open>auth/session.go\<close> and \<^verbatim>\<open>httpapi/rate_limit.go\<close>; \<open>Outbound\<close>:
      \<^verbatim>\<open>outbound/policy.go\<close>, whose operations extend a log of the names asked for, the addresses dialled
      and the requests sent.
    \<^item> \<open>Json\<close>, \<open>Handlers\<close>, \<open>Server\<close>, \<open>Api\<close>: \<^verbatim>\<open>httpapi/handlers.go\<close>, \<^verbatim>\<open>responses.go\<close> and
      \<^verbatim>\<open>server.go\<close>: routes, middleware, every handler and response.
    \<^item> \<open>Json_Text\<close>: the text of \<^verbatim>\<open>encoding/json\<close>, parser and printer; \<open>Kube_Decode\<close>: decoding
      into structs and time stamps; \<open>Kube_Transport\<close>: requests, size limits, error mapping and
      paginated lists of \<^verbatim>\<open>kubernetes/client.go\<close>. A client action maps the requests sent so far to
      the requests sent afterwards and a result; the API server is the function \<open>kc_do\<close> of a client,
      which may answer anything. \<open>Kube_Objects\<close>, \<open>Kube_Workloads\<close>, \<open>Kube_Sanitize\<close>,
      \<open>Kube_Mutations\<close>, \<open>Kube_Events\<close>, \<open>Kube_Tables\<close> and \<open>Kube_Reviews\<close>: the operations of
      \<^verbatim>\<open>client.go\<close>, \<^verbatim>\<open>batch.go\<close>, \<^verbatim>\<open>events.go\<close>, \<^verbatim>\<open>configuration.go\<close> and
      \<^verbatim>\<open>access_review.go\<close>. \<open>Kube_Client\<close>: what they send and return.
    \<^item> \<open>Kube_Inventory\<close>: the loop over pages that the further lists of \<^verbatim>\<open>internal/kubernetes\<close> share,
      with its limits, as a record of what differs. Over it, by file: \<open>Kube_Classes\<close>
      (\<^verbatim>\<open>priority_class.go\<close>, \<^verbatim>\<open>runtime_class.go\<close>, \<^verbatim>\<open>csi_driver.go\<close>), \<open>Kube_Storage\<close>
      (\<^verbatim>\<open>storage.go\<close>, \<^verbatim>\<open>volume_attachment.go\<close>, \<^verbatim>\<open>volume_attributes_class.go\<close>, \<^verbatim>\<open>csi_node.go\<close>,
      \<^verbatim>\<open>csi_storage_capacity.go\<close>), \<open>Kube_Governance\<close>, \<open>Kube_Availability\<close>, \<open>Kube_Network\<close>
      (\<^verbatim>\<open>network.go\<close>, \<^verbatim>\<open>endpoint_slice.go\<close>, \<^verbatim>\<open>network_policy.go\<close>), \<open>Kube_Access\<close> (\<^verbatim>\<open>access.go\<close>,
      \<^verbatim>\<open>custom_resource_definition.go\<close>), \<open>Kube_Admission\<close> and \<open>Kube_Policies\<close>
      (\<^verbatim>\<open>admission_webhook.go\<close>, \<^verbatim>\<open>admission_policy.go\<close>), \<open>Kube_Registry\<close> (\<^verbatim>\<open>api_service.go\<close>,
      \<^verbatim>\<open>pod_security_admission.go\<close>), \<open>Kube_Upgrade\<close> (\<^verbatim>\<open>version_skew.go\<close>, \<^verbatim>\<open>deprecated_api.go\<close>,
      \<^verbatim>\<open>api_server_readiness.go\<close>), \<open>Kube_Certificates\<close> (\<^verbatim>\<open>certificate_signing_request.go\<close>,
      \<^verbatim>\<open>endpoint_certificate.go\<close>) and \<open>Kube_History\<close> (\<^verbatim>\<open>helm_release_history.go\<close>,
      \<^verbatim>\<open>deployment_revision_history.go\<close>). \<open>Kube_Inventories\<close> and \<open>Kube_Reports\<close>: what these reads send
      and return, through the locales \<open>named_source\<close>, \<open>budgeted\<close> and \<open>inventory_source\<close>.
    \<^item> \<open>Charts\<close>: \<^verbatim>\<open>chartrepo/checker.go\<close> and \<^verbatim>\<open>helmadapter/secure_getter.go\<close>, over the redirects of
      \<^verbatim>\<open>http.Client\<close> and the log of network events of \<open>Outbound\<close>; the locale \<open>round_tripper\<close> is interpreted for the plain transport and for the one
      behind the outbound policy. \<open>Helm\<close>: \<^verbatim>\<open>helmadapter/adapter.go\<close> and \<^verbatim>\<open>oci.go\<close>.
    \<^item> \<open>Floats\<close>: the rounding of \<^verbatim>\<open>float64\<close>; \<open>Sampler\<close>: \<^verbatim>\<open>resourceguard/sampler.go\<close>;
      \<open>Configuration\<close>: \<^verbatim>\<open>config/config.go\<close>, \<^verbatim>\<open>cmd/panelctl\<close>, and the start of the panel in
      \<^verbatim>\<open>cmd/panel\<close>, which composes the constructors of the other parts.

  \<^bold>\<open>What is shown.\<close> The store keeps its data well formed, a failed call changes nothing in memory,
  and reopening restores what was written, with U+FFFD for every byte that is not UTF-8. Slots and cache entries are bounded and accounted for
  under every interleaving. No operation is started twice and no two workers hold one target. No
  request without a live session, and no changing request from another origin, reaches the service;
  error responses disclose nothing internal. Sessions refine the history of logins. Sealed strings
  and password hashes round-trip. Dialled addresses were allowed by the policy, in the answer to the one
  question that was asked for the host, and the policy equals a specification by address ranges. The
  reads of \<^verbatim>\<open>client.go\<close> send only GETs with the client's own token, the access reviews only POSTs to the
  review endpoints, and lists end within fixed bounds whatever the server answers; the data of Secrets is
  never asked for; manifests are shown without their sensitive values; an image is patched only in the
  state that the change was made for, and its success is reported only when the answer shows it. The
  inventories of further objects send only GETs and end within fixed bounds; twelve lists are shown to
  name each object once, in order, and the details of eight kinds to be those of the object asked for.
  Chart downloads and pulls stay within the outbound policy and keep the credentials of a repository with
  its host; Helm operations leave no file behind. Every configuration that loads is accepted by all parts, and
  what \<^verbatim>\<open>panelctl\<close> prints is such a configuration.

  \<^bold>\<open>Bounds and termination.\<close> Every definition is total. Loops over pages have the limits of the
  code as their measure, so no fuel is added: \<open>list_loop\<close> counts the pages of its budget,
  \<open>event_loop\<close>, \<open>table_loop\<close>, \<open>inventory_loop\<close> and \<open>revision_loop\<close> the pages that are left;
  \<open>client_do\<close> counts the redirects that are left, \<open>duration_loop\<close> the text that is left. The JSON parser recurses on the length of
  the text plus one, which \<open>parse_Marshal\<close> shows to be enough for every printed value, and limits the
  nesting as \<^verbatim>\<open>encoding/json\<close> does. Waiting for a slot is a finite list of wake-ups.

  \<^bold>\<open>Parameters.\<close> What the code takes from elsewhere is an argument: AES-GCM, Argon2id and the random
  source in \<open>Secure\<close>; address texts, resolver and sockets in \<open>Outbound\<close>, where resolver and dialer
  answer knowing the log of network events, so that no two answers need agree; the URL parser in
  \<open>Validation\<close>; the file system's failures in \<open>Store\<close>; the gateways in \<open>Platform\<close>; the YAML printer
  in \<open>Kube_Mutations\<close>; the syntax of Kubernetes names and quantities, of printable runes and request
  URIs, and the TLS handshake in the theories of the lists; the Helm library, the registry client, the
  YAML decoder and the syntax of URLs in \<open>Charts\<close> and \<open>Helm\<close>; the files of the host, the metrics of
  the runtime and \<^verbatim>\<open>strconv.ParseFloat\<close> in \<open>Sampler\<close>. The laws that a theorem needs of a parameter are
  its hypotheses. Redirects that the client of an API server follows are part of \<open>kc_do\<close>, so a request of
  \<open>Kube_Transport\<close> is a call of \<^verbatim>\<open>http.Client.Do\<close>; a URL that \<^verbatim>\<open>http.NewRequestWithContext\<close> refuses is
  \<open>kc_NewRequest\<close>. The text of the store's file is represented by what it decodes to, after the encoder's
  replacement of invalid UTF-8. Letter case and folding follow the tables of Unicode 15. Go's
  \<^verbatim>\<open>sort.Slice\<close> is a stable sort, and a map has its keys in the order of the text.

  \<^bold>\<open>Not modelled.\<close> The process around the parts in \<^verbatim>\<open>cmd/panel\<close>: the listening socket with its
  time limits, log output, signals and exit, which hold no decision of their own beyond the order of
  the calls; time limits and cancellation inside the calls of libraries, which appear as their errors;
  failures of removing a temporary directory, which the code ignores; the web front end.
\<close>

end
